(* ===== verification/Agent_Prelude.thy ===== *)
theory Agent_Prelude
  imports Main "HOL-Library.Word" "HOL-Library.List_Lexorder" "HOL-Library.Char_ord"
    "HOL-Library.Product_Lexorder" "HOL-Library.AList"
begin

text \<open>
  What the Go packages under \<^verbatim>\<open>src/internal\<close> share: results with errors as values, Go strings
  as byte strings (\<^typ>\<open>string\<close>, one \<^typ>\<open>char\<close> per byte) with the functions of
  \<^verbatim>\<open>strings\<close>, \<^verbatim>\<open>unicode/utf8\<close>, \<^verbatim>\<open>encoding/hex\<close>, \<^verbatim>\<open>strconv\<close> and \<^verbatim>\<open>path\<close> that the
  sources call, Go's \<^verbatim>\<open>time.Time\<close> as an instant with a location, and JSON values.

  Code outside the repository is the record \<open>ext\<close>: the uuid package, the time zone database, the
  Unicode case tables, the JSON text codec and SHA-256. Every definition that reaches such code
  takes an \<open>ext\<close> as its first argument, so each theorem holds for every such library unless
  it names a law of it as a hypothesis.
\<close>

unbundle bit_operations_syntax

named_theorems gostr \<open>characterisations of the Go string functions\<close>
named_theorems gotime_simps \<open>unfolding of the Go time functions\<close>

type_synonym u64 = "64 word"
type_synonym u32 = "32 word"

section \<open>Errors as values\<close>

text \<open>A Go function that returns a value and an error is an \<^typ>\<open>'e + 'a\<close>; one that returns only
  an error is an \<^typ>\<open>'e option\<close>, with \<^term>\<open>None\<close> for nil.\<close>

definition rbind :: "'e + 'a \<Rightarrow> ('a \<Rightarrow> 'e + 'b) \<Rightarrow> 'e + 'b" where
  "rbind m f = (case m of Inl e \<Rightarrow> Inl e | Inr a \<Rightarrow> f a)"

definition err_of :: "'e + 'a \<Rightarrow> 'e option" where
  "err_of m = (case m of Inl e \<Rightarrow> Some e | Inr _ \<Rightarrow> None)"

lemma rbind_simps [simp]: "rbind (Inl e) f = Inl e" "rbind (Inr a) f = f a"
  by (simp_all add: rbind_def)

lemma rbind_Inr [simp]: "rbind m f = Inr b \<longleftrightarrow> (\<exists>a. m = Inr a \<and> f a = Inr b)"
  by (simp add: rbind_def split: sum.splits)

lemma err_of_None [simp]: "err_of m = None \<longleftrightarrow> (\<exists>a. m = Inr a)"
  by (simp add: err_of_def split: sum.splits)

lemma err_of_Some [simp]: "err_of m = Some e \<longleftrightarrow> m = Inl e"
  by (auto simp: err_of_def split: sum.splits)

fun rmap :: "('a \<Rightarrow> 'e + 'b) \<Rightarrow> 'a list \<Rightarrow> 'e + 'b list" where
  "rmap f [] = Inr []"
| "rmap f (x # xs) = (case f x of Inl e \<Rightarrow> Inl e
     | Inr y \<Rightarrow> (case rmap f xs of Inl e \<Rightarrow> Inl e | Inr ys \<Rightarrow> Inr (y # ys)))"

lemma rmap_Inr: "rmap f xs = Inr ys \<longleftrightarrow> list_all2 (\<lambda>x y. f x = Inr y) xs ys"
proof (induction xs arbitrary: ys)
  case (Cons x xs)
  show ?case
    by (cases "f x"; cases "rmap f xs") (auto simp: list_all2_Cons1 simp flip: Cons.IH)
qed auto

lemma rmap_fixed: "(\<And>y. y \<in> set ys \<Longrightarrow> f y = Inr y) \<Longrightarrow> rmap f ys = Inr ys"
  by (induction ys) auto

lemma rmap_closed: "(\<And>x y. f x = Inr y \<Longrightarrow> f y = Inr y) \<Longrightarrow> rmap f xs = Inr ys \<Longrightarrow>
    length ys = length xs \<and> (\<forall>y\<in>set ys. f y = Inr y)"
  unfolding rmap_Inr by (auto simp: list_all2_conv_all_nth in_set_conv_nth) metis

text \<open>A Go slice whose difference between nil and empty the code can observe is an optional list.\<close>

type_synonym 'a slice = "'a list option"

definition elems :: "'a slice \<Rightarrow> 'a list" where
  "elems xs = (case xs of None \<Rightarrow> [] | Some ys \<Rightarrow> ys)"

lemma elems_simps [simp]: "elems None = []" "elems (Some ys) = ys"
  by (simp_all add: elems_def)

section \<open>Go integers\<close>

text \<open>\<open>uint64\<close> and \<open>uint32\<close> are words. \<open>int64\<close> is an \<^typ>\<open>int\<close> whose
  arithmetic wraps as two's complement does.\<close>

definition wrap64 :: "int \<Rightarrow> int" where
  "wrap64 i = (i + 2 ^ 63) mod 2 ^ 64 - 2 ^ 63"

definition max_int64 :: int where "max_int64 = 2 ^ 63 - 1"

lemma wrap64_id: "- (2 ^ 63) \<le> i \<Longrightarrow> i \<le> max_int64 \<Longrightarrow> wrap64 i = i"
  by (simp add: wrap64_def max_int64_def)

lemma wrap64_range: "- (2 ^ 63) \<le> wrap64 i \<and> wrap64 i \<le> max_int64"
proof -
  have "0 \<le> (i + 2 ^ 63) mod 2 ^ 64" "(i + 2 ^ 63) mod 2 ^ 64 < 2 ^ 64"
    by (rule pos_mod_sign, simp, rule pos_mod_bound, simp)
  then show ?thesis by (simp add: wrap64_def max_int64_def)
qed

lemma word_Suc_neq [simp]: "(w :: 'a::len word) + 1 \<noteq> w"
  by simp

lemma unat_inc: "(w :: 'a::len word) \<noteq> - 1 \<Longrightarrow> unat (w + 1) = Suc (unat w)"
  by (metis add.commute add_eq_0_iff unatSuc)

section \<open>Go maps\<close>

text \<open>A Go map, like a table with a primary key, is an association list with distinct keys.\<close>

definition lookup :: "('k \<times> 'v) list \<Rightarrow> 'k \<Rightarrow> 'v option" where
  "lookup m k = map_of m k"

definition put :: "'k \<Rightarrow> 'v \<Rightarrow> ('k \<times> 'v) list \<Rightarrow> ('k \<times> 'v) list" where
  "put k v m = AList.update k v m"

definition del :: "'k \<Rightarrow> ('k \<times> 'v) list \<Rightarrow> ('k \<times> 'v) list" where
  "del k m = AList.delete k m"

definition any_entry :: "('k \<Rightarrow> 'v \<Rightarrow> bool) \<Rightarrow> ('k \<times> 'v) list \<Rightarrow> bool" where
  "any_entry P m = list_ex (\<lambda>(k, v). P k v) m"

definition gomap :: "('k \<times> 'v) list \<Rightarrow> bool" where
  "gomap m = distinct (map fst m)"

lemma lookup_put [simp]: "lookup (put k v m) k' = (if k' = k then Some v else lookup m k')"
  by (simp add: lookup_def put_def update_conv)

lemma lookup_del [simp]: "lookup (del k m) k' = (if k' = k then None else lookup m k')"
  by (simp add: lookup_def del_def delete_conv)

lemma lookup_empty [simp]: "lookup [] k = None"
  by (simp add: lookup_def)

lemma gomap_put [simp]: "gomap m \<Longrightarrow> gomap (put k v m)"
  unfolding gomap_def put_def by (rule distinct_update)

lemma gomap_del [simp]: "gomap m \<Longrightarrow> gomap (del k m)"
  unfolding gomap_def del_def by (rule distinct_delete)

lemma gomap_empty [simp]: "gomap []"
  by (simp add: gomap_def)

lemma any_entry_iff: "gomap m \<Longrightarrow> any_entry P m \<longleftrightarrow> (\<exists>k v. lookup m k = Some v \<and> P k v)"
  unfolding any_entry_def list_ex_iff lookup_def gomap_def
  by (auto dest: map_of_SomeD intro: map_of_is_SomeI)

section \<open>Go strings\<close>

text \<open>The encodings of the code points with \<open>unicode.IsSpace\<close>. No byte of an encoding but its
  first can start a rune, so a byte-wise match at the front or at the end of a string is exactly a
  match of the first or the last decoded rune, also in strings that are not valid UTF-8.\<close>

definition space_codes :: "nat list list" where
  "space_codes = [[9], [10], [11], [12], [13], [32], [194, 133], [194, 160], [225, 154, 128],
     [226, 128, 128], [226, 128, 129], [226, 128, 130], [226, 128, 131], [226, 128, 132],
     [226, 128, 133], [226, 128, 134], [226, 128, 135], [226, 128, 136], [226, 128, 137],
     [226, 128, 138], [226, 128, 168], [226, 128, 169], [226, 128, 175], [226, 129, 159],
     [227, 128, 128]]"

definition spaces :: "string list" where
  "spaces = map (map char_of) space_codes"

definition starts_with :: "'a list \<Rightarrow> 'a list \<Rightarrow> bool" where
  "starts_with s p \<longleftrightarrow> take (length p) s = p"

lemma find_rune: "find (\<lambda>p. p \<noteq> [] \<and> starts_with s p) ps = Some p \<Longrightarrow>
   length s - length p < length s"
proof -
  assume "find (\<lambda>p. p \<noteq> [] \<and> starts_with s p) ps = Some p"
  then have "p \<noteq> []" "take (length p) s = p" by (auto simp: find_Some_iff starts_with_def)
  then show ?thesis by (cases s) (auto simp: Suc_le_eq)
qed

function strip_front :: "string list \<Rightarrow> string \<Rightarrow> string" where
  "strip_front ps s = (case find (\<lambda>p. p \<noteq> [] \<and> starts_with s p) ps of
      None \<Rightarrow> s | Some p \<Rightarrow> strip_front ps (drop (length p) s))"
  by pat_completeness auto
termination
  by (relation "measure (\<lambda>(ps, s). length s)")
     (auto dest!: find_rune)

declare strip_front.simps [simp del]

text \<open>\<open>strings.TrimSpace\<close>\<close>
definition TrimSpace :: "string \<Rightarrow> string" where
  "TrimSpace s = rev (strip_front (map rev spaces) (rev (strip_front spaces s)))"

lemma strip_front_stop:
  "p \<in> set ps \<Longrightarrow> p \<noteq> [] \<Longrightarrow> \<not> starts_with (strip_front ps s) p"
proof (induction ps s rule: strip_front.induct)
  case (1 ps s)
  show ?case
  proof (cases "find (\<lambda>p. p \<noteq> [] \<and> starts_with s p) ps")
    case None
    then have "\<forall>q\<in>set ps. q \<noteq> [] \<longrightarrow> \<not> starts_with s q" by (auto simp: find_None_iff)
    with None "1.prems" show ?thesis by (subst strip_front.simps) simp
  next
    case (Some q)
    with "1" show ?thesis by (subst strip_front.simps) simp
  qed
qed

lemma strip_front_suffix: "\<exists>q. s = q @ strip_front ps s"
proof (induction ps s rule: strip_front.induct)
  case (1 ps s)
  show ?case
  proof (cases "find (\<lambda>p. p \<noteq> [] \<and> starts_with s p) ps")
    case None
    then show ?thesis by (subst strip_front.simps) simp
  next
    case (Some p)
    with "1" obtain q where "drop (length p) s = q @ strip_front ps (drop (length p) s)" by blast
    then have "s = (take (length p) s @ q) @ strip_front ps (drop (length p) s)"
      by (metis append.assoc append_take_drop_id)
    with Some show ?thesis by (subst strip_front.simps [of ps s]) (simp, metis append.assoc)
  qed
qed

lemma strip_front_id: "(\<And>p. p \<in> set ps \<Longrightarrow> p \<noteq> [] \<Longrightarrow> \<not> starts_with s p) \<Longrightarrow> strip_front ps s = s"
  by (subst strip_front.simps) (auto simp: find_Some_iff split: option.split)

lemma starts_with_append: "starts_with s p \<Longrightarrow> starts_with (s @ t) p"
  unfolding starts_with_def
  by (metis append_Nil2 length_take min.absorb_iff2 take_append diff_is_0_eq' take0)

lemma TrimSpace_TrimSpace [simp]: "TrimSpace (TrimSpace s) = TrimSpace s"
proof -
  define t where "t = strip_front spaces s"
  define u where "u = rev (strip_front (map rev spaces) (rev t))"
  obtain q where "rev t = q @ rev u"
    unfolding u_def using strip_front_suffix [of "rev t" "map rev spaces"] by auto
  then have t: "t = u @ rev q" by (metis rev_append rev_rev_ident)
  have "\<not> starts_with u p" if "p \<in> set spaces" "p \<noteq> []" for p
    using strip_front_stop [OF that, of s] starts_with_append [of u p "rev q"]
    by (auto simp: t_def [symmetric] t)
  then have "strip_front spaces u = u" by (rule strip_front_id)
  moreover have "strip_front (map rev spaces) (rev u) = rev u"
    by (rule strip_front_id) (simp add: u_def strip_front_stop)
  ultimately show ?thesis by (simp add: TrimSpace_def t_def u_def)
qed

lemma TrimSpace_length: "length (TrimSpace s) \<le> length s"
proof -
  have "length (strip_front ps t) \<le> length t" for ps t
    using strip_front_suffix [of t ps] by (metis length_append le_add2)
  from this [of "map rev spaces" "rev (strip_front spaces s)"] this [of spaces s]
  show ?thesis by (simp add: TrimSpace_def)
qed

lemma TrimSpace_Nil [simp]: "TrimSpace [] = []"
  using TrimSpace_length [of "[]"] by simp

text \<open>\<open>utf8.ValidString\<close>: no overlong forms, no surrogates, nothing above U+10FFFF.\<close>

definition cont :: "nat \<Rightarrow> bool" where
  "cont b \<longleftrightarrow> 128 \<le> b \<and> b \<le> 191"

fun utf8_bytes :: "nat list \<Rightarrow> bool" where
  "utf8_bytes [] = True"
| "utf8_bytes (a # r) =
     (if a < 128 then utf8_bytes r
      else if a < 194 then False
      else if a \<le> 223 then (case r of b # r1 \<Rightarrow> cont b \<and> utf8_bytes r1 | _ \<Rightarrow> False)
      else if a \<le> 239 then
        (case r of b # c # r2 \<Rightarrow> (if a = 224 then 160 else 128) \<le> b \<and> b \<le> (if a = 237 then 159 else 191)
             \<and> cont c \<and> utf8_bytes r2 | _ \<Rightarrow> False)
      else if a \<le> 244 then
        (case r of b # c # d # r3 \<Rightarrow> (if a = 240 then 144 else 128) \<le> b \<and> b \<le> (if a = 244 then 143 else 191)
             \<and> cont c \<and> cont d \<and> utf8_bytes r3 | _ \<Rightarrow> False)
      else False)"

definition ValidString :: "string \<Rightarrow> bool" where
  "ValidString s = utf8_bytes (map of_char s)"

lemma ValidString_Nil [simp]: "ValidString []"
  by (simp add: ValidString_def)

lemma utf8_ascii: "\<forall>b\<in>set bs. b < 128 \<Longrightarrow> utf8_bytes bs"
  by (induction bs) auto

definition is_ascii :: "string \<Rightarrow> bool" where
  "is_ascii s = list_all (\<lambda>c. (of_char c :: nat) < 128) s"

lemma ValidString_ascii: "is_ascii s \<Longrightarrow> ValidString s"
  by (auto simp: ValidString_def is_ascii_def list_all_iff intro!: utf8_ascii)

definition lower_char :: "char \<Rightarrow> char" where
  "lower_char c = (let n = of_char c :: nat in if 65 \<le> n \<and> n \<le> 90 then char_of (n + 32) else c)"

definition upper_char :: "char \<Rightarrow> char" where
  "upper_char c = (let n = of_char c :: nat in if 97 \<le> n \<and> n \<le> 122 then char_of (n - 32) else c)"

text \<open>\<open>hex.DecodeString\<close> succeeds on an even number of hexadecimal digits of either case.\<close>

definition hex_digit :: "char \<Rightarrow> bool" where
  "hex_digit c = (let n = of_char c :: nat in (48 \<le> n \<and> n \<le> 57) \<or> (97 \<le> n \<and> n \<le> 102) \<or> (65 \<le> n \<and> n \<le> 70))"

definition hex_lower :: "char \<Rightarrow> bool" where
  "hex_lower c = (let n = of_char c :: nat in (48 \<le> n \<and> n \<le> 57) \<or> (97 \<le> n \<and> n \<le> 102))"

definition hex_DecodeString_ok :: "string \<Rightarrow> bool" where
  "hex_DecodeString_ok s \<longleftrightarrow> even (length s) \<and> list_all hex_digit s"

definition hex_char :: "nat \<Rightarrow> char" where
  "hex_char n = (if n < 10 then char_of (48 + n) else char_of (87 + n))"

definition hex_byte :: "8 word \<Rightarrow> string" where
  "hex_byte b = [hex_char (unat b div 16), hex_char (unat b mod 16)]"

definition hex_EncodeToString :: "8 word list \<Rightarrow> string" where
  "hex_EncodeToString bs = concat (map hex_byte bs)"

text \<open>\<open>strings.Split\<close> at one byte, \<open>strings.SplitN(s, sep, 2)\<close>, \<open>strings.Contains\<close>,
  \<open>strings.HasPrefix\<close>, \<open>strings.ContainsAny\<close>, \<open>strings.Fields\<close>, \<open>strings.Join\<close>.\<close>

fun Split :: "char \<Rightarrow> string \<Rightarrow> string list" where
  "Split d [] = [[]]"
| "Split d (c # s) = (if c = d then [] # Split d s
     else (case Split d s of [] \<Rightarrow> [[c]] | w # ws \<Rightarrow> (c # w) # ws))"

definition SplitN2 :: "char \<Rightarrow> string \<Rightarrow> string \<times> string" where
  "SplitN2 d s = (takeWhile (\<lambda>c. c \<noteq> d) s, drop 1 (dropWhile (\<lambda>c. c \<noteq> d) s))"

fun Contains :: "string \<Rightarrow> string \<Rightarrow> bool" where
  "Contains [] sub = (sub = [])"
| "Contains (c # s) sub = (starts_with (c # s) sub \<or> Contains s sub)"

definition HasPrefix :: "string \<Rightarrow> string \<Rightarrow> bool" where
  "HasPrefix s p = starts_with s p"

definition ContainsAny :: "string \<Rightarrow> char list \<Rightarrow> bool" where
  "ContainsAny s cs = list_ex (\<lambda>c. c \<in> set cs) s"

definition line_breaks :: "char list" where
  "line_breaks = [char_of (13::nat), char_of (10::nat)]"

function Fields_acc :: "string \<Rightarrow> string \<Rightarrow> string list" where
  "Fields_acc acc s = (case s of [] \<Rightarrow> (if acc = [] then [] else [rev acc])
     | c # r \<Rightarrow> (case find (\<lambda>p. p \<noteq> [] \<and> starts_with s p) spaces of
         Some p \<Rightarrow> (if acc = [] then [] else [rev acc]) @ Fields_acc [] (drop (length p) s)
       | None \<Rightarrow> Fields_acc (c # acc) r))"
  by pat_completeness auto
termination
  by (relation "measure (\<lambda>(acc, s). length s)")
     (auto dest!: find_rune)

declare Fields_acc.simps [simp del]

definition Fields :: "string \<Rightarrow> string list" where
  "Fields s = Fields_acc [] s"

fun Join :: "string list \<Rightarrow> string \<Rightarrow> string" where
  "Join [] sep = []"
| "Join [w] sep = w"
| "Join (w # ws) sep = w @ sep @ Join ws sep"

text \<open>\<open>strconv.Atoi\<close> on a 64-bit platform: an optional sign, decimal digits, the range of \<open>int64\<close>.\<close>

definition is_digit :: "char \<Rightarrow> bool" where
  "is_digit c = (let n = of_char c :: nat in 48 \<le> n \<and> n \<le> 57)"

definition digits_val :: "string \<Rightarrow> int" where
  "digits_val s = foldl (\<lambda>v c. v * 10 + (int (of_char c) - 48)) 0 s"

definition Atoi :: "string \<Rightarrow> int option" where
  "Atoi s = (let neg = (s \<noteq> [] \<and> hd s = CHR ''-'');
                 d = (if s \<noteq> [] \<and> (hd s = CHR ''-'' \<or> hd s = CHR ''+'') then tl s else s);
                 v = (if neg then - digits_val d else digits_val d)
             in if d \<noteq> [] \<and> list_all is_digit d \<and> - (2 ^ 63) \<le> v \<and> v \<le> max_int64 then Some v else None)"

text \<open>\<open>path.IsAbs\<close> and \<open>path.Clean\<close>\<close>

definition path_IsAbs :: "string \<Rightarrow> bool" where
  "path_IsAbs p = starts_with p ''/''"

fun clean_parts :: "bool \<Rightarrow> string list \<Rightarrow> string list \<Rightarrow> string list" where
  "clean_parts rooted out [] = rev out"
| "clean_parts rooted out (w # ws) =
     (if w = '''' \<or> w = ''.'' then clean_parts rooted out ws
      else if w = ''..'' then
        (case out of o1 # os \<Rightarrow> if o1 \<noteq> ''..'' then clean_parts rooted os ws
                              else clean_parts rooted (''..'' # out) ws
         | [] \<Rightarrow> if rooted then clean_parts rooted [] ws else clean_parts rooted [''..''] ws)
      else clean_parts rooted (w # out) ws)"

definition path_Clean :: "string \<Rightarrow> string" where
  "path_Clean p = (let rooted = path_IsAbs p; body = Join (clean_parts rooted [] (Split (CHR ''/'') p)) ''/''
     in if rooted then CHR ''/'' # body else if body = [] then ''.'' else body)"

section \<open>Time\<close>

text \<open>\<open>time.Time\<close> as the nanoseconds since the zero time and its location. \<open>t.Location()\<close>
  compares with \<open>time.UTC\<close> by identity. Monotonic clock readings are not part of the model.\<close>

datatype location = UTC | Loc string

record gotime =
  instant :: int
  zone :: location

definition time_zero :: gotime where "time_zero = \<lparr>instant = 0, zone = UTC\<rparr>"

definition IsZero :: "gotime \<Rightarrow> bool" where [gotime_simps]: "IsZero t \<longleftrightarrow> instant t = 0"
definition InUTC :: "gotime \<Rightarrow> bool" where [gotime_simps]: "InUTC t \<longleftrightarrow> zone t = UTC"
definition to_UTC :: "gotime \<Rightarrow> gotime" where [gotime_simps]: "to_UTC t = t\<lparr>zone := UTC\<rparr>"
definition Before :: "gotime \<Rightarrow> gotime \<Rightarrow> bool" where [gotime_simps]: "Before a b \<longleftrightarrow> instant a < instant b"
definition After :: "gotime \<Rightarrow> gotime \<Rightarrow> bool" where [gotime_simps]: "After a b \<longleftrightarrow> instant b < instant a"
definition time_Equal :: "gotime \<Rightarrow> gotime \<Rightarrow> bool" where [gotime_simps]: "time_Equal a b \<longleftrightarrow> instant a = instant b"
definition time_Add :: "gotime \<Rightarrow> int \<Rightarrow> gotime" where
  [gotime_simps]: "time_Add t d = t\<lparr>instant := instant t + d\<rparr>"

definition Second :: int where "Second = 1000000000"
definition Minute :: int where "Minute = 60 * Second"
definition Hour :: int where "Hour = 60 * Minute"

section \<open>JSON values and the libraries outside the repository\<close>

text \<open>\<open>float64\<close>: a finite number is a mantissa and a binary exponent; \<open>float_less k m e\<close> compares
  the integer \<open>k\<close> with \<open>m * 2 ^ e\<close>.\<close>

datatype gofloat = NaN | Inf bool | Finite int int

definition float_less :: "int \<Rightarrow> int \<Rightarrow> int \<Rightarrow> bool" where
  "float_less k m e \<longleftrightarrow> (if e \<ge> 0 then k < m * 2 ^ nat e else k * 2 ^ nat (- e) < m)"

text \<open>A JSON object is the list of its members; for a Go map it is in the ascending order of the keys, in which
  \<open>json.Marshal\<close> prints it. \<open>JRaw\<close> is the text of a \<open>json.RawMessage\<close>: the encoder prints it compacted, or fails
  when it is not JSON; the decoder never yields one.\<close>

datatype json = JNull | JBool bool | JNum gofloat | JStr string | JArr "json list"
  | JObj "(string \<times> json) list" | JRaw string

abbreviation JInt :: "int \<Rightarrow> json" where "JInt i \<equiv> JNum (Finite i 0)"

text \<open>The fields: \<open>uuid.Parse\<close> and \<open>UUID.String\<close> of \<^verbatim>\<open>github.com/google/uuid\<close>;
  \<open>strings.ToLower\<close> and \<open>strings.ToUpper\<close> on strings with a byte above 127, which go through the Unicode tables;
  \<open>time.LoadLocation\<close> over the time zone database, and the clock reading (minute, hour, day of
  the month, month, weekday) of an instant in a location; \<open>json.Valid\<close>, \<open>json.Unmarshal\<close>
  into an \<open>any\<close> (which fails on more texts than \<open>json.Valid\<close>), \<open>json.Marshal\<close> (the empty text where it fails and the sources drop the error), the JSON text of a time, and \<open>sha256.Sum256\<close>.\<close>

record ext =
  uuid_Parse :: "string \<Rightarrow> 8 word list option"
  uuid_String :: "8 word list \<Rightarrow> string"
  unicode_lower :: "string \<Rightarrow> string"
  unicode_upper :: "string \<Rightarrow> string"
  LoadLocation :: "string \<Rightarrow> location option"
  civil :: "location \<Rightarrow> int \<Rightarrow> int \<times> int \<times> int \<times> int \<times> int"
  json_Valid :: "string \<Rightarrow> bool"
  json_Unmarshal :: "string \<Rightarrow> json option"
  json_Marshal :: "json \<Rightarrow> string"
  time_text :: "gotime \<Rightarrow> string"
  Sum256 :: "string \<Rightarrow> 8 word list"

definition ToLower :: "ext \<Rightarrow> string \<Rightarrow> string" where
  "ToLower X s = (if is_ascii s then map lower_char s else unicode_lower X s)"

definition ToUpper :: "ext \<Rightarrow> string \<Rightarrow> string" where
  "ToUpper X s = (if is_ascii s then map upper_char s else unicode_upper X s)"

definition sha256_hex :: "ext \<Rightarrow> string \<Rightarrow> string" where
  "sha256_hex X s = hex_EncodeToString (Sum256 X s)"

definition canonicalDigest :: "ext \<Rightarrow> json \<Rightarrow> string" where
  "canonicalDigest X v = sha256_hex X (json_Marshal X v)"

definition uuid_Nil :: "8 word list" where
  "uuid_Nil = replicate 16 0"

section \<open>Digests\<close>

text \<open>The test every package makes of a digest (64 bytes, equal to its lower case, decodable as
  hexadecimal) is independent of the Unicode tables.\<close>

definition lower_hex64 :: "string \<Rightarrow> bool" where
  "lower_hex64 v \<longleftrightarrow> length v = 64 \<and> list_all hex_lower v"

lemma lower_char_cases: "lower_char c = c \<longleftrightarrow> \<not> (65 \<le> (of_char c :: nat) \<and> of_char c \<le> (90::nat))"
proof (cases "65 \<le> (of_char c :: nat) \<and> of_char c \<le> (90::nat)")
  case True
  then have "of_char (char_of (of_char c + 32 :: nat) :: char) \<noteq> (of_char c :: nat)"
    by simp
  then have "char_of (of_char c + 32 :: nat) \<noteq> c" by metis
  with True show ?thesis by (auto simp: lower_char_def Let_def)
qed (auto simp: lower_char_def Let_def)

lemma hex_lower_iff: "hex_lower c \<longleftrightarrow> hex_digit c \<and> lower_char c = c"
  by (auto simp: hex_lower_def hex_digit_def lower_char_cases Let_def)

lemma hex_digits_ascii: "list_all hex_digit v \<Longrightarrow> is_ascii v"
  by (auto simp: list_all_iff is_ascii_def hex_digit_def Let_def)

lemma digest_test [gostr]:
  "(length v = 64 \<and> ToLower X v = v \<and> hex_DecodeString_ok v) = lower_hex64 v"
proof
  assume h: "length v = 64 \<and> ToLower X v = v \<and> hex_DecodeString_ok v"
  then have d: "list_all hex_digit v" by (simp add: hex_DecodeString_ok_def)
  with h have "map lower_char v = v" by (simp add: ToLower_def hex_digits_ascii)
  then have "\<forall>c\<in>set v. lower_char c = c" by (metis map_idI map_eq_conv list.map_ident)
  with d h show "lower_hex64 v" by (simp add: lower_hex64_def list_all_iff hex_lower_iff)
next
  assume h: "lower_hex64 v"
  then have d: "list_all hex_digit v" and l: "\<forall>c\<in>set v. lower_char c = c"
    by (auto simp: lower_hex64_def list_all_iff hex_lower_iff)
  from l have "map lower_char v = v" by (simp add: map_idI)
  with d h show "length v = 64 \<and> ToLower X v = v \<and> hex_DecodeString_ok v"
    by (simp add: ToLower_def hex_digits_ascii hex_DecodeString_ok_def lower_hex64_def)
qed

lemma hex_char_lower: "n < 16 \<Longrightarrow> hex_lower (hex_char n)"
  by (auto simp: hex_lower_def hex_char_def Let_def)

lemma hex_encode_lower: "list_all hex_lower (hex_EncodeToString bs)"
proof -
  have "unat (b :: 8 word) div 16 < 16" for b
    using unsigned_less [of b, where ?'a = nat] by simp
  then show ?thesis
    by (auto simp: hex_EncodeToString_def hex_byte_def list_all_iff intro!: hex_char_lower)
qed

lemma hex_encode_length [simp]: "length (hex_EncodeToString bs) = 2 * length bs"
  by (induction bs) (auto simp: hex_EncodeToString_def hex_byte_def)

lemma sha256_hex_digest: "length (Sum256 X s) = 32 \<Longrightarrow> lower_hex64 (sha256_hex X s)"
  by (simp add: sha256_hex_def lower_hex64_def hex_encode_lower)

text \<open>Trimming a string of printable ASCII characters changes nothing.\<close>

definition printable :: "char \<Rightarrow> bool" where
  "printable c = (let n = of_char c :: nat in 33 \<le> n \<and> n \<le> 126)"

lemma spaces_not_printable: "p \<in> set spaces \<Longrightarrow> p \<noteq> [] \<and> \<not> printable (hd p) \<and> \<not> printable (last p)"
  by (auto simp: spaces_def space_codes_def printable_def)

lemma printable_front: "(\<And>p. p \<in> set ps \<Longrightarrow> p \<noteq> [] \<Longrightarrow> \<not> printable (hd p)) \<Longrightarrow> printable c \<Longrightarrow>
    find (\<lambda>p. p \<noteq> [] \<and> starts_with (c # s) p) ps = None"
  by (auto simp: find_None_iff starts_with_def) (metis list.sel(1) length_greater_0_conv hd_take list.size(3))

lemma strip_printable: "(\<And>p. p \<in> set ps \<Longrightarrow> p \<noteq> [] \<Longrightarrow> \<not> printable (hd p)) \<Longrightarrow>
   s = [] \<or> printable (hd s) \<Longrightarrow> strip_front ps s = s"
proof (cases s)
  case Nil
  then show ?thesis by (intro strip_front_id) (auto simp: starts_with_def)
next
  case (Cons c r)
  moreover assume "\<And>p. p \<in> set ps \<Longrightarrow> p \<noteq> [] \<Longrightarrow> \<not> printable (hd p)" "s = [] \<or> printable (hd s)"
  ultimately have "find (\<lambda>p. p \<noteq> [] \<and> starts_with s p) ps = None" by (simp add: printable_front)
  then show ?thesis by (subst strip_front.simps) simp
qed

lemma TrimSpace_edges: "s = [] \<or> printable (hd s) \<and> printable (last s) \<Longrightarrow> TrimSpace s = s"
proof -
  assume s: "s = [] \<or> printable (hd s) \<and> printable (last s)"
  have "strip_front spaces s = s"
    by (rule strip_printable) (use spaces_not_printable s in blast)+
  moreover have "strip_front (map rev spaces) (rev s) = rev s"
    by (rule strip_printable) (use spaces_not_printable s in \<open>auto simp: hd_rev\<close>)
  ultimately show ?thesis by (simp add: TrimSpace_def)
qed

lemma TrimSpace_printable: "list_all printable s \<Longrightarrow> TrimSpace s = s"
  by (rule TrimSpace_edges) (auto simp: list_all_iff)

lemma Fields_acc_simps:
  "Fields_acc acc [] = (if acc = [] then [] else [rev acc])"
  "printable c \<Longrightarrow> Fields_acc acc (c # r) = Fields_acc (c # acc) r"
  "Fields_acc acc (CHR '' '' # r) = (if acc = [] then [] else [rev acc]) @ Fields_acc [] r"
proof -
  show "Fields_acc acc [] = (if acc = [] then [] else [rev acc])" by (subst Fields_acc.simps) simp
  show "Fields_acc acc (c # r) = Fields_acc (c # acc) r" if "printable c"
    using printable_front [of spaces c r] spaces_not_printable that by (subst Fields_acc.simps) simp
  have sp: "spaces = map (map char_of) [[9 :: nat], [10], [11], [12], [13]] @ '' '' # map (map char_of) (drop 6 space_codes)"
    by (simp add: spaces_def space_codes_def char_of_eq_iff)
  have "CHR '' '' \<noteq> char_of n" if "n \<in> {9, 10, 11, 12, 13}" for n :: nat
    using that by (auto simp: eq_commute [of "CHR '' ''"] char_of_eq_iff)
  then have "find (\<lambda>p. p \<noteq> [] \<and> starts_with (CHR '' '' # r) p) spaces = Some '' ''"
    unfolding sp by (simp add: starts_with_def)
  then show "Fields_acc acc (CHR '' '' # r) = (if acc = [] then [] else [rev acc]) @ Fields_acc [] r"
    by (subst Fields_acc.simps) simp
qed

lemma hex_lower_printable: "hex_lower c \<Longrightarrow> printable c"
  by (auto simp: hex_lower_def printable_def Let_def)

lemma TrimSpace_digest [simp]: "lower_hex64 v \<Longrightarrow> TrimSpace v = v"
  by (rule TrimSpace_printable) (auto simp: lower_hex64_def list_all_iff hex_lower_printable)

section \<open>Laws of the libraries\<close>

text \<open>What \<^verbatim>\<open>github.com/google/uuid\<close> documents of \<open>Parse\<close> and \<open>String\<close>, and the length of a SHA-256 sum.\<close>

definition uuid_text :: "ext \<Rightarrow> bool" where
  "uuid_text X \<longleftrightarrow> (\<forall>u. length u = 16 \<longrightarrow> uuid_Parse X (uuid_String X u) = Some u
     \<and> list_all (\<lambda>c. hex_lower c \<or> c = CHR ''-'') (uuid_String X u))"

definition sha_size :: "ext \<Rightarrow> bool" where
  "sha_size X \<longleftrightarrow> (\<forall>s. length (Sum256 X s) = 32)"

text \<open>\<open>json.Marshal\<close> of a value that \<open>json.Unmarshal\<close> produced is valid and decodes to the same value.\<close>

definition json_roundtrip :: "ext \<Rightarrow> bool" where
  "json_roundtrip X \<longleftrightarrow> (\<forall>s v. json_Unmarshal X s = Some v \<longrightarrow>
     json_Valid X (json_Marshal X v) \<and> json_Marshal X v \<noteq> [] \<and> json_Unmarshal X (json_Marshal X v) = Some v)"

lemma roundtrip_facts: "json_roundtrip X \<Longrightarrow> json_Unmarshal X s = Some v \<Longrightarrow>
    json_Valid X (json_Marshal X v) \<and> json_Marshal X v \<noteq> [] \<and> json_Unmarshal X (json_Marshal X v) = Some v"
  unfolding json_roundtrip_def by blast

end
