(* ===== verification/Task_Types.thy ===== *)
theory Task_Types
  imports Agent_Prelude
begin

text \<open>
  \<^verbatim>\<open>src/internal/coretask/types.go\<close>: the closed enumerations, the payloads and the specification of
  a durable task, their normalisation, and the results of a task. A Go struct is a record whose
  fields carry the struct's initials; a pointer is an option; an enumeration over strings is a
  datatype whose last constructor stands for every string that is none of the named constants.
  \<open>Normalize\<close> trims strings in place through the payload pointers; the model returns the
  normalised value.
\<close>

section \<open>Data\<close>

datatype Status = StatusQueued | StatusRunning | StatusSucceeded | StatusFailed
  | StatusWaitingUser | StatusCanceled | StatusOther string

datatype TaskKind = TaskKindAgent | TaskKindExtension | TaskKindKnowledgeIndex | TaskKindWorkload
  | TaskKindConversationTool | TaskKindCloudWorker | TaskKindOther string

datatype ExtensionOperation = ExtensionOperationInstall | ExtensionOperationUpdate
  | ExtensionOperationUninstall | ExtensionOperationExecuteTool | ExtensionOperationExecuteSkill
  | ExtensionOperationOther string

datatype ExtensionExecutionTarget = ExtensionExecutionTargetLocalSandbox
  | ExtensionExecutionTargetRemoteExtension | ExtensionExecutionTargetStaticSkill
  | ExtensionExecutionTargetOther string

datatype ExtensionKind = ExtensionMCP | ExtensionSkill | ExtensionKindOther string

fun ExtensionKind_string :: "ExtensionKind \<Rightarrow> string" where
  "ExtensionKind_string ExtensionMCP = ''mcp''"
| "ExtensionKind_string ExtensionSkill = ''skill''"
| "ExtensionKind_string (ExtensionKindOther s) = s"

datatype task_error = ErrInvalid | ErrConflict | ErrRevisionConflict | ErrLeaseConflict
  | ErrDispatchStarted | ErrNotFound | ErrTerminal | ErrTimedOut | ErrStore string

definition ErrTimedOut_text :: string where "ErrTimedOut_text = ''task_timed_out''"

definition MaxGoalBytes :: nat where "MaxGoalBytes = 65536"
definition MaxRefCount :: nat where "MaxRefCount = 128"
definition MaxRefBytes :: nat where "MaxRefBytes = 512"
definition MaxProgressMessage :: nat where "MaxProgressMessage = 4096"
definition MaxTimeoutSeconds :: int where "MaxTimeoutSeconds = (30 * 24 * Hour) div Second"
definition MaxResultBytes :: nat where "MaxResultBytes = 1048576"
definition MaxResultTextBytes :: nat where "MaxResultTextBytes = 65536"
definition MaxFileCount :: nat where "MaxFileCount = 128"
definition MaxFilePathBytes :: nat where "MaxFilePathBytes = 1024"
definition MaxSummaryBytes :: nat where "MaxSummaryBytes = 4096"
definition MaxLeaseHolderBytes :: nat where "MaxLeaseHolderBytes = 256"
definition MaxToolCallIDBytes :: nat where "MaxToolCallIDBytes = 256"
definition MaxCanonicalInputBytes :: nat where "MaxCanonicalInputBytes = 65536"
definition MaxSourceIDCount :: nat where "MaxSourceIDCount = 128"

lemmas task_limits = MaxGoalBytes_def MaxRefCount_def MaxRefBytes_def MaxProgressMessage_def
  MaxTimeoutSeconds_def MaxResultBytes_def MaxResultTextBytes_def MaxFileCount_def
  MaxFilePathBytes_def MaxSummaryBytes_def MaxLeaseHolderBytes_def MaxToolCallIDBytes_def
  MaxCanonicalInputBytes_def MaxSourceIDCount_def

record ExtensionSelection =
  es_Kind :: ExtensionKind
  es_ID :: string
  es_Version :: string
  es_Digest :: string
  es_AllowedTools :: "string slice"

record ScheduledExtensionSnapshot =
  sx_Selection :: ExtensionSelection
  sx_InstallationID :: string
  sx_VersionID :: string
  sx_InstallationRevision :: u64
  sx_Source :: string
  sx_ContentDigest :: string
  sx_ArtifactDigest :: string
  sx_ToolSchemaDigest :: string
  sx_NetworkBindingDigest :: string
  sx_SecretBindingDigest :: string
  sx_ToolNames :: "string slice"
  sx_SkillInstructions :: string
  sx_RequiresConfirmation :: bool
  sx_ReadOnly :: bool

record ScheduledConversationOrigin =
  so_Capability :: string
  so_Timezone :: string
  so_ExtensionSnapshots :: "ScheduledExtensionSnapshot slice"
  so_ActorID :: string

record AgentTaskPayload =
  ap_OwnerID :: string
  ap_AccountGeneration :: u64
  ap_ScheduledConversation :: "ScheduledConversationOrigin option"

record ScheduledCapabilityToolBinding =
  cb_LogicalName :: string
  cb_ProviderName :: string

record ScheduledCapabilityBinding =
  cb_Source :: string
  cb_Tools :: "ScheduledCapabilityToolBinding list"

record WorkloadTaskPayload =
  wp_WorkloadID :: string
  wp_PlanID :: string
  wp_OperationID :: string
  wp_PlanRevision :: u64
  wp_PlanDigest :: string
  wp_TargetKind :: string
  wp_ConfirmationID :: string
  wp_ExecutionSnapshot :: string

record CloudWorkerTaskPayload =
  cp_ExecutionID :: string
  cp_AccountGeneration :: u64
  cp_PlanID :: string
  cp_PlanRevision :: u64
  cp_PlanDigest :: string
  cp_ConfirmationID :: string
  cp_TurnID :: string
  cp_ConversationID :: string
  cp_QuoteDigest :: string
  cp_ExecutionDigest :: string

record ExtensionTaskPayload =
  ep_Operation :: ExtensionOperation
  ep_ExecutionTarget :: ExtensionExecutionTarget
  ep_InstallationID :: string
  ep_ExpectedRevision :: u64
  ep_Version :: string
  ep_Digest :: string
  ep_ArtifactDigest :: string
  ep_ConfirmationID :: string
  ep_ToolName :: string
  ep_CanonicalInputJSON :: string

record ConversationToolTaskPayload =
  tp_TurnID :: string
  tp_AttemptID :: string
  tp_Round :: u32
  tp_CallID :: string
  tp_ExtensionSnapshotDigest :: string
  tp_InstallationID :: string
  tp_VersionID :: string
  tp_InstallationRevision :: u64
  tp_ToolName :: string
  tp_ToolSchemaDigest :: string
  tp_ArgumentsDigest :: string
  tp_ConfirmationID :: string
  tp_SafeSummary :: string
  tp_ExecutionTarget :: ExtensionExecutionTarget
  tp_ReadOnly :: bool

record KnowledgeIndexTaskPayload =
  kp_SourceIDs :: "string list"
  kp_ExpectedSourceRevision :: "u64 list"
  kp_CollectionConfigDigest :: string

record TaskPayload =
  pl_Agent :: "AgentTaskPayload option"
  pl_ConversationTool :: "ConversationToolTaskPayload option"
  pl_Extension :: "ExtensionTaskPayload option"
  pl_KnowledgeIndex :: "KnowledgeIndexTaskPayload option"
  pl_Workload :: "WorkloadTaskPayload option"
  pl_CloudWorker :: "CloudWorkerTaskPayload option"

record TaskSpec =
  s_Kind :: TaskKind
  s_Payload :: TaskPayload
  s_Goal :: string
  s_ConversationID :: string
  s_AttachmentRefs :: "string list"
  s_ModelProfileID :: string
  s_Extensions :: "ExtensionSelection list"
  s_KnowledgeRefs :: "string list"
  s_TimeoutSeconds :: int
  s_IdempotencyKey :: string
  s_AvailableAt :: gotime

section \<open>Validation and normalisation\<close>

definition ValidUUID :: "ext \<Rightarrow> string \<Rightarrow> bool" where
  "ValidUUID X value = (let v = TrimSpace value in
     case uuid_Parse X v of None \<Rightarrow> False
     | Some u \<Rightarrow> u \<noteq> uuid_Nil \<and> ToLower X v = uuid_String X u)"

definition ValidDigest :: "ext \<Rightarrow> string \<Rightarrow> bool" where
  "ValidDigest X value = (if length value \<noteq> 64 \<or> ToLower X value \<noteq> value then False
     else hex_DecodeString_ok value)"

definition validWorkloadTarget :: "string \<Rightarrow> bool" where
  "validWorkloadTarget value \<longleftrightarrow> TrimSpace value = ''CORE_RUNNER''"

fun validExtensionOperation :: "ExtensionOperation \<Rightarrow> bool" where
  "validExtensionOperation (ExtensionOperationOther _) = False"
| "validExtensionOperation _ = True"

fun validExtensionExecutionTarget :: "ExtensionExecutionTarget \<Rightarrow> bool" where
  "validExtensionExecutionTarget (ExtensionExecutionTargetOther _) = False"
| "validExtensionExecutionTarget _ = True"

fun validStatus :: "Status \<Rightarrow> bool" where
  "validStatus (StatusOther _) = False"
| "validStatus _ = True"

definition equalStringSet :: "string list \<Rightarrow> string list \<Rightarrow> bool" where
  "equalStringSet left right \<longleftrightarrow> length left = length right
     \<and> list_all (\<lambda>i. left ! i = right ! i) [0..<length left]"

fun normalizeRefs_loop :: "string list \<Rightarrow> string list \<Rightarrow> task_error + string list" where
  "normalizeRefs_loop [] out = Inr out"
| "normalizeRefs_loop (r # rs) out = (let ref = TrimSpace r in
     if ref = [] \<or> \<not> ValidString ref \<or> length ref > MaxRefBytes then Inl ErrInvalid
     else if ref \<in> set out then normalizeRefs_loop rs out
     else normalizeRefs_loop rs (out @ [ref]))"

definition normalizeRefs :: "string list \<Rightarrow> task_error + string list" where
  "normalizeRefs refs = (if length refs > MaxRefCount then Inl ErrInvalid
     else case normalizeRefs_loop refs [] of Inl e \<Rightarrow> Inl e | Inr out \<Rightarrow> Inr (sort out))"

definition normalizeExtension :: "ext \<Rightarrow> ExtensionSelection \<Rightarrow> task_error + ExtensionSelection" where
  "normalizeExtension X e0 =
     (let e = e0\<lparr>es_ID := TrimSpace (es_ID e0), es_Version := TrimSpace (es_Version e0),
                 es_Digest := TrimSpace (es_Digest e0)\<rparr> in
      if (es_Kind e \<noteq> ExtensionMCP \<and> es_Kind e \<noteq> ExtensionSkill) \<or> \<not> ValidUUID X (es_ID e)
         \<or> es_Version e = [] \<or> length (es_Version e) > 128 \<or> \<not> ValidString (es_Version e)
         \<or> length (es_Digest e) \<noteq> 64 \<or> ToLower X (es_Digest e) \<noteq> es_Digest e then Inl ErrInvalid
      else if \<not> hex_DecodeString_ok (es_Digest e) then Inl ErrInvalid
      else case normalizeRefs (elems (es_AllowedTools e)) of Inl err \<Rightarrow> Inl err
        | Inr tools \<Rightarrow> Inr (e\<lparr>es_AllowedTools := Some tools\<rparr>))"

definition es_key :: "ExtensionSelection \<Rightarrow> string \<times> string \<times> string \<times> string" where
  "es_key e = (ExtensionKind_string (es_Kind e), es_ID e, es_Version e, es_Digest e)"

fun adjacent_eq :: "'a list \<Rightarrow> bool" where
  "adjacent_eq (a # b # r) = (a = b \<or> adjacent_eq (b # r))"
| "adjacent_eq _ = False"

text \<open>\<open>sort.Slice\<close> orders by kind, id, version and digest. It is not stable, but two elements
  with equal keys end up adjacent in any sorted order and are then refused.\<close>

definition normalizeExtensions :: "ext \<Rightarrow> ExtensionSelection list \<Rightarrow> task_error + ExtensionSelection list" where
  "normalizeExtensions X es = (if length es > MaxRefCount then Inl ErrInvalid
     else case rmap (normalizeExtension X) es of Inl err \<Rightarrow> Inl err
       | Inr out \<Rightarrow> (let sorted_out = sort_key es_key out in
           if adjacent_eq (map es_key sorted_out) then Inl ErrConflict else Inr sorted_out))"

definition messageScheduledBinding :: "string list \<Rightarrow> ScheduledCapabilityBinding" where
  "messageScheduledBinding names = \<lparr>cb_Source = ''message-mcp'',
     cb_Tools = map (\<lambda>n. \<lparr>cb_LogicalName = n, cb_ProviderName = ''mcp__message__'' @ n\<rparr>) names\<rparr>"

definition directScheduledBinding :: "string \<Rightarrow> string list \<Rightarrow> ScheduledCapabilityBinding" where
  "directScheduledBinding source names = \<lparr>cb_Source = source,
     cb_Tools = map (\<lambda>n. \<lparr>cb_LogicalName = n, cb_ProviderName = n\<rparr>) names\<rparr>"

definition RequiredBindings :: "string \<Rightarrow> task_error + ScheduledCapabilityBinding list" where
  "RequiredBindings c =
    (if c = ''scheduled_note'' then Inr []
     else if c = ''chat_summary'' then
       Inr [messageScheduledBinding [''dirextalk_rooms_search'', ''dirextalk_messages_list'']]
     else if c = ''web_research'' then
       Inr [directScheduledBinding ''builtin:web_search:tavily'' [''web_search'']]
     else if c = ''room_message'' then
       Inr [messageScheduledBinding [''dirextalk_rooms_search'', ''dirextalk_messages_send'']]
     else if c = ''contact_report'' then
       Inr [messageScheduledBinding [''dirextalk_contacts_list'', ''dirextalk_contacts_search'']]
     else if c = ''room_member_report'' then
       Inr [messageScheduledBinding [''dirextalk_rooms_search'', ''dirextalk_room_members_list'']]
     else if c = ''channel_digest'' then
       Inr [messageScheduledBinding [''dirextalk_rooms_search'', ''dirextalk_channel_posts_list'',
              ''dirextalk_channel_comments_list'']]
     else if c = ''chat_summary_delivery'' then
       Inr [messageScheduledBinding [''dirextalk_rooms_search'', ''dirextalk_messages_list'',
              ''dirextalk_messages_send'']]
     else if c = ''web_digest_delivery'' then
       Inr [directScheduledBinding ''builtin:web_search:tavily'' [''web_search''],
            messageScheduledBinding [''dirextalk_rooms_search'', ''dirextalk_messages_send'']]
     else Inl ErrInvalid)"

definition sx_trim :: "ext \<Rightarrow> ScheduledExtensionSnapshot \<Rightarrow> ScheduledExtensionSnapshot" where
  "sx_trim X x = x\<lparr>sx_InstallationID := TrimSpace (sx_InstallationID x),
     sx_VersionID := TrimSpace (sx_VersionID x), sx_Source := TrimSpace (sx_Source x),
     sx_ContentDigest := ToLower X (TrimSpace (sx_ContentDigest x)),
     sx_ArtifactDigest := ToLower X (TrimSpace (sx_ArtifactDigest x)),
     sx_ToolSchemaDigest := ToLower X (TrimSpace (sx_ToolSchemaDigest x)),
     sx_NetworkBindingDigest := ToLower X (TrimSpace (sx_NetworkBindingDigest x)),
     sx_SecretBindingDigest := ToLower X (TrimSpace (sx_SecretBindingDigest x))\<rparr>"

definition sx_source_ok :: "ext \<Rightarrow> ScheduledExtensionSnapshot \<Rightarrow> bool" where
  "sx_source_ok X x =
    (if sx_Source x = ''message-mcp'' \<or> sx_Source x = ''builtin:web_search:tavily'' then
       \<not> (sx_InstallationRevision x \<noteq> 0 \<or> sx_RequiresConfirmation x \<or> \<not> sx_ReadOnly x
          \<or> sx_SkillInstructions x \<noteq> [])
     else if sx_Source x = ''product-capability'' \<or> sx_Source x = ''builtin:knowledge:semantic'' then False
     else \<not> (HasPrefix (sx_Source x) ''builtin:'' \<or> sx_InstallationRevision x = 0
             \<or> \<not> ValidUUID X (sx_VersionID x)))"

definition normalizeSnapshot1 :: "ext \<Rightarrow> ScheduledExtensionSnapshot \<Rightarrow> task_error + ScheduledExtensionSnapshot" where
  "normalizeSnapshot1 X x0 = (case normalizeExtensions X [sx_Selection x0] of
     Inr [sel] \<Rightarrow> (let x = sx_trim X (x0\<lparr>sx_Selection := sel\<rparr>) in
       if sx_InstallationID x \<noteq> es_ID sel \<or> sx_VersionID x = [] \<or> sx_Source x = []
          \<or> sx_ContentDigest x \<noteq> es_Digest sel \<or> \<not> ValidDigest X (sx_ContentDigest x)
          \<or> \<not> ValidDigest X (sx_ArtifactDigest x)
          \<or> (sx_ToolSchemaDigest x \<noteq> [] \<and> \<not> ValidDigest X (sx_ToolSchemaDigest x))
          \<or> (sx_NetworkBindingDigest x \<noteq> [] \<and> \<not> ValidDigest X (sx_NetworkBindingDigest x))
          \<or> (sx_SecretBindingDigest x \<noteq> [] \<and> \<not> ValidDigest X (sx_SecretBindingDigest x))
          \<or> length (sx_SkillInstructions x) > MaxGoalBytes \<or> \<not> ValidString (sx_SkillInstructions x)
       then Inl ErrInvalid
       else if \<not> sx_source_ok X x then Inl ErrInvalid
       else case normalizeRefs (elems (sx_ToolNames x)) of Inl _ \<Rightarrow> Inl ErrInvalid
         | Inr tools \<Rightarrow> if equalStringSet tools (elems (es_AllowedTools sel))
             then Inr (x\<lparr>sx_ToolNames := Some tools\<rparr>) else Inl ErrInvalid)
   | _ \<Rightarrow> Inl ErrInvalid)"

definition selectionKey :: "ScheduledExtensionSnapshot \<Rightarrow> string" where
  "selectionKey x = ExtensionKind_string (es_Kind (sx_Selection x)) @ '':'' @ es_ID (sx_Selection x)"

fun normalizeSnapshots_loop :: "ext \<Rightarrow> ScheduledExtensionSnapshot list \<Rightarrow> string set \<Rightarrow> string set
    \<Rightarrow> ScheduledExtensionSnapshot list \<Rightarrow> task_error + ScheduledExtensionSnapshot list" where
  "normalizeSnapshots_loop X [] seenSel seenTools out = Inr out"
| "normalizeSnapshots_loop X (x0 # xs) seenSel seenTools out =
    (case normalizeSnapshot1 X x0 of Inl e \<Rightarrow> Inl e
     | Inr x \<Rightarrow> (let tools = elems (sx_ToolNames x) in
         if selectionKey x \<in> seenSel then Inl ErrConflict
         else if (\<exists>t\<in>set tools. t \<in> seenTools) \<or> \<not> distinct tools then Inl ErrConflict
         else normalizeSnapshots_loop X xs (insert (selectionKey x) seenSel)
                (seenTools \<union> set tools) (out @ [x])))"

definition sx_key :: "ScheduledExtensionSnapshot \<Rightarrow> string \<times> string" where
  "sx_key x = (ExtensionKind_string (es_Kind (sx_Selection x)), es_ID (sx_Selection x))"

definition normalizeScheduledExtensionSnapshots :: "ext \<Rightarrow> ScheduledExtensionSnapshot list
    \<Rightarrow> task_error + ScheduledExtensionSnapshot list" where
  "normalizeScheduledExtensionSnapshots X xs = (if length xs > MaxRefCount then Inl ErrInvalid
     else case normalizeSnapshots_loop X xs {} {} [] of Inl e \<Rightarrow> Inl e
       | Inr out \<Rightarrow> Inr (sort_key sx_key out))"

text \<open>The inner loop of \<open>normalizeScheduledCapabilitySnapshots\<close> finds the only snapshot with the
  source of a binding; the indices already taken are \<open>used\<close>.\<close>

definition match_binding :: "ScheduledExtensionSnapshot list \<Rightarrow> string \<Rightarrow> nat option" where
  "match_binding snapshots source =
     (case filter (\<lambda>i. sx_Source (snapshots ! i) = source) [0..<length snapshots] of
        [i] \<Rightarrow> Some i | _ \<Rightarrow> None)"

fun order_snapshots :: "ScheduledExtensionSnapshot list \<Rightarrow> ScheduledCapabilityBinding list \<Rightarrow> nat set
    \<Rightarrow> ScheduledExtensionSnapshot list \<Rightarrow> task_error + ScheduledExtensionSnapshot list" where
  "order_snapshots snapshots [] used ordered = Inr ordered"
| "order_snapshots snapshots (b # bs) used ordered =
    (case match_binding snapshots (cb_Source b) of None \<Rightarrow> Inl ErrInvalid
     | Some m \<Rightarrow> if m \<in> used then Inl ErrInvalid
         else if \<not> equalStringSet (elems (sx_ToolNames (snapshots ! m))) (sort (map cb_ProviderName (cb_Tools b)))
         then Inl ErrInvalid
         else order_snapshots snapshots bs (insert m used) (ordered @ [snapshots ! m]))"

definition normalizeScheduledCapabilitySnapshots :: "ext \<Rightarrow> string \<Rightarrow> ScheduledExtensionSnapshot list
    \<Rightarrow> task_error + ScheduledExtensionSnapshot list" where
  "normalizeScheduledCapabilitySnapshots X capability xs =
    (case RequiredBindings capability of Inl e \<Rightarrow> Inl e
     | Inr bindings \<Rightarrow> (case normalizeScheduledExtensionSnapshots X xs of Inl e \<Rightarrow> Inl e
       | Inr snapshots \<Rightarrow> if length snapshots \<noteq> length bindings then Inl ErrInvalid
           else order_snapshots snapshots bindings {} []))"

definition ScheduledConversationOrigin_Validate :: "ext \<Rightarrow> ScheduledConversationOrigin \<Rightarrow> task_error option" where
  "ScheduledConversationOrigin_Validate X s =
    (let capability = TrimSpace (so_Capability s); timezone = TrimSpace (so_Timezone s) in
     if capability \<noteq> so_Capability s \<or> timezone \<noteq> so_Timezone s \<or> timezone = [] \<or> length timezone > 128
        \<or> \<not> ValidString timezone \<or> so_ActorID s \<noteq> TrimSpace (so_ActorID s) \<or> length (so_ActorID s) > 1024
        \<or> \<not> ValidString (so_ActorID s) \<or> (so_ActorID s \<noteq> [] \<and> \<not> HasPrefix (so_ActorID s) ''@'')
     then Some ErrInvalid
     else if LoadLocation X timezone = None then Some ErrInvalid
     else case RequiredBindings capability of Inl e \<Rightarrow> Some e
       | Inr _ \<Rightarrow> (case so_ExtensionSnapshots s of None \<Rightarrow> Some ErrInvalid
         | Some snaps \<Rightarrow> (case normalizeScheduledCapabilitySnapshots X capability snaps of Inl e \<Rightarrow> Some e
           | Inr snapshots \<Rightarrow> if snapshots \<noteq> snaps then Some ErrInvalid else None)))"

subsection \<open>Payloads\<close>

definition forbidden_inputs :: "string list" where
  "forbidden_inputs = [''secret'', ''token'', ''password'', ''credential'', ''api_key'', ''apikey'',
     ''argv'', ''command'', ''endpoint'']"

definition forbidden_key :: "ext \<Rightarrow> string \<Rightarrow> bool" where
  "forbidden_key X k = (let lk = ToLower X (map (\<lambda>c. if c = CHR ''-'' then CHR ''_'' else c) k)
     in list_ex (\<lambda>f. Contains lk f) forbidden_inputs)"

fun containsForbiddenInput :: "ext \<Rightarrow> json \<Rightarrow> bool" where
  "containsForbiddenInput X (JObj kvs) =
     list_ex (\<lambda>kv. forbidden_key X (fst kv) \<or> containsForbiddenInput X (snd kv)) kvs"
| "containsForbiddenInput X (JArr vs) = list_ex (containsForbiddenInput X) vs"
| "containsForbiddenInput X _ = False"

definition payload_count :: "TaskPayload \<Rightarrow> nat" where
  "payload_count p = (if pl_Agent p \<noteq> None then 1 else 0) + (if pl_Extension p \<noteq> None then 1 else 0)
     + (if pl_KnowledgeIndex p \<noteq> None then 1 else 0) + (if pl_Workload p \<noteq> None then 1 else 0)
     + (if pl_ConversationTool p \<noteq> None then 1 else 0) + (if pl_CloudWorker p \<noteq> None then 1 else 0)"

definition normalizeScheduled :: "ext \<Rightarrow> ScheduledConversationOrigin \<Rightarrow> task_error + ScheduledConversationOrigin" where
  "normalizeScheduled X o0 = (let s = o0\<lparr>so_Capability := TrimSpace (so_Capability o0)\<rparr> in
     if TrimSpace (so_Timezone s) \<noteq> so_Timezone s \<or> so_Timezone s = [] \<or> length (so_Timezone s) > 128
        \<or> \<not> ValidString (so_Timezone s) then Inl ErrInvalid
     else if LoadLocation X (so_Timezone s) = None then Inl ErrInvalid
     else case normalizeScheduledCapabilitySnapshots X (so_Capability s) (elems (so_ExtensionSnapshots s)) of
         Inl e \<Rightarrow> Inl e | Inr snapshots \<Rightarrow> Inr (s\<lparr>so_ExtensionSnapshots := Some snapshots\<rparr>))"

definition normalizeAgent :: "ext \<Rightarrow> AgentTaskPayload \<Rightarrow> task_error + AgentTaskPayload" where
  "normalizeAgent X p0 = (let p = p0\<lparr>ap_OwnerID := TrimSpace (ap_OwnerID p0)\<rparr> in
     if ap_OwnerID p = [] \<or> length (ap_OwnerID p) > 512 \<or> \<not> ValidString (ap_OwnerID p)
        \<or> ap_AccountGeneration p = 0 then Inl ErrInvalid
     else case ap_ScheduledConversation p of None \<Rightarrow> Inr p
       | Some s \<Rightarrow> (case normalizeScheduled X s of Inl e \<Rightarrow> Inl e
           | Inr s' \<Rightarrow> Inr (p\<lparr>ap_ScheduledConversation := Some s'\<rparr>)))"

definition ep_base_ok :: "ext \<Rightarrow> ExtensionTaskPayload \<Rightarrow> bool" where
  "ep_base_ok X p \<longleftrightarrow> \<not> (\<not> ValidUUID X (TrimSpace (ep_InstallationID p)) \<or> \<not> validExtensionOperation (ep_Operation p)
      \<or> TrimSpace (ep_Version p) = [] \<or> length (ep_Version p) > 128 \<or> length (ep_Digest p) \<noteq> 64
      \<or> ToLower X (ep_Digest p) \<noteq> ep_Digest p) \<and> hex_DecodeString_ok (ep_Digest p)"

definition ep_trim :: "ExtensionTaskPayload \<Rightarrow> ExtensionTaskPayload" where
  "ep_trim p = p\<lparr>ep_InstallationID := TrimSpace (ep_InstallationID p), ep_Version := TrimSpace (ep_Version p),
     ep_Digest := TrimSpace (ep_Digest p)\<rparr>"

definition ep_lifecycle :: "ExtensionTaskPayload \<Rightarrow> bool" where
  "ep_lifecycle p \<longleftrightarrow> ep_Operation p = ExtensionOperationInstall \<or> ep_Operation p = ExtensionOperationUpdate
     \<or> ep_Operation p = ExtensionOperationUninstall"

definition normalizeLifecycle :: "ext \<Rightarrow> ExtensionTaskPayload \<Rightarrow> task_error + ExtensionTaskPayload" where
  "normalizeLifecycle X p =
    (if \<not> ValidUUID X (TrimSpace (ep_ConfirmationID p)) \<or> ep_ExecutionTarget p \<noteq> ExtensionExecutionTargetOther []
        \<or> ep_ToolName p \<noteq> [] \<or> ep_CanonicalInputJSON p \<noteq> [] then Inl ErrInvalid
     else Inr (p\<lparr>ep_ConfirmationID := TrimSpace (ep_ConfirmationID p)\<rparr>))"

definition normalizeExecution :: "ext \<Rightarrow> ExtensionTaskPayload \<Rightarrow> task_error + ExtensionTaskPayload" where
  "normalizeExecution X p =
    (if ep_ExpectedRevision p = 0 \<or> \<not> validExtensionExecutionTarget (ep_ExecutionTarget p)
        \<or> (ep_ConfirmationID p \<noteq> [] \<and> \<not> ValidUUID X (TrimSpace (ep_ConfirmationID p)))
        \<or> ep_CanonicalInputJSON p = [] \<or> length (ep_CanonicalInputJSON p) > MaxCanonicalInputBytes
        \<or> \<not> json_Valid X (ep_CanonicalInputJSON p) then Inl ErrInvalid
     else if (ep_Operation p = ExtensionOperationExecuteTool
                \<and> ep_ExecutionTarget p = ExtensionExecutionTargetStaticSkill)
          \<or> (ep_Operation p = ExtensionOperationExecuteSkill
                \<and> ep_ExecutionTarget p = ExtensionExecutionTargetRemoteExtension) then Inl ErrInvalid
     else case json_Unmarshal X (ep_CanonicalInputJSON p) of None \<Rightarrow> Inl ErrInvalid
       | Some v \<Rightarrow> if containsForbiddenInput X v then Inl ErrInvalid
           else Inr (p\<lparr>ep_CanonicalInputJSON := json_Marshal X v, ep_ToolName := TrimSpace (ep_ToolName p)\<rparr>))"

definition normalizeExtensionPayload :: "ext \<Rightarrow> ExtensionTaskPayload \<Rightarrow> task_error + ExtensionTaskPayload" where
  "normalizeExtensionPayload X p0 = (if \<not> ep_base_ok X p0 then Inl ErrInvalid
     else let p = ep_trim p0 in if ep_lifecycle p then normalizeLifecycle X p else normalizeExecution X p)"

definition validConversationTool :: "ext \<Rightarrow> ConversationToolTaskPayload \<Rightarrow> bool" where
  "validConversationTool X p \<longleftrightarrow> \<not> (\<not> ValidUUID X (tp_TurnID p) \<or> \<not> ValidUUID X (tp_AttemptID p)
     \<or> TrimSpace (tp_CallID p) = [] \<or> length (tp_CallID p) > MaxToolCallIDBytes \<or> \<not> ValidString (tp_CallID p)
     \<or> \<not> ValidUUID X (tp_InstallationID p) \<or> \<not> ValidUUID X (tp_VersionID p) \<or> tp_InstallationRevision p = 0
     \<or> TrimSpace (tp_ToolName p) = [] \<or> \<not> ValidDigest X (tp_ExtensionSnapshotDigest p)
     \<or> \<not> ValidDigest X (tp_ToolSchemaDigest p) \<or> \<not> ValidDigest X (tp_ArgumentsDigest p)
     \<or> length (tp_SafeSummary p) > MaxSummaryBytes \<or> \<not> validExtensionExecutionTarget (tp_ExecutionTarget p))"

fun strictly_increasing :: "string list \<Rightarrow> bool" where
  "strictly_increasing (a # b # r) = (a < b \<and> strictly_increasing (b # r))"
| "strictly_increasing _ = True"

definition normalizeKnowledge :: "ext \<Rightarrow> KnowledgeIndexTaskPayload \<Rightarrow> task_error + KnowledgeIndexTaskPayload" where
  "normalizeKnowledge X p =
    (if kp_SourceIDs p = [] \<or> length (kp_SourceIDs p) > MaxSourceIDCount
        \<or> length (kp_SourceIDs p) \<noteq> length (kp_ExpectedSourceRevision p)
        \<or> TrimSpace (kp_CollectionConfigDigest p) = [] \<or> length (kp_CollectionConfigDigest p) \<noteq> 64
        \<or> ToLower X (kp_CollectionConfigDigest p) \<noteq> kp_CollectionConfigDigest p then Inl ErrInvalid
     else if \<not> hex_DecodeString_ok (kp_CollectionConfigDigest p) then Inl ErrInvalid
     else if list_ex (\<lambda>(i, r). TrimSpace i = [] \<or> r = 0) (zip (kp_SourceIDs p) (kp_ExpectedSourceRevision p))
     then Inl ErrInvalid
     else let ids = map TrimSpace (kp_SourceIDs p) in
       if \<not> strictly_increasing ids then Inl ErrInvalid else Inr (p\<lparr>kp_SourceIDs := ids\<rparr>))"

definition normalizeWorkload :: "ext \<Rightarrow> WorkloadTaskPayload \<Rightarrow> task_error + WorkloadTaskPayload" where
  "normalizeWorkload X p0 =
    (if \<not> ValidUUID X (TrimSpace (wp_WorkloadID p0)) \<or> \<not> ValidUUID X (TrimSpace (wp_PlanID p0))
        \<or> \<not> ValidUUID X (TrimSpace (wp_OperationID p0)) \<or> \<not> ValidUUID X (TrimSpace (wp_ConfirmationID p0))
        \<or> wp_PlanRevision p0 = 0 \<or> \<not> ValidDigest X (wp_PlanDigest p0) \<or> \<not> validWorkloadTarget (wp_TargetKind p0)
        \<or> length (wp_ExecutionSnapshot p0) > MaxResultBytes
        \<or> (length (wp_ExecutionSnapshot p0) > 0 \<and> \<not> json_Valid X (wp_ExecutionSnapshot p0)) then Inl ErrInvalid
     else let p = p0\<lparr>wp_WorkloadID := TrimSpace (wp_WorkloadID p0), wp_PlanID := TrimSpace (wp_PlanID p0),
                     wp_OperationID := TrimSpace (wp_OperationID p0),
                     wp_ConfirmationID := TrimSpace (wp_ConfirmationID p0),
                     wp_PlanDigest := TrimSpace (wp_PlanDigest p0)\<rparr> in
       if length (wp_ExecutionSnapshot p) > 0 then
         (case json_Unmarshal X (wp_ExecutionSnapshot p) of None \<Rightarrow> Inl ErrInvalid
          | Some v \<Rightarrow> Inr (p\<lparr>wp_ExecutionSnapshot := json_Marshal X v\<rparr>))
       else Inr p)"

definition normalizeCloudWorker :: "ext \<Rightarrow> string \<Rightarrow> CloudWorkerTaskPayload \<Rightarrow> task_error + CloudWorkerTaskPayload" where
  "normalizeCloudWorker X convID p0 =
    (let p = p0\<lparr>cp_ExecutionID := TrimSpace (cp_ExecutionID p0), cp_PlanID := TrimSpace (cp_PlanID p0),
               cp_PlanDigest := TrimSpace (cp_PlanDigest p0), cp_ConfirmationID := TrimSpace (cp_ConfirmationID p0),
               cp_TurnID := TrimSpace (cp_TurnID p0), cp_ConversationID := TrimSpace (cp_ConversationID p0),
               cp_QuoteDigest := TrimSpace (cp_QuoteDigest p0), cp_ExecutionDigest := TrimSpace (cp_ExecutionDigest p0)\<rparr>
     in if \<not> ValidUUID X (cp_ExecutionID p) \<or> cp_AccountGeneration p = 0 \<or> \<not> ValidUUID X (cp_PlanID p)
           \<or> cp_PlanRevision p = 0 \<or> \<not> ValidDigest X (cp_PlanDigest p) \<or> \<not> ValidUUID X (cp_ConfirmationID p)
           \<or> \<not> ValidUUID X (cp_TurnID p) \<or> \<not> ValidUUID X (cp_ConversationID p) \<or> \<not> ValidDigest X (cp_QuoteDigest p)
           \<or> \<not> ValidDigest X (cp_ExecutionDigest p) \<or> (convID \<noteq> [] \<and> convID \<noteq> cp_ConversationID p)
        then Inl ErrInvalid else Inr p)"

definition normalizePayload :: "ext \<Rightarrow> TaskSpec \<Rightarrow> task_error + TaskSpec" where
  "normalizePayload X s = (let p = s_Payload s; count = payload_count p in
    case s_Kind s of
      TaskKindAgent \<Rightarrow> (if count > 1 \<or> (count = 1 \<and> pl_Agent p = None) then Inl ErrInvalid
        else case pl_Agent p of None \<Rightarrow> Inr s
          | Some a \<Rightarrow> rbind (normalizeAgent X a) (\<lambda>a'. Inr (s\<lparr>s_Payload := p\<lparr>pl_Agent := Some a'\<rparr>\<rparr>)))
    | TaskKindExtension \<Rightarrow> (case pl_Extension p of None \<Rightarrow> Inl ErrInvalid
        | Some e \<Rightarrow> if count \<noteq> 1 then Inl ErrInvalid
            else rbind (normalizeExtensionPayload X e) (\<lambda>e'. Inr (s\<lparr>s_Payload := p\<lparr>pl_Extension := Some e'\<rparr>\<rparr>)))
    | TaskKindConversationTool \<Rightarrow> (case pl_ConversationTool p of None \<Rightarrow> Inl ErrInvalid
        | Some t \<Rightarrow> if count \<noteq> 1 \<or> \<not> validConversationTool X t then Inl ErrInvalid else Inr s)
    | TaskKindKnowledgeIndex \<Rightarrow> (case pl_KnowledgeIndex p of None \<Rightarrow> Inl ErrInvalid
        | Some k \<Rightarrow> if count \<noteq> 1 then Inl ErrInvalid
            else rbind (normalizeKnowledge X k) (\<lambda>k'. Inr (s\<lparr>s_Payload := p\<lparr>pl_KnowledgeIndex := Some k'\<rparr>\<rparr>)))
    | TaskKindWorkload \<Rightarrow> (case pl_Workload p of None \<Rightarrow> Inl ErrInvalid
        | Some w \<Rightarrow> if count \<noteq> 1 then Inl ErrInvalid
            else rbind (normalizeWorkload X w) (\<lambda>w'. Inr (s\<lparr>s_Payload := p\<lparr>pl_Workload := Some w'\<rparr>\<rparr>)))
    | TaskKindCloudWorker \<Rightarrow> (case pl_CloudWorker p of None \<Rightarrow> Inl ErrInvalid
        | Some c \<Rightarrow> if count \<noteq> 1 then Inl ErrInvalid
            else rbind (normalizeCloudWorker X (s_ConversationID s) c)
                   (\<lambda>c'. Inr (s\<lparr>s_Payload := p\<lparr>pl_CloudWorker := Some c'\<rparr>\<rparr>)))
    | TaskKindOther _ \<Rightarrow> Inl ErrInvalid)"

subsection \<open>Task specifications and templates\<close>

definition spec_shape_ok :: "ext \<Rightarrow> TaskSpec \<Rightarrow> bool" where
  "spec_shape_ok X s \<longleftrightarrow>
     \<not> ((s_Kind s = TaskKindAgent \<or> s_Kind s = TaskKindKnowledgeIndex) \<and> \<not> ValidUUID X (s_ModelProfileID s))
   \<and> \<not> (s_Kind s \<noteq> TaskKindAgent \<and> s_Kind s \<noteq> TaskKindKnowledgeIndex \<and> s_ModelProfileID s \<noteq> []
         \<and> \<not> ValidUUID X (s_ModelProfileID s))
   \<and> \<not> (s_Kind s \<noteq> TaskKindAgent \<and> s_Kind s \<noteq> TaskKindCloudWorker \<and> s_Kind s \<noteq> TaskKindConversationTool
         \<and> (s_ConversationID s \<noteq> [] \<or> s_AttachmentRefs s \<noteq> [] \<or> s_Extensions s \<noteq> [] \<or> s_KnowledgeRefs s \<noteq> []))
   \<and> \<not> (s_Kind s = TaskKindConversationTool \<and> (s_AttachmentRefs s \<noteq> [] \<or> s_Extensions s \<noteq> [] \<or> s_KnowledgeRefs s \<noteq> []))
   \<and> \<not> (s_Kind s = TaskKindCloudWorker \<and> (s_AttachmentRefs s \<noteq> [] \<or> s_Extensions s \<noteq> [] \<or> s_KnowledgeRefs s \<noteq> []))
   \<and> \<not> (s_ConversationID s \<noteq> [] \<and> \<not> ValidUUID X (s_ConversationID s))
   \<and> \<not> (s_TimeoutSeconds s < 0 \<or> s_TimeoutSeconds s > MaxTimeoutSeconds)"

definition spec_trim :: "TaskSpec \<Rightarrow> TaskSpec" where
  "spec_trim s = s\<lparr>s_Kind := (if s_Kind s = TaskKindOther [] then TaskKindAgent else s_Kind s),
     s_ModelProfileID := TrimSpace (s_ModelProfileID s), s_ConversationID := TrimSpace (s_ConversationID s),
     s_IdempotencyKey := TrimSpace (s_IdempotencyKey s)\<rparr>"

definition TaskSpec_Normalize :: "ext \<Rightarrow> TaskSpec \<Rightarrow> task_error + TaskSpec" where
  "TaskSpec_Normalize X s0 = (let s1 = spec_trim s0 in
     if TrimSpace (s_Goal s1) = [] \<or> \<not> ValidString (s_Goal s1) \<or> length (s_Goal s1) > MaxGoalBytes
        \<or> \<not> ValidUUID X (s_IdempotencyKey s1) then Inl ErrInvalid
     else rbind (normalizePayload X s1) (\<lambda>s.
       if \<not> spec_shape_ok X s then Inl ErrInvalid
       else rbind (normalizeRefs (s_AttachmentRefs s)) (\<lambda>att.
            rbind (normalizeExtensions X (s_Extensions s)) (\<lambda>exts.
            rbind (normalizeRefs (s_KnowledgeRefs s)) (\<lambda>kn.
            Inr (s\<lparr>s_AttachmentRefs := att, s_Extensions := exts, s_KnowledgeRefs := kn,
                   s_AvailableAt := (if IsZero (s_AvailableAt s) then s_AvailableAt s
                                     else to_UTC (s_AvailableAt s))\<rparr>))))))"

definition TaskSpec_Validate :: "ext \<Rightarrow> TaskSpec \<Rightarrow> task_error option" where
  "TaskSpec_Validate X s = err_of (TaskSpec_Normalize X s)"

record TaskTemplate =
  tt_Kind :: TaskKind
  tt_Payload :: TaskPayload
  tt_Goal :: string
  tt_ConversationID :: string
  tt_AttachmentRefs :: "string list"
  tt_ModelProfileID :: string
  tt_Extensions :: "ExtensionSelection list"
  tt_KnowledgeRefs :: "string list"
  tt_TimeoutSeconds :: int

definition sentinel_uuid :: string where
  "sentinel_uuid = ''00000000-0000-4000-8000-000000000001''"

definition dynamicScheduledProfile :: "TaskTemplate \<Rightarrow> bool" where
  "dynamicScheduledProfile t \<longleftrightarrow>
     (if tt_Kind t = TaskKindOther [] then TaskKindAgent else tt_Kind t) = TaskKindAgent
     \<and> TrimSpace (tt_ModelProfileID t) = []
     \<and> (case pl_Agent (tt_Payload t) of None \<Rightarrow> False | Some a \<Rightarrow> ap_ScheduledConversation a \<noteq> None)"

definition template_spec :: "TaskTemplate \<Rightarrow> string \<Rightarrow> string \<Rightarrow> gotime \<Rightarrow> TaskSpec" where
  "template_spec t profile key at = \<lparr>s_Kind = tt_Kind t, s_Payload = tt_Payload t, s_Goal = tt_Goal t,
     s_ConversationID = tt_ConversationID t, s_AttachmentRefs = tt_AttachmentRefs t,
     s_ModelProfileID = profile, s_Extensions = tt_Extensions t, s_KnowledgeRefs = tt_KnowledgeRefs t,
     s_TimeoutSeconds = tt_TimeoutSeconds t, s_IdempotencyKey = key, s_AvailableAt = at\<rparr>"

definition spec_template :: "TaskSpec \<Rightarrow> string \<Rightarrow> TaskTemplate" where
  "spec_template s profile = \<lparr>tt_Kind = s_Kind s, tt_Payload = s_Payload s, tt_Goal = s_Goal s,
     tt_ConversationID = s_ConversationID s, tt_AttachmentRefs = s_AttachmentRefs s,
     tt_ModelProfileID = profile, tt_Extensions = s_Extensions s, tt_KnowledgeRefs = s_KnowledgeRefs s,
     tt_TimeoutSeconds = s_TimeoutSeconds s\<rparr>"

definition TaskTemplate_Normalize :: "ext \<Rightarrow> TaskTemplate \<Rightarrow> task_error + TaskTemplate" where
  "TaskTemplate_Normalize X t =
    (let dyn = dynamicScheduledProfile t;
         profile = (if dyn then sentinel_uuid else tt_ModelProfileID t) in
     case TaskSpec_Normalize X (template_spec t profile sentinel_uuid time_zero) of Inl e \<Rightarrow> Inl e
     | Inr s \<Rightarrow> Inr (spec_template s (if dyn then [] else s_ModelProfileID s)))"

definition TaskTemplate_Materialize :: "ext \<Rightarrow> TaskTemplate \<Rightarrow> string \<Rightarrow> gotime \<Rightarrow> task_error + TaskSpec" where
  "TaskTemplate_Materialize X t key at = (case TaskTemplate_Normalize X t of Inl e \<Rightarrow> Inl e
     | Inr n \<Rightarrow> if \<not> ValidUUID X key \<or> IsZero at then Inl ErrInvalid
         else TaskSpec_Normalize X (template_spec n (tt_ModelProfileID n) key (to_UTC at)))"

end
