(* ===== verification/Task_Snapshot.thy ===== *)
theory Task_Snapshot
  imports Task_Types
begin

text \<open>
  File references and results of \<^verbatim>\<open>src/internal/coretask/types.go\<close>, and the execution snapshots and
  the model and tool ledgers of \<^verbatim>\<open>src/internal/coretask/execution.go\<close>. A struct that is hashed is
  first turned into the JSON value the encoder prints; the deep copy that
  \<open>canonicalWithoutDigest\<close> makes through the encoder and the decoder is the identity here, which
  it is on strings that are valid UTF-8.
\<close>

section \<open>File references and results\<close>

record FileRef =
  fr_Path :: string
  fr_Digest :: string
  fr_Size :: int

definition FileRef_Validate :: "FileRef \<Rightarrow> task_error option" where
  "FileRef_Validate f = (let p = TrimSpace (fr_Path f) in
     if p = [] \<or> length p > MaxFilePathBytes \<or> \<not> ValidString p \<or> path_IsAbs p \<or> path_Clean p \<noteq> p
        \<or> p = ''.'' \<or> HasPrefix p ''../'' \<or> CHR 0x5C \<in> set p \<or> fr_Size f < 0 \<or> length (fr_Digest f) \<noteq> 64
     then Some ErrInvalid
     else if \<not> list_all hex_digit (fr_Digest f) then Some ErrInvalid else None)"

record Result =
  r_Text :: string
  r_JSON :: string
  r_Files :: "FileRef list"
  r_Summary :: string

fun first_error :: "('a \<Rightarrow> 'e option) \<Rightarrow> 'a list \<Rightarrow> 'e option" where
  "first_error f [] = None"
| "first_error f (x # xs) = (case f x of Some e \<Rightarrow> Some e | None \<Rightarrow> first_error f xs)"

definition Result_Validate :: "ext \<Rightarrow> Result \<Rightarrow> task_error option" where
  "Result_Validate X r =
    (if length (r_Text r) > MaxResultTextBytes \<or> \<not> ValidString (r_Text r) \<or> length (r_JSON r) > MaxResultBytes
        \<or> length (r_Summary r) > MaxSummaryBytes \<or> \<not> ValidString (r_Summary r) \<or> length (r_Files r) > MaxFileCount
     then Some ErrInvalid
     else if length (r_JSON r) > 0 \<and> \<not> json_Valid X (r_JSON r) then Some ErrInvalid
     else first_error FileRef_Validate (r_Files r))"

section \<open>Execution snapshots\<close>

record ModelProfileSnapshot =
  ms_ProfileID :: string
  ms_Revision :: int
  ms_CredentialVersion :: int
  ms_Digest :: string
  ms_SecretRef :: string
  ms_Provider :: string
  ms_RequestDialect :: string
  ms_ModelKind :: string
  ms_BaseURL :: string
  ms_Model :: string
  ms_SystemPrompt :: string
  ms_Temperature :: "gofloat option"
  ms_TopP :: "gofloat option"
  ms_MaxOutputTokens :: int
  ms_ContextWindow :: int
  ms_ReasoningEffort :: string

record ToolDescriptor =
  td_Name :: string
  td_Description :: string
  td_InputSchema :: string
  td_SchemaDigest :: string

record ExtensionExecutionSnapshot =
  xs_Kind :: ExtensionKind
  xs_InstallationID :: string
  xs_Revision :: int
  xs_VersionID :: string
  xs_Version :: string
  xs_ContentDigest :: string
  xs_ArtifactDigest :: string
  xs_AllowedTools :: "string list"
  xs_Tools :: "ToolDescriptor list"

record KnowledgeExecutionSnapshot =
  ks_SourceID :: string
  ks_Revision :: int
  ks_ContentDigest :: string
  ks_IndexDigest :: string
  ks_Ready :: bool

record AttachmentDescriptor =
  ad_ID :: string
  ad_RelativePath :: string
  ad_Digest :: string
  ad_Size :: int
  ad_MediaType :: string

record ExecutionSnapshot =
  sn_Model :: ModelProfileSnapshot
  sn_Extensions :: "ExtensionExecutionSnapshot list"
  sn_Knowledge :: "KnowledgeExecutionSnapshot list"
  sn_Attachments :: "AttachmentDescriptor list"
  sn_Digest :: string

text \<open>The JSON value of a field with \<open>omitempty\<close> is left out when it is empty. \<open>sort.Slice\<close> is
  not stable, but a snapshot with two descriptors of the same name is refused by \<open>Validate\<close>.\<close>

definition omitempty :: "bool \<Rightarrow> string \<Rightarrow> json \<Rightarrow> (string \<times> json) list" where
  "omitempty absent k v = (if absent then [] else [(k, v)])"

definition opt_num :: "gofloat option \<Rightarrow> json" where
  "opt_num f = (case f of None \<Rightarrow> JNull | Some x \<Rightarrow> JNum x)"

definition model_json :: "ModelProfileSnapshot \<Rightarrow> json" where
  "model_json m = JObj ([(''profile_id'', JStr (ms_ProfileID m)), (''revision'', JInt (ms_Revision m)),
     (''credential_version'', JInt (ms_CredentialVersion m)), (''digest'', JStr (ms_Digest m)),
     (''secret_ref'', JStr (ms_SecretRef m)), (''provider'', JStr (ms_Provider m)),
     (''request_dialect'', JStr (ms_RequestDialect m)), (''model_kind'', JStr (ms_ModelKind m)),
     (''base_url'', JStr (ms_BaseURL m)), (''model'', JStr (ms_Model m)),
     (''system_prompt'', JStr (ms_SystemPrompt m))]
     @ omitempty (ms_Temperature m = None) ''temperature'' (opt_num (ms_Temperature m))
     @ omitempty (ms_TopP m = None) ''top_p'' (opt_num (ms_TopP m))
     @ [(''max_output_tokens'', JInt (ms_MaxOutputTokens m)), (''context_window'', JInt (ms_ContextWindow m)),
        (''reasoning_effort'', JStr (ms_ReasoningEffort m))])"

text \<open>A raw schema is printed as the value it holds, and a nil one (the empty string) as null. A schema
  that is not valid JSON makes the encoder fail, which \<open>ComputeDigest\<close> reports.\<close>

definition schema_value :: "ext \<Rightarrow> string \<Rightarrow> json" where
  "schema_value X raw = (if raw = [] then JNull
     else case json_Unmarshal X raw of None \<Rightarrow> JRaw raw | Some v \<Rightarrow> v)"

definition tool_json :: "ext \<Rightarrow> ToolDescriptor \<Rightarrow> json" where
  "tool_json X d = JObj [(''name'', JStr (td_Name d)), (''description'', JStr (td_Description d)),
     (''input_schema'', schema_value X (td_InputSchema d)), (''schema_digest'', JStr (td_SchemaDigest d))]"

definition extension_json :: "ext \<Rightarrow> ExtensionExecutionSnapshot \<Rightarrow> json" where
  "extension_json X e = JObj ([(''kind'', JStr (ExtensionKind_string (xs_Kind e))),
     (''installation_id'', JStr (xs_InstallationID e)), (''revision'', JInt (xs_Revision e)),
     (''version_id'', JStr (xs_VersionID e)), (''version'', JStr (xs_Version e)),
     (''content_digest'', JStr (xs_ContentDigest e)), (''artifact_digest'', JStr (xs_ArtifactDigest e))]
     @ omitempty (xs_AllowedTools e = []) ''allowed_tools'' (JArr (map JStr (xs_AllowedTools e)))
     @ omitempty (xs_Tools e = []) ''tools'' (JArr (map (tool_json X) (xs_Tools e))))"

definition knowledge_json :: "KnowledgeExecutionSnapshot \<Rightarrow> json" where
  "knowledge_json k = JObj [(''source_id'', JStr (ks_SourceID k)), (''revision'', JInt (ks_Revision k)),
     (''content_digest'', JStr (ks_ContentDigest k)), (''index_digest'', JStr (ks_IndexDigest k)),
     (''ready'', JBool (ks_Ready k))]"

definition attachment_json :: "AttachmentDescriptor \<Rightarrow> json" where
  "attachment_json a = JObj [(''id'', JStr (ad_ID a)), (''relative_path'', JStr (ad_RelativePath a)),
     (''digest'', JStr (ad_Digest a)), (''size'', JInt (ad_Size a)), (''media_type'', JStr (ad_MediaType a))]"

definition snapshot_json :: "ext \<Rightarrow> ExecutionSnapshot \<Rightarrow> json" where
  "snapshot_json X s = JObj ([(''model'', model_json (sn_Model s))]
     @ omitempty (sn_Extensions s = []) ''extensions'' (JArr (map (extension_json X) (sn_Extensions s)))
     @ omitempty (sn_Knowledge s = []) ''knowledge'' (JArr (map knowledge_json (sn_Knowledge s)))
     @ omitempty (sn_Attachments s = []) ''attachments'' (JArr (map attachment_json (sn_Attachments s)))
     @ [(''digest'', JStr (sn_Digest s))])"

definition normalizeTool :: "ext \<Rightarrow> ToolDescriptor \<Rightarrow> ToolDescriptor" where
  "normalizeTool X d = d\<lparr>td_Name := TrimSpace (td_Name d), td_Description := TrimSpace (td_Description d),
     td_SchemaDigest := ToLower X (TrimSpace (td_SchemaDigest d)),
     td_InputSchema := (case json_Unmarshal X (td_InputSchema d) of None \<Rightarrow> td_InputSchema d
        | Some v \<Rightarrow> json_Marshal X v)\<rparr>"

definition normalizeSnapshotExt :: "ext \<Rightarrow> ExtensionExecutionSnapshot \<Rightarrow> ExtensionExecutionSnapshot" where
  "normalizeSnapshotExt X e = e\<lparr>xs_InstallationID := TrimSpace (xs_InstallationID e),
     xs_Version := TrimSpace (xs_Version e), xs_AllowedTools := map TrimSpace (xs_AllowedTools e),
     xs_Tools := sort_key td_Name (map (normalizeTool X) (xs_Tools e))\<rparr>"

definition normalizeSnapshot :: "ext \<Rightarrow> ExecutionSnapshot \<Rightarrow> ExecutionSnapshot" where
  "normalizeSnapshot X s = s\<lparr>sn_Extensions := map (normalizeSnapshotExt X) (sn_Extensions s),
     sn_Knowledge := map (\<lambda>k. k\<lparr>ks_SourceID := TrimSpace (ks_SourceID k)\<rparr>) (sn_Knowledge s),
     sn_Attachments := map (\<lambda>a. a\<lparr>ad_ID := TrimSpace (ad_ID a), ad_RelativePath := TrimSpace (ad_RelativePath a),
         ad_Digest := ToLower X (TrimSpace (ad_Digest a)), ad_MediaType := TrimSpace (ad_MediaType a)\<rparr>)
       (sn_Attachments s)\<rparr>"

definition schemas_encodable :: "ext \<Rightarrow> ExecutionSnapshot \<Rightarrow> bool" where
  "schemas_encodable X s = list_all (\<lambda>e. list_all (\<lambda>d. td_InputSchema d = [] \<or> json_Valid X (td_InputSchema d))
     (xs_Tools e)) (sn_Extensions s)"

definition canonicalWithoutDigest :: "ext \<Rightarrow> ExecutionSnapshot \<Rightarrow> string option" where
  "canonicalWithoutDigest X s = (if \<not> schemas_encodable X s then None
     else Some (json_Marshal X (snapshot_json X (normalizeSnapshot X (s\<lparr>sn_Digest := []\<rparr>)))))"

definition ComputeDigest :: "ext \<Rightarrow> ExecutionSnapshot \<Rightarrow> string option" where
  "ComputeDigest X s = map_option (sha256_hex X) (canonicalWithoutDigest X s)"

definition model_ok :: "ext \<Rightarrow> ModelProfileSnapshot \<Rightarrow> bool" where
  "model_ok X m \<longleftrightarrow> ms_ProfileID m = [] \<or>
    \<not> (\<not> ValidUUID X (ms_ProfileID m) \<or> ms_Revision m \<le> 0 \<or> ms_CredentialVersion m \<le> 0 \<or> length (ms_Digest m) \<noteq> 64
       \<or> length (ms_SecretRef m) = 0 \<or> ms_Provider m = [] \<or> ms_RequestDialect m = [] \<or> ms_ModelKind m = []
       \<or> ms_BaseURL m = [] \<or> ms_Model m = []) \<and> hex_DecodeString_ok (ms_Digest m)"

fun tools_check :: "ext \<Rightarrow> ToolDescriptor list \<Rightarrow> string list \<Rightarrow> task_error + string list" where
  "tools_check X [] names = Inr names"
| "tools_check X (d # ds) names =
    (if td_Name d = [] \<or> td_InputSchema d = [] \<or> \<not> json_Valid X (td_InputSchema d) \<or> length (td_SchemaDigest d) \<noteq> 64
     then Inl ErrInvalid
     else if td_Name d \<in> set names then Inl ErrConflict
     else case json_Unmarshal X (td_InputSchema d) of
         Some (JObj kvs) \<Rightarrow> if sha256_hex X (json_Marshal X (JObj kvs)) \<noteq> ToLower X (td_SchemaDigest d)
             then Inl ErrRevisionConflict else tools_check X ds (td_Name d # names)
       | _ \<Rightarrow> Inl ErrInvalid)"

definition allowed_check :: "string list \<Rightarrow> string \<Rightarrow> task_error option" where
  "allowed_check names n = (if n = [] then Some ErrInvalid else if names = [] then Some ErrRevisionConflict
     else if n \<notin> set names then Some ErrRevisionConflict else None)"

definition extension_check :: "ext \<Rightarrow> ExtensionExecutionSnapshot \<Rightarrow> task_error option" where
  "extension_check X e =
    (if (xs_Kind e \<noteq> ExtensionMCP \<and> xs_Kind e \<noteq> ExtensionSkill) \<or> \<not> ValidUUID X (xs_InstallationID e)
        \<or> xs_Revision e \<le> 0 \<or> \<not> ValidUUID X (xs_VersionID e) \<or> xs_Version e = []
        \<or> length (xs_ContentDigest e) \<noteq> 64 \<or> length (xs_ArtifactDigest e) \<noteq> 64 then Some ErrInvalid
     else if \<not> hex_DecodeString_ok (xs_ContentDigest e) then Some ErrInvalid
     else if \<not> hex_DecodeString_ok (xs_ArtifactDigest e) then Some ErrInvalid
     else case tools_check X (xs_Tools e) [] of Inl err \<Rightarrow> Some err
       | Inr names \<Rightarrow> first_error (allowed_check names) (xs_AllowedTools e))"

definition knowledge_check :: "ext \<Rightarrow> KnowledgeExecutionSnapshot \<Rightarrow> task_error option" where
  "knowledge_check X k = (if \<not> ValidUUID X (ks_SourceID k) \<or> ks_Revision k \<le> 0 \<or> \<not> ks_Ready k
     \<or> length (ks_ContentDigest k) \<noteq> 64 \<or> length (ks_IndexDigest k) \<noteq> 64 then Some ErrInvalid else None)"

definition attachment_check :: "ext \<Rightarrow> AttachmentDescriptor \<Rightarrow> task_error option" where
  "attachment_check X a = (if \<not> ValidUUID X (ad_ID a) \<or> ad_RelativePath a = [] \<or> ad_Digest a = [] \<or> ad_Size a < 0
     \<or> ad_MediaType a = [] then Some ErrInvalid
     else FileRef_Validate \<lparr>fr_Path = ad_RelativePath a, fr_Digest = ad_Digest a, fr_Size = ad_Size a\<rparr>)"

text \<open>Everything \<open>Validate\<close> checks before it compares the digest.\<close>

definition snapshot_structure :: "ext \<Rightarrow> ExecutionSnapshot \<Rightarrow> task_error option" where
  "snapshot_structure X s =
    (if \<not> model_ok X (sn_Model s) then Some ErrInvalid
     else case first_error (extension_check X) (sn_Extensions s) of Some e \<Rightarrow> Some e
       | None \<Rightarrow> if \<not> distinct (concat (map xs_AllowedTools (sn_Extensions s))) then Some ErrConflict
           else (case first_error (knowledge_check X) (sn_Knowledge s) of Some e \<Rightarrow> Some e
             | None \<Rightarrow> first_error (attachment_check X) (sn_Attachments s)))"

definition ExecutionSnapshot_Validate :: "ext \<Rightarrow> ExecutionSnapshot \<Rightarrow> task_error option" where
  "ExecutionSnapshot_Validate X s = (if sn_Digest s = [] then Some ErrInvalid
     else case snapshot_structure X s of Some e \<Rightarrow> Some e
       | None \<Rightarrow> (case ComputeDigest X s of None \<Rightarrow> Some ErrInvalid
           | Some d \<Rightarrow> if d \<noteq> sn_Digest s then Some ErrInvalid else None))"

definition Seal :: "ext \<Rightarrow> ExecutionSnapshot option \<Rightarrow> (task_error option \<times> ExecutionSnapshot option)" where
  "Seal X so = (case so of None \<Rightarrow> (Some ErrInvalid, None)
     | Some s0 \<Rightarrow> (let s = normalizeSnapshot X s0 in
         case ComputeDigest X s of None \<Rightarrow> (Some ErrInvalid, Some s)
         | Some d \<Rightarrow> (let s' = s\<lparr>sn_Digest := d\<rparr> in (ExecutionSnapshot_Validate X s', Some s'))))"

section \<open>Model and tool ledgers\<close>

datatype ModelRoundState = ModelRoundPrepared | ModelRoundDispatched | ModelRoundCompleted
  | ModelRoundUncertain | ModelRoundOther string

record ModelRoundLedger =
  ml_TaskID :: string
  ml_Attempt :: u32
  ml_Round :: u32
  ml_LeaseEpoch :: u64
  ml_TaskRevision :: u64
  ml_InputDigest :: string
  ml_State :: ModelRoundState
  ml_Response :: string
  ml_ErrorCode :: string
  ml_ErrorSummary :: string

fun validModelState :: "ModelRoundState \<Rightarrow> bool" where
  "validModelState (ModelRoundOther _) = False"
| "validModelState _ = True"

definition ModelRoundLedger_Validate :: "ext \<Rightarrow> ModelRoundLedger \<Rightarrow> task_error option" where
  "ModelRoundLedger_Validate X m =
    (if \<not> ValidUUID X (ml_TaskID m) \<or> ml_Attempt m = 0 \<or> ml_LeaseEpoch m = 0 \<or> ml_TaskRevision m = 0
        \<or> length (ml_InputDigest m) \<noteq> 64 \<or> \<not> validModelState (ml_State m) then Some ErrInvalid
     else if ml_State m = ModelRoundCompleted \<and> length (ml_Response m) = 0 then Some ErrInvalid
     else if ml_State m = ModelRoundUncertain \<and> (TrimSpace (ml_ErrorCode m) = [] \<or> TrimSpace (ml_ErrorSummary m) = []
        \<or> length (ml_Response m) \<noteq> 0) then Some ErrInvalid
     else if length (ml_Response m) > MaxResultBytes \<or> (length (ml_Response m) > 0 \<and> \<not> json_Valid X (ml_Response m))
     then Some ErrInvalid else None)"

datatype ToolCallState = ToolCallPrepared | ToolCallDispatched | ToolCallCompleted
  | ToolCallUncertain | ToolCallOther string

record ToolCallLedger =
  tl_TaskID :: string
  tl_Attempt :: u32
  tl_Round :: u32
  tl_CallID :: string
  tl_LeaseEpoch :: u64
  tl_TaskRevision :: u64
  tl_ToolDigest :: string
  tl_ArgumentsDigest :: string
  tl_State :: ToolCallState
  tl_Result :: string
  tl_ErrorCode :: string
  tl_ErrorSummary :: string

fun validToolState :: "ToolCallState \<Rightarrow> bool" where
  "validToolState (ToolCallOther _) = False"
| "validToolState _ = True"

definition ToolCallLedger_Validate :: "ext \<Rightarrow> ToolCallLedger \<Rightarrow> task_error option" where
  "ToolCallLedger_Validate X t =
    (if \<not> ValidUUID X (tl_TaskID t) \<or> tl_Attempt t = 0 \<or> tl_LeaseEpoch t = 0 \<or> tl_TaskRevision t = 0
        \<or> TrimSpace (tl_CallID t) = [] \<or> length (tl_ToolDigest t) \<noteq> 64 \<or> length (tl_ArgumentsDigest t) \<noteq> 64
        \<or> \<not> validToolState (tl_State t) then Some ErrInvalid
     else if tl_State t = ToolCallCompleted \<and> length (tl_Result t) = 0 then Some ErrInvalid
     else if tl_State t = ToolCallUncertain \<and> (TrimSpace (tl_ErrorCode t) = [] \<or> TrimSpace (tl_ErrorSummary t) = [])
     then Some ErrInvalid
     else if length (tl_Result t) > MaxResultBytes \<or> (length (tl_Result t) > 0 \<and> \<not> json_Valid X (tl_Result t))
     then Some ErrInvalid else None)"

end
