(* ===== verification/Task_Machine.thy ===== *)
theory Task_Machine
  imports Task_Snapshot
begin

text \<open>
  The durable task of \<^verbatim>\<open>src/internal/coretask/types.go\<close> (\<open>Progress\<close>, \<open>Lease\<close>, \<open>Task\<close> and
  \<open>Task.Validate\<close>), its state machine in \<^verbatim>\<open>src/internal/coretask/transition.go\<close> and the mutation
  envelope of \<^verbatim>\<open>src/internal/coretask/scheduler.go\<close>.

  An operation on a \<open>*Task\<close> takes an optional task (\<^term>\<open>None\<close> is the nil pointer) and
  returns either the error or the new value of the task: no operation writes through the pointer
  before its last check has passed, so on an error the caller keeps the old task.
\<close>

section \<open>Data\<close>

record Progress =
  p_EventID :: string
  p_TaskID :: string
  p_Attempt :: u32
  p_Sequence :: u64
  p_At :: gotime
  p_Status :: Status
  p_Phase :: string
  p_Message :: string
  p_Percent :: "gofloat option"
  p_ResultSummary :: string
  p_ResultJSON :: string
  p_ErrorCode :: string
  p_ErrorSummary :: string

record Lease =
  l_TaskID :: string
  l_Attempt :: u32
  l_Epoch :: u64
  l_Holder :: string
  l_ExpiresAt :: gotime

record Task =
  t_ID :: string
  t_Spec :: TaskSpec
  t_Status :: Status
  t_Attempt :: u32
  t_LeaseEpoch :: u64
  t_Revision :: u64
  t_ProgressSequence :: u64
  t_CreatedAt :: gotime
  t_UpdatedAt :: gotime
  t_AvailableAt :: gotime
  t_ExecutionStartedAt :: "gotime option"
  t_ExecutionDeadlineAt :: "gotime option"
  t_DeletedAt :: "gotime option"
  t_Lease :: "Lease option"
  t_Result :: "Result option"
  t_FailureCode :: string
  t_FailureSummary :: string
  t_RetryOfTaskID :: string
  t_Snapshot :: "ExecutionSnapshot option"

record MutationCommand =
  m_IdempotencyKey :: string
  m_RequestDigest :: string
  m_ExpectedRevision :: u64

record Fence =
  f_TaskID :: string
  f_Attempt :: u32
  f_LeaseEpoch :: u64
  f_ExpectedRevision :: u64

record ClaimCommand =
  cc_TaskID :: string
  cc_Holder :: string
  cc_ExpectedRevision :: u64
  cc_LeaseEpoch :: u64
  cc_LeaseTTL :: int
  cc_At :: gotime

record RenewLeaseCommand =
  rn_Fence :: Fence
  rn_Holder :: string
  rn_LeaseTTL :: int
  rn_At :: gotime

record ProgressCommand =
  pc_Fence :: Fence
  pc_Progress :: Progress
  pc_ExpectedSequence :: u64

record WaitUserCommand =
  wu_Fence :: Fence
  wu_Reason :: string
  wu_At :: gotime

record ResumeCommand =
  rs_TaskID :: string
  rs_ExpectedRevision :: u64

record CompleteCommand =
  co_Fence :: Fence
  co_Result :: Result
  co_At :: gotime

record CancelCommand =
  ca_TaskID :: string
  ca_Mutation :: MutationCommand
  ca_Reason :: string
  ca_At :: gotime

record TimeoutCommand =
  to_Fence :: Fence
  to_At :: gotime

record FailCommand =
  fc_Fence :: Fence
  fc_ErrorCode :: string
  fc_ErrorSummary :: string
  fc_At :: gotime

record ReclaimCommand =
  rc_TaskID :: string
  rc_Holder :: string
  rc_ExpectedRevision :: u64
  rc_LeaseEpoch :: u64
  rc_LeaseTTL :: int
  rc_At :: gotime

record DeleteTaskCommand =
  dc_TaskID :: string
  dc_Mutation :: MutationCommand
  dc_At :: gotime

record DeletedTaskResponse =
  dr_TaskID :: string
  dr_DeletedAt :: gotime
  dr_Revision :: u64
  dr_Tombstone :: bool

section \<open>Well-formed tasks\<close>

text \<open>\<open>Task.Validate\<close>: the checks of the fields that the status does not decide, then those it does.\<close>

definition task_fields :: "ext \<Rightarrow> Task \<Rightarrow> task_error option" where
  "task_fields X t =
    (if \<not> ValidUUID X (t_ID t) \<or> \<not> validStatus (t_Status t) \<or> t_Revision t = 0 \<or> IsZero (t_CreatedAt t)
        \<or> IsZero (t_UpdatedAt t) \<or> IsZero (t_AvailableAt t) \<or> \<not> InUTC (t_CreatedAt t) \<or> \<not> InUTC (t_UpdatedAt t)
        \<or> \<not> InUTC (t_AvailableAt t) \<or> t_Attempt t > 1 then Some ErrInvalid
     else case TaskSpec_Validate X (t_Spec t) of Some e \<Rightarrow> Some e
     | None \<Rightarrow> (case (case t_Snapshot t of None \<Rightarrow> None | Some s \<Rightarrow> ExecutionSnapshot_Validate X s) of Some e \<Rightarrow> Some e
     | None \<Rightarrow>
       if t_RetryOfTaskID t \<noteq> [] \<and> (\<not> ValidUUID X (t_RetryOfTaskID t) \<or> t_RetryOfTaskID t = t_ID t) then Some ErrInvalid
       else if (case t_DeletedAt t of None \<Rightarrow> False | Some d \<Rightarrow> IsZero d \<or> \<not> InUTC d) then Some ErrInvalid
       else None))"

definition opt_result :: "ext \<Rightarrow> Task \<Rightarrow> task_error option" where
  "opt_result X t = (case t_Result t of None \<Rightarrow> None | Some r \<Rightarrow> Result_Validate X r)"

definition lease_ok :: "Task \<Rightarrow> bool" where
  "lease_ok t = (case t_Lease t of None \<Rightarrow> False
     | Some l \<Rightarrow> \<not> (t_Attempt t \<noteq> 1 \<or> l_TaskID l \<noteq> t_ID t \<or> l_Attempt l \<noteq> t_Attempt t \<or> l_Epoch l \<noteq> t_LeaseEpoch t
         \<or> l_Holder l = [] \<or> length (l_Holder l) > MaxLeaseHolderBytes \<or> \<not> ValidString (l_Holder l)
         \<or> IsZero (l_ExpiresAt l) \<or> \<not> InUTC (l_ExpiresAt l)))"

definition task_outcome :: "ext \<Rightarrow> Task \<Rightarrow> task_error option" where
  "task_outcome X t =
    (if t_Status t = StatusWaitingUser \<and> t_Attempt t \<noteq> 1 then Some ErrInvalid
     else if t_Status t = StatusSucceeded \<and> (t_Attempt t \<noteq> 1 \<or> t_Result t = None \<or> t_FailureCode t \<noteq> []
        \<or> t_FailureSummary t \<noteq> []) then Some ErrInvalid
     else if t_Status t = StatusSucceeded \<and> opt_result X t \<noteq> None then opt_result X t
     else if (t_Status t = StatusRunning \<or> t_Status t = StatusQueued \<or> t_Status t = StatusWaitingUser)
        \<and> (t_Result t \<noteq> None \<or> t_FailureCode t \<noteq> [] \<or> t_FailureSummary t \<noteq> []) then Some ErrInvalid
     else if t_Status t = StatusFailed \<and> (t_Attempt t \<noteq> 1 \<or> TrimSpace (t_FailureCode t) = []
        \<or> length (t_FailureCode t) > 128 \<or> \<not> ValidString (t_FailureCode t) \<or> TrimSpace (t_FailureSummary t) = []
        \<or> length (t_FailureSummary t) > MaxSummaryBytes \<or> \<not> ValidString (t_FailureSummary t)) then Some ErrInvalid
     else if (t_Status t = StatusFailed \<or> t_Status t = StatusCanceled) \<and> opt_result X t \<noteq> None then opt_result X t
     else if t_Status t = StatusRunning then (if lease_ok t then None else Some ErrInvalid)
     else if t_Lease t \<noteq> None then Some ErrInvalid else None)"

definition Task_Validate :: "ext \<Rightarrow> Task \<Rightarrow> task_error option" where
  "Task_Validate X t = (case task_fields X t of Some e \<Rightarrow> Some e | None \<Rightarrow> task_outcome X t)"

section \<open>Transitions\<close>

fun terminal :: "Status \<Rightarrow> bool" where
  "terminal StatusSucceeded = True"
| "terminal StatusFailed = True"
| "terminal StatusCanceled = True"
| "terminal _ = False"

definition CanTransition :: "Task \<Rightarrow> Status \<Rightarrow> bool" where
  "CanTransition t dest = (if \<not> validStatus dest \<or> terminal (t_Status t) then False
     else case t_Status t of
       StatusQueued \<Rightarrow> dest = StatusRunning \<or> dest = StatusCanceled
     | StatusRunning \<Rightarrow> dest = StatusSucceeded \<or> dest = StatusFailed \<or> dest = StatusWaitingUser \<or> dest = StatusCanceled
     | StatusWaitingUser \<Rightarrow> dest = StatusQueued \<or> dest = StatusCanceled
     | _ \<Rightarrow> False)"

definition transition :: "Task \<Rightarrow> Status \<Rightarrow> task_error + Task" where
  "transition t dest = (if \<not> CanTransition t dest then Inl (if terminal (t_Status t) then ErrTerminal else ErrConflict)
     else Inr (t\<lparr>t_Status := dest, t_Revision := t_Revision t + 1,
                t_Lease := (if dest \<noteq> StatusRunning then None else t_Lease t)\<rparr>))"

definition Transition :: "ext \<Rightarrow> Task option \<Rightarrow> Status \<Rightarrow> task_error + Task" where
  "Transition X tp dest =
    (if terminal dest then
       (case tp of Some t \<Rightarrow> if terminal (t_Status t) then Inl ErrTerminal else Inl ErrConflict | None \<Rightarrow> Inl ErrConflict)
     else if dest = StatusRunning then Inl ErrConflict
     else case tp of None \<Rightarrow> Inl ErrInvalid
       | Some t \<Rightarrow> if Task_Validate X t \<noteq> None then Inl ErrInvalid
           else rbind (transition t dest) (\<lambda>next.
             case Task_Validate X next of Some e \<Rightarrow> Inl e | None \<Rightarrow> Inr next))"

definition Fence_validate :: "Fence \<Rightarrow> Task \<Rightarrow> bool \<Rightarrow> gotime \<Rightarrow> task_error option" where
  "Fence_validate f task requireLease tm =
    (if t_ID task \<noteq> f_TaskID f \<or> f_ExpectedRevision f = 0 \<or> t_Revision task \<noteq> f_ExpectedRevision f
     then Some ErrRevisionConflict
     else if requireLease \<and> (t_Status task \<noteq> StatusRunning \<or> f_Attempt f = 0 \<or> t_Attempt task \<noteq> f_Attempt f
        \<or> t_LeaseEpoch task \<noteq> f_LeaseEpoch f
        \<or> (case t_Lease task of None \<Rightarrow> True
           | Some l \<Rightarrow> l_Epoch l \<noteq> f_LeaseEpoch f \<or> IsZero tm \<or> \<not> InUTC tm \<or> \<not> Before tm (l_ExpiresAt l)))
     then Some ErrLeaseConflict else None)"

definition MutationCommand_Validate :: "ext \<Rightarrow> MutationCommand \<Rightarrow> task_error option" where
  "MutationCommand_Validate X m = (if \<not> ValidUUID X (m_IdempotencyKey m) \<or> length (m_RequestDigest m) \<noteq> 64
     \<or> ToLower X (m_RequestDigest m) \<noteq> m_RequestDigest m then Some ErrInvalid
     else if \<not> hex_DecodeString_ok (m_RequestDigest m) then Some ErrInvalid else None)"

definition ValidateExpectedRevision :: "MutationCommand \<Rightarrow> task_error option" where
  "ValidateExpectedRevision m = (if m_ExpectedRevision m = 0 then Some ErrInvalid else None)"

definition DeletedTaskResponse_Validate :: "ext \<Rightarrow> DeletedTaskResponse \<Rightarrow> task_error option" where
  "DeletedTaskResponse_Validate X r = (if \<not> ValidUUID X (dr_TaskID r) \<or> IsZero (dr_DeletedAt r) \<or> \<not> InUTC (dr_DeletedAt r)
     \<or> dr_Revision r = 0 \<or> \<not> dr_Tombstone r then Some ErrInvalid else None)"

definition validHolder :: "string \<Rightarrow> bool" where
  "validHolder holder0 = (let holder = TrimSpace holder0 in
     holder \<noteq> [] \<and> ValidString holder \<and> length holder \<le> MaxLeaseHolderBytes)"

definition LeaseEpochKnown :: "Task \<Rightarrow> u64 \<Rightarrow> bool" where
  "LeaseEpochKnown task epoch \<longleftrightarrow> epoch = t_LeaseEpoch task + 1"

definition ValidateClaim :: "Task \<Rightarrow> ClaimCommand \<Rightarrow> task_error option" where
  "ValidateClaim task c =
    (if t_ID task \<noteq> cc_TaskID c \<or> t_Status task \<noteq> StatusQueued \<or> cc_ExpectedRevision c = 0
        \<or> t_Revision task \<noteq> cc_ExpectedRevision c \<or> \<not> validHolder (cc_Holder c) \<or> cc_LeaseTTL c \<le> 0
        \<or> IsZero (cc_At c) \<or> \<not> InUTC (cc_At c) then Some ErrConflict
     else if \<not> LeaseEpochKnown task (cc_LeaseEpoch c) then Some ErrLeaseConflict else None)"

definition ValidateRenewLease :: "Task \<Rightarrow> RenewLeaseCommand \<Rightarrow> task_error option" where
  "ValidateRenewLease task c =
    (if rn_LeaseTTL c \<le> 0 \<or> \<not> validHolder (rn_Holder c) \<or> IsZero (rn_At c) \<or> \<not> InUTC (rn_At c) then Some ErrInvalid
     else case Fence_validate (rn_Fence c) task True (rn_At c) of Some e \<Rightarrow> Some e
       | None \<Rightarrow> if map_option l_Holder (t_Lease task) \<noteq> Some (rn_Holder c) then Some ErrLeaseConflict else None)"

fun percent_bad :: "gofloat \<Rightarrow> bool" where
  "percent_bad NaN = True"
| "percent_bad (Inf _) = True"
| "percent_bad (Finite m e) = (m < 0 \<or> float_less 100 m e)"

definition ValidateProgress :: "Task \<Rightarrow> ProgressCommand \<Rightarrow> task_error option" where
  "ValidateProgress task c = (let p = pc_Progress c in
     case Fence_validate (pc_Fence c) task True (p_At p) of Some e \<Rightarrow> Some e
     | None \<Rightarrow>
       if p_TaskID p \<noteq> t_ID task \<or> p_Attempt p \<noteq> t_Attempt task \<or> p_Sequence p = 0 \<or> IsZero (p_At p) \<or> \<not> InUTC (p_At p)
          \<or> \<not> validStatus (p_Status p)
          \<or> (p_Status p \<noteq> t_Status task \<and> \<not> (t_Status task = StatusRunning \<and> p_Status p = StatusWaitingUser))
          \<or> length (p_Message p) > MaxProgressMessage \<or> length (p_Phase p) > 512
          \<or> length (p_ResultSummary p) > MaxSummaryBytes \<or> length (p_ErrorCode p) > 128
          \<or> length (p_ErrorSummary p) > MaxSummaryBytes \<or> \<not> ValidString (p_Message p) \<or> \<not> ValidString (p_Phase p)
          \<or> \<not> ValidString (p_ResultSummary p) \<or> \<not> ValidString (p_ErrorCode p) \<or> \<not> ValidString (p_ErrorSummary p)
       then Some ErrInvalid
       else if (case p_Percent p of None \<Rightarrow> False | Some x \<Rightarrow> percent_bad x) then Some ErrInvalid else None)"

definition AllocateProgress :: "Task \<Rightarrow> ProgressCommand \<Rightarrow> task_error + Progress" where
  "AllocateProgress task c =
    (if pc_ExpectedSequence c \<noteq> t_ProgressSequence task \<or> p_Sequence (pc_Progress c) \<noteq> 0 then Inl ErrConflict
     else let p = (pc_Progress c)\<lparr>p_Sequence := t_ProgressSequence task + 1\<rparr> in
       case ValidateProgress task (c\<lparr>pc_Progress := p\<rparr>) of Some e \<Rightarrow> Inl e | None \<Rightarrow> Inr p)"

definition ValidateWaitUser :: "Task \<Rightarrow> WaitUserCommand \<Rightarrow> task_error option" where
  "ValidateWaitUser task c = (case Fence_validate (wu_Fence c) task True (wu_At c) of Some e \<Rightarrow> Some e
     | None \<Rightarrow> if TrimSpace (wu_Reason c) = [] then Some ErrInvalid else None)"

definition ValidateResume :: "Task \<Rightarrow> ResumeCommand \<Rightarrow> task_error option" where
  "ValidateResume task c = (if t_ID task \<noteq> rs_TaskID c \<or> t_Status task \<noteq> StatusWaitingUser
     \<or> rs_ExpectedRevision c = 0 \<or> t_Revision task \<noteq> rs_ExpectedRevision c then Some ErrConflict else None)"

definition ValidateComplete :: "ext \<Rightarrow> Task \<Rightarrow> CompleteCommand \<Rightarrow> task_error option" where
  "ValidateComplete X task c = (case Fence_validate (co_Fence c) task True (co_At c) of Some e \<Rightarrow> Some e
     | None \<Rightarrow> Result_Validate X (co_Result c))"

definition ValidateCancel :: "ext \<Rightarrow> Task \<Rightarrow> CancelCommand \<Rightarrow> task_error option" where
  "ValidateCancel X task c = (case MutationCommand_Validate X (ca_Mutation c) of Some e \<Rightarrow> Some e
     | None \<Rightarrow> (case ValidateExpectedRevision (ca_Mutation c) of Some e \<Rightarrow> Some e
     | None \<Rightarrow>
       if t_ID task \<noteq> ca_TaskID c \<or> t_Revision task \<noteq> m_ExpectedRevision (ca_Mutation c)
          \<or> \<not> CanTransition task StatusCanceled then Some ErrConflict
       else if IsZero (ca_At c) \<or> \<not> InUTC (ca_At c) then Some ErrInvalid
       else if t_Status task = StatusRunning \<and> map_option l_Epoch (t_Lease task) \<noteq> Some (t_LeaseEpoch task)
       then Some ErrLeaseConflict else None))"

definition ValidateDeleteCommand :: "ext \<Rightarrow> Task \<Rightarrow> DeleteTaskCommand \<Rightarrow> task_error option" where
  "ValidateDeleteCommand X task c =
    (if \<not> ValidUUID X (dc_TaskID c) \<or> dc_TaskID c \<noteq> t_ID task \<or> IsZero (dc_At c) \<or> \<not> InUTC (dc_At c) then Some ErrInvalid
     else case MutationCommand_Validate X (dc_Mutation c) of Some e \<Rightarrow> Some e
       | None \<Rightarrow> if m_ExpectedRevision (dc_Mutation c) \<noteq> t_Revision task then Some ErrRevisionConflict
           else if t_Status task = StatusRunning then Some ErrConflict else None)"

definition ValidateTimeout :: "Task \<Rightarrow> TimeoutCommand \<Rightarrow> task_error option" where
  "ValidateTimeout task c = (if IsZero (to_At c) \<or> \<not> InUTC (to_At c) then Some ErrInvalid
     else Fence_validate (to_Fence c) task True (to_At c))"

definition ValidateFail :: "Task \<Rightarrow> FailCommand \<Rightarrow> task_error option" where
  "ValidateFail task c = (if IsZero (fc_At c) \<or> \<not> InUTC (fc_At c) \<or> TrimSpace (fc_ErrorCode c) = []
     \<or> length (fc_ErrorCode c) > 128 \<or> length (fc_ErrorSummary c) > MaxSummaryBytes
     \<or> \<not> ValidString (fc_ErrorCode c) \<or> \<not> ValidString (fc_ErrorSummary c) then Some ErrInvalid
     else Fence_validate (fc_Fence c) task True (fc_At c))"

definition ValidateReclaim :: "Task \<Rightarrow> ReclaimCommand \<Rightarrow> task_error option" where
  "ValidateReclaim task c =
    (if t_ID task \<noteq> rc_TaskID c \<or> t_Status task \<noteq> StatusRunning \<or> t_Attempt task \<noteq> 1
        \<or> (case t_Lease task of None \<Rightarrow> True
           | Some l \<Rightarrow> l_Epoch l \<noteq> t_LeaseEpoch task \<or> rc_ExpectedRevision c = 0 \<or> t_Revision task \<noteq> rc_ExpectedRevision c
               \<or> rc_LeaseEpoch c \<noteq> t_LeaseEpoch task + 1 \<or> \<not> validHolder (rc_Holder c) \<or> rc_LeaseTTL c \<le> 0
               \<or> IsZero (rc_At c) \<or> \<not> InUTC (rc_At c) \<or> Before (rc_At c) (l_ExpiresAt l))
     then Some ErrConflict else None)"

definition Claim :: "Task option \<Rightarrow> ClaimCommand \<Rightarrow> task_error + (Lease \<times> Task)" where
  "Claim tp c = (case tp of None \<Rightarrow> Inl ErrInvalid
     | Some task \<Rightarrow> (case ValidateClaim task c of Some e \<Rightarrow> Inl e
       | None \<Rightarrow> (let task1 = task\<lparr>t_Status := StatusRunning, t_Attempt := 1, t_LeaseEpoch := cc_LeaseEpoch c,
                                 t_Revision := t_Revision task + 1\<rparr>;
                    lease = \<lparr>l_TaskID = t_ID task1, l_Attempt = t_Attempt task1, l_Epoch = cc_LeaseEpoch c,
                             l_Holder = TrimSpace (cc_Holder c),
                             l_ExpiresAt = time_Add (to_UTC (cc_At c)) (cc_LeaseTTL c)\<rparr>
                in Inr (lease, task1\<lparr>t_Lease := Some lease\<rparr>))))"

definition ApplyProgress :: "Task option \<Rightarrow> ProgressCommand \<Rightarrow> task_error + Task" where
  "ApplyProgress tp c = (case tp of None \<Rightarrow> Inl ErrInvalid
     | Some task \<Rightarrow> (case AllocateProgress task c of Inl e \<Rightarrow> Inl e
       | Inr _ \<Rightarrow> Inr (task\<lparr>t_ProgressSequence := t_ProgressSequence task + 1, t_Revision := t_Revision task + 1\<rparr>)))"

definition WaitForUser :: "Task option \<Rightarrow> WaitUserCommand \<Rightarrow> task_error + Task" where
  "WaitForUser tp c = (case tp of None \<Rightarrow> Inl ErrInvalid
     | Some task \<Rightarrow> (case ValidateWaitUser task c of Some e \<Rightarrow> Inl e
       | None \<Rightarrow> transition task StatusWaitingUser))"

definition Resume :: "Task option \<Rightarrow> ResumeCommand \<Rightarrow> task_error + Task" where
  "Resume tp c = (case tp of None \<Rightarrow> Inl ErrInvalid
     | Some task \<Rightarrow> (case ValidateResume task c of Some e \<Rightarrow> Inl e | None \<Rightarrow> transition task StatusQueued))"

definition Complete :: "ext \<Rightarrow> Task option \<Rightarrow> CompleteCommand \<Rightarrow> task_error + Task" where
  "Complete X tp c = (case tp of None \<Rightarrow> Inl ErrInvalid
     | Some task \<Rightarrow> (case ValidateComplete X task c of Some e \<Rightarrow> Inl e
       | None \<Rightarrow> transition (task\<lparr>t_Result := Some (co_Result c)\<rparr>) StatusSucceeded))"

definition Cancel :: "ext \<Rightarrow> Task option \<Rightarrow> CancelCommand \<Rightarrow> task_error + Task" where
  "Cancel X tp c = (case tp of None \<Rightarrow> Inl ErrInvalid
     | Some task \<Rightarrow> (case ValidateCancel X task c of Some e \<Rightarrow> Inl e
       | None \<Rightarrow> transition (if t_Status task = StatusRunning then task\<lparr>t_LeaseEpoch := t_LeaseEpoch task + 1\<rparr> else task)
                  StatusCanceled))"

definition Timeout :: "Task option \<Rightarrow> TimeoutCommand \<Rightarrow> task_error + Task" where
  "Timeout tp c = (case tp of None \<Rightarrow> Inl ErrInvalid
     | Some task \<Rightarrow> (case ValidateTimeout task c of Some e \<Rightarrow> Inl e
       | None \<Rightarrow> transition (task\<lparr>t_FailureCode := ErrTimedOut_text, t_FailureSummary := ''task timed out''\<rparr>) StatusFailed))"

definition Fail :: "Task option \<Rightarrow> FailCommand \<Rightarrow> task_error + Task" where
  "Fail tp c = (case tp of None \<Rightarrow> Inl ErrInvalid
     | Some task \<Rightarrow> (case ValidateFail task c of Some e \<Rightarrow> Inl e
       | None \<Rightarrow> transition (task\<lparr>t_FailureCode := fc_ErrorCode c, t_FailureSummary := fc_ErrorSummary c\<rparr>) StatusFailed))"

definition Reclaim :: "Task option \<Rightarrow> ReclaimCommand \<Rightarrow> task_error + (Lease \<times> Task)" where
  "Reclaim tp c = (case tp of None \<Rightarrow> Inl ErrInvalid
     | Some task \<Rightarrow> (case ValidateReclaim task c of Some e \<Rightarrow> Inl e
       | None \<Rightarrow> (let lease = \<lparr>l_TaskID = t_ID task, l_Attempt = t_Attempt task, l_Epoch = rc_LeaseEpoch c,
                             l_Holder = TrimSpace (rc_Holder c),
                             l_ExpiresAt = time_Add (to_UTC (rc_At c)) (rc_LeaseTTL c)\<rparr>
                in Inr (lease, task\<lparr>t_LeaseEpoch := rc_LeaseEpoch c, t_Revision := t_Revision task + 1,
                                    t_Lease := Some lease\<rparr>))))"

definition ValidateDelete :: "Task \<Rightarrow> u64 \<Rightarrow> task_error option" where
  "ValidateDelete task expectedRevision =
    (if expectedRevision = 0 \<or> t_Revision task \<noteq> expectedRevision then Some ErrRevisionConflict
     else if t_Status task = StatusRunning then Some ErrConflict else None)"

definition SoftDelete :: "Task option \<Rightarrow> u64 \<Rightarrow> gotime \<Rightarrow> task_error + Task" where
  "SoftDelete tp expectedRevision tm = (case tp of None \<Rightarrow> Inl ErrInvalid
     | Some task \<Rightarrow> if IsZero tm \<or> \<not> InUTC tm then Inl ErrInvalid
         else case ValidateDelete task expectedRevision of Some e \<Rightarrow> Inl e
           | None \<Rightarrow> if t_DeletedAt task \<noteq> None then Inr task
               else Inr (task\<lparr>t_DeletedAt := Some (to_UTC tm), t_Revision := t_Revision task + 1,
                              t_UpdatedAt := to_UTC tm\<rparr>))"

end
