(* ===== verification/Task_Lifecycle.thy ===== *)
theory Task_Lifecycle
  imports Task_Machine
begin

text \<open>
  What the task state machine of \<^verbatim>\<open>src/internal/coretask/transition.go\<close> guarantees. Two interfaces are
  stated as locales: \<open>revision_cas\<close> for an operation that compares the revision it expects
  and advances it, and \<open>leased_op\<close> for one that a worker calls under a \<open>Fence\<close>. Every operation of
  the state machine is an interpretation of one of them. Runs of operations are the step relation
  \<open>task_run\<close>, over which the invariants are proved by rule induction.
\<close>

section \<open>What a successful operation does\<close>

named_theorems task_ops \<open>the effect of each task operation, when it succeeds\<close>

lemma Fence_None: "Fence_validate f t True tm = None \<longleftrightarrow> t_ID t = f_TaskID f \<and> f_ExpectedRevision f \<noteq> 0
    \<and> t_Revision t = f_ExpectedRevision f \<and> t_Status t = StatusRunning \<and> f_Attempt f \<noteq> 0 \<and> t_Attempt t = f_Attempt f
    \<and> t_LeaseEpoch t = f_LeaseEpoch f \<and> (\<exists>l. t_Lease t = Some l \<and> l_Epoch l = f_LeaseEpoch f \<and> \<not> IsZero tm \<and> InUTC tm
        \<and> Before tm (l_ExpiresAt l))"
  by (auto simp: Fence_validate_def split: option.splits)

lemma transition_Inr [task_ops]: "transition t dest = Inr t' \<longleftrightarrow> CanTransition t dest \<and>
    t' = t\<lparr>t_Status := dest, t_Revision := t_Revision t + 1, t_Lease := (if dest \<noteq> StatusRunning then None else t_Lease t)\<rparr>"
  by (auto simp: transition_def)

lemma Claim_Inr [task_ops]: "Claim (Some t) c = Inr (l, t') \<longleftrightarrow> ValidateClaim t c = None \<and>
    l = \<lparr>l_TaskID = t_ID t, l_Attempt = 1, l_Epoch = cc_LeaseEpoch c, l_Holder = TrimSpace (cc_Holder c),
         l_ExpiresAt = time_Add (to_UTC (cc_At c)) (cc_LeaseTTL c)\<rparr> \<and>
    t' = t\<lparr>t_Status := StatusRunning, t_Attempt := 1, t_LeaseEpoch := cc_LeaseEpoch c,
           t_Revision := t_Revision t + 1, t_Lease := Some l\<rparr>"
  by (auto simp: Claim_def Let_def split: option.splits)

lemma Reclaim_Inr [task_ops]: "Reclaim (Some t) c = Inr (l, t') \<longleftrightarrow> ValidateReclaim t c = None \<and>
    l = \<lparr>l_TaskID = t_ID t, l_Attempt = t_Attempt t, l_Epoch = rc_LeaseEpoch c, l_Holder = TrimSpace (rc_Holder c),
         l_ExpiresAt = time_Add (to_UTC (rc_At c)) (rc_LeaseTTL c)\<rparr> \<and>
    t' = t\<lparr>t_LeaseEpoch := rc_LeaseEpoch c, t_Revision := t_Revision t + 1, t_Lease := Some l\<rparr>"
  by (auto simp: Reclaim_def Let_def split: option.splits)

lemma AllocateProgress_Inr: "AllocateProgress t c = Inr p \<longleftrightarrow> pc_ExpectedSequence c = t_ProgressSequence t
    \<and> p_Sequence (pc_Progress c) = 0 \<and> p = (pc_Progress c)\<lparr>p_Sequence := t_ProgressSequence t + 1\<rparr>
    \<and> ValidateProgress t (c\<lparr>pc_Progress := p\<rparr>) = None"
  by (auto simp: AllocateProgress_def Let_def split: option.splits)

lemma ApplyProgress_Inr [task_ops]: "ApplyProgress (Some t) c = Inr t' \<longleftrightarrow> (\<exists>p. AllocateProgress t c = Inr p) \<and>
    t' = t\<lparr>t_ProgressSequence := t_ProgressSequence t + 1, t_Revision := t_Revision t + 1\<rparr>"
  by (auto simp: ApplyProgress_def split: sum.splits)

lemma WaitForUser_Inr [task_ops]: "WaitForUser (Some t) c = Inr t' \<longleftrightarrow> ValidateWaitUser t c = None
    \<and> transition t StatusWaitingUser = Inr t'"
  by (auto simp: WaitForUser_def split: option.splits)

lemma Resume_Inr [task_ops]: "Resume (Some t) c = Inr t' \<longleftrightarrow> ValidateResume t c = None \<and> transition t StatusQueued = Inr t'"
  by (auto simp: Resume_def split: option.splits)

lemma Complete_Inr [task_ops]: "Complete X (Some t) c = Inr t' \<longleftrightarrow> ValidateComplete X t c = None
    \<and> transition (t\<lparr>t_Result := Some (co_Result c)\<rparr>) StatusSucceeded = Inr t'"
  by (auto simp: Complete_def split: option.splits)

lemma Cancel_Inr [task_ops]: "Cancel X (Some t) c = Inr t' \<longleftrightarrow> ValidateCancel X t c = None
    \<and> transition (if t_Status t = StatusRunning then t\<lparr>t_LeaseEpoch := t_LeaseEpoch t + 1\<rparr> else t) StatusCanceled = Inr t'"
  by (auto simp: Cancel_def split: option.splits)

lemma Timeout_Inr [task_ops]: "Timeout (Some t) c = Inr t' \<longleftrightarrow> ValidateTimeout t c = None
    \<and> transition (t\<lparr>t_FailureCode := ErrTimedOut_text, t_FailureSummary := ''task timed out''\<rparr>) StatusFailed = Inr t'"
  by (auto simp: Timeout_def split: option.splits)

lemma Fail_Inr [task_ops]: "Fail (Some t) c = Inr t' \<longleftrightarrow> ValidateFail t c = None
    \<and> transition (t\<lparr>t_FailureCode := fc_ErrorCode c, t_FailureSummary := fc_ErrorSummary c\<rparr>) StatusFailed = Inr t'"
  by (auto simp: Fail_def split: option.splits)

lemma SoftDelete_Inr [task_ops]: "SoftDelete (Some t) er tm = Inr t' \<longleftrightarrow> \<not> IsZero tm \<and> InUTC tm \<and> ValidateDelete t er = None
    \<and> t' = (if t_DeletedAt t \<noteq> None then t
        else t\<lparr>t_DeletedAt := Some (to_UTC tm), t_Revision := t_Revision t + 1, t_UpdatedAt := to_UTC tm\<rparr>)"
  by (auto simp: SoftDelete_def split: option.splits)

lemma Transition_Inr [task_ops]: "Transition X (Some t) dest = Inr t' \<longleftrightarrow> \<not> terminal dest \<and> dest \<noteq> StatusRunning
    \<and> Task_Validate X t = None \<and> transition t dest = Inr t' \<and> Task_Validate X t' = None"
  by (auto simp: Transition_def split: option.splits)

lemmas task_guards = ValidateWaitUser_def ValidateComplete_def ValidateTimeout_def ValidateFail_def
  ValidateProgress_def ValidateClaim_def ValidateReclaim_def ValidateResume_def ValidateCancel_def
  ValidateExpectedRevision_def ValidateDelete_def LeaseEpochKnown_def

section \<open>The two interfaces\<close>

text \<open>An operation that succeeds only at the revision it names, and advances it.\<close>

locale revision_cas =
  fixes run :: "Task \<Rightarrow> 'c \<Rightarrow> 'e + Task"
    and expected :: "'c \<Rightarrow> u64"
    and target :: "'c \<Rightarrow> string"
  assumes cas_guard: "run t c = Inr t' \<Longrightarrow> t_Revision t = expected c \<and> expected c \<noteq> 0 \<and> t_ID t = target c"
    and cas_bump: "run t c = Inr t' \<Longrightarrow> t_Revision t' = t_Revision t + 1 \<and> t_ID t' = t_ID t"
begin

lemma cas_once: "run t c = Inr t' \<Longrightarrow> expected d = expected c \<Longrightarrow> \<exists>e. run t' d = Inl e"
proof -
  assume r: "run t c = Inr t'" and d: "expected d = expected c"
  from cas_guard [OF r] cas_bump [OF r] have "t_Revision t' \<noteq> expected c" by auto
  with d cas_guard [of t' d] show ?thesis by (cases "run t' d") auto
qed

lemma cas_advance: "run t c = Inr t' \<Longrightarrow> t_Revision t \<noteq> - 1 \<Longrightarrow> unat (t_Revision t') = Suc (unat (t_Revision t))"
  using cas_bump unat_inc by metis

end

text \<open>An operation of a worker, under the fence of its lease.\<close>

locale leased_op =
  fixes run :: "Task \<Rightarrow> 'c \<Rightarrow> task_error + Task"
    and fence :: "'c \<Rightarrow> Fence"
    and moment :: "'c \<Rightarrow> gotime"
  assumes fenced: "run t c = Inr t' \<Longrightarrow> Fence_validate (fence c) t True (moment c) = None"
    and fenced_bump: "run t c = Inr t' \<Longrightarrow> t_Revision t' = t_Revision t + 1 \<and> t_ID t' = t_ID t"
begin

lemma needs_lease: "run t c = Inr t' \<Longrightarrow> t_Status t = StatusRunning \<and>
    (\<exists>l. t_Lease t = Some l \<and> l_Epoch l = f_LeaseEpoch (fence c) \<and> Before (moment c) (l_ExpiresAt l))"
  using fenced Fence_None by metis

lemma stale_epoch: "t_LeaseEpoch t \<noteq> f_LeaseEpoch (fence c) \<Longrightarrow> \<exists>e. run t c = Inl e"
  using fenced [of t c] Fence_None by (cases "run t c") auto

lemma expired_lease: "t_Lease t = Some l \<Longrightarrow> \<not> Before (moment c) (l_ExpiresAt l) \<Longrightarrow> \<exists>e. run t c = Inl e"
  using fenced [of t c] by (cases "run t c") (auto simp: Fence_None)

end

sublocale leased_op \<subseteq> revision_cas run "\<lambda>c. f_ExpectedRevision (fence c)" "\<lambda>c. f_TaskID (fence c)"
proof
  fix t c t' assume r: "run t c = Inr t'"
  from fenced [OF r] show "t_Revision t = f_ExpectedRevision (fence c) \<and> f_ExpectedRevision (fence c) \<noteq> 0
      \<and> t_ID t = f_TaskID (fence c)" by (simp add: Fence_None)
  from fenced_bump [OF r] show "t_Revision t' = t_Revision t + 1 \<and> t_ID t' = t_ID t" .
qed

interpretation progress_op: leased_op "\<lambda>t. ApplyProgress (Some t)" pc_Fence "\<lambda>c. p_At (pc_Progress c)"
  by unfold_locales (auto simp: task_ops AllocateProgress_Inr ValidateProgress_def Let_def split: option.splits)

interpretation wait_op: leased_op "\<lambda>t. WaitForUser (Some t)" wu_Fence wu_At
  by unfold_locales (auto simp: task_ops ValidateWaitUser_def split: option.splits)

interpretation complete_op: leased_op "\<lambda>t. Complete X (Some t)" co_Fence co_At for X
  by unfold_locales (auto simp: task_ops ValidateComplete_def split: option.splits)

interpretation timeout_op: leased_op "\<lambda>t. Timeout (Some t)" to_Fence to_At
  by unfold_locales (auto simp: task_ops ValidateTimeout_def split: if_splits)

interpretation fail_op: leased_op "\<lambda>t. Fail (Some t)" fc_Fence fc_At
  by unfold_locales (auto simp: task_ops ValidateFail_def split: if_splits)

interpretation claim_op: revision_cas "\<lambda>t c. map_sum id snd (Claim (Some t) c)" cc_ExpectedRevision cc_TaskID
  by unfold_locales
     (auto simp: map_sum_def Claim_Inr ValidateClaim_def split: sum.splits if_splits)

interpretation reclaim_op: revision_cas "\<lambda>t c. map_sum id snd (Reclaim (Some t) c)" rc_ExpectedRevision rc_TaskID
  by unfold_locales
     (auto simp: map_sum_def Reclaim_Inr ValidateReclaim_def split: sum.splits if_splits option.splits)

interpretation resume_op: revision_cas "\<lambda>t. Resume (Some t)" rs_ExpectedRevision rs_TaskID
  by unfold_locales (auto simp: task_ops ValidateResume_def split: if_splits)

interpretation cancel_op: revision_cas "\<lambda>t. Cancel X (Some t)" "\<lambda>c. m_ExpectedRevision (ca_Mutation c)" ca_TaskID for X
  by unfold_locales
     (auto simp: task_ops ValidateCancel_def ValidateExpectedRevision_def split: if_splits option.splits)

section \<open>Runs of operations\<close>

datatype task_command = CmdClaim ClaimCommand | CmdReclaim ReclaimCommand | CmdProgress ProgressCommand
  | CmdWait WaitUserCommand | CmdResume ResumeCommand | CmdComplete CompleteCommand | CmdCancel CancelCommand
  | CmdTimeout TimeoutCommand | CmdFail FailCommand | CmdDelete u64 gotime | CmdTransition Status

text \<open>\<open>task_step X t c ps t'\<close>: the command \<open>c\<close> succeeds on \<open>t\<close>, appends the progress events
  \<open>ps\<close> and leaves \<open>t'\<close>.\<close>

inductive task_step :: "ext \<Rightarrow> Task \<Rightarrow> task_command \<Rightarrow> Progress list \<Rightarrow> Task \<Rightarrow> bool" for X where
  step_claim: "Claim (Some t) c = Inr (l, t') \<Longrightarrow> task_step X t (CmdClaim c) [] t'"
| step_reclaim: "Reclaim (Some t) rc = Inr (l, t') \<Longrightarrow> task_step X t (CmdReclaim rc) [] t'"
| step_progress: "AllocateProgress t pc = Inr p \<Longrightarrow> ApplyProgress (Some t) pc = Inr t' \<Longrightarrow>
     task_step X t (CmdProgress pc) [p] t'"
| step_wait: "WaitForUser (Some t) w = Inr t' \<Longrightarrow> task_step X t (CmdWait w) [] t'"
| step_resume: "Resume (Some t) r = Inr t' \<Longrightarrow> task_step X t (CmdResume r) [] t'"
| step_complete: "Complete X (Some t) k = Inr t' \<Longrightarrow> task_step X t (CmdComplete k) [] t'"
| step_cancel: "Cancel X (Some t) a = Inr t' \<Longrightarrow> task_step X t (CmdCancel a) [] t'"
| step_timeout: "Timeout (Some t) o1 = Inr t' \<Longrightarrow> task_step X t (CmdTimeout o1) [] t'"
| step_fail: "Fail (Some t) f = Inr t' \<Longrightarrow> task_step X t (CmdFail f) [] t'"
| step_delete: "SoftDelete (Some t) er tm = Inr t' \<Longrightarrow> task_step X t (CmdDelete er tm) [] t'"
| step_transition: "Transition X (Some t) dest = Inr t' \<Longrightarrow> task_step X t (CmdTransition dest) [] t'"

inductive task_run :: "ext \<Rightarrow> Task \<Rightarrow> task_command list \<Rightarrow> Progress list \<Rightarrow> Task \<Rightarrow> bool" for X where
  run_nil: "task_run X t [] [] t"
| run_snoc: "task_run X t cs ps t1 \<Longrightarrow> task_step X t1 c qs t2 \<Longrightarrow> task_run X t (cs @ [c]) (ps @ qs) t2"

inductive_cases task_runE: "task_run X t cs ps t'"
inductive_simps task_step_simps [simp]:
  "task_step X t (CmdClaim c) ps t'" "task_step X t (CmdReclaim rc) ps t'" "task_step X t (CmdProgress pc) ps t'"
  "task_step X t (CmdWait w) ps t'" "task_step X t (CmdResume r) ps t'" "task_step X t (CmdComplete k) ps t'"
  "task_step X t (CmdCancel a) ps t'" "task_step X t (CmdTimeout o1) ps t'" "task_step X t (CmdFail f) ps t'"
  "task_step X t (CmdDelete er tm) ps t'" "task_step X t (CmdTransition dest) ps t'"

lemma task_run_Nil: "task_run X t [] ps t' \<longleftrightarrow> ps = [] \<and> t' = t"
  by (auto elim: task_runE intro: run_nil)

lemma task_run_snoc: "task_run X t (cs @ [c]) ps t2 \<longleftrightarrow> (\<exists>ps1 qs t1. ps = ps1 @ qs \<and> task_run X t cs ps1 t1 \<and> task_step X t1 c qs t2)"
  by (subst task_run.simps) auto

lemma task_run_append: "task_run X t cs ps t1 \<Longrightarrow> task_run X t1 ds qs t2 \<Longrightarrow> task_run X t (cs @ ds) (ps @ qs) t2"
proof (rotate_tac, induction rule: task_run.induct)
  case (run_snoc t0 ds qs t2 c rs t3)
  then show ?case using task_run.run_snoc [of X t "cs @ ds" "ps @ qs" t2 c rs t3] by simp
qed simp

lemma task_run_split: "task_run X t (cs @ ds) ps t2 \<Longrightarrow> \<exists>t1 ps1 ps2. ps = ps1 @ ps2 \<and> task_run X t cs ps1 t1 \<and> task_run X t1 ds ps2 t2"
proof (induction ds arbitrary: ps t2 rule: rev_induct)
  case Nil
  then show ?case by (metis append_Nil2 run_nil)
next
  case (snoc d ds)
  then obtain ps1 qs t1 where "ps = ps1 @ qs" and r: "task_run X t (cs @ ds) ps1 t1" and s: "task_step X t1 d qs t2"
    by (metis append.assoc task_run_snoc)
  from snoc.IH [OF r] obtain u qs1 qs2 where "ps1 = qs1 @ qs2" "task_run X t cs qs1 u" "task_run X u ds qs2 t1" by blast
  with s \<open>ps = ps1 @ qs\<close> show ?case by (metis append.assoc task_run_snoc)
qed

lemmas task_step_unfold = task_ops task_guards Fence_None

lemma CanTransition_iff: "CanTransition t dest \<longleftrightarrow> (t_Status t, dest) \<in>
    {(StatusQueued, StatusRunning), (StatusQueued, StatusCanceled), (StatusRunning, StatusSucceeded),
     (StatusRunning, StatusFailed), (StatusRunning, StatusWaitingUser), (StatusRunning, StatusCanceled),
     (StatusWaitingUser, StatusQueued), (StatusWaitingUser, StatusCanceled)}"
  by (cases "t_Status t"; cases dest) (auto simp: CanTransition_def)

lemma step_status: "task_step X t c ps t' \<Longrightarrow> t_Status t' = t_Status t \<or> CanTransition t (t_Status t')"
  by (induction rule: task_step.induct)
     (auto simp: task_ops ValidateClaim_def ValidateReclaim_def CanTransition_def split: if_splits)

lemma step_id: "task_step X t c ps t' \<Longrightarrow> t_ID t' = t_ID t \<and> t_Spec t' = t_Spec t \<and> t_CreatedAt t' = t_CreatedAt t
    \<and> t_AvailableAt t' = t_AvailableAt t \<and> t_RetryOfTaskID t' = t_RetryOfTaskID t \<and> t_Snapshot t' = t_Snapshot t"
  by (induction rule: task_step.induct) (auto simp: task_ops)

section \<open>The well-formedness invariant\<close>

lemma fields_None: "task_fields X t = None \<longleftrightarrow> ValidUUID X (t_ID t) \<and> validStatus (t_Status t) \<and> t_Revision t \<noteq> 0
    \<and> \<not> IsZero (t_CreatedAt t) \<and> \<not> IsZero (t_UpdatedAt t) \<and> \<not> IsZero (t_AvailableAt t) \<and> InUTC (t_CreatedAt t)
    \<and> InUTC (t_UpdatedAt t) \<and> InUTC (t_AvailableAt t) \<and> t_Attempt t \<le> 1 \<and> TaskSpec_Validate X (t_Spec t) = None
    \<and> (\<forall>s. t_Snapshot t = Some s \<longrightarrow> ExecutionSnapshot_Validate X s = None)
    \<and> (t_RetryOfTaskID t = [] \<or> ValidUUID X (t_RetryOfTaskID t) \<and> t_RetryOfTaskID t \<noteq> t_ID t)
    \<and> (\<forall>d. t_DeletedAt t = Some d \<longrightarrow> \<not> IsZero d \<and> InUTC d)"
  by (auto simp: task_fields_def not_less split: option.splits)

lemma outcome_None: "task_outcome X t = None \<longleftrightarrow> (case t_Status t of
      StatusQueued \<Rightarrow> t_Lease t = None \<and> t_Result t = None \<and> t_FailureCode t = [] \<and> t_FailureSummary t = []
    | StatusRunning \<Rightarrow> lease_ok t \<and> t_Result t = None \<and> t_FailureCode t = [] \<and> t_FailureSummary t = []
    | StatusWaitingUser \<Rightarrow> t_Attempt t = 1 \<and> t_Lease t = None \<and> t_Result t = None \<and> t_FailureCode t = [] \<and> t_FailureSummary t = []
    | StatusSucceeded \<Rightarrow> t_Attempt t = 1 \<and> t_Lease t = None \<and> t_FailureCode t = [] \<and> t_FailureSummary t = []
        \<and> t_Result t \<noteq> None \<and> opt_result X t = None
    | StatusFailed \<Rightarrow> t_Attempt t = 1 \<and> t_Lease t = None \<and> TrimSpace (t_FailureCode t) \<noteq> [] \<and> length (t_FailureCode t) \<le> 128
        \<and> ValidString (t_FailureCode t) \<and> TrimSpace (t_FailureSummary t) \<noteq> [] \<and> length (t_FailureSummary t) \<le> MaxSummaryBytes
        \<and> ValidString (t_FailureSummary t) \<and> opt_result X t = None
    | StatusCanceled \<Rightarrow> t_Lease t = None \<and> opt_result X t = None
    | StatusOther _ \<Rightarrow> t_Lease t = None)"
  by (cases "t_Status t") (auto simp: task_outcome_def)

lemma Task_Validate_None: "Task_Validate X t = None \<longleftrightarrow> task_fields X t = None \<and> task_outcome X t = None"
  by (simp add: Task_Validate_def split: option.splits)

lemma lease_ok_iff: "lease_ok t \<longleftrightarrow> t_Attempt t = 1 \<and> (\<exists>l. t_Lease t = Some l \<and> l_TaskID l = t_ID t \<and> l_Attempt l = 1
    \<and> l_Epoch l = t_LeaseEpoch t \<and> l_Holder l \<noteq> [] \<and> length (l_Holder l) \<le> MaxLeaseHolderBytes \<and> ValidString (l_Holder l)
    \<and> \<not> IsZero (l_ExpiresAt l) \<and> InUTC (l_ExpiresAt l))"
  by (auto simp: lease_ok_def split: option.splits)

text \<open>What the callers of the state machine must provide beyond the checks it makes: a clock after the
  zero time, and a failure summary that is not blank.\<close>

fun sane :: "task_command \<Rightarrow> bool" where
  "sane (CmdClaim c) = (0 < instant (cc_At c))"
| "sane (CmdReclaim c) = (0 < instant (rc_At c))"
| "sane (CmdFail f) = (TrimSpace (fc_ErrorSummary f) \<noteq> [])"
| "sane _ = True"

lemma timeout_text: "TrimSpace ''task timed out'' \<noteq> []" "ValidString ''task timed out''"
    "TrimSpace ErrTimedOut_text \<noteq> []" "ValidString ErrTimedOut_text" "length ErrTimedOut_text \<le> 128"
  by (simp_all add: ErrTimedOut_text_def TrimSpace_edges printable_def ValidString_def)

lemma word_inc_nz: "(w :: 'a::len word) \<noteq> - 1 \<Longrightarrow> w + 1 \<noteq> 0"
  by (metis add.commute add_eq_0_iff)

lemma fields_step: "task_step X t c ps t' \<Longrightarrow> t_Revision t \<noteq> - 1 \<Longrightarrow> task_fields X t = None \<Longrightarrow> task_fields X t' = None"
proof (induction rule: task_step.induct)
  case (step_cancel t a t')
  then show ?case by (cases "t_Status t = StatusRunning") (simp_all add: task_ops fields_None word_inc_nz)
next
  case (step_delete t er tm t')
  then show ?case by (cases "t_DeletedAt t") (auto simp: task_ops fields_None word_inc_nz gotime_simps)
next
  case (step_transition t dest t')
  then show ?case by (simp add: Transition_Inr Task_Validate_None)
qed (auto simp: task_ops fields_None word_inc_nz)

lemma step_valid:
  assumes "task_step X t c ps t'" "Task_Validate X t = None" "t_Revision t \<noteq> - 1" "sane c"
  shows "Task_Validate X t' = None"
proof -
  from assms have f: "task_fields X t' = None" using fields_step by (auto simp: Task_Validate_None)
  from assms(2) have out: "task_outcome X t = None" by (simp add: Task_Validate_None)
  from assms(1) out assms(4) have "task_outcome X t' = None"
  proof (induction rule: task_step.induct)
    case (step_claim t c l t')
    then show ?case
      by (auto simp: task_ops outcome_None lease_ok_iff ValidateClaim_def validHolder_def Let_def gotime_simps split: if_splits)
  next
    case (step_reclaim t rc l t')
    then show ?case
      by (auto simp: task_ops outcome_None lease_ok_iff ValidateReclaim_def validHolder_def Let_def gotime_simps
          split: if_splits option.splits)
  next
    case (step_complete t k t')
    then show ?case
      by (auto simp: task_ops outcome_None ValidateComplete_def Fence_None opt_result_def lease_ok_iff split: option.splits)
  next
    case (step_cancel t a t')
    then show ?case
      by (auto simp: task_ops outcome_None ValidateCancel_def CanTransition_iff opt_result_def lease_ok_iff split: option.splits if_splits)
  next
    case (step_timeout t o1 t')
    then show ?case
      by (auto simp: task_ops outcome_None ValidateTimeout_def Fence_None opt_result_def lease_ok_iff timeout_text
          MaxSummaryBytes_def split: if_splits)
  next
    case (step_fail t f t')
    then show ?case
      by (auto simp: task_ops outcome_None ValidateFail_def Fence_None opt_result_def lease_ok_iff not_less split: if_splits)
  next
    case (step_delete t er tm t')
    then show ?case
      by (cases "t_Status t") (auto simp: task_ops outcome_None ValidateDelete_def opt_result_def split: if_splits)
  next
    case (step_transition t dest t')
    then show ?case by (simp add: Transition_Inr Task_Validate_None)
  qed (auto simp: task_ops outcome_None lease_ok_iff CanTransition_iff ValidateWaitUser_def ValidateResume_def
         Fence_None AllocateProgress_Inr ValidateProgress_def Let_def split: option.splits if_splits)
  with f show ?thesis by (simp add: Task_Validate_None)
qed

end
