(* ===== verification/Example_Data.thy ===== *)
theory Example_Data
  imports Task_Lifecycle
begin

text \<open>
  Concrete values on which the properties with hypotheses are evaluated: an instance of the libraries
  outside the repository (with the canonical textual form of a UUID) and a task that runs.
\<close>

section \<open>An instance of the libraries\<close>

definition ex_nibble :: "char \<Rightarrow> nat" where
  "ex_nibble c = (let n = of_char c in if n \<le> 57 then n - 48 else if n \<ge> 97 then n - 87 else n - 55)"

fun ex_bytes :: "string \<Rightarrow> 8 word list" where
  "ex_bytes (a # b # r) = of_nat (16 * ex_nibble a + ex_nibble b) # ex_bytes r"
| "ex_bytes _ = []"

definition ex_uuid_Parse :: "string \<Rightarrow> 8 word list option" where
  "ex_uuid_Parse s = (let h = filter (\<lambda>c. c \<noteq> CHR ''-'') s in
     if length s = 36 \<and> length h = 32 \<and> list_all hex_digit h \<and> list_all (\<lambda>i. s ! i = CHR ''-'') [8, 13, 18, 23]
     then Some (ex_bytes h) else None)"

definition ex_uuid_String :: "8 word list \<Rightarrow> string" where
  "ex_uuid_String bs = (let h = hex_EncodeToString bs in take 8 h @ ''-'' @ take 4 (drop 8 h) @ ''-''
     @ take 4 (drop 12 h) @ ''-'' @ take 4 (drop 16 h) @ ''-'' @ drop 20 h)"

definition ex_LoadLocation :: "string \<Rightarrow> location option" where
  "ex_LoadLocation s = (if s = [] \<or> s = ''UTC'' then Some UTC else None)"

definition ex_civil :: "location \<Rightarrow> int \<Rightarrow> int \<times> int \<times> int \<times> int \<times> int" where
  "ex_civil l i = (let m = i div Minute in (m mod 60, m div 60 mod 24, 1 + m div 1440 mod 28, 1, (m div 1440 + 1) mod 7))"

definition ex_json_Marshal :: "json \<Rightarrow> string" where
  "ex_json_Marshal v = (case v of JStr s \<Rightarrow> s | _ \<Rightarrow> ''null'')"

definition ex_Sum256 :: "string \<Rightarrow> 8 word list" where
  "ex_Sum256 s = map (\<lambda>i. of_nat (i + length s)) [1..<33]"

definition ex :: ext where
  "ex = \<lparr>uuid_Parse = ex_uuid_Parse, uuid_String = ex_uuid_String, unicode_lower = id, unicode_upper = id,
     LoadLocation = ex_LoadLocation, civil = ex_civil, json_Valid = (\<lambda>s. s \<noteq> []),
     json_Unmarshal = (\<lambda>s. if s = [] then None else Some (JStr s)), json_Marshal = ex_json_Marshal,
     time_text = (\<lambda>t. ''2025-01-01T00:00:00Z''), Sum256 = ex_Sum256\<rparr>"

definition ex_id :: "nat \<Rightarrow> string" where
  "ex_id n = ''00000000-0000-4000-8000-00000000000'' @ [hex_char n]"

definition ex_digest :: string where "ex_digest = replicate 64 (CHR ''a'')"

definition ex_time :: "int \<Rightarrow> gotime" where "ex_time s = \<lparr>instant = s * Second, zone = UTC\<rparr>"

section \<open>A task\<close>

definition ex_payload :: TaskPayload where
  "ex_payload = \<lparr>pl_Agent = None, pl_ConversationTool = None, pl_Extension = None, pl_KnowledgeIndex = None,
     pl_Workload = None, pl_CloudWorker = None\<rparr>"

definition ex_spec :: TaskSpec where
  "ex_spec = \<lparr>s_Kind = TaskKindAgent, s_Payload = ex_payload, s_Goal = ''goal'', s_ConversationID = [],
     s_AttachmentRefs = [], s_ModelProfileID = ex_id 2, s_Extensions = [], s_KnowledgeRefs = [],
     s_TimeoutSeconds = 60, s_IdempotencyKey = ex_id 3, s_AvailableAt = ex_time 100\<rparr>"

definition ex_task :: Task where
  "ex_task = \<lparr>t_ID = ex_id 1, t_Spec = ex_spec, t_Status = StatusQueued, t_Attempt = 0, t_LeaseEpoch = 0,
     t_Revision = 1, t_ProgressSequence = 0, t_CreatedAt = ex_time 100, t_UpdatedAt = ex_time 100,
     t_AvailableAt = ex_time 100, t_ExecutionStartedAt = None, t_ExecutionDeadlineAt = None, t_DeletedAt = None,
     t_Lease = None, t_Result = None, t_FailureCode = [], t_FailureSummary = [], t_RetryOfTaskID = [], t_Snapshot = None\<rparr>"

definition ex_claim :: ClaimCommand where
  "ex_claim = \<lparr>cc_TaskID = ex_id 1, cc_Holder = ''worker'', cc_ExpectedRevision = 1, cc_LeaseEpoch = 1,
     cc_LeaseTTL = Minute, cc_At = ex_time 200\<rparr>"

definition ex_lease :: Lease where
  "ex_lease = \<lparr>l_TaskID = ex_id 1, l_Attempt = 1, l_Epoch = 1, l_Holder = ''worker'', l_ExpiresAt = ex_time 260\<rparr>"

definition ex_running :: Task where
  "ex_running = ex_task\<lparr>t_Status := StatusRunning, t_Attempt := 1, t_LeaseEpoch := 1, t_Revision := 2,
     t_Lease := Some ex_lease\<rparr>"

definition ex_reclaim :: ReclaimCommand where
  "ex_reclaim = \<lparr>rc_TaskID = ex_id 1, rc_Holder = ''other'', rc_ExpectedRevision = 2, rc_LeaseEpoch = 2,
     rc_LeaseTTL = Minute, rc_At = ex_time 300\<rparr>"

definition ex_lease2 :: Lease where
  "ex_lease2 = \<lparr>l_TaskID = ex_id 1, l_Attempt = 1, l_Epoch = 2, l_Holder = ''other'', l_ExpiresAt = ex_time 360\<rparr>"

definition ex_reclaimed :: Task where
  "ex_reclaimed = ex_running\<lparr>t_LeaseEpoch := 2, t_Revision := 3, t_Lease := Some ex_lease2\<rparr>"

definition ex_fence :: "u64 \<Rightarrow> u64 \<Rightarrow> Fence" where
  "ex_fence e r = \<lparr>f_TaskID = ex_id 1, f_Attempt = 1, f_LeaseEpoch = e, f_ExpectedRevision = r\<rparr>"

definition ex_progress :: ProgressCommand where
  "ex_progress = \<lparr>pc_Fence = ex_fence 1 2, pc_Progress = \<lparr>p_EventID = [], p_TaskID = ex_id 1, p_Attempt = 1,
     p_Sequence = 0, p_At = ex_time 210, p_Status = StatusRunning, p_Phase = [], p_Message = ''working'',
     p_Percent = Some (Finite 25 1), p_ResultSummary = [], p_ResultJSON = [], p_ErrorCode = [], p_ErrorSummary = []\<rparr>,
     pc_ExpectedSequence = 0\<rparr>"

definition ex_complete :: CompleteCommand where
  "ex_complete = \<lparr>co_Fence = ex_fence 1 2, co_Result = \<lparr>r_Text = ''done'', r_JSON = [], r_Files = [], r_Summary = []\<rparr>,
     co_At = ex_time 220\<rparr>"

lemma below_16 [consumes 1]:
  assumes "n < 16" "list_all P ([0, 1, 2, 3, 4] @ [5, 6, 7, 8, 9] @ map ((+) 10) [0, 1, 2, 3, 4, 5])"
  shows "P (n :: nat)"
proof -
  have "n \<in> set ([0, 1, 2, 3, 4] @ [5, 6, 7, 8, 9] @ map ((+) 10) [0, 1, 2, 3, 4, 5])"
    using assms(1) by simp arith
  with assms(2) show ?thesis by (metis list_all_iff)
qed

lemma ex_id_trim [simp]: "n < 16 \<Longrightarrow> TrimSpace (ex_id n) = ex_id n"
  by (rule TrimSpace_printable, induction rule: below_16) (simp_all add: ex_id_def hex_char_def printable_def)

lemma ex_id_valid [simp]: "n < 16 \<Longrightarrow> ValidUUID ex (ex_id n)"
proof -
  assume n: "n < 16"
  have l: "ToLower ex (ex_id n) = ex_id n" using n
    by (induction rule: below_16) (simp_all add: ToLower_def ex_id_def is_ascii_def hex_char_def lower_char_def)
  have p: "ex_uuid_Parse (ex_id n) = Some ([0,0,0,0,0,0,64,0,128,0,0,0,0,0,0] @ [of_nat n])" using n
    by (induction rule: below_16) (simp_all add: ex_uuid_Parse_def Let_def ex_id_def hex_char_def hex_digit_def ex_nibble_def char_of_eq_iff take_bit_eq_mod)
  have s: "ex_uuid_String ([0,0,0,0,0,0,64,0,128,0,0,0,0,0,0] @ [of_nat n]) = ex_id n" using n
    by (induction rule: below_16) (simp_all add: ex_uuid_String_def hex_EncodeToString_def hex_byte_def Let_def ex_id_def hex_char_def char_of_eq_iff take_bit_eq_mod)
  have "(64 :: 8 word) \<in> set ([0,0,0,0,0,0,64,0,128,0,0,0,0,0,0] @ [of_nat n])" "(64 :: 8 word) \<notin> set uuid_Nil"
    by (simp_all add: uuid_Nil_def)
  then have z: "[0,0,0,0,0,0,64,0,128,0,0,0,0,0,0] @ [of_nat n] \<noteq> uuid_Nil" by metis
  show ?thesis using n l p s z by (simp add: ValidUUID_def Let_def) (simp add: ex_def)
qed
lemma ex_id_eq [simp]: "n < 16 \<Longrightarrow> m < 16 \<Longrightarrow> ex_id n = ex_id m \<longleftrightarrow> n = m"
proof -
  have "(of_char (hex_char k) :: nat) = (if k < 10 then 48 + k else 87 + k)" if "k < 16" for k
    using that by (auto simp: hex_char_def)
  moreover assume "n < 16" "m < 16"
  ultimately have h: "(of_char (hex_char n) :: nat) = of_char (hex_char m) \<Longrightarrow> n = m" by (simp split: if_splits)
  show ?thesis using h by (auto simp: ex_id_def)
qed
lemma ex_id_ne [simp]: "ex_id n \<noteq> []" by (simp add: ex_id_def)
text \<open>The strings of the example, trimmed and validated once.\<close>

lemma ex_strings [simp]: "TrimSpace ''goal'' = ''goal''" "TrimSpace ''worker'' = ''worker''" "TrimSpace ''other'' = ''other''"
    "ValidString ''goal''" "ValidString ''worker''" "ValidString ''other''" "ValidString ''working''" "ValidString ''done''"
  by (simp_all add: TrimSpace_printable printable_def ValidString_def)

lemmas ex_times = ex_time_def gotime_simps Second_def Minute_def Hour_def
lemmas ex_spec_eval = ex_spec_def ex_payload_def TaskSpec_Normalize_def spec_trim_def Let_def normalizePayload_def
  payload_count_def spec_shape_ok_def task_limits normalizeRefs_def normalizeExtensions_def
lemmas ex_tasks = ex_task_def ex_running_def ex_reclaimed_def ex_lease_def ex_lease2_def ex_fence_def

lemma ex_spec_normal: "TaskSpec_Normalize ex ex_spec = Inr ex_spec"
  by (simp add: ex_spec_eval ex_times)

lemma ex_task_valid: "Task_Validate ex ex_task = None"
  by (simp add: Task_Validate_None fields_None outcome_None TaskSpec_Validate_def)
     (simp add: ex_task_def ex_spec_normal ex_times)

lemma ex_claim_step: "task_step ex ex_task (CmdClaim ex_claim) [] ex_running"
  by (rule step_claim [where l = ex_lease])
     (simp add: Claim_Inr ValidateClaim_def validHolder_def LeaseEpochKnown_def ex_claim_def ex_tasks ex_times task_limits)

lemma ex_reclaim_step: "task_step ex ex_running (CmdReclaim ex_reclaim) [] ex_reclaimed"
  by (rule step_reclaim [where l = ex_lease2])
     (simp add: Reclaim_Inr ValidateReclaim_def validHolder_def ex_reclaim_def ex_tasks ex_times task_limits)

lemma ex_run: "task_run ex ex_task [CmdClaim ex_claim, CmdReclaim ex_reclaim] [] ex_reclaimed"
  using run_snoc [OF run_snoc [OF run_nil ex_claim_step] ex_reclaim_step] by simp

section \<open>The example libraries satisfy the laws\<close>

lemma hex_char_facts: "k < 16 \<Longrightarrow> hex_lower (hex_char k) \<and> hex_char k \<noteq> CHR ''-'' \<and> ex_nibble (hex_char k) = k"
  by (induction rule: below_16) (simp_all add: hex_char_def hex_lower_def ex_nibble_def char_of_eq_iff take_bit_eq_mod)

lemma byte_nibbles: "unat (b :: 8 word) div 16 < 16" "unat b mod 16 < 16"
  using unsigned_less [of b, where ?'a = nat] by auto

lemma ex_bytes_encode: "ex_bytes (hex_EncodeToString bs) = bs"
proof (induction bs)
  case (Cons b bs)
  have "of_nat (16 * (unat b div 16) + unat b mod 16) = b" by simp
  then show ?case using Cons byte_nibbles [of b] hex_char_facts by (simp add: hex_EncodeToString_def hex_byte_def)
qed (simp add: hex_EncodeToString_def)

lemma encode_chars: "c \<in> set (hex_EncodeToString bs) \<Longrightarrow> hex_lower c \<and> c \<noteq> CHR ''-''"
  using byte_nibbles hex_char_facts by (auto simp: hex_EncodeToString_def hex_byte_def)

lemma take_drop_parts: "take 8 h @ take 4 (drop 8 h) @ take 4 (drop 12 h) @ take 4 (drop 16 h) @ drop 20 h = h"
proof -
  have "take n (drop m h) @ drop (m + n) h = drop m h" for m n by (metis append_take_drop_id drop_drop add.commute)
  from this [of 4 16] this [of 4 12] this [of 4 8] append_take_drop_id [of 8 h] show ?thesis by simp
qed

lemma ex_uuid_text: "uuid_text ex"
proof -
  { fix u :: "8 word list" assume u: "length u = 16"
    define h where "h = hex_EncodeToString u"
    have l: "length h = 32" using u by (simp add: h_def)
    have c: "c \<in> set h \<Longrightarrow> hex_lower c \<and> c \<noteq> CHR ''-''" for c unfolding h_def by (rule encode_chars)
    then have nd: "CHR ''-'' \<notin> set (take n (drop m h))" "CHR ''-'' \<notin> set (take n h)" "CHR ''-'' \<notin> set (drop m h)" for m n
      by (auto dest: in_set_takeD in_set_dropD)
    have id: "filter (\<lambda>c. c \<noteq> CHR ''-'') xs = xs" if "CHR ''-'' \<notin> set xs" for xs using that by (induction xs) auto
    have s: "ex_uuid_String u = take 8 h @ ''-'' @ take 4 (drop 8 h) @ ''-'' @ take 4 (drop 12 h) @ ''-'' @ take 4 (drop 16 h) @ ''-'' @ drop 20 h"
      by (simp add: ex_uuid_String_def h_def Let_def)
    have f: "filter (\<lambda>c. c \<noteq> CHR ''-'') (ex_uuid_String u) = h"
      unfolding s using take_drop_parts [of h] by (simp add: id nd)
    have "length (ex_uuid_String u) = 36" "list_all (\<lambda>i. ex_uuid_String u ! i = CHR ''-'') [8, 13, 18, 23]"
      unfolding s using l by (simp_all add: nth_append)
    moreover have "list_all hex_digit h" using c by (simp add: list_all_iff hex_lower_iff)
    ultimately have "ex_uuid_Parse (ex_uuid_String u) = Some u"
      using f l ex_bytes_encode [of u] by (simp add: ex_uuid_Parse_def h_def)
    moreover have "list_all (\<lambda>c. hex_lower c \<or> c = CHR ''-'') (ex_uuid_String u)"
      unfolding s using c by (auto simp: list_all_iff dest: in_set_takeD in_set_dropD)
    ultimately have "ex_uuid_Parse (ex_uuid_String u) = Some u \<and> list_all (\<lambda>c. hex_lower c \<or> c = CHR ''-'') (ex_uuid_String u)" by simp }
  then show ?thesis by (simp add: uuid_text_def ex_def)
qed

lemma ex_sha_size: "sha_size ex"
  by (simp add: sha_size_def ex_def ex_Sum256_def)

lemma ex_json_roundtrip: "json_roundtrip ex"
  by (simp add: json_roundtrip_def ex_def ex_json_Marshal_def)

lemma ex_id_parse: "n < 16 \<Longrightarrow> ex_uuid_Parse (ex_id n) = Some ([0,0,0,0,0,0,64,0,128,0,0,0,0,0,0] @ [of_nat n])"
  by (induction rule: below_16)
     (simp_all add: ex_uuid_Parse_def Let_def ex_id_def hex_char_def hex_digit_def ex_nibble_def char_of_eq_iff take_bit_eq_mod)

end
