(* ===== verification/Task_Safety.thy ===== *)
theory Task_Safety
  imports Task_Lifecycle Example_Data
begin

text \<open>
  The properties of a durable task over every run of the operations of
  \<^verbatim>\<open>src/internal/coretask/transition.go\<close>: well-formedness, fencing of stale workers, at most one
  outcome, the life cycle, and the numbering of progress events.
\<close>

section \<open>Counters along a run\<close>

lemma step_revision: "task_step X t c ps t' \<Longrightarrow> t_Revision t' = t_Revision t + 1 \<or> t' = t"
  by (induction rule: task_step.induct) (auto simp: task_ops)

lemma step_epoch: "task_step X t c ps t' \<Longrightarrow> t_LeaseEpoch t' = t_LeaseEpoch t \<or> t_LeaseEpoch t' = t_LeaseEpoch t + 1"
  by (induction rule: task_step.induct)
     (auto simp: task_ops ValidateClaim_def LeaseEpochKnown_def ValidateReclaim_def split: if_splits option.splits)

lemma step_progress: "task_step X t c ps t' \<Longrightarrow>
    t_ProgressSequence t' = t_ProgressSequence t \<and> ps = [] \<or>
    t_ProgressSequence t' = t_ProgressSequence t + 1 \<and> map p_Sequence ps = [t_ProgressSequence t + 1]"
  by (induction rule: task_step.induct) (auto simp: task_ops AllocateProgress_Inr)

lemma unat_inc_le: "unat ((w :: u64) + 1) \<le> Suc (unat w)"
  by (cases "w = - 1") (simp_all add: unat_inc)

lemma not_max: "unat (w :: u64) < 2 ^ 64 - 1 \<Longrightarrow> w \<noteq> - 1"
  by (auto simp: unsigned_minus_1_eq_mask mask_eq_exp_minus_1)

lemma run_revision: "task_run X t cs ps t' \<Longrightarrow> unat (t_Revision t') \<le> unat (t_Revision t) + length cs"
proof (induction rule: task_run.induct)
  case (run_snoc t cs ps t1 c qs t2)
  have "unat (t_Revision t2) \<le> Suc (unat (t_Revision t1))"
    using step_revision [OF run_snoc.hyps(2)] unat_inc_le [of "t_Revision t1"] by auto
  with run_snoc.IH show ?case by simp
qed simp

lemma run_valid:
  "task_run X t cs ps t' \<Longrightarrow> Task_Validate X t = None \<Longrightarrow> unat (t_Revision t) + length cs < 2 ^ 64 \<Longrightarrow>
   list_all sane cs \<Longrightarrow> Task_Validate X t' = None"
proof (induction rule: task_run.induct)
  case (run_snoc t cs ps t1 c qs t2)
  from run_revision [OF run_snoc.hyps(1)] run_snoc.prems(2) have "t_Revision t1 \<noteq> - 1"
    by (intro not_max) simp
  moreover have "Task_Validate X t1 = None" by (rule run_snoc.IH) (use run_snoc.prems in auto)
  ultimately show ?case using step_valid [OF run_snoc.hyps(2)] run_snoc.prems(3) by simp
qed simp

lemma epoch_step_le: "task_step X t c ps t' \<Longrightarrow> t_LeaseEpoch t \<noteq> - 1 \<Longrightarrow>
    unat (t_LeaseEpoch t) \<le> unat (t_LeaseEpoch t') \<and> unat (t_LeaseEpoch t') \<le> Suc (unat (t_LeaseEpoch t))"
  using step_epoch [of X t c ps t'] unat_inc [of "t_LeaseEpoch t"] by auto

lemma epoch_run: "task_run X t cs ps t' \<Longrightarrow> unat (t_LeaseEpoch t) + length cs < 2 ^ 64 \<Longrightarrow>
    unat (t_LeaseEpoch t) \<le> unat (t_LeaseEpoch t') \<and> unat (t_LeaseEpoch t') \<le> unat (t_LeaseEpoch t) + length cs"
proof (induction rule: task_run.induct)
  case (run_snoc t cs ps t1 c qs t2)
  then have IH: "unat (t_LeaseEpoch t) \<le> unat (t_LeaseEpoch t1)" "unat (t_LeaseEpoch t1) \<le> unat (t_LeaseEpoch t) + length cs"
    by auto
  then have "t_LeaseEpoch t1 \<noteq> - 1" using run_snoc.prems by (intro not_max) simp
  from epoch_step_le [OF run_snoc.hyps(2) this] IH show ?case by simp
qed simp

text \<open>The commands that hand the task to a new holder.\<close>

fun reissues :: "task_command \<Rightarrow> bool" where
  "reissues (CmdClaim _) = True"
| "reissues (CmdReclaim _) = True"
| "reissues _ = False"

lemma reissue_epoch: "task_step X t c ps t' \<Longrightarrow> reissues c \<Longrightarrow> t_LeaseEpoch t' = t_LeaseEpoch t + 1"
  by (cases c) (auto simp: Claim_Inr Reclaim_Inr ValidateClaim_def LeaseEpochKnown_def ValidateReclaim_def
      split: if_splits option.splits)

lemma epoch_grows:
  assumes r: "task_run X t cs ps t'" and c: "list_ex reissues cs" and b: "unat (t_LeaseEpoch t) + length cs < 2 ^ 64"
  shows "unat (t_LeaseEpoch t) < unat (t_LeaseEpoch t')"
proof -
  from c obtain as a bs where cs: "cs = (as @ [a]) @ bs" and a: "reissues a"
    by (auto simp: list_ex_iff dest!: split_list)
  from r obtain t2 ps1 ps2 where r1: "task_run X t (as @ [a]) ps1 t2" and r2: "task_run X t2 bs ps2 t'"
    unfolding cs by (blast dest: task_run_split)
  from r1 obtain qs rs t1 where r0: "task_run X t as qs t1" and s: "task_step X t1 a rs t2"
    by (auto simp: task_run_snoc)
  have e1: "unat (t_LeaseEpoch t) \<le> unat (t_LeaseEpoch t1)" "unat (t_LeaseEpoch t1) \<le> unat (t_LeaseEpoch t) + length as"
    using epoch_run [OF r0] b cs by auto
  then have "t_LeaseEpoch t1 \<noteq> - 1" using b cs by (intro not_max) simp
  with reissue_epoch [OF s a] have e2: "unat (t_LeaseEpoch t2) = Suc (unat (t_LeaseEpoch t1))" by (simp add: unat_inc)
  have "unat (t_LeaseEpoch t2) \<le> unat (t_LeaseEpoch t')" using epoch_run [OF r2] e1 e2 b cs by simp
  with e1 e2 show ?thesis by simp
qed

lemma terminal_step: "task_step X t c ps t' \<Longrightarrow> terminal (t_Status t) \<Longrightarrow>
    t_Status t' = t_Status t \<and> t_Result t' = t_Result t \<and> t_FailureCode t' = t_FailureCode t
    \<and> t_FailureSummary t' = t_FailureSummary t \<and> ps = []"
  by (induction rule: task_step.induct)
     (auto simp: task_ops CanTransition_def ValidateClaim_def ValidateReclaim_def AllocateProgress_Inr
        ValidateProgress_def Fence_None Let_def split: if_splits option.splits)

lemma terminal_run: "task_run X t cs ps t' \<Longrightarrow> terminal (t_Status t) \<Longrightarrow>
    t_Status t' = t_Status t \<and> t_Result t' = t_Result t \<and> t_FailureCode t' = t_FailureCode t
    \<and> t_FailureSummary t' = t_FailureSummary t \<and> ps = []"
proof (induction rule: task_run.induct)
  case (run_snoc t cs ps t1 c qs t2)
  then show ?case using terminal_step [OF run_snoc.hyps(2)] by auto
qed simp

text \<open>The commands that end a task.\<close>

fun finishes :: "task_command \<Rightarrow> bool" where
  "finishes (CmdComplete _) = True"
| "finishes (CmdCancel _) = True"
| "finishes (CmdTimeout _) = True"
| "finishes (CmdFail _) = True"
| "finishes _ = False"

lemma finishes_step: "task_step X t c ps t' \<Longrightarrow> finishes c \<longleftrightarrow> \<not> terminal (t_Status t) \<and> terminal (t_Status t')"
  by (induction rule: task_step.induct)
     (auto simp: task_ops CanTransition_def ValidateClaim_def ValidateReclaim_def split: if_splits option.splits)

lemma finishes_count: "task_run X t cs ps t' \<Longrightarrow> \<not> terminal (t_Status t) \<Longrightarrow>
    length (filter finishes cs) = (if terminal (t_Status t') then 1 else 0)"
proof (induction rule: task_run.induct)
  case (run_snoc t cs ps t1 c qs t2)
  then show ?case using finishes_step [OF run_snoc.hyps(2)] terminal_step [OF run_snoc.hyps(2)] by auto
qed simp

lemma progress_run: "task_run X t cs ps t' \<Longrightarrow> unat (t_ProgressSequence t) + length cs < 2 ^ 64 \<Longrightarrow>
    unat (t_ProgressSequence t') = unat (t_ProgressSequence t) + length ps \<and> length ps \<le> length cs \<and>
    map (\<lambda>p. unat (p_Sequence p)) ps = [Suc (unat (t_ProgressSequence t))..<Suc (unat (t_ProgressSequence t) + length ps)]"
proof (induction rule: task_run.induct)
  case (run_snoc t cs ps t1 c qs t2)
  have "unat (t_ProgressSequence t) + length cs < 2 ^ 64" using run_snoc.prems by simp
  note IH = run_snoc.IH [OF this]
  from IH run_snoc.prems have "t_ProgressSequence t1 \<noteq> - 1" by (intro not_max) simp
  then have "unat (t_ProgressSequence t1 + 1) = Suc (unat (t_ProgressSequence t1))" by (rule unat_inc)
  with IH step_progress [OF run_snoc.hyps(2)] show ?case by (auto simp: map_eq_Cons_conv)
qed simp

text \<open>The revision a command names.\<close>

fun expected_revision :: "task_command \<Rightarrow> u64 option" where
  "expected_revision (CmdClaim c) = Some (cc_ExpectedRevision c)"
| "expected_revision (CmdReclaim c) = Some (rc_ExpectedRevision c)"
| "expected_revision (CmdProgress c) = Some (f_ExpectedRevision (pc_Fence c))"
| "expected_revision (CmdWait c) = Some (f_ExpectedRevision (wu_Fence c))"
| "expected_revision (CmdResume c) = Some (rs_ExpectedRevision c)"
| "expected_revision (CmdComplete c) = Some (f_ExpectedRevision (co_Fence c))"
| "expected_revision (CmdCancel c) = Some (m_ExpectedRevision (ca_Mutation c))"
| "expected_revision (CmdTimeout c) = Some (f_ExpectedRevision (to_Fence c))"
| "expected_revision (CmdFail c) = Some (f_ExpectedRevision (fc_Fence c))"
| "expected_revision (CmdDelete r _) = Some r"
| "expected_revision (CmdTransition _) = None"

lemma step_expected: "task_step X t c ps t' \<Longrightarrow> expected_revision c = Some r \<Longrightarrow> t_Revision t = r"
proof (induction rule: task_step.induct)
  case (step_claim t c l t')
  then show ?case using claim_op.cas_guard [of t c t'] by simp
next
  case (step_reclaim t rc l t')
  then show ?case using reclaim_op.cas_guard [of t rc t'] by simp
next
  case (step_delete t er tm t')
  then show ?case by (simp add: SoftDelete_Inr ValidateDelete_def split: if_splits)
qed (auto dest: progress_op.cas_guard wait_op.cas_guard resume_op.cas_guard complete_op.cas_guard cancel_op.cas_guard
       timeout_op.cas_guard fail_op.cas_guard)

lemma run_revision_ge: "task_run X t cs ps t' \<Longrightarrow> unat (t_Revision t) + length cs < 2 ^ 64 \<Longrightarrow>
    unat (t_Revision t) \<le> unat (t_Revision t')"
proof (induction rule: task_run.induct)
  case (run_snoc t cs ps t1 c qs t2)
  from run_revision [OF run_snoc.hyps(1)] run_snoc.prems have "t_Revision t1 \<noteq> - 1" by (intro not_max) simp
  then have "unat (t_Revision t1) \<le> unat (t_Revision t2)"
    using step_revision [OF run_snoc.hyps(2)] unat_inc [of "t_Revision t1"] by auto
  with run_snoc show ?case by simp
qed simp

text \<open>The instant at which a worker acts.\<close>

fun worker_moment :: "task_command \<Rightarrow> gotime option" where
  "worker_moment (CmdProgress c) = Some (p_At (pc_Progress c))"
| "worker_moment (CmdWait c) = Some (wu_At c)"
| "worker_moment (CmdComplete c) = Some (co_At c)"
| "worker_moment (CmdTimeout c) = Some (to_At c)"
| "worker_moment (CmdFail c) = Some (fc_At c)"
| "worker_moment _ = None"

lemma worker_lease: "task_step X t c ps t' \<Longrightarrow> worker_moment c = Some m \<Longrightarrow>
    \<exists>l. t_Lease t = Some l \<and> Before m (l_ExpiresAt l)"
  by (induction rule: task_step.induct)
     (auto dest: progress_op.needs_lease wait_op.needs_lease complete_op.needs_lease timeout_op.needs_lease
        fail_op.needs_lease)

section \<open>The abstract life cycle\<close>

text \<open>What the rest of the system sees of a task: whether it waits for a worker, is worked on, is
  parked for the user or has ended, with the number of times it was handed to a worker.\<close>

datatype job = Pending u64 | Active u64 | Parked u64 | Ended Status

fun job_of :: "Status \<Rightarrow> u64 \<Rightarrow> job" where
  "job_of StatusQueued e = Pending e"
| "job_of StatusRunning e = Active e"
| "job_of StatusWaitingUser e = Parked e"
| "job_of s e = Ended s"

definition abs_task :: "Task \<Rightarrow> job" where
  "abs_task t = job_of (t_Status t) (t_LeaseEpoch t)"

inductive job_step :: "job \<Rightarrow> job \<Rightarrow> bool" where
  job_stutter: "job_step j j"
| job_start: "job_step (Pending e) (Active (e + 1))"
| job_takeover: "job_step (Active e) (Active (e + 1))"
| job_park: "job_step (Active e) (Parked e)"
| job_unpark: "job_step (Parked e) (Pending e)"
| job_finish: "s = StatusSucceeded \<or> s = StatusFailed \<Longrightarrow> job_step (Active e) (Ended s)"
| job_withdraw: "j = Pending e \<or> j = Active e \<or> j = Parked e \<Longrightarrow> job_step j (Ended StatusCanceled)"

lemma job_step_refines: "task_step X t c ps t' \<Longrightarrow> job_step (abs_task t) (abs_task t')"
proof (induction rule: task_step.induct)
  case (step_claim t c l t')
  then show ?case
    by (auto simp: task_ops ValidateClaim_def LeaseEpochKnown_def abs_task_def job_start split: if_splits)
next
  case (step_reclaim t rc l t')
  then show ?case
    by (auto simp: task_ops ValidateReclaim_def abs_task_def job_takeover split: if_splits option.splits)
next
  case (step_cancel t a t')
  then show ?case by (auto simp: task_ops CanTransition_iff abs_task_def intro: job_withdraw split: if_splits)
next
  case (step_transition t dest t')
  then show ?case by (auto simp: task_ops CanTransition_iff abs_task_def intro: job_park job_unpark)
qed (auto simp: task_ops CanTransition_iff abs_task_def intro: job_park job_unpark job_finish job_stutter)

section \<open>Properties\<close>

text \<open>C1. Starting from a task that \<open>Task.Validate\<close> accepts, every sequence of successful claims,
  reclaims, progress events, waits, resumes, completions, cancellations, timeouts, failures, deletions and
  transitions leaves a task that \<open>Task.Validate\<close> accepts, as long as the 64-bit revision does not
  overflow, clocks are after the zero time and failures carry a summary that is not blank.\<close>

theorem task_run_keeps_valid:
  assumes "task_run X t cs ps t'" "Task_Validate X t = None" "unat (t_Revision t) + length cs < 2 ^ 64" "list_all sane cs"
  shows "Task_Validate X t' = None"
  using assms by (rule run_valid)

theorem task_run_keeps_valid_witness: "Task_Validate ex ex_reclaimed = None"
  by (rule task_run_keeps_valid [OF ex_run ex_task_valid])
     (simp_all add: ex_task_def ex_claim_def ex_reclaim_def ex_time_def Second_def)

text \<open>C2. Fencing. A worker that got its lease when the task was at some epoch is refused by every fenced
  operation once the task has been claimed or reclaimed since: \<open>Fence.validate\<close> fails on every later
  state, whatever else happened in between.\<close>

theorem stale_holder_is_fenced:
  assumes "task_run X t cs ps t'" "list_ex reissues cs" "unat (t_LeaseEpoch t) + length cs < 2 ^ 64"
    and "f_LeaseEpoch f = t_LeaseEpoch t"
  shows "Fence_validate f t' True tm \<noteq> None"
  using epoch_grows [OF assms(1-3)] assms(4) by (auto simp del: not_None_eq simp: Fence_None)

theorem stale_holder_is_fenced_witness: "Fence_validate (ex_fence 1 3) ex_reclaimed True (ex_time 310) \<noteq> None"
proof (rule stale_holder_is_fenced)
  show "task_run ex ex_running [CmdReclaim ex_reclaim] [] ex_reclaimed"
    using run_snoc [OF run_nil ex_reclaim_step] by simp
qed (simp_all add: ex_tasks)

text \<open>C3. A task that is not finished ends at most once: along every run the number of completions,
  cancellations, timeouts and failures that succeed is one if the task is finished at the end, and zero otherwise; from then on
  its status, result and failure never change and no progress is recorded.\<close>

theorem task_ends_at_most_once:
  assumes "task_run X t cs ps t1" "\<not> terminal (t_Status t)"
  shows "length (filter finishes cs) = (if terminal (t_Status t1) then 1 else 0) \<and>
    (terminal (t_Status t1) \<longrightarrow> (\<forall>ds qs t2. task_run X t1 ds qs t2 \<longrightarrow> t_Status t2 = t_Status t1
       \<and> t_Result t2 = t_Result t1 \<and> t_FailureCode t2 = t_FailureCode t1
       \<and> t_FailureSummary t2 = t_FailureSummary t1 \<and> qs = []))"
  using finishes_count [OF assms] terminal_run by blast

theorem task_ends_at_most_once_witness:
  "length (filter finishes [CmdClaim ex_claim, CmdReclaim ex_reclaim]) = (if terminal (t_Status ex_reclaimed) then 1 else 0)"
  using task_ends_at_most_once [OF ex_run] by (simp add: ex_tasks)

text \<open>C4. The life cycle refines its abstract description: seen through \<open>abs_task\<close>, every step of
  a task is a step of the abstract machine, in which only an active job succeeds or fails, each hand-over
  advances the epoch by one, and an ended job stays as it is.\<close>

theorem task_refines_job: "task_step X t c ps t' \<longrightarrow> job_step (abs_task t) (abs_task t')"
  using job_step_refines by blast

theorem task_refines_job_witness: "job_step (Active 1) (Active 2)"
  using task_refines_job [of ex ex_running "CmdReclaim ex_reclaim" "[]" ex_reclaimed] ex_reclaim_step
  by (simp add: abs_task_def ex_tasks)

text \<open>Progress events are numbered without a gap: the events that a run appends carry exactly the
  sequence numbers after the cursor of the task, in order, and the cursor ends at the last of them.\<close>

theorem progress_is_contiguous:
  assumes "task_run X t cs ps t'" "unat (t_ProgressSequence t) + length cs < 2 ^ 64"
  shows "map (\<lambda>p. unat (p_Sequence p)) ps = [Suc (unat (t_ProgressSequence t))..<Suc (unat (t_ProgressSequence t'))]"
  using progress_run [OF assms] by simp

theorem progress_is_contiguous_witness:
  "map (\<lambda>p. unat (p_Sequence p)) [(pc_Progress ex_progress)\<lparr>p_Sequence := 1\<rparr>]
     = [Suc (unat (t_ProgressSequence ex_running))..<Suc (unat (t_ProgressSequence (ex_running\<lparr>t_ProgressSequence := 1, t_Revision := 3\<rparr>)))]"
proof (rule progress_is_contiguous)
  have "task_step ex ex_running (CmdProgress ex_progress) [(pc_Progress ex_progress)\<lparr>p_Sequence := 1\<rparr>]
      (ex_running\<lparr>t_ProgressSequence := 1, t_Revision := 3\<rparr>)"
    by (simp add: ApplyProgress_Inr AllocateProgress_Inr ValidateProgress_def Let_def)
       (simp add: Fence_validate_def ex_progress_def ex_tasks ex_times task_limits float_less_def)
  from run_snoc [OF run_nil this]
  show "task_run ex ex_running [CmdProgress ex_progress] [(pc_Progress ex_progress)\<lparr>p_Sequence := 1\<rparr>]
      (ex_running\<lparr>t_ProgressSequence := 1, t_Revision := 3\<rparr>)" by simp
qed (simp add: ex_tasks)

text \<open>Optimistic concurrency. Once a command that names a revision has changed the task, no command
  that names the same revision succeeds any more, whatever happens in between.\<close>

theorem revision_used_once:
  assumes "task_step X t c qs t1" "t1 \<noteq> t" "task_run X t1 cs ps t2" "unat (t_Revision t) + length cs + 1 < 2 ^ 64"
    and "expected_revision c = Some r" "expected_revision d = Some r"
  shows "\<not> task_step X t2 d rs t3"
proof
  assume d: "task_step X t2 d rs t3"
  have "t_Revision t \<noteq> - 1" using assms(4) by (intro not_max) simp
  then have "unat (t_Revision t1) = Suc (unat (t_Revision t))"
    using step_revision [OF assms(1)] assms(2) unat_inc by auto
  moreover from this have "unat (t_Revision t1) \<le> unat (t_Revision t2)"
    using run_revision_ge [OF assms(3)] assms(4) by simp
  ultimately show False using step_expected [OF d assms(6)] step_expected [OF assms(1,5)] by simp
qed

theorem revision_used_once_witness: "\<not> task_step ex ex_reclaimed (CmdClaim ex_claim) [] ex_running"
  by (rule revision_used_once [OF ex_claim_step, where cs = "[CmdReclaim ex_reclaim]" and ps = "[]" and r = 1])
     (use run_snoc [OF run_nil ex_reclaim_step] in \<open>simp_all add: ex_tasks ex_claim_def\<close>)

text \<open>Leases exclude each other in time: where a task can be reclaimed at some instant, every report,
  wait, completion, timeout or failure that its present holder can still make is strictly earlier.\<close>

theorem leases_exclude_each_other:
  assumes "Reclaim (Some t) rc = Inr (l, t')" "task_step X t d ps t''" "worker_moment d = Some m"
  shows "Before m (rc_At rc)"
  using assms(1) worker_lease [OF assms(2,3)]
  by (auto simp: Reclaim_Inr ValidateReclaim_def gotime_simps split: if_splits)

theorem leases_exclude_each_other_witness: "Before (ex_time 220) (ex_time 300)"
proof -
  have "Reclaim (Some ex_running) ex_reclaim = Inr (ex_lease2, ex_reclaimed)"
    by (simp add: Reclaim_Inr ValidateReclaim_def validHolder_def ex_reclaim_def ex_tasks ex_times task_limits)
  moreover have "Complete ex (Some ex_running) ex_complete = Inr (ex_running\<lparr>t_Result := Some (co_Result ex_complete),
      t_Status := StatusSucceeded, t_Revision := 3, t_Lease := None\<rparr>)"
    by (simp add: Complete_Inr transition_Inr ValidateComplete_def Fence_validate_def Result_Validate_def CanTransition_def
        ex_complete_def ex_tasks ex_times task_limits)
  ultimately show ?thesis
    using leases_exclude_each_other [OF _ step_complete, of ex_running ex_reclaim ex_lease2 ex_reclaimed ex ex_complete _ "ex_time 220"]
    by (simp add: ex_reclaim_def ex_complete_def)
qed

text \<open>\<open>Fail\<close> accepts a failure without a summary, and the failed task it leaves is one that \<open>Task.Validate\<close> refuses.\<close>

definition ex_silent_failure :: FailCommand where
  "ex_silent_failure = \<lparr>fc_Fence = ex_fence 1 2, fc_ErrorCode = ''code'', fc_ErrorSummary = [], fc_At = ex_time 220\<rparr>"

theorem Fail_without_summary:
  "\<exists>t'. Fail (Some ex_running) ex_silent_failure = Inr t' \<and> t_Status t' = StatusFailed \<and> Task_Validate ex t' \<noteq> None"
proof -
  have c: "TrimSpace ''code'' = ''code''" "ValidString ''code''" by (simp_all add: TrimSpace_printable printable_def ValidString_def)
  have f: "Fence_validate (ex_fence 1 2) ex_running True (ex_time 220) = None"
    by (simp add: Fence_None ex_tasks ex_times)
  have v: "ValidateFail ex_running ex_silent_failure = None"
    using f by (simp add: ValidateFail_def ex_silent_failure_def c) (simp add: ex_times task_limits)
  define t where "t = ex_running\<lparr>t_FailureCode := ''code'', t_FailureSummary := []\<rparr>"
  have "CanTransition t StatusFailed" by (simp add: t_def CanTransition_def ex_tasks)
  with v have "Fail (Some ex_running) ex_silent_failure = Inr (t\<lparr>t_Status := StatusFailed, t_Revision := t_Revision t + 1, t_Lease := None\<rparr>)"
    by (simp add: Fail_def transition_def t_def ex_silent_failure_def)
  moreover have "Task_Validate ex (t\<lparr>t_Status := StatusFailed, t_Revision := t_Revision t + 1, t_Lease := None\<rparr>) \<noteq> None"
    by (simp add: Task_Validate_None outcome_None t_def)
  ultimately show ?thesis by (intro exI conjI) simp_all
qed

end
