(* ===== verification/Task_Cron.thy ===== *)
theory Task_Cron
  imports Task_Types Example_Data
begin

text \<open>
  The two cron calculators: \<open>ParseCron\<close> and \<open>NextCron\<close> of
  \<^verbatim>\<open>src/internal/coretask/schedule.go\<close>, used when a schedule is created or changed, and
  \<open>CronCalculator.Next\<close> of \<^verbatim>\<open>src/internal/coreruntime/cron.go\<close>, used while schedules are polled. They
  interpret a field by different routines; the theory shows that they compute the same instants.

  Both loops try the \<open>60 * 24 * 366 * 10\<close> minutes after the start, which is the fuel of \<open>scan\<close>: the
  bound is the code's own. A Go \<open>int\<close> is a mathematical integer here, as no operation leaves the
  range of the two digits that \<open>validCronField\<close> lets through.
\<close>

section \<open>Parsing\<close>

definition cron_token :: "string \<Rightarrow> bool" where
  "cron_token s \<longleftrightarrow> s \<noteq> [] \<and> list_all (\<lambda>c. is_digit c \<or> c \<in> set ''*/-,'') s"

definition cronMin :: "int list" where "cronMin = [0, 0, 1, 1, 0]"
definition cronMax :: "int list" where "cronMax = [59, 23, 31, 12, 7]"

definition validCronNumber :: "string \<Rightarrow> int \<Rightarrow> int \<Rightarrow> bool" where
  "validCronNumber value lo hi = (case Atoi value of None \<Rightarrow> False | Some n \<Rightarrow> n \<ge> lo \<and> n \<le> hi)"

text \<open>\<open>n, _ := strconv.Atoi(s)\<close>: the number, or 0 when the text is no number.\<close>

definition Atoi_val :: "string \<Rightarrow> int" where
  "Atoi_val s = (case Atoi s of None \<Rightarrow> 0 | Some n \<Rightarrow> n)"

definition cron_base_ok :: "nat \<Rightarrow> string \<Rightarrow> bool" where
  "cron_base_ok pos item =
    (if item = ''*'' then True
     else if count_list item (CHR ''-'') > 1 then False
     else if CHR ''-'' \<in> set item then
       (let (a, b) = SplitN2 (CHR ''-'') item in
          validCronNumber a (cronMin ! pos) (cronMax ! pos) \<and> validCronNumber b (cronMin ! pos) (cronMax ! pos)
          \<and> \<not> Atoi_val a > Atoi_val b)
     else validCronNumber item (cronMin ! pos) (cronMax ! pos))"

definition cron_item_ok :: "nat \<Rightarrow> string \<Rightarrow> bool" where
  "cron_item_ok pos item =
    (if item = [] then False
     else if CHR ''/'' \<in> set item then
       (if count_list item (CHR ''/'') \<noteq> 1 then False
        else let (a, b) = SplitN2 (CHR ''/'') item in
          validCronNumber b 1 (cronMax ! pos - cronMin ! pos) \<and> cron_base_ok pos a)
     else cron_base_ok pos item)"

definition validCronField :: "string \<Rightarrow> nat \<Rightarrow> bool" where
  "validCronField field pos = (if field = ''*'' then True else list_all (cron_item_ok pos) (Split (CHR '','') field))"

definition ParseCron :: "string \<Rightarrow> task_error + string list" where
  "ParseCron expr = (let fields = Fields (TrimSpace expr) in
     if length fields \<noteq> 5 then Inl ErrInvalid
     else if list_all (\<lambda>(i, f). cron_token f \<and> validCronField f i) (enumerate 0 fields) then Inr fields
     else Inl ErrInvalid)"

definition ValidateCron :: "string \<Rightarrow> task_error option" where
  "ValidateCron expr = err_of (ParseCron expr)"

section \<open>The calculator of coretask\<close>

text \<open>The bounds and the step of one item of a field.\<close>

definition item_range :: "int \<Rightarrow> int \<Rightarrow> string \<Rightarrow> int \<times> int \<times> int" where
  "item_range lo0 hi0 item =
    (let (base, step) = (if CHR ''/'' \<in> set item
           then (fst (SplitN2 (CHR ''/'') item), Atoi_val (snd (SplitN2 (CHR ''/'') item))) else (item, 1));
         (lo, hi) = (if base = ''*'' then (lo0, hi0)
           else if CHR ''-'' \<in> set base then
             (Atoi_val (fst (SplitN2 (CHR ''-'') base)), Atoi_val (snd (SplitN2 (CHR ''-'') base)))
           else (Atoi_val base, Atoi_val base))
     in (lo, hi, step))"

definition items_match :: "string \<Rightarrow> int \<Rightarrow> int \<Rightarrow> int \<Rightarrow> bool" where
  "items_match field value lo0 hi0 = list_ex (\<lambda>item. let (lo, hi, step) = item_range lo0 hi0 item in
     value \<ge> lo \<and> value \<le> hi \<and> (value - lo) mod step = 0) (Split (CHR '','') field)"

definition cronFieldMatches :: "string \<Rightarrow> int \<Rightarrow> int \<Rightarrow> int \<Rightarrow> bool" where
  "cronFieldMatches field value lo0 hi0 =
    (if value = 0 \<and> hi0 = 7 \<and> items_match field 7 lo0 hi0 then True else items_match field value lo0 hi0)"

definition cron_minute_ok :: "string list \<Rightarrow> int \<times> int \<times> int \<times> int \<times> int \<Rightarrow> bool" where
  "cron_minute_ok p v = (case v of (minute, hour, day, month, weekday) \<Rightarrow>
     cronFieldMatches (p ! 0) minute 0 59 \<and> cronFieldMatches (p ! 1) hour 0 23 \<and> cronFieldMatches (p ! 3) month 1 12
     \<and> (let dom = cronFieldMatches (p ! 2) day 1 31; dow = cronFieldMatches (p ! 4) weekday 0 7 in
         (p ! 2 = ''*'' \<and> p ! 4 = ''*'') \<or> (p ! 2 = ''*'' \<and> dow) \<or> (p ! 4 = ''*'' \<and> dom)
         \<or> (p ! 2 \<noteq> ''*'' \<and> p ! 4 \<noteq> ''*'' \<and> (dom \<or> dow))))"

fun scan :: "(int \<Rightarrow> bool) \<Rightarrow> nat \<Rightarrow> int \<Rightarrow> int option" where
  "scan ok 0 i = None"
| "scan ok (Suc k) i = (if ok i then Some i else scan ok k (i + Minute))"

definition cron_horizon :: nat where "cron_horizon = 60 * 24 * 366 * 10"

definition Truncate :: "int \<Rightarrow> int \<Rightarrow> int" where
  "Truncate i d = i - i mod d"

text \<open>The minutes the loops visit, numbered from 0.\<close>

definition cron_minute :: "gotime \<Rightarrow> nat \<Rightarrow> int" where
  "cron_minute after n = Truncate (instant after) Minute + Minute + int n * Minute"

definition NextCron :: "ext \<Rightarrow> gotime \<Rightarrow> string \<Rightarrow> string \<Rightarrow> task_error + gotime" where
  "NextCron X after expression timezone = (case ParseCron expression of Inl e \<Rightarrow> Inl e
     | Inr p \<Rightarrow> (case LoadLocation X (TrimSpace timezone) of None \<Rightarrow> Inl (ErrStore ''unknown time zone'')
       | Some loc \<Rightarrow> (case scan (\<lambda>i. cron_minute_ok p (civil X loc i)) cron_horizon (cron_minute after 0) of
           None \<Rightarrow> Inl ErrInvalid
         | Some i \<Rightarrow> Inr \<lparr>instant = i, zone = UTC\<rparr>)))"

section \<open>The calculator of coreruntime\<close>

function steps_from :: "int \<Rightarrow> int \<Rightarrow> int \<Rightarrow> int list" where
  "steps_from v hi step = (if step \<le> 0 \<or> v > hi then [] else v # steps_from (v + step) hi step)"
  by pat_completeness auto
termination
  by (relation "measure (\<lambda>(v, hi, step). nat (hi + 1 - v))") auto

declare steps_from.simps [simp del]

definition opt_res :: "'a option \<Rightarrow> task_error + 'a" where
  "opt_res m = (case m of None \<Rightarrow> Inl ErrInvalid | Some n \<Rightarrow> Inr n)"

definition parse_step :: "string \<Rightarrow> task_error + (string \<times> int)" where
  "parse_step item = (if CHR ''/'' \<in> set item then
       (let (a, b) = SplitN2 (CHR ''/'') item in rbind (opt_res (Atoi b)) (\<lambda>step.
          if step \<le> 0 then Inl ErrInvalid else Inr (a, step)))
     else Inr (item, 1))"

definition parse_bounds :: "nat \<Rightarrow> string \<Rightarrow> task_error + (int \<times> int)" where
  "parse_bounds pos item =
    (if item = ''*'' then Inr (cronMin ! pos, cronMax ! pos)
     else if CHR ''-'' \<in> set item then
       (let (a, b) = SplitN2 (CHR ''-'') item in
         rbind (opt_res (Atoi a)) (\<lambda>lo. rbind (opt_res (Atoi b)) (\<lambda>hi. Inr (lo, hi))))
     else rbind (opt_res (Atoi item)) (\<lambda>lo. Inr (lo, lo)))"

definition parse_item :: "nat \<Rightarrow> string \<Rightarrow> task_error + int list" where
  "parse_item pos item0 = rbind (parse_step item0) (\<lambda>(item, step). rbind (parse_bounds pos item) (\<lambda>(lo, hi).
     if lo < cronMin ! pos \<or> hi > cronMax ! pos \<or> lo > hi then Inl ErrInvalid
     else Inr (concat (map (\<lambda>v. if pos = 4 \<and> v = 7 then [v, 0] else [v]) (steps_from lo hi step)))))"

definition parseField :: "string \<Rightarrow> nat \<Rightarrow> task_error + int list" where
  "parseField field pos = rbind (rmap (parse_item pos) (Split (CHR '','') field)) (\<lambda>vs. Inr (concat vs))"

definition sets_minute_ok :: "string list \<Rightarrow> int list list \<Rightarrow> int \<times> int \<times> int \<times> int \<times> int \<Rightarrow> bool" where
  "sets_minute_ok p s v = (case v of (minute, hour, day, month, weekday) \<Rightarrow>
     if \<not> minute \<in> set (s ! 0) \<or> \<not> hour \<in> set (s ! 1) \<or> \<not> month \<in> set (s ! 3) then False
     else let dom = day \<in> set (s ! 2); dow = weekday \<in> set (s ! 4);
              domWildcard = (p ! 2 = ''*''); dowWildcard = (p ! 4 = ''*'') in
       if domWildcard \<and> dowWildcard then True
       else if (domWildcard \<and> \<not> dow) \<or> (dowWildcard \<and> \<not> dom) \<or> (\<not> domWildcard \<and> \<not> dowWildcard \<and> \<not> (dom \<or> dow))
       then False else True)"

definition CronCalculator_Next :: "ext \<Rightarrow> gotime \<Rightarrow> string \<Rightarrow> string \<Rightarrow> task_error + gotime" where
  "CronCalculator_Next X after expression timezone = (case ParseCron expression of Inl e \<Rightarrow> Inl e
     | Inr p \<Rightarrow> (case LoadLocation X (TrimSpace timezone) of None \<Rightarrow> Inl (ErrStore ''unknown time zone'')
       | Some loc \<Rightarrow> (case rmap (\<lambda>(i, f). parseField f i) (enumerate 0 p) of Inl e \<Rightarrow> Inl e
         | Inr s \<Rightarrow> (case scan (\<lambda>i. sets_minute_ok p s (civil X loc i)) cron_horizon (cron_minute after 0) of
             None \<Rightarrow> Inl (ErrStore ''no cron occurrence within search horizon'')
           | Some i \<Rightarrow> Inr \<lparr>instant = i, zone = UTC\<rparr>))))"

section \<open>What a field matches\<close>

lemma steps_from_mem: "0 < step \<Longrightarrow> x \<in> set (steps_from v hi step) \<longleftrightarrow> v \<le> x \<and> x \<le> hi \<and> (x - v) mod step = 0"
proof (induction v hi step rule: steps_from.induct)
  case (1 v hi step)
  show ?case
  proof (cases "v > hi")
    case True
    then show ?thesis by (subst steps_from.simps) auto
  next
    case False
    have shift: "(x - (v + step)) mod step = (x - v) mod step"
      by (metis diff_diff_eq minus_mod_self2)
    have small: "x = v" if "v \<le> x" "x < v + step" "step dvd x - v" using that zdvd_not_zless [of "x - v" step] by (cases "v < x") auto
    have "x \<in> set (steps_from v hi step) \<longleftrightarrow> x = v \<or> v + step \<le> x \<and> x \<le> hi \<and> (x - v) mod step = 0"
      using 1 False shift by (subst steps_from.simps) simp
    also have "\<dots> \<longleftrightarrow> v \<le> x \<and> x \<le> hi \<and> (x - v) mod step = 0"
      using False "1.prems" by (cases "x < v + step") (auto dest: small)
    finally show ?thesis .
  qed
qed

lemma valid_number: "validCronNumber s lo hi \<Longrightarrow> \<exists>n. Atoi s = Some n \<and> Atoi_val s = n \<and> lo \<le> n \<and> n \<le> hi"
  by (auto simp: validCronNumber_def Atoi_val_def split: option.splits)

lemma cron_bounds_order: "pos < 5 \<Longrightarrow> cronMin ! pos \<le> cronMax ! pos"
  by (auto simp: cronMin_def cronMax_def less_Suc_eq numeral_eq_Suc)

definition base_range :: "nat \<Rightarrow> string \<Rightarrow> int \<times> int" where
  "base_range pos base = (if base = ''*'' then (cronMin ! pos, cronMax ! pos)
     else if CHR ''-'' \<in> set base then
       (Atoi_val (fst (SplitN2 (CHR ''-'') base)), Atoi_val (snd (SplitN2 (CHR ''-'') base)))
     else (Atoi_val base, Atoi_val base))"

lemma base_ok: "cron_base_ok pos base \<Longrightarrow> pos < 5 \<Longrightarrow> parse_bounds pos base = Inr (base_range pos base) \<and>
    cronMin ! pos \<le> fst (base_range pos base) \<and> fst (base_range pos base) \<le> snd (base_range pos base)
    \<and> snd (base_range pos base) \<le> cronMax ! pos"
  by (auto simp: cron_base_ok_def parse_bounds_def base_range_def opt_res_def cron_bounds_order
      split: if_splits prod.splits dest!: valid_number)

lemma item_ok: assumes "cron_item_ok pos item" "pos < 5"
  obtains base step where "parse_step item = Inr (base, step)" "1 \<le> step"
    "item_range (cronMin ! pos) (cronMax ! pos) item = (fst (base_range pos base), snd (base_range pos base), step)"
    "cron_base_ok pos base"
proof (cases "CHR ''/'' \<in> set item")
  case True
  with assms that show ?thesis
    by (auto simp: cron_item_ok_def parse_step_def opt_res_def item_range_def base_range_def Let_def
        split: if_splits prod.splits dest!: valid_number)
next
  case False
  with assms that show ?thesis
    by (auto simp: cron_item_ok_def parse_step_def item_range_def base_range_def Let_def split: if_splits)
qed

definition in_item :: "nat \<Rightarrow> string \<Rightarrow> int \<Rightarrow> bool" where
  "in_item pos item x = (case item_range (cronMin ! pos) (cronMax ! pos) item of (lo, hi, step) \<Rightarrow>
     x \<ge> lo \<and> x \<le> hi \<and> (x - lo) mod step = 0)"

lemma parse_item_ok: assumes "cron_item_ok pos item" "pos < 5"
  shows "\<exists>vs. parse_item pos item = Inr vs \<and> (\<forall>x. x \<in> set vs \<longleftrightarrow> in_item pos item x \<or> (pos = 4 \<and> x = 0 \<and> in_item pos item 7))"
proof -
  from item_ok [OF assms] obtain base step where p: "parse_step item = Inr (base, step)" "1 \<le> step"
    "item_range (cronMin ! pos) (cronMax ! pos) item = (fst (base_range pos base), snd (base_range pos base), step)"
    "cron_base_ok pos base" .
  from base_ok [OF p(4) assms(2)] p show ?thesis
    by (auto simp: parse_item_def in_item_def steps_from_mem not_less split: prod.splits if_splits)
qed

lemma items_match_iff: "pos < 5 \<Longrightarrow> items_match f x (cronMin ! pos) (cronMax ! pos) \<longleftrightarrow> (\<exists>item\<in>set (Split (CHR '','') f). in_item pos item x)"
  by (auto simp: items_match_def list_ex_iff in_item_def Let_def split: prod.splits)

lemma valid_items: "validCronField f pos \<Longrightarrow> \<forall>item\<in>set (Split (CHR '','') f). cron_item_ok pos item"
  by (cases "f = ''*''") (simp_all add: validCronField_def list_all_iff cron_item_ok_def cron_base_ok_def)

lemma parseField_ok: assumes "validCronField f pos" "pos < 5"
  shows "\<exists>vs. parseField f pos = Inr vs \<and> (\<forall>x. x \<in> set vs \<longleftrightarrow> cronFieldMatches f x (cronMin ! pos) (cronMax ! pos))"
proof -
  let ?items = "Split (CHR '','') f"
  define val where "val item = projr (parse_item pos item)" for item
  have v: "parse_item pos item = Inr (val item) \<and> (\<forall>x. x \<in> set (val item) \<longleftrightarrow> in_item pos item x \<or> (pos = 4 \<and> x = 0 \<and> in_item pos item 7))"
    if "item \<in> set ?items" for item
    using parse_item_ok [of pos item] valid_items [OF assms(1)] assms(2) that by (auto simp: val_def)
  have "rmap (parse_item pos) ?items = Inr (map val ?items)"
    using v by (auto simp: rmap_Inr list_all2_conv_all_nth)
  then have p: "parseField f pos = Inr (concat (map val ?items))" by (simp add: parseField_def)
  have "cronMax ! pos = 7 \<longleftrightarrow> pos = 4" using assms(2) by (auto simp: cronMax_def less_Suc_eq numeral_eq_Suc)
  then have "x \<in> set (concat (map val ?items)) \<longleftrightarrow> cronFieldMatches f x (cronMin ! pos) (cronMax ! pos)" for x
    using v items_match_iff [OF assms(2)] by (auto simp: cronFieldMatches_def)
  with p show ?thesis by blast
qed

section \<open>The search\<close>

lemma scan_Some: "scan ok k i = Some j \<longleftrightarrow> (\<exists>n<k. j = i + int n * Minute \<and> ok j \<and> (\<forall>m<n. \<not> ok (i + int m * Minute)))"
proof (induction k arbitrary: i)
  case (Suc k)
  have split: "(\<exists>n<Suc k. P n) \<longleftrightarrow> P 0 \<or> (\<exists>n<k. P (Suc n))" for P
    using less_Suc_eq_0_disj by auto
  have all: "(\<forall>m<Suc n. Q m) \<longleftrightarrow> Q 0 \<and> (\<forall>m<n. Q (Suc m))" for Q n
    using less_Suc_eq_0_disj by auto
  show ?case
    by (subst split) (auto simp: Suc all algebra_simps)
qed simp

lemma scan_None: "scan ok k i = None \<longleftrightarrow> (\<forall>n<k. \<not> ok (i + int n * Minute))"
proof (induction k arbitrary: i)
  case (Suc k)
  have all: "(\<forall>m<Suc n. Q m) \<longleftrightarrow> Q 0 \<and> (\<forall>m<n. Q (Suc m))" for Q n
    using less_Suc_eq_0_disj by auto
  show ?case by (subst all) (auto simp: Suc algebra_simps)
qed simp

lemma ParseCron_Inr: "ParseCron e = Inr p \<Longrightarrow> length p = 5 \<and> (\<forall>i<5. validCronField (p ! i) i)"
proof -
  assume e: "ParseCron e = Inr p"
  then have p: "length p = 5" "list_all (\<lambda>(i, f). cron_token f \<and> validCronField f i) (enumerate 0 p)"
    by (auto simp: ParseCron_def Let_def split: if_splits)
  have "(i, p ! i) \<in> set (enumerate 0 p)" if "i < 5" for i
    using that p(1) by (simp add: in_set_enumerate_eq)
  with p show ?thesis unfolding list_all_iff by blast
qed

lemma sets_ok: assumes "ParseCron e = Inr p"
  obtains s where "rmap (\<lambda>(i, f). parseField f i) (enumerate 0 p) = Inr s" "length s = 5"
    "\<And>i x. i < 5 \<Longrightarrow> x \<in> set (s ! i) \<longleftrightarrow> cronFieldMatches (p ! i) x (cronMin ! i) (cronMax ! i)"
proof -
  from ParseCron_Inr [OF assms] have p: "length p = 5" "\<And>i. i < 5 \<Longrightarrow> validCronField (p ! i) i" by auto
  define s where "s = map (\<lambda>(i, f). projr (parseField f i)) (enumerate 0 p)"
  have v: "parseField (p ! i) i = Inr (s ! i) \<and> (\<forall>x. x \<in> set (s ! i) \<longleftrightarrow> cronFieldMatches (p ! i) x (cronMin ! i) (cronMax ! i))"
    if "i < 5" for i
  proof -
    have "s ! i = projr (parseField (p ! i) i)" using p(1) that by (simp add: s_def nth_enumerate_eq)
    with parseField_ok [OF p(2) [OF that] that] show ?thesis by (metis sum.sel(2))
  qed
  then have "(case enumerate 0 p ! i of (i, f) \<Rightarrow> parseField f i) = Inr (s ! i)" if "i < 5" for i
    using p(1) that by (simp add: nth_enumerate_eq)
  then have "rmap (\<lambda>(i, f). parseField f i) (enumerate 0 p) = Inr s"
    using p(1) unfolding rmap_Inr list_all2_conv_all_nth by (simp add: s_def)
  moreover have "length s = 5" using p(1) by (simp add: s_def)
  ultimately show ?thesis using that v by blast
qed

lemma minute_ok_eq: assumes "\<And>i x. i < 5 \<Longrightarrow> x \<in> set (s ! i) \<longleftrightarrow> cronFieldMatches (p ! i) x (cronMin ! i) (cronMax ! i)"
  shows "sets_minute_ok p s v = cron_minute_ok p v"
proof -
  have "x \<in> set (s ! 0) \<longleftrightarrow> cronFieldMatches (p ! 0) x 0 59" "x \<in> set (s ! Suc 0) \<longleftrightarrow> cronFieldMatches (p ! Suc 0) x 0 23"
    "x \<in> set (s ! 2) \<longleftrightarrow> cronFieldMatches (p ! 2) x 1 31" "x \<in> set (s ! 3) \<longleftrightarrow> cronFieldMatches (p ! 3) x 1 12"
    "x \<in> set (s ! 4) \<longleftrightarrow> cronFieldMatches (p ! 4) x 0 7" for x
    using assms [of 0 x] assms [of 1 x] assms [of 2 x] assms [of 3 x] assms [of 4 x] by (simp_all add: cronMin_def cronMax_def)
  then show ?thesis by (cases v) (auto simp: sets_minute_ok_def cron_minute_ok_def Let_def)
qed

lemma calculators_agree: "ParseCron e = Inr p \<Longrightarrow> LoadLocation X (TrimSpace z) = Some loc \<Longrightarrow>
    CronCalculator_Next X a e z = (case scan (\<lambda>i. cron_minute_ok p (civil X loc i)) cron_horizon (cron_minute a 0) of
      None \<Rightarrow> Inl (ErrStore ''no cron occurrence within search horizon'') | Some i \<Rightarrow> Inr \<lparr>instant = i, zone = UTC\<rparr>)"
proof -
  assume p: "ParseCron e = Inr p" and z: "LoadLocation X (TrimSpace z) = Some loc"
  from sets_ok [OF p] obtain s where s: "rmap (\<lambda>(i, f). parseField f i) (enumerate 0 p) = Inr s"
    "\<And>i x. i < 5 \<Longrightarrow> x \<in> set (s ! i) \<longleftrightarrow> cronFieldMatches (p ! i) x (cronMin ! i) (cronMax ! i)" by metis
  from minute_ok_eq [OF s(2)] have "(\<lambda>i. sets_minute_ok p s (civil X loc i)) = (\<lambda>i. cron_minute_ok p (civil X loc i))" by auto
  with p z s(1) show ?thesis by (simp add: CronCalculator_Next_def)
qed

lemma NextCron_scan: "ParseCron e = Inr p \<Longrightarrow> LoadLocation X (TrimSpace z) = Some loc \<Longrightarrow>
    NextCron X a e z = (case scan (\<lambda>i. cron_minute_ok p (civil X loc i)) cron_horizon (cron_minute a 0) of
      None \<Rightarrow> Inl ErrInvalid | Some i \<Rightarrow> Inr \<lparr>instant = i, zone = UTC\<rparr>)"
  by (simp add: NextCron_def)

lemma Truncate_next: "i < Truncate i Minute + Minute"
  using pos_mod_bound [of Minute i] by (simp add: Truncate_def Minute_def Second_def)

section \<open>Properties\<close>

text \<open>C38. The calculator that creates schedules and the one that polls them agree: for every
  expression, time zone and starting point they return the same instant, or both report an error.\<close>

theorem cron_calculators_agree: "NextCron X a e z = Inr t \<longleftrightarrow> CronCalculator_Next X a e z = Inr t"
proof (cases "ParseCron e")
  case (Inl err)
  then show ?thesis by (simp add: NextCron_def CronCalculator_Next_def)
next
  case (Inr p)
  show ?thesis
  proof (cases "LoadLocation X (TrimSpace z)")
    case None
    with Inr show ?thesis by (simp add: NextCron_def CronCalculator_Next_def)
  next
    case (Some loc)
    from Inr Some show ?thesis
      by (simp add: NextCron_def calculators_agree [OF Inr Some] split: option.splits)
  qed
qed

text \<open>C39. \<open>NextCron\<close> returns the earliest occurrence: the result is a whole number of minutes after the
  minute of the starting point, within ten years, its reading in the time zone satisfies the expression, and
  no minute before it does; an expression that parses in a known zone fails only if no minute of the ten
  years satisfies it.\<close>

theorem NextCron_is_earliest:
  assumes "ParseCron e = Inr p" "LoadLocation X (TrimSpace z) = Some loc"
  shows "((\<exists>t. NextCron X a e z = Inr t) \<longleftrightarrow> (\<exists>n<cron_horizon. cron_minute_ok p (civil X loc (cron_minute a n)))) \<and>
    (\<forall>t. NextCron X a e z = Inr t \<longrightarrow> zone t = UTC \<and> instant a < instant t \<and>
      (\<exists>n<cron_horizon. instant t = cron_minute a n \<and> cron_minute_ok p (civil X loc (cron_minute a n))
          \<and> (\<forall>m<n. \<not> cron_minute_ok p (civil X loc (cron_minute a m)))))"
proof (cases "scan (\<lambda>i. cron_minute_ok p (civil X loc i)) cron_horizon (cron_minute a 0)")
  case None
  then have "\<forall>n<cron_horizon. \<not> cron_minute_ok p (civil X loc (cron_minute a n))"
    unfolding scan_None cron_minute_def by simp
  with None show ?thesis by (simp add: NextCron_scan [OF assms(1,2)] cron_minute_def)
next
  case (Some i)
  then obtain n where n: "n < cron_horizon" "i = cron_minute a n" "cron_minute_ok p (civil X loc (cron_minute a n))"
    "\<forall>m<n. \<not> cron_minute_ok p (civil X loc (cron_minute a m))"
    unfolding scan_Some cron_minute_def by auto
  have eq: "NextCron X a e z = Inr \<lparr>instant = cron_minute a n, zone = UTC\<rparr>"
    using Some n(2) by (simp add: NextCron_scan [OF assms(1,2)] cron_minute_def)
  have "instant a < cron_minute a n" using Truncate_next [of "instant a"] by (simp add: cron_minute_def Minute_def Second_def)
  with n eq show ?thesis by auto
qed

theorem NextCron_is_earliest_witness:
  "(\<exists>t. NextCron ex (ex_time 90) ''* * * * *'' ''UTC'' = Inr t) \<longleftrightarrow>
   (\<exists>n<cron_horizon. cron_minute_ok (replicate 5 ''*'') (civil ex UTC (cron_minute (ex_time 90) n)))"
proof -
  have "ParseCron ''* * * * *'' = Inr (replicate 5 ''*'')"
    by (simp add: ParseCron_def TrimSpace_edges Fields_def Fields_acc_simps printable_def cron_token_def validCronField_def
        enumerate_simps numeral_eq_Suc)
  moreover have "LoadLocation ex (TrimSpace ''UTC'') = Some UTC"
    by (simp add: TrimSpace_edges printable_def ex_def ex_LoadLocation_def)
  ultimately show ?thesis using NextCron_is_earliest [of "''* * * * *''" "replicate 5 ''*''" ex "''UTC''" UTC "ex_time 90"] by simp
qed

end
