(* ===== verification/Task_Schedule.thy ===== *)
theory Task_Schedule
  imports Task_Cron Task_Machine
begin

text \<open>
  Schedules and their occurrences, \<^verbatim>\<open>src/internal/coretask/schedule.go\<close>, with the deterministic
  identifiers they are made of, and the canonical digest of a mutation in
  \<^verbatim>\<open>src/internal/coretask/types.go\<close>. \<open>CanonicalMutationDigest\<close> takes the JSON value of its
  argument: the encoder's errors on values that have none are outside the model.
\<close>

section \<open>Schedules\<close>

record Schedule =
  sc_ID :: string
  sc_Name :: string
  sc_Spec :: TaskTemplate
  sc_RunAt :: "gotime option"
  sc_Cron :: string
  sc_Timezone :: string
  sc_Paused :: bool
  sc_Revision :: u64
  sc_NextRunAt :: gotime
  sc_LastScheduledFor :: gotime
  sc_CreatedAt :: gotime
  sc_UpdatedAt :: gotime
  sc_Deleted :: bool
  sc_Replayed :: bool

definition utc_unless_zero :: "gotime \<Rightarrow> gotime" where
  "utc_unless_zero t = (if IsZero t then t else to_UTC t)"

definition Schedule_Normalize :: "ext \<Rightarrow> Schedule \<Rightarrow> task_error + Schedule" where
  "Schedule_Normalize X s0 = (let s = s0\<lparr>sc_Name := TrimSpace (sc_Name s0)\<rparr> in
     if \<not> ValidUUID X (sc_ID s) \<or> sc_Name s = [] \<or> \<not> ValidString (sc_Name s) \<or> length (sc_Name s) > 512
        \<or> sc_Revision s = 0 \<or> IsZero (sc_CreatedAt s) \<or> IsZero (sc_UpdatedAt s) \<or> \<not> InUTC (sc_CreatedAt s)
        \<or> \<not> InUTC (sc_UpdatedAt s) then Inl ErrInvalid
     else rbind (TaskTemplate_Normalize X (sc_Spec s)) (\<lambda>spec.
       if (sc_RunAt s = None) = (TrimSpace (sc_Cron s) = []) then Inl ErrInvalid
       else if (case sc_RunAt s of Some r \<Rightarrow> IsZero r | None \<Rightarrow> False) then Inl ErrInvalid
       else if sc_RunAt s = None \<and> ValidateCron (sc_Cron s) \<noteq> None then Inl (the (ValidateCron (sc_Cron s)))
       else let zone_name = (if TrimSpace (sc_Timezone s) = [] then ''UTC'' else TrimSpace (sc_Timezone s)) in
         if LoadLocation X zone_name = None then Inl ErrInvalid
         else Inr (s\<lparr>sc_Spec := spec, sc_RunAt := map_option to_UTC (sc_RunAt s),
                     sc_Cron := (if sc_RunAt s = None then Join (Fields (sc_Cron s)) '' '' else sc_Cron s),
                     sc_Timezone := zone_name, sc_NextRunAt := utc_unless_zero (sc_NextRunAt s),
                     sc_LastScheduledFor := utc_unless_zero (sc_LastScheduledFor s)\<rparr>)))"

definition Schedule_Validate :: "ext \<Rightarrow> Schedule \<Rightarrow> task_error option" where
  "Schedule_Validate X s = err_of (Schedule_Normalize X s)"

section \<open>Deterministic identifiers\<close>

definition uuidV5Namespace :: "ext \<Rightarrow> string \<Rightarrow> 8 word list" where
  "uuidV5Namespace X seed = (let out = take 16 (Sum256 X seed) in
     (out[6 := (out ! 6 AND 0x0F) OR 0x50])[8 := (out ! 8 AND 0x3F) OR 0x80])"

definition deterministicUUID :: "ext \<Rightarrow> string \<Rightarrow> string" where
  "deterministicUUID X seed = uuid_String X (uuidV5Namespace X seed)"

section \<open>Occurrences\<close>

record Occurrence =
  oc_ID :: string
  oc_ScheduleID :: string
  oc_ScheduledFor :: gotime
  oc_TriggerKey :: string
  oc_TaskID :: string
  oc_CreatedAt :: gotime

record ScheduleOutput =
  ou_OccurrenceID :: string
  ou_ScheduleID :: string
  ou_TaskID :: string
  ou_ScheduledFor :: gotime
  ou_Status :: Status
  ou_Result :: "Result option"
  ou_FailureCode :: string
  ou_FailureSummary :: string
  ou_CreatedAt :: gotime
  ou_UpdatedAt :: gotime

definition ScheduleOutput_Validate :: "ext \<Rightarrow> ScheduleOutput \<Rightarrow> task_error option" where
  "ScheduleOutput_Validate X ou =
    (if \<not> ValidUUID X (ou_OccurrenceID ou) \<or> \<not> ValidUUID X (ou_ScheduleID ou) \<or> \<not> ValidUUID X (ou_TaskID ou)
        \<or> IsZero (ou_ScheduledFor ou) \<or> IsZero (ou_CreatedAt ou) \<or> IsZero (ou_UpdatedAt ou) \<or> \<not> InUTC (ou_ScheduledFor ou)
        \<or> \<not> InUTC (ou_CreatedAt ou) \<or> \<not> InUTC (ou_UpdatedAt ou) \<or> Before (ou_UpdatedAt ou) (ou_CreatedAt ou)
        \<or> \<not> validStatus (ou_Status ou) \<or> length (ou_FailureCode ou) > 128 \<or> \<not> ValidString (ou_FailureCode ou)
        \<or> length (ou_FailureSummary ou) > MaxSummaryBytes \<or> \<not> ValidString (ou_FailureSummary ou) then Some ErrInvalid
     else case ou_Result ou of None \<Rightarrow> None
       | Some r \<Rightarrow> if Result_Validate X r \<noteq> None then Some ErrInvalid else None)"

definition Occurrence_Validate :: "ext \<Rightarrow> Occurrence \<Rightarrow> task_error option" where
  "Occurrence_Validate X oc =
    (if \<not> ValidUUID X (oc_ID oc) \<or> \<not> ValidUUID X (oc_ScheduleID oc) \<or> \<not> ValidUUID X (oc_TaskID oc)
        \<or> IsZero (oc_ScheduledFor oc) \<or> IsZero (oc_CreatedAt oc) then Some ErrInvalid
     else if \<not> InUTC (oc_ScheduledFor oc) \<or> \<not> InUTC (oc_CreatedAt oc) then Some ErrInvalid
     else if oc_TriggerKey oc \<noteq> [] \<and> \<not> ValidUUID X (oc_TriggerKey oc) then Some ErrInvalid else None)"

record TriggerNowCommand =
  tn_ScheduleID :: string
  tn_IdempotencyKey :: string
  tn_At :: gotime

record CreateScheduleCommand =
  sm_Schedule :: Schedule
  sm_Mutation :: MutationCommand

text \<open>\<open>UpdateScheduleCommand\<close> has the same fields.\<close>

type_synonym UpdateScheduleCommand = CreateScheduleCommand

definition CreateScheduleCommand_Validate :: "ext \<Rightarrow> CreateScheduleCommand \<Rightarrow> task_error option" where
  "CreateScheduleCommand_Validate X c =
    (if MutationCommand_Validate X (sm_Mutation c) \<noteq> None \<or> m_ExpectedRevision (sm_Mutation c) \<noteq> 0 then Some ErrInvalid
     else Schedule_Validate X (sm_Schedule c))"

definition UpdateScheduleCommand_Validate :: "ext \<Rightarrow> UpdateScheduleCommand \<Rightarrow> task_error option" where
  "UpdateScheduleCommand_Validate X c =
    (if ValidateExpectedRevision (sm_Mutation c) \<noteq> None \<or> Schedule_Validate X (sm_Schedule c) \<noteq> None then Some ErrInvalid
     else None)"

record ScheduleMutationCommand =
  sk_ScheduleID :: string
  sk_Mutation :: MutationCommand
  sk_At :: gotime

text \<open>\<open>TriggerScheduleCommand\<close> has the same fields.\<close>

type_synonym TriggerScheduleCommand = ScheduleMutationCommand

definition ScheduleMutationCommand_Validate :: "ext \<Rightarrow> ScheduleMutationCommand \<Rightarrow> task_error option" where
  "ScheduleMutationCommand_Validate X c = (if \<not> ValidUUID X (sk_ScheduleID c)
     \<or> ValidateExpectedRevision (sk_Mutation c) \<noteq> None \<or> IsZero (sk_At c) then Some ErrInvalid else None)"

definition TriggerScheduleCommand_Validate :: "ext \<Rightarrow> TriggerScheduleCommand \<Rightarrow> task_error option" where
  "TriggerScheduleCommand_Validate X c = (if \<not> ValidUUID X (sk_ScheduleID c)
     \<or> MutationCommand_Validate X (sk_Mutation c) \<noteq> None \<or> m_ExpectedRevision (sk_Mutation c) \<noteq> 0 \<or> IsZero (sk_At c)
     then Some ErrInvalid else None)"

definition TriggerNow :: "ext \<Rightarrow> Schedule \<Rightarrow> TriggerNowCommand \<Rightarrow> task_error + Occurrence" where
  "TriggerNow X s request = (case Schedule_Validate X s of Some e \<Rightarrow> Inl e
     | None \<Rightarrow>
       if sc_Deleted s \<or> tn_ScheduleID request \<noteq> sc_ID s \<or> \<not> ValidUUID X (tn_IdempotencyKey request) \<or> IsZero (tn_At request)
       then Inl ErrInvalid
       else let occID = deterministicUUID X (sc_ID s @ '':trigger:'' @ tn_IdempotencyKey request) in
         Inr \<lparr>oc_ID = occID, oc_ScheduleID = sc_ID s, oc_ScheduledFor = to_UTC (tn_At request),
              oc_TriggerKey = tn_IdempotencyKey request, oc_TaskID = deterministicUUID X (occID @ '':task''),
              oc_CreatedAt = to_UTC (tn_At request)\<rparr>)"

definition MaterializeOccurrence :: "ext \<Rightarrow> Schedule \<Rightarrow> Occurrence \<Rightarrow> task_error + TaskSpec" where
  "MaterializeOccurrence X s oc = (case Schedule_Validate X s of Some e \<Rightarrow> Inl e
     | None \<Rightarrow> if Occurrence_Validate X oc \<noteq> None \<or> oc_ScheduleID oc \<noteq> sc_ID s \<or> sc_Deleted s then Inl ErrInvalid
         else TaskTemplate_Materialize X (sc_Spec s) (deterministicUUID X (oc_ID oc @ '':idempotency'')) (oc_ScheduledFor oc))"

section \<open>Digests of mutations\<close>

definition secret_words :: "string list" where
  "secret_words = [''secret'', ''token'', ''password'', ''api_key'', ''apikey'']"

definition secret_key :: "ext \<Rightarrow> string \<Rightarrow> bool" where
  "secret_key X k = list_ex (Contains (ToLower X k)) secret_words"

fun stripSecrets :: "ext \<Rightarrow> json \<Rightarrow> json" where
  "stripSecrets X (JObj kvs) = JObj (map (\<lambda>kv. if secret_key X (fst kv)
      then (fst kv, JStr (''sha256:'' @ sha256_hex X (json_Marshal X (snd kv))))
      else (fst kv, stripSecrets X (snd kv))) kvs)"
| "stripSecrets X (JArr vs) = JArr (map (stripSecrets X) vs)"
| "stripSecrets X v = v"

definition CanonicalMutationDigest :: "ext \<Rightarrow> json \<Rightarrow> string" where
  "CanonicalMutationDigest X v = sha256_hex X (json_Marshal X (stripSecrets X v))"

end
