(* ===== verification/Task_Queue.thy ===== *)
theory Task_Queue
  imports Task_Schedule Task_Safety
begin

text \<open>
  \<^verbatim>\<open>src/internal/coretask/scheduler.go\<close>: the idempotency records of mutations, the FIFO order of the
  queue and the choice of the next task, retries, and the trigger protocol over an occurrence store.
  \<open>OccurrenceStore\<close> is an interface that the PostgreSQL adapter implements: the model takes its two
  operations as the record \<open>occurrence_store\<close>, over a state of any type.
\<close>

section \<open>Idempotent mutations\<close>

record MutationRecord =
  mr_Operation :: string
  mr_IdempotencyKey :: string
  mr_Digest :: string
  mr_Response :: string
  mr_CreatedAt :: gotime

record CreateTaskCommand =
  ct_Spec :: TaskSpec
  ct_Mutation :: MutationCommand

definition CreateTaskCommand_Validate :: "ext \<Rightarrow> CreateTaskCommand \<Rightarrow> task_error option" where
  "CreateTaskCommand_Validate X c = (case MutationCommand_Validate X (ct_Mutation c) of Some e \<Rightarrow> Some e
     | None \<Rightarrow> if m_ExpectedRevision (ct_Mutation c) \<noteq> 0 then Some ErrInvalid
         else if s_IdempotencyKey (ct_Spec c) \<noteq> m_IdempotencyKey (ct_Mutation c) then Some ErrConflict
         else TaskSpec_Validate X (ct_Spec c))"

text \<open>\<open>ReplayMutation\<close> returns the stored response, whether a record of the same key exists, and the error.\<close>

definition ReplayMutation :: "ext \<Rightarrow> MutationRecord \<Rightarrow> string \<Rightarrow> MutationCommand \<Rightarrow> string option \<times> bool \<times> task_error option" where
  "ReplayMutation X record operation command = (case MutationCommand_Validate X command of Some e \<Rightarrow> (None, False, Some e)
     | None \<Rightarrow>
       if mr_Operation record \<noteq> operation \<or> mr_IdempotencyKey record \<noteq> m_IdempotencyKey command then (None, False, Some ErrNotFound)
       else if mr_Digest record \<noteq> m_RequestDigest command then (None, True, Some ErrConflict)
       else (Some (mr_Response record), True, None))"

definition MutationRecord_Validate :: "ext \<Rightarrow> MutationRecord \<Rightarrow> task_error option" where
  "MutationRecord_Validate X m = (if mr_Operation m = [] \<or> \<not> ValidUUID X (mr_IdempotencyKey m) \<or> length (mr_Digest m) \<noteq> 64
     \<or> \<not> hex_DecodeString_ok (mr_Digest m) \<or> length (mr_Response m) > MaxResultBytes \<or> \<not> json_Valid X (mr_Response m)
     \<or> IsZero (mr_CreatedAt m) \<or> \<not> InUTC (mr_CreatedAt m) then Some ErrInvalid else None)"

section \<open>The occurrence store\<close>

record 'st occurrence_store =
  FindOccurrence :: "'st \<Rightarrow> string \<Rightarrow> string \<Rightarrow> task_error + Occurrence"
  CreateOccurrence :: "'st \<Rightarrow> Schedule \<Rightarrow> TriggerNowCommand \<Rightarrow> Occurrence \<Rightarrow> (task_error + Occurrence) \<times> 'st"

definition TriggerNowWithStore :: "ext \<Rightarrow> 'st occurrence_store option \<Rightarrow> 'st \<Rightarrow> Schedule \<Rightarrow> TriggerNowCommand
    \<Rightarrow> (task_error + Occurrence) \<times> 'st" where
  "TriggerNowWithStore X store st schedule command = (case store of None \<Rightarrow> (Inl ErrInvalid, st)
     | Some api \<Rightarrow>
       if \<not> ValidUUID X (tn_ScheduleID command) \<or> \<not> ValidUUID X (tn_IdempotencyKey command) then (Inl ErrInvalid, st)
       else case FindOccurrence api st (tn_ScheduleID command) (tn_IdempotencyKey command) of
         Inr existing \<Rightarrow> (Inr existing, st)
       | Inl e \<Rightarrow> if e \<noteq> ErrNotFound then (Inl e, st)
           else if sc_Deleted schedule \<or> Schedule_Validate X schedule \<noteq> None then (Inl ErrInvalid, st)
           else case TriggerNow X schedule command of Inl err \<Rightarrow> (Inl err, st)
             | Inr candidate \<Rightarrow> CreateOccurrence api st schedule command candidate)"

section \<open>The queue\<close>

definition fifo_key :: "Task \<Rightarrow> int \<times> int \<times> string" where
  "fifo_key t = (instant (t_AvailableAt t), instant (t_CreatedAt t), t_ID t)"

text \<open>\<open>sort.SliceStable\<close> with the comparison of the code, which is the lexicographic one on \<open>fifo_key\<close>.\<close>

definition FIFO :: "Task list \<Rightarrow> Task list" where
  "FIFO tasks = sort_key fifo_key tasks"

record ClaimPolicy =
  MaxConcurrent :: int

definition CanClaim :: "ClaimPolicy \<Rightarrow> int \<Rightarrow> bool" where
  "CanClaim p running \<longleftrightarrow> MaxConcurrent p > 0 \<and> running \<ge> 0 \<and> running < MaxConcurrent p"

definition claimable :: "gotime \<Rightarrow> Task \<Rightarrow> bool" where
  "claimable now task \<longleftrightarrow> t_Status task = StatusQueued \<and> \<not> After (t_AvailableAt task) now"

definition ClaimNext :: "Task list \<Rightarrow> int \<Rightarrow> ClaimPolicy \<Rightarrow> gotime \<Rightarrow> Task option" where
  "ClaimNext tasks running policy now = (if \<not> CanClaim policy running then None
     else if IsZero now \<or> \<not> InUTC now then None
     else find (claimable now) (FIFO tasks))"

definition FilterVisibleTasks :: "Task list \<Rightarrow> bool \<Rightarrow> Task list" where
  "FilterVisibleTasks tasks includeDeleted = (if includeDeleted then tasks else filter (\<lambda>t. t_DeletedAt t = None) tasks)"

section \<open>Retries\<close>

record RetryRequest =
  rr_TaskID :: string
  rr_IdempotencyKey :: string
  rr_RequestDigest :: string
  rr_ExpectedRevision :: u64
  rr_At :: gotime

record RetryCommand =
  ry_TaskID :: string
  ry_Mutation :: MutationCommand
  ry_At :: gotime

definition RetryCommand_Validate :: "ext \<Rightarrow> RetryCommand \<Rightarrow> task_error option" where
  "RetryCommand_Validate X c = (if \<not> ValidUUID X (ry_TaskID c) \<or> IsZero (ry_At c) \<or> \<not> InUTC (ry_At c) then Some ErrInvalid
     else case MutationCommand_Validate X (ry_Mutation c) of Some e \<Rightarrow> Some e
       | None \<Rightarrow> ValidateExpectedRevision (ry_Mutation c))"

definition RetryRequest_Mutation :: "RetryRequest \<Rightarrow> MutationCommand" where
  "RetryRequest_Mutation r = \<lparr>m_IdempotencyKey = rr_IdempotencyKey r, m_RequestDigest = rr_RequestDigest r,
     m_ExpectedRevision = rr_ExpectedRevision r\<rparr>"

text \<open>The queued task that retries a finished one.\<close>

definition retry_of :: "ext \<Rightarrow> Task \<Rightarrow> RetryRequest \<Rightarrow> TaskSpec \<Rightarrow> Task" where
  "retry_of X original request copySpec = \<lparr>t_ID = deterministicUUID X (t_ID original @ '':retry:'' @ rr_IdempotencyKey request), t_Spec = copySpec,
     t_Status = StatusQueued, t_Attempt = 0, t_LeaseEpoch = 0, t_Revision = 1, t_ProgressSequence = 0,
     t_CreatedAt = to_UTC (rr_At request), t_UpdatedAt = to_UTC (rr_At request),
     t_AvailableAt = s_AvailableAt copySpec, t_ExecutionStartedAt = None, t_ExecutionDeadlineAt = None,
     t_DeletedAt = None, t_Lease = None, t_Result = None, t_FailureCode = [], t_FailureSummary = [],
     t_RetryOfTaskID = t_ID original, t_Snapshot = None\<rparr>"

definition RetryTask :: "ext \<Rightarrow> Task \<Rightarrow> RetryRequest \<Rightarrow> task_error + Task" where
  "RetryTask X original request =
    (if \<not> ValidUUID X (t_ID original) \<or> \<not> ValidUUID X (rr_TaskID request) \<or> rr_TaskID request \<noteq> t_ID original
        \<or> \<not> ValidUUID X (rr_IdempotencyKey request) \<or> IsZero (rr_At request) then Inl ErrInvalid
     else if \<not> terminal (t_Status original) then Inl ErrConflict
     else if s_Kind (t_Spec original) \<noteq> TaskKindOther [] \<and> s_Kind (t_Spec original) \<noteq> TaskKindAgent then Inl ErrConflict
     else if t_FailureCode original = ''tool_uncertain'' \<or> t_FailureCode original = ''model_uncertain'' then Inl ErrConflict
     else case MutationCommand_Validate X (RetryRequest_Mutation request) of Some e \<Rightarrow> Inl e
     | None \<Rightarrow> (case ValidateExpectedRevision (RetryRequest_Mutation request) of Some e \<Rightarrow> Inl e
     | None \<Rightarrow>
       if rr_ExpectedRevision request \<noteq> t_Revision original then Inl ErrRevisionConflict
       else rbind (TaskSpec_Normalize X ((t_Spec original)\<lparr>s_IdempotencyKey := rr_IdempotencyKey request,
              s_AvailableAt := to_UTC (rr_At request)\<rparr>)) (\<lambda>copySpec.
         Inr (retry_of X original request copySpec))))"

end
