(* ===== verification/Task_Normal.thy ===== *)
theory Task_Normal
  imports Task_Types Example_Data "HOL-Library.Multiset"
begin

text \<open>
  Normalisation of task specifications is canonical: what each routine of
  \<^verbatim>\<open>src/internal/coretask/types.go\<close> returns is a fixed point of it. The routine for references is shown
  equal to its reference description, the sorted list of the distinct trimmed references.
\<close>

section \<open>References\<close>

definition ref_ok :: "string \<Rightarrow> bool" where
  "ref_ok r \<longleftrightarrow> TrimSpace r \<noteq> [] \<and> ValidString (TrimSpace r) \<and> length (TrimSpace r) \<le> MaxRefBytes"

lemma refs_loop: "normalizeRefs_loop rs acc = (if list_all ref_ok rs
    then Inr (acc @ filter (\<lambda>r. r \<notin> set acc) (rev (remdups (rev (map TrimSpace rs))))) else Inl ErrInvalid)"
proof (induction rs arbitrary: acc)
  case (Cons r rs)
  have f: "filter (\<lambda>x. x \<notin> set acc) (rev (remdups (rev (map TrimSpace (r # rs)))))
      = (if TrimSpace r \<in> set acc then [] else [TrimSpace r])
        @ filter (\<lambda>x. x \<notin> set acc \<and> x \<noteq> TrimSpace r) (rev (remdups (rev (map TrimSpace rs))))" for acc
  proof -
    have "remdups (xs @ [a]) = filter (\<lambda>x. x \<noteq> a) (remdups xs) @ [a]" for xs :: "string list" and a
      by (induction xs) auto
    then show ?thesis by (simp add: rev_filter conj_commute)
  qed
  show ?case
  proof (cases "TrimSpace r \<in> set acc")
    case True
    then have "filter (\<lambda>x. x \<notin> set acc \<and> x \<noteq> TrimSpace r) xs = filter (\<lambda>x. x \<notin> set acc) xs" for xs
      by (intro filter_cong) auto
    with True show ?thesis using Cons.IH [of acc] f [of acc] by (simp add: ref_ok_def Let_def not_less)
  next
    case False
    have "filter (\<lambda>x. x \<notin> set (acc @ [TrimSpace r])) xs = filter (\<lambda>x. x \<notin> set acc \<and> x \<noteq> TrimSpace r) xs" for xs
      by (intro filter_cong) auto
    with False show ?thesis using Cons.IH [of "acc @ [TrimSpace r]"] f [of acc] by (simp add: ref_ok_def Let_def not_less)
  qed
qed simp

lemma normalizeRefs_eq: "normalizeRefs rs = (if length rs \<le> MaxRefCount \<and> list_all ref_ok rs
    then Inr (sorted_list_of_set (set (map TrimSpace rs))) else Inl ErrInvalid)"
proof -
  have "sort ys = sorted_list_of_set (set ys)" if "distinct ys" for ys :: "string list"
    using that by (simp add: sorted_list_of_set_sort_remdups distinct_remdups_id)
  from this [of "rev (remdups (rev (map TrimSpace rs)))"] show ?thesis by (simp add: normalizeRefs_def refs_loop)
qed

lemma refs_fixed: "normalizeRefs rs = Inr out \<Longrightarrow> normalizeRefs out = Inr out"
proof -
  assume r: "normalizeRefs rs = Inr out"
  then have o: "out = sorted_list_of_set (TrimSpace ` set rs)" and ok: "list_all ref_ok rs" and l: "length rs \<le> MaxRefCount"
    by (auto simp: normalizeRefs_eq split: if_splits)
  have s: "set out = TrimSpace ` set rs" by (simp add: o)
  have "length out \<le> MaxRefCount" using l card_image_le [of "set rs" TrimSpace] card_length [of rs]
    by (simp add: o)
  moreover have "list_all ref_ok out" using ok by (auto simp: list_all_iff s ref_ok_def)
  moreover have "TrimSpace ` set out = set out" by (auto simp: s image_iff)
  ultimately show ?thesis by (simp add: normalizeRefs_eq s o)
qed

lemma refs_Nil: "normalizeRefs rs = Inr out \<Longrightarrow> out = [] \<longleftrightarrow> rs = []"
  by (auto simp: normalizeRefs_eq sorted_list_of_set_eq_Nil_iff split: if_splits)

lemma refs_sorted: "normalizeRefs rs = Inr out \<Longrightarrow> sorted out \<and> distinct out"
  by (auto simp: normalizeRefs_eq split: if_splits)

section \<open>Extension selections\<close>

lemma extension_fixed: assumes "normalizeExtension X e = Inr e'" shows "normalizeExtension X e' = Inr e'"
proof -
  define f where "f = e\<lparr>es_ID := TrimSpace (es_ID e), es_Version := TrimSpace (es_Version e), es_Digest := TrimSpace (es_Digest e)\<rparr>"
  from assms obtain tools where t: "normalizeRefs (elems (es_AllowedTools f)) = Inr tools" "e' = f\<lparr>es_AllowedTools := Some tools\<rparr>"
    unfolding normalizeExtension_def f_def [symmetric] Let_def by (auto split: if_splits sum.splits)
  have "e'\<lparr>es_ID := TrimSpace (es_ID e'), es_Version := TrimSpace (es_Version e'), es_Digest := TrimSpace (es_Digest e')\<rparr> = e'"
    by (simp add: t(2) f_def)
  with assms t refs_fixed [OF t(1)] show ?thesis
    unfolding normalizeExtension_def f_def [symmetric] Let_def by (simp split: if_splits)
qed

lemma sort_key_sorted: "sorted (map f xs) \<Longrightarrow> sort_key f xs = xs"
  by (rule sort_key_id_if_sorted)

lemma extensions_fixed: "normalizeExtensions X es = Inr out \<Longrightarrow> normalizeExtensions X out = Inr out"
proof -
  assume h: "normalizeExtensions X es = Inr out"
  then obtain ys where ys: "rmap (normalizeExtension X) es = Inr ys" "out = sort_key es_key ys"
      "\<not> adjacent_eq (map es_key out)" and l: "length es \<le> MaxRefCount"
    by (auto simp: normalizeExtensions_def Let_def split: if_splits sum.splits)
  from ys(1) have len: "length ys = length es" and fixed: "\<forall>y\<in>set ys. normalizeExtension X y = Inr y"
    using rmap_closed [OF _ ys(1)] extension_fixed by metis+
  have "rmap (normalizeExtension X) out = Inr out"
    by (rule rmap_fixed) (use fixed in \<open>simp add: ys(2)\<close>)
  moreover have "sort_key es_key out = out" by (rule sort_key_sorted) (simp add: ys(2))
  ultimately show ?thesis using ys(2,3) len l by (simp add: normalizeExtensions_def)
qed

lemma extensions_Nil: "normalizeExtensions X es = Inr out \<Longrightarrow> out = [] \<longleftrightarrow> es = []"
  by (auto simp: normalizeExtensions_def Let_def rmap_Inr split: if_splits sum.splits)
     (metis length_sort list.size(3) length_0_conv list_all2_lengthD)

section \<open>Scheduled snapshots\<close>

lemma ValidDigest_iff: "ValidDigest X v \<longleftrightarrow> lower_hex64 v"
  using digest_test [of v X] by (auto simp: ValidDigest_def)

lemma digest_lower: "lower_hex64 v \<Longrightarrow> ToLower X v = v"
  using digest_test [of v X] by auto

lemma ToLower_Nil [simp]: "ToLower X [] = []"
  by (simp add: ToLower_def is_ascii_def)

lemma opt_digest_fixed: "d = [] \<or> ValidDigest X d \<Longrightarrow> ToLower X (TrimSpace d) = d"
  by (auto simp: ValidDigest_iff digest_lower)

lemma extensions_single: "normalizeExtensions X [sel] = Inr out \<Longrightarrow> \<exists>s. out = [s] \<and> normalizeExtension X sel = Inr s"
  by (auto simp: normalizeExtensions_def Let_def split: if_splits sum.splits)

text \<open>The checks of one snapshot, once it is trimmed.\<close>

definition sx_checks :: "ext \<Rightarrow> ScheduledExtensionSnapshot \<Rightarrow> bool" where
  "sx_checks X x \<longleftrightarrow> sx_InstallationID x = es_ID (sx_Selection x) \<and> sx_VersionID x \<noteq> [] \<and> sx_Source x \<noteq> []
     \<and> sx_ContentDigest x = es_Digest (sx_Selection x) \<and> ValidDigest X (sx_ContentDigest x) \<and> ValidDigest X (sx_ArtifactDigest x)
     \<and> (sx_ToolSchemaDigest x = [] \<or> ValidDigest X (sx_ToolSchemaDigest x))
     \<and> (sx_NetworkBindingDigest x = [] \<or> ValidDigest X (sx_NetworkBindingDigest x))
     \<and> (sx_SecretBindingDigest x = [] \<or> ValidDigest X (sx_SecretBindingDigest x))
     \<and> length (sx_SkillInstructions x) \<le> MaxGoalBytes \<and> ValidString (sx_SkillInstructions x) \<and> sx_source_ok X x"

lemma snapshot1_Inr: "normalizeSnapshot1 X x = Inr y \<longleftrightarrow> (\<exists>sel tools.
    normalizeExtensions X [sx_Selection x] = Inr [sel] \<and> sx_checks X (sx_trim X (x\<lparr>sx_Selection := sel\<rparr>))
    \<and> normalizeRefs (elems (sx_ToolNames x)) = Inr tools \<and> equalStringSet tools (elems (es_AllowedTools sel))
    \<and> y = (sx_trim X (x\<lparr>sx_Selection := sel\<rparr>))\<lparr>sx_ToolNames := Some tools\<rparr>)"
proof -
  have tn: "sx_ToolNames (sx_trim X z) = sx_ToolNames z" "sx_Selection (sx_trim X z) = sx_Selection z" for z by (simp_all add: sx_trim_def)
  show ?thesis
  proof (cases "\<exists>sel. normalizeExtensions X [sx_Selection x] = Inr [sel]")
    case True
    then obtain sel where sel: "normalizeExtensions X [sx_Selection x] = Inr [sel]" ..
    let ?z = "sx_trim X (x\<lparr>sx_Selection := sel\<rparr>)"
    have c: "sx_checks X ?z \<longleftrightarrow> \<not> (sx_InstallationID ?z \<noteq> es_ID sel \<or> sx_VersionID ?z = [] \<or> sx_Source ?z = []
          \<or> sx_ContentDigest ?z \<noteq> es_Digest sel \<or> \<not> ValidDigest X (sx_ContentDigest ?z) \<or> \<not> ValidDigest X (sx_ArtifactDigest ?z)
          \<or> (sx_ToolSchemaDigest ?z \<noteq> [] \<and> \<not> ValidDigest X (sx_ToolSchemaDigest ?z))
          \<or> (sx_NetworkBindingDigest ?z \<noteq> [] \<and> \<not> ValidDigest X (sx_NetworkBindingDigest ?z))
          \<or> (sx_SecretBindingDigest ?z \<noteq> [] \<and> \<not> ValidDigest X (sx_SecretBindingDigest ?z))
          \<or> length (sx_SkillInstructions ?z) > MaxGoalBytes \<or> \<not> ValidString (sx_SkillInstructions ?z)) \<and> sx_source_ok X ?z"
      unfolding sx_checks_def tn not_less [symmetric] by simp blast
    show ?thesis unfolding normalizeSnapshot1_def sel using c tn
      by (cases "sx_checks X ?z"; cases "normalizeRefs (elems (sx_ToolNames x))") (auto simp: Let_def)
  next
    case False
    then show ?thesis by (auto simp: normalizeSnapshot1_def split: sum.splits list.splits)
  qed
qed

lemma sx_trim_id: "TrimSpace (sx_InstallationID y) = sx_InstallationID y \<Longrightarrow> TrimSpace (sx_VersionID y) = sx_VersionID y \<Longrightarrow>
    TrimSpace (sx_Source y) = sx_Source y \<Longrightarrow> sx_checks X y \<Longrightarrow> sx_trim X y = y"
  by (cases y) (auto simp: sx_trim_def sx_checks_def ValidDigest_iff digest_lower)

lemma sx_checks_tools: "sx_checks X (z\<lparr>sx_ToolNames := ts\<rparr>) = sx_checks X z"
  by (simp add: sx_checks_def sx_source_ok_def)

lemma extension_id_trimmed: "normalizeExtension X e = Inr e' \<Longrightarrow> TrimSpace (es_ID e') = es_ID e'"
  by (auto simp: normalizeExtension_def Let_def split: if_splits sum.splits)

lemma snapshot1_fixed: assumes "normalizeSnapshot1 X x = Inr y" shows "normalizeSnapshot1 X y = Inr y"
proof -
  from assms obtain sel tools where h: "normalizeExtensions X [sx_Selection x] = Inr [sel]"
    "sx_checks X (sx_trim X (x\<lparr>sx_Selection := sel\<rparr>))" "normalizeRefs (elems (sx_ToolNames x)) = Inr tools"
    "equalStringSet tools (elems (es_AllowedTools sel))"
    and y: "y = (sx_trim X (x\<lparr>sx_Selection := sel\<rparr>))\<lparr>sx_ToolNames := Some tools\<rparr>"
    unfolding snapshot1_Inr by blast
  have sel: "sx_Selection y = sel" "sx_ToolNames y = Some tools" by (simp_all add: y sx_trim_def)
  have "TrimSpace (es_ID sel) = es_ID sel"
    using extensions_single [OF h(1)] extension_id_trimmed by auto
  moreover have c: "sx_checks X y" unfolding y sx_checks_tools by (rule h(2))
  then have "sx_InstallationID y = es_ID sel" using sel by (simp add: sx_checks_def)
  ultimately have t: "sx_trim X y = y" by (intro sx_trim_id c) (simp_all add: y sx_trim_def)
  have e: "y\<lparr>sx_Selection := sel\<rparr> = y" "y\<lparr>sx_ToolNames := Some tools\<rparr> = y" using sel by auto
  have "normalizeExtensions X [sx_Selection y] = Inr [sel]" "normalizeRefs (elems (sx_ToolNames y)) = Inr tools"
    using extensions_fixed [OF h(1)] refs_fixed [OF h(3)] sel by simp_all
  then show ?thesis
    unfolding snapshot1_Inr by (intro exI [of _ sel] exI [of _ tools]) (simp only: e t c h(4) simp_thms)
qed

abbreviation tool_names :: "ScheduledExtensionSnapshot \<Rightarrow> string list" where
  "tool_names x \<equiv> elems (sx_ToolNames x)"

lemma snapshots_loop: "normalizeSnapshots_loop X xs S T acc = Inr out \<longleftrightarrow> (\<exists>ys. rmap (normalizeSnapshot1 X) xs = Inr ys
    \<and> distinct (map selectionKey ys) \<and> set (map selectionKey ys) \<inter> S = {}
    \<and> distinct (concat (map tool_names ys)) \<and> set (concat (map tool_names ys)) \<inter> T = {} \<and> out = acc @ ys)"
proof (induction xs arbitrary: S T acc)
  case (Cons x xs)
  show ?case
  proof (cases "normalizeSnapshot1 X x")
    case (Inr y)
    show ?thesis
    proof (cases "rmap (normalizeSnapshot1 X) xs")
      case (Inl e)
      with Inr show ?thesis by (auto simp: Cons.IH Let_def)
    next
      case (Inr ys)
      with \<open>normalizeSnapshot1 X x = Inr y\<close> show ?thesis
        by (auto simp: Cons.IH Let_def)
    qed
  qed simp
qed auto

definition snapshot_for :: "ScheduledExtensionSnapshot list \<Rightarrow> string \<Rightarrow> ScheduledExtensionSnapshot option" where
  "snapshot_for xs src = (case filter (\<lambda>x. sx_Source x = src) xs of [x] \<Rightarrow> Some x | _ \<Rightarrow> None)"

lemma filter_index: "filter P xs = map ((!) xs) (filter (\<lambda>i. P (xs ! i)) [0..<length xs])"
proof -
  have "filter P (map ((!) xs) [0..<length xs]) = map ((!) xs) (filter (P \<circ> (!) xs) [0..<length xs])" by (rule filter_map)
  then show ?thesis by (simp only: map_nth comp_def)
qed

lemma match_binding_iff: "match_binding xs src = Some m \<longleftrightarrow> m < length xs \<and> sx_Source (xs ! m) = src \<and> snapshot_for xs src = Some (xs ! m)
    \<and> filter (\<lambda>i. sx_Source (xs ! i) = src) [0..<length xs] = [m]"
proof -
  define idx where "idx = filter (\<lambda>i. sx_Source (xs ! i) = src) [0..<length xs]"
  have mem: "m < length xs \<and> sx_Source (xs ! m) = src" if "idx = [m]" for m
  proof -
    have "m \<in> set idx" unfolding that by simp
    then show ?thesis by (simp add: idx_def)
  qed
  have f: "filter (\<lambda>x. sx_Source x = src) xs = map ((!) xs) idx" unfolding idx_def by (rule filter_index)
  show ?thesis unfolding match_binding_def snapshot_for_def f idx_def [symmetric]
    using mem by (cases idx; cases "tl idx") auto
qed

lemma snapshot_for_match: "snapshot_for xs src = Some y \<Longrightarrow> \<exists>m. match_binding xs src = Some m \<and> xs ! m = y"
proof -
  define idx where "idx = filter (\<lambda>i. sx_Source (xs ! i) = src) [0..<length xs]"
  have f: "filter (\<lambda>x. sx_Source x = src) xs = map ((!) xs) idx" unfolding idx_def by (rule filter_index)
  assume "snapshot_for xs src = Some y"
  then show ?thesis unfolding match_binding_def snapshot_for_def f idx_def [symmetric]
    by (cases idx; cases "tl idx") auto
qed

definition binding_met :: "ScheduledExtensionSnapshot list \<Rightarrow> ScheduledCapabilityBinding \<Rightarrow> ScheduledExtensionSnapshot \<Rightarrow> bool" where
  "binding_met xs b y \<longleftrightarrow> snapshot_for xs (cb_Source b) = Some y
     \<and> equalStringSet (tool_names y) (sort (map cb_ProviderName (cb_Tools b)))"

lemma order_snapshots_iff: "distinct (map cb_Source bs) \<Longrightarrow> \<forall>m\<in>used. sx_Source (xs ! m) \<notin> set (map cb_Source bs) \<Longrightarrow>
    order_snapshots xs bs used acc = Inr out \<longleftrightarrow> (\<exists>ys. list_all2 (binding_met xs) bs ys \<and> out = acc @ ys)"
proof (induction bs arbitrary: used acc)
  case (Cons b bs)
  show ?case
  proof (cases "match_binding xs (cb_Source b)")
    case None
    then have "snapshot_for xs (cb_Source b) = None"
      using snapshot_for_match [of xs "cb_Source b"] by (cases "snapshot_for xs (cb_Source b)") auto
    with None show ?thesis by (auto simp: list_all2_Cons1 binding_met_def)
  next
    case (Some m)
    then have m: "sx_Source (xs ! m) = cb_Source b" "snapshot_for xs (cb_Source b) = Some (xs ! m)" by (auto simp: match_binding_iff)
    then have "m \<notin> used" using Cons.prems by auto
    moreover have "\<forall>k\<in>insert m used. sx_Source (xs ! k) \<notin> set (map cb_Source bs)" using Cons.prems m by auto
    ultimately show ?thesis using Cons.IH [of "insert m used" "acc @ [xs ! m]"] Cons.prems Some m
      by (auto simp: list_all2_Cons1 binding_met_def)
  qed
qed auto

lemma bindings_distinct: "RequiredBindings c = Inr bs \<Longrightarrow> distinct (map cb_Source bs)"
  by (auto simp: RequiredBindings_def messageScheduledBinding_def directScheduledBinding_def split: if_splits)

lemma snapshot_for_mset: "mset xs = mset ys \<Longrightarrow> snapshot_for xs src = snapshot_for ys src"
proof -
  assume "mset xs = mset ys"
  then have m: "mset (filter (\<lambda>x. sx_Source x = src) xs) = mset (filter (\<lambda>x. sx_Source x = src) ys)" by simp
  then have "length (filter (\<lambda>x. sx_Source x = src) xs) = length (filter (\<lambda>x. sx_Source x = src) ys)" by (rule mset_eq_length)
  with m show ?thesis unfolding snapshot_for_def
    by (cases "filter (\<lambda>x. sx_Source x = src) xs"; cases "filter (\<lambda>x. sx_Source x = src) ys") (auto split: list.splits)
qed

lemma binding_met_source: "binding_met xs b y \<Longrightarrow> sx_Source y = cb_Source b \<and> y \<in> set xs"
  unfolding binding_met_def by (metis snapshot_for_match match_binding_iff nth_mem)

lemma met_all: assumes "list_all2 (binding_met xs) bs ys" "distinct (map cb_Source bs)" "length xs = length bs"
  shows "mset ys = mset xs"
proof -
  from assms(1) have src: "map sx_Source ys = map cb_Source bs"
    by (induction rule: list_all2_induct) (auto dest: binding_met_source)
  then have d: "distinct ys" using assms(2) by (metis distinct_map)
  have sub: "set ys \<subseteq> set xs" using assms(1) by (induction rule: list_all2_induct) (auto dest: binding_met_source)
  have len: "length ys = length xs" using assms by (simp add: list_all2_lengthD)
  then have "set ys = set xs" using sub d by (metis card_length card_subset_eq distinct_card finite_set le_antisym card_mono)
  moreover from this have "distinct xs" using d len by (metis card_distinct distinct_card)
  ultimately show ?thesis using d by (simp add: set_eq_iff_mset_eq_distinct)
qed

lemma extension_snapshots_Inr: "normalizeScheduledExtensionSnapshots X xs = Inr out \<longleftrightarrow> length xs \<le> MaxRefCount \<and>
    (\<exists>ys. rmap (normalizeSnapshot1 X) xs = Inr ys \<and> distinct (map selectionKey ys)
      \<and> distinct (concat (map tool_names ys)) \<and> out = sort_key sx_key ys)"
proof (cases "normalizeSnapshots_loop X xs {} {} []")
  case (Inl e)
  have "\<not> (\<exists>ys. rmap (normalizeSnapshot1 X) xs = Inr ys \<and> distinct (map selectionKey ys) \<and> distinct (concat (map tool_names ys)))"
    using snapshots_loop [of X xs "{}" "{}" "[]"] Inl by auto
  with Inl show ?thesis by (auto simp: normalizeScheduledExtensionSnapshots_def)
next
  case (Inr zs)
  then have "rmap (normalizeSnapshot1 X) xs = Inr zs" "distinct (map selectionKey zs)" "distinct (concat (map tool_names zs))"
    using snapshots_loop [of X xs "{}" "{}" "[]" zs] by auto
  with Inr show ?thesis by (auto simp: normalizeScheduledExtensionSnapshots_def)
qed

lemma distinct_mset: "mset xs = mset ys \<Longrightarrow> distinct (map f xs) = distinct (map f ys)"
    "mset xs = mset ys \<Longrightarrow> distinct (concat (map g xs)) = distinct (concat (map g ys))"
proof -
  assume m: "mset xs = mset ys"
  show "distinct (map f xs) = distinct (map f ys)" by (metis m mset_map mset_eq_imp_distinct_iff)
  have "mset (concat (map g xs)) = sum_mset (image_mset (\<lambda>x. mset (g x)) (mset xs))" for xs
    by (induction xs) auto
  with m show "distinct (concat (map g xs)) = distinct (concat (map g ys))" by (metis mset_eq_imp_distinct_iff)
qed

lemma capability_fixed: assumes "normalizeScheduledCapabilitySnapshots X c xs = Inr out"
  shows "normalizeScheduledCapabilitySnapshots X c out = Inr out"
proof -
  from assms obtain bs sn where bs: "RequiredBindings c = Inr bs" and sn: "normalizeScheduledExtensionSnapshots X xs = Inr sn"
      and len: "length sn = length bs" and o: "order_snapshots sn bs {} [] = Inr out"
    by (auto simp: normalizeScheduledCapabilitySnapshots_def split: sum.splits if_splits)
  note d = bindings_distinct [OF bs]
  from o have met: "list_all2 (binding_met sn) bs out" by (simp add: order_snapshots_iff [OF d])
  from met_all [OF met d len] have m: "mset out = mset sn" .
  from sn obtain ys where ys: "rmap (normalizeSnapshot1 X) xs = Inr ys" "distinct (map selectionKey ys)"
      "distinct (concat (map tool_names ys))" "sn = sort_key sx_key ys" "length xs \<le> MaxRefCount"
    unfolding extension_snapshots_Inr by blast
  from m ys(4) have my: "mset out = mset ys" by simp
  from rmap_closed [OF _ ys(1)] snapshot1_fixed have fixed: "\<forall>y\<in>set ys. normalizeSnapshot1 X y = Inr y" "length ys = length xs"
    by metis+
  have "rmap (normalizeSnapshot1 X) out = Inr out"
    by (rule rmap_fixed) (use fixed my in \<open>metis set_mset_mset\<close>)
  moreover have "length out \<le> MaxRefCount" using my fixed(2) ys(5) by (metis size_mset)
  ultimately have again: "normalizeScheduledExtensionSnapshots X out = Inr (sort_key sx_key out)"
    unfolding extension_snapshots_Inr using ys(2,3) distinct_mset [OF my] by auto
  have m2: "mset (sort_key sx_key out) = mset sn" using m by simp
  have "list_all2 (binding_met (sort_key sx_key out)) bs out"
    using met by (rule list_all2_mono) (simp add: binding_met_def snapshot_for_mset [OF m2])
  then have "order_snapshots (sort_key sx_key out) bs {} [] = Inr out" by (simp add: order_snapshots_iff [OF d])
  moreover have "length (sort_key sx_key out) = length bs" using m len by (metis length_sort size_mset)
  ultimately show ?thesis using bs again by (simp add: normalizeScheduledCapabilitySnapshots_def)
qed

section \<open>Payloads and specifications\<close>

lemma scheduled_fixed: "normalizeScheduled X s = Inr s' \<Longrightarrow> normalizeScheduled X s' = Inr s'"
  by (auto simp: normalizeScheduled_def Let_def capability_fixed split: if_splits sum.splits)

lemma agent_fixed: "normalizeAgent X p = Inr p' \<Longrightarrow> normalizeAgent X p' = Inr p'"
  by (auto simp: normalizeAgent_def Let_def scheduled_fixed split: if_splits sum.splits option.splits)

lemma knowledge_fixed: "normalizeKnowledge X p = Inr p' \<Longrightarrow> normalizeKnowledge X p' = Inr p'"
proof -
  assume h: "normalizeKnowledge X p = Inr p'"
  have "list_ex (\<lambda>(i, r). TrimSpace i = [] \<or> r = 0) (zip (map TrimSpace is) rs)
      = list_ex (\<lambda>(i, r). TrimSpace i = [] \<or> r = 0) (zip is rs)" for "is" and rs :: "u64 list"
    by (induction "is" arbitrary: rs) (auto simp: zip_Cons1 split: list.splits)
  with h show ?thesis by (auto simp: normalizeKnowledge_def Let_def comp_def split: if_splits)
qed

lemma digest_trimmed: "length d = 64 \<Longrightarrow> ToLower X d = d \<Longrightarrow> hex_DecodeString_ok d \<Longrightarrow> TrimSpace d = d"
  using digest_test [of d X] by simp

lemma trim_short: "\<not> n < length s \<Longrightarrow> \<not> n < length (TrimSpace s)"
  using TrimSpace_length [of s] by simp

lemma cloud_fixed: "normalizeCloudWorker X conv p = Inr p' \<Longrightarrow> normalizeCloudWorker X conv p' = Inr p'"
  by (auto simp: normalizeCloudWorker_def Let_def split: if_splits)

lemma ep_base_trim: "ep_base_ok X p \<Longrightarrow> ep_base_ok X (ep_trim p) \<and> ep_trim (ep_trim p) = ep_trim p"
  using trim_short [of 128 "ep_Version p"]
  by (auto simp: ep_base_ok_def ep_trim_def digest_trimmed)

lemma lifecycle_fixed: "ep_trim p = p \<Longrightarrow> normalizeLifecycle X p = Inr p' \<Longrightarrow>
    normalizeLifecycle X p' = Inr p' \<and> ep_trim p' = p' \<and> ep_base_ok X p' = ep_base_ok X p \<and> ep_lifecycle p' = ep_lifecycle p"
  by (cases p) (auto simp: normalizeLifecycle_def ep_trim_def ep_base_ok_def ep_lifecycle_def split: if_splits)

lemma execution_fixed: assumes "json_roundtrip X" "ep_trim p = p" "normalizeExecution X p = Inr p'"
    "length (ep_CanonicalInputJSON p') \<le> MaxCanonicalInputBytes"
  shows "normalizeExecution X p' = Inr p' \<and> ep_trim p' = p' \<and> ep_base_ok X p' = ep_base_ok X p \<and> ep_lifecycle p' = ep_lifecycle p"
proof -
  from assms(3) obtain v where v: "json_Unmarshal X (ep_CanonicalInputJSON p) = Some v"
      and p': "p' = p\<lparr>ep_CanonicalInputJSON := json_Marshal X v, ep_ToolName := TrimSpace (ep_ToolName p)\<rparr>"
      and f: "\<not> containsForbiddenInput X v"
    by (auto simp: normalizeExecution_def split: if_splits option.splits)
  note r = roundtrip_facts [OF assms(1) v]
  have "normalizeExecution X p' = Inr p'"
    using assms(3,4) v f r by (auto simp: normalizeExecution_def p' split: if_splits)
  moreover have "ep_trim p' = p'" using assms(2) by (cases p) (simp add: ep_trim_def p')
  ultimately show ?thesis by (simp add: p' ep_base_ok_def ep_lifecycle_def)
qed

lemma extension_payload_fixed: assumes "json_roundtrip X" "normalizeExtensionPayload X p = Inr p'"
    "length (ep_CanonicalInputJSON p') \<le> MaxCanonicalInputBytes" shows "normalizeExtensionPayload X p' = Inr p'"
proof -
  from assms(2) have b: "ep_base_ok X p" by (auto simp: normalizeExtensionPayload_def split: if_splits)
  note t = ep_base_trim [OF b]
  show ?thesis
  proof (cases "ep_lifecycle (ep_trim p)")
    case True
    with assms(2) b have "normalizeLifecycle X (ep_trim p) = Inr p'" by (simp add: normalizeExtensionPayload_def)
    from lifecycle_fixed [OF _ this] t True show ?thesis by (simp add: normalizeExtensionPayload_def)
  next
    case False
    with assms(2) b have "normalizeExecution X (ep_trim p) = Inr p'" by (simp add: normalizeExtensionPayload_def)
    from execution_fixed [OF assms(1) _ this assms(3)] t False show ?thesis by (simp add: normalizeExtensionPayload_def)
  qed
qed

lemma workload_fixed: assumes "json_roundtrip X" "normalizeWorkload X p = Inr p'"
    "length (wp_ExecutionSnapshot p') \<le> MaxResultBytes" shows "normalizeWorkload X p' = Inr p'"
proof (cases "wp_ExecutionSnapshot p = []")
  case True
  with assms show ?thesis by (auto simp: normalizeWorkload_def Let_def ValidDigest_iff split: if_splits)
next
  case False
  with assms(2) obtain v where v: "json_Unmarshal X (wp_ExecutionSnapshot p) = Some v"
    by (auto simp: normalizeWorkload_def Let_def split: if_splits option.splits)
  note r = roundtrip_facts [OF assms(1) v]
  from assms(2,3) False v r show ?thesis by (auto simp: normalizeWorkload_def Let_def ValidDigest_iff split: if_splits)
qed

text \<open>The JSON documents of a specification fit in the bounds that \<open>normalizePayload\<close> checks before it
  rewrites them.\<close>

definition payload_fits :: "TaskSpec \<Rightarrow> bool" where
  "payload_fits s \<longleftrightarrow> (case pl_Extension (s_Payload s) of None \<Rightarrow> True
       | Some e \<Rightarrow> length (ep_CanonicalInputJSON e) \<le> MaxCanonicalInputBytes)
     \<and> (case pl_Workload (s_Payload s) of None \<Rightarrow> True | Some w \<Rightarrow> length (wp_ExecutionSnapshot w) \<le> MaxResultBytes)"

text \<open>What \<open>normalizePayload\<close> leaves alone.\<close>

lemma spec_upd_id: "n\<lparr>s_Payload := q\<rparr> = n \<longleftrightarrow> s_Payload n = q"
  by (cases n) auto

lemma payload_count_upd: "pl_Agent p \<noteq> None \<Longrightarrow> payload_count (p\<lparr>pl_Agent := Some a\<rparr>) = payload_count p"
    "pl_Extension p \<noteq> None \<Longrightarrow> payload_count (p\<lparr>pl_Extension := Some e\<rparr>) = payload_count p"
    "pl_KnowledgeIndex p \<noteq> None \<Longrightarrow> payload_count (p\<lparr>pl_KnowledgeIndex := Some k\<rparr>) = payload_count p"
    "pl_Workload p \<noteq> None \<Longrightarrow> payload_count (p\<lparr>pl_Workload := Some w\<rparr>) = payload_count p"
    "pl_CloudWorker p \<noteq> None \<Longrightarrow> payload_count (p\<lparr>pl_CloudWorker := Some c\<rparr>) = payload_count p"
  by (simp_all add: payload_count_def)

lemma payload_frame: assumes "normalizePayload X s = Inr t"
  obtains q where "t = s\<lparr>s_Payload := q\<rparr>" "payload_count q = payload_count (s_Payload s)"
proof (cases "s_Kind s")
  case TaskKindAgent
  with assms that [of "s_Payload s"] that [of "s_Payload t"] show ?thesis
    by (cases "pl_Agent (s_Payload s)") (auto simp: normalizePayload_def Let_def payload_count_upd split: if_splits)
next
  case TaskKindConversationTool
  with assms that [of "s_Payload s"] show ?thesis
    by (cases "pl_ConversationTool (s_Payload s)") (auto simp: normalizePayload_def Let_def split: if_splits)
next
  case TaskKindExtension
  with assms that [of "s_Payload t"] show ?thesis
    by (cases "pl_Extension (s_Payload s)") (auto simp: normalizePayload_def Let_def payload_count_upd split: if_splits)
next
  case TaskKindKnowledgeIndex
  with assms that [of "s_Payload t"] show ?thesis
    by (cases "pl_KnowledgeIndex (s_Payload s)") (auto simp: normalizePayload_def Let_def payload_count_upd split: if_splits)
next
  case TaskKindWorkload
  with assms that [of "s_Payload t"] show ?thesis
    by (cases "pl_Workload (s_Payload s)") (auto simp: normalizePayload_def Let_def payload_count_upd split: if_splits)
next
  case TaskKindCloudWorker
  with assms that [of "s_Payload t"] show ?thesis
    by (cases "pl_CloudWorker (s_Payload s)") (auto simp: normalizePayload_def Let_def payload_count_upd split: if_splits)
qed (use assms in \<open>simp add: normalizePayload_def Let_def\<close>)

lemma payload_fixed: assumes "json_roundtrip X" "normalizePayload X s = Inr t" "payload_fits t"
    and same: "s_Kind n = s_Kind s" "s_Payload n = s_Payload t" "s_ConversationID n = s_ConversationID s"
  shows "normalizePayload X n = Inr n"
proof -
  have cnt: "payload_count (s_Payload n) = payload_count (s_Payload s)" using payload_frame [OF assms(2)] same(2) by (metis TaskSpec.select_convs(2) TaskSpec.surjective TaskSpec.update_convs(2))
  show ?thesis
  proof (cases "s_Kind s")
    case TaskKindAgent
    show ?thesis
    proof (cases "pl_Agent (s_Payload s)")
      case None
      with TaskKindAgent assms(2) same cnt show ?thesis by (auto simp: normalizePayload_def Let_def split: if_splits)
    next
      case (Some a)
      with TaskKindAgent assms(2) obtain a' where a: "normalizeAgent X a = Inr a'" "s_Payload t = (s_Payload s)\<lparr>pl_Agent := Some a'\<rparr>"
          and c: "\<not> payload_count (s_Payload s) > 1"
        by (auto simp: normalizePayload_def Let_def split: if_splits)
      from agent_fixed [OF a(1)] a(2) c cnt same TaskKindAgent show ?thesis
        by (simp add: normalizePayload_def Let_def spec_upd_id)
    qed
  next
    case TaskKindExtension
    with assms(2) obtain a a' where a: "pl_Extension (s_Payload s) = Some a" "normalizeExtensionPayload X a = Inr a'"
        "s_Payload t = (s_Payload s)\<lparr>pl_Extension := Some a'\<rparr>" and c: "payload_count (s_Payload s) = 1"
      by (cases "pl_Extension (s_Payload s)") (auto simp: normalizePayload_def Let_def split: if_splits)
    have "normalizeExtensionPayload X a' = Inr a'" by (rule extension_payload_fixed [OF assms(1)]) (use a assms(3) in \<open>simp_all add: payload_fits_def\<close>)
    with a(3) c cnt same TaskKindExtension show ?thesis by (simp add: normalizePayload_def Let_def spec_upd_id)
  next
    case TaskKindKnowledgeIndex
    with assms(2) obtain a a' where a: "pl_KnowledgeIndex (s_Payload s) = Some a" "normalizeKnowledge X a = Inr a'"
        "s_Payload t = (s_Payload s)\<lparr>pl_KnowledgeIndex := Some a'\<rparr>" and c: "payload_count (s_Payload s) = 1"
      by (cases "pl_KnowledgeIndex (s_Payload s)") (auto simp: normalizePayload_def Let_def split: if_splits)
    have "normalizeKnowledge X a' = Inr a'" by (rule knowledge_fixed) (use a assms(3) in \<open>simp_all add: payload_fits_def\<close>)
    with a(3) c cnt same TaskKindKnowledgeIndex show ?thesis by (simp add: normalizePayload_def Let_def spec_upd_id)
  next
    case TaskKindWorkload
    with assms(2) obtain a a' where a: "pl_Workload (s_Payload s) = Some a" "normalizeWorkload X a = Inr a'"
        "s_Payload t = (s_Payload s)\<lparr>pl_Workload := Some a'\<rparr>" and c: "payload_count (s_Payload s) = 1"
      by (cases "pl_Workload (s_Payload s)") (auto simp: normalizePayload_def Let_def split: if_splits)
    have "normalizeWorkload X a' = Inr a'" by (rule workload_fixed [OF assms(1)]) (use a assms(3) in \<open>simp_all add: payload_fits_def\<close>)
    with a(3) c cnt same TaskKindWorkload show ?thesis by (simp add: normalizePayload_def Let_def spec_upd_id)
  next
    case TaskKindConversationTool
    with assms(2) same cnt show ?thesis
      by (cases "pl_ConversationTool (s_Payload s)") (auto simp: normalizePayload_def Let_def split: if_splits)
  next
    case TaskKindCloudWorker
    with assms(2) obtain a a' where a: "pl_CloudWorker (s_Payload s) = Some a" "normalizeCloudWorker X (s_ConversationID s) a = Inr a'"
        "s_Payload t = (s_Payload s)\<lparr>pl_CloudWorker := Some a'\<rparr>" and c: "payload_count (s_Payload s) = 1"
      by (cases "pl_CloudWorker (s_Payload s)") (auto simp: normalizePayload_def Let_def split: if_splits)
    have "normalizeCloudWorker X (s_ConversationID s) a' = Inr a'" by (rule cloud_fixed) (use a assms(3) in \<open>simp_all add: payload_fits_def\<close>)
    with a(3) c cnt same TaskKindCloudWorker show ?thesis by (simp add: normalizePayload_def Let_def spec_upd_id)
  qed (use assms(2) in \<open>simp add: normalizePayload_def Let_def\<close>)
qed

lemma spec_normal_form: assumes "TaskSpec_Normalize X s = Inr n"
  obtains t q where "normalizePayload X (spec_trim s) = Inr t" "t = (spec_trim s)\<lparr>s_Payload := q\<rparr>" "spec_shape_ok X t"
    "normalizeRefs (s_AttachmentRefs s) = Inr (s_AttachmentRefs n)" "normalizeExtensions X (s_Extensions s) = Inr (s_Extensions n)"
    "normalizeRefs (s_KnowledgeRefs s) = Inr (s_KnowledgeRefs n)"
    "n = t\<lparr>s_AttachmentRefs := s_AttachmentRefs n, s_Extensions := s_Extensions n, s_KnowledgeRefs := s_KnowledgeRefs n,
        s_AvailableAt := (if IsZero (s_AvailableAt s) then s_AvailableAt s else to_UTC (s_AvailableAt s))\<rparr>"
    "TrimSpace (s_Goal s) \<noteq> []" "ValidString (s_Goal s)" "length (s_Goal s) \<le> MaxGoalBytes" "ValidUUID X (TrimSpace (s_IdempotencyKey s))"
proof -
  from assms obtain t where t: "normalizePayload X (spec_trim s) = Inr t"
    by (auto simp: TaskSpec_Normalize_def Let_def split: if_splits)
  from payload_frame [OF t] obtain q where q: "t = (spec_trim s)\<lparr>s_Payload := q\<rparr>" .
  from assms t show ?thesis
    by (intro that [OF t q])
       (auto simp: TaskSpec_Normalize_def Let_def q spec_trim_def not_less split: if_splits)
qed

lemma spec_fixed: assumes "json_roundtrip X" "TaskSpec_Normalize X s = Inr n" "payload_fits n"
  shows "TaskSpec_Normalize X n = Inr n"
proof -
  from assms(2) obtain t q where p: "normalizePayload X (spec_trim s) = Inr t" and q: "t = (spec_trim s)\<lparr>s_Payload := q\<rparr>"
    and shape: "spec_shape_ok X t" and att: "normalizeRefs (s_AttachmentRefs s) = Inr (s_AttachmentRefs n)"
    and exts: "normalizeExtensions X (s_Extensions s) = Inr (s_Extensions n)" and kn: "normalizeRefs (s_KnowledgeRefs s) = Inr (s_KnowledgeRefs n)"
    and n: "n = t\<lparr>s_AttachmentRefs := s_AttachmentRefs n, s_Extensions := s_Extensions n, s_KnowledgeRefs := s_KnowledgeRefs n,
        s_AvailableAt := (if IsZero (s_AvailableAt s) then s_AvailableAt s else to_UTC (s_AvailableAt s))\<rparr>"
    and g: "TrimSpace (s_Goal s) \<noteq> []" "ValidString (s_Goal s)" "length (s_Goal s) \<le> MaxGoalBytes" "ValidUUID X (TrimSpace (s_IdempotencyKey s))"
    by (rule spec_normal_form)
  note f = arg_cong [OF n, of s_Kind] arg_cong [OF n, of s_Payload] arg_cong [OF n, of s_Goal] arg_cong [OF n, of s_ConversationID]
    arg_cong [OF n, of s_ModelProfileID] arg_cong [OF n, of s_TimeoutSeconds] arg_cong [OF n, of s_IdempotencyKey] arg_cong [OF n, of s_AvailableAt]
  have tr: "s_Kind (spec_trim s) \<noteq> TaskKindOther []" by (simp add: spec_trim_def)
  have nt: "spec_trim n = n" using f tr by (cases n) (simp add: spec_trim_def q)
  have "payload_fits t" using assms(3) f(2) by (simp add: payload_fits_def)
  from payload_fixed [OF assms(1) p this, of n] f q have pn: "normalizePayload X n = Inr n" by (simp add: spec_trim_def)
  have "spec_shape_ok X n"
    using shape f q refs_Nil [OF att] refs_Nil [OF kn] extensions_Nil [OF exts] by (simp add: spec_shape_ok_def spec_trim_def)
  moreover have "TrimSpace (s_Goal n) \<noteq> []" "ValidString (s_Goal n)" "length (s_Goal n) \<le> MaxGoalBytes" "ValidUUID X (s_IdempotencyKey n)"
    using g f q by (simp_all add: spec_trim_def)
  moreover have "n\<lparr>s_AvailableAt := (if IsZero (s_AvailableAt n) then s_AvailableAt n else to_UTC (s_AvailableAt n))\<rparr> = n"
    using f(8) by (cases n) (auto simp: to_UTC_def)
  ultimately show ?thesis
    using pn nt refs_fixed [OF att] extensions_fixed [OF exts] refs_fixed [OF kn] by (simp add: TaskSpec_Normalize_def Let_def not_less)
qed

section \<open>Properties\<close>

text \<open>\<open>TaskSpec.Normalize\<close> is canonical: what it returns is a fixed point of it, so a specification that
  was normalised once validates again as it is. This needs the law of the JSON codec and that the rewritten
  JSON documents still fit in the limits, which the code checks only before it rewrites them.\<close>

theorem TaskSpec_Normalize_idempotent:
  assumes "json_roundtrip X" "TaskSpec_Normalize X s = Inr n" "payload_fits n"
  shows "TaskSpec_Normalize X n = Inr n"
  using assms by (rule spec_fixed)

theorem TaskSpec_Normalize_idempotent_witness: "TaskSpec_Normalize ex ex_spec = Inr ex_spec"
proof (rule TaskSpec_Normalize_idempotent)
  show "json_roundtrip ex" by (simp add: json_roundtrip_def ex_def ex_json_Marshal_def)
  show "TaskSpec_Normalize ex (ex_spec\<lparr>s_Kind := TaskKindOther []\<rparr>) = Inr ex_spec"
    by (simp add: ex_spec_eval ex_times)
  show "payload_fits ex_spec" by (simp add: payload_fits_def ex_spec_def ex_payload_def)
qed

text \<open>\<open>normalizeRefs\<close> computes its reference description: the references trimmed, without duplicates
  and in ascending order, and it fails exactly if there are more than 128 references or one of them is blank,
  not UTF-8 or longer than 512 bytes after trimming.\<close>

theorem normalizeRefs_reference: "normalizeRefs rs = (if length rs \<le> MaxRefCount \<and> list_all ref_ok rs
    then Inr (sorted_list_of_set (set (map TrimSpace rs))) else Inl ErrInvalid)"
  by (rule normalizeRefs_eq)

text \<open>The order of the snapshots of a scheduled capability is the one its contract prescribes and does not
  depend on how they were submitted: the result lists, for each required source in order, the only submitted
  snapshot of that source, which offers exactly the required tools, and normalising it again changes nothing.\<close>

theorem capability_snapshots_canonical:
  assumes "normalizeScheduledCapabilitySnapshots X c xs = Inr out" "RequiredBindings c = Inr bs"
  shows "map sx_Source out = map cb_Source bs \<and>
    list_all2 (\<lambda>b y. equalStringSet (elems (sx_ToolNames y)) (sort (map cb_ProviderName (cb_Tools b)))) bs out \<and>
    normalizeScheduledCapabilitySnapshots X c out = Inr out"
proof -
  from assms obtain sn where "order_snapshots sn bs {} [] = Inr out"
    by (auto simp: normalizeScheduledCapabilitySnapshots_def split: sum.splits if_splits)
  then have met: "list_all2 (binding_met sn) bs out" by (simp add: order_snapshots_iff bindings_distinct [OF assms(2)])
  then have "map sx_Source out = map cb_Source bs" by (induction rule: list_all2_induct) (auto dest: binding_met_source)
  moreover from met have "list_all2 (\<lambda>b y. equalStringSet (elems (sx_ToolNames y)) (sort (map cb_ProviderName (cb_Tools b)))) bs out"
    by (rule list_all2_mono) (simp add: binding_met_def)
  ultimately show ?thesis using capability_fixed [OF assms(1)] by simp
qed

definition ex_snapshot :: ScheduledExtensionSnapshot where
  "ex_snapshot = \<lparr>sx_Selection = \<lparr>es_Kind = ExtensionMCP, es_ID = ex_id 4, es_Version = ''v1'', es_Digest = ex_digest,
       es_AllowedTools = Some [''web_search'']\<rparr>, sx_InstallationID = ex_id 4, sx_VersionID = ex_id 5,
     sx_InstallationRevision = 0, sx_Source = ''builtin:web_search:tavily'', sx_ContentDigest = ex_digest,
     sx_ArtifactDigest = ex_digest, sx_ToolSchemaDigest = [], sx_NetworkBindingDigest = [], sx_SecretBindingDigest = [],
     sx_ToolNames = Some [''web_search''], sx_SkillInstructions = [], sx_RequiresConfirmation = False, sx_ReadOnly = True\<rparr>"

lemma ex_digest_ok [simp]: "lower_hex64 ex_digest"
  by (simp add: lower_hex64_def ex_digest_def list_all_iff) (simp add: hex_lower_def)

lemma ex_digest_facts [simp]: "TrimSpace ex_digest = ex_digest" "ToLower X ex_digest = ex_digest" "length ex_digest = 64"
    "hex_DecodeString_ok ex_digest" "ValidDigest X ex_digest"
  using digest_test [of ex_digest X] by (auto simp: ValidDigest_iff)

lemma ex_snapshot_normal: "normalizeSnapshot1 ex ex_snapshot = Inr ex_snapshot"
proof -
  have s: "TrimSpace ''web_search'' = ''web_search''" "TrimSpace ''v1'' = ''v1''"
    "TrimSpace ''builtin:web_search:tavily'' = ''builtin:web_search:tavily''" "ValidString ''web_search''" "ValidString ''v1''"
    by (simp_all add: TrimSpace_printable printable_def ValidString_def)
  have r: "normalizeRefs [''web_search''] = Inr [''web_search'']"
    by (simp add: normalizeRefs_def s task_limits)
  have e: "normalizeExtensions ex [sx_Selection ex_snapshot] = Inr [sx_Selection ex_snapshot]"
    by (simp add: normalizeExtensions_def normalizeExtension_def ex_snapshot_def s r task_limits Let_def)
  show ?thesis
    by (simp add: normalizeSnapshot1_def e) (simp add: ex_snapshot_def sx_trim_def sx_source_ok_def s r task_limits equalStringSet_def)
qed

theorem capability_snapshots_canonical_witness:
  "map sx_Source [ex_snapshot] = [''builtin:web_search:tavily''] \<and>
   normalizeScheduledCapabilitySnapshots ex ''web_research'' [ex_snapshot] = Inr [ex_snapshot]"
proof -
  have bs: "RequiredBindings ''web_research'' = Inr [directScheduledBinding ''builtin:web_search:tavily'' [''web_search'']]"
    by (simp add: RequiredBindings_def)
  have "normalizeScheduledExtensionSnapshots ex [ex_snapshot] = Inr [ex_snapshot]"
    by (simp add: normalizeScheduledExtensionSnapshots_def ex_snapshot_normal task_limits Let_def) (simp add: ex_snapshot_def)
  then have "normalizeScheduledCapabilitySnapshots ex ''web_research'' [ex_snapshot] = Inr [ex_snapshot]"
    by (simp add: normalizeScheduledCapabilitySnapshots_def bs match_binding_def directScheduledBinding_def)
       (simp add: ex_snapshot_def equalStringSet_def)
  from capability_snapshots_canonical [OF this bs] show ?thesis by (simp add: directScheduledBinding_def)
qed

end
