(* ===== verification/Task_Order.thy ===== *)
theory Task_Order
  imports Task_Queue Task_Normal
begin

text \<open>
  Properties of the queue, of retries, of schedules and their occurrences, and of the redaction of secrets:
  \<^verbatim>\<open>src/internal/coretask/scheduler.go\<close>, \<^verbatim>\<open>src/internal/coretask/schedule.go\<close>.
\<close>

section \<open>The queue\<close>

lemma find_sorted_min: "sorted (map f xs) \<Longrightarrow> find P xs = Some x \<Longrightarrow> x \<in> set xs \<and> P x \<and> (\<forall>y\<in>set xs. P y \<longrightarrow> f x \<le> f y)"
  by (induction xs) (auto split: if_splits)

lemma ClaimNext_Some: "ClaimNext ts running p now = Some t \<longleftrightarrow> CanClaim p running \<and> \<not> IsZero now \<and> InUTC now
    \<and> find (claimable now) (FIFO ts) = Some t"
  by (auto simp: ClaimNext_def)

section \<open>Deterministic identifiers\<close>

lemma uuid_chars: "hex_lower c \<or> c = CHR ''-'' \<Longrightarrow> printable c \<and> lower_char c = c \<and> (of_char c :: nat) < 128"
  by (auto simp: hex_lower_printable hex_lower_iff printable_def lower_char_def Let_def hex_digit_def)

lemma uuid_text_ok: assumes "uuid_text X" "length u = 16" "u \<noteq> uuid_Nil" shows "ValidUUID X (uuid_String X u)"
proof -
  from assms have p: "uuid_Parse X (uuid_String X u) = Some u" and c: "\<forall>c\<in>set (uuid_String X u). printable c \<and> lower_char c = c \<and> (of_char c :: nat) < 128"
    using uuid_chars by (auto simp: uuid_text_def list_all_iff)
  from c have "TrimSpace (uuid_String X u) = uuid_String X u" by (intro TrimSpace_printable) (simp add: list_all_iff)
  moreover from c have "ToLower X (uuid_String X u) = uuid_String X u"
    by (simp add: ToLower_def is_ascii_def list_all_iff map_idI)
  ultimately show ?thesis using p assms(3) by (simp add: ValidUUID_def)
qed

lemma namespace_bits: assumes "sha_size X"
  shows "length (uuidV5Namespace X s) = 16" "uuidV5Namespace X s ! 6 AND 0xF0 = 0x50" "uuidV5Namespace X s ! 8 AND 0xC0 = 0x80"
proof -
  have l: "length (take 16 (Sum256 X s)) = 16" using assms by (simp add: sha_size_def)
  then show "length (uuidV5Namespace X s) = 16" by (simp add: uuidV5Namespace_def Let_def)
  have "((b AND 0x0F) OR 0x50) AND 0xF0 = (0x50 :: 8 word)" "((b AND 0x3F) OR 0x80) AND 0xC0 = (0x80 :: 8 word)" for b
    by (simp_all add: bit.conj_disj_distrib2 and.assoc)
  with l show "uuidV5Namespace X s ! 6 AND 0xF0 = 0x50" "uuidV5Namespace X s ! 8 AND 0xC0 = 0x80"
    by (simp_all add: uuidV5Namespace_def Let_def)
qed

lemma namespace_not_nil: "sha_size X \<Longrightarrow> uuidV5Namespace X s \<noteq> uuid_Nil"
proof
  assume "sha_size X" "uuidV5Namespace X s = uuid_Nil"
  with namespace_bits(2) [of X s] show False by (simp add: uuid_Nil_def)
qed

lemma deterministicUUID_valid: "uuid_text X \<Longrightarrow> sha_size X \<Longrightarrow> ValidUUID X (deterministicUUID X s)"
  by (simp add: deterministicUUID_def uuid_text_ok namespace_bits namespace_not_nil)

section \<open>Retries and occurrences\<close>

lemma RetryTask_Inr: "RetryTask X orig r = Inr t \<Longrightarrow> terminal (t_Status orig) \<and> ValidUUID X (t_ID orig) \<and> \<not> IsZero (rr_At r)
    \<and> rr_ExpectedRevision r = t_Revision orig \<and> (\<exists>n. t = retry_of X orig r n
    \<and> TaskSpec_Normalize X ((t_Spec orig)\<lparr>s_IdempotencyKey := rr_IdempotencyKey r, s_AvailableAt := to_UTC (rr_At r)\<rparr>) = Inr n)"
  by (auto simp: RetryTask_def split: if_splits option.splits)

lemma normalized_available: assumes "TaskSpec_Normalize X s = Inr n" "\<not> IsZero (s_AvailableAt s)"
  shows "s_AvailableAt n = to_UTC (s_AvailableAt s)"
proof -
  from assms(1) obtain t where "n = t\<lparr>s_AttachmentRefs := s_AttachmentRefs n, s_Extensions := s_Extensions n, s_KnowledgeRefs := s_KnowledgeRefs n,
        s_AvailableAt := (if IsZero (s_AvailableAt s) then s_AvailableAt s else to_UTC (s_AvailableAt s))\<rparr>"
    by (rule spec_normal_form)
  from arg_cong [OF this, of s_AvailableAt] assms(2) show ?thesis by simp
qed

lemma retry_valid: assumes "uuid_text X" "sha_size X" "json_roundtrip X" "RetryTask X orig r = Inr t" "payload_fits (t_Spec t)" "t_ID t \<noteq> t_ID orig"
  shows "Task_Validate X t = None"
proof -
  from RetryTask_Inr [OF assms(4)] obtain n where t: "t = retry_of X orig r n" and o: "ValidUUID X (t_ID orig)" "\<not> IsZero (rr_At r)"
    and n: "TaskSpec_Normalize X ((t_Spec orig)\<lparr>s_IdempotencyKey := rr_IdempotencyKey r, s_AvailableAt := to_UTC (rr_At r)\<rparr>) = Inr n" by blast
  have tn: "t_Spec t = n" by (simp add: t retry_of_def)
  from spec_fixed [OF assms(3) n] assms(5) tn have spec: "TaskSpec_Validate X n = None" by (simp add: TaskSpec_Validate_def)
  have av: "s_AvailableAt n = to_UTC (rr_At r)"
    using normalized_available [OF n] o(2) by (simp add: gotime_simps)
  show ?thesis using spec av o assms(6) deterministicUUID_valid [OF assms(1,2)]
    by (simp add: t retry_of_def Task_Validate_None fields_None outcome_None gotime_simps)
qed

lemma schedule_id_valid: "Schedule_Validate X s = None \<Longrightarrow> ValidUUID X (sc_ID s)"
  by (rule ccontr) (simp add: Schedule_Validate_def Schedule_Normalize_def Let_def)

lemma trigger_valid: assumes "uuid_text X" "sha_size X" "TriggerNow X s r = Inr oc"
  shows "Occurrence_Validate X oc = None \<and> oc_ScheduleID oc = sc_ID s"
proof -
  from assms(3) have v: "Schedule_Validate X s = None" by (simp add: TriggerNow_def split: option.splits)
  from assms(3) v have "ValidUUID X (tn_IdempotencyKey r)" "\<not> IsZero (tn_At r)" by (auto simp: TriggerNow_def split: if_splits)
  with assms(3) v deterministicUUID_valid [OF assms(1,2)] schedule_id_valid [OF v] show ?thesis
    by (auto simp: TriggerNow_def Let_def Occurrence_Validate_def gotime_simps split: if_splits)
qed

section \<open>Redaction\<close>

fun redacted :: "ext \<Rightarrow> json \<Rightarrow> bool" where
  "redacted X (JObj kvs) = list_all (\<lambda>kv. if secret_key X (fst kv) then (case snd kv of JStr s \<Rightarrow> take 7 s = ''sha256:'' \<and> lower_hex64 (drop 7 s) | _ \<Rightarrow> False)
     else redacted X (snd kv)) kvs"
| "redacted X (JArr vs) = list_all (redacted X) vs"
| "redacted X _ = True"

lemma strip_redacts: "sha_size X \<Longrightarrow> redacted X (stripSecrets X v)"
  by (induction X v rule: stripSecrets.induct)
     (auto simp: list_all_iff sha_size_def sha256_hex_digest)

section \<open>Examples\<close>

lemma ex_id_not_deterministic: "n < 16 \<Longrightarrow> deterministicUUID ex s \<noteq> ex_id n"
proof
  assume n: "n < 16" and eq: "deterministicUUID ex s = ex_id n"
  have "ex_uuid_Parse (deterministicUUID ex s) = Some (uuidV5Namespace ex s)"
    using ex_uuid_text namespace_bits(1) [OF ex_sha_size] by (simp add: uuid_text_def deterministicUUID_def ex_def)
  then have u: "uuidV5Namespace ex s = [0,0,0,0,0,0,64,0,128,0,0,0,0,0,0] @ [of_nat n]"
    unfolding eq ex_id_parse [OF n] by (rule option.inject [THEN iffD1, symmetric])
  have "uuidV5Namespace ex s ! 6 = 64" unfolding u by simp
  with namespace_bits(2) [OF ex_sha_size, of s] show False by simp
qed

definition ex_done :: Task where
  "ex_done = ex_task\<lparr>t_Status := StatusCanceled, t_Revision := 4\<rparr>"

definition ex_retry :: RetryRequest where
  "ex_retry = \<lparr>rr_TaskID = ex_id 1, rr_IdempotencyKey = ex_id 6, rr_RequestDigest = ex_digest, rr_ExpectedRevision = 4, rr_At = ex_time 400\<rparr>"

definition ex_template :: TaskTemplate where
  "ex_template = spec_template ex_spec (ex_id 2)"

definition ex_schedule :: Schedule where
  "ex_schedule = \<lparr>sc_ID = ex_id 7, sc_Name = ''goal'', sc_Spec = ex_template, sc_RunAt = Some (ex_time 500), sc_Cron = [],
     sc_Timezone = ''UTC'', sc_Paused = False, sc_Revision = 1, sc_NextRunAt = ex_time 500, sc_LastScheduledFor = time_zero,
     sc_CreatedAt = ex_time 100, sc_UpdatedAt = ex_time 100, sc_Deleted = False, sc_Replayed = False\<rparr>"

definition ex_trigger :: TriggerNowCommand where
  "ex_trigger = \<lparr>tn_ScheduleID = ex_id 7, tn_IdempotencyKey = ex_id 8, tn_At = ex_time 600\<rparr>"

lemma ex_retry_ok: "RetryTask ex ex_done ex_retry = Inr (retry_of ex ex_done ex_retry (ex_spec\<lparr>s_IdempotencyKey := ex_id 6, s_AvailableAt := ex_time 400\<rparr>))"
proof -
  have "TaskSpec_Normalize ex (ex_spec\<lparr>s_IdempotencyKey := ex_id 6, s_AvailableAt := ex_time 400\<rparr>)
      = Inr (ex_spec\<lparr>s_IdempotencyKey := ex_id 6, s_AvailableAt := ex_time 400\<rparr>)" by (simp add: ex_spec_eval ex_times)
  then show ?thesis
    by (simp add: RetryTask_def RetryRequest_Mutation_def MutationCommand_Validate_def ValidateExpectedRevision_def ex_retry_def ex_done_def
        ex_task_def ex_times) (simp add: ex_spec_def)
qed

lemma ex_sentinel: "sentinel_uuid = ex_id 1"
  by (simp add: sentinel_uuid_def ex_id_def hex_char_def char_of_eq_iff eq_commute [of "CHR ''1''"] take_bit_eq_mod)

lemma ex_template_normal: "TaskTemplate_Normalize ex ex_template = Inr ex_template"
proof -
  have "TaskSpec_Normalize ex (ex_spec\<lparr>s_IdempotencyKey := ex_id 1, s_AvailableAt := time_zero\<rparr>)
      = Inr (ex_spec\<lparr>s_IdempotencyKey := ex_id 1, s_AvailableAt := time_zero\<rparr>)" by (simp add: ex_spec_eval ex_times time_zero_def)
  moreover have "template_spec ex_template (ex_id 2) (ex_id 1) time_zero = ex_spec\<lparr>s_IdempotencyKey := ex_id 1, s_AvailableAt := time_zero\<rparr>"
    "dynamicScheduledProfile ex_template = False" "tt_ModelProfileID ex_template = ex_id 2"
    by (simp_all add: template_spec_def ex_template_def spec_template_def ex_spec_def dynamicScheduledProfile_def ex_payload_def)
  ultimately show ?thesis
    by (simp add: TaskTemplate_Normalize_def ex_sentinel) (simp add: ex_template_def spec_template_def ex_spec_def)
qed

lemma ex_trigger_ok: "TriggerNow ex ex_schedule ex_trigger = Inr
    \<lparr>oc_ID = deterministicUUID ex (ex_id 7 @ '':trigger:'' @ ex_id 8), oc_ScheduleID = ex_id 7, oc_ScheduledFor = ex_time 600,
     oc_TriggerKey = ex_id 8, oc_TaskID = deterministicUUID ex (deterministicUUID ex (ex_id 7 @ '':trigger:'' @ ex_id 8) @ '':task''),
     oc_CreatedAt = ex_time 600\<rparr>"
proof -
  have "LoadLocation ex ''UTC'' = Some UTC" "TrimSpace ''UTC'' = ''UTC''"
    by (simp_all add: TrimSpace_printable printable_def ex_def ex_LoadLocation_def)
  then have "Schedule_Validate ex ex_schedule = None"
    by (simp add: Schedule_Validate_def Schedule_Normalize_def ex_schedule_def ex_template_normal ex_times Let_def)
  then show ?thesis
    by (simp add: TriggerNow_def Let_def) (simp add: ex_schedule_def ex_trigger_def ex_times)
qed

section \<open>Properties\<close>

text \<open>The queue is first come, first served: \<open>ClaimNext\<close> returns a task exactly if the policy leaves room, the
  clock is valid and some queued task is due, and the task it returns comes before every other due task in the
  order by availability, creation and identifier.\<close>

theorem ClaimNext_first_due:
  assumes "CanClaim p running" "\<not> IsZero now" "InUTC now"
  shows "(ClaimNext ts running p now = None \<longleftrightarrow> (\<forall>u\<in>set ts. \<not> claimable now u)) \<and>
    (\<forall>t. ClaimNext ts running p now = Some t \<longrightarrow> t \<in> set ts \<and> t_Status t = StatusQueued \<and> \<not> After (t_AvailableAt t) now
       \<and> (\<forall>u\<in>set ts. claimable now u \<longrightarrow> fifo_key t \<le> fifo_key u))"
proof -
  have "ClaimNext ts running p now = find (claimable now) (FIFO ts)" using assms by (simp add: ClaimNext_def)
  then show ?thesis using find_sorted_min [of fifo_key "FIFO ts" "claimable now"]
    by (auto simp: FIFO_def find_None_iff claimable_def)
qed

theorem ClaimNext_first_due_witness: "ClaimNext [ex_task] 0 \<lparr>MaxConcurrent = 1\<rparr> (ex_time 150) \<noteq> None"
  using ClaimNext_first_due [of "\<lparr>MaxConcurrent = 1\<rparr>" 0 "ex_time 150" "[ex_task]"]
  by (simp add: CanClaim_def claimable_def ex_task_def ex_times)

text \<open>\<open>FIFO\<close> reorders the tasks without losing or inventing any, puts them in ascending order by availability,
  creation and identifier, and keeps the relative order of tasks with equal keys.\<close>

theorem FIFO_stable_sort: "mset (FIFO ts) = mset ts \<and> sorted (map fifo_key (FIFO ts)) \<and>
    (\<forall>k. filter (\<lambda>t. fifo_key t = k) (FIFO ts) = filter (\<lambda>t. fifo_key t = k) ts)"
  by (simp add: FIFO_def sort_key_stable)

text \<open>A retry is a new well-formed task: \<open>RetryTask\<close> accepts only a finished task at its current revision, and
  the queued task it returns passes \<open>Task.Validate\<close> and points back to the original.\<close>

theorem RetryTask_valid:
  assumes "uuid_text X" "sha_size X" "json_roundtrip X" "RetryTask X orig r = Inr t" "payload_fits (t_Spec t)" "t_ID t \<noteq> t_ID orig"
  shows "Task_Validate X t = None \<and> t_Status t = StatusQueued \<and> t_RetryOfTaskID t = t_ID orig \<and> t_Attempt t = 0
    \<and> terminal (t_Status orig) \<and> rr_ExpectedRevision r = t_Revision orig"
  using retry_valid [OF assms] RetryTask_Inr [OF assms(4)] by (auto simp: retry_of_def)

theorem RetryTask_valid_witness:
  "Task_Validate ex (retry_of ex ex_done ex_retry (ex_spec\<lparr>s_IdempotencyKey := ex_id 6, s_AvailableAt := ex_time 400\<rparr>)) = None"
proof -
  have "payload_fits (ex_spec\<lparr>s_IdempotencyKey := ex_id 6, s_AvailableAt := ex_time 400\<rparr>)"
    by (simp add: payload_fits_def ex_spec_def ex_payload_def)
  then show ?thesis
    using RetryTask_valid [OF ex_uuid_text ex_sha_size ex_json_roundtrip ex_retry_ok] ex_id_not_deterministic [of 1]
    by (simp add: retry_of_def ex_done_def ex_task_def)
qed

text \<open>Triggering a schedule is idempotent over the store: an occurrence found under the same schedule and key is
  returned as it was stored and the store is not touched, whatever the new command says; the store is changed only
  through \<open>CreateOccurrence\<close>, after a miss, with an occurrence that passes \<open>Occurrence.Validate\<close>.\<close>

theorem TriggerNowWithStore_idempotent:
  assumes "uuid_text X" "sha_size X" "ValidUUID X (tn_ScheduleID c)" "ValidUUID X (tn_IdempotencyKey c)"
  shows "(\<forall>oc. FindOccurrence api st (tn_ScheduleID c) (tn_IdempotencyKey c) = Inr oc \<longrightarrow> TriggerNowWithStore X (Some api) st s c = (Inr oc, st)) \<and>
    (snd (TriggerNowWithStore X (Some api) st s c) \<noteq> st \<longrightarrow>
      FindOccurrence api st (tn_ScheduleID c) (tn_IdempotencyKey c) = Inl ErrNotFound \<and>
      (\<exists>oc. TriggerNow X s c = Inr oc \<and> Occurrence_Validate X oc = None \<and> TriggerNowWithStore X (Some api) st s c = CreateOccurrence api st s c oc))"
  using assms trigger_valid [OF assms(1,2)]
  by (auto simp: TriggerNowWithStore_def split: sum.splits if_splits)

theorem TriggerNowWithStore_idempotent_witness:
  "\<exists>oc. TriggerNow ex ex_schedule ex_trigger = Inr oc \<and> Occurrence_Validate ex oc = None"
proof -
  define api :: "nat occurrence_store" where
    "api = \<lparr>FindOccurrence = (\<lambda>st a b. Inl ErrNotFound), CreateOccurrence = (\<lambda>st s c oc. (Inr oc, Suc st))\<rparr>"
  have "Schedule_Validate ex ex_schedule = None" using ex_trigger_ok by (auto simp: TriggerNow_def split: option.splits)
  then have "snd (TriggerNowWithStore ex (Some api) 0 ex_schedule ex_trigger) \<noteq> 0"
    by (simp add: TriggerNowWithStore_def api_def ex_trigger_ok) (simp add: ex_trigger_def ex_schedule_def)
  moreover have "ValidUUID ex (tn_ScheduleID ex_trigger)" "ValidUUID ex (tn_IdempotencyKey ex_trigger)"
    by (simp_all add: ex_trigger_def)
  ultimately show ?thesis
    using TriggerNowWithStore_idempotent [OF ex_uuid_text ex_sha_size, of ex_trigger api 0 ex_schedule] by blast
qed

text \<open>The identifiers of occurrences, their tasks and retries are well formed: \<open>deterministicUUID\<close> sets the version 5 and
  variant bits, and its text is accepted by \<open>ValidUUID\<close>.\<close>

theorem deterministicUUID_well_formed:
  assumes "uuid_text X" "sha_size X"
  shows "length (uuidV5Namespace X s) = 16 \<and> uuidV5Namespace X s ! 6 AND 0xF0 = 0x50 \<and> uuidV5Namespace X s ! 8 AND 0xC0 = 0x80
    \<and> ValidUUID X (deterministicUUID X s)"
  using namespace_bits [OF assms(2)] deterministicUUID_valid [OF assms] by blast

theorem deterministicUUID_well_formed_witness: "ValidUUID ex (deterministicUUID ex ''seed'')"
  using deterministicUUID_well_formed [OF ex_uuid_text ex_sha_size] by blast

text \<open>Secrets never enter a mutation digest in the clear: in the value that \<open>CanonicalMutationDigest\<close> hashes, at any depth, what
  stands under a key that names a secret is the digest of the original value.\<close>

theorem stripSecrets_redacts: assumes "sha_size X" shows "redacted X (stripSecrets X v)"
  using assms by (rule strip_redacts)

theorem stripSecrets_redacts_witness: "redacted ex (stripSecrets ex (JObj [(''API_Token'', JStr ''t''), (''name'', JStr ''n'')]))"
  using stripSecrets_redacts [OF ex_sha_size] by blast

text \<open>A mutation is replayed only for the request it was made for: \<open>ReplayMutation\<close> returns the stored response
  exactly if operation, key and digest agree, and reports a conflict exactly if a record of the same operation and
  key has another digest.\<close>

theorem ReplayMutation_exact:
  assumes "MutationCommand_Validate X c = None"
  shows "(ReplayMutation X m op c = (Some (mr_Response m), True, None) \<longleftrightarrow>
      mr_Operation m = op \<and> mr_IdempotencyKey m = m_IdempotencyKey c \<and> mr_Digest m = m_RequestDigest c) \<and>
    (snd (snd (ReplayMutation X m op c)) = Some ErrConflict \<longleftrightarrow>
      mr_Operation m = op \<and> mr_IdempotencyKey m = m_IdempotencyKey c \<and> mr_Digest m \<noteq> m_RequestDigest c)"
  using assms by (auto simp: ReplayMutation_def)

theorem ReplayMutation_exact_witness:
  "ReplayMutation ex \<lparr>mr_Operation = ''op'', mr_IdempotencyKey = ex_id 1, mr_Digest = ex_digest, mr_Response = ''r'', mr_CreatedAt = ex_time 1\<rparr>
     ''op'' \<lparr>m_IdempotencyKey = ex_id 1, m_RequestDigest = ex_digest, m_ExpectedRevision = 1\<rparr> = (Some ''r'', True, None)"
proof -
  have "MutationCommand_Validate ex \<lparr>m_IdempotencyKey = ex_id 1, m_RequestDigest = ex_digest, m_ExpectedRevision = 1\<rparr> = None"
    by (simp add: MutationCommand_Validate_def)
  from ReplayMutation_exact [OF this, of "\<lparr>mr_Operation = ''op'', mr_IdempotencyKey = ex_id 1, mr_Digest = ex_digest, mr_Response = ''r'',
      mr_CreatedAt = ex_time 1\<rparr>" "''op''"] show ?thesis by simp
qed

end
