(* ===== verification/Task_Seal.thy ===== *)
theory Task_Seal
  imports Task_Snapshot Task_Normal
begin

text \<open>
  Sealing of execution snapshots, \<^verbatim>\<open>src/internal/coretask/execution.go\<close>, and the containment of file
  references, \<open>FileRef.Validate\<close> of \<^verbatim>\<open>src/internal/coretask/types.go\<close>.
\<close>

section \<open>Digests of snapshots\<close>

lemma digest_ignored: "ComputeDigest X (s\<lparr>sn_Digest := d\<rparr>) = ComputeDigest X s"
  by (simp add: ComputeDigest_def canonicalWithoutDigest_def schemas_encodable_def)

lemma structure_digest: "snapshot_structure X (s\<lparr>sn_Digest := d\<rparr>) = snapshot_structure X s"
  by (simp add: snapshot_structure_def cong: option.case_cong)

text \<open>Two descriptors that differ at most in the text of a schema that decodes to the same value.\<close>

definition same_tool :: "ext \<Rightarrow> ToolDescriptor \<Rightarrow> ToolDescriptor \<Rightarrow> bool" where
  "same_tool X d e \<longleftrightarrow> e = d\<lparr>td_InputSchema := td_InputSchema e\<rparr> \<and> td_InputSchema d \<noteq> [] \<and> td_InputSchema e \<noteq> []
     \<and> json_Valid X (td_InputSchema d) = json_Valid X (td_InputSchema e)
     \<and> json_Unmarshal X (td_InputSchema e) = json_Unmarshal X (td_InputSchema d) \<and> json_Unmarshal X (td_InputSchema d) \<noteq> None"

definition same_extension :: "ext \<Rightarrow> ExtensionExecutionSnapshot \<Rightarrow> ExtensionExecutionSnapshot \<Rightarrow> bool" where
  "same_extension X a b \<longleftrightarrow> b = a\<lparr>xs_Tools := xs_Tools b\<rparr> \<and> list_all2 (same_tool X) (xs_Tools a) (xs_Tools b)"

lemma same_tool_normal: "same_tool X d e \<Longrightarrow> normalizeTool X d = normalizeTool X e"
  by (cases d; cases e) (auto simp: same_tool_def normalizeTool_def)

lemma same_tools_normal: "list_all2 (same_tool X) ds es \<Longrightarrow> map (normalizeTool X) ds = map (normalizeTool X) es
    \<and> list_all (\<lambda>d. td_InputSchema d = [] \<or> json_Valid X (td_InputSchema d)) ds
      = list_all (\<lambda>d. td_InputSchema d = [] \<or> json_Valid X (td_InputSchema d)) es"
  by (induction rule: list_all2_induct) (auto simp: same_tool_normal same_tool_def)

lemma same_extension_normal: "same_extension X a b \<Longrightarrow> normalizeSnapshotExt X a = normalizeSnapshotExt X b"
  using same_tools_normal [of X "xs_Tools a" "xs_Tools b"]
  by (cases a; cases b) (simp add: same_extension_def normalizeSnapshotExt_def)

lemma same_extensions_normal: "list_all2 (same_extension X) as bs \<Longrightarrow> map (normalizeSnapshotExt X) as = map (normalizeSnapshotExt X) bs
    \<and> list_all (\<lambda>e. list_all (\<lambda>d. td_InputSchema d = [] \<or> json_Valid X (td_InputSchema d)) (xs_Tools e)) as
      = list_all (\<lambda>e. list_all (\<lambda>d. td_InputSchema d = [] \<or> json_Valid X (td_InputSchema d)) (xs_Tools e)) bs"
  by (induction rule: list_all2_induct)
     (auto simp: same_extension_normal, (auto simp: same_extension_def dest!: same_tools_normal)+)

section \<open>Paths\<close>

lemma Split_no_sep: "w \<in> set (Split c s) \<Longrightarrow> c \<notin> set w"
  by (induction s arbitrary: w) (auto split: if_splits list.splits)

lemma Split_append: "c \<notin> set w \<Longrightarrow> Split c (w @ c # s) = w # Split c s"
  by (induction w) auto

lemma Split_word: "c \<notin> set w \<Longrightarrow> Split c w = [w]"
  by (induction w) auto

lemma Split_Join: "ws \<noteq> [] \<Longrightarrow> \<forall>w\<in>set ws. c \<notin> set w \<Longrightarrow> Split c (Join ws [c]) = ws"
  by (induction ws "[c]" rule: Join.induct) (auto simp: Split_word Split_append)

definition parents_first :: "string list \<Rightarrow> bool" where
  "parents_first xs \<longleftrightarrow> (\<exists>k rest. xs = replicate k ''..'' @ rest \<and> ''..'' \<notin> set rest)"

lemma clean_parts_form: "''..'' \<notin> set acc \<Longrightarrow> parents_first (clean_parts False (acc @ replicate n ''..'') ws)"
proof (induction ws arbitrary: acc n)
  case Nil
  then show ?case unfolding parents_first_def by (intro exI [of _ n] exI [of _ "rev acc"]) simp
next
  case (Cons w ws)
  note IH = Cons.IH and acc = Cons.prems
  show ?case
  proof (cases acc)
    case Nil
    with IH [of "[]" n] IH [of "[]" "Suc n"] IH [of "[w]" n] show ?thesis by (cases n) auto
  next
    case (Cons a acc')
    with IH [of "acc" n] IH [of acc' n] IH [of "w # acc" n] acc show ?thesis by auto
  qed
qed

lemma clean_parts_words: "(\<forall>w\<in>set acc. w \<noteq> [] \<and> c \<notin> set w) \<Longrightarrow> \<forall>w\<in>set ws. c \<notin> set w \<Longrightarrow> c \<noteq> CHR ''.'' \<Longrightarrow>
    w \<in> set (clean_parts False acc ws) \<Longrightarrow> w \<noteq> [] \<and> c \<notin> set w"
  by (induction "False" acc ws rule: clean_parts.induct) (auto split: if_splits list.splits)

lemma clean_relative: assumes "path_Clean p = p" "\<not> path_IsAbs p" "p \<noteq> ''.''" "\<not> HasPrefix p ''../''" "p \<noteq> ''..''"
  shows "''..'' \<notin> set (Split (CHR ''/'') p)"
proof -
  define out where "out = clean_parts False [] (Split (CHR ''/'') p)"
  have "path_IsAbs p = False" using assms(2) by simp
  with assms(1,3) have j: "p = Join out ''/''" and ne: "Join out ''/'' \<noteq> []"
    by (auto simp: path_Clean_def out_def Let_def split: if_splits)
  have words: "\<forall>w\<in>set out. CHR ''/'' \<notin> set w"
    unfolding out_def using clean_parts_words [of "[]" "CHR ''/''" "Split (CHR ''/'') p"] Split_no_sep by auto
  have "out \<noteq> []" using ne by auto
  from Split_Join [OF this words] have sp: "Split (CHR ''/'') p = out" by (simp add: j)
  obtain k rest where k: "out = replicate k ''..'' @ rest" "''..'' \<notin> set rest"
    using clean_parts_form [of "[]" 0 "Split (CHR ''/'') p"] by (auto simp: out_def parents_first_def)
  have "k = 0"
  proof (rule ccontr)
    assume "k \<noteq> 0"
    then obtain r where "out = ''..'' # r" using k(1) by (cases k) auto
    with j assms(4,5) show False by (cases r) (auto simp: HasPrefix_def starts_with_def)
  qed
  with k sp show ?thesis by simp
qed

lemma FileRef_path: "FileRef_Validate f = None \<Longrightarrow> path_Clean (TrimSpace (fr_Path f)) = TrimSpace (fr_Path f)
    \<and> \<not> path_IsAbs (TrimSpace (fr_Path f)) \<and> TrimSpace (fr_Path f) \<noteq> ''.'' \<and> \<not> HasPrefix (TrimSpace (fr_Path f)) ''../''"
  by (auto simp: FileRef_Validate_def Let_def split: if_splits)

section \<open>Properties\<close>

text \<open>A sealed snapshot carries the digest that \<open>Validate\<close> recomputes: when the schemas of the normalised snapshot
  can be encoded, \<open>Seal\<close> stores the digest of the content, and it succeeds exactly if the structural checks pass; it
  never reports a digest mismatch for what it sealed.\<close>

theorem Seal_digest:
  assumes "sha_size X" "schemas_encodable X (normalizeSnapshot X s)"
  shows "\<exists>d. ComputeDigest X (normalizeSnapshot X s) = Some d \<and> ComputeDigest X ((normalizeSnapshot X s)\<lparr>sn_Digest := d\<rparr>) = Some d \<and>
    Seal X (Some s) = (snapshot_structure X (normalizeSnapshot X s), Some ((normalizeSnapshot X s)\<lparr>sn_Digest := d\<rparr>))"
proof -
  let ?s = "normalizeSnapshot X s"
  from assms(2) obtain b where b: "ComputeDigest X ?s = Some (sha256_hex X b)"
    by (simp add: ComputeDigest_def canonicalWithoutDigest_def)
  have ne: "sha256_hex X b \<noteq> []" using sha256_hex_digest [of X b] assms(1) by (auto simp: sha_size_def lower_hex64_def)
  have "ExecutionSnapshot_Validate X (?s\<lparr>sn_Digest := sha256_hex X b\<rparr>) = snapshot_structure X ?s"
    using b ne by (simp add: ExecutionSnapshot_Validate_def structure_digest digest_ignored split: option.splits)
  with b show ?thesis by (simp add: Seal_def digest_ignored Let_def)
qed

definition ex_exec_snapshot :: ExecutionSnapshot where
  "ex_exec_snapshot = \<lparr>sn_Model = \<lparr>ms_ProfileID = [], ms_Revision = 0, ms_CredentialVersion = 0, ms_Digest = [], ms_SecretRef = [],
       ms_Provider = [], ms_RequestDialect = [], ms_ModelKind = [], ms_BaseURL = [], ms_Model = [], ms_SystemPrompt = [],
       ms_Temperature = None, ms_TopP = None, ms_MaxOutputTokens = 0, ms_ContextWindow = 0, ms_ReasoningEffort = []\<rparr>,
     sn_Extensions = [], sn_Knowledge = [\<lparr>ks_SourceID = ex_id 9, ks_Revision = 1, ks_ContentDigest = ex_digest, ks_IndexDigest = ex_digest,
       ks_Ready = True\<rparr>], sn_Attachments = [], sn_Digest = []\<rparr>"

theorem Seal_digest_witness: "\<exists>s'. Seal ex (Some ex_exec_snapshot) = (None, Some s') \<and> sn_Digest s' \<noteq> []"
proof -
  have n: "normalizeSnapshot ex ex_exec_snapshot = ex_exec_snapshot" by (simp add: normalizeSnapshot_def ex_exec_snapshot_def)
  have "schemas_encodable ex (normalizeSnapshot ex ex_exec_snapshot)" unfolding n by (simp add: schemas_encodable_def ex_exec_snapshot_def)
  from Seal_digest [OF ex_sha_size this] obtain d where
    d: "ComputeDigest ex ex_exec_snapshot = Some d" "Seal ex (Some ex_exec_snapshot) = (snapshot_structure ex ex_exec_snapshot, Some (ex_exec_snapshot\<lparr>sn_Digest := d\<rparr>))"
    unfolding n by blast
  have "snapshot_structure ex ex_exec_snapshot = None"
    by (simp add: snapshot_structure_def model_ok_def knowledge_check_def ex_exec_snapshot_def)
  moreover have "sha256_hex ex z \<noteq> []" for z using sha256_hex_digest [of ex z] ex_sha_size
    by (auto simp: sha_size_def lower_hex64_def)
  then have "d \<noteq> []" using d(1) by (auto simp: ComputeDigest_def)
  ultimately show ?thesis using d(2) by simp
qed

text \<open>The digest of a snapshot does not depend on how the store writes JSON: two snapshots whose tool schemas differ only in
  their text, not in the value it decodes to, have the same digest.\<close>

theorem ComputeDigest_schema_text:
  assumes "list_all2 (same_extension X) (sn_Extensions s) es"
  shows "ComputeDigest X (s\<lparr>sn_Extensions := es\<rparr>) = ComputeDigest X s"
proof -
  note same = same_extensions_normal [OF assms]
  have "normalizeSnapshot X (s\<lparr>sn_Extensions := es, sn_Digest := []\<rparr>) = normalizeSnapshot X (s\<lparr>sn_Digest := []\<rparr>)"
    using same by (simp add: normalizeSnapshot_def)
  moreover have "schemas_encodable X (s\<lparr>sn_Extensions := es\<rparr>) = schemas_encodable X s"
    using same by (simp add: schemas_encodable_def)
  ultimately show ?thesis by (simp add: ComputeDigest_def canonicalWithoutDigest_def)
qed

definition ex_tool :: "string \<Rightarrow> ToolDescriptor" where
  "ex_tool schema = \<lparr>td_Name = ''t'', td_Description = [], td_InputSchema = schema, td_SchemaDigest = ex_digest\<rparr>"

definition ex_extension :: "string \<Rightarrow> ExtensionExecutionSnapshot" where
  "ex_extension schema = \<lparr>xs_Kind = ExtensionMCP, xs_InstallationID = ex_id 1, xs_Revision = 1, xs_VersionID = ex_id 2, xs_Version = ''v1'',
     xs_ContentDigest = ex_digest, xs_ArtifactDigest = ex_digest, xs_AllowedTools = [], xs_Tools = [ex_tool schema]\<rparr>"

text \<open>An instance in which two texts, with and without a space, decode to the same value.\<close>

definition ex_spaced :: ext where
  "ex_spaced = ex\<lparr>json_Unmarshal := (\<lambda>s. if s = [] then None else Some (JStr (filter (\<lambda>c. c \<noteq> CHR '' '') s)))\<rparr>"

theorem ComputeDigest_schema_text_witness:
  "ComputeDigest ex_spaced (ex_exec_snapshot\<lparr>sn_Extensions := [ex_extension ''{ }'']\<rparr>)
     = ComputeDigest ex_spaced (ex_exec_snapshot\<lparr>sn_Extensions := [ex_extension ''{}'']\<rparr>)"
proof -
  have "list_all2 (same_extension ex_spaced) (sn_Extensions (ex_exec_snapshot\<lparr>sn_Extensions := [ex_extension ''{}'']\<rparr>)) [ex_extension ''{ }'']"
    by (simp add: same_extension_def same_tool_def ex_extension_def ex_tool_def ex_spaced_def ex_def)
  from ComputeDigest_schema_text [OF this] show ?thesis by simp
qed

text \<open>A file reference stays below the root it is resolved against: the path that \<open>FileRef.Validate\<close> accepts is relative
  and none of its components is the parent directory, unless the path is the parent directory itself.\<close>

theorem FileRef_contained:
  assumes "FileRef_Validate f = None" "TrimSpace (fr_Path f) \<noteq> ''..''"
  shows "\<not> path_IsAbs (TrimSpace (fr_Path f)) \<and> ''..'' \<notin> set (Split (CHR ''/'') (TrimSpace (fr_Path f)))"
  using FileRef_path [OF assms(1)] clean_relative [of "TrimSpace (fr_Path f)"] assms(2) by blast

theorem FileRef_contained_witness: "''..'' \<notin> set (Split (CHR ''/'') (TrimSpace ''out/log''))"
proof -
  have t: "TrimSpace ''out/log'' = ''out/log''" by (simp add: TrimSpace_printable printable_def)
  have "FileRef_Validate \<lparr>fr_Path = ''out/log'', fr_Digest = ex_digest, fr_Size = 1\<rparr> = None"
    using ex_digest_facts(4) unfolding hex_DecodeString_ok_def
    by (simp add: FileRef_Validate_def t task_limits ValidString_def path_IsAbs_def path_Clean_def HasPrefix_def starts_with_def)
  from FileRef_contained [OF this] show ?thesis by (simp add: t)
qed

text \<open>The parent directory itself is accepted: \<open>FileRef.Validate\<close> refuses the prefix \<open>../\<close> and the path \<open>.\<close>, but not
  the bare path \<open>..\<close>.\<close>

theorem FileRef_accepts_parent: "FileRef_Validate \<lparr>fr_Path = ''..'', fr_Digest = replicate 64 (CHR ''a''), fr_Size = 0\<rparr> = None"
proof -
  have t: "TrimSpace ''..'' = ''..''" by (simp add: TrimSpace_printable printable_def)
  have "list_all hex_digit (replicate 64 (CHR ''a''))" by (simp add: list_all_iff hex_digit_def)
  then show ?thesis
    by (simp add: FileRef_Validate_def t task_limits ValidString_def path_IsAbs_def path_Clean_def HasPrefix_def starts_with_def)
qed

end
