(* ===== verification/Confirm_Types.thy ===== *)
theory Confirm_Types
  imports Agent_Prelude Task_Machine
begin

text \<open>
  \<^verbatim>\<open>src/internal/coreconfirmation/types.go\<close> and \<^verbatim>\<open>src/internal/coreconfirmation/public.go\<close>: the binding that a
  confirmation authorises, its normalisation and comparison, the commands, the digests under which
  mutations are replayed, and the projection that leaves the service. \<open>ResolveBinding\<close> and
  \<open>ResolveTaskFence\<close> of a command are optional: the model holds what the callback returns when it is
  called. A \<open>Digest\<close> is a string. \<open>cloneConfirmation\<close> copies slices and is the identity on values.
\<close>

section \<open>Data\<close>

datatype State = StatePending | StateConfirmed | StateConsumed | StateRejected | StateExpired | StateOther string

fun State_string :: "State \<Rightarrow> string" where
  "State_string StatePending = ''pending''"
| "State_string StateConfirmed = ''confirmed''"
| "State_string StateConsumed = ''consumed''"
| "State_string StateRejected = ''rejected''"
| "State_string StateExpired = ''expired''"
| "State_string (StateOther s) = s"

datatype confirm_error = ErrInvalid_cc | ErrNotFound_cc | ErrConflict_cc | ErrRevisionConflict_cc | ErrIdempotencyConflict_cc
  | ErrStale_cc | ErrExpired_cc | ErrInvalidTransition_cc | ErrTaskFenceConflict_cc | ErrBindingUnavailable_cc

definition ReasonUserRejected :: string where "ReasonUserRejected = ''user_rejected''"
definition ReasonExpired :: string where "ReasonExpired = ''confirmation_expired''"
definition ReasonStale :: string where "ReasonStale = ''confirmation_stale''"
definition TargetKindPersistentService :: string where "TargetKindPersistentService = ''persistent_service''"
definition AcknowledgedUnknownNoRetry :: string where "AcknowledgedUnknownNoRetry = ''acknowledged_unknown_no_retry''"

datatype SecretPurpose = SecretPurposeModelAPIKey | SecretPurposeMCPCredential | SecretPurposeSkillSecret
  | SecretPurposeAWSCredential | SecretPurposeOtherExtensionSecret | SecretPurposeOther string

fun SecretPurpose_string :: "SecretPurpose \<Rightarrow> string" where
  "SecretPurpose_string SecretPurposeModelAPIKey = ''model_api_key''"
| "SecretPurpose_string SecretPurposeMCPCredential = ''mcp_credential''"
| "SecretPurpose_string SecretPurposeSkillSecret = ''skill_secret''"
| "SecretPurpose_string SecretPurposeAWSCredential = ''aws_credential''"
| "SecretPurpose_string SecretPurposeOtherExtensionSecret = ''other_extension_secret''"
| "SecretPurpose_string (SecretPurposeOther s) = s"

fun validSecretPurpose :: "SecretPurpose \<Rightarrow> bool" where
  "validSecretPurpose (SecretPurposeOther _) = False"
| "validSecretPurpose _ = True"

record SecretGrant =
  sg_ReferenceID :: string
  sg_Purpose :: SecretPurpose
  sg_BindingDigest :: string

record LiveQuote =
  q_AmountMicros :: int
  q_ComputeMicrosPerHour :: u64
  q_Currency :: string
  q_SourceTime :: gotime
  q_ExpiresAt :: gotime
  q_MaximumAuthorizedCostMicros :: int

record Binding =
  b_OwnerID :: string
  b_AccountGeneration :: u64
  b_OperationDomain :: string
  b_TargetID :: string
  b_TargetRevision :: int
  b_TargetKind :: string
  b_SourceVersion :: string
  b_SourceCommit :: string
  b_ContentDigest :: string
  b_ManifestDigest :: string
  b_ExecutionDigest :: string
  b_PermissionDigest :: string
  b_ParameterDigest :: string
  b_NetworkDigest :: string
  b_SecretGrantDigest :: string
  b_SelectedTool :: string
  b_SelectedCommand :: "string slice"
  b_NetworkGrants :: "string slice"
  b_SecretGrants :: "SecretGrant slice"
  b_ExecutionID :: string
  b_PlanID :: string
  b_PlanRevision :: int
  b_PlanDigest :: string
  b_RunID :: string
  b_RunRevision :: int
  b_RunDigest :: string
  b_QuoteDigest :: string
  b_Quote :: "LiveQuote option"
  b_Digest :: string

record Confirmation =
  c_ConfirmationID :: string
  c_OwnerID :: string
  c_Binding :: Binding
  c_TaskID :: string
  c_State :: State
  c_Revision :: int
  c_CreatedAt :: gotime
  c_UpdatedAt :: gotime
  c_ExpiresAt :: gotime
  c_TerminalCode :: string
  c_TerminalNote :: string
  c_TerminalReason :: string

record Reservation =
  rv_ConfirmationID :: string
  rv_TaskID :: string
  rv_AcquiredAttempt :: u32
  rv_AcquiredLeaseEpoch :: u64
  rv_TaskRevision :: int
  rv_Active :: bool

record TaskFence =
  tf_TaskID :: string
  tf_State :: string
  tf_FailureCode :: string
  tf_InstallationID :: string
  tf_ConfirmationID :: string
  tf_Attempt :: u32
  tf_LeaseEpoch :: u64
  tf_Revision :: int

record RequestCommand =
  rq_IdempotencyKey :: string
  rq_RequestDigest :: string
  rq_Binding :: Binding
  rq_TaskID :: string
  rq_ExpiresAt :: gotime
  rq_At :: gotime

record ConfirmCommand =
  cf_ConfirmationID :: string
  cf_IdempotencyKey :: string
  cf_RequestDigest :: string
  cf_ExpectedRevision :: int
  cf_Binding :: Binding
  cf_At :: gotime
  cf_ResolveBinding :: "(confirm_error + Binding) option"

record RejectCommand =
  rj_ConfirmationID :: string
  rj_IdempotencyKey :: string
  rj_RequestDigest :: string
  rj_ExpectedRevision :: int
  rj_Reason :: string
  rj_Note :: string
  rj_At :: gotime

record ConsumeCommand =
  cs_ConfirmationID :: string
  cs_IdempotencyKey :: string
  cs_RequestDigest :: string
  cs_TaskID :: string
  cs_Attempt :: u32
  cs_LeaseEpoch :: u64
  cs_ExpectedRevision :: int
  cs_ExpectedTaskRevision :: int
  cs_Binding :: Binding
  cs_At :: gotime
  cs_ResolveBinding :: "(confirm_error + Binding) option"
  cs_ResolveTaskFence :: "(string \<Rightarrow> confirm_error + TaskFence) option"

record ReleaseReservationCommand =
  rl_ConfirmationID :: string
  rl_TaskID :: string
  rl_AcquiredAttempt :: u32
  rl_AcquiredLeaseEpoch :: u64
  rl_TerminalAttempt :: u32
  rl_TerminalLeaseEpoch :: u64
  rl_ExpectedTaskRevision :: int
  rl_IdempotencyKey :: string
  rl_RequestDigest :: string
  rl_ResolveTaskFence :: "(string \<Rightarrow> confirm_error + TaskFence) option"

record ExpireCommand =
  xp_ConfirmationID :: string
  xp_IdempotencyKey :: string
  xp_RequestDigest :: string
  xp_ExpectedRevision :: int
  xp_Reason :: string
  xp_At :: gotime

record ListQuery =
  lq_PageSize :: int
  lq_PageToken :: string
  lq_Domain :: string
  lq_TargetID :: string
  lq_States :: "State list"

record Page =
  pg_Confirmations :: "Confirmation list"
  pg_NextPageToken :: string

record AckCommand =
  ak_OwnerID :: string
  ak_AccountGeneration :: u64
  ak_ConfirmationID :: string
  ak_TaskID :: string
  ak_InstallationID :: string
  ak_ExpectedTaskRevision :: int
  ak_ExpectedConfirmationRevision :: int
  ak_Resolution :: string
  ak_IdempotencyKey :: string

text \<open>Of the task in the result, the code fills the identifier, the status, the revision and the failure code.\<close>

record AckResult =
  ar_Confirmation :: Confirmation
  ar_TaskID :: string
  ar_TaskStatus :: Status
  ar_TaskRevision :: u64
  ar_TaskFailureCode :: string
  ar_Resolution :: string
  ar_ReservationReleased :: bool

text \<open>The zero values, which a map read of an absent key yields.\<close>

definition zero_binding :: Binding where
  "zero_binding = \<lparr>b_OwnerID = [], b_AccountGeneration = 0, b_OperationDomain = [], b_TargetID = [], b_TargetRevision = 0,
     b_TargetKind = [], b_SourceVersion = [], b_SourceCommit = [], b_ContentDigest = [], b_ManifestDigest = [], b_ExecutionDigest = [],
     b_PermissionDigest = [], b_ParameterDigest = [], b_NetworkDigest = [], b_SecretGrantDigest = [], b_SelectedTool = [],
     b_SelectedCommand = None, b_NetworkGrants = None, b_SecretGrants = None, b_ExecutionID = [], b_PlanID = [], b_PlanRevision = 0,
     b_PlanDigest = [], b_RunID = [], b_RunRevision = 0, b_RunDigest = [], b_QuoteDigest = [], b_Quote = None, b_Digest = []\<rparr>"

definition zero_confirmation :: Confirmation where
  "zero_confirmation = \<lparr>c_ConfirmationID = [], c_OwnerID = [], c_Binding = zero_binding, c_TaskID = [], c_State = StateOther [],
     c_Revision = 0, c_CreatedAt = time_zero, c_UpdatedAt = time_zero, c_ExpiresAt = time_zero, c_TerminalCode = [],
     c_TerminalNote = [], c_TerminalReason = []\<rparr>"

section \<open>Validation and normalisation\<close>

definition Digest_Valid :: "ext \<Rightarrow> string \<Rightarrow> bool" where
  "Digest_Valid X d = (if length d \<noteq> 64 \<or> ToLower X d \<noteq> d then False else hex_DecodeString_ok d)"

definition validateUUID :: "ext \<Rightarrow> string \<Rightarrow> bool" where
  "validateUUID X value = (case uuid_Parse X (TrimSpace value) of None \<Rightarrow> False
     | Some u \<Rightarrow> u \<noteq> uuid_Nil \<and> uuid_String X u = TrimSpace value)"

fun grant_loop :: "string list \<Rightarrow> string list \<Rightarrow> confirm_error + string list" where
  "grant_loop [] result = Inr result"
| "grant_loop (v # vs) result = (let value = TrimSpace v in
     if value = [] \<or> length value > 256 \<or> ContainsAny value line_breaks then Inl ErrInvalid_cc
     else if value \<in> set result then grant_loop vs result
     else grant_loop vs (result @ [value]))"

definition normalizeGrantList :: "string list \<Rightarrow> confirm_error + string list" where
  "normalizeGrantList values = (case grant_loop values [] of Inl e \<Rightarrow> Inl e | Inr r \<Rightarrow> Inr (sort r))"

definition secret_grant_key :: "SecretGrant \<Rightarrow> string" where
  "secret_grant_key g = sg_ReferenceID g @ [char_of (0 :: nat)] @ SecretPurpose_string (sg_Purpose g)"

fun secret_grant_loop :: "ext \<Rightarrow> SecretGrant list \<Rightarrow> SecretGrant list \<Rightarrow> confirm_error + SecretGrant list" where
  "secret_grant_loop X [] result = Inr result"
| "secret_grant_loop X (g0 # gs) result = (let g = g0\<lparr>sg_ReferenceID := TrimSpace (TrimSpace (sg_ReferenceID g0))\<rparr> in
     if \<not> validateUUID X (sg_ReferenceID g) \<or> \<not> validSecretPurpose (sg_Purpose g) \<or> \<not> Digest_Valid X (sg_BindingDigest g)
     then Inl ErrInvalid_cc
     else if secret_grant_key g \<in> set (map secret_grant_key result) then secret_grant_loop X gs result
     else secret_grant_loop X gs (result @ [g]))"

definition secret_grant_order :: "SecretGrant \<Rightarrow> string \<times> string" where
  "secret_grant_order g = (sg_ReferenceID g, SecretPurpose_string (sg_Purpose g))"

definition normalizeSecretGrantList :: "ext \<Rightarrow> SecretGrant list \<Rightarrow> confirm_error + SecretGrant list" where
  "normalizeSecretGrantList X values = (case secret_grant_loop X values [] of Inl e \<Rightarrow> Inl e
     | Inr r \<Rightarrow> Inr (sort_key secret_grant_order r))"

text \<open>The JSON values whose digests are taken, with the members in the order of the struct.\<close>

definition strs_json :: "string slice \<Rightarrow> json" where
  "strs_json xs = (case xs of None \<Rightarrow> JNull | Some ys \<Rightarrow> JArr (map JStr ys))"

definition member :: "bool \<Rightarrow> string \<Rightarrow> json \<Rightarrow> (string \<times> json) list" where
  "member present k v = (if present then [(k, v)] else [])"

definition grants_json :: "SecretGrant slice \<Rightarrow> json" where
  "grants_json gs = (case gs of None \<Rightarrow> JNull | Some ys \<Rightarrow> JArr (map (\<lambda>g. JObj [(''reference_id'', JStr (sg_ReferenceID g)),
     (''purpose'', JStr (SecretPurpose_string (sg_Purpose g))), (''binding_digest'', JStr (sg_BindingDigest g))]) ys))"

definition quote_json :: "ext \<Rightarrow> LiveQuote \<Rightarrow> json" where
  "quote_json X q = JObj [(''amount_micros'', JInt (q_AmountMicros q)),
     (''compute_micros_per_hour'', JInt (uint (q_ComputeMicrosPerHour q))), (''currency'', JStr (q_Currency q)),
     (''source_time'', JStr (time_text X (q_SourceTime q))), (''expires_at'', JStr (time_text X (q_ExpiresAt q))),
     (''maximum_authorized_cost_micros'', JInt (q_MaximumAuthorizedCostMicros q))]"

definition binding_json :: "ext \<Rightarrow> Binding \<Rightarrow> json" where
  "binding_json X b = JObj ([(''owner_id'', JStr (b_OwnerID b))]
     @ member (b_AccountGeneration b \<noteq> 0) ''account_generation'' (JInt (uint (b_AccountGeneration b)))
     @ [(''operation_domain'', JStr (b_OperationDomain b)), (''target_id'', JStr (b_TargetID b)),
        (''target_revision'', JInt (b_TargetRevision b)), (''target_kind'', JStr (b_TargetKind b)),
        (''source_version'', JStr (b_SourceVersion b)), (''source_commit'', JStr (b_SourceCommit b)),
        (''content_digest'', JStr (b_ContentDigest b)), (''manifest_digest'', JStr (b_ManifestDigest b)),
        (''execution_digest'', JStr (b_ExecutionDigest b)), (''permission_digest'', JStr (b_PermissionDigest b)),
        (''parameter_digest'', JStr (b_ParameterDigest b)), (''network_digest'', JStr (b_NetworkDigest b)),
        (''secret_grant_digest'', JStr (b_SecretGrantDigest b)), (''selected_tool'', JStr (b_SelectedTool b)),
        (''selected_command'', strs_json (b_SelectedCommand b)), (''network_grants'', strs_json (b_NetworkGrants b)),
        (''secret_grants'', grants_json (b_SecretGrants b))]
     @ member (b_ExecutionID b \<noteq> []) ''execution_id'' (JStr (b_ExecutionID b))
     @ member (b_PlanID b \<noteq> []) ''plan_id'' (JStr (b_PlanID b))
     @ member (b_PlanRevision b \<noteq> 0) ''plan_revision'' (JInt (b_PlanRevision b))
     @ member (b_PlanDigest b \<noteq> []) ''plan_digest'' (JStr (b_PlanDigest b))
     @ member (b_RunID b \<noteq> []) ''run_id'' (JStr (b_RunID b))
     @ member (b_RunRevision b \<noteq> 0) ''run_revision'' (JInt (b_RunRevision b))
     @ member (b_RunDigest b \<noteq> []) ''run_digest'' (JStr (b_RunDigest b))
     @ member (b_QuoteDigest b \<noteq> []) ''quote_digest'' (JStr (b_QuoteDigest b))
     @ (case b_Quote b of None \<Rightarrow> [] | Some q \<Rightarrow> [(''quote'', quote_json X q)])
     @ member (b_Digest b \<noteq> []) ''digest'' (JStr (b_Digest b)))"

definition binding_trim :: "Binding \<Rightarrow> Binding" where
  "binding_trim b = b\<lparr>b_OwnerID := TrimSpace (b_OwnerID b), b_OperationDomain := TrimSpace (b_OperationDomain b),
     b_TargetID := TrimSpace (b_TargetID b), b_SourceVersion := TrimSpace (b_SourceVersion b),
     b_SourceCommit := TrimSpace (b_SourceCommit b), b_TargetKind := TrimSpace (b_TargetKind b),
     b_SelectedTool := TrimSpace (b_SelectedTool b), b_ExecutionID := TrimSpace (b_ExecutionID b),
     b_PlanID := TrimSpace (b_PlanID b), b_RunID := TrimSpace (b_RunID b)\<rparr>"

definition cloudFields :: "Binding \<Rightarrow> bool" where
  "cloudFields b \<longleftrightarrow> b_ExecutionID b \<noteq> [] \<or> b_PlanID b \<noteq> [] \<or> b_RunID b \<noteq> [] \<or> b_PlanRevision b \<noteq> 0 \<or> b_RunRevision b \<noteq> 0
     \<or> b_PlanDigest b \<noteq> [] \<or> b_RunDigest b \<noteq> [] \<or> b_QuoteDigest b \<noteq> [] \<or> b_Digest b \<noteq> []"

definition binding_base_ok :: "ext \<Rightarrow> Binding \<Rightarrow> bool" where
  "binding_base_ok X b \<longleftrightarrow> \<not> (b_OperationDomain b = [] \<or> b_TargetID b = [] \<or> b_TargetRevision b < 1
        \<or> (b_SourceVersion b = [] \<and> b_SourceCommit b = []))
     \<and> list_all (Digest_Valid X) [b_ContentDigest b, b_ParameterDigest b, b_NetworkDigest b, b_SecretGrantDigest b]
     \<and> list_all (\<lambda>d. d = [] \<or> Digest_Valid X d) [b_ManifestDigest b, b_ExecutionDigest b, b_PermissionDigest b]"

definition cloud_ok :: "ext \<Rightarrow> Binding \<Rightarrow> bool" where
  "cloud_ok X b \<longleftrightarrow> \<not> (b_OperationDomain b \<noteq> ''cloud_worker.execute'' \<or> b_AccountGeneration b = 0 \<or> \<not> validateUUID X (b_ExecutionID b)
        \<or> \<not> validateUUID X (b_PlanID b) \<or> \<not> validateUUID X (b_RunID b) \<or> b_ExecutionID b \<noteq> b_TargetID b
        \<or> b_PlanRevision b < 1 \<or> b_RunRevision b < 1)
     \<and> list_all (Digest_Valid X) [b_PlanDigest b, b_RunDigest b, b_QuoteDigest b, b_Digest b]
     \<and> (case b_Quote b of None \<Rightarrow> False
        | Some q \<Rightarrow> \<not> (q_AmountMicros q < 0 \<or> TrimSpace (q_Currency q) = [] \<or> q_MaximumAuthorizedCostMicros q < q_AmountMicros q
            \<or> IsZero (q_SourceTime q) \<or> \<not> After (q_ExpiresAt q) (q_SourceTime q)))"

definition quote_trim :: "LiveQuote \<Rightarrow> LiveQuote" where
  "quote_trim q = q\<lparr>q_Currency := TrimSpace (q_Currency q), q_SourceTime := to_UTC (q_SourceTime q), q_ExpiresAt := to_UTC (q_ExpiresAt q)\<rparr>"

definition owner_ok :: "Binding \<Rightarrow> bool" where
  "owner_ok b = (if b_OperationDomain b = ''extension.execute'' then \<not> (b_OwnerID b = [] \<or> b_AccountGeneration b = 0)
     else \<not> (b_AccountGeneration b \<noteq> 0 \<and> b_OperationDomain b \<noteq> ''cloud_worker.execute''))"

definition command_breaks :: "char list" where
  "command_breaks = [char_of (13 :: nat), char_of (10 :: nat), char_of (0 :: nat)]"

definition Binding_normalized :: "ext \<Rightarrow> Binding \<Rightarrow> confirm_error + Binding" where
  "Binding_normalized X b0 = (let b1 = binding_trim b0; cloud = cloudFields b1 in
     if \<not> binding_base_ok X b1 then Inl ErrInvalid_cc
     else if cloud \<and> \<not> cloud_ok X b1 then Inl ErrInvalid_cc
     else let b = (if cloud then b1\<lparr>b_Quote := map_option quote_trim (b_Quote b1)\<rparr> else b1) in
       if \<not> owner_ok b then Inl ErrInvalid_cc
       else if list_ex (\<lambda>c. c = [] \<or> ContainsAny c command_breaks) (elems (b_SelectedCommand b)) then Inl ErrInvalid_cc
       else rbind (normalizeGrantList (elems (b_NetworkGrants b))) (\<lambda>nets.
            rbind (normalizeSecretGrantList X (elems (b_SecretGrants b))) (\<lambda>secs.
            let r = b\<lparr>b_NetworkGrants := Some nets, b_SecretGrants := Some secs\<rparr> in
              if cloud \<and> b_Digest r \<noteq> canonicalDigest X (binding_json X (r\<lparr>b_Digest := []\<rparr>)) then Inl ErrInvalid_cc else Inr r)))"

definition Binding_Equal :: "ext \<Rightarrow> Binding \<Rightarrow> Binding \<Rightarrow> bool" where
  "Binding_Equal X b other = (case Binding_normalized X b of Inl _ \<Rightarrow> False
     | Inr a \<Rightarrow> (case Binding_normalized X other of Inl _ \<Rightarrow> False
       | Inr c \<Rightarrow> b_OwnerID a = b_OwnerID c \<and> b_AccountGeneration a = b_AccountGeneration c \<and> b_OperationDomain a = b_OperationDomain c
           \<and> b_TargetID a = b_TargetID c \<and> b_TargetRevision a = b_TargetRevision c \<and> b_TargetKind a = b_TargetKind c
           \<and> b_SourceVersion a = b_SourceVersion c \<and> b_SourceCommit a = b_SourceCommit c \<and> b_ContentDigest a = b_ContentDigest c
           \<and> b_ManifestDigest a = b_ManifestDigest c \<and> b_ExecutionDigest a = b_ExecutionDigest c
           \<and> b_PermissionDigest a = b_PermissionDigest c \<and> b_ParameterDigest a = b_ParameterDigest c
           \<and> b_NetworkDigest a = b_NetworkDigest c \<and> b_SecretGrantDigest a = b_SecretGrantDigest c
           \<and> b_SelectedTool a = b_SelectedTool c \<and> elems (b_SelectedCommand a) = elems (b_SelectedCommand c)
           \<and> elems (b_NetworkGrants a) = elems (b_NetworkGrants c) \<and> elems (b_SecretGrants a) = elems (b_SecretGrants c)
           \<and> b_ExecutionID a = b_ExecutionID c \<and> b_PlanID a = b_PlanID c \<and> b_PlanRevision a = b_PlanRevision c
           \<and> b_PlanDigest a = b_PlanDigest c \<and> b_RunID a = b_RunID c \<and> b_RunRevision a = b_RunRevision c
           \<and> b_RunDigest a = b_RunDigest c \<and> b_QuoteDigest a = b_QuoteDigest c \<and> b_Quote a = b_Quote c \<and> b_Digest a = b_Digest c))"

section \<open>Digests of commands\<close>

definition requestDigest :: "ext \<Rightarrow> RequestCommand \<Rightarrow> string" where
  "requestDigest X c = canonicalDigest X (JObj [(''Binding'', binding_json X (rq_Binding c)), (''TaskID'', JStr (rq_TaskID c)),
     (''ExpiresAt'', JStr (time_text X (to_UTC (rq_ExpiresAt c))))])"

definition confirmDigest :: "ext \<Rightarrow> ConfirmCommand \<Rightarrow> string" where
  "confirmDigest X c = canonicalDigest X (JObj [(''ID'', JStr (cf_ConfirmationID c)), (''ExpectedRevision'', JInt (cf_ExpectedRevision c))])"

definition rejectDigest :: "ext \<Rightarrow> RejectCommand \<Rightarrow> string" where
  "rejectDigest X c = canonicalDigest X (JObj [(''ID'', JStr (rj_ConfirmationID c)), (''ExpectedRevision'', JInt (rj_ExpectedRevision c)),
     (''Reason'', JStr (rj_Reason c)), (''Note'', JStr (rj_Note c))])"

definition consumeDigest :: "ext \<Rightarrow> ConsumeCommand \<Rightarrow> string" where
  "consumeDigest X c = canonicalDigest X (JObj [(''ID'', JStr (cs_ConfirmationID c)), (''TaskID'', JStr (cs_TaskID c)),
     (''Attempt'', JInt (uint (cs_Attempt c))), (''LeaseEpoch'', JInt (uint (cs_LeaseEpoch c))),
     (''ExpectedRevision'', JInt (cs_ExpectedRevision c)), (''ExpectedTaskRevision'', JInt (cs_ExpectedTaskRevision c))])"

definition expireDigest :: "ext \<Rightarrow> ExpireCommand \<Rightarrow> string" where
  "expireDigest X c = canonicalDigest X (JObj [(''ID'', JStr (xp_ConfirmationID c)), (''ExpectedRevision'', JInt (xp_ExpectedRevision c)),
     (''Reason'', JStr (xp_Reason c))])"

definition releaseDigest :: "ext \<Rightarrow> ReleaseReservationCommand \<Rightarrow> string" where
  "releaseDigest X c = canonicalDigest X (JObj [(''ID'', JStr (rl_ConfirmationID c)), (''TaskID'', JStr (rl_TaskID c)),
     (''AcquiredAttempt'', JInt (uint (rl_AcquiredAttempt c))), (''AcquiredLeaseEpoch'', JInt (uint (rl_AcquiredLeaseEpoch c))),
     (''TerminalAttempt'', JInt (uint (rl_TerminalAttempt c))), (''TerminalLeaseEpoch'', JInt (uint (rl_TerminalLeaseEpoch c))),
     (''ExpectedTaskRevision'', JInt (rl_ExpectedTaskRevision c))])"

definition AckDigest :: "ext \<Rightarrow> AckCommand \<Rightarrow> string" where
  "AckDigest X c = canonicalDigest X (JObj [(''OwnerID'', JStr (ak_OwnerID c)), (''AccountGeneration'', JInt (uint (ak_AccountGeneration c))),
     (''ConfirmationID'', JStr (ak_ConfirmationID c)), (''TaskID'', JStr (ak_TaskID c)), (''InstallationID'', JStr (ak_InstallationID c)),
     (''ExpectedTaskRevision'', JInt (ak_ExpectedTaskRevision c)),
     (''ExpectedConfirmationRevision'', JInt (ak_ExpectedConfirmationRevision c)), (''Resolution'', JStr (ak_Resolution c))])"

section \<open>The public projection\<close>

record PublicSecretGrant =
  pq_ReferenceID :: string
  pq_Purpose :: SecretPurpose
  pq_BindingDigest :: string

record PublicQuote =
  pu_AmountMicros :: "int option"
  pu_ComputeMicrosPerHour :: u64
  pu_Currency :: string
  pu_SourceTime :: gotime
  pu_ExpiresAt :: gotime
  pu_MaximumAuthorizedCostMicros :: "int option"

record PublicBinding =
  pb_OwnerID :: string
  pb_AccountGeneration :: u64
  pb_OperationDomain :: string
  pb_TargetID :: string
  pb_TargetRevision :: int
  pb_TargetKind :: string
  pb_SourceVersion :: string
  pb_SourceCommit :: string
  pb_ContentDigest :: string
  pb_ManifestDigest :: string
  pb_ExecutionDigest :: string
  pb_PermissionDigest :: string
  pb_ParameterDigest :: string
  pb_NetworkDigest :: string
  pb_SecretGrantDigest :: string
  pb_SelectedTool :: string
  pb_SelectedCommand :: "string slice"
  pb_NetworkGrants :: "string slice"
  pb_SecretGrants :: "PublicSecretGrant slice"
  pb_ExecutionID :: string
  pb_PlanID :: string
  pb_PlanRevision :: int
  pb_PlanDigest :: string
  pb_RunID :: string
  pb_RunRevision :: int
  pb_RunDigest :: string
  pb_QuoteDigest :: string
  pb_Quote :: "PublicQuote option"
  pb_Digest :: string

definition public_quote :: "string \<Rightarrow> LiveQuote \<Rightarrow> PublicQuote" where
  "public_quote kind q = \<lparr>pu_AmountMicros = (if kind \<noteq> TargetKindPersistentService then Some (q_AmountMicros q) else None),
     pu_ComputeMicrosPerHour = q_ComputeMicrosPerHour q, pu_Currency = q_Currency q, pu_SourceTime = q_SourceTime q,
     pu_ExpiresAt = q_ExpiresAt q,
     pu_MaximumAuthorizedCostMicros = (if kind \<noteq> TargetKindPersistentService then Some (q_MaximumAuthorizedCostMicros q) else None)\<rparr>"

definition Binding_Public :: "Binding \<Rightarrow> PublicBinding" where
  "Binding_Public b =
    (if b_OperationDomain b = ''cloud_worker.execute'' then
       \<lparr>pb_OwnerID = TrimSpace (b_OwnerID b), pb_AccountGeneration = b_AccountGeneration b, pb_OperationDomain = b_OperationDomain b,
        pb_TargetID = b_TargetID b, pb_TargetRevision = b_TargetRevision b, pb_TargetKind = b_TargetKind b, pb_SourceVersion = [],
        pb_SourceCommit = [], pb_ContentDigest = [], pb_ManifestDigest = [], pb_ExecutionDigest = [], pb_PermissionDigest = [],
        pb_ParameterDigest = [], pb_NetworkDigest = [], pb_SecretGrantDigest = [], pb_SelectedTool = [], pb_SelectedCommand = None,
        pb_NetworkGrants = None, pb_SecretGrants = None, pb_ExecutionID = b_ExecutionID b, pb_PlanID = b_PlanID b,
        pb_PlanRevision = b_PlanRevision b, pb_PlanDigest = [], pb_RunID = [], pb_RunRevision = 0, pb_RunDigest = [],
        pb_QuoteDigest = [], pb_Quote = map_option (public_quote (b_TargetKind b)) (b_Quote b), pb_Digest = []\<rparr>
     else
       \<lparr>pb_OwnerID = TrimSpace (b_OwnerID b), pb_AccountGeneration = b_AccountGeneration b, pb_OperationDomain = b_OperationDomain b,
        pb_TargetID = b_TargetID b, pb_TargetRevision = b_TargetRevision b, pb_TargetKind = b_TargetKind b,
        pb_SourceVersion = b_SourceVersion b, pb_SourceCommit = b_SourceCommit b, pb_ContentDigest = b_ContentDigest b,
        pb_ManifestDigest = b_ManifestDigest b, pb_ExecutionDigest = b_ExecutionDigest b, pb_PermissionDigest = b_PermissionDigest b,
        pb_ParameterDigest = b_ParameterDigest b, pb_NetworkDigest = b_NetworkDigest b, pb_SecretGrantDigest = b_SecretGrantDigest b,
        pb_SelectedTool = b_SelectedTool b, pb_SelectedCommand = Some (elems (b_SelectedCommand b)),
        pb_NetworkGrants = Some (elems (b_NetworkGrants b)),
        pb_SecretGrants = Some (map (\<lambda>g. \<lparr>pq_ReferenceID = sg_ReferenceID g, pq_Purpose = sg_Purpose g,
            pq_BindingDigest = sg_BindingDigest g\<rparr>) (elems (b_SecretGrants b))),
        pb_ExecutionID = b_ExecutionID b, pb_PlanID = b_PlanID b, pb_PlanRevision = b_PlanRevision b, pb_PlanDigest = b_PlanDigest b,
        pb_RunID = b_RunID b, pb_RunRevision = b_RunRevision b, pb_RunDigest = b_RunDigest b, pb_QuoteDigest = b_QuoteDigest b,
        pb_Quote = None, pb_Digest = b_Digest b\<rparr>)"

definition opt_int :: "string \<Rightarrow> int option \<Rightarrow> (string \<times> json) list" where
  "opt_int k v = (case v of None \<Rightarrow> [] | Some i \<Rightarrow> [(k, JInt i)])"

definition public_quote_json :: "ext \<Rightarrow> PublicQuote option \<Rightarrow> json" where
  "public_quote_json X qo = (case qo of None \<Rightarrow> JNull
     | Some q \<Rightarrow> JObj (opt_int ''amount_micros'' (pu_AmountMicros q)
         @ [(''compute_micros_per_hour'', JInt (uint (pu_ComputeMicrosPerHour q))), (''currency'', JStr (pu_Currency q)),
            (''source_time'', JStr (time_text X (pu_SourceTime q))), (''expires_at'', JStr (time_text X (pu_ExpiresAt q)))]
         @ opt_int ''maximum_authorized_cost_micros'' (pu_MaximumAuthorizedCostMicros q)))"

definition public_grant_json :: "PublicSecretGrant \<Rightarrow> json" where
  "public_grant_json g = JObj (member (pq_ReferenceID g \<noteq> []) ''reference_id'' (JStr (pq_ReferenceID g))
     @ [(''purpose'', JStr (SecretPurpose_string (pq_Purpose g)))]
     @ member (pq_BindingDigest g \<noteq> []) ''binding_digest'' (JStr (pq_BindingDigest g)))"

definition PublicBinding_MarshalJSON :: "ext \<Rightarrow> PublicBinding \<Rightarrow> json" where
  "PublicBinding_MarshalJSON X b =
    (if pb_OperationDomain b = ''cloud_worker.execute'' then
       JObj [(''owner_id'', JStr (pb_OwnerID b)), (''account_generation'', JInt (uint (pb_AccountGeneration b))),
         (''operation_domain'', JStr (pb_OperationDomain b)), (''target_id'', JStr (pb_TargetID b)),
         (''target_revision'', JInt (pb_TargetRevision b)), (''target_kind'', JStr (pb_TargetKind b)),
         (''execution_id'', JStr (pb_ExecutionID b)), (''plan_id'', JStr (pb_PlanID b)),
         (''plan_revision'', JInt (pb_PlanRevision b)), (''quote'', public_quote_json X (pb_Quote b))]
     else JObj ([(''owner_id'', JStr (pb_OwnerID b))]
     @ member (pb_AccountGeneration b \<noteq> 0) ''account_generation'' (JInt (uint (pb_AccountGeneration b)))
     @ [(''operation_domain'', JStr (pb_OperationDomain b)), (''target_id'', JStr (pb_TargetID b)),
        (''target_revision'', JInt (pb_TargetRevision b)), (''target_kind'', JStr (pb_TargetKind b)),
        (''source_version'', JStr (pb_SourceVersion b)), (''source_commit'', JStr (pb_SourceCommit b)),
        (''content_digest'', JStr (pb_ContentDigest b)), (''manifest_digest'', JStr (pb_ManifestDigest b)),
        (''execution_digest'', JStr (pb_ExecutionDigest b)), (''permission_digest'', JStr (pb_PermissionDigest b)),
        (''parameter_digest'', JStr (pb_ParameterDigest b)), (''network_digest'', JStr (pb_NetworkDigest b)),
        (''secret_grant_digest'', JStr (pb_SecretGrantDigest b)), (''selected_tool'', JStr (pb_SelectedTool b)),
        (''selected_command'', strs_json (pb_SelectedCommand b)), (''network_grants'', strs_json (pb_NetworkGrants b)),
        (''secret_grants'', (case pb_SecretGrants b of None \<Rightarrow> JNull | Some gs \<Rightarrow> JArr (map public_grant_json gs)))]
     @ member (pb_ExecutionID b \<noteq> []) ''execution_id'' (JStr (pb_ExecutionID b))
     @ member (pb_PlanID b \<noteq> []) ''plan_id'' (JStr (pb_PlanID b))
     @ member (pb_PlanRevision b \<noteq> 0) ''plan_revision'' (JInt (pb_PlanRevision b))
     @ member (pb_PlanDigest b \<noteq> []) ''plan_digest'' (JStr (pb_PlanDigest b))
     @ member (pb_RunID b \<noteq> []) ''run_id'' (JStr (pb_RunID b))
     @ member (pb_RunRevision b \<noteq> 0) ''run_revision'' (JInt (pb_RunRevision b))
     @ member (pb_RunDigest b \<noteq> []) ''run_digest'' (JStr (pb_RunDigest b))
     @ member (pb_QuoteDigest b \<noteq> []) ''quote_digest'' (JStr (pb_QuoteDigest b))
     @ member (pb_Quote b \<noteq> None) ''quote'' (public_quote_json X (pb_Quote b))
     @ member (pb_Digest b \<noteq> []) ''digest'' (JStr (pb_Digest b))))"

record PublicConfirmation =
  pk_ConfirmationID :: string
  pk_OwnerID :: string
  pk_Binding :: PublicBinding
  pk_TaskID :: string
  pk_State :: State
  pk_Revision :: int
  pk_CreatedAt :: gotime
  pk_UpdatedAt :: gotime
  pk_ExpiresAt :: gotime
  pk_TerminalCode :: string
  pk_TerminalNote :: string
  pk_TerminalReason :: string

definition Confirmation_Public :: "Confirmation \<Rightarrow> PublicConfirmation" where
  "Confirmation_Public c = \<lparr>pk_ConfirmationID = c_ConfirmationID c, pk_OwnerID = c_OwnerID c, pk_Binding = Binding_Public (c_Binding c),
     pk_TaskID = c_TaskID c, pk_State = c_State c, pk_Revision = c_Revision c, pk_CreatedAt = c_CreatedAt c,
     pk_UpdatedAt = c_UpdatedAt c, pk_ExpiresAt = c_ExpiresAt c, pk_TerminalCode = c_TerminalCode c,
     pk_TerminalNote = c_TerminalNote c, pk_TerminalReason = c_TerminalReason c\<rparr>"

end
