(* ===== verification/Confirm_Memory.thy ===== *)
theory Confirm_Memory
  imports Confirm_Types
begin

text \<open>
  \<^verbatim>\<open>src/internal/coreconfirmation/memory.go\<close>: the reference implementation of the confirmation
  repository. An operation takes the repository,
  the reading of its clock and its command and returns the repository it leaves with the value or the
  error, because several failing branches still write (a confirmation found expired or stale is expired
  on the way out). \<open>uuid.New().String()\<close> is an argument of \<open>Request\<close>. Every operation holds the mutex
  from its first to its last access of the state, so an interleaving is a sequence of operations.
\<close>

section \<open>The repository\<close>

record replay =
  rp_digest :: string
  rp_value :: Confirmation

record uncertain_replay =
  up_digest :: string
  up_value :: AckResult

record MemoryRepository =
  items :: "(string \<times> Confirmation) list"
  order :: "string list"
  replays :: "(string \<times> replay) list"
  uncertainReplays :: "(string \<times> uncertain_replay) list"
  taskFences :: "(string \<times> TaskFence) list"
  targetBindings :: "(string \<times> Binding) list"
  reservations :: "(string \<times> Reservation) list"
  taskEvents :: "(string \<times> int) list"

definition NewMemoryRepository :: MemoryRepository where
  "NewMemoryRepository = \<lparr>items = [], order = [], replays = [], uncertainReplays = [], taskFences = [],
     targetBindings = [], reservations = [], taskEvents = []\<rparr>"

definition at :: "gotime \<Rightarrow> gotime \<Rightarrow> gotime" where
  "at clock value = (if IsZero value then to_UTC (to_UTC clock) else to_UTC value)"

text \<open>\<open>None\<close> when no replay is recorded under the key.\<close>

definition replayLocked :: "MemoryRepository \<Rightarrow> string \<Rightarrow> string \<Rightarrow> (confirm_error + Confirmation) option" where
  "replayLocked r key digest = (case lookup (replays r) key of None \<Rightarrow> None
     | Some previous \<Rightarrow> if rp_digest previous \<noteq> digest then Some (Inl ErrIdempotencyConflict_cc) else Some (Inr (rp_value previous)))"

definition isLiveConfirmation :: "Confirmation \<Rightarrow> bool" where
  "isLiveConfirmation c \<longleftrightarrow> c_State c = StatePending \<or> c_State c = StateConfirmed \<or> c_State c = StateConsumed"

definition validState :: "State \<Rightarrow> bool" where
  "validState s \<longleftrightarrow> s = StatePending \<or> s = StateConfirmed \<or> s = StateConsumed \<or> s = StateRejected \<or> s = StateExpired"

definition put_item :: "Confirmation \<Rightarrow> MemoryRepository \<Rightarrow> MemoryRepository" where
  "put_item c r = r\<lparr>items := put (c_ConfirmationID c) c (items r)\<rparr>"

definition put_replay :: "string \<Rightarrow> string \<Rightarrow> Confirmation \<Rightarrow> MemoryRepository \<Rightarrow> MemoryRepository" where
  "put_replay key digest c r = r\<lparr>replays := put key \<lparr>rp_digest = digest, rp_value = c\<rparr> (replays r)\<rparr>"

definition put_reservation :: "string \<Rightarrow> Reservation \<Rightarrow> MemoryRepository \<Rightarrow> MemoryRepository" where
  "put_reservation k v r = r\<lparr>reservations := put k v (reservations r)\<rparr>"

text \<open>The assignments of the branches that find a confirmation expired or stale.\<close>

definition expired_as :: "string \<Rightarrow> gotime \<Rightarrow> Confirmation \<Rightarrow> Confirmation" where
  "expired_as reason now c = c\<lparr>c_State := StateExpired, c_Revision := wrap64 (c_Revision c + 1), c_UpdatedAt := now,
     c_TerminalCode := reason, c_TerminalReason := reason\<rparr>"

definition advanced :: "State \<Rightarrow> gotime \<Rightarrow> Confirmation \<Rightarrow> Confirmation" where
  "advanced s now c = c\<lparr>c_State := s, c_Revision := wrap64 (c_Revision c + 1), c_UpdatedAt := now\<rparr>"

definition authoritative :: "MemoryRepository \<Rightarrow> string \<Rightarrow> Confirmation \<Rightarrow> Binding" where
  "authoritative r key c = (case lookup (targetBindings r) key of Some b \<Rightarrow> b | None \<Rightarrow> c_Binding c)"

section \<open>Operations\<close>

type_synonym 'a outcome = "MemoryRepository \<times> (confirm_error + 'a)"

definition ack_bad :: "ext \<Rightarrow> AckCommand \<Rightarrow> bool" where
  "ack_bad X c \<longleftrightarrow> TrimSpace (ak_OwnerID c) = [] \<or> ak_AccountGeneration c = 0 \<or> \<not> validateUUID X (ak_ConfirmationID c)
     \<or> \<not> validateUUID X (ak_TaskID c) \<or> \<not> validateUUID X (ak_InstallationID c) \<or> \<not> validateUUID X (ak_IdempotencyKey c)
     \<or> ak_ExpectedTaskRevision c < 1 \<or> ak_ExpectedConfirmationRevision c < 1 \<or> ak_Resolution c \<noteq> AcknowledgedUnknownNoRetry"

text \<open>The checks between the replay lookup and the first write of \<open>AcknowledgeExtensionExecutionUncertain\<close>.\<close>

definition ack_check :: "MemoryRepository \<Rightarrow> AckCommand \<Rightarrow> confirm_error + (Confirmation \<times> TaskFence \<times> Reservation)" where
  "ack_check r command = (case lookup (items r) (ak_ConfirmationID command) of None \<Rightarrow> Inl ErrNotFound_cc
   | Some c \<Rightarrow>
     if c_TaskID c \<noteq> ak_TaskID command \<or> b_OperationDomain (c_Binding c) \<noteq> ''extension.execute''
        \<or> b_TargetID (c_Binding c) \<noteq> ak_InstallationID command \<or> b_OwnerID (c_Binding c) \<noteq> ak_OwnerID command
        \<or> b_AccountGeneration (c_Binding c) \<noteq> ak_AccountGeneration command \<or> c_State c \<noteq> StateConsumed
        \<or> c_Revision c \<noteq> ak_ExpectedConfirmationRevision command then Inl ErrConflict_cc
     else (case lookup (taskFences r) (ak_TaskID command) of None \<Rightarrow> Inl ErrTaskFenceConflict_cc
     | Some fence \<Rightarrow>
       if tf_State fence \<noteq> ''failed'' \<or> tf_FailureCode fence \<noteq> ''extension_execution_uncertain''
          \<or> tf_Revision fence \<noteq> ak_ExpectedTaskRevision command then Inl ErrTaskFenceConflict_cc
       else if tf_InstallationID fence = [] \<or> tf_ConfirmationID fence = [] then Inl ErrBindingUnavailable_cc
       else if tf_InstallationID fence \<noteq> ak_InstallationID command \<or> tf_ConfirmationID fence \<noteq> ak_ConfirmationID command
       then Inl ErrConflict_cc
       else (case lookup (reservations r) (ak_ConfirmationID command) of None \<Rightarrow> Inl ErrConflict_cc
       | Some v \<Rightarrow>
         if \<not> rv_Active v \<or> rv_TaskID v \<noteq> ak_TaskID command \<or> rv_AcquiredAttempt v \<noteq> tf_Attempt fence
            \<or> rv_AcquiredLeaseEpoch v \<ge> tf_LeaseEpoch fence \<or> rv_TaskRevision v \<ge> ak_ExpectedTaskRevision command
         then Inl ErrConflict_cc else Inr (c, fence, v))))"

definition ack_key :: "AckCommand \<Rightarrow> string" where
  "ack_key c = ''extension_execution_uncertain_ack:'' @ ak_IdempotencyKey c"

definition AcknowledgeExtensionExecutionUncertain :: "ext \<Rightarrow> gotime \<Rightarrow> MemoryRepository \<Rightarrow> AckCommand \<Rightarrow> AckResult outcome" where
  "AcknowledgeExtensionExecutionUncertain X clock r command =
    (if ack_bad X command then (r, Inl ErrInvalid_cc)
     else let digest = AckDigest X command in
     (case lookup (uncertainReplays r) (ack_key command) of
        Some previous \<Rightarrow> if up_digest previous \<noteq> digest then (r, Inl ErrIdempotencyConflict_cc) else (r, Inr (up_value previous))
      | None \<Rightarrow> (case ack_check r command of Inl e \<Rightarrow> (r, Inl e)
        | Inr (c0, fence0, v) \<Rightarrow>
          let c = c0\<lparr>c_Revision := wrap64 (c_Revision c0 + 1), c_UpdatedAt := to_UTC clock,
                c_TerminalCode := ''acknowledged_unknown_no_retry'', c_TerminalReason := ''acknowledged_unknown_no_retry''\<rparr>;
              fence = fence0\<lparr>tf_Revision := wrap64 (tf_Revision fence0 + 1)\<rparr>;
              events = (case lookup (taskEvents r) (ak_TaskID command) of None \<Rightarrow> 0 | Some n \<Rightarrow> n);
              result = \<lparr>ar_Confirmation = c, ar_TaskID = ak_TaskID command, ar_TaskStatus = StatusFailed,
                 ar_TaskRevision = of_int (tf_Revision fence), ar_TaskFailureCode = ''extension_execution_uncertain'',
                 ar_Resolution = ak_Resolution command, ar_ReservationReleased = True\<rparr>;
              r1 = put_reservation (ak_ConfirmationID command) (v\<lparr>rv_Active := False\<rparr>) r;
              r2 = put_item c r1
          in (r2\<lparr>taskFences := put (ak_TaskID command) fence (taskFences r2),
                 taskEvents := put (ak_TaskID command) (wrap64 (events + 1)) (taskEvents r2),
                 uncertainReplays := put (ack_key command) \<lparr>up_digest = digest, up_value = result\<rparr> (uncertainReplays r2)\<rparr>,
              Inr result))))"

definition ReadTargetBinding :: "MemoryRepository \<Rightarrow> string \<Rightarrow> confirm_error + Binding" where
  "ReadTargetBinding r confirmationID = (case lookup (items r) confirmationID of None \<Rightarrow> Inl ErrNotFound_cc
     | Some value \<Rightarrow> (case lookup (targetBindings r) confirmationID of Some binding \<Rightarrow> Inr binding | None \<Rightarrow> Inr (c_Binding value)))"

definition SetTargetBinding :: "ext \<Rightarrow> MemoryRepository \<Rightarrow> string \<Rightarrow> Binding \<Rightarrow> unit outcome" where
  "SetTargetBinding X r confirmationID binding0 = (case Binding_normalized X binding0 of Inl e \<Rightarrow> (r, Inl e)
     | Inr binding \<Rightarrow> (case lookup (items r) confirmationID of None \<Rightarrow> (r, Inl ErrNotFound_cc)
       | Some _ \<Rightarrow> (r\<lparr>targetBindings := put confirmationID binding (targetBindings r)\<rparr>, Inr ())))"

definition ReadTaskFence :: "MemoryRepository \<Rightarrow> string \<Rightarrow> confirm_error + TaskFence" where
  "ReadTaskFence r taskID = (case lookup (taskFences r) taskID of None \<Rightarrow> Inl ErrNotFound_cc | Some fence \<Rightarrow> Inr fence)"

definition SetTaskFence :: "ext \<Rightarrow> MemoryRepository \<Rightarrow> TaskFence \<Rightarrow> unit outcome" where
  "SetTaskFence X r fence =
    (if \<not> validateUUID X (tf_TaskID fence) \<or> tf_State fence = [] \<or> tf_Attempt fence = 0 \<or> tf_LeaseEpoch fence = 0 \<or> tf_Revision fence < 1
     then (r, Inl ErrInvalid_cc)
     else (r\<lparr>taskFences := put (tf_TaskID fence) fence (taskFences r)\<rparr>, Inr ()))"

text \<open>The test of the loop over the items: a live confirmation with the operation domain and the target.\<close>

definition reserves :: "MemoryRepository \<Rightarrow> string \<Rightarrow> bool" where
  "reserves r k = (case lookup (reservations r) k of None \<Rightarrow> False | Some v \<Rightarrow> rv_Active v)"

definition holds_target :: "MemoryRepository \<Rightarrow> Binding \<Rightarrow> string \<Rightarrow> Confirmation \<Rightarrow> bool" where
  "holds_target r binding k existing \<longleftrightarrow> b_OperationDomain (c_Binding existing) = b_OperationDomain binding
     \<and> b_TargetID (c_Binding existing) = b_TargetID binding \<and> isLiveConfirmation existing
     \<and> (c_State existing \<noteq> StateConsumed \<or> reserves r k)"

definition request_key :: "RequestCommand \<Rightarrow> string" where
  "request_key c = ''request:'' @ rq_IdempotencyKey c"

definition new_confirmation :: "string \<Rightarrow> gotime \<Rightarrow> RequestCommand \<Rightarrow> Confirmation" where
  "new_confirmation fresh now c = \<lparr>c_ConfirmationID = fresh, c_OwnerID = b_OwnerID (rq_Binding c), c_Binding = rq_Binding c,
     c_TaskID = TrimSpace (rq_TaskID c), c_State = StatePending, c_Revision = 1, c_CreatedAt = now, c_UpdatedAt = now,
     c_ExpiresAt = rq_ExpiresAt c, c_TerminalCode = [], c_TerminalNote = [], c_TerminalReason = []\<rparr>"

definition Request :: "ext \<Rightarrow> gotime \<Rightarrow> string \<Rightarrow> MemoryRepository \<Rightarrow> RequestCommand \<Rightarrow> Confirmation outcome" where
  "Request X clock fresh r command0 =
    (if \<not> validateUUID X (rq_IdempotencyKey command0) then (r, Inl ErrInvalid_cc)
     else (case Binding_normalized X (rq_Binding command0) of Inl _ \<Rightarrow> (r, Inl ErrInvalid_cc)
     | Inr binding \<Rightarrow>
       if \<not> validateUUID X (rq_TaskID command0) then (r, Inl ErrInvalid_cc)
       else let command = command0\<lparr>rq_Binding := binding\<rparr>; digest = requestDigest X command; now = at clock (rq_At command) in
         if IsZero (rq_ExpiresAt command) \<or> \<not> InUTC (rq_ExpiresAt command) \<or> \<not> After (rq_ExpiresAt command) now
         then (r, Inl ErrInvalid_cc)
         else (case replayLocked r (request_key command) digest of Some res \<Rightarrow> (r, res)
         | None \<Rightarrow>
           if any_entry (holds_target r binding) (items r) then (r, Inl ErrConflict_cc)
           else let value = new_confirmation fresh now command; r1 = put_item value r in
             (put_replay (request_key command) digest value
                (r1\<lparr>targetBindings := put fresh binding (targetBindings r1), order := order r1 @ [fresh]\<rparr>), Inr value))))"

definition Get :: "MemoryRepository \<Rightarrow> string \<Rightarrow> confirm_error + Confirmation" where
  "Get r k = (case lookup (items r) k of None \<Rightarrow> Inl ErrNotFound_cc | Some value \<Rightarrow> Inr value)"

text \<open>The binding the caller presents: what \<open>ResolveBinding\<close> returns, or the command's own, normalised.\<close>

definition presented :: "ext \<Rightarrow> (confirm_error + Binding) option \<Rightarrow> Binding \<Rightarrow> confirm_error + Binding" where
  "presented X resolve b = (case resolve of Some res \<Rightarrow> res | None \<Rightarrow> Binding_normalized X b)"

definition confirm_key :: "ConfirmCommand \<Rightarrow> string" where
  "confirm_key c = ''confirm:'' @ cf_IdempotencyKey c"

definition Confirm :: "ext \<Rightarrow> gotime \<Rightarrow> MemoryRepository \<Rightarrow> ConfirmCommand \<Rightarrow> Confirmation outcome" where
  "Confirm X clock r command =
    (if \<not> validateUUID X (cf_IdempotencyKey command) \<or> \<not> validateUUID X (cf_ConfirmationID command) \<or> cf_ExpectedRevision command < 1
     then (r, Inl ErrInvalid_cc)
     else let digest = confirmDigest X command; now = at clock (cf_At command) in
     (case replayLocked r (confirm_key command) digest of Some res \<Rightarrow> (r, res)
     | None \<Rightarrow> (case lookup (items r) (cf_ConfirmationID command) of None \<Rightarrow> (r, Inl ErrNotFound_cc)
       | Some value \<Rightarrow>
         if c_Revision value \<noteq> cf_ExpectedRevision command then (r, Inl ErrRevisionConflict_cc)
         else if c_State value \<noteq> StatePending then (r, Inl ErrConflict_cc)
         else if \<not> After (c_ExpiresAt value) now then (put_item (expired_as ReasonExpired now value) r, Inl ErrExpired_cc)
         else (case presented X (cf_ResolveBinding command) (cf_Binding command) of Inl _ \<Rightarrow> (r, Inl ErrStale_cc)
         | Inr binding \<Rightarrow>
           if \<not> Binding_Equal X (c_Binding value) (authoritative r (cf_ConfirmationID command) value) \<or> \<not> Binding_Equal X (c_Binding value) binding
           then (put_item (expired_as ReasonStale now value) r, Inl ErrStale_cc)
           else if \<not> Binding_Equal X (c_Binding value) binding
           then (put_item (expired_as ReasonStale now value) r, Inl ErrStale_cc)
           else let done = advanced StateConfirmed now value in
             (put_replay (confirm_key command) digest done (put_item done r), Inr done)))))"

definition reject_key :: "RejectCommand \<Rightarrow> string" where
  "reject_key c = ''reject:'' @ rj_IdempotencyKey c"

definition Reject :: "ext \<Rightarrow> gotime \<Rightarrow> MemoryRepository \<Rightarrow> RejectCommand \<Rightarrow> Confirmation outcome" where
  "Reject X clock r command =
    (if \<not> validateUUID X (rj_IdempotencyKey command) \<or> \<not> validateUUID X (rj_ConfirmationID command) \<or> rj_ExpectedRevision command < 1
     then (r, Inl ErrInvalid_cc)
     else let now = at clock (rj_At command); digest = rejectDigest X command in
     (case replayLocked r (reject_key command) digest of Some res \<Rightarrow> (r, res)
     | None \<Rightarrow> (case lookup (items r) (rj_ConfirmationID command) of None \<Rightarrow> (r, Inl ErrNotFound_cc)
       | Some value \<Rightarrow>
         if c_Revision value \<noteq> rj_ExpectedRevision command then (r, Inl ErrRevisionConflict_cc)
         else if c_State value = StatePending \<and> \<not> After (c_ExpiresAt value) now
         then (put_item (expired_as ReasonExpired now value) r, Inl ErrExpired_cc)
         else if c_State value \<noteq> StatePending then (r, Inl ErrConflict_cc)
         else let note = TrimSpace (rj_Note command);
                  done = (advanced StateRejected now value)\<lparr>c_TerminalCode := ReasonUserRejected, c_TerminalReason := ReasonUserRejected,
                    c_TerminalNote := (if note = [] then TrimSpace (rj_Reason command) else note)\<rparr> in
           (put_replay (reject_key command) digest done (put_item done r), Inr done))))"

definition consume_bad :: "ext \<Rightarrow> ConsumeCommand \<Rightarrow> bool" where
  "consume_bad X c \<longleftrightarrow> \<not> validateUUID X (cs_IdempotencyKey c) \<or> \<not> validateUUID X (cs_ConfirmationID c) \<or> \<not> validateUUID X (cs_TaskID c)
     \<or> cs_Attempt c = 0 \<or> cs_LeaseEpoch c = 0 \<or> cs_ExpectedRevision c < 1 \<or> cs_ExpectedTaskRevision c < 1"

text \<open>The fence of the task: what \<open>ResolveTaskFence\<close> returns, or the recorded one.\<close>

definition consume_fence :: "MemoryRepository \<Rightarrow> ConsumeCommand \<Rightarrow> TaskFence option" where
  "consume_fence r c = (case cs_ResolveTaskFence c of Some resolve \<Rightarrow> (case resolve (cs_TaskID c) of Inl _ \<Rightarrow> None | Inr f \<Rightarrow> Some f)
     | None \<Rightarrow> lookup (taskFences r) (cs_TaskID c))"

definition fence_runs :: "ConsumeCommand \<Rightarrow> TaskFence option \<Rightarrow> bool" where
  "fence_runs c fo = (case fo of None \<Rightarrow> False
     | Some f \<Rightarrow> tf_State f = ''running'' \<and> tf_Attempt f = cs_Attempt c \<and> tf_LeaseEpoch f = cs_LeaseEpoch c
         \<and> tf_Revision f = cs_ExpectedTaskRevision c)"

definition consume_key :: "ConsumeCommand \<Rightarrow> string" where
  "consume_key c = ''consume:'' @ cs_IdempotencyKey c"

definition Consume :: "ext \<Rightarrow> gotime \<Rightarrow> MemoryRepository \<Rightarrow> ConsumeCommand \<Rightarrow> Confirmation outcome" where
  "Consume X clock r command =
    (if consume_bad X command then (r, Inl ErrInvalid_cc)
     else let digest = consumeDigest X command; now = at clock (cs_At command) in
     (case replayLocked r (consume_key command) digest of Some res \<Rightarrow> (r, res)
     | None \<Rightarrow> (case lookup (items r) (cs_ConfirmationID command) of None \<Rightarrow> (r, Inl ErrNotFound_cc)
       | Some value \<Rightarrow>
         if c_Revision value \<noteq> cs_ExpectedRevision command \<or> c_TaskID value \<noteq> cs_TaskID command \<or> c_State value \<noteq> StateConfirmed
         then (r, Inl ErrTaskFenceConflict_cc)
         else if \<not> fence_runs command (consume_fence r command) then (r, Inl ErrTaskFenceConflict_cc)
         else let auth = authoritative r (cs_ConfirmationID command) value in
         (case presented X (cs_ResolveBinding command) (cs_Binding command) of
           Inl _ \<Rightarrow> (put_item (expired_as ReasonStale now value) r, Inl ErrStale_cc)
         | Inr binding \<Rightarrow>
           if \<not> Binding_Equal X (c_Binding value) auth \<or> \<not> Binding_Equal X (c_Binding value) binding
           then (put_item (expired_as ReasonStale now value) r, Inl ErrStale_cc)
           else if \<not> After (c_ExpiresAt value) now then (put_item (expired_as ReasonExpired now value) r, Inl ErrExpired_cc)
           else if \<not> Binding_Equal X (c_Binding value) binding
           then (put_item (expired_as ReasonStale now value) r, Inl ErrStale_cc)
           else let done = advanced StateConsumed now value;
                    v = \<lparr>rv_ConfirmationID = c_ConfirmationID done, rv_TaskID = cs_TaskID command, rv_AcquiredAttempt = cs_Attempt command,
                       rv_AcquiredLeaseEpoch = cs_LeaseEpoch command, rv_TaskRevision = cs_ExpectedTaskRevision command, rv_Active = True\<rparr> in
             (put_replay (consume_key command) digest done (put_reservation (c_ConfirmationID done) v (put_item done r)), Inr done)))))"

definition release_bad :: "ext \<Rightarrow> ReleaseReservationCommand \<Rightarrow> bool" where
  "release_bad X c \<longleftrightarrow> \<not> validateUUID X (rl_IdempotencyKey c) \<or> \<not> validateUUID X (rl_ConfirmationID c) \<or> \<not> validateUUID X (rl_TaskID c)
     \<or> rl_AcquiredAttempt c = 0 \<or> rl_AcquiredLeaseEpoch c = 0 \<or> rl_TerminalAttempt c = 0 \<or> rl_TerminalLeaseEpoch c = 0
     \<or> rl_ExpectedTaskRevision c < 1"

text \<open>\<open>None\<close> stands for the zero fence of a task that has none recorded, whose state is the empty string.\<close>

definition release_fence :: "MemoryRepository \<Rightarrow> ReleaseReservationCommand \<Rightarrow> TaskFence option" where
  "release_fence r c = (case rl_ResolveTaskFence c of Some resolve \<Rightarrow> (case resolve (rl_TaskID c) of Inl _ \<Rightarrow> None | Inr f \<Rightarrow> Some f)
     | None \<Rightarrow> lookup (taskFences r) (rl_TaskID c))"

definition fence_ended :: "ReleaseReservationCommand \<Rightarrow> TaskFence option \<Rightarrow> bool" where
  "fence_ended c fo = (case fo of None \<Rightarrow> False
     | Some f \<Rightarrow> (tf_State f = ''succeeded'' \<or> tf_State f = ''failed'' \<or> tf_State f = ''canceled'')
         \<and> tf_Attempt f = rl_TerminalAttempt c \<and> tf_LeaseEpoch f = rl_TerminalLeaseEpoch c \<and> tf_Revision f = rl_ExpectedTaskRevision c)"

definition release_key :: "ReleaseReservationCommand \<Rightarrow> string" where
  "release_key c = ''release:'' @ rl_IdempotencyKey c"

definition ReleaseReservation :: "ext \<Rightarrow> MemoryRepository \<Rightarrow> ReleaseReservationCommand \<Rightarrow> Confirmation outcome" where
  "ReleaseReservation X r command =
    (if release_bad X command then (r, Inl ErrInvalid_cc)
     else let digest = releaseDigest X command in
     (case replayLocked r (release_key command) digest of Some res \<Rightarrow> (r, res)
     | None \<Rightarrow> (case lookup (items r) (rl_ConfirmationID command) of None \<Rightarrow> (r, Inl ErrNotFound_cc)
       | Some value \<Rightarrow> (case lookup (reservations r) (rl_ConfirmationID command) of None \<Rightarrow> (r, Inl ErrConflict_cc)
         | Some v \<Rightarrow>
           if c_State value \<noteq> StateConsumed \<or> \<not> rv_Active v \<or> c_TaskID value \<noteq> rl_TaskID command
              \<or> rv_AcquiredAttempt v \<noteq> rl_AcquiredAttempt command \<or> rv_AcquiredLeaseEpoch v \<noteq> rl_AcquiredLeaseEpoch command
           then (r, Inl ErrConflict_cc)
           else if \<not> fence_ended command (release_fence r command) then (r, Inl ErrTaskFenceConflict_cc)
           else (put_replay (release_key command) digest value
                   (put_reservation (c_ConfirmationID value) (v\<lparr>rv_Active := False\<rparr>) r), Inr value)))))"

definition expire_key :: "ExpireCommand \<Rightarrow> string" where
  "expire_key c = ''expire:'' @ xp_IdempotencyKey c"

definition Expire :: "ext \<Rightarrow> gotime \<Rightarrow> MemoryRepository \<Rightarrow> ExpireCommand \<Rightarrow> Confirmation outcome" where
  "Expire X clock r command =
    (if \<not> validateUUID X (xp_IdempotencyKey command) \<or> \<not> validateUUID X (xp_ConfirmationID command) \<or> xp_ExpectedRevision command < 1
        \<or> xp_Reason command \<noteq> ReasonExpired \<and> xp_Reason command \<noteq> ReasonStale
     then (r, Inl ErrInvalid_cc)
     else let now = at clock (xp_At command); digest = expireDigest X command in
     (case replayLocked r (expire_key command) digest of Some res \<Rightarrow> (r, res)
     | None \<Rightarrow> (case lookup (items r) (xp_ConfirmationID command) of None \<Rightarrow> (r, Inl ErrNotFound_cc)
       | Some value \<Rightarrow>
         if c_Revision value \<noteq> xp_ExpectedRevision command then (r, Inl ErrRevisionConflict_cc)
         else if c_State value \<noteq> StatePending \<and> c_State value \<noteq> StateConfirmed then (r, Inl ErrConflict_cc)
         else let done = expired_as (TrimSpace (xp_Reason command)) now value in
           (put_replay (expire_key command) digest done (put_item done r), Inr done))))"

definition StableOrder :: "MemoryRepository \<Rightarrow> string list" where
  "StableOrder r = sort (order r)"

end
