(* ===== verification/Confirm_Lifecycle.thy ===== *)
theory Confirm_Lifecycle
  imports Confirm_Memory
begin

text \<open>
  What the operations of the confirmation repository do to a confirmation, to the reservations and to
  the replay table, the contract that the idempotent mutations share (locale \<open>idempotent_op\<close>), and the
  runs of the repository with their invariant.
\<close>

named_theorems confirm_effects \<open>the effect of each repository operation on the items and reservations\<close>

section \<open>Outcomes, branch by branch\<close>

lemma Confirm_outcome: "Confirm X clock r c = (r', res) \<Longrightarrow>
    r' = r \<and> (\<forall>v. res = Inr v \<longrightarrow> replayLocked r (confirm_key c) (confirmDigest X c) = Some res)
  \<or> (\<exists>v reason. lookup (items r) (cf_ConfirmationID c) = Some v \<and> c_State v = StatePending
       \<and> r' = put_item (expired_as reason (at clock (cf_At c)) v) r \<and> (res = Inl ErrExpired_cc \<or> res = Inl ErrStale_cc))
  \<or> (\<exists>v b. lookup (items r) (cf_ConfirmationID c) = Some v \<and> c_State v = StatePending \<and> c_Revision v = cf_ExpectedRevision c
       \<and> After (c_ExpiresAt v) (at clock (cf_At c)) \<and> presented X (cf_ResolveBinding c) (cf_Binding c) = Inr b
       \<and> Binding_Equal X (c_Binding v) b \<and> Binding_Equal X (c_Binding v) (authoritative r (cf_ConfirmationID c) v)
       \<and> lookup (replays r) (confirm_key c) = None
       \<and> r' = put_replay (confirm_key c) (confirmDigest X c) (advanced StateConfirmed (at clock (cf_At c)) v)
                (put_item (advanced StateConfirmed (at clock (cf_At c)) v) r)
       \<and> res = Inr (advanced StateConfirmed (at clock (cf_At c)) v))"
  unfolding Confirm_def Let_def replayLocked_def
  by (auto split: if_splits option.splits sum.splits)

lemma Reject_outcome: "Reject X clock r c = (r', res) \<Longrightarrow>
    r' = r \<and> (\<forall>v. res = Inr v \<longrightarrow> replayLocked r (reject_key c) (rejectDigest X c) = Some res)
  \<or> (\<exists>v. lookup (items r) (rj_ConfirmationID c) = Some v \<and> c_State v = StatePending
       \<and> r' = put_item (expired_as ReasonExpired (at clock (rj_At c)) v) r \<and> (res = Inl ErrExpired_cc \<or> res = Inl ErrStale_cc))
  \<or> (\<exists>v v'. lookup (items r) (rj_ConfirmationID c) = Some v \<and> c_State v = StatePending \<and> c_Revision v = rj_ExpectedRevision c
       \<and> lookup (replays r) (reject_key c) = None
       \<and> v' = v\<lparr>c_State := StateRejected, c_Revision := wrap64 (c_Revision v + 1), c_UpdatedAt := at clock (rj_At c),
             c_TerminalCode := ReasonUserRejected, c_TerminalReason := ReasonUserRejected,
             c_TerminalNote := (if TrimSpace (rj_Note c) = [] then TrimSpace (rj_Reason c) else TrimSpace (rj_Note c))\<rparr>
       \<and> r' = put_replay (reject_key c) (rejectDigest X c) v' (put_item v' r) \<and> res = Inr v')"
  unfolding Reject_def Let_def replayLocked_def advanced_def
  by (auto split: if_splits option.splits sum.splits)

lemma Expire_outcome: "Expire X clock r c = (r', res) \<Longrightarrow>
    r' = r \<and> (\<forall>v. res = Inr v \<longrightarrow> replayLocked r (expire_key c) (expireDigest X c) = Some res)
  \<or> (\<exists>v v'. lookup (items r) (xp_ConfirmationID c) = Some v \<and> (c_State v = StatePending \<or> c_State v = StateConfirmed)
       \<and> c_Revision v = xp_ExpectedRevision c \<and> lookup (replays r) (expire_key c) = None
       \<and> v' = expired_as (TrimSpace (xp_Reason c)) (at clock (xp_At c)) v
       \<and> r' = put_replay (expire_key c) (expireDigest X c) v' (put_item v' r) \<and> res = Inr v')"
  unfolding Expire_def Let_def replayLocked_def
  by (auto split: if_splits option.splits sum.splits)

lemma Release_outcome: "ReleaseReservation X r c = (r', res) \<Longrightarrow>
    r' = r \<and> (\<forall>v. res = Inr v \<longrightarrow> replayLocked r (release_key c) (releaseDigest X c) = Some res)
  \<or> (\<exists>v w. lookup (items r) (rl_ConfirmationID c) = Some v \<and> lookup (reservations r) (rl_ConfirmationID c) = Some w
       \<and> c_State v = StateConsumed \<and> rv_Active w \<and> c_TaskID v = rl_TaskID c \<and> fence_ended c (release_fence r c)
       \<and> lookup (replays r) (release_key c) = None
       \<and> r' = put_replay (release_key c) (releaseDigest X c) v (put_reservation (c_ConfirmationID v) (w\<lparr>rv_Active := False\<rparr>) r)
       \<and> res = Inr v)"
  unfolding ReleaseReservation_def Let_def replayLocked_def
  by (auto split: if_splits option.splits sum.splits)

definition reservation_for :: "ConsumeCommand \<Rightarrow> Confirmation \<Rightarrow> Reservation" where
  "reservation_for c v = \<lparr>rv_ConfirmationID = c_ConfirmationID v, rv_TaskID = cs_TaskID c, rv_AcquiredAttempt = cs_Attempt c,
     rv_AcquiredLeaseEpoch = cs_LeaseEpoch c, rv_TaskRevision = cs_ExpectedTaskRevision c, rv_Active = True\<rparr>"

text \<open>Everything that \<open>Consume\<close> requires of the stored confirmation, the task and the caller.\<close>

definition consumable :: "ext \<Rightarrow> gotime \<Rightarrow> MemoryRepository \<Rightarrow> ConsumeCommand \<Rightarrow> Confirmation \<Rightarrow> bool" where
  "consumable X clock r c v \<longleftrightarrow> c_State v = StateConfirmed \<and> c_Revision v = cs_ExpectedRevision c \<and> c_TaskID v = cs_TaskID c
     \<and> After (c_ExpiresAt v) (at clock (cs_At c)) \<and> fence_runs c (consume_fence r c)
     \<and> Binding_Equal X (c_Binding v) (authoritative r (cs_ConfirmationID c) v)
     \<and> (\<exists>b. presented X (cs_ResolveBinding c) (cs_Binding c) = Inr b \<and> Binding_Equal X (c_Binding v) b)"

lemma Consume_outcome: "Consume X clock r c = (r', res) \<Longrightarrow>
    r' = r \<and> (\<forall>v. res = Inr v \<longrightarrow> replayLocked r (consume_key c) (consumeDigest X c) = Some res)
  \<or> (\<exists>v reason. lookup (items r) (cs_ConfirmationID c) = Some v \<and> c_State v = StateConfirmed
       \<and> r' = put_item (expired_as reason (at clock (cs_At c)) v) r \<and> (res = Inl ErrExpired_cc \<or> res = Inl ErrStale_cc))
  \<or> (\<exists>v. lookup (items r) (cs_ConfirmationID c) = Some v \<and> consumable X clock r c v
       \<and> lookup (replays r) (consume_key c) = None
       \<and> r' = put_replay (consume_key c) (consumeDigest X c) (advanced StateConsumed (at clock (cs_At c)) v)
                (put_reservation (c_ConfirmationID v) (reservation_for c v) (put_item (advanced StateConsumed (at clock (cs_At c)) v) r))
       \<and> res = Inr (advanced StateConsumed (at clock (cs_At c)) v))"
  unfolding Consume_def Let_def replayLocked_def consumable_def reservation_for_def
  by (auto simp: advanced_def split: if_splits option.splits sum.splits)

lemma Request_outcome: "Request X clock fresh r c = (r', res) \<Longrightarrow>
    r' = r \<and> (\<forall>v. res = Inr v \<longrightarrow> (\<exists>b. Binding_normalized X (rq_Binding c) = Inr b
         \<and> replayLocked r (request_key c) (requestDigest X (c\<lparr>rq_Binding := b\<rparr>)) = Some res))
  \<or> (\<exists>b v. Binding_normalized X (rq_Binding c) = Inr b \<and> \<not> any_entry (holds_target r b) (items r)
       \<and> lookup (replays r) (request_key c) = None \<and> v = new_confirmation fresh (at clock (rq_At c)) (c\<lparr>rq_Binding := b\<rparr>)
       \<and> r' = put_replay (request_key c) (requestDigest X (c\<lparr>rq_Binding := b\<rparr>)) v
           ((put_item v r)\<lparr>targetBindings := put fresh b (targetBindings r), order := order r @ [fresh]\<rparr>)
       \<and> res = Inr v)"
  unfolding Request_def Let_def replayLocked_def
  by (auto simp: request_key_def put_item_def split: if_splits option.splits sum.splits)

lemma ack_check_Inr: "ack_check r c = Inr (v, f, w) \<Longrightarrow> lookup (items r) (ak_ConfirmationID c) = Some v
    \<and> lookup (taskFences r) (ak_TaskID c) = Some f \<and> lookup (reservations r) (ak_ConfirmationID c) = Some w
    \<and> c_State v = StateConsumed \<and> c_Revision v = ak_ExpectedConfirmationRevision c \<and> rv_Active w \<and> tf_State f = ''failed''"
  unfolding ack_check_def
  by (auto split: if_splits option.splits)

section \<open>Effects\<close>

text \<open>The life cycle of a confirmation. An acknowledgement of an uncertain execution keeps the state.\<close>

fun edge :: "State \<Rightarrow> State \<Rightarrow> bool" where
  "edge StatePending StateConfirmed = True"
| "edge StatePending StateRejected = True"
| "edge StatePending StateExpired = True"
| "edge StateConfirmed StateConsumed = True"
| "edge StateConfirmed StateExpired = True"
| "edge StateConsumed StateConsumed = True"
| "edge _ _ = False"

definition identity :: "Confirmation \<Rightarrow> string \<times> string \<times> Binding \<times> string \<times> gotime \<times> gotime" where
  "identity c = (c_ConfirmationID c, c_OwnerID c, c_Binding c, c_TaskID c, c_CreatedAt c, c_ExpiresAt c)"

definition changes :: "Confirmation \<Rightarrow> Confirmation \<Rightarrow> bool" where
  "changes c c' \<longleftrightarrow> identity c' = identity c \<and> edge (c_State c) (c_State c') \<and> c_Revision c' = wrap64 (c_Revision c + 1)"

inductive effect :: "MemoryRepository \<Rightarrow> MemoryRepository \<Rightarrow> bool" where
  quiet: "items r' = items r \<Longrightarrow> order r' = order r \<Longrightarrow> (\<And>k. reserves r' k \<Longrightarrow> reserves r k) \<Longrightarrow> effect r r'"
| change: "lookup (items r) k = Some v \<Longrightarrow> changes v v' \<Longrightarrow> items r' = put (c_ConfirmationID v') v' (items r) \<Longrightarrow>
    order r' = order r \<Longrightarrow> (\<And>j. reserves r' j \<Longrightarrow> reserves r j \<or> j = c_ConfirmationID v' \<and> c_State v = StateConfirmed \<and> c_State v' = StateConsumed) \<Longrightarrow>
    effect r r'"
| create: "\<not> any_entry (holds_target r (c_Binding v)) (items r) \<Longrightarrow> lookup (items r) (c_ConfirmationID v) = None \<Longrightarrow>
    c_State v = StatePending \<Longrightarrow> c_Revision v = 1 \<Longrightarrow> items r' = put (c_ConfirmationID v) v (items r) \<Longrightarrow>
    order r' = order r @ [c_ConfirmationID v] \<Longrightarrow> reservations r' = reservations r \<Longrightarrow> effect r r'"

lemma effect_refl [simp, intro]: "effect r r"
  by (rule quiet) simp_all

lemma repo_puts [simp]:
  "items (put_item c r) = put (c_ConfirmationID c) c (items r)" "replays (put_item c r) = replays r"
  "reserves (put_item c r) k = reserves r k" "targetBindings (put_item c r) = targetBindings r"
  "items (put_replay key d c r) = items r" "reserves (put_replay key d c r) k = reserves r k"
  "reservations (put_item c r) = reservations r" "reservations (put_replay key d c r) = reservations r"
  "replays (put_replay key d c r) = put key \<lparr>rp_digest = d, rp_value = c\<rparr> (replays r)"
  "items (put_reservation j w r) = items r" "replays (put_reservation j w r) = replays r"
  "order (put_item c r) = order r" "order (put_replay key d c r) = order r" "order (put_reservation j w r) = order r"
  "reserves (put_reservation j w r) k = (if k = j then rv_Active w else reserves r k)"
  by (simp_all add: put_item_def put_replay_def put_reservation_def reserves_def)

lemma reserves_cong [simp]: "reserves (r\<lparr>targetBindings := a\<rparr>) k = reserves r k" "reserves (r\<lparr>order := b\<rparr>) k = reserves r k"
  "reserves (r\<lparr>taskFences := d\<rparr>) k = reserves r k" "reserves (r\<lparr>taskEvents := e\<rparr>) k = reserves r k"
  "reserves (r\<lparr>uncertainReplays := g\<rparr>) k = reserves r k"
  by (simp_all add: reserves_def)

lemma changes_expired: "c_State v = StatePending \<or> c_State v = StateConfirmed \<Longrightarrow> changes v (expired_as reason now v)"
  by (auto simp: changes_def expired_as_def identity_def)

lemma changes_advanced: "edge (c_State v) s \<Longrightarrow> changes v (advanced s now v)"
  by (simp add: changes_def advanced_def identity_def)

lemma ids [simp]: "c_ConfirmationID (expired_as reason now v) = c_ConfirmationID v"
    "c_ConfirmationID (advanced s now v) = c_ConfirmationID v" "c_State (advanced s now v) = s"
    "c_State (expired_as reason now v) = StateExpired"
  by (simp_all add: expired_as_def advanced_def)

text \<open>A write of one item, with or without a replay record, is a change.\<close>

lemma effect_write: "lookup (items r) k = Some v \<Longrightarrow> changes v v' \<Longrightarrow> effect r (put_item v' r)"
    "lookup (items r) k = Some v \<Longrightarrow> changes v v' \<Longrightarrow> effect r (put_replay key d w (put_item v' r))"
  by (rule change [where v = v and v' = v']; simp)+

lemma Confirm_effect [confirm_effects]: "effect r (fst (Confirm X clock r c))"
  using Confirm_outcome [OF surjective_pairing, of X clock r c]
  by (elim disjE exE conjE) (simp_all add: effect_write changes_expired changes_advanced)

lemma Reject_effect [confirm_effects]: "effect r (fst (Reject X clock r c))"
  using Reject_outcome [OF surjective_pairing, of X clock r c]
proof (elim disjE exE conjE)
  fix v v' assume v: "lookup (items r) (rj_ConfirmationID c) = Some v" "c_State v = StatePending"
    and v': "v' = v\<lparr>c_State := StateRejected, c_Revision := wrap64 (c_Revision v + 1), c_UpdatedAt := at clock (rj_At c),
        c_TerminalCode := ReasonUserRejected, c_TerminalReason := ReasonUserRejected,
        c_TerminalNote := (if TrimSpace (rj_Note c) = [] then TrimSpace (rj_Reason c) else TrimSpace (rj_Note c))\<rparr>"
    and r': "fst (Reject X clock r c) = put_replay (reject_key c) (rejectDigest X c) v' (put_item v' r)"
  from v(2) v' have "changes v v'" by (simp add: changes_def identity_def)
  with v(1) r' show ?thesis by (simp add: effect_write)
qed (simp_all add: effect_write changes_expired)

lemma Expire_effect [confirm_effects]: "effect r (fst (Expire X clock r c))"
  using Expire_outcome [OF surjective_pairing, of X clock r c]
  by (elim disjE exE conjE) (simp_all add: effect_write changes_expired)

lemma Release_effect [confirm_effects]: "effect r (fst (ReleaseReservation X r c))"
  using Release_outcome [OF surjective_pairing, of X r c]
  by (elim disjE exE conjE) (auto intro!: quiet split: if_splits)

lemma Consume_effect [confirm_effects]: "effect r (fst (Consume X clock r c))"
  using Consume_outcome [OF surjective_pairing, of X clock r c]
proof (elim disjE exE conjE)
  fix v assume v: "lookup (items r) (cs_ConfirmationID c) = Some v" "consumable X clock r c v"
    and r': "fst (Consume X clock r c) = put_replay (consume_key c) (consumeDigest X c) (advanced StateConsumed (at clock (cs_At c)) v)
      (put_reservation (c_ConfirmationID v) (reservation_for c v) (put_item (advanced StateConsumed (at clock (cs_At c)) v) r))"
  from v(2) have "c_State v = StateConfirmed" by (simp add: consumable_def)
  with v(1) show ?thesis
    by (intro change [of r _ v "advanced StateConsumed (at clock (cs_At c)) v"]) (auto simp: r' changes_advanced split: if_splits)
qed (simp_all add: effect_write changes_expired)

lemma Request_effect [confirm_effects]: "lookup (items r) fresh = None \<Longrightarrow> effect r (fst (Request X clock fresh r c))"
  using Request_outcome [OF surjective_pairing, of X clock fresh r c]
proof (elim disjE exE conjE)
  fix b v assume "lookup (items r) fresh = None" "\<not> any_entry (holds_target r b) (items r)"
      "v = new_confirmation fresh (at clock (rq_At c)) (c\<lparr>rq_Binding := b\<rparr>)"
    "fst (Request X clock fresh r c) = put_replay (request_key c) (requestDigest X (c\<lparr>rq_Binding := b\<rparr>)) v
      ((put_item v r)\<lparr>targetBindings := put fresh b (targetBindings r), order := order r @ [fresh]\<rparr>)"
  then show ?thesis by (intro create [of r v]) (simp_all add: new_confirmation_def)
qed auto

lemma Ack_effect [confirm_effects]: "effect r (fst (AcknowledgeExtensionExecutionUncertain X clock r c))"
proof (cases "ack_check r c")
  case (Inr p)
  then obtain v f w where p: "ack_check r c = Inr (v, f, w)" by (cases p) auto
  define v' where "v' = v\<lparr>c_Revision := wrap64 (c_Revision v + 1), c_UpdatedAt := to_UTC clock,
    c_TerminalCode := ''acknowledged_unknown_no_retry'', c_TerminalReason := ''acknowledged_unknown_no_retry''\<rparr>"
  have ch: "lookup (items r) (ak_ConfirmationID c) = Some v" "changes v v'"
    using ack_check_Inr [OF p] by (simp_all add: v'_def changes_def identity_def)
  then show ?thesis
    by (auto simp: AcknowledgeExtensionExecutionUncertain_def Let_def p v'_def [symmetric]
        intro!: change [OF ch] split: option.split if_splits)
qed (simp add: AcknowledgeExtensionExecutionUncertain_def Let_def split: option.split)

lemma SetTargetBinding_effect [confirm_effects]: "effect r (fst (SetTargetBinding X r k b))"
  by (auto simp: SetTargetBinding_def intro!: quiet split: sum.split option.split)

lemma SetTaskFence_effect [confirm_effects]: "effect r (fst (SetTaskFence X r f))"
  by (auto simp: SetTaskFence_def intro!: quiet)

section \<open>The idempotent mutations\<close>

text \<open>A mutation looks its idempotency key up before it reads anything else, and records its answer under
  it. What \<^verbatim>\<open>src/internal/coreconfirmation/repository.go\<close> asks of every implementation ("check exact
  idempotent replays before reading mutable state") is the contract of this locale.\<close>

definition replays_kept :: "MemoryRepository \<Rightarrow> MemoryRepository \<Rightarrow> bool" where
  "replays_kept r s \<longleftrightarrow> (\<forall>k p. lookup (replays r) k = Some p \<longrightarrow> lookup (replays s) k = Some p)"

lemma replays_kept_trans: "replays_kept r s \<Longrightarrow> replays_kept s t \<Longrightarrow> replays_kept r t"
  by (simp add: replays_kept_def)

lemma replays_kept_refl [simp]: "replays_kept r r"
  by (simp add: replays_kept_def)

lemma replays_kept_item [simp]: "replays_kept r (put_item c r)"
  by (simp add: replays_kept_def)

lemma replays_kept_put: "lookup (replays r) k = None \<Longrightarrow> replays s = put k p (replays r) \<Longrightarrow> replays_kept r s"
  by (auto simp: replays_kept_def)

text \<open>The clock, and for a request the identifier it draws, are the circumstances \<open>m\<close> of a call.\<close>

locale idempotent_op =
  fixes run :: "'m \<Rightarrow> MemoryRepository \<Rightarrow> 'c \<Rightarrow> Confirmation outcome"
    and key :: "'c \<Rightarrow> string"
    and digest :: "'c \<Rightarrow> string"
    and accepts :: "'m \<Rightarrow> 'c \<Rightarrow> bool"
  assumes replayed: "accepts m c \<Longrightarrow> replayLocked r (key c) (digest c) = Some res \<Longrightarrow> run m r c = (r, res)"
    and recorded: "run m r c = (r', Inr v) \<Longrightarrow> replayLocked r' (key c) (digest c) = Some (Inr v)"
    and kept: "run m r c = (r', res) \<Longrightarrow> replays_kept r r'"
begin

lemma replay_later:
  assumes "run m r c = (r', Inr v)" "replays_kept r' s" "accepts m' d" "key d = key c"
  shows "run m' s d = (s, if digest d = digest c then Inr v else Inl ErrIdempotencyConflict_cc)"
proof -
  from recorded [OF assms(1)] obtain p where p: "lookup (replays r') (key c) = Some p" "rp_digest p = digest c" "rp_value p = v"
    by (auto simp: replayLocked_def split: option.splits if_splits)
  with assms(2) have "lookup (replays s) (key c) = Some p" by (simp add: replays_kept_def)
  with p assms(4) have "replayLocked s (key d) (digest d) = Some (if digest d = digest c then Inr v else Inl ErrIdempotencyConflict_cc)"
    by (simp add: replayLocked_def)
  with assms(3) show ?thesis by (rule replayed)
qed

lemma kept_fst: "replays_kept r (fst (run m r c))"
  by (rule kept [OF surjective_pairing])

end

lemma replayLocked_put [simp]: "replayLocked (put_replay k d v r) k d = Some (Inr v)"
  by (simp add: replayLocked_def)

definition confirm_accepts :: "ext \<Rightarrow> ConfirmCommand \<Rightarrow> bool" where
  "confirm_accepts X c \<longleftrightarrow> validateUUID X (cf_IdempotencyKey c) \<and> validateUUID X (cf_ConfirmationID c) \<and> cf_ExpectedRevision c \<ge> 1"

definition reject_accepts :: "ext \<Rightarrow> RejectCommand \<Rightarrow> bool" where
  "reject_accepts X c \<longleftrightarrow> validateUUID X (rj_IdempotencyKey c) \<and> validateUUID X (rj_ConfirmationID c) \<and> rj_ExpectedRevision c \<ge> 1"

definition expire_accepts :: "ext \<Rightarrow> ExpireCommand \<Rightarrow> bool" where
  "expire_accepts X c \<longleftrightarrow> validateUUID X (xp_IdempotencyKey c) \<and> validateUUID X (xp_ConfirmationID c) \<and> xp_ExpectedRevision c \<ge> 1
     \<and> (xp_Reason c = ReasonExpired \<or> xp_Reason c = ReasonStale)"

text \<open>A request is refused once its expiry has passed, before the replay is looked up, so whether it is accepted
  depends on the clock.\<close>

fun request_accepts :: "ext \<Rightarrow> gotime \<times> string \<Rightarrow> RequestCommand \<Rightarrow> bool" where
  "request_accepts X (clock, fresh) c \<longleftrightarrow> validateUUID X (rq_IdempotencyKey c) \<and> validateUUID X (rq_TaskID c)
     \<and> err_of (Binding_normalized X (rq_Binding c)) = None \<and> \<not> IsZero (rq_ExpiresAt c) \<and> InUTC (rq_ExpiresAt c)
     \<and> After (rq_ExpiresAt c) (at clock (rq_At c))"

fun request_run :: "ext \<Rightarrow> gotime \<times> string \<Rightarrow> MemoryRepository \<Rightarrow> RequestCommand \<Rightarrow> Confirmation outcome" where
  "request_run X (clock, fresh) r c = Request X clock fresh r c"

definition request_digest :: "ext \<Rightarrow> RequestCommand \<Rightarrow> string" where
  "request_digest X c = (case Binding_normalized X (rq_Binding c) of Inl _ \<Rightarrow> [] | Inr b \<Rightarrow> requestDigest X (c\<lparr>rq_Binding := b\<rparr>))"

interpretation confirm_op: idempotent_op "Confirm X" confirm_key "confirmDigest X" "\<lambda>m. confirm_accepts X" for X
proof (unfold_locales, goal_cases)
  case (1 m c r res)
  then show ?case by (auto simp: Confirm_def confirm_accepts_def Let_def)
next
  case (2 m r c r' v)
  then show ?case by (auto dest!: Confirm_outcome)
next
  case (3 m r c r' res)
  then show ?case by (auto dest!: Confirm_outcome intro: replays_kept_put)
qed

interpretation reject_op: idempotent_op "Reject X" reject_key "rejectDigest X" "\<lambda>m. reject_accepts X" for X
proof (unfold_locales, goal_cases)
  case (1 m c r res)
  then show ?case by (auto simp: Reject_def reject_accepts_def Let_def)
next
  case (2 m r c r' v)
  then show ?case by (auto dest!: Reject_outcome)
next
  case (3 m r c r' res)
  then show ?case by (auto dest!: Reject_outcome intro: replays_kept_put)
qed

interpretation expire_op: idempotent_op "Expire X" expire_key "expireDigest X" "\<lambda>m. expire_accepts X" for X
proof (unfold_locales, goal_cases)
  case (1 m c r res)
  then show ?case by (auto simp: Expire_def expire_accepts_def Let_def)
next
  case (2 m r c r' v)
  then show ?case by (auto dest!: Expire_outcome)
next
  case (3 m r c r' res)
  then show ?case by (auto dest!: Expire_outcome intro: replays_kept_put)
qed

interpretation consume_op: idempotent_op "Consume X" consume_key "consumeDigest X" "\<lambda>m c. \<not> consume_bad X c" for X
proof (unfold_locales, goal_cases)
  case (1 m c r res)
  then show ?case by (auto simp: Consume_def Let_def)
next
  case (2 m r c r' v)
  then show ?case by (auto dest!: Consume_outcome)
next
  case (3 m r c r' res)
  then show ?case by (auto dest!: Consume_outcome intro: replays_kept_put)
qed

interpretation release_op: idempotent_op "\<lambda>m :: gotime. ReleaseReservation X" release_key "releaseDigest X" "\<lambda>m c. \<not> release_bad X c" for X
proof (unfold_locales, goal_cases)
  case (1 m c r res)
  then show ?case by (auto simp: ReleaseReservation_def Let_def)
next
  case (2 m r c r' v)
  then show ?case by (auto dest!: Release_outcome)
next
  case (3 m r c r' res)
  then show ?case by (auto dest!: Release_outcome intro: replays_kept_put)
qed

interpretation request_op: idempotent_op "request_run X" request_key "request_digest X" "request_accepts X" for X
proof (unfold_locales, goal_cases)
  case (1 m c r res)
  then show ?case by (cases m) (auto simp: Request_def request_key_def request_digest_def Let_def)
next
  case (2 m r c r' v)
  then show ?case by (cases m) (auto dest!: Request_outcome simp: request_digest_def)
next
  case (3 m r c r' res)
  then show ?case by (cases m) (auto dest!: Request_outcome intro: replays_kept_put)
qed

section \<open>Runs\<close>

datatype repo_command = DoRequest gotime string RequestCommand | DoConfirm gotime ConfirmCommand | DoReject gotime RejectCommand
  | DoConsume gotime ConsumeCommand | DoRelease ReleaseReservationCommand | DoExpire gotime ExpireCommand
  | DoAcknowledge gotime AckCommand | DoSetTargetBinding string Binding | DoSetTaskFence TaskFence

fun repo_apply :: "ext \<Rightarrow> MemoryRepository \<Rightarrow> repo_command \<Rightarrow> MemoryRepository" where
  "repo_apply X r (DoRequest clock fresh c) = fst (Request X clock fresh r c)"
| "repo_apply X r (DoConfirm clock c) = fst (Confirm X clock r c)"
| "repo_apply X r (DoReject clock c) = fst (Reject X clock r c)"
| "repo_apply X r (DoConsume clock c) = fst (Consume X clock r c)"
| "repo_apply X r (DoRelease c) = fst (ReleaseReservation X r c)"
| "repo_apply X r (DoExpire clock c) = fst (Expire X clock r c)"
| "repo_apply X r (DoAcknowledge clock c) = fst (AcknowledgeExtensionExecutionUncertain X clock r c)"
| "repo_apply X r (DoSetTargetBinding k b) = fst (SetTargetBinding X r k b)"
| "repo_apply X r (DoSetTaskFence f) = fst (SetTaskFence X r f)"

text \<open>\<open>uuid.New\<close> draws an identifier that no item has.\<close>

fun draws_fresh :: "MemoryRepository \<Rightarrow> repo_command \<Rightarrow> bool" where
  "draws_fresh r (DoRequest clock fresh c) = (lookup (items r) fresh = None)"
| "draws_fresh r _ = True"

inductive repo_run :: "ext \<Rightarrow> MemoryRepository \<Rightarrow> repo_command list \<Rightarrow> MemoryRepository \<Rightarrow> bool" for X where
  run_done: "repo_run X r [] r"
| run_next: "repo_run X r cs s \<Longrightarrow> draws_fresh s c \<Longrightarrow> repo_run X r (cs @ [c]) (repo_apply X s c)"

inductive_cases repo_run_nilE: "repo_run X r [] s"

lemma repo_step_effect: "draws_fresh r c \<Longrightarrow> effect r (repo_apply X r c)"
  by (cases c) (simp_all add: confirm_effects)

lemma repo_step_kept: "replays_kept r (repo_apply X r c)"
proof (cases c)
  case (DoRequest clock fresh d)
  then show ?thesis using request_op.kept_fst [of r X "(clock, fresh)" d] by simp
next
  case (DoAcknowledge clock d)
  then show ?thesis
    by (auto simp: AcknowledgeExtensionExecutionUncertain_def Let_def replays_kept_def split: option.split sum.split)
next
  case (DoSetTargetBinding k b)
  then show ?thesis by (auto simp: SetTargetBinding_def replays_kept_def split: option.split sum.split)
next
  case (DoSetTaskFence f)
  then show ?thesis by (simp add: SetTaskFence_def replays_kept_def)
qed (simp_all add: confirm_op.kept_fst reject_op.kept_fst consume_op.kept_fst expire_op.kept_fst release_op.kept_fst)

lemma repo_run_kept: "repo_run X r cs s \<Longrightarrow> replays_kept r s"
  by (induction rule: repo_run.induct) (auto intro: replays_kept_trans repo_step_kept)

text \<open>The invariant: items are keyed by their identifier, and a target has at most one confirmation that holds it.\<close>

definition holds :: "MemoryRepository \<Rightarrow> string \<Rightarrow> Confirmation \<Rightarrow> bool" where
  "holds r k c \<longleftrightarrow> lookup (items r) k = Some c \<and> isLiveConfirmation c \<and> (c_State c \<noteq> StateConsumed \<or> reserves r k)"

type_synonym target = "string \<times> string"

definition target_of :: "Binding \<Rightarrow> target" where
  "target_of b = (b_OperationDomain b, b_TargetID b)"

definition same_target :: "Confirmation \<Rightarrow> Confirmation \<Rightarrow> bool" where
  "same_target c d \<longleftrightarrow> target_of (c_Binding c) = target_of (c_Binding d)"

definition repo_ok :: "MemoryRepository \<Rightarrow> bool" where
  "repo_ok r \<longleftrightarrow> gomap (items r) \<and> (\<forall>k c. lookup (items r) k = Some c \<longrightarrow> c_ConfirmationID c = k)
     \<and> (\<forall>k j c d. holds r k c \<longrightarrow> holds r j d \<longrightarrow> same_target c d \<longrightarrow> k = j)"

lemma holds_target_iff: "gomap (items r) \<Longrightarrow>
    any_entry (holds_target r b) (items r) \<longleftrightarrow> (\<exists>k c. holds r k c \<and> target_of (c_Binding c) = target_of b)"
  by (auto simp: any_entry_iff holds_target_def holds_def target_of_def)

lemma edge_live: "edge s s' \<Longrightarrow> s' = StatePending \<or> s' = StateConfirmed \<or> s' = StateConsumed \<Longrightarrow>
    (s = StatePending \<or> s = StateConfirmed) \<or> s = StateConsumed \<and> s' = StateConsumed"
  by (cases s; cases s') auto

text \<open>No effect makes a confirmation hold its target that did not hold it before, but the creation of a new one.\<close>

lemma effect_holds:
  assumes "effect r r'" "repo_ok r" "holds r' j d"
  shows "(\<exists>c. holds r j c \<and> same_target c d) \<or>
    lookup (items r) j = None \<and> \<not> any_entry (holds_target r (c_Binding d)) (items r) \<and> items r' = put j d (items r) \<and> reservations r' = reservations r"
  using assms(1)
proof cases
  case quiet
  with assms(3) show ?thesis by (auto simp: holds_def same_target_def)
next
  case (change k v v')
  from change(1) assms(2) have k: "c_ConfirmationID v = k" by (simp add: repo_ok_def)
  from change(2) have v': "c_ConfirmationID v' = k" "same_target v v'" "edge (c_State v) (c_State v')"
    by (auto simp: changes_def identity_def same_target_def k)
  show ?thesis
  proof (cases "j = k")
    case True
    with assms(3) change(3) v'(1) have d: "d = v'" "isLiveConfirmation v'" "c_State v' \<noteq> StateConsumed \<or> reserves r' k"
      by (auto simp: holds_def)
    with edge_live [OF v'(3)] change(5) [of k] have "holds r k v"
      using change(1) v'(1) by (auto simp: holds_def isLiveConfirmation_def)
    with d(1) v'(2) True show ?thesis by blast
  next
    case False
    with assms(3) change(3,5) v'(1) have "holds r j d" by (auto simp: holds_def)
    then show ?thesis by (auto simp: same_target_def)
  qed
next
  case (create v)
  show ?thesis
  proof (cases "j = c_ConfirmationID v")
    case True
    with assms(3) create show ?thesis by (auto simp: holds_def)
  next
    case False
    with assms(3) create have "holds r j d" by (auto simp: holds_def reserves_def)
    then show ?thesis by (auto simp: same_target_def)
  qed
qed

lemma effect_keyed: "effect r r' \<Longrightarrow> repo_ok r \<Longrightarrow> gomap (items r') \<and> (\<forall>k c. lookup (items r') k = Some c \<longrightarrow> c_ConfirmationID c = k)"
  by (cases rule: effect.cases, assumption) (auto simp: repo_ok_def)

lemma effect_ok:
  assumes "effect r r'" "repo_ok r"
  shows "repo_ok r'"
proof -
  have g: "gomap (items r)" using assms(2) by (simp add: repo_ok_def)
  have half: False if h: "holds r' k c" "holds r' j d" "same_target c d" "k \<noteq> j"
    and c: "holds r k c'" "same_target c' c" for k j c d c'
    using effect_holds [OF assms h(2)]
  proof (elim disjE exE conjE)
    fix d' assume d: "holds r j d'" "same_target d' d"
    from c(2) d(2) h(3) have "same_target c' d'" by (simp add: same_target_def)
    with c(1) d(1) h(4) assms(2) show False unfolding repo_ok_def by blast
  next
    assume "\<not> any_entry (holds_target r (c_Binding d)) (items r)"
    moreover from c(2) h(3) have "target_of (c_Binding c') = target_of (c_Binding d)" by (simp add: same_target_def)
    ultimately show False using c(1) holds_target_iff [OF g] by blast
  qed
  have "k = j" if h: "holds r' k c" "holds r' j d" "same_target c d" for k j c d
  proof (rule ccontr)
    assume n: "k \<noteq> j"
    from effect_holds [OF assms h(1)] show False
    proof (elim disjE exE conjE)
      fix c' assume "holds r k c'" "same_target c' c"
      with half [OF h n] show False by blast
    next
      assume "items r' = put k c (items r)"
      with h(2) n have "lookup (items r) j = Some d" by (simp add: holds_def)
      with effect_holds [OF assms h(2)] obtain d' where "holds r j d'" "same_target d' d" by auto
      moreover have "same_target d c" using h(3) by (simp add: same_target_def)
      ultimately show False using half [OF h(2,1)] n by blast
    qed
  qed
  with effect_keyed [OF assms] show ?thesis by (simp add: repo_ok_def)
qed

lemma new_ok: "repo_ok NewMemoryRepository"
  by (simp add: repo_ok_def NewMemoryRepository_def holds_def)

lemma repo_run_ok: "repo_run X r cs s \<Longrightarrow> repo_ok r \<Longrightarrow> repo_ok s"
  by (induction rule: repo_run.induct) (auto intro: effect_ok repo_step_effect)

section \<open>The life of one confirmation\<close>

fun rank :: "State \<Rightarrow> nat" where
  "rank StatePending = 0"
| "rank StateConfirmed = 1"
| "rank StateConsumed = 2"
| "rank _ = 3"

lemma edge_rank: "edge s s' \<Longrightarrow> rank s \<le> rank s' \<and> s \<noteq> StateRejected \<and> s \<noteq> StateExpired"
  by (cases s; cases s') auto

definition final :: "State \<Rightarrow> bool" where
  "final s \<longleftrightarrow> s = StateRejected \<or> s = StateExpired"

lemma effect_item:
  assumes "effect r r'" "repo_ok r" "lookup (items r) k = Some c"
  shows "\<exists>c'. lookup (items r') k = Some c' \<and> (c' = c \<or> changes c c')"
  using assms(1)
proof cases
  case quiet
  with assms(3) show ?thesis by simp
next
  case (change j v v')
  from change(1,2) assms(2) have "c_ConfirmationID v' = j" by (auto simp: repo_ok_def changes_def identity_def)
  with change assms(3) show ?thesis by auto
next
  case (create v)
  with assms(3) show ?thesis by auto
qed

definition follows :: "Confirmation \<Rightarrow> Confirmation \<Rightarrow> bool" where
  "follows c c' \<longleftrightarrow> identity c' = identity c \<and> rank (c_State c) \<le> rank (c_State c') \<and> (final (c_State c) \<longrightarrow> c' = c)"

lemma follows_refl: "follows c c"
  by (simp add: follows_def)

lemma changes_follows: "follows c d \<Longrightarrow> changes d e \<Longrightarrow> follows c e"
  using edge_rank [of "c_State d" "c_State e"] by (auto simp: follows_def changes_def final_def)

lemma run_item:
  assumes "repo_run X r cs s" "repo_ok r" "lookup (items r) k = Some c"
  shows "\<exists>c'. lookup (items s) k = Some c' \<and> follows c c'"
  using assms
proof (induction rule: repo_run.induct)
  case (run_done r)
  then show ?case by (auto intro: follows_refl)
next
  case (run_next r cs s d)
  then obtain c' where c': "lookup (items s) k = Some c'" "follows c c'" by auto
  from run_next have "effect s (repo_apply X s d)" "repo_ok s" by (auto intro: repo_step_effect repo_run_ok)
  from effect_item [OF this c'(1)] c'(2) show ?case by (auto intro: changes_follows)
qed

section \<open>The repository as a table of locks\<close>

text \<open>The confirmation that holds a target, if any.\<close>

definition holder :: "MemoryRepository \<Rightarrow> target \<Rightarrow> string option" where
  "holder r t = map_option fst (find (\<lambda>(k, c). target_of (c_Binding c) = t \<and> isLiveConfirmation c
     \<and> (c_State c \<noteq> StateConsumed \<or> reserves r k)) (items r))"

lemma gomap_entry: "gomap m \<Longrightarrow> (k, c) \<in> set m \<longleftrightarrow> lookup m k = Some c"
  by (auto simp: gomap_def lookup_def intro: map_of_SomeD)

lemma holder_Some:
  assumes "repo_ok r"
  shows "holder r t = Some k \<longleftrightarrow> (\<exists>c. holds r k c \<and> target_of (c_Binding c) = t)"
proof -
  let ?P = "\<lambda>(k, c). target_of (c_Binding c) = t \<and> isLiveConfirmation c \<and> (c_State c \<noteq> StateConsumed \<or> reserves r k)"
  have g: "gomap (items r)" using assms by (simp add: repo_ok_def)
  have in_h: "(j, d) \<in> set (items r) \<and> ?P (j, d) \<longleftrightarrow> holds r j d \<and> target_of (c_Binding d) = t" for j d
    by (auto simp: holds_def gomap_entry [OF g])
  have u: "j = k" if "holds r j d" "target_of (c_Binding d) = t" "holds r k c" "target_of (c_Binding c) = t" for j d c
    using that assms by (auto simp: repo_ok_def same_target_def)
  show ?thesis
  proof (cases "find ?P (items r)")
    case None
    then have "\<not> (\<exists>x. x \<in> set (items r) \<and> ?P x)" by (simp only: find_None_iff) blast
    with in_h have "\<not> (\<exists>c. holds r k c \<and> target_of (c_Binding c) = t)" by blast
    with None show ?thesis by (simp add: holder_def)
  next
    case (Some p)
    obtain j d where p: "p = (j, d)" by (cases p)
    from Some have "p \<in> set (items r) \<and> ?P p" by (auto simp: find_Some_iff in_set_conv_nth)
    with in_h p have h: "holds r j d" "target_of (c_Binding d) = t" by auto
    moreover have "holder r t = Some j" using Some p by (simp add: holder_def)
    ultimately show ?thesis using u [OF h] by auto
  qed
qed

text \<open>The abstract specification: a lock is taken when it is free, kept or given up; it never passes from one
  confirmation to another.\<close>

inductive lock_step :: "string option \<Rightarrow> string option \<Rightarrow> bool" where
  idle: "lock_step None None"
| acquire: "lock_step None (Some k)"
| keep: "lock_step (Some k) (Some k)"
| free: "lock_step (Some k) None"

inductive_simps lock_step_simps: "lock_step (Some k) (Some j)"

lemma effect_lock:
  assumes "effect r r'" "repo_ok r"
  shows "lock_step (holder r t) (holder r' t)"
proof (cases "holder r t")
  case None
  then show ?thesis by (cases "holder r' t") (auto intro: lock_step.intros)
next
  case (Some k)
  have "j = k" if "holder r' t = Some j" for j
  proof (rule ccontr)
    assume n: "j \<noteq> k"
    from that holder_Some [OF effect_ok [OF assms]] obtain d where d: "holds r' j d" "target_of (c_Binding d) = t" by auto
    from Some holder_Some [OF assms(2)] obtain c where c: "holds r k c" "target_of (c_Binding c) = t" by auto
    have "gomap (items r)" using assms(2) by (simp add: repo_ok_def)
    with c d(2) have "any_entry (holds_target r (c_Binding d)) (items r)" by (auto simp: holds_target_iff)
    with effect_holds [OF assms d(1)] obtain d' where "holds r j d'" "same_target d' d" by auto
    with c d(2) assms(2) n show False by (auto simp: repo_ok_def same_target_def)
  qed
  with Some show ?thesis by (cases "holder r' t") (auto intro: lock_step.intros)
qed

end
