(* ===== verification/Confirm_Example.thy ===== *)
theory Confirm_Example
  imports Confirm_Lifecycle Example_Data
begin

text \<open>
  A run of the confirmation repository on which the properties are evaluated: a confirmation is
  requested, confirmed, consumed by a running task and released once the task has succeeded.
\<close>

definition ex_binding :: Binding where
  "ex_binding = \<lparr>b_OwnerID = ''owner'', b_AccountGeneration = 0, b_OperationDomain = ''install'', b_TargetID = ''target'',
     b_TargetRevision = 1, b_TargetKind = [], b_SourceVersion = ''v1'', b_SourceCommit = [], b_ContentDigest = ex_digest,
     b_ManifestDigest = [], b_ExecutionDigest = [], b_PermissionDigest = [], b_ParameterDigest = ex_digest,
     b_NetworkDigest = ex_digest, b_SecretGrantDigest = ex_digest, b_SelectedTool = [], b_SelectedCommand = None,
     b_NetworkGrants = Some [], b_SecretGrants = Some [], b_ExecutionID = [], b_PlanID = [], b_PlanRevision = 0, b_PlanDigest = [],
     b_RunID = [], b_RunRevision = 0, b_RunDigest = [], b_QuoteDigest = [], b_Quote = None, b_Digest = []\<rparr>"

definition ex_confirmation :: "State \<Rightarrow> int \<Rightarrow> int \<Rightarrow> Confirmation" where
  "ex_confirmation st n t = \<lparr>c_ConfirmationID = ex_id 4, c_OwnerID = ''owner'', c_Binding = ex_binding, c_TaskID = ex_id 5, c_State = st,
     c_Revision = n, c_CreatedAt = ex_time 100, c_UpdatedAt = ex_time t, c_ExpiresAt = ex_time 1000, c_TerminalCode = [],
     c_TerminalNote = [], c_TerminalReason = []\<rparr>"

definition ex_request :: RequestCommand where
  "ex_request = \<lparr>rq_IdempotencyKey = ex_id 2, rq_RequestDigest = [], rq_Binding = ex_binding, rq_TaskID = ex_id 5,
     rq_ExpiresAt = ex_time 1000, rq_At = ex_time 100\<rparr>"

definition ex_confirm :: ConfirmCommand where
  "ex_confirm = \<lparr>cf_ConfirmationID = ex_id 4, cf_IdempotencyKey = ex_id 2, cf_RequestDigest = [], cf_ExpectedRevision = 1,
     cf_Binding = ex_binding, cf_At = ex_time 200, cf_ResolveBinding = None\<rparr>"

definition ex_task_fence :: "string \<Rightarrow> int \<Rightarrow> TaskFence" where
  "ex_task_fence st n = \<lparr>tf_TaskID = ex_id 5, tf_State = st, tf_FailureCode = [], tf_InstallationID = [], tf_ConfirmationID = [],
     tf_Attempt = 1, tf_LeaseEpoch = 1, tf_Revision = n\<rparr>"

definition ex_consume :: ConsumeCommand where
  "ex_consume = \<lparr>cs_ConfirmationID = ex_id 4, cs_IdempotencyKey = ex_id 2, cs_RequestDigest = [], cs_TaskID = ex_id 5, cs_Attempt = 1,
     cs_LeaseEpoch = 1, cs_ExpectedRevision = 2, cs_ExpectedTaskRevision = 2, cs_Binding = ex_binding, cs_At = ex_time 300,
     cs_ResolveBinding = None, cs_ResolveTaskFence = None\<rparr>"

definition ex_release :: ReleaseReservationCommand where
  "ex_release = \<lparr>rl_ConfirmationID = ex_id 4, rl_TaskID = ex_id 5, rl_AcquiredAttempt = 1, rl_AcquiredLeaseEpoch = 1,
     rl_TerminalAttempt = 1, rl_TerminalLeaseEpoch = 1, rl_ExpectedTaskRevision = 3, rl_IdempotencyKey = ex_id 2,
     rl_RequestDigest = [], rl_ResolveTaskFence = None\<rparr>"

definition ex_reservation :: "bool \<Rightarrow> Reservation" where
  "ex_reservation a = \<lparr>rv_ConfirmationID = ex_id 4, rv_TaskID = ex_id 5, rv_AcquiredAttempt = 1, rv_AcquiredLeaseEpoch = 1,
     rv_TaskRevision = 2, rv_Active = a\<rparr>"

lemmas ex_confirm_data = ex_binding_def ex_confirmation_def ex_request_def ex_confirm_def ex_task_fence_def ex_consume_def
  ex_release_def ex_reservation_def

section \<open>The states of the run\<close>

definition ex_r1 :: MemoryRepository where
  "ex_r1 = NewMemoryRepository\<lparr>items := [(ex_id 4, ex_confirmation StatePending 1 100)], order := [ex_id 4],
     targetBindings := [(ex_id 4, ex_binding)],
     replays := [(request_key ex_request, \<lparr>rp_digest = requestDigest ex ex_request, rp_value = ex_confirmation StatePending 1 100\<rparr>)]\<rparr>"

definition ex_r2 :: MemoryRepository where
  "ex_r2 = ex_r1\<lparr>items := [(ex_id 4, ex_confirmation StateConfirmed 2 200)],
     replays := replays ex_r1 @ [(confirm_key ex_confirm, \<lparr>rp_digest = confirmDigest ex ex_confirm, rp_value = ex_confirmation StateConfirmed 2 200\<rparr>)]\<rparr>"

definition ex_r3 :: MemoryRepository where
  "ex_r3 = ex_r2\<lparr>taskFences := [(ex_id 5, ex_task_fence ''running'' 2)]\<rparr>"

definition ex_r4 :: MemoryRepository where
  "ex_r4 = ex_r3\<lparr>items := [(ex_id 4, ex_confirmation StateConsumed 3 300)], reservations := [(ex_id 4, ex_reservation True)],
     replays := replays ex_r3 @ [(consume_key ex_consume, \<lparr>rp_digest = consumeDigest ex ex_consume, rp_value = ex_confirmation StateConsumed 3 300\<rparr>)]\<rparr>"

definition ex_r5 :: MemoryRepository where
  "ex_r5 = ex_r4\<lparr>taskFences := [(ex_id 5, ex_task_fence ''succeeded'' 3)]\<rparr>"

definition ex_r6 :: MemoryRepository where
  "ex_r6 = ex_r5\<lparr>reservations := [(ex_id 4, ex_reservation False)],
     replays := replays ex_r5 @ [(release_key ex_release, \<lparr>rp_digest = releaseDigest ex ex_release, rp_value = ex_confirmation StateConsumed 3 300\<rparr>)]\<rparr>"

lemmas ex_repos = ex_r1_def ex_r2_def ex_r3_def ex_r4_def ex_r5_def ex_r6_def NewMemoryRepository_def

section \<open>Evaluation\<close>

lemma ex_id_uuid [simp]: "n < 16 \<Longrightarrow> validateUUID ex (ex_id n)"
proof -
  assume n: "n < 16"
  then have "ToLower ex (ex_id n) = ex_id n"
    by (induction rule: below_16) (simp_all add: ToLower_def ex_id_def is_ascii_def hex_char_def lower_char_def)
  with n ex_id_valid [of n] show ?thesis by (auto simp: validateUUID_def ValidUUID_def Let_def split: option.splits)
qed

lemma ex_words [simp]: "TrimSpace ''owner'' = ''owner''" "TrimSpace ''install'' = ''install''" "TrimSpace ''target'' = ''target''"
    "TrimSpace ''v1'' = ''v1''"
  by (simp_all add: TrimSpace_printable printable_def)

lemma ex_digest_lower: "lower_hex64 ex_digest"
  by (simp add: lower_hex64_def ex_digest_def list_all_iff hex_lower_def)

lemma Digest_Valid_iff: "Digest_Valid X d \<longleftrightarrow> lower_hex64 d"
  using digest_test [of d X] by (auto simp: Digest_Valid_def)

lemma ex_binding_normal: "Binding_normalized ex ex_binding = Inr ex_binding"
  by (simp add: Binding_normalized_def Let_def binding_trim_def cloudFields_def binding_base_ok_def owner_ok_def ex_binding_def
      Digest_Valid_iff ex_digest_lower normalizeGrantList_def normalizeSecretGrantList_def)

lemma ex_binding_equal: "Binding_Equal ex ex_binding ex_binding"
  by (simp add: Binding_Equal_def ex_binding_normal)

lemmas ex_evaluate = ex_binding_normal ex_binding_equal put_def lookup_def any_entry_def put_item_def put_replay_def
  put_reservation_def replayLocked_def presented_def authoritative_def wrap64_def

lemma ex_step1: "Request ex clock (ex_id 4) NewMemoryRepository ex_request = (ex_r1, Inr (ex_confirmation StatePending 1 100))"
proof -
  have b: "ex_request\<lparr>rq_Binding := ex_binding\<rparr> = ex_request" by (simp add: ex_request_def)
  have n: "new_confirmation (ex_id 4) (ex_time 100) ex_request = ex_confirmation StatePending 1 100"
    by (simp add: new_confirmation_def ex_request_def ex_confirmation_def) (simp add: ex_binding_def)
  have d: "rq_Binding ex_request = ex_binding" "rq_TaskID ex_request = ex_id 5" "rq_IdempotencyKey ex_request = ex_id 2"
    "rq_ExpiresAt ex_request = ex_time 1000" "at clock (rq_At ex_request) = ex_time 100"
    by (simp_all add: ex_request_def at_def ex_times)
  show ?thesis
    by (simp add: Request_def Let_def b n d ex_evaluate ex_r1_def NewMemoryRepository_def) (simp add: ex_times ex_confirmation_def)
qed

lemma ex_confirmation_facts: "c_Revision (ex_confirmation s n t) = n" "c_State (ex_confirmation s n t) = s"
    "c_Binding (ex_confirmation s n t) = ex_binding" "c_ConfirmationID (ex_confirmation s n t) = ex_id 4"
    "c_TaskID (ex_confirmation s n t) = ex_id 5" "After (c_ExpiresAt (ex_confirmation s n t)) (ex_time m) \<longleftrightarrow> m < 1000"
    "advanced s' (ex_time m) (ex_confirmation s n t) = ex_confirmation s' (wrap64 (n + 1)) m"
  by (simp_all add: ex_confirmation_def ex_times advanced_def)

lemma ex_keys_differ: "confirm_key c \<noteq> request_key q" "consume_key a \<noteq> request_key q" "consume_key a \<noteq> confirm_key c"
    "release_key b \<noteq> request_key q" "release_key b \<noteq> confirm_key c" "release_key b \<noteq> consume_key a"
  by (simp_all add: confirm_key_def request_key_def consume_key_def release_key_def)

lemmas ex_steps = ex_keys_differ ex_keys_differ [symmetric] ex_confirmation_facts ex_evaluate ex_repos

lemma ex_step2: "Confirm ex clock ex_r1 ex_confirm = (ex_r2, Inr (ex_confirmation StateConfirmed 2 200))"
proof -
  have d: "cf_IdempotencyKey ex_confirm = ex_id 2" "cf_ConfirmationID ex_confirm = ex_id 4" "cf_ExpectedRevision ex_confirm = 1"
    "cf_Binding ex_confirm = ex_binding" "cf_ResolveBinding ex_confirm = None" "at clock (cf_At ex_confirm) = ex_time 200"
    by (simp_all add: ex_confirm_def at_def ex_times)
  show ?thesis by (simp add: Confirm_def Let_def d ex_steps)
qed

lemma ex_step3: "SetTaskFence ex ex_r2 (ex_task_fence ''running'' 2) = (ex_r3, Inr ())"
  by (simp add: SetTaskFence_def ex_steps ex_task_fence_def)

lemma ex_consume_facts: "cs_IdempotencyKey ex_consume = ex_id 2" "cs_ConfirmationID ex_consume = ex_id 4" "cs_TaskID ex_consume = ex_id 5"
    "cs_ExpectedRevision ex_consume = 2" "cs_Binding ex_consume = ex_binding" "cs_ResolveBinding ex_consume = None"
    "cs_ResolveTaskFence ex_consume = None" "at clock (cs_At ex_consume) = ex_time 300" "\<not> consume_bad ex ex_consume"
    "fence_runs ex_consume (Some (ex_task_fence ''running'' 2))"
  by (simp_all add: ex_consume_def at_def ex_times consume_bad_def fence_runs_def ex_task_fence_def)

lemma ex_step4: "Consume ex clock ex_r3 ex_consume = (ex_r4, Inr (ex_confirmation StateConsumed 3 300))"
proof -
  have "\<lparr>rv_ConfirmationID = ex_id 4, rv_TaskID = ex_id 5, rv_AcquiredAttempt = cs_Attempt ex_consume,
      rv_AcquiredLeaseEpoch = cs_LeaseEpoch ex_consume, rv_TaskRevision = cs_ExpectedTaskRevision ex_consume, rv_Active = True\<rparr> = ex_reservation True"
    by (simp add: ex_consume_def ex_reservation_def)
  then show ?thesis by (simp add: Consume_def Let_def consume_fence_def ex_consume_facts ex_steps)
qed

lemma ex_step5: "SetTaskFence ex ex_r4 (ex_task_fence ''succeeded'' 3) = (ex_r5, Inr ())"
  by (simp add: SetTaskFence_def ex_steps ex_task_fence_def)

lemma ex_step6: "ReleaseReservation ex ex_r5 ex_release = (ex_r6, Inr (ex_confirmation StateConsumed 3 300))"
proof -
  have d: "rl_ConfirmationID ex_release = ex_id 4" "rl_TaskID ex_release = ex_id 5" "rl_ResolveTaskFence ex_release = None"
    "rl_AcquiredAttempt ex_release = 1" "rl_AcquiredLeaseEpoch ex_release = 1" "\<not> release_bad ex ex_release"
    "fence_ended ex_release (Some (ex_task_fence ''succeeded'' 3))"
    by (simp_all add: ex_release_def release_bad_def fence_ended_def ex_task_fence_def)
  have v: "rv_Active (ex_reservation a) = a" "rv_AcquiredAttempt (ex_reservation a) = 1" "rv_AcquiredLeaseEpoch (ex_reservation a) = 1"
    "ex_reservation True\<lparr>rv_Active := False\<rparr> = ex_reservation False" for a
    by (simp_all add: ex_reservation_def)
  show ?thesis by (simp add: ReleaseReservation_def Let_def release_fence_def d v ex_steps)
qed

lemma ex_repo_run:
  shows "repo_run ex NewMemoryRepository [DoRequest time_zero (ex_id 4) ex_request] ex_r1"
    and "repo_run ex NewMemoryRepository [DoRequest time_zero (ex_id 4) ex_request, DoConfirm time_zero ex_confirm,
      DoSetTaskFence (ex_task_fence ''running'' 2)] ex_r3"
    and "repo_run ex ex_r3 [DoConsume time_zero ex_consume] ex_r4"
    and "repo_run ex NewMemoryRepository [DoRequest time_zero (ex_id 4) ex_request, DoConfirm time_zero ex_confirm,
      DoSetTaskFence (ex_task_fence ''running'' 2), DoConsume time_zero ex_consume] ex_r4"
    and "repo_run ex NewMemoryRepository [DoRequest time_zero (ex_id 4) ex_request, DoConfirm time_zero ex_confirm,
      DoSetTaskFence (ex_task_fence ''running'' 2), DoConsume time_zero ex_consume, DoSetTaskFence (ex_task_fence ''succeeded'' 3)] ex_r5"
proof -
  let ?q = "DoRequest time_zero (ex_id 4) ex_request" and ?c = "DoConfirm time_zero ex_confirm"
  have 1: "repo_run ex NewMemoryRepository ([] @ [?q]) (repo_apply ex NewMemoryRepository ?q)"
    by (rule run_next [OF run_done]) (simp add: NewMemoryRepository_def)
  then show r1: "repo_run ex NewMemoryRepository [?q] ex_r1" by (simp add: ex_step1)
  have "repo_run ex NewMemoryRepository [?q, ?c] ex_r2" using run_next [OF r1, of ?c] by (simp add: ex_step2)
  from run_next [OF this, of "DoSetTaskFence (ex_task_fence ''running'' 2)"]
  show r3: "repo_run ex NewMemoryRepository [?q, ?c, DoSetTaskFence (ex_task_fence ''running'' 2)] ex_r3" by (simp add: ex_step3)
  show "repo_run ex ex_r3 [DoConsume time_zero ex_consume] ex_r4"
    using run_next [OF run_done, of ex_r3 "DoConsume time_zero ex_consume" ex] by (simp add: ex_step4)
  from run_next [OF r3, of "DoConsume time_zero ex_consume"]
  show r4: "repo_run ex NewMemoryRepository [?q, ?c, DoSetTaskFence (ex_task_fence ''running'' 2), DoConsume time_zero ex_consume] ex_r4"
    by (simp add: ex_step4)
  from run_next [OF r4, of "DoSetTaskFence (ex_task_fence ''succeeded'' 3)"]
  show "repo_run ex NewMemoryRepository [?q, ?c, DoSetTaskFence (ex_task_fence ''running'' 2), DoConsume time_zero ex_consume,
      DoSetTaskFence (ex_task_fence ''succeeded'' 3)] ex_r5"
    by (simp add: ex_step5)
qed

end
