(* ===== verification/Confirm_Safety.thy ===== *)
theory Confirm_Safety
  imports Confirm_Example
begin

text \<open>
  The properties of the confirmation repository: mutual exclusion on a target, refinement of a table
  of locks, what a consumption requires, the life cycle over runs, idempotent replay, and what failing
  operations leave behind.
\<close>

section \<open>Answers of the idempotent mutations\<close>

fun repo_answer :: "ext \<Rightarrow> MemoryRepository \<Rightarrow> repo_command \<Rightarrow> Confirmation outcome option" where
  "repo_answer X r (DoRequest clock fresh c) = Some (Request X clock fresh r c)"
| "repo_answer X r (DoConfirm clock c) = Some (Confirm X clock r c)"
| "repo_answer X r (DoReject clock c) = Some (Reject X clock r c)"
| "repo_answer X r (DoConsume clock c) = Some (Consume X clock r c)"
| "repo_answer X r (DoRelease c) = Some (ReleaseReservation X r c)"
| "repo_answer X r (DoExpire clock c) = Some (Expire X clock r c)"
| "repo_answer X r _ = None"

fun command_key :: "repo_command \<Rightarrow> string" where
  "command_key (DoRequest clock fresh c) = request_key c"
| "command_key (DoConfirm clock c) = confirm_key c"
| "command_key (DoReject clock c) = reject_key c"
| "command_key (DoConsume clock c) = consume_key c"
| "command_key (DoRelease c) = release_key c"
| "command_key (DoExpire clock c) = expire_key c"
| "command_key _ = []"

fun command_digest :: "ext \<Rightarrow> repo_command \<Rightarrow> string" where
  "command_digest X (DoRequest clock fresh c) = request_digest X c"
| "command_digest X (DoConfirm clock c) = confirmDigest X c"
| "command_digest X (DoReject clock c) = rejectDigest X c"
| "command_digest X (DoConsume clock c) = consumeDigest X c"
| "command_digest X (DoRelease c) = releaseDigest X c"
| "command_digest X (DoExpire clock c) = expireDigest X c"
| "command_digest X _ = []"

text \<open>The command passes the checks that come before the replay lookup.\<close>

fun command_accepted :: "ext \<Rightarrow> repo_command \<Rightarrow> bool" where
  "command_accepted X (DoRequest clock fresh c) = request_accepts X (clock, fresh) c"
| "command_accepted X (DoConfirm clock c) = confirm_accepts X c"
| "command_accepted X (DoReject clock c) = reject_accepts X c"
| "command_accepted X (DoConsume clock c) = (\<not> consume_bad X c)"
| "command_accepted X (DoRelease c) = (\<not> release_bad X c)"
| "command_accepted X (DoExpire clock c) = expire_accepts X c"
| "command_accepted X _ = False"

fun command_item :: "repo_command \<Rightarrow> string" where
  "command_item (DoConfirm clock c) = cf_ConfirmationID c"
| "command_item (DoReject clock c) = rj_ConfirmationID c"
| "command_item (DoConsume clock c) = cs_ConfirmationID c"
| "command_item (DoRelease c) = rl_ConfirmationID c"
| "command_item (DoExpire clock c) = xp_ConfirmationID c"
| "command_item _ = []"

lemmas command_keys = request_key_def confirm_key_def reject_key_def consume_key_def release_key_def expire_key_def

lemma accepted_replay:
  assumes "repo_answer X r c = Some (r', Inr v)" "repo_run X r' cs s" "command_key d = command_key c" "command_accepted X d"
  shows "repo_answer X s d = Some (s, if command_digest X d = command_digest X c then Inr v else Inl ErrIdempotencyConflict_cc)"
proof -
  note k = repo_run_kept [OF assms(2)]
  show ?thesis
  proof (cases d)
    case d: (DoRequest clock fresh a)
    with assms(1,3) obtain m f b where c: "c = DoRequest m f b" by (cases c) (simp_all add: command_keys)
    with assms(1) have "request_run X (m, f) r b = (r', Inr v)" by simp
    from request_op.replay_later [OF this k, of "(clock, fresh)" a] assms(3,4) c d show ?thesis by simp
  next
    case d: (DoConfirm clock a)
    with assms(1,3) obtain m b where c: "c = DoConfirm m b" by (cases c) (simp_all add: command_keys)
    with assms(1) have "Confirm X m r b = (r', Inr v)" by simp
    from confirm_op.replay_later [OF this k, of a clock] assms(3,4) c d show ?thesis by simp
  next
    case d: (DoReject clock a)
    with assms(1,3) obtain m b where c: "c = DoReject m b" by (cases c) (simp_all add: command_keys)
    with assms(1) have "Reject X m r b = (r', Inr v)" by simp
    from reject_op.replay_later [OF this k, of a clock] assms(3,4) c d show ?thesis by simp
  next
    case d: (DoConsume clock a)
    with assms(1,3) obtain m b where c: "c = DoConsume m b" by (cases c) (simp_all add: command_keys)
    with assms(1) have "Consume X m r b = (r', Inr v)" by simp
    from consume_op.replay_later [OF this k, of a clock] assms(3,4) c d show ?thesis by simp
  next
    case d: (DoRelease a)
    with assms(1,3) obtain b where c: "c = DoRelease b" by (cases c) (simp_all add: command_keys)
    with assms(1) have "ReleaseReservation X r b = (r', Inr v)" by simp
    from release_op.replay_later [OF this k, of a] assms(3,4) c d show ?thesis by simp
  next
    case d: (DoExpire clock a)
    with assms(1,3) obtain m b where c: "c = DoExpire m b" by (cases c) (simp_all add: command_keys)
    with assms(1) have "Expire X m r b = (r', Inr v)" by simp
    from expire_op.replay_later [OF this k, of a clock] assms(3,4) c d show ?thesis by simp
  qed (use assms(4) in simp_all)
qed

text \<open>A call that fails the checks before the replay lookup changes nothing.\<close>

lemma refused_commands: "repo_answer X s d = Some out \<Longrightarrow> \<not> command_accepted X d \<Longrightarrow> \<exists>e. out = (s, Inl e)"
proof (cases d)
  case (DoRequest clock fresh a)
  then show "repo_answer X s d = Some out \<Longrightarrow> \<not> command_accepted X d \<Longrightarrow> ?thesis"
    by (auto simp: Request_def Let_def split: option.splits sum.splits if_splits)
qed (auto simp: Confirm_def Reject_def Consume_def ReleaseReservation_def Expire_def confirm_accepts_def reject_accepts_def expire_accepts_def)

text \<open>C9. Request, Confirm, Reject, Consume, ReleaseReservation and Expire are idempotent. After such a call succeeded, and after any further operations, every call of the same kind with the same
  idempotency key changes nothing. If it passes the checks of the command that come before the replay lookup (for a request also that its expiry has not passed), it gets the recorded answer when the
  request digest is the same and the idempotency conflict when it is not; if it fails them it gets an error. The acknowledgement of an uncertain execution keeps its replays elsewhere and is not
  covered.\<close>
theorem mutations_are_idempotent:
  assumes "repo_answer X r c = Some (r', Inr v)" "repo_run X r' cs s" "command_key d = command_key c"
  shows "\<exists>res. repo_answer X s d = Some (s, res)
    \<and> (if command_accepted X d then res = (if command_digest X d = command_digest X c then Inr v else Inl ErrIdempotencyConflict_cc) else isl res)"
proof (cases "command_accepted X d")
  case True
  with accepted_replay [OF assms this] show ?thesis by auto
next
  case False
  have "command_key c \<noteq> []" using assms(1) by (cases c) (simp_all add: command_keys)
  then obtain out where "repo_answer X s d = Some out" using assms(3) by (cases d) auto
  with refused_commands [OF this False] False show ?thesis by auto
qed

theorem mutations_are_idempotent_witness:
  "repo_answer ex ex_r4 (DoConfirm (ex_time 900) ex_confirm) = Some (ex_r4, Inr (ex_confirmation StateConfirmed 2 200))"
proof -
  have "repo_answer ex ex_r1 (DoConfirm time_zero ex_confirm) = Some (ex_r2, Inr (ex_confirmation StateConfirmed 2 200))"
    by (simp add: ex_step2)
  moreover have "repo_run ex ex_r2 [DoSetTaskFence (ex_task_fence ''running'' 2), DoConsume time_zero ex_consume] ex_r4"
    using run_next [OF run_next [OF run_done, of ex_r2 "DoSetTaskFence (ex_task_fence ''running'' 2)" ex], of "DoConsume time_zero ex_consume"]
    by (simp add: ex_step3 ex_step4)
  ultimately show ?thesis
    using mutations_are_idempotent [of ex ex_r1 "DoConfirm time_zero ex_confirm" ex_r2 _ _ ex_r4 "DoConfirm (ex_time 900) ex_confirm"]
    by (simp add: confirm_accepts_def ex_confirm_def)
qed

text \<open>C5. In every state that the repository reaches from the empty one, a target of an operation domain has at most one
  confirmation that holds it: pending, confirmed, or consumed with an active reservation.\<close>
theorem one_live_confirmation_per_target:
  assumes "repo_run X NewMemoryRepository cs r" "holds r k c" "holds r j d" "same_target c d"
  shows "k = j"
  using repo_run_ok [OF assms(1) new_ok] assms(2-4) unfolding repo_ok_def by blast

theorem one_live_confirmation_per_target_witness:
  "{j. \<exists>d. holds ex_r4 j d \<and> same_target (ex_confirmation StateConsumed 3 300) d} = {ex_id 4}"
proof -
  have "holds ex_r4 (ex_id 4) (ex_confirmation StateConsumed 3 300)"
    by (simp add: holds_def isLiveConfirmation_def reserves_def ex_steps ex_reservation_def)
  note h = this
  have "j = ex_id 4" if "holds ex_r4 j d" "same_target (ex_confirmation StateConsumed 3 300) d" for j d
    by (rule one_live_confirmation_per_target [OF ex_repo_run(4) h that, symmetric])
  moreover have "same_target (ex_confirmation StateConsumed 3 300) (ex_confirmation StateConsumed 3 300)" by (simp add: same_target_def)
  ultimately show ?thesis using h by blast
qed

text \<open>C6. Seen from one target, every operation of the repository is a step of a lock: the confirmation that holds the
  target keeps it or gives it up, and another one gets it only from the free lock.\<close>
theorem repository_refines_locks:
  assumes "repo_run X NewMemoryRepository cs r" "draws_fresh r c"
  shows "lock_step (holder r t) (holder (repo_apply X r c) t)"
  using effect_lock [OF repo_step_effect [OF assms(2)] repo_run_ok [OF assms(1) new_ok]] .

theorem repository_refines_locks_witness:
  "holder ex_r5 (''install'', ''target'') = Some (ex_id 4)
   \<and> lock_step (holder ex_r5 (''install'', ''target'')) (holder (repo_apply ex ex_r5 (DoRelease ex_release)) (''install'', ''target''))"
proof
  show "holder ex_r5 (''install'', ''target'') = Some (ex_id 4)"
    by (simp add: holder_def isLiveConfirmation_def reserves_def ex_steps target_of_def) (simp add: ex_binding_def ex_reservation_def)
  show "lock_step (holder ex_r5 (''install'', ''target'')) (holder (repo_apply ex ex_r5 (DoRelease ex_release)) (''install'', ''target''))"
    by (rule repository_refines_locks [OF ex_repo_run(5)]) simp
qed

text \<open>C7. Unless the call is a replay, or malformed, \<open>Consume\<close> succeeds exactly when the stored confirmation is confirmed and unexpired at
  the expected revision, belongs to the task, the task runs under the attempt, lease epoch and revision of the command,
  and the stored binding equals both the authoritative and the presented one. Every success answers with a consumed confirmation and leaves an active reservation of it.\<close>
theorem Consume_succeeds_iff:
  assumes "\<not> consume_bad X c" "lookup (replays r) (consume_key c) = None"
  shows "((\<exists>r' v. Consume X clock r c = (r', Inr v)) \<longleftrightarrow> (\<exists>v. lookup (items r) (cs_ConfirmationID c) = Some v \<and> consumable X clock r c v))
    \<and> (\<forall>r' v. Consume X clock r c = (r', Inr v) \<longrightarrow> c_State v = StateConsumed \<and> reserves r' (c_ConfirmationID v))"
proof -
  have needs: "\<exists>w. lookup (items r) (cs_ConfirmationID c) = Some w \<and> consumable X clock r c w" if "Consume X clock r c = (r', Inr v)" for r' v
    using Consume_outcome [OF that] assms(2) by (auto simp: replayLocked_def)
  have gives: "\<exists>r' v. Consume X clock r c = (r', Inr v) \<and> c_State v = StateConsumed \<and> reserves r' (c_ConfirmationID v)"
    if w: "lookup (items r) (cs_ConfirmationID c) = Some w" "consumable X clock r c w" for w
  proof -
    from w obtain b where "presented X (cs_ResolveBinding c) (cs_Binding c) = Inr b" "Binding_Equal X (c_Binding w) b" by (auto simp: consumable_def)
    then show ?thesis using assms w by (simp add: Consume_def Let_def replayLocked_def consumable_def advanced_def)
  qed
  have "c_State v = StateConsumed \<and> reserves r' (c_ConfirmationID v)" if c: "Consume X clock r c = (r', Inr v)" for r' v
    using needs [OF c] gives c by fastforce
  then show ?thesis using needs gives by blast
qed

theorem Consume_succeeds_iff_witness:
  "(\<exists>r' v. Consume ex time_zero ex_r3 ex_consume = (r', Inr v)) \<and> c_State (ex_confirmation StateConsumed 3 300) = StateConsumed \<and> reserves ex_r4 (ex_id 4)"
proof -
  have "\<not> consume_bad ex ex_consume" "lookup (replays ex_r3) (consume_key ex_consume) = None" by (simp_all add: ex_consume_facts lookup_def ex_repos ex_keys_differ)
  from Consume_succeeds_iff [OF this, of time_zero] ex_step4 show ?thesis by (auto simp: ex_confirmation_facts)
qed

text \<open>Over any run a confirmation keeps its identity, owner, binding, task, creation and expiry; its state only moves
  forward from pending through confirmed to consumed; a rejected or expired confirmation never changes again.\<close>
theorem confirmation_life_cycle:
  assumes "repo_run X NewMemoryRepository cs r" "lookup (items r) k = Some c" "repo_run X r ds s"
  shows "\<exists>c'. lookup (items s) k = Some c' \<and> identity c' = identity c \<and> rank (c_State c) \<le> rank (c_State c')
    \<and> (final (c_State c) \<longrightarrow> c' = c)"
  using run_item [OF assms(3) repo_run_ok [OF assms(1) new_ok] assms(2)] by (simp add: follows_def)

theorem confirmation_life_cycle_witness:
  "\<exists>c'. lookup (items ex_r4) (ex_id 4) = Some c' \<and> identity c' = identity (ex_confirmation StateConfirmed 2 200)
    \<and> rank StateConfirmed \<le> rank (c_State c')"
proof -
  have "lookup (items ex_r3) (ex_id 4) = Some (ex_confirmation StateConfirmed 2 200)" by (simp add: ex_steps)
  from confirmation_life_cycle [OF ex_repo_run(2) this ex_repo_run(3)] show ?thesis unfolding ex_confirmation_facts by blast
qed

text \<open>C8. A consumed confirmation is not consumed again: whatever happens after its consumption, a further \<open>Consume\<close> that
  succeeds is a replay of the recorded answer and leaves the repository as it is.\<close>
theorem consumed_at_most_once:
  assumes "repo_run X NewMemoryRepository cs r" "lookup (items r) (cs_ConfirmationID a) = Some c" "c_State c = StateConsumed"
    "repo_run X r ds s" "Consume X clock s a = (s', Inr v)"
  shows "s' = s \<and> lookup (replays s) (consume_key a) \<noteq> None"
proof -
  obtain c' where c': "lookup (items s) (cs_ConfirmationID a) = Some c'" "2 \<le> rank (c_State c')"
    using run_item [OF assms(4) repo_run_ok [OF assms(1) new_ok] assms(2)] assms(3) by (auto simp: follows_def)
  have "c_State c' \<noteq> StateConfirmed" using c'(2) by auto
  with Consume_outcome [OF assms(5)] c'(1) show ?thesis
    by (auto simp: consumable_def replayLocked_def split: option.splits)
qed

theorem consumed_at_most_once_witness:
  "ex_r4 = ex_r4 \<and> lookup (replays ex_r4) (consume_key ex_consume) \<noteq> None"
proof -
  have i: "lookup (items ex_r4) (cs_ConfirmationID ex_consume) = Some (ex_confirmation StateConsumed 3 300)"
    "c_State (ex_confirmation StateConsumed 3 300) = StateConsumed" by (simp_all add: ex_steps ex_consume_facts)
  have "Consume ex time_zero ex_r4 ex_consume = (ex_r4, Inr (ex_confirmation StateConsumed 3 300))"
    by (simp add: Consume_def Let_def ex_consume_facts ex_steps)
  from consumed_at_most_once [OF ex_repo_run(4) i run_done this] show ?thesis .
qed

text \<open>A mutation of the repository that fails grants nothing: it leaves the repository as it is, or the error is that the
  confirmation is expired or stale, and all it writes is the expiry of that pending or confirmed confirmation.\<close>
theorem failures_only_expire:
  assumes "repo_answer X r c = Some (r', Inl e)"
  shows "r' = r \<or> (e = ErrExpired_cc \<or> e = ErrStale_cc) \<and> (\<exists>v reason now. lookup (items r) (command_item c) = Some v
     \<and> (c_State v = StatePending \<or> c_State v = StateConfirmed) \<and> r' = put_item (expired_as reason now v) r)"
proof (cases c)
  case (DoRequest clock fresh a)
  with assms show ?thesis by (auto dest!: Request_outcome)
next
  case (DoConfirm clock a)
  with assms Confirm_outcome [of X clock r a r' "Inl e"] show ?thesis by auto
next
  case (DoReject clock a)
  with assms Reject_outcome [of X clock r a r' "Inl e"] show ?thesis by auto
next
  case (DoConsume clock a)
  with assms Consume_outcome [of X clock r a r' "Inl e"] show ?thesis by auto
next
  case (DoRelease a)
  with assms show ?thesis by (auto dest!: Release_outcome)
next
  case (DoExpire clock a)
  with assms show ?thesis by (auto dest!: Expire_outcome)
qed (use assms in simp_all)

theorem failures_only_expire_witness:
  "ex_r1 = ex_r1 \<or> (ErrTaskFenceConflict_cc = ErrExpired_cc \<or> ErrTaskFenceConflict_cc = ErrStale_cc) \<and>
    (\<exists>v reason now. lookup (items ex_r1) (ex_id 4) = Some v \<and> (c_State v = StatePending \<or> c_State v = StateConfirmed)
       \<and> ex_r1 = put_item (expired_as reason now v) ex_r1)"
proof -
  have "repo_answer ex ex_r1 (DoConsume time_zero ex_consume) = Some (ex_r1, Inl ErrTaskFenceConflict_cc)"
    by (simp add: Consume_def Let_def ex_consume_facts ex_steps)
  from failures_only_expire [OF this] show ?thesis by (simp add: ex_consume_facts)
qed

text \<open>Releasing a reservation frees the target: from then on a valid request for it under a new idempotency key
  succeeds, and the new confirmation holds the target.\<close>
theorem release_frees_target:
  assumes "repo_run X NewMemoryRepository cs r" "ReleaseReservation X r c = (r', Inr v)" "lookup (replays r) (release_key c) = None"
    "request_accepts X (clock, fresh) q" "Binding_normalized X (rq_Binding q) = Inr b" "target_of b = target_of (c_Binding v)"
    "lookup (replays r') (request_key q) = None" "lookup (items r') fresh = None"
  shows "\<exists>s w. Request X clock fresh r' q = (s, Inr w) \<and> c_State w = StatePending \<and> holder s (target_of b) = Some fresh"
proof -
  note ok = repo_run_ok [OF assms(1) new_ok]
  from Release_outcome [OF assms(2)] assms(3) obtain w where k: "lookup (items r) (rl_ConfirmationID c) = Some v"
      "c_State v = StateConsumed" "lookup (reservations r) (rl_ConfirmationID c) = Some w" "rv_Active w"
    and r': "r' = put_replay (release_key c) (releaseDigest X c) v (put_reservation (c_ConfirmationID v) (w\<lparr>rv_Active := False\<rparr>) r)"
    by (auto simp: replayLocked_def)
  let ?k = "rl_ConfirmationID c"
  have id: "c_ConfirmationID v = ?k" using ok k(1) by (simp add: repo_ok_def)
  have hk: "holds r ?k v" using k by (simp add: holds_def isLiveConfirmation_def reserves_def)
  have free: "\<not> (\<exists>j d. holds r' j d \<and> target_of (c_Binding d) = target_of b)"
  proof safe
    fix j d assume h: "holds r' j d" "target_of (c_Binding d) = target_of b"
    then have "holds r j d" "j \<noteq> ?k" using k(1,2) by (auto simp: holds_def r' id split: if_splits)
    with hk ok h(2) assms(6) show False by (auto simp: repo_ok_def same_target_def)
  qed
  have ok': "repo_ok r'" using effect_ok [OF Release_effect ok, of X c] assms(2) by simp
  then have g: "gomap (items r')" by (simp add: repo_ok_def)
  with free have n: "\<not> any_entry (holds_target r' b) (items r')" by (simp add: holds_target_iff)
  define w where "w = new_confirmation fresh (at clock (rq_At q)) (q\<lparr>rq_Binding := b\<rparr>)"
  obtain s where s: "Request X clock fresh r' q = (s, Inr w)" "items s = put fresh w (items r')"
    using assms(4,5,7) n by (auto simp: Request_def Let_def replayLocked_def request_key_def w_def put_item_def put_replay_def new_confirmation_def)
  have "repo_ok s" using effect_ok [OF Request_effect ok', of fresh X clock q] assms(8) s(1) by simp
  moreover have w: "c_State w = StatePending" "c_Binding w = b" by (simp_all add: w_def new_confirmation_def)
  then have "holds s fresh w" by (simp add: holds_def s(2) isLiveConfirmation_def)
  ultimately have "holder s (target_of b) = Some fresh" using w(2) by (auto simp: holder_Some)
  with s(1) w(1) show ?thesis by blast
qed

theorem release_frees_target_witness:
  "\<exists>s w. Request ex time_zero (ex_id 6) ex_r6 (ex_request\<lparr>rq_IdempotencyKey := ex_id 7\<rparr>) = (s, Inr w) \<and> c_State w = StatePending
     \<and> holder s (target_of ex_binding) = Some (ex_id 6)"
proof (rule release_frees_target [OF ex_repo_run(5) ex_step6])
  show "lookup (replays ex_r5) (release_key ex_release) = None" by (simp add: ex_steps)
  show "request_accepts ex (time_zero, ex_id 6) (ex_request\<lparr>rq_IdempotencyKey := ex_id 7\<rparr>)"
    by (simp add: ex_request_def ex_binding_normal at_def ex_times)
  show "Binding_normalized ex (rq_Binding (ex_request\<lparr>rq_IdempotencyKey := ex_id 7\<rparr>)) = Inr ex_binding"
    by (simp add: ex_request_def ex_binding_normal)
  show "target_of ex_binding = target_of (c_Binding (ex_confirmation StateConsumed 3 300))" by (simp add: ex_confirmation_facts)
  have "request_key (ex_request\<lparr>rq_IdempotencyKey := ex_id 7\<rparr>) \<noteq> request_key ex_request" by (simp add: request_key_def ex_request_def)
  then show "lookup (replays ex_r6) (request_key (ex_request\<lparr>rq_IdempotencyKey := ex_id 7\<rparr>)) = None" by (simp add: ex_steps)
  show "lookup (items ex_r6) (ex_id 6) = None" by (simp add: ex_steps)
qed

end
