(* ===== verification/Go_Base64.thy ===== *)
theory Go_Base64
  imports Agent_Prelude
begin

text \<open>
  \<open>base64.RawURLEncoding\<close> of Go's \<^verbatim>\<open>encoding/base64\<close>, on byte strings: the URL alphabet without
  padding. The decoder skips carriage returns and line feeds, refuses every other character outside the
  alphabet and a final group of one character, and ignores the unused bits of the final group.
\<close>

definition b64_char :: "nat \<Rightarrow> char" where
  "b64_char n = (if n < 26 then char_of (65 + n) else if n < 52 then char_of (71 + n) else if n < 62 then char_of (n - 4)
     else if n = 62 then CHR ''-'' else CHR ''_'')"

definition b64_value :: "char \<Rightarrow> nat option" where
  "b64_value c = (let n = of_char c :: nat in
     if 65 \<le> n \<and> n \<le> 90 then Some (n - 65) else if 97 \<le> n \<and> n \<le> 122 then Some (n - 71)
     else if 48 \<le> n \<and> n \<le> 57 then Some (n + 4) else if n = 45 then Some 62 else if n = 95 then Some 63 else None)"

fun b64_groups :: "nat list \<Rightarrow> nat list" where
  "b64_groups [] = []"
| "b64_groups [a] = [a div 4, (a mod 4) * 16]"
| "b64_groups [a, b] = [a div 4, (a mod 4) * 16 + b div 16, (b mod 16) * 4]"
| "b64_groups (a # b # c # r) = [a div 4, (a mod 4) * 16 + b div 16, (b mod 16) * 4 + c div 64, c mod 64] @ b64_groups r"

definition EncodeToString :: "string \<Rightarrow> string" where
  "EncodeToString s = map b64_char (b64_groups (map of_char s))"

fun b64_bytes :: "nat list \<Rightarrow> nat list option" where
  "b64_bytes [] = Some []"
| "b64_bytes [p] = None"
| "b64_bytes [p, q] = Some [p * 4 + q div 16]"
| "b64_bytes [p, q, s] = Some [p * 4 + q div 16, (q mod 16) * 16 + s div 4]"
| "b64_bytes (p # q # s # t # r) = map_option (\<lambda>bs. [p * 4 + q div 16, (q mod 16) * 16 + s div 4, (s mod 4) * 64 + t] @ bs) (b64_bytes r)"

fun b64_values :: "string \<Rightarrow> nat list option" where
  "b64_values [] = Some []"
| "b64_values (c # s) = (if c \<in> set line_breaks then b64_values s
     else (case b64_value c of None \<Rightarrow> None | Some v \<Rightarrow> map_option ((#) v) (b64_values s)))"

definition DecodeString :: "string \<Rightarrow> string option" where
  "DecodeString s = (case b64_values s of None \<Rightarrow> None | Some vs \<Rightarrow> map_option (map char_of) (b64_bytes vs))"

lemma b64_value_char: "n < 64 \<Longrightarrow> b64_value (b64_char n) = Some n"
  by (auto simp: b64_value_def b64_char_def Let_def)

lemma b64_char_printable: "n < 64 \<Longrightarrow> b64_char n \<notin> set line_breaks"
proof -
  assume "n < 64"
  then have "b64_value (b64_char n) \<noteq> None" by (simp add: b64_value_char)
  moreover have "c \<in> set line_breaks \<Longrightarrow> b64_value c = None" for c by (auto simp: line_breaks_def b64_value_def Let_def)
  ultimately show ?thesis by metis
qed

lemma b64_values_chars: "\<forall>v\<in>set vs. v < 64 \<Longrightarrow> b64_values (map b64_char vs) = Some vs"
  by (induction vs) (auto simp: b64_value_char b64_char_printable)

lemma b64_groups_bound: "\<forall>b\<in>set bs. b < 256 \<Longrightarrow> \<forall>v\<in>set (b64_groups bs). v < 64"
  by (induction bs rule: b64_groups.induct) (auto simp: less_mult_imp_div_less)

lemma b64_bytes_groups: "\<forall>b\<in>set bs. b < 256 \<Longrightarrow> b64_bytes (b64_groups bs) = Some bs"
proof (induction bs rule: b64_groups.induct)
  case (4 a b c r)
  have "(a mod 4 * 16 + b div 16) div 16 = a mod 4" "(a mod 4 * 16 + b div 16) mod 16 = b div 16"
    "(b mod 16 * 4 + c div 64) div 4 = b mod 16" "(b mod 16 * 4 + c div 64) mod 4 = c div 64"
    using 4 by auto
  with 4 show ?case by simp
next
  case (3 a b)
  have "(a mod 4 * 16 + b div 16) div 16 = a mod 4" "(a mod 4 * 16 + b div 16) mod 16 = b div 16" using 3 by auto
  with 3 show ?case by simp
qed simp_all

lemma b64_roundtrip: "DecodeString (EncodeToString s) = Some s"
proof -
  have b: "\<forall>b\<in>set (map of_char s). b < (256 :: nat)" by auto
  have "b64_values (EncodeToString s) = Some (b64_groups (map of_char s))"
    unfolding EncodeToString_def by (rule b64_values_chars [OF b64_groups_bound [OF b]])
  moreover have "b64_bytes (b64_groups (map of_char s)) = Some (map of_char s)" by (rule b64_bytes_groups [OF b])
  moreover have "map char_of (map (of_char :: char \<Rightarrow> nat) s) = s" by (simp add: comp_def)
  ultimately show ?thesis by (simp only: DecodeString_def option.case option.map)
qed

lemma EncodeToString_Nil: "EncodeToString s = [] \<longleftrightarrow> s = []"
  by (cases "map of_char s :: nat list" rule: b64_groups.cases) (auto simp: EncodeToString_def)

end
