(* ===== verification/Confirm_List.thy ===== *)
theory Confirm_List
  imports Confirm_Example Go_Base64
begin

text \<open>
  \<open>MemoryRepository.List\<close> of \<^verbatim>\<open>src/internal/coreconfirmation/memory.go\<close>: pages of confirmations in the
  order of their creation, behind an opaque cursor that is bound to the filter of the query. The JSON codec
  of the cursor is the parameter \<open>J\<close>; what the code relies on is that it decodes what it encoded.
\<close>

section \<open>The cursor\<close>

record listCursor =
  cu_CreatedAt :: gotime
  cu_ID :: string
  cu_Filter :: string

definition no_cursor :: listCursor where
  "no_cursor = \<lparr>cu_CreatedAt = time_zero, cu_ID = [], cu_Filter = []\<rparr>"

record cursor_json =
  cursor_Marshal :: "listCursor \<Rightarrow> string"
  cursor_Unmarshal :: "string \<Rightarrow> listCursor option"

text \<open>The times that RFC 3339 can print, and strings that JSON prints byte for byte up to escapes.\<close>

definition cursor_plain :: "listCursor \<Rightarrow> bool" where
  "cursor_plain c \<longleftrightarrow> InUTC (cu_CreatedAt c) \<and> 0 \<le> instant (cu_CreatedAt c) \<and> instant (cu_CreatedAt c) < 315537897600 * Second
     \<and> is_ascii (cu_ID c) \<and> is_ascii (cu_Filter c)"

definition cursor_roundtrip :: "cursor_json \<Rightarrow> bool" where
  "cursor_roundtrip J \<longleftrightarrow> (\<forall>c. cursor_plain c \<longrightarrow> cursor_Marshal J c \<noteq> [] \<and> cursor_Unmarshal J (cursor_Marshal J c) = Some c)"

section \<open>Listing\<close>

definition normalizedStates :: "State list \<Rightarrow> State list" where
  "normalizedStates states = sort_key State_string states"

definition filter_digest :: "ext \<Rightarrow> ListQuery \<Rightarrow> string" where
  "filter_digest X q = canonicalDigest X (JObj [(''Domain'', JStr (lq_Domain q)), (''Target'', JStr (lq_TargetID q)),
     (''States'', if lq_States q = [] then JNull else JArr (map (\<lambda>s. JStr (State_string s)) (normalizedStates (lq_States q))))])"

definition read_cursor :: "cursor_json \<Rightarrow> string \<Rightarrow> string \<Rightarrow> confirm_error + listCursor" where
  "read_cursor J flt token = (if token = [] then Inr no_cursor
     else (case DecodeString token of None \<Rightarrow> Inl ErrInvalid_cc
       | Some decoded \<Rightarrow> (case cursor_Unmarshal J decoded of None \<Rightarrow> Inl ErrInvalid_cc
         | Some c \<Rightarrow> if cu_Filter c \<noteq> flt then Inl ErrInvalid_cc else Inr c)))"

definition page_order :: "Confirmation \<Rightarrow> int \<times> string" where
  "page_order v = (instant (c_CreatedAt v), c_ConfirmationID v)"

text \<open>The two tests of the loop that skip a confirmation: at or before the cursor, and outside the filter.\<close>

definition passed :: "listCursor \<Rightarrow> Confirmation \<Rightarrow> bool" where
  "passed cursor v \<longleftrightarrow> cu_ID cursor \<noteq> [] \<and> (Before (c_CreatedAt v) (cu_CreatedAt cursor)
     \<or> time_Equal (c_CreatedAt v) (cu_CreatedAt cursor) \<and> c_ConfirmationID v \<le> cu_ID cursor)"

definition selected :: "ListQuery \<Rightarrow> Confirmation \<Rightarrow> bool" where
  "selected q v \<longleftrightarrow> \<not> (lq_Domain q \<noteq> [] \<and> b_OperationDomain (c_Binding v) \<noteq> lq_Domain q
     \<or> lq_TargetID q \<noteq> [] \<and> b_TargetID (c_Binding v) \<noteq> lq_TargetID q) \<and> (lq_States q = [] \<or> c_State v \<in> set (lq_States q))"

definition item_at :: "MemoryRepository \<Rightarrow> string \<Rightarrow> Confirmation" where
  "item_at r k = (case lookup (items r) k of None \<Rightarrow> zero_confirmation | Some v \<Rightarrow> v)"

definition page_of :: "cursor_json \<Rightarrow> nat \<Rightarrow> string \<Rightarrow> Confirmation list \<Rightarrow> Page" where
  "page_of J n flt values =
    (let e = (if n > length values then length values else n) in
       \<lparr>pg_Confirmations = take e values,
        pg_NextPageToken = (if e < length values then let final = values ! (e - 1) in
            EncodeToString (cursor_Marshal J \<lparr>cu_CreatedAt = c_CreatedAt final, cu_ID = c_ConfirmationID final, cu_Filter = flt\<rparr>)
          else [])\<rparr>)"

definition page_size :: "ListQuery \<Rightarrow> nat" where
  "page_size q = (if lq_PageSize q = 0 then 50 else nat (lq_PageSize q))"

definition List_page :: "ext \<Rightarrow> cursor_json \<Rightarrow> MemoryRepository \<Rightarrow> ListQuery \<Rightarrow> confirm_error + Page" where
  "List_page X J r q =
    (if lq_PageSize q < 0 \<or> lq_PageSize q > 100 then Inl ErrInvalid_cc
     else let flt = filter_digest X q in
     (case read_cursor J flt (lq_PageToken q) of Inl e \<Rightarrow> Inl e
     | Inr cursor \<Rightarrow>
       if \<not> list_all validState (lq_States q) then Inl ErrInvalid_cc
       else Inr (page_of J (page_size q) flt
              (sort_key page_order (filter (\<lambda>v. \<not> passed cursor v \<and> selected q v) (map (item_at r) (order r)))))))"

section \<open>The creation order\<close>

definition order_ok :: "MemoryRepository \<Rightarrow> bool" where
  "order_ok r \<longleftrightarrow> distinct (order r) \<and> (\<forall>k. k \<in> set (order r) \<longleftrightarrow> lookup (items r) k \<noteq> None)"

lemma order_effect:
  assumes "effect r r'" "repo_ok r" "order_ok r"
  shows "order_ok r'"
  using assms(1)
proof cases
  case quiet
  with assms(3) show ?thesis by (simp add: order_ok_def)
next
  case (change k v v')
  from change(1,2) assms(2) have "c_ConfirmationID v' = k" by (auto simp: repo_ok_def changes_def identity_def)
  with change assms(3) show ?thesis by (auto simp: order_ok_def)
next
  case (create v)
  with assms(3) show ?thesis by (auto simp: order_ok_def)
qed

lemma repo_run_order: "repo_run X r cs s \<Longrightarrow> repo_ok r \<Longrightarrow> order_ok r \<Longrightarrow> order_ok s"
  by (induction rule: repo_run.induct) (auto intro: order_effect repo_step_effect repo_run_ok)

lemma new_order: "order_ok NewMemoryRepository"
  by (simp add: order_ok_def NewMemoryRepository_def)

section \<open>Walking the pages\<close>

text \<open>What the caller reads by following the tokens, within a number of pages.\<close>

fun read_pages :: "(ListQuery \<Rightarrow> confirm_error + Page) \<Rightarrow> nat \<Rightarrow> ListQuery \<Rightarrow> Confirmation list option" where
  "read_pages f 0 q = None"
| "read_pages f (Suc n) q = (case f q of Inl _ \<Rightarrow> None
     | Inr p \<Rightarrow> if pg_NextPageToken p = [] then Some (pg_Confirmations p)
         else map_option (\<lambda>rest. pg_Confirmations p @ rest) (read_pages f n (q\<lparr>lq_PageToken := pg_NextPageToken p\<rparr>)))"

text \<open>A caller that filters every page reads the filtered list.\<close>

lemma read_pages_filter:
  assumes "\<And>q. g q = (case f q of Inl e \<Rightarrow> Inl e | Inr p \<Rightarrow> Inr (p\<lparr>pg_Confirmations := filter P (pg_Confirmations p)\<rparr>))"
  shows "read_pages g n q = map_option (filter P) (read_pages f n q)"
  by (induction n arbitrary: q) (auto simp: assms option.map_comp comp_def split: sum.split)

definition all_selected :: "MemoryRepository \<Rightarrow> ListQuery \<Rightarrow> Confirmation list" where
  "all_selected r q = sort_key page_order (filter (selected q) (map (item_at r) (order r)))"

lemma filter_above:
  assumes "sorted (map f xs)" "distinct (map f xs)" "0 < m" "m \<le> length xs"
  shows "filter (\<lambda>v. \<not> f v \<le> f (xs ! (m - 1))) xs = drop m xs"
proof -
  have "filter (\<lambda>v. \<not> f v \<le> f (xs ! (m - 1))) (take m xs) = []"
  proof (rule ccontr)
    assume "filter (\<lambda>v. \<not> f v \<le> f (xs ! (m - 1))) (take m xs) \<noteq> []"
    then obtain v where "v \<in> set (take m xs)" "\<not> f v \<le> f (xs ! (m - 1))" by (auto simp: filter_empty_conv)
    then obtain i where "i < m" "\<not> f (xs ! i) \<le> f (xs ! (m - 1))" by (auto simp: in_set_conv_nth)
    moreover have "map f xs ! i \<le> map f xs ! (m - 1)" if "i < m"
      using that assms(4) by (intro sorted_nth_mono [OF assms(1)]) auto
    ultimately show False using assms(4) by simp
  qed
  moreover have "filter (\<lambda>v. \<not> f v \<le> f (xs ! (m - 1))) (drop m xs) = drop m xs"
  proof (rule filter_True, rule ballI)
    fix v assume "v \<in> set (drop m xs)"
    then obtain i where i: "i < length xs - m" "v = xs ! (m + i)" by (auto simp: in_set_conv_nth)
    have "map f xs ! (m - 1) \<le> map f xs ! (m + i)" using i by (intro sorted_nth_mono [OF assms(1)]) auto
    moreover have "map f xs ! (m - 1) \<noteq> map f xs ! (m + i)" using assms i by (subst nth_eq_iff_index_eq) auto
    ultimately show "\<not> f v \<le> f (xs ! (m - 1))" using i by auto
  qed
  ultimately show ?thesis by (metis append_Nil append_take_drop_id filter_append)
qed

lemma passed_iff: "cu_ID c \<noteq> [] \<Longrightarrow> passed c v \<longleftrightarrow> page_order v \<le> (instant (cu_CreatedAt c), cu_ID c)"
  by (auto simp: passed_def page_order_def gotime_simps less_eq_prod_def)

lemma list_values: "sort_key page_order (filter (\<lambda>v. \<not> passed cursor v \<and> selected q v) xs)
    = filter (\<lambda>v. \<not> passed cursor v) (sort_key page_order (filter (selected q) xs))"
  by (simp add: filter_sort conj_commute)

text \<open>The confirmations of the repository have printable identifiers and creation times.\<close>

definition listable :: "ext \<Rightarrow> MemoryRepository \<Rightarrow> ListQuery \<Rightarrow> bool" where
  "listable X r q \<longleftrightarrow> is_ascii (filter_digest X q) \<and> list_all (\<lambda>k. k \<noteq> [] \<and> cursor_plain
     \<lparr>cu_CreatedAt = c_CreatedAt (item_at r k), cu_ID = k, cu_Filter = filter_digest X q\<rparr>) (order r)"

text \<open>What a listing relies on: the codec, items keyed by their identifiers, and a query within its bounds.\<close>

definition listing :: "ext \<Rightarrow> cursor_json \<Rightarrow> MemoryRepository \<Rightarrow> ListQuery \<Rightarrow> bool" where
  "listing X J r q \<longleftrightarrow> cursor_roundtrip J \<and> (\<forall>k\<in>set (order r). c_ConfirmationID (item_at r k) = k) \<and> distinct (order r)
     \<and> listable X r q \<and> 0 \<le> lq_PageSize q \<and> lq_PageSize q \<le> 100 \<and> list_all validState (lq_States q)"

lemma listing_facts:
  assumes "listing X J r q"
  shows "cursor_roundtrip J" "k \<in> set (order r) \<Longrightarrow> c_ConfirmationID (item_at r k) = k" "distinct (order r)"
    "listable X r q" "0 \<le> lq_PageSize q" "lq_PageSize q \<le> 100" "list_all validState (lq_States q)"
  using assms by (auto simp: listing_def)

lemma listed_ids: "listing X J r q \<Longrightarrow> v \<in> set (all_selected r q) \<Longrightarrow> c_ConfirmationID v \<noteq> [] \<and> cursor_plain
    \<lparr>cu_CreatedAt = c_CreatedAt v, cu_ID = c_ConfirmationID v, cu_Filter = filter_digest X q\<rparr>"
  by (auto simp: listing_def all_selected_def listable_def list_all_iff)

lemma listed_keys: "listing X J r q \<Longrightarrow> distinct (map page_order (all_selected r q))"
proof -
  assume L: "listing X J r q"
  have "map c_ConfirmationID (map (item_at r) (order r)) = order r" by (rule nth_equalityI) (auto simp: listing_facts(2) [OF L])
  with listing_facts(3) [OF L] have "distinct (map c_ConfirmationID (map (item_at r) (order r)))" by metis
  then have "distinct (map c_ConfirmationID (filter (selected q) (map (item_at r) (order r))))" by (rule distinct_map_filter)
  then have "distinct (map snd (map page_order (filter (selected q) (map (item_at r) (order r)))))" by (simp add: page_order_def comp_def)
  then have "distinct (map page_order (filter (selected q) (map (item_at r) (order r))))" by (metis distinct_map)
  then show ?thesis by (simp add: all_selected_def distinct_map)
qed

lemma page_at:
  assumes L: "listing X J r q"
    and "0 < m" "m \<le> length (all_selected r q)" "f = all_selected r q ! (m - 1)"
    "t = EncodeToString (cursor_Marshal J \<lparr>cu_CreatedAt = c_CreatedAt f, cu_ID = c_ConfirmationID f, cu_Filter = filter_digest X q\<rparr>)"
  shows "t \<noteq> []" "List_page X J r (q\<lparr>lq_PageToken := t\<rparr>) = Inr (page_of J (page_size q) (filter_digest X q) (drop m (all_selected r q)))"
proof -
  let ?c = "\<lparr>cu_CreatedAt = c_CreatedAt f, cu_ID = c_ConfirmationID f, cu_Filter = filter_digest X q\<rparr>"
  have "f \<in> set (all_selected r q)" using assms(2-4) by simp
  note f = listed_ids [OF L this]
  with listing_facts(1) [OF L] have c: "cursor_Marshal J ?c \<noteq> []" "cursor_Unmarshal J (cursor_Marshal J ?c) = Some ?c"
    by (auto simp: cursor_roundtrip_def)
  then show t: "t \<noteq> []" by (simp add: assms(5) EncodeToString_Nil)
  have q: "filter_digest X (q\<lparr>lq_PageToken := t\<rparr>) = filter_digest X q" "page_size (q\<lparr>lq_PageToken := t\<rparr>) = page_size q"
    "selected (q\<lparr>lq_PageToken := t\<rparr>) = selected q"
    by (auto simp: filter_digest_def page_size_def selected_def fun_eq_iff)
  have "read_cursor J (filter_digest X q) t = Inr ?c" using t c by (simp add: read_cursor_def assms(5) b64_roundtrip)
  moreover have "filter (\<lambda>v. \<not> passed ?c v) (all_selected r q) = drop m (all_selected r q)"
  proof -
    have "passed ?c v \<longleftrightarrow> page_order v \<le> page_order (all_selected r q ! (m - 1))" for v
      using f assms(4) by (simp add: passed_iff) (simp add: page_order_def)
    then show ?thesis
      using filter_above [of page_order "all_selected r q" m] listed_keys [OF L] assms(2,3) by (simp add: all_selected_def)
  qed
  ultimately show "List_page X J r (q\<lparr>lq_PageToken := t\<rparr>) = Inr (page_of J (page_size q) (filter_digest X q) (drop m (all_selected r q)))"
    using listing_facts(5-7) [OF L] by (simp add: List_page_def Let_def q list_values) (simp add: all_selected_def)
qed

lemma first_page: "listing X J r q \<Longrightarrow> List_page X J r (q\<lparr>lq_PageToken := []\<rparr>) = Inr (page_of J (page_size q) (filter_digest X q) (all_selected r q))"
proof -
  assume L: "listing X J r q"
  have "filter_digest X (q\<lparr>lq_PageToken := []\<rparr>) = filter_digest X q" "page_size (q\<lparr>lq_PageToken := []\<rparr>) = page_size q"
    "selected (q\<lparr>lq_PageToken := []\<rparr>) = selected q"
    by (auto simp: filter_digest_def page_size_def selected_def fun_eq_iff)
  moreover have "\<not> passed no_cursor v" for v by (simp add: passed_def no_cursor_def)
  ultimately show ?thesis
    using listing_facts(5-7) [OF L] by (simp add: List_page_def Let_def read_cursor_def list_values all_selected_def)
qed

lemma pages_from:
  assumes L: "listing X J r q"
    and "List_page X J r q' = Inr (page_of J (page_size q) (filter_digest X q) (drop m (all_selected r q)))"
    "\<And>t. q'\<lparr>lq_PageToken := t\<rparr> = q\<lparr>lq_PageToken := t\<rparr>" "m \<le> length (all_selected r q)" "length (all_selected r q) - m < n"
  shows "read_pages (List_page X J r) n q' = Some (drop m (all_selected r q))"
  using assms(2-)
proof (induction n arbitrary: m q')
  case (Suc n)
  let ?L = "all_selected r q"
  have pos: "0 < page_size q" using listing_facts(5) [OF L] by (simp add: page_size_def)
  show ?case
  proof (cases "m + page_size q < length ?L")
    case False
    then have "page_of J (page_size q) (filter_digest X q) (drop m ?L) = \<lparr>pg_Confirmations = drop m ?L, pg_NextPageToken = []\<rparr>"
      using Suc.prems(3) by (auto simp: page_of_def Let_def)
    then show ?thesis using Suc.prems(1) by simp
  next
    case True
    define m' where "m' = m + page_size q"
    have m': "0 < m'" "m' \<le> length ?L" "length ?L - m' < n" using True pos Suc.prems(4) by (auto simp: m'_def)
    define f where "f = ?L ! (m' - 1)"
    define t where "t = EncodeToString (cursor_Marshal J \<lparr>cu_CreatedAt = c_CreatedAt f, cu_ID = c_ConfirmationID f, cu_Filter = filter_digest X q\<rparr>)"
    note p = page_at [OF L m'(1,2) f_def t_def]
    have ix: "drop m ?L ! (page_size q - 1) = f" using True pos by (simp add: f_def m'_def)
    then have page: "page_of J (page_size q) (filter_digest X q) (drop m ?L) = \<lparr>pg_Confirmations = take (page_size q) (drop m ?L), pg_NextPageToken = t\<rparr>"
      using True by (auto simp: page_of_def Let_def t_def)
    have "read_pages (List_page X J r) n (q\<lparr>lq_PageToken := t\<rparr>) = Some (drop m' ?L)"
      by (rule Suc.IH [OF p(2) _ m'(2,3)]) simp
    moreover have "take (page_size q) (drop m ?L) @ drop m' ?L = drop m ?L"
      unfolding m'_def by (metis append_take_drop_id drop_drop add.commute)
    ultimately show ?thesis using Suc.prems(1,2) p(1) page by simp
  qed
qed simp

lemma all_pages: "listing X J r q \<Longrightarrow> length (all_selected r q) < n \<Longrightarrow> read_pages (List_page X J r) n (q\<lparr>lq_PageToken := []\<rparr>) = Some (all_selected r q)"
  using pages_from [of X J r q "q\<lparr>lq_PageToken := []\<rparr>" 0 n] first_page [of X J r q] by simp

text \<open>The repository provides what the listing needs.\<close>

lemma listing_run: "repo_run X NewMemoryRepository cs r \<Longrightarrow> cursor_roundtrip J \<Longrightarrow> listable X r q \<Longrightarrow> 0 \<le> lq_PageSize q \<Longrightarrow>
    lq_PageSize q \<le> 100 \<Longrightarrow> list_all validState (lq_States q) \<Longrightarrow> listing X J r q"
  using repo_run_order [OF _ new_ok new_order, of X cs r] repo_run_ok [OF _ new_ok, of X cs r]
  by (auto simp: listing_def order_ok_def repo_ok_def item_at_def)

end
