(* ===== verification/Confirm_Service.thy ===== *)
theory Confirm_Service
  imports Confirm_List
begin

text \<open>
  \<^verbatim>\<open>src/internal/coreconfirmation/service.go\<close>: the authority of a caller and the operations of the
  service over any implementation of the repository interface
  (\<^verbatim>\<open>src/internal/coreconfirmation/repository.go\<close>), which is the record \<open>Repository\<close> here, with the optional
  interfaces the service finds by type assertion as optional members. The service returned by \<open>NewService\<close> is
  never nil. \<^verbatim>\<open>src/internal/coreconfirmation/expiry_sweeper.go\<close> hands its clock and limit to a store.
\<close>

section \<open>Authority\<close>

record Authority =
  au_OwnerID :: string
  au_AccountGeneration :: u64

definition Authority_normalize :: "Authority \<Rightarrow> confirm_error + Authority" where
  "Authority_normalize a0 = (let a = a0\<lparr>au_OwnerID := TrimSpace (au_OwnerID a0)\<rparr> in
     if au_OwnerID a = [] \<or> au_AccountGeneration a = 0 then Inl ErrInvalid_cc else Inr a)"

definition authorizeConfirmation :: "Confirmation \<Rightarrow> Authority \<Rightarrow> confirm_error option" where
  "authorizeConfirmation value authority0 = (case Authority_normalize authority0 of Inl e \<Rightarrow> Some e
   | Inr authority \<Rightarrow>
     let storedOwner = TrimSpace (c_OwnerID value); boundOwner = TrimSpace (b_OwnerID (c_Binding value)) in
     if storedOwner \<noteq> [] \<and> storedOwner \<noteq> au_OwnerID authority \<or> boundOwner \<noteq> [] \<and> boundOwner \<noteq> au_OwnerID authority
     then Some ErrNotFound_cc
     else if b_OperationDomain (c_Binding value) = ''cloud_worker.execute'' \<or> b_OperationDomain (c_Binding value) = ''extension.execute''
     then (if storedOwner \<noteq> au_OwnerID authority \<or> boundOwner \<noteq> au_OwnerID authority
              \<or> b_AccountGeneration (c_Binding value) \<noteq> au_AccountGeneration authority then Some ErrStale_cc else None)
     else None)"

section \<open>The repository interface\<close>

record TaskTerminalCommand =
  tt_TaskID :: string
  tt_Reason :: string
  tt_At :: gotime

record 's Repository =
  R_Request :: "'s \<Rightarrow> RequestCommand \<Rightarrow> 's \<times> (confirm_error + Confirmation)"
  R_Get :: "'s \<Rightarrow> string \<Rightarrow> confirm_error + Confirmation"
  R_List :: "'s \<Rightarrow> ListQuery \<Rightarrow> confirm_error + Page"
  R_Confirm :: "'s \<Rightarrow> ConfirmCommand \<Rightarrow> 's \<times> (confirm_error + Confirmation)"
  R_Reject :: "'s \<Rightarrow> RejectCommand \<Rightarrow> 's \<times> (confirm_error + Confirmation)"
  R_Consume :: "'s \<Rightarrow> ConsumeCommand \<Rightarrow> 's \<times> (confirm_error + Confirmation)"
  R_Expire :: "'s \<Rightarrow> ExpireCommand \<Rightarrow> 's \<times> (confirm_error + Confirmation)"
  R_ReleaseReservation :: "'s \<Rightarrow> ReleaseReservationCommand \<Rightarrow> 's \<times> (confirm_error + Confirmation)"
  R_bindingReader :: "('s \<Rightarrow> string \<Rightarrow> confirm_error + Binding) option"
  R_currentReader :: bool
  R_sameMemory :: bool
  R_Acknowledger :: "('s \<Rightarrow> AckCommand \<Rightarrow> 's \<times> (confirm_error + AckResult)) option"
  R_TaskTerminalizer :: "('s \<Rightarrow> TaskTerminalCommand \<Rightarrow> 's \<times> confirm_error option) option"

definition memory_repository :: "ext \<Rightarrow> cursor_json \<Rightarrow> gotime \<Rightarrow> string \<Rightarrow> MemoryRepository Repository" where
  "memory_repository X J clock fresh = \<lparr>R_Request = Request X clock fresh, R_Get = Get, R_List = List_page X J, R_Confirm = Confirm X clock,
     R_Reject = Reject X clock, R_Consume = Consume X clock, R_Expire = Expire X clock, R_ReleaseReservation = ReleaseReservation X,
     R_bindingReader = Some ReadTargetBinding, R_currentReader = False, R_sameMemory = True,
     R_Acknowledger = Some (AcknowledgeExtensionExecutionUncertain X clock), R_TaskTerminalizer = None\<rparr>"

definition NewService :: "'s Repository option \<Rightarrow> confirm_error + 's Repository" where
  "NewService repository = (case repository of None \<Rightarrow> Inl ErrInvalid_cc | Some R \<Rightarrow> Inr R)"

section \<open>Operations of the service\<close>

definition now_or :: "gotime \<Rightarrow> gotime \<Rightarrow> gotime" where
  "now_or clock t = (if IsZero t then to_UTC clock else t)"

definition Service_Request :: "ext \<Rightarrow> 's Repository \<Rightarrow> gotime \<Rightarrow> 's \<Rightarrow> RequestCommand \<Rightarrow> 's \<times> (confirm_error + Confirmation)" where
  "Service_Request X R clock st c =
    (if \<not> validateUUID X (rq_IdempotencyKey c) then (st, Inl ErrInvalid_cc)
     else (case Binding_normalized X (rq_Binding c) of Inl _ \<Rightarrow> (st, Inl ErrInvalid_cc)
     | Inr binding \<Rightarrow>
       if \<not> validateUUID X (rq_TaskID c) \<or> IsZero (rq_ExpiresAt c) \<or> \<not> InUTC (rq_ExpiresAt c) then (st, Inl ErrInvalid_cc)
       else let now = now_or clock (rq_At c) in
         if \<not> InUTC now \<or> \<not> After (rq_ExpiresAt c) now then (st, Inl ErrInvalid_cc)
         else let c1 = c\<lparr>rq_Binding := binding, rq_TaskID := TrimSpace (rq_TaskID c), rq_At := now\<rparr> in
           R_Request R st (c1\<lparr>rq_RequestDigest := requestDigest X c1\<rparr>)))"

definition Service_Get :: "ext \<Rightarrow> 's Repository \<Rightarrow> 's \<Rightarrow> string \<Rightarrow> confirm_error + Confirmation" where
  "Service_Get X R st k = (if \<not> validateUUID X k then Inl ErrInvalid_cc else R_Get R st (TrimSpace k))"

definition GetAuthorized :: "ext \<Rightarrow> 's Repository \<Rightarrow> Authority \<Rightarrow> 's \<Rightarrow> string \<Rightarrow> confirm_error + Confirmation" where
  "GetAuthorized X R authority st k = (case Service_Get X R st k of Inl e \<Rightarrow> Inl e
     | Inr value \<Rightarrow> (case authorizeConfirmation value authority of Some e \<Rightarrow> Inl e | None \<Rightarrow> Inr value))"

definition Service_List :: "'s Repository \<Rightarrow> 's \<Rightarrow> ListQuery \<Rightarrow> confirm_error + Page" where
  "Service_List R st q = (if lq_PageSize q < 0 \<or> lq_PageSize q > 100 then Inl ErrInvalid_cc else R_List R st q)"

definition ListAuthorized :: "'s Repository \<Rightarrow> Authority \<Rightarrow> 's \<Rightarrow> ListQuery \<Rightarrow> confirm_error + Page" where
  "ListAuthorized R authority st q = (case Authority_normalize authority of Inl e \<Rightarrow> Inl e
     | Inr _ \<Rightarrow> (case Service_List R st q of Inl e \<Rightarrow> Inl e
       | Inr page \<Rightarrow> Inr (page\<lparr>pg_Confirmations := filter (\<lambda>v. authorizeConfirmation v authority = None) (pg_Confirmations page)\<rparr>)))"

text \<open>The callback that \<open>Confirm\<close> and \<open>Consume\<close> install for a repository that is not the one in memory.\<close>

definition resolver :: "'s Repository \<Rightarrow> 's \<Rightarrow> string \<Rightarrow> (confirm_error + Binding) option \<Rightarrow> (confirm_error + Binding) option" where
  "resolver R st k given = (if \<not> R_sameMemory R \<and> \<not> R_currentReader R
     then (case R_bindingReader R of None \<Rightarrow> given | Some read \<Rightarrow> Some (read st k)) else given)"

definition Service_Confirm :: "ext \<Rightarrow> 's Repository \<Rightarrow> gotime \<Rightarrow> 's \<Rightarrow> ConfirmCommand \<Rightarrow> 's \<times> (confirm_error + Confirmation)" where
  "Service_Confirm X R clock st c =
    (if \<not> validateUUID X (cf_IdempotencyKey c) \<or> \<not> validateUUID X (cf_ConfirmationID c) \<or> cf_ExpectedRevision c < 1
     then (st, Inl ErrInvalid_cc)
     else if R_bindingReader R = None \<and> \<not> R_currentReader R then (st, Inl ErrBindingUnavailable_cc)
     else let c1 = c\<lparr>cf_ResolveBinding := resolver R st (cf_ConfirmationID c) (cf_ResolveBinding c), cf_At := now_or clock (cf_At c)\<rparr> in
       R_Confirm R st (c1\<lparr>cf_RequestDigest := confirmDigest X c1\<rparr>))"

definition ConfirmAuthorized :: "ext \<Rightarrow> 's Repository \<Rightarrow> gotime \<Rightarrow> Authority \<Rightarrow> 's \<Rightarrow> ConfirmCommand \<Rightarrow> 's \<times> (confirm_error + Confirmation)" where
  "ConfirmAuthorized X R clock authority st c = (case GetAuthorized X R authority st (cf_ConfirmationID c) of Inl e \<Rightarrow> (st, Inl e)
     | Inr current \<Rightarrow> Service_Confirm X R clock st (c\<lparr>cf_Binding := c_Binding current\<rparr>))"

definition Service_Reject :: "ext \<Rightarrow> 's Repository \<Rightarrow> gotime \<Rightarrow> 's \<Rightarrow> RejectCommand \<Rightarrow> 's \<times> (confirm_error + Confirmation)" where
  "Service_Reject X R clock st c0 =
    (if \<not> validateUUID X (rj_IdempotencyKey c0) \<or> \<not> validateUUID X (rj_ConfirmationID c0) \<or> rj_ExpectedRevision c0 < 1
     then (st, Inl ErrInvalid_cc)
     else let c = c0\<lparr>rj_Reason := TrimSpace (rj_Reason c0), rj_Note := TrimSpace (rj_Note c0)\<rparr> in
       if length (rj_Reason c) > 256 \<or> length (rj_Note c) > 256 \<or> ContainsAny (rj_Reason c @ rj_Note c) line_breaks
       then (st, Inl ErrInvalid_cc)
       else let c1 = c\<lparr>rj_At := now_or clock (rj_At c)\<rparr> in R_Reject R st (c1\<lparr>rj_RequestDigest := rejectDigest X c1\<rparr>))"

definition RejectAuthorized :: "ext \<Rightarrow> 's Repository \<Rightarrow> gotime \<Rightarrow> Authority \<Rightarrow> 's \<Rightarrow> RejectCommand \<Rightarrow> 's \<times> (confirm_error + Confirmation)" where
  "RejectAuthorized X R clock authority st c = (case GetAuthorized X R authority st (rj_ConfirmationID c) of Inl e \<Rightarrow> (st, Inl e)
     | Inr _ \<Rightarrow> Service_Reject X R clock st c)"

definition Service_Consume :: "ext \<Rightarrow> 's Repository \<Rightarrow> gotime \<Rightarrow> 's \<Rightarrow> ConsumeCommand \<Rightarrow> 's \<times> (confirm_error + Confirmation)" where
  "Service_Consume X R clock st c =
    (if consume_bad X c then (st, Inl ErrInvalid_cc)
     else if R_bindingReader R = None \<and> \<not> R_currentReader R then (st, Inl ErrBindingUnavailable_cc)
     else let c1 = c\<lparr>cs_ResolveBinding := resolver R st (cs_ConfirmationID c) (cs_ResolveBinding c), cs_At := now_or clock (cs_At c)\<rparr> in
       R_Consume R st (c1\<lparr>cs_RequestDigest := consumeDigest X c1\<rparr>))"

definition Service_Expire :: "ext \<Rightarrow> 's Repository \<Rightarrow> gotime \<Rightarrow> 's \<Rightarrow> ExpireCommand \<Rightarrow> 's \<times> (confirm_error + Confirmation)" where
  "Service_Expire X R clock st c0 =
    (if \<not> validateUUID X (xp_IdempotencyKey c0) \<or> \<not> validateUUID X (xp_ConfirmationID c0) \<or> xp_ExpectedRevision c0 < 1
     then (st, Inl ErrInvalid_cc)
     else let c = c0\<lparr>xp_Reason := TrimSpace (xp_Reason c0)\<rparr> in
       if xp_Reason c \<noteq> ReasonExpired \<and> xp_Reason c \<noteq> ReasonStale then (st, Inl ErrInvalid_cc)
       else let c1 = c\<lparr>xp_At := now_or clock (xp_At c)\<rparr> in R_Expire R st (c1\<lparr>xp_RequestDigest := expireDigest X c1\<rparr>))"

definition Service_ReleaseReservation :: "ext \<Rightarrow> 's Repository \<Rightarrow> 's \<Rightarrow> ReleaseReservationCommand \<Rightarrow> 's \<times> (confirm_error + Confirmation)" where
  "Service_ReleaseReservation X R st c = (if release_bad X c then (st, Inl ErrInvalid_cc)
     else R_ReleaseReservation R st (c\<lparr>rl_RequestDigest := releaseDigest X c\<rparr>))"

definition Service_Acknowledge :: "ext \<Rightarrow> 's Repository \<Rightarrow> 's \<Rightarrow> AckCommand \<Rightarrow> 's \<times> (confirm_error + AckResult)" where
  "Service_Acknowledge X R st c0 = (let c = c0\<lparr>ak_OwnerID := TrimSpace (ak_OwnerID c0)\<rparr> in
     if ack_bad X c then (st, Inl ErrInvalid_cc)
     else (case R_Acknowledger R of None \<Rightarrow> (st, Inl ErrBindingUnavailable_cc) | Some ack \<Rightarrow> ack st c))"

definition Service_TerminalizeTask :: "ext \<Rightarrow> 's Repository \<Rightarrow> gotime \<Rightarrow> 's \<Rightarrow> TaskTerminalCommand \<Rightarrow> 's \<times> confirm_error option" where
  "Service_TerminalizeTask X R clock st c =
    (if \<not> validateUUID X (tt_TaskID c) \<or> tt_Reason c \<noteq> ''canceled'' \<and> tt_Reason c \<noteq> ''timed_out'' then (st, Some ErrInvalid_cc)
     else (case R_TaskTerminalizer R of None \<Rightarrow> (st, Some ErrBindingUnavailable_cc)
       | Some terminalize \<Rightarrow> terminalize st (c\<lparr>tt_At := now_or clock (tt_At c)\<rparr>)))"

record ExpirySweeper =
  sw_limit :: int

definition NewExpirySweeper :: "bool \<Rightarrow> int \<Rightarrow> confirm_error + ExpirySweeper" where
  "NewExpirySweeper store limit = (if \<not> store \<or> limit < 1 \<or> limit > 1000 then Inl ErrInvalid_cc else Inr \<lparr>sw_limit = limit\<rparr>)"

definition Sweep :: "('s \<Rightarrow> gotime \<Rightarrow> int \<Rightarrow> 's \<times> (confirm_error + int)) \<Rightarrow> gotime \<Rightarrow> ExpirySweeper \<Rightarrow> 's \<Rightarrow> 's \<times> (confirm_error + int)" where
  "Sweep sweepExpired clock s st = sweepExpired st (to_UTC clock) (sw_limit s)"

end
