(* ===== verification/Confirm_Access.thy ===== *)
theory Confirm_Access
  imports Confirm_Service
begin

text \<open>
  Who can see and change a confirmation through the service: the contract of a store that the service relies
  on (locale \<open>confirmation_store\<close>, provided by the repository in memory), the isolation of foreign
  confirmations, and the complete listing of one's own.
\<close>

definition may_see :: "Authority \<Rightarrow> Confirmation \<Rightarrow> bool" where
  "may_see a v \<longleftrightarrow> authorizeConfirmation v a = None"

definition owned_by_another :: "Authority \<Rightarrow> Confirmation \<Rightarrow> bool" where
  "owned_by_another a v \<longleftrightarrow> TrimSpace (c_OwnerID v) \<notin> {[], TrimSpace (au_OwnerID a)}
     \<or> TrimSpace (b_OwnerID (c_Binding v)) \<notin> {[], TrimSpace (au_OwnerID a)}"

section \<open>The contract of a store\<close>

text \<open>A confirmation or rejection writes only the confirmation it names, and keeps the invariant of the store.\<close>

locale confirmation_store =
  fixes good :: "'s \<Rightarrow> bool"
    and R :: "'s Repository"
  assumes confirm_frame: "good st \<Longrightarrow> k \<noteq> cf_ConfirmationID c \<Longrightarrow> R_Get R (fst (R_Confirm R st c)) k = R_Get R st k"
    and reject_frame: "good st \<Longrightarrow> k \<noteq> rj_ConfirmationID d \<Longrightarrow> R_Get R (fst (R_Reject R st d)) k = R_Get R st k"
    and confirm_unknown: "good st \<Longrightarrow> R_Get R st (cf_ConfirmationID c) = Inl e \<Longrightarrow> R_Get R (fst (R_Confirm R st c)) k = R_Get R st k"
    and reject_unknown: "good st \<Longrightarrow> R_Get R st (rj_ConfirmationID d) = Inl e \<Longrightarrow> R_Get R (fst (R_Reject R st d)) k = R_Get R st k"
    and trimmed: "good st \<Longrightarrow> R_Get R st k = Inr v \<Longrightarrow> TrimSpace k = k"
begin

lemma confirm_isolated:
  assumes "good st" "R_Get R st k = Inr v" "\<not> may_see a v"
  shows "R_Get R (fst (ConfirmAuthorized X R clock a st c)) k = Inr v"
proof (cases "GetAuthorized X R a st (cf_ConfirmationID c)")
  case (Inl e)
  with assms(2) show ?thesis by (simp add: ConfirmAuthorized_def)
next
  case (Inr w)
  then have w: "R_Get R st (TrimSpace (cf_ConfirmationID c)) = Inr w" "may_see a w"
    by (auto simp: GetAuthorized_def Service_Get_def may_see_def split: sum.splits option.splits if_splits)
  have "R_Get R (fst (R_Confirm R st d)) k = Inr v" if d: "cf_ConfirmationID d = cf_ConfirmationID c" for d
  proof (cases "R_Get R st (cf_ConfirmationID c)")
    case (Inl e)
    with confirm_unknown [OF assms(1)] d assms(2) show ?thesis by simp
  next
    case (Inr u)
    with trimmed [OF assms(1) Inr] w(1) have "u = w" by simp
    with Inr w(2) assms(2,3) have "k \<noteq> cf_ConfirmationID d" using d by auto
    with confirm_frame [OF assms(1)] assms(2) show ?thesis by simp
  qed
  then show ?thesis using Inr assms(2) by (simp add: ConfirmAuthorized_def Service_Confirm_def Let_def)
qed

lemma reject_isolated:
  assumes "good st" "R_Get R st k = Inr v" "\<not> may_see a v"
  shows "R_Get R (fst (RejectAuthorized X R clock a st c)) k = Inr v"
proof (cases "GetAuthorized X R a st (rj_ConfirmationID c)")
  case (Inl e)
  with assms(2) show ?thesis by (simp add: RejectAuthorized_def)
next
  case (Inr w)
  then have w: "R_Get R st (TrimSpace (rj_ConfirmationID c)) = Inr w" "may_see a w"
    by (auto simp: GetAuthorized_def Service_Get_def may_see_def split: sum.splits option.splits if_splits)
  have "R_Get R (fst (R_Reject R st d)) k = Inr v" if d: "rj_ConfirmationID d = rj_ConfirmationID c" for d
  proof (cases "R_Get R st (rj_ConfirmationID c)")
    case (Inl e)
    with reject_unknown [OF assms(1)] d assms(2) show ?thesis by simp
  next
    case (Inr u)
    with trimmed [OF assms(1) Inr] w(1) have "u = w" by simp
    with Inr w(2) assms(2,3) have "k \<noteq> rj_ConfirmationID d" using d by auto
    with reject_frame [OF assms(1)] assms(2) show ?thesis by simp
  qed
  then show ?thesis using Inr assms(2) by (simp add: RejectAuthorized_def Service_Reject_def Let_def)
qed

end

text \<open>The repository in memory keeps the contract while its items are keyed by identifiers without blanks around them.\<close>

definition memory_good :: "MemoryRepository \<Rightarrow> bool" where
  "memory_good r \<longleftrightarrow> repo_ok r \<and> (\<forall>k\<in>set (order r). TrimSpace k = k) \<and> order_ok r"

lemma memory_good_run: "repo_run X NewMemoryRepository cs r \<Longrightarrow> \<forall>k\<in>set (order r). TrimSpace k = k \<Longrightarrow> memory_good r"
  using repo_run_order [OF _ new_ok new_order] repo_run_ok [OF _ new_ok] by (auto simp: memory_good_def)

lemma memory_good_facts:
  assumes "memory_good r"
  shows "lookup (items r) j = Some v \<Longrightarrow> c_ConfirmationID v = j" "lookup (items r) j = Some v \<Longrightarrow> TrimSpace j = j"
  using assms by (auto simp: memory_good_def repo_ok_def order_ok_def)

lemma memory_Get [simp]: "R_Get (memory_repository X J clock fresh) = Get" "R_Confirm (memory_repository X J clock fresh) = Confirm X clock"
    "R_Reject (memory_repository X J clock fresh) = Reject X clock" "R_List (memory_repository X J clock fresh) = List_page X J"
  by (simp_all add: memory_repository_def)

lemma Get_Inr [simp]: "Get r k = Inr v \<longleftrightarrow> lookup (items r) k = Some v"
  by (simp add: Get_def split: option.split)

lemma Get_Inl [simp]: "Get r k = Inl e \<longleftrightarrow> lookup (items r) k = None \<and> e = ErrNotFound_cc"
  by (auto simp: Get_def split: option.split)

interpretation memory_store: confirmation_store memory_good "memory_repository X J clock fresh" for X J clock fresh
proof (unfold_locales, goal_cases)
  case (1 r k c)
  with memory_good_facts(1) [OF 1(1)] Confirm_outcome [OF surjective_pairing, of X clock r c] show ?case
    by (auto simp: Get_def)
next
  case (2 r k d)
  with memory_good_facts(1) [OF 2(1)] Reject_outcome [OF surjective_pairing, of X clock r d] show ?case
    by (auto simp: Get_def)
next
  case (3 r c e k)
  with Confirm_outcome [OF surjective_pairing, of X clock r c] show ?case by auto
next
  case (4 r d e k)
  with Reject_outcome [OF surjective_pairing, of X clock r d] show ?case by auto
next
  case (5 r k v)
  then show ?case using memory_good_facts(2) by auto
qed

section \<open>Properties\<close>

text \<open>A caller changes nothing it may not see: in every reachable state, whatever an authority confirms or rejects through
  the service, a confirmation that it is not authorised for stays exactly as it was.\<close>
theorem foreign_confirmations_untouched:
  assumes "repo_run X NewMemoryRepository cs r" "\<forall>k\<in>set (order r). TrimSpace k = k" "lookup (items r) k = Some v" "\<not> may_see a v"
  shows "lookup (items (fst (ConfirmAuthorized X (memory_repository X J clock fresh) now a r c))) k = Some v
    \<and> lookup (items (fst (RejectAuthorized X (memory_repository X J clock fresh) now a r d))) k = Some v"
  using memory_store.confirm_isolated [OF memory_good_run [OF assms(1,2)] _ assms(4), where k = k]
    memory_store.reject_isolated [OF memory_good_run [OF assms(1,2)] _ assms(4), where k = k] assms(3)
  by simp

text \<open>A codec in which every cursor has its own text.\<close>

definition ex_codec :: cursor_json where
  "ex_codec = \<lparr>cursor_Marshal = (\<lambda>c. replicate (nat (instant (cu_CreatedAt c))) (CHR ''1'') @ ''0'' @ replicate (length (cu_ID c)) (CHR ''1'') @ ''0''
        @ cu_ID c @ cu_Filter c),
     cursor_Unmarshal = (\<lambda>s. let t = takeWhile (\<lambda>c. c = CHR ''1'') s; s1 = drop (Suc (length t)) s; l = length (takeWhile (\<lambda>c. c = CHR ''1'') s1);
        s2 = drop (Suc l) s1 in Some \<lparr>cu_CreatedAt = \<lparr>instant = int (length t), zone = UTC\<rparr>, cu_ID = take l s2, cu_Filter = drop l s2\<rparr>)\<rparr>"

definition ex_stranger :: Authority where "ex_stranger = \<lparr>au_OwnerID = ''other'', au_AccountGeneration = 1\<rparr>"

definition ex_reject :: RejectCommand where
  "ex_reject = \<lparr>rj_ConfirmationID = ex_id 4, rj_IdempotencyKey = ex_id 3, rj_RequestDigest = [], rj_ExpectedRevision = 1, rj_Reason = [],
     rj_Note = [], rj_At = ex_time 200\<rparr>"

definition ex_owner :: Authority where "ex_owner = \<lparr>au_OwnerID = ''owner'', au_AccountGeneration = 1\<rparr>"

lemma ex_authorities: "Authority_normalize ex_owner = Inr ex_owner" "Authority_normalize ex_stranger = Inr ex_stranger"
    "\<not> may_see ex_stranger (ex_confirmation s n t)" "owned_by_another ex_stranger (ex_confirmation s n t)"
    "may_see ex_owner (ex_confirmation s n t)"
  by (simp_all add: Authority_normalize_def ex_owner_def ex_stranger_def may_see_def authorizeConfirmation_def Let_def
      owned_by_another_def ex_confirmation_def ex_binding_def)

lemma ex_r1_item: "lookup (items ex_r1) (ex_id 4) = Some (ex_confirmation StatePending 1 100)" "order ex_r1 = [ex_id 4]"
  by (simp_all add: ex_r1_def lookup_def)

theorem foreign_confirmations_untouched_witness:
  "lookup (items (fst (ConfirmAuthorized ex (memory_repository ex ex_codec time_zero (ex_id 9)) (ex_time 300) ex_stranger ex_r1 ex_confirm))) (ex_id 4)
     = Some (ex_confirmation StatePending 1 100)"
  using foreign_confirmations_untouched [OF ex_repo_run(1) _ ex_r1_item(1) ex_authorities(3)] by (simp add: ex_r1_item)

text \<open>The existence of another owner's confirmation is not disclosed: to an authority, reading, confirming or rejecting an
  identifier that belongs to another owner answers exactly what it answers when the identifier does not exist.\<close>
theorem foreign_confirmations_hidden:
  assumes "Authority_normalize a = Inr a'" "R_Get R st (TrimSpace k) = Inr v" "owned_by_another a v"
    "R_Get R st' (TrimSpace k) = Inl ErrNotFound_cc" "cf_ConfirmationID c = k" "rj_ConfirmationID d = k"
  shows "GetAuthorized X R a st k = GetAuthorized X R a st' k
    \<and> ConfirmAuthorized X R clock a st c = (st, snd (ConfirmAuthorized X R clock a st' c))
    \<and> RejectAuthorized X R clock a st d = (st, snd (RejectAuthorized X R clock a st' d))"
proof -
  from assms(1) have o: "au_OwnerID a' = TrimSpace (au_OwnerID a)" by (auto simp: Authority_normalize_def Let_def split: if_splits)
  have "authorizeConfirmation v a = Some ErrNotFound_cc"
    using assms(1,3) by (auto simp: authorizeConfirmation_def owned_by_another_def o Let_def)
  with assms(2,4) have "GetAuthorized X R a st k = Inl (if validateUUID X k then ErrNotFound_cc else ErrInvalid_cc)"
    "GetAuthorized X R a st' k = Inl (if validateUUID X k then ErrNotFound_cc else ErrInvalid_cc)"
    by (auto simp: GetAuthorized_def Service_Get_def)
  with assms(5,6) show ?thesis by (simp add: ConfirmAuthorized_def RejectAuthorized_def)
qed

theorem foreign_confirmations_hidden_witness:
  "GetAuthorized ex (memory_repository ex ex_codec time_zero (ex_id 9)) ex_stranger ex_r1 (ex_id 4)
     = GetAuthorized ex (memory_repository ex ex_codec time_zero (ex_id 9)) ex_stranger NewMemoryRepository (ex_id 4)"
proof -
  have "R_Get (memory_repository ex ex_codec time_zero (ex_id 9)) ex_r1 (TrimSpace (ex_id 4)) = Inr (ex_confirmation StatePending 1 100)"
    "R_Get (memory_repository ex ex_codec time_zero (ex_id 9)) NewMemoryRepository (TrimSpace (ex_id 4)) = Inl ErrNotFound_cc"
    "cf_ConfirmationID ex_confirm = ex_id 4" "rj_ConfirmationID ex_reject = ex_id 4"
    by (simp_all add: ex_r1_item NewMemoryRepository_def ex_confirm_def ex_reject_def)
  from foreign_confirmations_hidden [OF ex_authorities(2) this(1) ex_authorities(4) this(2-4)] show ?thesis by simp
qed

lemma authorized_pages: "Authority_normalize a = Inr a' \<Longrightarrow>
    ListAuthorized (memory_repository X J clock fresh) a r q = (case List_page X J r q of Inl e \<Rightarrow> Inl e
      | Inr p \<Rightarrow> Inr (p\<lparr>pg_Confirmations := filter (may_see a) (pg_Confirmations p)\<rparr>))"
  by (auto simp: ListAuthorized_def Service_List_def may_see_def [abs_def] List_page_def split: sum.split)

text \<open>C10. The authorised listing is complete and exact: following the page tokens from the first page, an authority reads, in the order
  of creation and each once, all the confirmations that match the query and that it may see, and nothing else. One more page than there are
  confirmations is always enough.\<close>
theorem ListAuthorized_complete:
  assumes "repo_run X NewMemoryRepository cs r" "cursor_roundtrip J" "listable X r q" "0 \<le> lq_PageSize q" "lq_PageSize q \<le> 100"
    "list_all validState (lq_States q)" "lq_PageToken q = []" "Authority_normalize a = Inr a'"
  shows "\<exists>vs. read_pages (ListAuthorized (memory_repository X J clock fresh) a r) (Suc (length (order r))) q = Some vs
    \<and> set vs = {v. \<exists>k. lookup (items r) k = Some v \<and> selected q v \<and> may_see a v} \<and> distinct vs \<and> sorted (map page_order vs)"
proof -
  have L: "listing X J r q" using listing_run assms(1-6) by blast
  have n: "length (all_selected r q) < Suc (length (order r))" by (simp add: all_selected_def less_Suc_eq_le)
  have q: "q\<lparr>lq_PageToken := []\<rparr> = q" using assms(7) by simp
  have "read_pages (List_page X J r) (Suc (length (order r))) q = Some (all_selected r q)"
    using all_pages [OF L n] unfolding q .
  then have p: "read_pages (ListAuthorized (memory_repository X J clock fresh) a r) (Suc (length (order r))) q
      = Some (filter (may_see a) (all_selected r q))"
    by (subst read_pages_filter [OF authorized_pages [OF assms(8)]]) simp
  have ord: "order_ok r" by (rule repo_run_order [OF assms(1) new_ok new_order])
  have "set (all_selected r q) = {v. \<exists>k. lookup (items r) k = Some v \<and> selected q v}"
  proof -
    have "k \<in> set (order r) \<longleftrightarrow> (\<exists>v. lookup (items r) k = Some v)" for k using ord by (auto simp: order_ok_def)
    then show ?thesis by (force simp: all_selected_def item_at_def split: option.splits)
  qed
  moreover have "distinct (all_selected r q)" using listed_keys [OF L] distinct_map by blast
  moreover have "sorted (map page_order (filter (may_see a) (all_selected r q)))"
    by (rule sorted_filter) (simp add: all_selected_def)
  ultimately show ?thesis using p by (intro exI [of _ "filter (may_see a) (all_selected r q)"]) auto
qed

lemma takeWhile_unary: "takeWhile (\<lambda>c. c = CHR ''1'') (replicate n (CHR ''1'') @ CHR ''0'' # s) = replicate n (CHR ''1'')"
  by (induction n) auto

lemma ex_codec_roundtrip: "cursor_roundtrip ex_codec"
proof -
  have "cursor_Unmarshal ex_codec (cursor_Marshal ex_codec c) = Some c" if "cursor_plain c" for c
  proof -
    have "\<lparr>instant = instant (cu_CreatedAt c), zone = UTC\<rparr> = cu_CreatedAt c" "0 \<le> instant (cu_CreatedAt c)"
      using that by (auto simp: cursor_plain_def InUTC_def)
    then show ?thesis by (simp add: ex_codec_def Let_def takeWhile_unary)
  qed
  then show ?thesis by (simp add: cursor_roundtrip_def) (simp add: ex_codec_def)
qed

definition ex_query :: ListQuery where
  "ex_query = \<lparr>lq_PageSize = 1, lq_PageToken = [], lq_Domain = ''install'', lq_TargetID = [], lq_States = [StatePending]\<rparr>"

lemma lower_hex_ascii: "lower_hex64 s \<Longrightarrow> is_ascii s"
  by (auto simp: lower_hex64_def is_ascii_def list_all_iff hex_lower_def Let_def)

lemma ex_listable: "listable ex ex_r1 ex_query"
proof -
  have "lower_hex64 (filter_digest ex ex_query)" unfolding filter_digest_def canonicalDigest_def
    using ex_sha_size by (intro sha256_hex_digest) (simp add: sha_size_def)
  then have "is_ascii (filter_digest ex ex_query)" by (rule lower_hex_ascii)
  moreover have "is_ascii (ex_id 4)" by (simp add: ex_id_def is_ascii_def hex_char_def)
  moreover have "c_CreatedAt (item_at ex_r1 (ex_id 4)) = ex_time 100" by (simp add: item_at_def ex_r1_item ex_confirmation_def)
  ultimately show ?thesis by (simp add: listable_def ex_r1_item cursor_plain_def) (simp add: ex_times)
qed

theorem ListAuthorized_complete_witness:
  "\<exists>vs. read_pages (ListAuthorized (memory_repository ex ex_codec time_zero (ex_id 9)) ex_owner ex_r1) 2 ex_query = Some vs
    \<and> set vs = {v. \<exists>k. lookup (items ex_r1) k = Some v \<and> selected ex_query v \<and> may_see ex_owner v} \<and> distinct vs \<and> sorted (map page_order vs)"
proof -
  have q: "0 \<le> lq_PageSize ex_query" "lq_PageSize ex_query \<le> 100" "list_all validState (lq_States ex_query)" "lq_PageToken ex_query = []"
    by (simp_all add: ex_query_def validState_def)
  have "Suc (length (order ex_r1)) = 2" by (simp add: ex_r1_item)
  with ListAuthorized_complete [OF ex_repo_run(1) ex_codec_roundtrip ex_listable q ex_authorities(1)] show ?thesis by simp
qed

text \<open>A page token reads back. The token of a page is empty exactly if nothing follows the page; otherwise it decodes, for a query with the same filter, to the creation time and the identifier of the last
  confirmation of the page, and is refused for a query with any other filter.\<close>

theorem page_token_roundtrip:
  assumes "cursor_roundtrip J" "0 < n" "\<And>v. v \<in> set vs \<Longrightarrow> cursor_plain \<lparr>cu_CreatedAt = c_CreatedAt v, cu_ID = c_ConfirmationID v, cu_Filter = flt\<rparr>"
  shows "(pg_NextPageToken (page_of J n flt vs) = []) = (length vs \<le> n) \<and>
    (n < length vs \<longrightarrow> read_cursor J other (pg_NextPageToken (page_of J n flt vs)) = (if other = flt
       then let v = last (pg_Confirmations (page_of J n flt vs)) in Inr \<lparr>cu_CreatedAt = c_CreatedAt v, cu_ID = c_ConfirmationID v, cu_Filter = flt\<rparr> else Inl ErrInvalid_cc))"
proof (cases "n < length vs")
  case True
  let ?v = "vs ! (n - 1)"
  let ?c = "\<lparr>cu_CreatedAt = c_CreatedAt ?v, cu_ID = c_ConfirmationID ?v, cu_Filter = flt\<rparr>"
  have v: "?v \<in> set vs" using True by simp
  have "cursor_Marshal J ?c \<noteq> [] \<and> cursor_Unmarshal J (cursor_Marshal J ?c) = Some ?c" using assms(1) assms(3) [OF v] unfolding cursor_roundtrip_def by blast
  moreover have "last (take n vs) = ?v"
  proof -
    have "last (take n vs) = take n vs ! (length (take n vs) - 1)" using True assms(2) by (intro last_conv_nth) auto
    then show ?thesis using True assms(2) by simp
  qed
  ultimately show ?thesis using True by (auto simp: page_of_def Let_def read_cursor_def b64_roundtrip EncodeToString_Nil)
qed (simp add: page_of_def)

theorem page_token_roundtrip_witness:
  "read_cursor ex_codec ''f'' (pg_NextPageToken (page_of ex_codec 1 ''f'' [ex_confirmation StatePending 1 100, ex_confirmation StateConfirmed 2 200]))
     = Inr \<lparr>cu_CreatedAt = ex_time 100, cu_ID = ex_id 4, cu_Filter = ''f''\<rparr>"
proof -
  have "is_ascii (ex_id 4)" "is_ascii ''f''" by (simp_all add: ex_id_def is_ascii_def hex_char_def)
  then have p: "cursor_plain \<lparr>cu_CreatedAt = c_CreatedAt v, cu_ID = c_ConfirmationID v, cu_Filter = ''f''\<rparr>"
    if "v \<in> set [ex_confirmation StatePending 1 100, ex_confirmation StateConfirmed 2 200]" for v
    using that by (auto simp: cursor_plain_def ex_confirmation_def ex_times)
  have "c_CreatedAt (ex_confirmation StatePending 1 100) = ex_time 100" "c_ConfirmationID (ex_confirmation StatePending 1 100) = ex_id 4" by (simp_all add: ex_confirmation_def)
  with page_token_roundtrip [where n = 1 and other = "''f''" and vs = "[ex_confirmation StatePending 1 100, ex_confirmation StateConfirmed 2 200]", OF ex_codec_roundtrip _ p] show ?thesis by (simp add: page_of_def Let_def)
qed

end
