(* ===== verification/Confirm_Binding.thy ===== *)
theory Confirm_Binding
  imports Confirm_Example
begin

text \<open>
  Bindings: normalisation reaches a fixed point, the comparison of two bindings is an equivalence on the
  accepted ones and compares normal forms, and the public projection of a cloud worker's binding depends
  on nothing private.
\<close>

section \<open>Lists of grants\<close>

definition grant_ok :: "string \<Rightarrow> bool" where
  "grant_ok v \<longleftrightarrow> TrimSpace v = v \<and> v \<noteq> [] \<and> length v \<le> 256 \<and> \<not> ContainsAny v line_breaks"

lemma grant_loop_ok: "grant_loop vs acc = Inr r \<Longrightarrow> distinct acc \<Longrightarrow> list_all grant_ok acc \<Longrightarrow> distinct r \<and> list_all grant_ok r"
  by (induction vs acc rule: grant_loop.induct) (auto simp: Let_def grant_ok_def split: if_splits)

lemma grant_loop_fixed: "distinct (acc @ vs) \<Longrightarrow> list_all grant_ok vs \<Longrightarrow> grant_loop vs acc = Inr (acc @ vs)"
  by (induction vs arbitrary: acc) (auto simp: grant_ok_def not_less)

lemma normalizeGrantList_fixed: "normalizeGrantList vs = Inr r \<Longrightarrow> normalizeGrantList r = Inr r"
  using grant_loop_ok [of vs "[]"]
  by (auto simp: normalizeGrantList_def grant_loop_fixed list_all_iff sort_key_id_if_sorted split: sum.splits)

definition secret_ok :: "ext \<Rightarrow> SecretGrant \<Rightarrow> bool" where
  "secret_ok X g \<longleftrightarrow> TrimSpace (sg_ReferenceID g) = sg_ReferenceID g \<and> validateUUID X (sg_ReferenceID g) \<and> validSecretPurpose (sg_Purpose g)
     \<and> Digest_Valid X (sg_BindingDigest g)"

lemma secret_loop_ok: "secret_grant_loop X gs acc = Inr r \<Longrightarrow> distinct (map secret_grant_key acc) \<Longrightarrow> list_all (secret_ok X) acc \<Longrightarrow>
    distinct (map secret_grant_key r) \<and> list_all (secret_ok X) r"
  by (induction X gs acc rule: secret_grant_loop.induct) (auto simp: Let_def secret_ok_def split: if_splits)

lemma secret_loop_fixed: "distinct (map secret_grant_key (acc @ gs)) \<Longrightarrow> list_all (secret_ok X) gs \<Longrightarrow>
    secret_grant_loop X gs acc = Inr (acc @ gs)"
proof (induction gs arbitrary: acc)
  case (Cons g gs)
  then have "g\<lparr>sg_ReferenceID := sg_ReferenceID g\<rparr> = g" by simp
  with Cons show ?case by (auto simp: secret_ok_def Let_def)
qed simp

lemma normalizeSecretGrantList_fixed:
  assumes "normalizeSecretGrantList X gs = Inr r"
  shows "normalizeSecretGrantList X r = Inr r"
proof -
  from assms obtain l where l: "secret_grant_loop X gs [] = Inr l" "r = sort_key secret_grant_order l"
    by (auto simp: normalizeSecretGrantList_def split: sum.splits)
  from secret_loop_ok [OF l(1)] have "distinct (map secret_grant_key l)" "list_all (secret_ok X) l" by simp_all
  then have "distinct (map secret_grant_key r)" "list_all (secret_ok X) r" by (auto simp: l(2) distinct_map list_all_iff)
  then have "secret_grant_loop X r [] = Inr r" using secret_loop_fixed [of "[]" r X] by simp
  moreover have "sort_key secret_grant_order r = r" by (simp add: l(2) sort_key_id_if_sorted)
  ultimately show ?thesis by (simp add: normalizeSecretGrantList_def)
qed

section \<open>Normal forms\<close>

lemma binding_trim_trim: "binding_trim (binding_trim b) = binding_trim b"
  by (simp add: binding_trim_def)

lemma quote_trim_trim [simp]: "quote_trim (quote_trim q) = quote_trim q"
  by (simp add: quote_trim_def to_UTC_def)

text \<open>What the normalisation writes after the trimming does not change the checks it has made.\<close>

definition put_grants :: "LiveQuote option \<Rightarrow> string list \<Rightarrow> SecretGrant list \<Rightarrow> Binding \<Rightarrow> Binding" where
  "put_grants q nets secs b = b\<lparr>b_Quote := q, b_NetworkGrants := Some nets, b_SecretGrants := Some secs\<rparr>"

lemma put_grants_checks [simp]:
  "cloudFields (put_grants q nets secs b) = cloudFields b" "binding_base_ok X (put_grants q nets secs b) = binding_base_ok X b"
  "owner_ok (put_grants q nets secs b) = owner_ok b" "binding_trim (put_grants q nets secs b) = put_grants q nets secs (binding_trim b)"
  "b_SelectedCommand (put_grants q nets secs b) = b_SelectedCommand b" "b_Quote (put_grants q nets secs b) = q"
  "b_NetworkGrants (put_grants q nets secs b) = Some nets" "b_SecretGrants (put_grants q nets secs b) = Some secs"
  by (simp_all add: put_grants_def cloudFields_def binding_base_ok_def owner_ok_def binding_trim_def)

lemma cloud_ok_quote: "cloud_ok X b \<Longrightarrow> cloud_ok X (put_grants (map_option quote_trim (b_Quote b)) nets secs b)"
  by (auto simp: cloud_ok_def put_grants_def quote_trim_def gotime_simps split: option.splits)

lemma Binding_normalized_Inr: "Binding_normalized X b0 = Inr r \<longleftrightarrow> (let b = binding_trim b0; q = (if cloudFields b then map_option quote_trim (b_Quote b) else b_Quote b) in
    binding_base_ok X b \<and> (cloudFields b \<longrightarrow> cloud_ok X b) \<and> owner_ok b
    \<and> \<not> list_ex (\<lambda>c. c = [] \<or> ContainsAny c command_breaks) (elems (b_SelectedCommand b))
    \<and> (\<exists>nets secs. normalizeGrantList (elems (b_NetworkGrants b)) = Inr nets \<and> normalizeSecretGrantList X (elems (b_SecretGrants b)) = Inr secs
        \<and> r = put_grants q nets secs b \<and> (cloudFields b \<longrightarrow> b_Digest r = canonicalDigest X (binding_json X (r\<lparr>b_Digest := []\<rparr>)))))"
proof -
  have o: "owner_ok (b\<lparr>b_Quote := q\<rparr>) = owner_ok b" for b q by (simp add: owner_ok_def)
  show ?thesis
    unfolding Binding_normalized_def Let_def by (auto simp: o put_grants_def split: if_splits)
qed

lemma Binding_normalized_fixed:
  assumes "Binding_normalized X b0 = Inr r"
  shows "Binding_normalized X r = Inr r"
proof -
  define b where "b = binding_trim b0"
  define q where "q = (if cloudFields b then map_option quote_trim (b_Quote b) else b_Quote b)"
  from assms obtain nets secs where c: "binding_base_ok X b" "cloudFields b \<longrightarrow> cloud_ok X b" "owner_ok b"
      "\<not> list_ex (\<lambda>c. c = [] \<or> ContainsAny c command_breaks) (elems (b_SelectedCommand b))"
      "normalizeGrantList (elems (b_NetworkGrants b)) = Inr nets" "normalizeSecretGrantList X (elems (b_SecretGrants b)) = Inr secs"
    and r: "r = put_grants q nets secs b" "cloudFields b \<longrightarrow> b_Digest r = canonicalDigest X (binding_json X (r\<lparr>b_Digest := []\<rparr>))"
    unfolding Binding_normalized_Inr Let_def b_def [symmetric] q_def [symmetric] by blast
  have t: "binding_trim r = r" by (simp add: r(1) b_def binding_trim_trim)
  have "cloudFields r = cloudFields b" "b_Quote r = q" by (simp_all add: r(1))
  moreover have "cloudFields b \<longrightarrow> map_option quote_trim q = q" by (simp add: q_def option.map_comp comp_def)
  moreover have "put_grants q nets secs r = r" by (simp add: r(1) put_grants_def)
  moreover have "cloudFields b \<longrightarrow> cloud_ok X r" using c(2) cloud_ok_quote [of X b nets secs] by (simp add: r(1) q_def)
  ultimately show ?thesis
    using c r(2) normalizeGrantList_fixed [OF c(5)] normalizeSecretGrantList_fixed [OF c(6)]
    by (simp add: Binding_normalized_Inr t Let_def) (auto simp: r(1))
qed

text \<open>The comparison looks at every field of the normal forms, and does not tell a nil command from an empty one.\<close>

definition norm_cmd :: "Binding \<Rightarrow> Binding" where
  "norm_cmd b = b\<lparr>b_SelectedCommand := Some (elems (b_SelectedCommand b)), b_NetworkGrants := Some (elems (b_NetworkGrants b)),
     b_SecretGrants := Some (elems (b_SecretGrants b))\<rparr>"

lemma Binding_Equal_iff: "Binding_Equal X a b \<longleftrightarrow> (\<exists>n m. Binding_normalized X a = Inr n \<and> Binding_normalized X b = Inr m \<and> norm_cmd n = norm_cmd m)"
proof -
  have "norm_cmd n = norm_cmd m \<longleftrightarrow> b_OwnerID n = b_OwnerID m \<and> b_AccountGeneration n = b_AccountGeneration m \<and> b_OperationDomain n = b_OperationDomain m
     \<and> b_TargetID n = b_TargetID m \<and> b_TargetRevision n = b_TargetRevision m \<and> b_TargetKind n = b_TargetKind m
     \<and> b_SourceVersion n = b_SourceVersion m \<and> b_SourceCommit n = b_SourceCommit m \<and> b_ContentDigest n = b_ContentDigest m
     \<and> b_ManifestDigest n = b_ManifestDigest m \<and> b_ExecutionDigest n = b_ExecutionDigest m
     \<and> b_PermissionDigest n = b_PermissionDigest m \<and> b_ParameterDigest n = b_ParameterDigest m
     \<and> b_NetworkDigest n = b_NetworkDigest m \<and> b_SecretGrantDigest n = b_SecretGrantDigest m
     \<and> b_SelectedTool n = b_SelectedTool m \<and> elems (b_SelectedCommand n) = elems (b_SelectedCommand m)
     \<and> elems (b_NetworkGrants n) = elems (b_NetworkGrants m) \<and> elems (b_SecretGrants n) = elems (b_SecretGrants m)
     \<and> b_ExecutionID n = b_ExecutionID m \<and> b_PlanID n = b_PlanID m \<and> b_PlanRevision n = b_PlanRevision m
     \<and> b_PlanDigest n = b_PlanDigest m \<and> b_RunID n = b_RunID m \<and> b_RunRevision n = b_RunRevision m
     \<and> b_RunDigest n = b_RunDigest m \<and> b_QuoteDigest n = b_QuoteDigest m \<and> b_Quote n = b_Quote m \<and> b_Digest n = b_Digest m" for n m
    by (cases n; cases m) (simp add: norm_cmd_def)
  then show ?thesis by (simp add: Binding_Equal_def split: sum.split)
qed

definition normal_form :: "ext \<Rightarrow> Binding \<Rightarrow> Binding option" where
  "normal_form X b = (case Binding_normalized X b of Inl _ \<Rightarrow> None | Inr n \<Rightarrow> Some (norm_cmd n))"

lemma Binding_Equal_nf: "Binding_Equal X a b \<longleftrightarrow> normal_form X a \<noteq> None \<and> normal_form X a = normal_form X b"
  by (auto simp: Binding_Equal_iff normal_form_def split: sum.splits)

section \<open>Properties\<close>

text \<open>A binding that is accepted has a normal form: normalising it again changes nothing, it equals its normal form, and it is
  equal to exactly the bindings its normal form is equal to. The comparison is symmetric and transitive.\<close>
theorem binding_normal_form:
  assumes "Binding_normalized X b = Inr n"
  shows "Binding_normalized X n = Inr n \<and> Binding_Equal X b n \<and> Binding_Equal X c b = Binding_Equal X n c
    \<and> (Binding_Equal X c b \<and> Binding_Equal X b d \<longrightarrow> Binding_Equal X c d)"
proof (intro conjI)
  note n = Binding_normalized_fixed [OF assms]
  show "Binding_normalized X n = Inr n" by (rule n)
  have s: "normal_form X b = Some (norm_cmd n)" "normal_form X n = Some (norm_cmd n)" by (simp_all add: normal_form_def assms n)
  then show "Binding_Equal X b n" by (simp add: Binding_Equal_nf)
  show "Binding_Equal X c b = Binding_Equal X n c" unfolding Binding_Equal_nf s by (cases "normal_form X c") auto
  show "Binding_Equal X c b \<and> Binding_Equal X b d \<longrightarrow> Binding_Equal X c d" unfolding Binding_Equal_nf by metis
qed

theorem binding_normal_form_witness: "Binding_normalized ex ex_binding = Inr ex_binding \<and> Binding_Equal ex ex_binding ex_binding"
  using binding_normal_form [OF ex_binding_normal, of ex_binding ex_binding] by blast

text \<open>The fields of a cloud worker's binding that its owner may read; of a quote for a persistent service the amounts are private.\<close>

definition visible_quote :: "string \<Rightarrow> LiveQuote \<Rightarrow> u64 \<times> string \<times> gotime \<times> gotime \<times> (int \<times> int) option" where
  "visible_quote kind q = (q_ComputeMicrosPerHour q, q_Currency q, q_SourceTime q, q_ExpiresAt q,
     if kind = TargetKindPersistentService then None else Some (q_AmountMicros q, q_MaximumAuthorizedCostMicros q))"

definition same_public :: "Binding \<Rightarrow> Binding \<Rightarrow> bool" where
  "same_public a b \<longleftrightarrow> TrimSpace (b_OwnerID a) = TrimSpace (b_OwnerID b) \<and> b_AccountGeneration a = b_AccountGeneration b \<and> b_TargetID a = b_TargetID b
     \<and> b_TargetRevision a = b_TargetRevision b \<and> b_TargetKind a = b_TargetKind b \<and> b_ExecutionID a = b_ExecutionID b \<and> b_PlanID a = b_PlanID b
     \<and> b_PlanRevision a = b_PlanRevision b
     \<and> map_option (visible_quote (b_TargetKind a)) (b_Quote a) = map_option (visible_quote (b_TargetKind b)) (b_Quote b)"

text \<open>What leaves the service about a cloud worker's binding reveals nothing private: two bindings that agree on the public
  fields have the same public JSON, however they differ in digests, run, commands, grants and, for a persistent service, amounts.\<close>
theorem public_binding_hides_private:
  assumes "b_OperationDomain a = ''cloud_worker.execute''" "b_OperationDomain b = ''cloud_worker.execute''" "same_public a b"
  shows "PublicBinding_MarshalJSON X (Binding_Public a) = PublicBinding_MarshalJSON X (Binding_Public b)"
proof -
  have "map_option (public_quote (b_TargetKind a)) (b_Quote a) = map_option (public_quote (b_TargetKind b)) (b_Quote b)"
    using assms(3) by (cases "b_Quote a"; cases "b_Quote b") (auto simp: same_public_def visible_quote_def public_quote_def split: if_splits)
  then show ?thesis using assms by (simp add: Binding_Public_def PublicBinding_MarshalJSON_def same_public_def)
qed

definition ex_cloud_binding :: "string \<Rightarrow> int \<Rightarrow> Binding" where
  "ex_cloud_binding digest amount = ex_binding\<lparr>b_OperationDomain := ''cloud_worker.execute'', b_TargetKind := TargetKindPersistentService,
     b_RunDigest := digest, b_Quote := Some \<lparr>q_AmountMicros = amount, q_ComputeMicrosPerHour = 1, q_Currency = ''USD'',
       q_SourceTime = ex_time 1, q_ExpiresAt = ex_time 2, q_MaximumAuthorizedCostMicros = amount\<rparr>\<rparr>"

theorem public_binding_hides_private_witness:
  "ex_cloud_binding ex_digest 5 \<noteq> ex_cloud_binding [] 7 \<and> PublicBinding_MarshalJSON ex (Binding_Public (ex_cloud_binding ex_digest 5))
     = PublicBinding_MarshalJSON ex (Binding_Public (ex_cloud_binding [] 7))"
proof -
  have "ex_cloud_binding ex_digest 5 \<noteq> ex_cloud_binding [] 7" by (simp add: ex_cloud_binding_def ex_binding_def)
  with public_binding_hides_private [of "ex_cloud_binding ex_digest 5" "ex_cloud_binding [] 7" ex] show ?thesis
    by (simp add: ex_cloud_binding_def same_public_def visible_quote_def)
qed

end
