(* ===== verification/Workload_Types.thy ===== *)
theory Workload_Types
  imports Confirm_Memory
begin

text \<open>
  \<^verbatim>\<open>src/internal/coreworkload/types.go\<close>: immutable workload plans, their durable apply and destroy
  operations, the readback of a provider, the digests that bind them, and the confirmation binding of an
  operation; with the pure helpers of \<^verbatim>\<open>src/internal/coreworkload/service.go\<close> and the inputs of
  \<^verbatim>\<open>src/internal/coreworkload/store.go\<close>. A slice whose JSON shows the difference between nil and empty is an
  optional list, a \<open>map[string]string\<close> an association list that the encoder prints in the order of its keys.
\<close>

section \<open>Data\<close>

datatype TargetKind = TargetCoreRunner | TargetKindOther string

fun TargetKind_string :: "TargetKind \<Rightarrow> string" where
  "TargetKind_string TargetCoreRunner = ''CORE_RUNNER''"
| "TargetKind_string (TargetKindOther s) = s"

datatype OperationKind = OperationApply | OperationDestroy | OperationKindOther string

fun OperationKind_string :: "OperationKind \<Rightarrow> string" where
  "OperationKind_string OperationApply = ''apply''"
| "OperationKind_string OperationDestroy = ''destroy''"
| "OperationKind_string (OperationKindOther s) = s"

datatype OperationStatus = OperationWaitingUser | OperationRunning | OperationSucceeded | OperationFailed
  | OperationUncertain | OperationRejected | OperationExpired | OperationCanceled | OperationStatusOther string

datatype workload_error = ErrInvalid_wl | ErrConflict_wl | ErrNotFound_wl | ErrRevisionConflict_wl | ErrStale_wl
  | ErrProvider_wl | redactedError string

record ResourceLimits =
  lim_CPU :: int
  lim_MemoryMB :: int
  lim_Processes :: int
  lim_DiskMB :: int
  lim_TimeoutS :: int
  lim_OutputMB :: int

record TargetIdentity =
  ti_Kind :: TargetKind
  ti_CoreRunnerID :: string
  ti_CoreRunnerService :: string
  ti_ImageDigest :: string

record NetworkGrant =
  ng_ReferenceID :: string
  ng_Kind :: string

record TargetSettings =
  ts_Identity :: TargetIdentity
  ts_Ports :: "int list"
  ts_PortDetails :: "u32 list"
  ts_NetworkGrantDetails :: "NetworkGrant list"
  ts_Labels :: "(string \<times> string) list"

record SecretGrantRef =
  sr_ReferenceID :: string
  sr_Purpose :: SecretPurpose
  sr_BindingDigest :: string

record ActualSnapshot =
  as_WorkloadID :: string
  as_Revision :: u64
  as_State :: string
  as_Identity :: TargetIdentity
  as_AppliedPlanID :: string
  as_AppliedPlanDigest :: string
  as_ReadbackDigest :: string
  as_ProviderVersion :: string
  as_ObservedAt :: gotime
  as_UpdatedAt :: gotime

record Plan =
  pn_ID :: string
  pn_Revision :: u64
  pn_Digest :: string
  pn_Summary :: string
  pn_Artifact :: string
  pn_Source :: string
  pn_CommandSteps :: "string slice"
  pn_ImageDigest :: string
  pn_TargetKind :: TargetKind
  pn_Target :: TargetSettings
  pn_NetworkGrants :: "string slice"
  pn_SecretGrants :: "string slice"
  pn_SecretGrantRefs :: "SecretGrantRef slice"
  pn_ResourceLimits :: ResourceLimits
  pn_ExpiresAt :: gotime
  pn_CreatedAt :: gotime

record Workload =
  wk_ID :: string
  wk_Revision :: u64
  wk_PlanID :: string
  wk_PlanDigest :: string
  wk_TargetKind :: TargetKind
  wk_Identity :: TargetIdentity
  wk_State :: string
  wk_UpdatedAt :: gotime
  wk_Actual :: ActualSnapshot

record Operation =
  op_ID :: string
  op_WorkloadID :: string
  op_PlanID :: string
  op_Kind :: OperationKind
  op_PlanRevision :: u64
  op_PlanDigest :: string
  op_TargetKind :: TargetKind
  op_TaskID :: string
  op_ConfirmationID :: string
  op_Status :: OperationStatus
  op_Revision :: u64
  op_FailureCode :: string
  op_FailureSummary :: string
  op_CreatedAt :: gotime
  op_UpdatedAt :: gotime
  op_DispatchState :: string
  op_DispatchAttempt :: u32
  op_DispatchEpoch :: u64
  op_DispatchClaim :: string
  op_DispatchLeaseUntil :: gotime
  op_CompletionFingerprint :: string

record WorkloadFence =
  wf_TaskID :: string
  wf_Holder :: string
  wf_Attempt :: u32
  wf_LeaseEpoch :: u64
  wf_Revision :: u64
  wf_ExpiresAt :: gotime

record Event =
  ev_OperationID :: string
  ev_Sequence :: u64
  ev_Kind :: string
  ev_Status :: OperationStatus
  ev_Message :: string
  ev_Readback :: string
  ev_At :: gotime

record RequestResult =
  rr_Operation :: Operation
  rr_Task :: Task
  rr_Confirmation :: Confirmation

record Readback =
  rb_TargetKind :: TargetKind
  rb_WorkloadID :: string
  rb_State :: string
  rb_Identity :: TargetIdentity
  rb_ProviderVersion :: string
  rb_Details :: string
  rb_Digest :: string
  rb_At :: gotime

record PlanInput =
  pi_Summary :: string
  pi_Artifact :: string
  pi_Source :: string
  pi_CommandSteps :: "string slice"
  pi_ImageDigest :: string
  pi_TargetKind :: TargetKind
  pi_Target :: TargetSettings
  pi_NetworkGrants :: "string slice"
  pi_SecretGrants :: "string slice"
  pi_SecretGrantRefs :: "SecretGrantRef slice"
  pi_ResourceLimits :: ResourceLimits
  pi_ExpiresAt :: gotime
  pi_IdempotencyKey :: string

record OperationRequest =
  wr_PlanID :: string
  wr_WorkloadID :: string
  wr_IdempotencyKey :: string
  wr_Kind :: OperationKind
  wr_ExpiresAt :: gotime

section \<open>Validation\<close>

definition ValidUUID_wl :: "ext \<Rightarrow> string \<Rightarrow> bool" where
  "ValidUUID_wl X v = (case uuid_Parse X (TrimSpace v) of None \<Rightarrow> False
     | Some u \<Rightarrow> u \<noteq> uuid_Nil \<and> uuid_String X u = TrimSpace v)"

definition ValidDigest_wl :: "ext \<Rightarrow> string \<Rightarrow> bool" where
  "ValidDigest_wl X v = (if length v \<noteq> 64 \<or> ToLower X v \<noteq> v then False else hex_DecodeString_ok v)"

definition validTarget :: "TargetKind \<Rightarrow> bool" where
  "validTarget v \<longleftrightarrow> v = TargetCoreRunner"

definition TargetIdentity_Validate :: "TargetIdentity \<Rightarrow> TargetKind \<Rightarrow> workload_error option" where
  "TargetIdentity_Validate i kind =
    (if ti_Kind i \<noteq> TargetKindOther [] \<and> ti_Kind i \<noteq> kind then Some ErrInvalid_wl
     else (case kind of
       TargetCoreRunner \<Rightarrow> if TrimSpace (ti_CoreRunnerID i) = [] \<or> TrimSpace (ti_CoreRunnerService i) = []
         then Some ErrInvalid_wl else None
     | _ \<Rightarrow> Some ErrInvalid_wl))"

definition WorkloadFence_Valid :: "ext \<Rightarrow> WorkloadFence \<Rightarrow> gotime \<Rightarrow> bool" where
  "WorkloadFence_Valid X f now \<longleftrightarrow> ValidUUID_wl X (wf_TaskID f) \<and> wf_Holder f \<noteq> [] \<and> wf_Attempt f > 0
     \<and> wf_LeaseEpoch f > 0 \<and> wf_Revision f > 0 \<and> \<not> IsZero (wf_ExpiresAt f) \<and> After (wf_ExpiresAt f) (to_UTC now)"

definition Operation_Validate :: "ext \<Rightarrow> Operation \<Rightarrow> workload_error option" where
  "Operation_Validate X o1 =
    (if \<not> ValidUUID_wl X (op_ID o1) \<or> \<not> ValidUUID_wl X (op_WorkloadID o1) \<or> \<not> ValidUUID_wl X (op_PlanID o1)
        \<or> \<not> ValidUUID_wl X (op_TaskID o1) \<or> \<not> ValidUUID_wl X (op_ConfirmationID o1) \<or> \<not> validTarget (op_TargetKind o1)
        \<or> \<not> ValidDigest_wl X (op_PlanDigest o1) \<or> op_PlanRevision o1 = 0 \<or> op_Revision o1 = 0
        \<or> IsZero (op_CreatedAt o1) \<or> IsZero (op_UpdatedAt o1) then Some ErrInvalid_wl
     else if op_Kind o1 \<noteq> OperationApply \<and> op_Kind o1 \<noteq> OperationDestroy then Some ErrInvalid_wl
     else None)"

definition validSecretPurpose_wl :: "SecretPurpose \<Rightarrow> bool" where
  "validSecretPurpose_wl v = (case v of SecretPurposeModelAPIKey \<Rightarrow> True | SecretPurposeMCPCredential \<Rightarrow> True
     | SecretPurposeSkillSecret \<Rightarrow> True | SecretPurposeAWSCredential \<Rightarrow> True | SecretPurposeOtherExtensionSecret \<Rightarrow> True
     | _ \<Rightarrow> False)"

text \<open>\<open>append([]string(nil), in...)\<close> of an empty slice is nil.\<close>

definition copied :: "'a slice \<Rightarrow> 'a slice" where
  "copied xs = (if elems xs = [] then None else Some (elems xs))"

definition normalizeStrings :: "string slice \<Rightarrow> string slice" where
  "normalizeStrings xs = map_option sort (copied xs)"

section \<open>JSON\<close>

definition identity_json :: "TargetIdentity \<Rightarrow> json" where
  "identity_json i = JObj ([(''kind'', JStr (TargetKind_string (ti_Kind i)))]
     @ member (ti_CoreRunnerID i \<noteq> []) ''core_runner_id'' (JStr (ti_CoreRunnerID i))
     @ member (ti_CoreRunnerService i \<noteq> []) ''core_runner_service'' (JStr (ti_CoreRunnerService i))
     @ member (ti_ImageDigest i \<noteq> []) ''image_digest'' (JStr (ti_ImageDigest i)))"

definition settings_json :: "TargetSettings \<Rightarrow> json" where
  "settings_json t = JObj ([(''identity'', identity_json (ts_Identity t))]
     @ member (ts_Ports t \<noteq> []) ''ports'' (JArr (map JInt (ts_Ports t)))
     @ member (ts_PortDetails t \<noteq> []) ''port_details'' (JArr (map (\<lambda>p. JObj [(''port'', JInt (uint p))]) (ts_PortDetails t)))
     @ member (ts_NetworkGrantDetails t \<noteq> []) ''network_grant_details''
         (JArr (map (\<lambda>g. JObj [(''reference_id'', JStr (ng_ReferenceID g)), (''kind'', JStr (ng_Kind g))]) (ts_NetworkGrantDetails t)))
     @ member (ts_Labels t \<noteq> []) ''labels'' (JObj (map (\<lambda>(k, v). (k, JStr v)) (sort_key fst (ts_Labels t)))))"

definition refs_json :: "SecretGrantRef slice \<Rightarrow> json" where
  "refs_json gs = (case gs of None \<Rightarrow> JNull | Some ys \<Rightarrow> JArr (map (\<lambda>g. JObj [(''reference_id'', JStr (sr_ReferenceID g)),
     (''purpose'', JStr (SecretPurpose_string (sr_Purpose g))), (''binding_digest'', JStr (sr_BindingDigest g))]) ys))"

definition limits_json :: "ResourceLimits \<Rightarrow> json" where
  "limits_json l = JObj (member (lim_CPU l \<noteq> 0) ''cpu'' (JInt (lim_CPU l))
     @ member (lim_MemoryMB l \<noteq> 0) ''memory_mb'' (JInt (lim_MemoryMB l))
     @ member (lim_Processes l \<noteq> 0) ''processes'' (JInt (lim_Processes l))
     @ member (lim_DiskMB l \<noteq> 0) ''disk_mb'' (JInt (lim_DiskMB l))
     @ member (lim_TimeoutS l \<noteq> 0) ''timeout_seconds'' (JInt (lim_TimeoutS l))
     @ member (lim_OutputMB l \<noteq> 0) ''output_mb'' (JInt (lim_OutputMB l)))"

definition plan_json :: "ext \<Rightarrow> Plan \<Rightarrow> json" where
  "plan_json X p = JObj ([(''plan_id'', JStr (pn_ID p)), (''revision'', JInt (uint (pn_Revision p))),
       (''digest'', JStr (pn_Digest p)), (''summary'', JStr (pn_Summary p))]
     @ member (pn_Artifact p \<noteq> []) ''artifact'' (JStr (pn_Artifact p))
     @ member (pn_Source p \<noteq> []) ''source'' (JStr (pn_Source p))
     @ member (elems (pn_CommandSteps p) \<noteq> []) ''command_steps'' (strs_json (pn_CommandSteps p))
     @ member (pn_ImageDigest p \<noteq> []) ''image_digest'' (JStr (pn_ImageDigest p))
     @ [(''target_kind'', JStr (TargetKind_string (pn_TargetKind p))), (''target'', settings_json (pn_Target p))]
     @ member (elems (pn_NetworkGrants p) \<noteq> []) ''network_grants'' (strs_json (pn_NetworkGrants p))
     @ member (elems (pn_SecretGrants p) \<noteq> []) ''secret_grants'' (strs_json (pn_SecretGrants p))
     @ member (elems (pn_SecretGrantRefs p) \<noteq> []) ''secret_grant_refs'' (refs_json (pn_SecretGrantRefs p))
     @ [(''resource_limits'', limits_json (pn_ResourceLimits p)), (''expires_at'', JStr (time_text X (pn_ExpiresAt p))),
        (''created_at'', JStr (time_text X (pn_CreatedAt p)))])"

definition readback_json :: "ext \<Rightarrow> Readback \<Rightarrow> json" where
  "readback_json X r = JObj ([(''target_kind'', JStr (TargetKind_string (rb_TargetKind r))),
       (''workload_id'', JStr (rb_WorkloadID r)), (''state'', JStr (rb_State r)), (''identity'', identity_json (rb_Identity r))]
     @ member (rb_ProviderVersion r \<noteq> []) ''provider_version'' (JStr (rb_ProviderVersion r))
     @ member (rb_Details r \<noteq> []) ''details'' (JRaw (rb_Details r))
     @ [(''digest'', JStr (rb_Digest r)), (''at'', JStr (time_text X (rb_At r)))])"

section \<open>Digests, redaction and normalisation\<close>

definition planInputDigest :: "ext \<Rightarrow> Plan \<Rightarrow> string" where
  "planInputDigest X p = canonicalDigest X (JObj [(''Summary'', JStr (pn_Summary p)), (''Artifact'', JStr (pn_Artifact p)),
     (''Source'', JStr (pn_Source p)), (''Commands'', strs_json (pn_CommandSteps p)), (''Image'', JStr (pn_ImageDigest p)),
     (''Target'', JStr (TargetKind_string (pn_TargetKind p))), (''Settings'', settings_json (pn_Target p)),
     (''Network'', strs_json (pn_NetworkGrants p)), (''Secrets'', strs_json (pn_SecretGrants p)),
     (''SecretRefs'', refs_json (pn_SecretGrantRefs p)), (''Limits'', limits_json (pn_ResourceLimits p)),
     (''ExpiresAt'', JStr (time_text X (to_UTC (pn_ExpiresAt p))))])"

definition RedactText :: "string \<Rightarrow> string" where
  "RedactText s = (if TrimSpace s = [] then [] else ''provider operation failed'')"

definition RedactError :: "string option \<Rightarrow> workload_error option" where
  "RedactError err = (case err of None \<Rightarrow> None | Some _ \<Rightarrow> Some (redactedError ''provider operation failed''))"

definition SafeFailure :: "string \<Rightarrow> string \<Rightarrow> string \<times> string" where
  "SafeFailure code0 summary =
    (let code = (if code0 \<in> {[], ''provider_uncertain'', ''provider_error'', ''canceled'', ''user_canceled''}
                 then code0 else ''provider_error'') in
     if code = [] then ([], [])
     else if code = ''canceled'' \<or> code = ''user_canceled'' then (code, ''operation canceled'')
     else if code = ''provider_uncertain'' then (code, ''provider outcome requires reconciliation'')
     else (code, ''provider operation failed''))"

definition ReadbackDigest :: "ext \<Rightarrow> Readback \<Rightarrow> string" where
  "ReadbackDigest X v = canonicalDigest X (JStr (json_Marshal X (readback_json X (v\<lparr>rb_Digest := []\<rparr>))))"

definition SanitizeReadback :: "ext \<Rightarrow> Readback \<Rightarrow> Readback" where
  "SanitizeReadback X r = (let out = \<lparr>rb_TargetKind = rb_TargetKind r, rb_WorkloadID = rb_WorkloadID r, rb_State = rb_State r,
       rb_Identity = rb_Identity r, rb_ProviderVersion = rb_ProviderVersion r, rb_Details = [], rb_Digest = [], rb_At = rb_At r\<rparr>
     in out\<lparr>rb_Digest := ReadbackDigest X out\<rparr>)"

definition CompletionFingerprint :: "ext \<Rightarrow> string \<Rightarrow> Readback \<Rightarrow> string" where
  "CompletionFingerprint X code readback = canonicalDigest X (JObj [(''Code'', JStr (fst (SafeFailure code []))),
     (''Readback'', readback_json X (SanitizeReadback X readback))])"

definition targetIdentityEqual :: "TargetIdentity \<Rightarrow> TargetIdentity \<Rightarrow> TargetKind \<Rightarrow> bool" where
  "targetIdentityEqual actual desired kind \<longleftrightarrow>
     actual\<lparr>ti_Kind := (if ti_Kind actual = TargetKindOther [] then kind else ti_Kind actual)\<rparr>
   = desired\<lparr>ti_Kind := (if ti_Kind desired = TargetKindOther [] then kind else ti_Kind desired)\<rparr>"

definition sameTaskFence :: "Task \<Rightarrow> WorkloadFence \<Rightarrow> bool" where
  "sameTaskFence task f \<longleftrightarrow> t_ID task = wf_TaskID f \<and> t_Attempt task = wf_Attempt f \<and> t_LeaseEpoch task = wf_LeaseEpoch f
     \<and> t_Revision task = wf_Revision f
     \<and> (case t_Lease task of None \<Rightarrow> False | Some l \<Rightarrow> l_Holder l = wf_Holder f \<and> \<not> Before (l_ExpiresAt l) (wf_ExpiresAt f))"

definition Plan_trim :: "Plan \<Rightarrow> Plan" where
  "Plan_trim p = p\<lparr>pn_ID := TrimSpace (pn_ID p), pn_Summary := TrimSpace (pn_Summary p), pn_Artifact := TrimSpace (pn_Artifact p),
     pn_Source := TrimSpace (pn_Source p), pn_ImageDigest := TrimSpace (pn_ImageDigest p)\<rparr>"

text \<open>The conditions on a trimmed plan with its lists copied and sorted, in the order of the code; all of them fail
  with the same error.\<close>

definition plan_head_ok :: "ext \<Rightarrow> Plan \<Rightarrow> bool" where
  "plan_head_ok X p \<longleftrightarrow> \<not> (pn_ID p \<noteq> [] \<and> \<not> ValidUUID_wl X (pn_ID p) \<or> pn_Summary p = [] \<or> length (pn_Summary p) > 4096
       \<or> \<not> validTarget (pn_TargetKind p) \<or> pn_Revision p = 0 \<or> IsZero (pn_ExpiresAt p) \<or> \<not> InUTC (pn_ExpiresAt p))
     \<and> \<not> (elems (pn_CommandSteps p) = [] \<and> pn_ImageDigest p = [])
     \<and> \<not> (pn_ImageDigest p \<noteq> [] \<and> \<not> ValidDigest_wl X (pn_ImageDigest p))"

definition plan_strings_ok :: "Plan \<Rightarrow> bool" where
  "plan_strings_ok p = list_all (\<lambda>s. \<not> (TrimSpace s = [] \<or> length s > 4096 \<or> ContainsAny s command_breaks))
     (elems (pn_CommandSteps p) @ elems (pn_NetworkGrants p) @ elems (pn_SecretGrants p))"

definition plan_grants_ok :: "ext \<Rightarrow> Plan \<Rightarrow> bool" where
  "plan_grants_ok X p \<longleftrightarrow> list_all (ValidUUID_wl X) (elems (pn_SecretGrants p))
     \<and> list_all (\<lambda>r. \<not> (\<not> ValidUUID_wl X (sr_ReferenceID r) \<or> \<not> Digest_Valid X (sr_BindingDigest r)
           \<or> \<not> validSecretPurpose_wl (sr_Purpose r))) (elems (pn_SecretGrantRefs p))"

definition plan_limits_ok :: "Plan \<Rightarrow> bool" where
  "plan_limits_ok p \<longleftrightarrow> list_all (\<lambda>port. \<not> (port < 1 \<or> port > 65535)) (ts_Ports (pn_Target p))
     \<and> (let l = pn_ResourceLimits p in \<not> (lim_CPU l < 0 \<or> lim_MemoryMB l < 0 \<or> lim_Processes l < 0 \<or> lim_DiskMB l < 0
           \<or> lim_TimeoutS l < 0 \<or> lim_OutputMB l < 0))"

definition Plan_Normalize :: "ext \<Rightarrow> Plan \<Rightarrow> workload_error + Plan" where
  "Plan_Normalize X p0 =
    (if \<not> plan_head_ok X (Plan_trim p0) then Inl ErrInvalid_wl
     else let p = (Plan_trim p0)\<lparr>pn_NetworkGrants := normalizeStrings (pn_NetworkGrants p0),
                    pn_SecretGrants := normalizeStrings (pn_SecretGrants p0), pn_CommandSteps := copied (pn_CommandSteps p0)\<rparr> in
       if \<not> plan_strings_ok p \<or> \<not> plan_grants_ok X p \<or> \<not> plan_limits_ok p then Inl ErrInvalid_wl
       else (case TargetIdentity_Validate (ts_Identity (pn_Target p)) (pn_TargetKind p) of Some err \<Rightarrow> Inl err
       | None \<Rightarrow>
         let q = (if pn_Digest p = [] then p\<lparr>pn_Digest := planInputDigest X p\<rparr> else p) in
         if \<not> ValidDigest_wl X (pn_Digest q) then Inl ErrInvalid_wl else Inr q))"

definition Plan_Validate :: "ext \<Rightarrow> Plan \<Rightarrow> workload_error option" where
  "Plan_Validate X p = err_of (Plan_Normalize X p)"

definition RequestInputDigest :: "ext \<Rightarrow> OperationRequest \<Rightarrow> string" where
  "RequestInputDigest X c = canonicalDigest X (JObj [(''PlanID'', JStr (wr_PlanID c)), (''WorkloadID'', JStr (wr_WorkloadID c)),
     (''IdempotencyKey'', JStr (wr_IdempotencyKey c)), (''Kind'', JStr (OperationKind_string (wr_Kind c))),
     (''ExpiresAt'', JStr (time_text X (wr_ExpiresAt c)))])"

definition CancelInputDigest :: "ext \<Rightarrow> string \<Rightarrow> u64 \<Rightarrow> string" where
  "CancelInputDigest X operationID expected = canonicalDigest X (JObj [(''OperationID'', JStr operationID), (''Expected'', JInt (uint expected))])"

section \<open>The confirmation of an operation\<close>

definition binding_grants :: "ext \<Rightarrow> Plan \<Rightarrow> string \<Rightarrow> SecretGrant list" where
  "binding_grants X p secret =
     map (\<lambda>r. \<lparr>sg_ReferenceID = sr_ReferenceID r, sg_Purpose = sr_Purpose r, sg_BindingDigest = sr_BindingDigest r\<rparr>)
       (filter (\<lambda>r. ValidUUID_wl X (sr_ReferenceID r) \<and> Digest_Valid X (sr_BindingDigest r)) (elems (pn_SecretGrantRefs p)))
   @ map (\<lambda>i. \<lparr>sg_ReferenceID = i, sg_Purpose = SecretPurposeOtherExtensionSecret, sg_BindingDigest = secret\<rparr>)
       (filter (ValidUUID_wl X) (elems (pn_SecretGrants p)))"

definition bindingForOperation :: "ext \<Rightarrow> Plan \<Rightarrow> string \<Rightarrow> OperationKind \<Rightarrow> Binding" where
  "bindingForOperation X p workloadID kind =
    (let param = canonicalDigest X (JObj [(''Kind'', JStr (OperationKind_string kind)), (''Plan'', plan_json X p), (''Workload'', JStr workloadID)]);
         network = canonicalDigest X (JObj [(''Grants'', strs_json (pn_NetworkGrants p)), (''Limits'', limits_json (pn_ResourceLimits p))]);
         secret = canonicalDigest X (JObj [(''Legacy'', strs_json (pn_SecretGrants p)), (''Typed'', refs_json (pn_SecretGrantRefs p))])
     in zero_binding\<lparr>b_OperationDomain := ''workload:'' @ OperationKind_string kind, b_TargetID := workloadID,
          b_TargetRevision := sint (pn_Revision p), b_SourceVersion := ''core-v1'', b_ContentDigest := pn_Digest p,
          b_ParameterDigest := param, b_NetworkDigest := network, b_SecretGrantDigest := secret,
          b_NetworkGrants := copied (pn_NetworkGrants p), b_SecretGrants := Some (binding_grants X p secret)\<rparr>)"

end
