(* ===== verification/Workload_Store.thy ===== *)
theory Workload_Store
  imports Workload_Types
begin

text \<open>
  \<^verbatim>\<open>src/internal/coreworkload/store.go\<close>: the reference store of the workload service. Every operation holds the
  mutex for its whole body, so the store passes through a sequence of operations. An operation returns the store it leaves
  with its value or its error; the value that some branches return beside an error is dropped.

  \<open>clk k\<close> is what the \<open>k\<close>-th call of \<open>s.now()\<close> in the text of an operation returns, and \<open>fresh k\<close> what its \<open>k\<close>-th
  call of \<open>uuid.New\<close> returns, counted from 0. A map read of an absent key yields the zero value. A stored task owns its
  lease: nothing else in the package writes through the pointer.
\<close>

section \<open>The store\<close>

record WorkloadStore =
  ws_plans :: "(string \<times> Plan) list"
  ws_operations :: "(string \<times> Operation) list"
  ws_tasks :: "(string \<times> Task) list"
  ws_confirmations :: "(string \<times> Confirmation) list"
  ws_events :: "(string \<times> Event list) list"
  ws_replays :: "(string \<times> RequestResult) list"
  ws_replayHashes :: "(string \<times> string) list"
  ws_workloads :: "(string \<times> Workload) list"
  ws_planReplays :: "(string \<times> Plan) list"
  ws_planHashes :: "(string \<times> string) list"

type_synonym 'a step = "WorkloadStore \<times> (workload_error + 'a)"

definition NewMemoryStore :: WorkloadStore where
  "NewMemoryStore = \<lparr>ws_plans = [], ws_operations = [], ws_tasks = [], ws_confirmations = [], ws_events = [], ws_replays = [],
     ws_replayHashes = [], ws_workloads = [], ws_planReplays = [], ws_planHashes = []\<rparr>"

definition zero_spec :: TaskSpec where
  "zero_spec = \<lparr>s_Kind = TaskKindOther [], s_Payload = \<lparr>pl_Agent = None, pl_ConversationTool = None, pl_Extension = None,
       pl_KnowledgeIndex = None, pl_Workload = None, pl_CloudWorker = None\<rparr>, s_Goal = [], s_ConversationID = [],
     s_AttachmentRefs = [], s_ModelProfileID = [], s_Extensions = [], s_KnowledgeRefs = [], s_TimeoutSeconds = 0,
     s_IdempotencyKey = [], s_AvailableAt = time_zero\<rparr>"

definition zero_task :: Task where
  "zero_task = \<lparr>t_ID = [], t_Spec = zero_spec, t_Status = StatusOther [], t_Attempt = 0, t_LeaseEpoch = 0, t_Revision = 0,
     t_ProgressSequence = 0, t_CreatedAt = time_zero, t_UpdatedAt = time_zero, t_AvailableAt = time_zero,
     t_ExecutionStartedAt = None, t_ExecutionDeadlineAt = None, t_DeletedAt = None, t_Lease = None, t_Result = None,
     t_FailureCode = [], t_FailureSummary = [], t_RetryOfTaskID = [], t_Snapshot = None\<rparr>"

definition or_zero :: "'v \<Rightarrow> 'v option \<Rightarrow> 'v" where
  "or_zero z v = (case v of None \<Rightarrow> z | Some x \<Rightarrow> x)"

definition task_at :: "WorkloadStore \<Rightarrow> string \<Rightarrow> Task" where
  "task_at s k = or_zero zero_task (lookup (ws_tasks s) k)"

definition confirmation_at :: "WorkloadStore \<Rightarrow> string \<Rightarrow> Confirmation" where
  "confirmation_at s k = or_zero zero_confirmation (lookup (ws_confirmations s) k)"

definition events_at :: "WorkloadStore \<Rightarrow> string \<Rightarrow> Event list" where
  "events_at s k = or_zero [] (lookup (ws_events s) k)"

definition put_op :: "string \<Rightarrow> Operation \<Rightarrow> WorkloadStore \<Rightarrow> WorkloadStore" where
  "put_op k v s = s\<lparr>ws_operations := put k v (ws_operations s)\<rparr>"

definition put_task :: "string \<Rightarrow> Task \<Rightarrow> WorkloadStore \<Rightarrow> WorkloadStore" where
  "put_task k v s = s\<lparr>ws_tasks := put k v (ws_tasks s)\<rparr>"

definition put_confirmation :: "string \<Rightarrow> Confirmation \<Rightarrow> WorkloadStore \<Rightarrow> WorkloadStore" where
  "put_confirmation k v s = s\<lparr>ws_confirmations := put k v (ws_confirmations s)\<rparr>"

definition put_result :: "string \<Rightarrow> RequestResult \<Rightarrow> string \<Rightarrow> WorkloadStore \<Rightarrow> WorkloadStore" where
  "put_result k v h s = s\<lparr>ws_replays := put k v (ws_replays s), ws_replayHashes := put k h (ws_replayHashes s)\<rparr>"

definition put_plan_replay :: "string \<Rightarrow> Plan \<Rightarrow> string \<Rightarrow> WorkloadStore \<Rightarrow> WorkloadStore" where
  "put_plan_replay k v h s = s\<lparr>ws_planReplays := put k v (ws_planReplays s), ws_planHashes := put k h (ws_planHashes s)\<rparr>"

text \<open>The composite literal of an event, appended behind those of its operation with the next sequence number.\<close>

definition add_event :: "string \<Rightarrow> string \<Rightarrow> OperationStatus \<Rightarrow> string \<Rightarrow> gotime \<Rightarrow> WorkloadStore \<Rightarrow> WorkloadStore" where
  "add_event k kind st msg now s = s\<lparr>ws_events := put k (events_at s k @ [\<lparr>ev_OperationID = k,
     ev_Sequence = of_nat (length (events_at s k) + 1), ev_Kind = kind, ev_Status = st, ev_Message = msg, ev_Readback = [],
     ev_At = now\<rparr>]) (ws_events s)\<rparr>"

section \<open>Plans and reads\<close>

definition plan_of :: "string \<Rightarrow> gotime \<Rightarrow> PlanInput \<Rightarrow> Plan" where
  "plan_of ident now i = \<lparr>pn_ID = ident, pn_Revision = 1, pn_Digest = [], pn_Summary = pi_Summary i, pn_Artifact = pi_Artifact i,
     pn_Source = pi_Source i, pn_CommandSteps = pi_CommandSteps i, pn_ImageDigest = pi_ImageDigest i, pn_TargetKind = pi_TargetKind i,
     pn_Target = pi_Target i, pn_NetworkGrants = pi_NetworkGrants i, pn_SecretGrants = pi_SecretGrants i,
     pn_SecretGrantRefs = pi_SecretGrantRefs i, pn_ResourceLimits = pi_ResourceLimits i, pn_ExpiresAt = to_UTC (pi_ExpiresAt i),
     pn_CreatedAt = to_UTC now\<rparr>"

definition CreatePlan :: "ext \<Rightarrow> (nat \<Rightarrow> gotime) \<Rightarrow> (nat \<Rightarrow> string) \<Rightarrow> WorkloadStore \<Rightarrow> PlanInput \<Rightarrow> Plan step" where
  "CreatePlan X clk fresh s i =
    (if \<not> ValidUUID_wl X (pi_IdempotencyKey i) then (s, Inl ErrInvalid_wl)
     else (case Plan_Normalize X (plan_of (fresh 0) (clk 0) i) of Inl e \<Rightarrow> (s, Inl e)
     | Inr n \<Rightarrow> let hash = planInputDigest X n in
       (case lookup (ws_planReplays s) (pi_IdempotencyKey i) of
          Some prior \<Rightarrow> if or_zero [] (lookup (ws_planHashes s) (pi_IdempotencyKey i)) \<noteq> hash then (s, Inl ErrConflict_wl) else (s, Inr prior)
        | None \<Rightarrow> (case find (\<lambda>v. pn_Digest v = pn_Digest n) (map snd (ws_plans s)) of
            Some v \<Rightarrow> (put_plan_replay (pi_IdempotencyKey i) v hash s, Inr v)
          | None \<Rightarrow> (put_plan_replay (pi_IdempotencyKey i) n hash (s\<lparr>ws_plans := put (pn_ID n) n (ws_plans s)\<rparr>), Inr n)))))"

definition found :: "'v option \<Rightarrow> workload_error + 'v" where
  "found v = (case v of None \<Rightarrow> Inl ErrNotFound_wl | Some x \<Rightarrow> Inr x)"

definition GetPlan :: "WorkloadStore \<Rightarrow> string \<Rightarrow> workload_error + Plan" where
  "GetPlan s k = found (lookup (ws_plans s) k)"

definition GetWorkload :: "WorkloadStore \<Rightarrow> string \<Rightarrow> workload_error + Workload" where
  "GetWorkload s k = found (lookup (ws_workloads s) k)"

definition GetOperation :: "WorkloadStore \<Rightarrow> string \<Rightarrow> workload_error + Operation" where
  "GetOperation s k = found (lookup (ws_operations s) k)"

text \<open>The body shared by \<open>ListWorkloads\<close> and \<open>ListPlans\<close>.\<close>

definition id_page :: "('v \<Rightarrow> string) \<Rightarrow> ('k \<times> 'v) list \<Rightarrow> int \<Rightarrow> string \<Rightarrow> workload_error + ('v list \<times> string)" where
  "id_page ident m limit cursor =
    (if limit \<le> 0 \<or> limit > 200 then Inl ErrInvalid_wl
     else let out = sort_key ident (filter (\<lambda>v. cursor = [] \<or> ident v > cursor) (map snd m)) in
       if int (length out) > limit then Inr (take (nat limit) out, ident (out ! (nat limit - 1))) else Inr (out, []))"

definition ListWorkloads :: "WorkloadStore \<Rightarrow> int \<Rightarrow> string \<Rightarrow> workload_error + (Workload list \<times> string)" where
  "ListWorkloads s limit cursor = id_page wk_ID (ws_workloads s) limit cursor"

definition ListPlans :: "WorkloadStore \<Rightarrow> int \<Rightarrow> string \<Rightarrow> workload_error + (Plan list \<times> string)" where
  "ListPlans s limit cursor = id_page pn_ID (ws_plans s) limit cursor"

definition ListEvents :: "WorkloadStore \<Rightarrow> string \<Rightarrow> u64 \<Rightarrow> workload_error + Event list" where
  "ListEvents s k after = Inr (filter (\<lambda>e. ev_Sequence e > after) (events_at s k))"

section \<open>Requesting and deciding\<close>

definition workload_admits :: "WorkloadStore \<Rightarrow> OperationKind \<Rightarrow> Plan \<Rightarrow> string \<Rightarrow> bool" where
  "workload_admits s kind p wid = (case lookup (ws_workloads s) wid of None \<Rightarrow> True
     | Some w \<Rightarrow> if kind = OperationDestroy
         then \<not> (wk_State w \<noteq> ''ready'' \<or> wk_PlanID w \<noteq> pn_ID p \<or> wk_PlanDigest w \<noteq> pn_Digest p \<or> wk_TargetKind w \<noteq> pn_TargetKind p)
         else \<not> (wk_State w \<noteq> ''destroyed'' \<and> wk_State w \<noteq> ''ready'' \<and> wk_State w \<noteq> ''failed''))"

definition request_spec :: "ext \<Rightarrow> (nat \<Rightarrow> string) \<Rightarrow> gotime \<Rightarrow> Plan \<Rightarrow> string \<Rightarrow> OperationKind \<Rightarrow> TaskSpec" where
  "request_spec X fresh now p wid kind =
    (let payload = \<lparr>wp_WorkloadID = wid, wp_PlanID = pn_ID p, wp_OperationID = fresh 1, wp_PlanRevision = pn_Revision p,
           wp_PlanDigest = pn_Digest p, wp_TargetKind = TargetKind_string (pn_TargetKind p), wp_ConfirmationID = fresh 3,
           wp_ExecutionSnapshot = json_Marshal X (plan_json X p)\<rparr>;
         spec = zero_spec\<lparr>s_Kind := TaskKindWorkload, s_Payload := (s_Payload zero_spec)\<lparr>pl_Workload := Some payload\<rparr>,
           s_Goal := ''workload '' @ OperationKind_string kind, s_IdempotencyKey := fresh 4, s_AvailableAt := now\<rparr>
     in case TaskSpec_Normalize X spec of Inl _ \<Rightarrow> zero_spec | Inr n \<Rightarrow> n)"

definition requested :: "ext \<Rightarrow> (nat \<Rightarrow> string) \<Rightarrow> gotime \<Rightarrow> gotime \<Rightarrow> Plan \<Rightarrow> string \<Rightarrow> OperationKind \<Rightarrow> RequestResult" where
  "requested X fresh now expires p wid kind =
    \<lparr>rr_Operation = \<lparr>op_ID = fresh 1, op_WorkloadID = wid, op_PlanID = pn_ID p, op_Kind = kind, op_PlanRevision = pn_Revision p,
       op_PlanDigest = pn_Digest p, op_TargetKind = pn_TargetKind p, op_TaskID = fresh 2, op_ConfirmationID = fresh 3,
       op_Status = OperationWaitingUser, op_Revision = 1, op_FailureCode = [], op_FailureSummary = [], op_CreatedAt = now,
       op_UpdatedAt = now, op_DispatchState = ''prepared'', op_DispatchAttempt = 0, op_DispatchEpoch = 0, op_DispatchClaim = [],
       op_DispatchLeaseUntil = time_zero, op_CompletionFingerprint = []\<rparr>,
     rr_Task = zero_task\<lparr>t_ID := fresh 2, t_Spec := request_spec X fresh now p wid kind, t_Status := StatusWaitingUser, t_Revision := 1,
       t_Attempt := 1, t_CreatedAt := now, t_UpdatedAt := now, t_AvailableAt := now\<rparr>,
     rr_Confirmation = zero_confirmation\<lparr>c_ConfirmationID := fresh 3, c_Binding := bindingForOperation X p wid kind, c_TaskID := fresh 2,
       c_State := StatePending, c_Revision := 1, c_CreatedAt := now, c_UpdatedAt := now, c_ExpiresAt := to_UTC expires\<rparr>\<rparr>"

definition store_result :: "RequestResult \<Rightarrow> WorkloadStore \<Rightarrow> WorkloadStore" where
  "store_result r s = (let o1 = rr_Operation r in
     (put_confirmation (op_ConfirmationID o1) (rr_Confirmation r) (put_task (op_TaskID o1) (rr_Task r) (put_op (op_ID o1) o1 s)))
       \<lparr>ws_events := put (op_ID o1) [\<lparr>ev_OperationID = op_ID o1, ev_Sequence = 1, ev_Kind = ''requested'', ev_Status = OperationWaitingUser,
          ev_Message = ''waiting for owner confirmation'', ev_Readback = [], ev_At = op_CreatedAt o1\<rparr>] (ws_events s)\<rparr>)"

definition RequestOperation :: "ext \<Rightarrow> (nat \<Rightarrow> gotime) \<Rightarrow> (nat \<Rightarrow> string) \<Rightarrow> WorkloadStore \<Rightarrow> OperationRequest \<Rightarrow> RequestResult step" where
  "RequestOperation X clk fresh s c =
    (if \<not> ValidUUID_wl X (wr_PlanID c) \<or> \<not> ValidUUID_wl X (wr_IdempotencyKey c) \<or> (wr_WorkloadID c \<noteq> [] \<and> \<not> ValidUUID_wl X (wr_WorkloadID c))
        \<or> (wr_Kind c \<noteq> OperationApply \<and> wr_Kind c \<noteq> OperationDestroy) then (s, Inl ErrInvalid_wl)
     else let requestHash = RequestInputDigest X c in
     (case lookup (ws_replays s) (wr_IdempotencyKey c) of
        Some prior \<Rightarrow> if or_zero [] (lookup (ws_replayHashes s) (wr_IdempotencyKey c)) \<noteq> requestHash then (s, Inl ErrConflict_wl) else (s, Inr prior)
      | None \<Rightarrow> (case lookup (ws_plans s) (wr_PlanID c) of None \<Rightarrow> (s, Inl ErrNotFound_wl)
        | Some p \<Rightarrow>
          let expires = (if IsZero (wr_ExpiresAt c) then time_Add (to_UTC (clk 0)) (24 * Hour) else wr_ExpiresAt c) in
          if \<not> After expires (to_UTC (clk 1)) \<or> \<not> After (pn_ExpiresAt p) (to_UTC (clk 2)) then (s, Inl ErrInvalid_wl)
          else if wr_Kind c = OperationDestroy \<and> \<not> ValidUUID_wl X (wr_WorkloadID c) then (s, Inl ErrInvalid_wl)
          else let wid = (if wr_WorkloadID c = [] then fresh 0 else wr_WorkloadID c) in
            if \<not> workload_admits s (wr_Kind c) p wid then (s, Inl ErrConflict_wl)
            else let r = requested X fresh (to_UTC (clk 3)) expires p wid (wr_Kind c) in
              (put_result (wr_IdempotencyKey c) r requestHash (store_result r s), Inr r))))"

definition Confirm_wl :: "(nat \<Rightarrow> gotime) \<Rightarrow> WorkloadStore \<Rightarrow> string \<Rightarrow> int \<Rightarrow> Confirmation step" where
  "Confirm_wl clk s k expected = (case lookup (ws_confirmations s) k of None \<Rightarrow> (s, Inl ErrNotFound_wl)
   | Some c \<Rightarrow>
     if c_Revision c \<noteq> expected then (s, Inl ErrRevisionConflict_wl)
     else if \<not> After (c_ExpiresAt c) (to_UTC (clk 0))
     then (put_confirmation k (c\<lparr>c_State := StateExpired, c_Revision := wrap64 (c_Revision c + 1), c_UpdatedAt := to_UTC (clk 1)\<rparr>) s, Inl ErrConflict_wl)
     else if c_State c \<noteq> StatePending then (s, Inr c)
     else let c' = c\<lparr>c_State := StateConfirmed, c_Revision := wrap64 (c_Revision c + 1), c_UpdatedAt := to_UTC (clk 2)\<rparr> in
       (put_confirmation k c' s, Inr c'))"

text \<open>The loop over the operations stops at the first with the confirmation; the invariant below makes it the only one.\<close>

definition op_of_confirmation :: "WorkloadStore \<Rightarrow> string \<Rightarrow> Operation option" where
  "op_of_confirmation s k = find (\<lambda>o1. op_ConfirmationID o1 = k) (map snd (ws_operations s))"

definition terminalizeBeforeDispatchLocked :: "(nat \<Rightarrow> gotime) \<Rightarrow> WorkloadStore \<Rightarrow> Confirmation \<Rightarrow> OperationStatus \<Rightarrow> State \<Rightarrow> Status
    \<Rightarrow> string \<Rightarrow> string \<Rightarrow> Confirmation step" where
  "terminalizeBeforeDispatchLocked clk s c operationState confirmationState taskState code summary =
    (case op_of_confirmation s (c_ConfirmationID c) of None \<Rightarrow> (s, Inl ErrNotFound_wl)
     | Some o1 \<Rightarrow> let t = task_at s (op_TaskID o1) in
       if (c_State c \<noteq> StatePending \<and> c_State c \<noteq> StateConfirmed) \<or> op_Status o1 \<noteq> OperationWaitingUser
          \<or> op_DispatchState o1 \<noteq> ''prepared'' \<or> op_DispatchClaim o1 \<noteq> [] \<or> t_Status t \<noteq> StatusWaitingUser
       then (s, Inl ErrConflict_wl)
       else let now = to_UTC (clk 0);
                c' = c\<lparr>c_State := confirmationState, c_Revision := wrap64 (c_Revision c + 1), c_TerminalCode := code,
                  c_TerminalReason := code, c_UpdatedAt := now\<rparr>;
                o2 = o1\<lparr>op_Status := operationState, op_DispatchState := ''terminal'', op_FailureCode := code,
                  op_FailureSummary := summary, op_Revision := op_Revision o1 + 1, op_UpdatedAt := now\<rparr>;
                t' = t\<lparr>t_Status := taskState, t_FailureCode := code, t_FailureSummary := summary, t_Revision := t_Revision t + 1,
                  t_UpdatedAt := now\<rparr>
         in (add_event (op_ID o2) ''terminal'' operationState summary now
               (put_task (t_ID t') t' (put_op (op_ID o2) o2 (put_confirmation (c_ConfirmationID c') c' s))), Inr c'))"

definition Reject_wl :: "(nat \<Rightarrow> gotime) \<Rightarrow> WorkloadStore \<Rightarrow> string \<Rightarrow> int \<Rightarrow> string \<Rightarrow> Confirmation step" where
  "Reject_wl clk s k expected reason = (case lookup (ws_confirmations s) k of None \<Rightarrow> (s, Inl ErrNotFound_wl)
   | Some c \<Rightarrow> if c_Revision c \<noteq> expected then (s, Inl ErrRevisionConflict_wl)
     else terminalizeBeforeDispatchLocked clk s c OperationRejected StateRejected StatusCanceled ''user_rejected'' reason)"

definition Expire_wl :: "(nat \<Rightarrow> gotime) \<Rightarrow> WorkloadStore \<Rightarrow> string \<Rightarrow> int \<Rightarrow> Confirmation step" where
  "Expire_wl clk s k expected = (case lookup (ws_confirmations s) k of None \<Rightarrow> (s, Inl ErrNotFound_wl)
   | Some c \<Rightarrow> if c_Revision c \<noteq> expected then (s, Inl ErrRevisionConflict_wl)
     else terminalizeBeforeDispatchLocked clk s c OperationExpired StateExpired StatusFailed ''confirmation_expired'' ''confirmation_expired'')"

definition CancelOperation :: "ext \<Rightarrow> (nat \<Rightarrow> gotime) \<Rightarrow> WorkloadStore \<Rightarrow> string \<Rightarrow> string \<Rightarrow> u64 \<Rightarrow> Operation step" where
  "CancelOperation X clk s opID key expected = (case lookup (ws_operations s) opID of None \<Rightarrow> (s, Inl ErrNotFound_wl)
   | Some o1 \<Rightarrow>
     if \<not> ValidUUID_wl X key then (s, Inl ErrInvalid_wl)
     else let hash = CancelInputDigest X opID expected in
     (case lookup (ws_replays s) key of
        Some prior \<Rightarrow> if or_zero [] (lookup (ws_replayHashes s) key) \<noteq> hash then (s, Inl ErrConflict_wl) else (s, Inr (rr_Operation prior))
      | None \<Rightarrow>
        if op_Revision o1 \<noteq> expected then (s, Inl ErrRevisionConflict_wl)
        else if op_Status o1 \<noteq> OperationWaitingUser \<or> op_DispatchState o1 \<noteq> ''prepared'' \<or> op_DispatchClaim o1 \<noteq> []
        then (s, Inl ErrConflict_wl)
        else (case terminalizeBeforeDispatchLocked clk s (confirmation_at s (op_ConfirmationID o1)) OperationCanceled StateRejected
                StatusCanceled ''user_canceled'' ''canceled'' of
            (s1, Inl e) \<Rightarrow> (s1, Inl e)
          | (s1, Inr c) \<Rightarrow> let o2 = or_zero o1 (lookup (ws_operations s1) opID) in
              (put_result key \<lparr>rr_Operation = o2, rr_Task = task_at s1 (op_TaskID o2), rr_Confirmation = c\<rparr> hash s1, Inr o2))))"

section \<open>Dispatch\<close>

definition Consume_wl :: "(nat \<Rightarrow> gotime) \<Rightarrow> (nat \<Rightarrow> string) \<Rightarrow> WorkloadStore \<Rightarrow> string \<Rightarrow> string \<Rightarrow> string \<Rightarrow> u64 \<Rightarrow> (Operation \<times> Task) step" where
  "Consume_wl clk fresh s opID confirmationID planDigest expected = (case lookup (ws_operations s) opID of None \<Rightarrow> (s, Inl ErrNotFound_wl)
   | Some o1 \<Rightarrow> let t = task_at s (op_TaskID o1); c = confirmation_at s confirmationID in
     if op_ConfirmationID o1 \<noteq> confirmationID \<or> op_PlanDigest o1 \<noteq> planDigest \<or> op_Revision o1 \<noteq> expected
        \<or> op_Status o1 \<noteq> OperationWaitingUser \<or> c_State c \<noteq> StateConfirmed \<or> \<not> After (c_ExpiresAt c) (to_UTC (clk 0))
     then (s, Inl ErrRevisionConflict_wl)
     else let now = to_UTC (clk 2);
              o2 = o1\<lparr>op_Status := OperationRunning, op_DispatchState := ''dispatched'', op_DispatchAttempt := op_DispatchAttempt o1 + 1,
                op_DispatchEpoch := op_DispatchEpoch o1 + 1, op_DispatchClaim := fresh 0,
                op_DispatchLeaseUntil := time_Add (to_UTC (clk 1)) Hour, op_Revision := op_Revision o1 + 1, op_UpdatedAt := now\<rparr>;
              t' = t\<lparr>t_Status := StatusRunning, t_LeaseEpoch := 1, t_Revision := t_Revision t + 1, t_UpdatedAt := now,
                t_Lease := Some \<lparr>l_TaskID = t_ID t, l_Attempt = t_Attempt t, l_Epoch = 1, l_Holder = ''workload-handler'',
                  l_ExpiresAt = time_Add now Hour\<rparr>\<rparr>;
              c' = c\<lparr>c_State := StateConsumed, c_Revision := wrap64 (c_Revision c + 1), c_UpdatedAt := now\<rparr>
       in (add_event opID ''consumed'' OperationRunning [] now
             (put_confirmation confirmationID c' (put_task (op_TaskID o2) t' (put_op opID o2 s))), Inr (o2, t')))"

definition ConsumeFenced :: "ext \<Rightarrow> (nat \<Rightarrow> gotime) \<Rightarrow> (nat \<Rightarrow> string) \<Rightarrow> WorkloadStore \<Rightarrow> string \<Rightarrow> string \<Rightarrow> string \<Rightarrow> u64 \<Rightarrow> WorkloadFence
    \<Rightarrow> (Operation \<times> Task) step" where
  "ConsumeFenced X clk fresh s opID confirmationID planDigest expected fence =
    (let now = to_UTC (clk 0) in
     if \<not> WorkloadFence_Valid X fence now then (s, Inl ErrRevisionConflict_wl)
     else (case lookup (ws_operations s) opID of None \<Rightarrow> (s, Inl ErrNotFound_wl)
     | Some o1 \<Rightarrow> (case lookup (ws_tasks s) (op_TaskID o1) of None \<Rightarrow> (s, Inl ErrNotFound_wl)
       | Some t \<Rightarrow> (case lookup (ws_confirmations s) confirmationID of None \<Rightarrow> (s, Inl ErrNotFound_wl)
         | Some c \<Rightarrow>
           if op_ConfirmationID o1 \<noteq> confirmationID \<or> op_PlanDigest o1 \<noteq> planDigest \<or> op_Revision o1 \<noteq> expected
              \<or> op_Status o1 \<noteq> OperationWaitingUser \<or> c_State c \<noteq> StateConfirmed \<or> \<not> After (c_ExpiresAt c) now \<or> \<not> sameTaskFence t fence
           then (s, Inl ErrRevisionConflict_wl)
           else let o2 = o1\<lparr>op_Status := OperationRunning, op_DispatchState := ''dispatched'', op_DispatchAttempt := op_DispatchAttempt o1 + 1,
                      op_DispatchEpoch := wf_LeaseEpoch fence, op_DispatchClaim := fresh 0,
                      op_DispatchLeaseUntil := time_Add now (30 * Second), op_Revision := op_Revision o1 + 1, op_UpdatedAt := now\<rparr>;
                    c' = c\<lparr>c_State := StateConsumed, c_Revision := wrap64 (c_Revision c + 1), c_UpdatedAt := now\<rparr>
             in (add_event opID ''consumed'' OperationRunning [] now (put_confirmation confirmationID c' (put_op opID o2 s)), Inr (o2, t))))))"

definition AppendEvent :: "(nat \<Rightarrow> gotime) \<Rightarrow> WorkloadStore \<Rightarrow> string \<Rightarrow> Event \<Rightarrow> Event step" where
  "AppendEvent clk s k e = (case lookup (ws_operations s) k of None \<Rightarrow> (s, Inl ErrNotFound_wl)
   | Some _ \<Rightarrow> let e' = e\<lparr>ev_OperationID := k, ev_Sequence := of_nat (length (events_at s k) + 1),
                   ev_At := (if IsZero (ev_At e) then to_UTC (clk 0) else ev_At e)\<rparr>
       in (s\<lparr>ws_events := put k (events_at s k @ [e']) (ws_events s)\<rparr>, Inr e'))"

subsection \<open>Completion\<close>

definition finished :: "OperationStatus \<Rightarrow> bool" where
  "finished st \<longleftrightarrow> st = OperationSucceeded \<or> st = OperationFailed \<or> st = OperationUncertain"

definition same_completion :: "Operation \<Rightarrow> string \<Rightarrow> u64 \<Rightarrow> string \<Rightarrow> bool" where
  "same_completion o1 claim epoch fingerprint \<longleftrightarrow> op_DispatchClaim o1 = claim \<and> op_DispatchEpoch o1 = epoch \<and> claim \<noteq> []
     \<and> op_CompletionFingerprint o1 = fingerprint \<and> finished (op_Status o1)"

text \<open>\<open>None\<close> for the fence is the nil pointer of the callers without a worker-pool lease.\<close>

definition valid_task :: "Task \<Rightarrow> u64 \<Rightarrow> gotime \<Rightarrow> WorkloadFence option \<Rightarrow> bool" where
  "valid_task t epoch now fence \<longleftrightarrow> t_Status t = StatusRunning
     \<and> (case t_Lease t of None \<Rightarrow> False
        | Some l \<Rightarrow> l_Epoch l = epoch \<and> After (l_ExpiresAt l) now
            \<and> (case fence of None \<Rightarrow> l_Holder l = ''workload-handler'' | Some f \<Rightarrow> sameTaskFence t f))"

definition readback_ok :: "WorkloadStore \<Rightarrow> Operation \<Rightarrow> Readback \<Rightarrow> bool" where
  "readback_ok s o1 r = (case lookup (ws_plans s) (op_PlanID o1) of None \<Rightarrow> False
     | Some plan \<Rightarrow> \<not> (pn_Digest plan \<noteq> op_PlanDigest o1 \<or> pn_Revision plan \<noteq> op_PlanRevision o1 \<or> rb_WorkloadID r \<noteq> op_WorkloadID o1
         \<or> rb_TargetKind r \<noteq> op_TargetKind o1 \<or> TargetIdentity_Validate (rb_Identity r) (op_TargetKind o1) \<noteq> None
         \<or> \<not> targetIdentityEqual (rb_Identity r) (ts_Identity (pn_Target plan)) (op_TargetKind o1)
         \<or> (op_Kind o1 = OperationApply \<and> rb_State r \<noteq> ''ready'') \<or> (op_Kind o1 = OperationDestroy \<and> rb_State r \<noteq> ''destroyed'')))"

definition completed_op :: "Operation \<Rightarrow> string \<Rightarrow> string \<Rightarrow> string \<Rightarrow> gotime \<Rightarrow> Operation" where
  "completed_op o1 code summary fingerprint now =
    (if code = [] then o1\<lparr>op_Status := OperationSucceeded\<rparr>
     else o1\<lparr>op_Status := (if code = ''provider_uncertain'' then OperationUncertain else OperationFailed),
            op_FailureCode := fst (SafeFailure code summary), op_FailureSummary := snd (SafeFailure code summary)\<rparr>)
       \<lparr>op_DispatchState := (if code = ''provider_uncertain'' then ''uncertain'' else ''terminal''), op_DispatchLeaseUntil := time_zero,
        op_Revision := op_Revision o1 + 1, op_CompletionFingerprint := fingerprint, op_UpdatedAt := now\<rparr>"

definition completed_task :: "ext \<Rightarrow> Task \<Rightarrow> string \<Rightarrow> Readback \<Rightarrow> string \<Rightarrow> gotime \<Rightarrow> Task" where
  "completed_task X t code readback summary now =
    (if code = [] then t\<lparr>t_Status := StatusSucceeded,
        t_Result := Some \<lparr>r_Text = [], r_JSON = json_Marshal X (readback_json X readback), r_Files = [], r_Summary = []\<rparr>\<rparr>
     else t\<lparr>t_Status := StatusFailed, t_FailureCode := fst (SafeFailure code summary), t_FailureSummary := snd (SafeFailure code summary)\<rparr>)
       \<lparr>t_Revision := t_Revision t + 1, t_UpdatedAt := now\<rparr>"

definition actual_of :: "Operation \<Rightarrow> u64 \<Rightarrow> string \<Rightarrow> Readback \<Rightarrow> gotime \<Rightarrow> ActualSnapshot" where
  "actual_of o1 n st r now = \<lparr>as_WorkloadID = op_WorkloadID o1, as_Revision = n, as_State = st, as_Identity = rb_Identity r,
     as_AppliedPlanID = op_PlanID o1, as_AppliedPlanDigest = op_PlanDigest o1, as_ReadbackDigest = rb_Digest r,
     as_ProviderVersion = rb_ProviderVersion r, as_ObservedAt = rb_At r, as_UpdatedAt = now\<rparr>"

definition observed_workload :: "Operation \<Rightarrow> Workload \<Rightarrow> Readback \<Rightarrow> gotime \<Rightarrow> Workload" where
  "observed_workload o1 w r now = (let st = (if op_Kind o1 = OperationDestroy then ''destroyed'' else ''ready'') in
     w\<lparr>wk_Identity := rb_Identity r, wk_State := st, wk_Revision := wk_Revision w + 1, wk_UpdatedAt := now,
       wk_Actual := actual_of o1 (wk_Revision w + 1) st r now\<rparr>)"

definition new_workload :: "Operation \<Rightarrow> Readback \<Rightarrow> gotime \<Rightarrow> Workload" where
  "new_workload o1 r now = \<lparr>wk_ID = op_WorkloadID o1, wk_Revision = 1, wk_PlanID = op_PlanID o1, wk_PlanDigest = op_PlanDigest o1,
     wk_TargetKind = op_TargetKind o1, wk_Identity = rb_Identity r, wk_State = ''ready'', wk_UpdatedAt = now,
     wk_Actual = actual_of o1 1 ''ready'' r now\<rparr>"

definition failed_workload :: "string \<Rightarrow> Workload \<Rightarrow> gotime \<Rightarrow> Workload" where
  "failed_workload code w now = w\<lparr>wk_State := (if code = ''provider_uncertain'' then ''uncertain'' else ''failed''),
     wk_Revision := wk_Revision w + 1, wk_UpdatedAt := now\<rparr>"

definition put_workload :: "string \<Rightarrow> Workload \<Rightarrow> WorkloadStore \<Rightarrow> WorkloadStore" where
  "put_workload k w s = s\<lparr>ws_workloads := put k w (ws_workloads s)\<rparr>"

definition record_workload :: "Operation \<Rightarrow> string \<Rightarrow> Readback \<Rightarrow> gotime \<Rightarrow> WorkloadStore \<Rightarrow> WorkloadStore" where
  "record_workload o1 code r now s = (case lookup (ws_workloads s) (op_WorkloadID o1) of
     Some w \<Rightarrow> put_workload (op_WorkloadID o1) (if code = [] then observed_workload o1 w r now else failed_workload code w now) s
   | None \<Rightarrow> if code = [] \<and> op_Kind o1 = OperationApply then put_workload (op_WorkloadID o1) (new_workload o1 r now) s else s)"

definition sealed_readback :: "ext \<Rightarrow> Readback \<Rightarrow> Readback" where
  "sealed_readback X r = (let r1 = SanitizeReadback X r in r1\<lparr>rb_Digest := ReadbackDigest X r1\<rparr>)"

definition completeLocked :: "ext \<Rightarrow> (nat \<Rightarrow> gotime) \<Rightarrow> WorkloadStore \<Rightarrow> string \<Rightarrow> string \<Rightarrow> string \<Rightarrow> Readback \<Rightarrow> string \<Rightarrow> string \<Rightarrow> u64
    \<Rightarrow> WorkloadFence option \<Rightarrow> (Operation \<times> Task) step" where
  "completeLocked X clk s k taskID code readback summary claim epoch fence = (case lookup (ws_operations s) k of None \<Rightarrow> (s, Inl ErrNotFound_wl)
   | Some o1 \<Rightarrow> (case lookup (ws_tasks s) taskID of None \<Rightarrow> (s, Inl ErrNotFound_wl)
   | Some t \<Rightarrow>
     if op_TaskID o1 \<noteq> taskID then (s, Inl ErrNotFound_wl)
     else let now = to_UTC (clk 0); fingerprint = CompletionFingerprint X code readback in
       if op_Status o1 \<noteq> OperationRunning
       then (if same_completion o1 claim epoch fingerprint then (s, Inr (o1, t)) else (s, Inl ErrRevisionConflict_wl))
       else if claim = [] \<or> op_DispatchClaim o1 \<noteq> claim \<or> op_DispatchEpoch o1 \<noteq> epoch \<or> \<not> After (op_DispatchLeaseUntil o1) now
          \<or> \<not> valid_task t epoch now fence then (s, Inl ErrRevisionConflict_wl)
       else if code = [] \<and> \<not> readback_ok s o1 readback then (s, Inl ErrRevisionConflict_wl)
       else let r = sealed_readback X readback; o2 = completed_op o1 code summary fingerprint now;
                t' = completed_task X t code r summary now
         in (add_event k ''terminal'' (op_Status o2) (snd (SafeFailure code summary)) now
               (put_task taskID t' (put_op k o2 (record_workload o1 code r now s))), Inr (o2, t'))))"

definition CompleteDispatch :: "ext \<Rightarrow> (nat \<Rightarrow> gotime) \<Rightarrow> WorkloadStore \<Rightarrow> string \<Rightarrow> string \<Rightarrow> string \<Rightarrow> u64 \<Rightarrow> string \<Rightarrow> Readback \<Rightarrow> string
    \<Rightarrow> (Operation \<times> Task) step" where
  "CompleteDispatch X clk s k taskID claim epoch code readback summary = (case lookup (ws_operations s) k of None \<Rightarrow> (s, Inl ErrNotFound_wl)
   | Some _ \<Rightarrow> completeLocked X clk s k taskID code readback summary claim epoch None)"

definition CompleteDispatchFenced :: "ext \<Rightarrow> (nat \<Rightarrow> gotime) \<Rightarrow> WorkloadStore \<Rightarrow> string \<Rightarrow> string \<Rightarrow> string \<Rightarrow> u64 \<Rightarrow> string \<Rightarrow> Readback \<Rightarrow> string
    \<Rightarrow> WorkloadFence \<Rightarrow> (Operation \<times> Task) step" where
  "CompleteDispatchFenced X clk s k taskID claim epoch code readback summary fence =
    (if \<not> WorkloadFence_Valid X fence (to_UTC (clk 0)) then (s, Inl ErrRevisionConflict_wl)
     else completeLocked X (\<lambda>i. clk (Suc i)) s k taskID code readback summary claim epoch (Some fence))"

subsection \<open>Leases and recovery\<close>

definition RenewDispatchLease :: "(nat \<Rightarrow> gotime) \<Rightarrow> WorkloadStore \<Rightarrow> string \<Rightarrow> string \<Rightarrow> u64 \<Rightarrow> Operation step" where
  "RenewDispatchLease clk s k claim epoch = (case lookup (ws_operations s) k of None \<Rightarrow> (s, Inl ErrNotFound_wl)
   | Some o1 \<Rightarrow> let now = to_UTC (clk 0); t = task_at s (op_TaskID o1) in
     if op_DispatchClaim o1 \<noteq> claim \<or> op_DispatchEpoch o1 \<noteq> epoch \<or> \<not> After (op_DispatchLeaseUntil o1) now then (s, Inl ErrRevisionConflict_wl)
     else (case t_Lease t of None \<Rightarrow> (s, Inl ErrRevisionConflict_wl)
     | Some l \<Rightarrow>
       if t_Status t \<noteq> StatusRunning \<or> l_Holder l \<noteq> ''workload-handler'' \<or> l_Epoch l \<noteq> epoch \<or> \<not> After (l_ExpiresAt l) now
       then (s, Inl ErrRevisionConflict_wl)
       else let o2 = o1\<lparr>op_DispatchLeaseUntil := time_Add now Hour, op_UpdatedAt := now, op_Revision := op_Revision o1 + 1\<rparr>;
                t' = t\<lparr>t_Lease := Some (l\<lparr>l_ExpiresAt := op_DispatchLeaseUntil o2\<rparr>), t_UpdatedAt := now, t_Revision := t_Revision t + 1\<rparr>
         in (put_task (t_ID t') t' (put_op k o2 s), Inr o2)))"

definition RenewDispatchLeaseFenced :: "ext \<Rightarrow> (nat \<Rightarrow> gotime) \<Rightarrow> WorkloadStore \<Rightarrow> string \<Rightarrow> string \<Rightarrow> u64 \<Rightarrow> WorkloadFence \<Rightarrow> Operation step" where
  "RenewDispatchLeaseFenced X clk s k claim epoch fence =
    (let now = to_UTC (clk 0) in
     if \<not> WorkloadFence_Valid X fence now then (s, Inl ErrRevisionConflict_wl)
     else (case lookup (ws_operations s) k of None \<Rightarrow> (s, Inl ErrNotFound_wl)
     | Some o1 \<Rightarrow> (case lookup (ws_tasks s) (op_TaskID o1) of None \<Rightarrow> (s, Inl ErrRevisionConflict_wl)
       | Some t \<Rightarrow>
         if \<not> sameTaskFence t fence \<or> op_DispatchClaim o1 \<noteq> claim \<or> op_DispatchEpoch o1 \<noteq> epoch \<or> op_Status o1 \<noteq> OperationRunning
            \<or> \<not> After (op_DispatchLeaseUntil o1) now then (s, Inl ErrRevisionConflict_wl)
         else let o2 = o1\<lparr>op_DispatchLeaseUntil := time_Add now (30 * Second), op_UpdatedAt := now, op_Revision := op_Revision o1 + 1\<rparr>
           in (put_op k o2 s, Inr o2))))"

definition recovered_task :: "Task \<Rightarrow> Lease \<Rightarrow> Operation \<Rightarrow> gotime \<Rightarrow> Task" where
  "recovered_task t l o2 now = t\<lparr>t_LeaseEpoch := op_DispatchEpoch o2,
     t_Lease := Some (l\<lparr>l_Epoch := op_DispatchEpoch o2, l_ExpiresAt := op_DispatchLeaseUntil o2\<rparr>),
     t_Revision := t_Revision t + 1, t_UpdatedAt := now\<rparr>"

definition recovery_message :: string where
  "recovery_message = ''read-only recovery claimed dispatch fence''"

definition RecoverClaim :: "(nat \<Rightarrow> gotime) \<Rightarrow> (nat \<Rightarrow> string) \<Rightarrow> WorkloadStore \<Rightarrow> string \<Rightarrow> string \<Rightarrow> Operation step" where
  "RecoverClaim clk fresh s k requestedClaim = (case lookup (ws_operations s) k of None \<Rightarrow> (s, Inl ErrNotFound_wl)
   | Some o1 \<Rightarrow> let now = to_UTC (clk 0) in
     if requestedClaim \<noteq> [] \<and> requestedClaim = op_DispatchClaim o1 \<and> After (op_DispatchLeaseUntil o1) now \<and> op_DispatchState o1 \<noteq> ''dispatched''
     then (s, Inr o1)
     else if op_Status o1 = OperationRunning \<and> op_DispatchState o1 = ''dispatched'' \<and> op_DispatchClaim o1 \<noteq> []
        \<and> After (op_DispatchLeaseUntil o1) now \<and> requestedClaim \<noteq> op_DispatchClaim o1 then (s, Inl ErrRevisionConflict_wl)
     else if op_Status o1 = OperationRunning \<and> op_DispatchState o1 = ''uncertain'' \<and> op_DispatchClaim o1 \<noteq> []
        \<and> op_DispatchClaim o1 \<noteq> requestedClaim \<and> After (op_DispatchLeaseUntil o1) now then (s, Inl ErrRevisionConflict_wl)
     else if op_Status o1 \<noteq> OperationRunning \<or> (op_DispatchState o1 \<noteq> ''dispatched'' \<and> op_DispatchState o1 \<noteq> ''uncertain'') then (s, Inr o1)
     else let o2 = o1\<lparr>op_DispatchState := ''uncertain'', op_DispatchEpoch := op_DispatchEpoch o1 + 1,
                op_DispatchClaim := (if requestedClaim = [] \<or> requestedClaim \<noteq> op_DispatchClaim o1 then fresh 0 else op_DispatchClaim o1),
                op_DispatchLeaseUntil := time_Add now (30 * Second), op_Revision := op_Revision o1 + 1, op_UpdatedAt := now\<rparr>;
              s1 = put_op k o2 s;
              s2 = (case lookup (ws_tasks s1) (op_TaskID o2) of None \<Rightarrow> s1
                | Some t \<Rightarrow> (case t_Lease t of None \<Rightarrow> s1 | Some l \<Rightarrow> put_task (t_ID t) (recovered_task t l o2 now) s1))
       in (add_event k ''recovery_claim'' OperationRunning recovery_message now s2, Inr o2))"

definition RecoverClaimFenced :: "ext \<Rightarrow> (nat \<Rightarrow> gotime) \<Rightarrow> (nat \<Rightarrow> string) \<Rightarrow> WorkloadStore \<Rightarrow> string \<Rightarrow> string \<Rightarrow> WorkloadFence \<Rightarrow> Operation step" where
  "RecoverClaimFenced X clk fresh s k requestedClaim fence =
    (let now = to_UTC (clk 0) in
     if \<not> WorkloadFence_Valid X fence now then (s, Inl ErrRevisionConflict_wl)
     else (case lookup (ws_operations s) k of None \<Rightarrow> (s, Inl ErrNotFound_wl)
     | Some o1 \<Rightarrow> (case lookup (ws_tasks s) (op_TaskID o1) of None \<Rightarrow> (s, Inl ErrRevisionConflict_wl)
       | Some t \<Rightarrow>
         if \<not> sameTaskFence t fence then (s, Inl ErrRevisionConflict_wl)
         else if op_Status o1 \<noteq> OperationRunning \<or> (op_DispatchState o1 \<noteq> ''dispatched'' \<and> op_DispatchState o1 \<noteq> ''uncertain'') then (s, Inr o1)
         else if requestedClaim \<noteq> [] \<and> requestedClaim = op_DispatchClaim o1 \<and> After (op_DispatchLeaseUntil o1) now then (s, Inr o1)
         else let o2 = o1\<lparr>op_DispatchState := ''uncertain'', op_DispatchEpoch := wf_LeaseEpoch fence, op_DispatchClaim := fresh 0,
                op_DispatchLeaseUntil := time_Add now (30 * Second), op_Revision := op_Revision o1 + 1, op_UpdatedAt := now\<rparr>
           in (add_event k ''recovery_claim'' OperationRunning recovery_message now (put_op k o2 s), Inr o2))))"

end
