(* ===== verification/Workload_Lifecycle.thy ===== *)
theory Workload_Lifecycle
  imports Workload_Store
begin

text \<open>
  The runs of the workload store: its commands as data, the invariant that holds in every store a run reaches, what a command can do
  to an operation, to a confirmation, to a plan and to the event log, and how often an operation is dispatched.
\<close>

named_theorems workload_effects \<open>the effect of each store operation\<close>

section \<open>Commands and runs\<close>

text \<open>\<open>PoolWrites\<close> is the worker pool, which claims, renews and reclaims the lease of a task that the store holds.\<close>

datatype store_command = DoCreatePlan PlanInput | DoRequest OperationRequest | DoConfirm string int | DoReject string int string
  | DoExpire string int | DoCancel string string u64 | DoConsume string string string u64
  | DoConsumeFenced string string string u64 WorkloadFence | DoAppend string Event
  | DoComplete string string string u64 string Readback string
  | DoCompleteFenced string string string u64 string Readback string WorkloadFence
  | DoRenew string string u64 | DoRenewFenced string string u64 WorkloadFence
  | DoRecover string string | DoRecoverFenced string string WorkloadFence | PoolWrites string Task

record store_call =
  sc_clk :: "nat \<Rightarrow> gotime"
  sc_fresh :: "nat \<Rightarrow> string"
  sc_command :: store_command

fun store_apply :: "ext \<Rightarrow> (nat \<Rightarrow> gotime) \<Rightarrow> (nat \<Rightarrow> string) \<Rightarrow> store_command \<Rightarrow> WorkloadStore \<Rightarrow> WorkloadStore" where
  "store_apply X clk fresh (DoCreatePlan i) s = fst (CreatePlan X clk fresh s i)"
| "store_apply X clk fresh (DoRequest c) s = fst (RequestOperation X clk fresh s c)"
| "store_apply X clk fresh (DoConfirm k n) s = fst (Confirm_wl clk s k n)"
| "store_apply X clk fresh (DoReject k n reason) s = fst (Reject_wl clk s k n reason)"
| "store_apply X clk fresh (DoExpire k n) s = fst (Expire_wl clk s k n)"
| "store_apply X clk fresh (DoCancel k key n) s = fst (CancelOperation X clk s k key n)"
| "store_apply X clk fresh (DoConsume k ck d n) s = fst (Consume_wl clk fresh s k ck d n)"
| "store_apply X clk fresh (DoConsumeFenced k ck d n f) s = fst (ConsumeFenced X clk fresh s k ck d n f)"
| "store_apply X clk fresh (DoAppend k e) s = fst (AppendEvent clk s k e)"
| "store_apply X clk fresh (DoComplete k tk claim epoch code r sm) s = fst (CompleteDispatch X clk s k tk claim epoch code r sm)"
| "store_apply X clk fresh (DoCompleteFenced k tk claim epoch code r sm f) s = fst (CompleteDispatchFenced X clk s k tk claim epoch code r sm f)"
| "store_apply X clk fresh (DoRenew k claim epoch) s = fst (RenewDispatchLease clk s k claim epoch)"
| "store_apply X clk fresh (DoRenewFenced k claim epoch f) s = fst (RenewDispatchLeaseFenced X clk s k claim epoch f)"
| "store_apply X clk fresh (DoRecover k claim) s = fst (RecoverClaim clk fresh s k claim)"
| "store_apply X clk fresh (DoRecoverFenced k claim f) s = fst (RecoverClaimFenced X clk fresh s k claim f)"
| "store_apply X clk fresh (PoolWrites k t) s = put_task k t s"

definition store_step :: "ext \<Rightarrow> store_call \<Rightarrow> WorkloadStore \<Rightarrow> WorkloadStore" where
  "store_step X c s = store_apply X (sc_clk c) (sc_fresh c) (sc_command c) s"

text \<open>What the environment guarantees: the clock is past the zero time, \<open>uuid.New\<close> draws identifiers that are not in use and
  not empty. The pool may write any task.\<close>

fun command_ok :: "(nat \<Rightarrow> string) \<Rightarrow> store_command \<Rightarrow> WorkloadStore \<Rightarrow> bool" where
  "command_ok fresh (DoCreatePlan i) s \<longleftrightarrow> lookup (ws_plans s) (TrimSpace (fresh 0)) = None"
| "command_ok fresh (DoRequest c) s \<longleftrightarrow> lookup (ws_operations s) (fresh 1) = None \<and> lookup (ws_tasks s) (fresh 2) = None
     \<and> lookup (ws_confirmations s) (fresh 3) = None"
| "command_ok fresh (PoolWrites k t) s \<longleftrightarrow> True"
| "command_ok fresh _ s \<longleftrightarrow> fresh 0 \<noteq> []"

definition call_ok :: "store_call \<Rightarrow> WorkloadStore \<Rightarrow> bool" where
  "call_ok c s \<longleftrightarrow> (\<forall>k. 0 \<le> instant (sc_clk c k)) \<and> command_ok (sc_fresh c) (sc_command c) s"

fun store_run :: "ext \<Rightarrow> store_call list \<Rightarrow> WorkloadStore \<Rightarrow> WorkloadStore" where
  "store_run X [] s = s"
| "store_run X (c # cs) s = store_run X cs (store_step X c s)"

fun run_ok :: "ext \<Rightarrow> store_call list \<Rightarrow> WorkloadStore \<Rightarrow> bool" where
  "run_ok X [] s = True"
| "run_ok X (c # cs) s = (call_ok c s \<and> run_ok X cs (store_step X c s))"

lemma run_append: "store_run X (as @ bs) s = store_run X bs (store_run X as s)"
    "run_ok X (as @ bs) s \<longleftrightarrow> run_ok X as s \<and> run_ok X bs (store_run X as s)"
  by (induction as arbitrary: s) auto

section \<open>Operations\<close>

definition op_ok :: "Operation \<Rightarrow> bool" where
  "op_ok o1 = (case op_Status o1 of
     OperationWaitingUser \<Rightarrow> op_DispatchState o1 = ''prepared'' \<and> op_DispatchAttempt o1 = 0 \<and> op_DispatchClaim o1 = [] \<and> IsZero (op_DispatchLeaseUntil o1)
   | OperationRunning \<Rightarrow> (op_DispatchState o1 = ''dispatched'' \<or> op_DispatchState o1 = ''uncertain'') \<and> op_DispatchAttempt o1 = 1 \<and> op_DispatchClaim o1 \<noteq> []
   | OperationSucceeded \<Rightarrow> op_DispatchState o1 = ''terminal'' \<and> op_DispatchAttempt o1 = 1 \<and> IsZero (op_DispatchLeaseUntil o1)
   | OperationFailed \<Rightarrow> op_DispatchState o1 = ''terminal'' \<and> op_DispatchAttempt o1 = 1 \<and> IsZero (op_DispatchLeaseUntil o1)
   | OperationUncertain \<Rightarrow> op_DispatchState o1 = ''uncertain'' \<and> op_DispatchAttempt o1 = 1 \<and> IsZero (op_DispatchLeaseUntil o1)
   | OperationStatusOther _ \<Rightarrow> False
   | _ \<Rightarrow> op_DispatchState o1 = ''terminal'' \<and> op_DispatchAttempt o1 = 0 \<and> op_DispatchClaim o1 = [] \<and> IsZero (op_DispatchLeaseUntil o1))"

definition op_identity :: "Operation \<Rightarrow> string \<times> string \<times> string \<times> OperationKind \<times> u64 \<times> string \<times> TargetKind \<times> string \<times> string \<times> gotime" where
  "op_identity o1 = (op_ID o1, op_WorkloadID o1, op_PlanID o1, op_Kind o1, op_PlanRevision o1, op_PlanDigest o1, op_TargetKind o1,
     op_TaskID o1, op_ConfirmationID o1, op_CreatedAt o1)"

fun op_edge :: "OperationStatus \<Rightarrow> OperationStatus \<Rightarrow> bool" where
  "op_edge OperationWaitingUser OperationRunning = True"
| "op_edge OperationWaitingUser OperationRejected = True"
| "op_edge OperationWaitingUser OperationExpired = True"
| "op_edge OperationWaitingUser OperationCanceled = True"
| "op_edge OperationRunning OperationRunning = True"
| "op_edge OperationRunning OperationSucceeded = True"
| "op_edge OperationRunning OperationFailed = True"
| "op_edge OperationRunning OperationUncertain = True"
| "op_edge _ _ = False"

text \<open>A change of an operation: an edge of the life cycle that keeps what the operation is about and counts its revision up.\<close>

definition op_change :: "Operation \<Rightarrow> Operation \<Rightarrow> bool" where
  "op_change o1 o2 \<longleftrightarrow> op_edge (op_Status o1) (op_Status o2) \<and> op_identity o2 = op_identity o1 \<and> op_Revision o2 = op_Revision o1 + 1 \<and> op_ok o2"

section \<open>Confirmations\<close>

definition conf_open :: "Confirmation \<Rightarrow> bool" where
  "conf_open c \<longleftrightarrow> c_State c = StatePending \<or> c_State c = StateConfirmed"

text \<open>\<open>MemoryStore.Confirm\<close> expires a confirmation in any state once its time has passed, so the expired state can follow every other.\<close>

definition conf_change :: "Confirmation \<Rightarrow> Confirmation \<Rightarrow> bool" where
  "conf_change c c' \<longleftrightarrow> c_ConfirmationID c' = c_ConfirmationID c \<and> c_ExpiresAt c' = c_ExpiresAt c
     \<and> (c_State c' = StateExpired \<or> c_State c = StatePending \<and> c_State c' \<in> {StateConfirmed, StateRejected}
        \<or> c_State c = StateConfirmed \<and> c_State c' \<in> {StateConsumed, StateRejected})"

section \<open>The event log\<close>

definition numbered :: "Event list \<Rightarrow> bool" where
  "numbered es = (map ev_Sequence es = map of_nat [1..<Suc (length es)])"

lemma numbered_append: "numbered es \<Longrightarrow> ev_Sequence e = of_nat (length es + 1) \<Longrightarrow> numbered (es @ [e])"
  by (simp add: numbered_def)

lemma numbered_simps [simp]: "numbered []" "ev_Sequence e = 1 \<Longrightarrow> numbered [e]"
  by (simp_all add: numbered_def)

section \<open>The invariant\<close>

definition keys_ok :: "WorkloadStore \<Rightarrow> bool" where
  "keys_ok s \<longleftrightarrow> gomap (ws_operations s) \<and> gomap (ws_confirmations s) \<and> (\<forall>k o1. lookup (ws_operations s) k = Some o1 \<longrightarrow> op_ID o1 = k)
     \<and> (\<forall>k c. lookup (ws_confirmations s) k = Some c \<longrightarrow> c_ConfirmationID c = k)"

definition ops_ok :: "WorkloadStore \<Rightarrow> bool" where
  "ops_ok s \<longleftrightarrow> (\<forall>k o1. lookup (ws_operations s) k = Some o1 \<longrightarrow> op_ok o1)"

text \<open>An operation that was dispatched has used up its confirmation.\<close>

definition links_ok :: "WorkloadStore \<Rightarrow> bool" where
  "links_ok s \<longleftrightarrow> (\<forall>k o1. lookup (ws_operations s) k = Some o1 \<longrightarrow>
     (\<exists>c. lookup (ws_confirmations s) (op_ConfirmationID o1) = Some c \<and> (op_DispatchAttempt o1 \<noteq> 0 \<longrightarrow> \<not> conf_open c)))"

definition one_op_per_confirmation :: "WorkloadStore \<Rightarrow> bool" where
  "one_op_per_confirmation s \<longleftrightarrow> (\<forall>k k' o1 o2. lookup (ws_operations s) k = Some o1 \<longrightarrow> lookup (ws_operations s) k' = Some o2 \<longrightarrow>
     op_ConfirmationID o1 = op_ConfirmationID o2 \<longrightarrow> k = k')"

definition log_ok :: "WorkloadStore \<Rightarrow> bool" where
  "log_ok s \<longleftrightarrow> (\<forall>k. numbered (events_at s k) \<and> (lookup (ws_operations s) k = None \<longrightarrow> events_at s k = []))"

definition store_ok :: "WorkloadStore \<Rightarrow> bool" where
  "store_ok s \<longleftrightarrow> keys_ok s \<and> ops_ok s \<and> links_ok s \<and> one_op_per_confirmation s \<and> log_ok s"

lemma NewMemoryStore_ok: "store_ok NewMemoryStore"
  by (simp add: store_ok_def keys_ok_def ops_ok_def links_ok_def one_op_per_confirmation_def log_ok_def NewMemoryStore_def events_at_def or_zero_def)

section \<open>Shapes of the effects\<close>

definition next_event :: "string \<Rightarrow> WorkloadStore \<Rightarrow> WorkloadStore \<Rightarrow> bool" where
  "next_event k s s' \<longleftrightarrow> (\<exists>e. ev_Sequence e = of_nat (length (events_at s k) + 1) \<and> ws_events s' = put k (events_at s k @ [e]) (ws_events s))"

definition plans_kept :: "WorkloadStore \<Rightarrow> WorkloadStore \<Rightarrow> bool" where
  "plans_kept s s' \<longleftrightarrow> (\<forall>k p. lookup (ws_plans s) k = Some p \<longrightarrow> lookup (ws_plans s') k = Some p)"

text \<open>The first argument is the operation that the step hands to a provider, if any. Tasks, workloads and replays may change with every
  shape.\<close>

inductive shape :: "string option \<Rightarrow> WorkloadStore \<Rightarrow> WorkloadStore \<Rightarrow> bool" where
  quiet_shape: "ws_operations s' = ws_operations s \<Longrightarrow> ws_confirmations s' = ws_confirmations s \<Longrightarrow> ws_events s' = ws_events s \<Longrightarrow>
    plans_kept s s' \<Longrightarrow> shape None s s'"
| decide_shape: "lookup (ws_confirmations s) k = Some c \<Longrightarrow> conf_change c c' \<Longrightarrow> ws_confirmations s' = put k c' (ws_confirmations s) \<Longrightarrow>
    ws_operations s' = ws_operations s \<Longrightarrow> ws_events s' = ws_events s \<Longrightarrow> plans_kept s s' \<Longrightarrow> shape None s s'"
| log_shape: "lookup (ws_operations s) k \<noteq> None \<Longrightarrow> next_event k s s' \<Longrightarrow> ws_operations s' = ws_operations s \<Longrightarrow>
    ws_confirmations s' = ws_confirmations s \<Longrightarrow> plans_kept s s' \<Longrightarrow> shape None s s'"
| run_shape: "lookup (ws_operations s) k = Some v \<Longrightarrow> op_Status v = OperationRunning \<Longrightarrow> op_change v w \<Longrightarrow>
    ws_operations s' = put k w (ws_operations s) \<Longrightarrow> ws_confirmations s' = ws_confirmations s \<Longrightarrow>
    ws_events s' = ws_events s \<or> next_event k s s' \<Longrightarrow> plans_kept s s' \<Longrightarrow> shape None s s'"
| leave_shape: "lookup (ws_operations s) k = Some v \<Longrightarrow> op_Status v = OperationWaitingUser \<Longrightarrow> op_change v w \<Longrightarrow>
    lookup (ws_confirmations s) (op_ConfirmationID v) = Some c \<Longrightarrow> conf_open c \<Longrightarrow> conf_change c c' \<Longrightarrow> \<not> conf_open c' \<Longrightarrow>
    d = (if op_Status w = OperationRunning then Some k else None) \<Longrightarrow> (d \<noteq> None \<Longrightarrow> c_State c = StateConfirmed) \<Longrightarrow>
    ws_operations s' = put k w (ws_operations s) \<Longrightarrow> ws_confirmations s' = put (op_ConfirmationID v) c' (ws_confirmations s) \<Longrightarrow>
    next_event k s s' \<Longrightarrow> plans_kept s s' \<Longrightarrow> shape d s s'"
| request_shape: "lookup (ws_operations s) (op_ID v) = None \<Longrightarrow> lookup (ws_confirmations s) (op_ConfirmationID v) = None \<Longrightarrow>
    op_ok v \<Longrightarrow> op_Status v = OperationWaitingUser \<Longrightarrow> c_ConfirmationID c = op_ConfirmationID v \<Longrightarrow> ev_Sequence e = 1 \<Longrightarrow>
    ws_operations s' = put (op_ID v) v (ws_operations s) \<Longrightarrow> ws_confirmations s' = put (op_ConfirmationID v) c (ws_confirmations s) \<Longrightarrow>
    ws_events s' = put (op_ID v) [e] (ws_events s) \<Longrightarrow> plans_kept s s' \<Longrightarrow> shape None s s'"

lemma store_puts [simp]:
  "ws_operations (put_op k v s) = put k v (ws_operations s)" "ws_tasks (put_op k v s) = ws_tasks s"
  "ws_confirmations (put_op k v s) = ws_confirmations s" "ws_events (put_op k v s) = ws_events s" "ws_plans (put_op k v s) = ws_plans s"
  "ws_operations (put_task k t s) = ws_operations s" "ws_tasks (put_task k t s) = put k t (ws_tasks s)"
  "ws_confirmations (put_task k t s) = ws_confirmations s" "ws_events (put_task k t s) = ws_events s" "ws_plans (put_task k t s) = ws_plans s"
  "ws_operations (put_confirmation k c s) = ws_operations s" "ws_tasks (put_confirmation k c s) = ws_tasks s"
  "ws_confirmations (put_confirmation k c s) = put k c (ws_confirmations s)" "ws_events (put_confirmation k c s) = ws_events s"
  "ws_plans (put_confirmation k c s) = ws_plans s"
  "ws_operations (put_workload k w s) = ws_operations s" "ws_tasks (put_workload k w s) = ws_tasks s"
  "ws_confirmations (put_workload k w s) = ws_confirmations s" "ws_events (put_workload k w s) = ws_events s"
  "ws_plans (put_workload k w s) = ws_plans s"
  by (simp_all add: put_op_def put_task_def put_confirmation_def put_workload_def)

lemma store_replay_puts [simp]:
  "ws_operations (put_result k v h s) = ws_operations s" "ws_tasks (put_result k v h s) = ws_tasks s"
  "ws_confirmations (put_result k v h s) = ws_confirmations s" "ws_events (put_result k v h s) = ws_events s"
  "ws_plans (put_result k v h s) = ws_plans s"
  "ws_operations (put_plan_replay k p h s) = ws_operations s" "ws_confirmations (put_plan_replay k p h s) = ws_confirmations s"
  "ws_events (put_plan_replay k p h s) = ws_events s" "ws_plans (put_plan_replay k p h s) = ws_plans s"
  by (simp_all add: put_result_def put_plan_replay_def)

lemma add_event_simps [simp]:
  "ws_operations (add_event k kind st m now s) = ws_operations s" "ws_tasks (add_event k kind st m now s) = ws_tasks s"
  "ws_confirmations (add_event k kind st m now s) = ws_confirmations s" "ws_plans (add_event k kind st m now s) = ws_plans s"
  by (simp_all add: add_event_def)

lemma record_workload_simps [simp]:
  "ws_operations (record_workload o1 code r now s) = ws_operations s" "ws_tasks (record_workload o1 code r now s) = ws_tasks s"
  "ws_confirmations (record_workload o1 code r now s) = ws_confirmations s" "ws_events (record_workload o1 code r now s) = ws_events s"
  "ws_plans (record_workload o1 code r now s) = ws_plans s"
  by (simp_all add: record_workload_def split: option.split)

lemma events_at_cong: "ws_events s = ws_events s' \<Longrightarrow> events_at s k = events_at s' k"
  by (simp add: events_at_def)

lemma next_event_add: "ws_events s1 = ws_events s \<Longrightarrow> next_event k s (add_event k kind st m now s1)"
  unfolding next_event_def add_event_def events_at_def
  by (simp, rule exI, rule conjI [rotated], rule refl, simp)

lemma next_eventI: "ws_events s' = put k (events_at s k @ [e]) (ws_events s) \<Longrightarrow> ev_Sequence e = of_nat (length (events_at s k) + 1) \<Longrightarrow> next_event k s s'"
  by (auto simp: next_event_def)

lemma next_event_result: "next_event k s s1 \<Longrightarrow> next_event k s (put_result key v h s1)"
  by (auto simp: next_event_def)

lemma plans_kept_refl [simp]: "ws_plans s' = ws_plans s \<Longrightarrow> plans_kept s s'"
  by (simp add: plans_kept_def)

lemma shape_refl [simp, intro]: "shape None s s"
  by (rule quiet_shape) simp_all

lemma op_found: "keys_ok s \<Longrightarrow> op_of_confirmation s k = Some o1 \<Longrightarrow> lookup (ws_operations s) (op_ID o1) = Some o1 \<and> op_ConfirmationID o1 = k"
proof -
  assume k: "keys_ok s" and f: "op_of_confirmation s k = Some o1"
  then obtain j where "(j, o1) \<in> set (ws_operations s)" "op_ConfirmationID o1 = k"
    by (auto simp: op_of_confirmation_def find_Some_iff) (metis in_set_conv_nth nth_map prod.collapse)
  moreover from this(1) k have "lookup (ws_operations s) j = Some o1" by (simp add: keys_ok_def gomap_def lookup_def)
  ultimately show ?thesis using k by (auto simp: keys_ok_def)
qed

lemmas op_facts = op_change_def op_ok_def op_identity_def gotime_simps time_zero_def

section \<open>The shape of every operation\<close>

lemma CreatePlan_shape [workload_effects]: "lookup (ws_plans s) (TrimSpace (fresh 0)) = None \<Longrightarrow> shape None s (fst (CreatePlan X clk fresh s i))"
proof -
  assume f: "lookup (ws_plans s) (TrimSpace (fresh 0)) = None"
  have "pn_ID n = TrimSpace (fresh 0)" if "Plan_Normalize X (plan_of (fresh 0) (clk 0) i) = Inr n" for n
    using that by (auto simp: Plan_Normalize_def Let_def plan_of_def Plan_trim_def split: if_splits option.splits)
  with f show ?thesis
    by (auto simp: CreatePlan_def Let_def intro!: quiet_shape split: sum.split option.split) (auto simp: plans_kept_def)
qed

lemma request_op: "op_ok (rr_Operation (requested X fresh now ex p wid kind))"
    "op_Status (rr_Operation (requested X fresh now ex p wid kind)) = OperationWaitingUser"
    "op_ID (rr_Operation (requested X fresh now ex p wid kind)) = fresh 1"
    "op_ConfirmationID (rr_Operation (requested X fresh now ex p wid kind)) = fresh 3"
    "c_ConfirmationID (rr_Confirmation (requested X fresh now ex p wid kind)) = fresh 3"
  by (simp_all add: requested_def op_facts)

lemma RequestOperation_shape [workload_effects]: "command_ok fresh (DoRequest c) s \<Longrightarrow> shape None s (fst (RequestOperation X clk fresh s c))"
proof -
  assume f: "command_ok fresh (DoRequest c) s"
  have "shape None s (put_result k r h (store_result r s))" if "r = requested X fresh now ex p wid kind" for k r h now ex p wid kind
    using f unfolding that
    by (intro request_shape [where v = "rr_Operation (requested X fresh now ex p wid kind)" and
          c = "rr_Confirmation (requested X fresh now ex p wid kind)"])
       (simp_all add: request_op store_result_def Let_def)
  then show ?thesis by (auto simp: RequestOperation_def Let_def split: option.split)
qed

lemma Confirm_shape [workload_effects]: "shape None s (fst (Confirm_wl clk s k n))"
  by (auto simp: Confirm_wl_def Let_def conf_change_def intro!: decide_shape split: option.split)

lemma terminalize_shape:
  assumes "keys_ok s" "ops_ok s" "lookup (ws_confirmations s) (c_ConfirmationID c) = Some c \<or> \<not> conf_open c"
    and "ost \<in> {OperationRejected, OperationExpired, OperationCanceled}" "cst \<in> {StateRejected, StateExpired}"
  shows "shape None s (fst (terminalizeBeforeDispatchLocked clk s c ost cst tst code sm))"
proof (cases "op_of_confirmation s (c_ConfirmationID c)")
  case (Some o1)
  with op_found [OF assms(1) this] assms(2) have o1: "lookup (ws_operations s) (op_ID o1) = Some o1" "op_ConfirmationID o1 = c_ConfirmationID c" "op_ok o1"
    by (auto simp: ops_ok_def)
  show ?thesis using assms(3,4,5) o1
    by (auto simp: terminalizeBeforeDispatchLocked_def Let_def Some conf_open_def conf_change_def op_facts
        intro!: leave_shape [where k = "op_ID o1" and v = o1 and c = c] next_event_add)
qed (simp add: terminalizeBeforeDispatchLocked_def)

lemma key_of_confirmation: "keys_ok s \<Longrightarrow> lookup (ws_confirmations s) k = Some c \<Longrightarrow> lookup (ws_confirmations s) (c_ConfirmationID c) = Some c"
  by (simp add: keys_ok_def)

lemma Reject_shape [workload_effects]: "keys_ok s \<Longrightarrow> ops_ok s \<Longrightarrow> shape None s (fst (Reject_wl clk s k n reason))"
  by (auto simp: Reject_wl_def split: option.split intro!: terminalize_shape dest: key_of_confirmation)

lemma Expire_shape [workload_effects]: "keys_ok s \<Longrightarrow> ops_ok s \<Longrightarrow> shape None s (fst (Expire_wl clk s k n))"
  by (auto simp: Expire_wl_def split: option.split intro!: terminalize_shape dest: key_of_confirmation)

lemma shape_result:
  assumes "shape d s s1"
  shows "shape d s (put_result key r h s1)"
  using assms
proof (cases rule: shape.cases)
  case quiet_shape
  then show ?thesis by (auto intro!: shape.quiet_shape simp: plans_kept_def)
next
  case (decide_shape k c c')
  then show ?thesis by (auto intro!: shape.decide_shape [of s k c c'] simp: plans_kept_def)
next
  case (log_shape k)
  then show ?thesis by (auto intro!: shape.log_shape [of s k] simp: plans_kept_def next_event_result)
next
  case (run_shape k v w)
  then show ?thesis by (auto intro!: shape.run_shape [of s k v w] simp: plans_kept_def next_event_result)
next
  case (leave_shape k v w c c')
  then show ?thesis by (auto intro!: shape.leave_shape [of s k v w c c'] simp: plans_kept_def next_event_result)
next
  case (request_shape v c e)
  then show ?thesis by (auto intro!: shape.request_shape [of s v c e] simp: plans_kept_def)
qed

lemma Cancel_shape [workload_effects]:
  assumes "keys_ok s" "ops_ok s"
  shows "shape None s (fst (CancelOperation X clk s k key n))"
proof -
  have "shape None s (fst (terminalizeBeforeDispatchLocked clk s (confirmation_at s ck) OperationCanceled StateRejected StatusCanceled code sm))" for ck code sm
    using assms by (intro terminalize_shape) (auto simp: confirmation_at_def or_zero_def conf_open_def zero_confirmation_def keys_ok_def split: option.split)
  then show ?thesis
    by (auto simp: CancelOperation_def Let_def split: option.split prod.split sum.split intro!: shape_result) (metis fst_conv)+
qed

lemma open_confirmation: "c_State (confirmation_at s k) = StateConfirmed \<Longrightarrow> lookup (ws_confirmations s) k = Some (confirmation_at s k)"
  by (auto simp: confirmation_at_def or_zero_def zero_confirmation_def split: option.splits)

definition succeeded :: "'a step \<Rightarrow> bool" where
  "succeeded r = (err_of (snd r) = None)"

lemma succeeded_simps [simp]: "succeeded (s, Inr v)" "\<not> succeeded (s, Inl e)"
  by (simp_all add: succeeded_def)

lemma Consume_shape [workload_effects]:
  assumes "keys_ok s" "ops_ok s" "fresh 0 \<noteq> []"
  shows "shape (if succeeded (Consume_wl clk fresh s k ck d n) then Some k else None) s (fst (Consume_wl clk fresh s k ck d n))"
proof (cases "lookup (ws_operations s) k")
  case (Some o1)
  with assms(2) have "op_ok o1" by (auto simp: ops_ok_def)
  with Some assms(3) open_confirmation [of s ck] show ?thesis
    by (auto simp: Consume_wl_def Let_def conf_open_def conf_change_def op_facts
        intro!: leave_shape [where k = k and v = o1 and c = "confirmation_at s ck"] next_event_add)
qed (simp add: Consume_wl_def)

lemma ConsumeFenced_shape [workload_effects]:
  assumes "keys_ok s" "ops_ok s" "fresh 0 \<noteq> []"
  shows "shape (if succeeded (ConsumeFenced X clk fresh s k ck d n f) then Some k else None) s (fst (ConsumeFenced X clk fresh s k ck d n f))"
proof (cases "lookup (ws_operations s) k")
  case (Some o1)
  with assms(2) have "op_ok o1" by (auto simp: ops_ok_def)
  with Some assms(3) show ?thesis
    by (auto simp: ConsumeFenced_def Let_def conf_open_def conf_change_def op_facts
        intro!: leave_shape [where k = k and v = o1] next_event_add split: option.split)
qed (simp add: ConsumeFenced_def Let_def)

lemma AppendEvent_shape [workload_effects]: "shape None s (fst (AppendEvent clk s k e))"
  by (auto simp: AppendEvent_def Let_def intro!: log_shape [where k = k] next_eventI split: option.split)

lemma completed_change: "op_ok o1 \<Longrightarrow> op_Status o1 = OperationRunning \<Longrightarrow> op_change o1 (completed_op o1 code sm fp now)"
  by (simp add: completed_op_def op_facts)

lemma complete_shape: "ops_ok s \<Longrightarrow> shape None s (fst (completeLocked X clk s k tk code r sm claim epoch f))"
proof (cases "lookup (ws_operations s) k")
  case (Some o1)
  moreover assume "ops_ok s"
  ultimately have "op_ok o1" by (auto simp: ops_ok_def)
  with Some completed_change [of o1] show ?thesis
    by (auto simp: completeLocked_def Let_def intro!: run_shape [where k = k and v = o1] next_event_add split: option.split)
qed (simp add: completeLocked_def)

lemma CompleteDispatch_shape [workload_effects]: "ops_ok s \<Longrightarrow> shape None s (fst (CompleteDispatch X clk s k tk claim epoch code r sm))"
  by (simp add: CompleteDispatch_def complete_shape split: option.split)

lemma CompleteDispatchFenced_shape [workload_effects]: "ops_ok s \<Longrightarrow> shape None s (fst (CompleteDispatchFenced X clk s k tk claim epoch code r sm f))"
  by (simp add: CompleteDispatchFenced_def complete_shape)

text \<open>Only a running operation has a dispatch lease past the zero time.\<close>

lemma leased_runs: "op_ok o1 \<Longrightarrow> After (op_DispatchLeaseUntil o1) (to_UTC now) \<Longrightarrow> 0 \<le> instant now \<Longrightarrow> op_Status o1 = OperationRunning"
  by (auto simp: op_ok_def gotime_simps split: OperationStatus.splits)

lemma RenewDispatchLease_shape [workload_effects]:
  assumes "ops_ok s" "0 \<le> instant (clk 0)"
  shows "shape None s (fst (RenewDispatchLease clk s k claim epoch))"
proof (cases "lookup (ws_operations s) k")
  case (Some o1)
  with assms(1) have ok: "op_ok o1" by (auto simp: ops_ok_def)
  with Some leased_runs [OF ok _ assms(2)] show ?thesis
    by (auto simp: RenewDispatchLease_def Let_def intro!: run_shape [where k = k and v = o1] split: option.split) (simp add: op_facts)
qed (simp add: RenewDispatchLease_def)

lemma RenewDispatchLeaseFenced_shape [workload_effects]:
  assumes "ops_ok s"
  shows "shape None s (fst (RenewDispatchLeaseFenced X clk s k claim epoch f))"
proof (cases "lookup (ws_operations s) k")
  case (Some o1)
  with assms have ok: "op_ok o1" by (auto simp: ops_ok_def)
  with Some show ?thesis
    by (auto simp: RenewDispatchLeaseFenced_def Let_def intro!: run_shape [where k = k and v = o1] split: option.split) (simp add: op_facts)
qed (simp add: RenewDispatchLeaseFenced_def Let_def)

lemma RecoverClaim_shape [workload_effects]:
  assumes "ops_ok s" "fresh 0 \<noteq> []"
  shows "shape None s (fst (RecoverClaim clk fresh s k claim))"
proof (cases "lookup (ws_operations s) k")
  case (Some o1)
  with assms(1) have ok: "op_ok o1" by (auto simp: ops_ok_def)
  define o2 where "o2 = o1\<lparr>op_DispatchState := ''uncertain'', op_DispatchEpoch := op_DispatchEpoch o1 + 1,
      op_DispatchClaim := (if claim = [] \<or> claim \<noteq> op_DispatchClaim o1 then fresh 0 else op_DispatchClaim o1),
      op_DispatchLeaseUntil := time_Add (to_UTC (clk 0)) (30 * Second), op_Revision := op_Revision o1 + 1, op_UpdatedAt := to_UTC (clk 0)\<rparr>"
  have "op_change o1 o2" if "op_Status o1 = OperationRunning" using ok assms(2) that by (auto simp: o2_def op_facts)
  with Some show ?thesis
    by (simp add: RecoverClaim_def Let_def o2_def [symmetric])
       (auto intro!: run_shape [where k = k and v = o1 and w = o2] next_event_add split: option.split)
qed (simp add: RecoverClaim_def)

lemma RecoverClaimFenced_shape [workload_effects]:
  assumes "ops_ok s" "fresh 0 \<noteq> []"
  shows "shape None s (fst (RecoverClaimFenced X clk fresh s k claim f))"
proof (cases "lookup (ws_operations s) k")
  case (Some o1)
  with assms(1) have ok: "op_ok o1" by (auto simp: ops_ok_def)
  with Some assms(2) show ?thesis
    by (auto simp: RecoverClaimFenced_def Let_def intro!: run_shape [where k = k and v = o1] next_event_add split: option.split)
       (simp_all add: op_facts)
qed (simp add: RecoverClaimFenced_def Let_def)

section \<open>Steps and runs\<close>

fun dispatch_of :: "ext \<Rightarrow> (nat \<Rightarrow> gotime) \<Rightarrow> (nat \<Rightarrow> string) \<Rightarrow> store_command \<Rightarrow> WorkloadStore \<Rightarrow> string option" where
  "dispatch_of X clk fresh (DoConsume k ck d n) s = (if succeeded (Consume_wl clk fresh s k ck d n) then Some k else None)"
| "dispatch_of X clk fresh (DoConsumeFenced k ck d n f) s = (if succeeded (ConsumeFenced X clk fresh s k ck d n f) then Some k else None)"
| "dispatch_of X clk fresh _ s = None"

lemma apply_shape:
  assumes "store_ok s" "\<forall>k. 0 \<le> instant (clk k)" "command_ok fresh c s"
  shows "shape (dispatch_of X clk fresh c s) s (store_apply X clk fresh c s)"
proof -
  from assms(1) have "keys_ok s" "ops_ok s" by (simp_all add: store_ok_def)
  with assms(2,3) show ?thesis by (cases c) (simp_all add: workload_effects quiet_shape)
qed

end
