(* ===== verification/Workload_Runs.thy ===== *)
theory Workload_Runs
  imports Workload_Lifecycle
begin

text \<open>
  What holds along the runs of the workload store: the invariant, how an operation, a confirmation, a plan and the event log can
  change from one store to a later one, and the number of dispatches of an operation.
\<close>

section \<open>The invariant is kept\<close>

lemma conf_closed: "conf_change c c' \<Longrightarrow> \<not> conf_open c \<Longrightarrow> \<not> conf_open c'"
  by (auto simp: conf_change_def conf_open_def)

lemma change_identity: "op_change v w \<Longrightarrow> op_ID w = op_ID v \<and> op_ConfirmationID w = op_ConfirmationID v \<and> op_ok w"
  by (simp add: op_change_def op_identity_def)

lemma running_attempt: "op_ok v \<Longrightarrow> op_Status v = OperationRunning \<Longrightarrow> op_change v w \<Longrightarrow> op_DispatchAttempt w = 1 \<and> op_DispatchAttempt v = 1"
  by (cases "op_Status w") (auto simp: op_change_def op_ok_def)

lemma waiting_attempt: "op_ok v \<Longrightarrow> op_Status v = OperationWaitingUser \<Longrightarrow> op_change v w \<Longrightarrow>
    op_DispatchAttempt v = 0 \<and> op_DispatchAttempt w = (if op_Status w = OperationRunning then 1 else 0)"
  by (cases "op_Status w") (auto simp: op_change_def op_ok_def)

lemma keys_kept: "shape d s s' \<Longrightarrow> keys_ok s \<Longrightarrow> keys_ok s'"
  by (induction rule: shape.induct) (auto simp: keys_ok_def conf_change_def dest!: change_identity)

lemma ops_kept: "shape d s s' \<Longrightarrow> ops_ok s \<Longrightarrow> ops_ok s'"
  by (induction rule: shape.induct) (auto simp: ops_ok_def dest!: change_identity)

lemma unique_kept: "shape d s s' \<Longrightarrow> links_ok s \<Longrightarrow> one_op_per_confirmation s \<Longrightarrow> one_op_per_confirmation s'"
proof (induction rule: shape.induct)
  case (run_shape s k v w s')
  then show ?case by (auto simp: one_op_per_confirmation_def dest!: change_identity)
next
  case (leave_shape s k v w c c' d s')
  then show ?case by (auto simp: one_op_per_confirmation_def dest!: change_identity)
next
  case (request_shape s v c e s')
  then show ?case by (auto simp: one_op_per_confirmation_def links_ok_def) (metis option.distinct(1))+
qed (simp_all add: one_op_per_confirmation_def)

lemma links_kept: "shape d s s' \<Longrightarrow> ops_ok s \<Longrightarrow> links_ok s \<Longrightarrow> links_ok s'"
proof (induction rule: shape.induct)
  case (decide_shape s k c c' s')
  show ?case unfolding links_ok_def
  proof (intro allI impI)
    fix j v assume "lookup (ws_operations s') j = Some v"
    with decide_shape obtain a where a: "lookup (ws_confirmations s) (op_ConfirmationID v) = Some a" "op_DispatchAttempt v \<noteq> 0 \<longrightarrow> \<not> conf_open a"
      by (auto simp: links_ok_def)
    with decide_shape show "\<exists>c. lookup (ws_confirmations s') (op_ConfirmationID v) = Some c \<and> (op_DispatchAttempt v \<noteq> 0 \<longrightarrow> \<not> conf_open c)"
      using conf_closed [of c c'] by auto
  qed
next
  case (run_shape s k v w s')
  then have ok: "op_ok v" by (simp add: ops_ok_def)
  from running_attempt [OF ok run_shape(2,3)] change_identity [OF run_shape(3)]
  have "op_DispatchAttempt w = op_DispatchAttempt v" "op_ConfirmationID w = op_ConfirmationID v" by simp_all
  with run_shape show ?case by (auto simp: links_ok_def)
next
  case (leave_shape s k v w c c' d s')
  then have "op_ConfirmationID w = op_ConfirmationID v" by (auto dest: change_identity)
  with leave_shape show ?case by (auto simp: links_ok_def)
next
  case (request_shape s v c e s')
  then have "op_DispatchAttempt v = 0" by (simp add: op_ok_def)
  with request_shape show ?case by (auto simp: links_ok_def) (metis option.distinct(1))
qed (simp_all add: links_ok_def)

lemma next_event_at: "next_event k s s' \<Longrightarrow> \<exists>e. ev_Sequence e = of_nat (length (events_at s k) + 1)
    \<and> (\<forall>j. events_at s' j = (if j = k then events_at s k @ [e] else events_at s j))"
  by (auto simp: next_event_def events_at_def or_zero_def)

lemma log_step:
  assumes "shape d s s'" "log_ok s"
  shows "log_ok s' \<and> (\<forall>k. \<exists>es. events_at s' k = events_at s k @ es)"
  using assms
proof (induction rule: shape.induct)
  case (log_shape s k s')
  from next_event_at [OF log_shape(2)] log_shape show ?case by (auto simp: log_ok_def numbered_append)
next
  case (run_shape s k v w s')
  from run_shape(6) show ?case
  proof
    assume "next_event k s s'"
    from next_event_at [OF this] run_shape show ?thesis by (auto simp: log_ok_def numbered_append)
  qed (use run_shape in \<open>auto simp: log_ok_def events_at_def\<close>)
next
  case (leave_shape s k v w c c' d s')
  from next_event_at [OF leave_shape(12)] leave_shape show ?case by (auto simp: log_ok_def numbered_append)
next
  case (request_shape s v c e s')
  then have "events_at s' k = (if k = op_ID v then [e] else events_at s k)" for k by (simp add: events_at_def or_zero_def)
  with request_shape show ?case by (auto simp: log_ok_def)
qed (auto simp: log_ok_def events_at_def)

lemma shape_keeps_ok: "shape d s s' \<Longrightarrow> store_ok s \<Longrightarrow> store_ok s'"
  unfolding store_ok_def using keys_kept ops_kept links_kept unique_kept log_step by blast

section \<open>From one store to a later one\<close>

text \<open>What a step guarantees of everything that existed before it. It is reflexive and transitive, so it also holds of runs.\<close>

definition later_op :: "Operation \<Rightarrow> Operation \<Rightarrow> bool" where
  "later_op v w \<longleftrightarrow> op_change\<^sup>*\<^sup>* v w"

definition later :: "WorkloadStore \<Rightarrow> WorkloadStore \<Rightarrow> bool" where
  "later s s' \<longleftrightarrow> (\<forall>k v. lookup (ws_operations s) k = Some v \<longrightarrow> (\<exists>w. lookup (ws_operations s') k = Some w \<and> later_op v w))
     \<and> (\<forall>k c. lookup (ws_confirmations s) k = Some c \<longrightarrow> \<not> conf_open c \<longrightarrow> (\<exists>c'. lookup (ws_confirmations s') k = Some c' \<and> \<not> conf_open c'))
     \<and> (\<forall>k. \<exists>es. events_at s' k = events_at s k @ es) \<and> plans_kept s s'"

lemma later_refl [simp]: "later s s"
  by (auto simp: later_def later_op_def)

lemma later_trans: "later s t \<Longrightarrow> later t u \<Longrightarrow> later s u"
proof -
  assume a: "later s t" "later t u"
  have "\<exists>w. lookup (ws_operations u) k = Some w \<and> later_op v w" if "lookup (ws_operations s) k = Some v" for k v
    using a that unfolding later_def later_op_def by (meson rtranclp_trans)
  moreover have "\<exists>c'. lookup (ws_confirmations u) k = Some c' \<and> \<not> conf_open c'" if "lookup (ws_confirmations s) k = Some c" "\<not> conf_open c" for k c
    using a that unfolding later_def by meson
  moreover have "\<exists>es. events_at u k = events_at s k @ es" for k
    using a unfolding later_def by (metis append.assoc)
  moreover have "plans_kept s u" using a by (simp add: later_def plans_kept_def)
  ultimately show ?thesis by (simp add: later_def)
qed

lemma shape_plans: "shape d s s' \<Longrightarrow> plans_kept s s'"
  by (induction rule: shape.induct)

lemma shape_later:
  assumes "shape d s s'" "store_ok s"
  shows "later s s'"
proof -
  have o: "\<exists>w. lookup (ws_operations s') k = Some w \<and> later_op v w" if "lookup (ws_operations s) k = Some v" for k v
    using assms(1) that by (induction rule: shape.induct) (auto simp: later_op_def)
  have c: "\<exists>c'. lookup (ws_confirmations s') k = Some c' \<and> \<not> conf_open c'" if "lookup (ws_confirmations s) k = Some c" "\<not> conf_open c" for k c
    using assms(1) that by (induction rule: shape.induct) (auto dest: conf_closed)
  from log_step [OF assms(1)] assms(2) have "\<forall>k. \<exists>es. events_at s' k = events_at s k @ es" by (simp add: store_ok_def)
  with o c shape_plans [OF assms(1)] show ?thesis by (simp add: later_def)
qed

lemma step_shape: "store_ok s \<Longrightarrow> call_ok c s \<Longrightarrow> shape (dispatch_of X (sc_clk c) (sc_fresh c) (sc_command c) s) s (store_step X c s)"
  by (simp add: store_step_def call_ok_def apply_shape)

lemma run_later: "store_ok s \<Longrightarrow> run_ok X cs s \<Longrightarrow> store_ok (store_run X cs s) \<and> later s (store_run X cs s)"
proof (induction cs arbitrary: s)
  case (Cons c cs)
  then have sh: "shape (dispatch_of X (sc_clk c) (sc_fresh c) (sc_command c) s) s (store_step X c s)" by (simp add: step_shape)
  with Cons.prems have "store_ok (store_step X c s)" "later s (store_step X c s)" by (auto intro: shape_keeps_ok shape_later)
  with Cons show ?case by (auto intro: later_trans)
qed simp

section \<open>Final operations\<close>

definition op_final :: "Operation \<Rightarrow> bool" where
  "op_final v \<longleftrightarrow> op_Status v \<noteq> OperationWaitingUser \<and> op_Status v \<noteq> OperationRunning"

lemma final_stuck: "op_final v \<Longrightarrow> \<not> op_change v w"
  by (cases "op_Status v") (auto simp: op_final_def op_change_def)

lemma final_kept: "later_op v w \<Longrightarrow> op_final v \<Longrightarrow> w = v"
  unfolding later_op_def by (induction rule: converse_rtranclp_induct) (auto simp: final_stuck)

lemma left_waiting: "later_op v w \<Longrightarrow> op_Status v \<noteq> OperationWaitingUser \<Longrightarrow> op_Status w \<noteq> OperationWaitingUser"
  unfolding later_op_def
proof (induction rule: rtranclp_induct)
  case (step y z)
  then show ?case by (cases "op_Status y"; cases "op_Status z") (auto simp: op_change_def)
qed simp

section \<open>Dispatches\<close>

definition is_dispatch :: "ext \<Rightarrow> string \<Rightarrow> store_call \<Rightarrow> WorkloadStore \<Rightarrow> bool" where
  "is_dispatch X k c s \<longleftrightarrow> dispatch_of X (sc_clk c) (sc_fresh c) (sc_command c) s = Some k"

fun dispatches :: "ext \<Rightarrow> string \<Rightarrow> store_call list \<Rightarrow> WorkloadStore \<Rightarrow> nat" where
  "dispatches X k [] s = 0"
| "dispatches X k (c # cs) s = (if is_dispatch X k c s then 1 else 0) + dispatches X k cs (store_step X c s)"

definition attempts :: "WorkloadStore \<Rightarrow> string \<Rightarrow> nat" where
  "attempts s k = (case lookup (ws_operations s) k of None \<Rightarrow> 0 | Some v \<Rightarrow> unat (op_DispatchAttempt v))"

lemma attempts_bound: "store_ok s \<Longrightarrow> attempts s k \<le> 1"
proof (cases "lookup (ws_operations s) k")
  case (Some v)
  moreover assume "store_ok s"
  ultimately have "op_ok v" by (simp add: store_ok_def ops_ok_def)
  then show ?thesis using Some by (cases "op_Status v") (simp_all add: attempts_def op_ok_def)
qed (simp add: attempts_def)

lemma shape_attempts: "shape d s s' \<Longrightarrow> store_ok s \<Longrightarrow> attempts s' k = attempts s k + (if d = Some k then 1 else 0)"
proof (induction rule: shape.induct)
  case (run_shape s j v w s')
  then have "op_ok v" by (simp add: store_ok_def ops_ok_def)
  from running_attempt [OF this run_shape(2,3)] have "op_DispatchAttempt w = op_DispatchAttempt v" by simp
  with run_shape show ?case by (auto simp: attempts_def)
next
  case (leave_shape s j v w c c' d s')
  then have "op_ok v" by (simp add: store_ok_def ops_ok_def)
  from waiting_attempt [OF this leave_shape(2,3)] leave_shape show ?case by (auto simp: attempts_def)
next
  case (request_shape s v c e s')
  then show ?case by (auto simp: attempts_def op_ok_def)
qed (simp_all add: attempts_def)

lemma run_attempts: "store_ok s \<Longrightarrow> run_ok X cs s \<Longrightarrow> attempts (store_run X cs s) k = attempts s k + dispatches X k cs s"
proof (induction cs arbitrary: s)
  case (Cons c cs)
  then have sh: "shape (dispatch_of X (sc_clk c) (sc_fresh c) (sc_command c) s) s (store_step X c s)" by (simp add: step_shape)
  with Cons.prems have "store_ok (store_step X c s)" by (auto intro: shape_keeps_ok)
  with Cons shape_attempts [OF sh] show ?case by (simp add: is_dispatch_def)
qed simp

end
