(* ===== verification/Workload_Service.thy ===== *)
theory Workload_Service
  imports Workload_Runs
begin

text \<open>
  \<^verbatim>\<open>src/internal/coreworkload/service.go\<close> and \<^verbatim>\<open>src/internal/coreworkload/registry.go\<close>: the guards of the service, the handler that
  dispatches a confirmed operation to a provider, its recovery, and the registry of providers.

  A handler holds no lock between its calls of the store. Before its \<open>i\<close>-th store call the other goroutines may have changed the store by
  \<open>he_others i\<close>; \<open>he_clk i\<close> and \<open>he_fresh i\<close> are the clock and the identifiers of that call. The renewer runs beside the provider: each
  tick that fires before the provider returns is an element of \<open>he_ticks\<close>. What the handler asks of the provider is recorded in a trace. The store of
  the model is the memory store, which implements \<open>FencedStore\<close>.
\<close>

section \<open>Providers and their registry\<close>

text \<open>A provider answers with a readback and the text of its error, if any.\<close>

type_synonym answer = "Readback \<times> string option"

record Provider =
  pv_Apply :: "Plan \<Rightarrow> Operation \<Rightarrow> answer"
  pv_Destroy :: "Plan \<Rightarrow> Operation \<Rightarrow> answer"
  pv_Read :: "Plan \<Rightarrow> Operation \<Rightarrow> answer"

type_synonym ProviderRegistry = "(TargetKind \<times> Provider) list"

definition Register :: "ProviderRegistry \<Rightarrow> TargetKind \<Rightarrow> Provider option \<Rightarrow> workload_error + ProviderRegistry" where
  "Register r kind provider = (case provider of None \<Rightarrow> Inl ErrInvalid_wl
     | Some p \<Rightarrow> if \<not> validTarget kind then Inl ErrInvalid_wl
         else if lookup r kind \<noteq> None then Inl ErrConflict_wl else Inr (put kind p r))"

fun register_all :: "ProviderRegistry \<Rightarrow> (TargetKind \<times> Provider option) list \<Rightarrow> workload_error + ProviderRegistry" where
  "register_all r [] = Inr r"
| "register_all r ((kind, provider) # routes) = rbind (Register r kind provider) (\<lambda>r'. register_all r' routes)"

definition NewProviderRegistry :: "(TargetKind \<times> Provider option) list \<Rightarrow> workload_error + ProviderRegistry" where
  "NewProviderRegistry routes = register_all [] routes"

definition Lookup :: "ProviderRegistry \<Rightarrow> TargetKind \<Rightarrow> workload_error + Provider" where
  "Lookup r kind = (if \<not> validTarget kind then Inl ErrProvider_wl
     else case lookup r kind of None \<Rightarrow> Inl ErrProvider_wl | Some p \<Rightarrow> Inr p)"

definition Has :: "ProviderRegistry \<Rightarrow> TargetKind \<Rightarrow> bool" where
  "Has r kind = (err_of (Lookup r kind) = None)"

definition zero_readback :: Readback where
  "zero_readback = \<lparr>rb_TargetKind = TargetKindOther [], rb_WorkloadID = [], rb_State = [], rb_Identity = \<lparr>ti_Kind = TargetKindOther [],
     ti_CoreRunnerID = [], ti_CoreRunnerService = [], ti_ImageDigest = []\<rparr>, rb_ProviderVersion = [], rb_Details = [], rb_Digest = [], rb_At = time_zero\<rparr>"

definition routed :: "ProviderRegistry \<Rightarrow> (Provider \<Rightarrow> Plan \<Rightarrow> Operation \<Rightarrow> answer) \<Rightarrow> Plan \<Rightarrow> Operation \<Rightarrow> answer" where
  "routed r f plan o1 = (case Lookup r (pn_TargetKind plan) of Inl _ \<Rightarrow> (zero_readback, Some ''coreworkload: provider unavailable'')
     | Inr p \<Rightarrow> f p plan o1)"

definition registry_provider :: "ProviderRegistry \<Rightarrow> Provider" where
  "registry_provider r = \<lparr>pv_Apply = routed r pv_Apply, pv_Destroy = routed r pv_Destroy, pv_Read = routed r pv_Read\<rparr>"

section \<open>The service\<close>

definition Service_GetPlan :: "ext \<Rightarrow> WorkloadStore \<Rightarrow> string \<Rightarrow> workload_error + Plan" where
  "Service_GetPlan X s k = (if \<not> ValidUUID_wl X k then Inl ErrInvalid_wl else GetPlan s k)"

definition Service_GetWorkload :: "ext \<Rightarrow> WorkloadStore \<Rightarrow> string \<Rightarrow> workload_error + Workload" where
  "Service_GetWorkload X s k = (if \<not> ValidUUID_wl X k then Inl ErrInvalid_wl else GetWorkload s k)"

definition Service_GetOperation :: "ext \<Rightarrow> WorkloadStore \<Rightarrow> string \<Rightarrow> workload_error + Operation" where
  "Service_GetOperation X s k = (if \<not> ValidUUID_wl X k then Inl ErrInvalid_wl else GetOperation s k)"

record Quote =
  qu_PlanID :: string
  qu_PlanDigest :: string
  qu_Summary :: string

definition Service_Quote :: "ext \<Rightarrow> WorkloadStore \<Rightarrow> string \<Rightarrow> workload_error + Quote" where
  "Service_Quote X s planID = rbind (Service_GetPlan X s planID) (\<lambda>p.
     Inr \<lparr>qu_PlanID = pn_ID p, qu_PlanDigest = pn_Digest p, qu_Summary = pn_Summary p\<rparr>)"

definition Service_request :: "ext \<Rightarrow> (nat \<Rightarrow> gotime) \<Rightarrow> (nat \<Rightarrow> string) \<Rightarrow> WorkloadStore \<Rightarrow> OperationRequest \<Rightarrow> RequestResult step" where
  "Service_request X clk fresh s c = (if \<not> ValidUUID_wl X (wr_PlanID c) \<or> \<not> ValidUUID_wl X (wr_IdempotencyKey c) then (s, Inl ErrInvalid_wl)
     else RequestOperation X clk fresh s c)"

definition RequestApply :: "ext \<Rightarrow> (nat \<Rightarrow> gotime) \<Rightarrow> (nat \<Rightarrow> string) \<Rightarrow> WorkloadStore \<Rightarrow> string \<Rightarrow> string \<Rightarrow> string \<Rightarrow> RequestResult step" where
  "RequestApply X clk fresh s planID workloadID key = Service_request X clk fresh s \<lparr>wr_PlanID = planID, wr_WorkloadID = workloadID,
     wr_IdempotencyKey = key, wr_Kind = OperationApply, wr_ExpiresAt = time_zero\<rparr>"

definition RequestDestroy :: "ext \<Rightarrow> (nat \<Rightarrow> gotime) \<Rightarrow> (nat \<Rightarrow> string) \<Rightarrow> WorkloadStore \<Rightarrow> string \<Rightarrow> string \<Rightarrow> string \<Rightarrow> RequestResult step" where
  "RequestDestroy X clk fresh s planID workloadID key = Service_request X clk fresh s \<lparr>wr_PlanID = planID, wr_WorkloadID = workloadID,
     wr_IdempotencyKey = key, wr_Kind = OperationDestroy, wr_ExpiresAt = time_zero\<rparr>"

definition Service_Cancel :: "ext \<Rightarrow> (nat \<Rightarrow> gotime) \<Rightarrow> WorkloadStore \<Rightarrow> string \<Rightarrow> string \<Rightarrow> u64 \<Rightarrow> Operation step" where
  "Service_Cancel X clk s operationID key expected = (if \<not> ValidUUID_wl X operationID \<or> \<not> ValidUUID_wl X key then (s, Inl ErrInvalid_wl)
     else CancelOperation X clk s operationID key expected)"

section \<open>Actions of a handler\<close>

datatype provider_call = CallApply Plan Operation | CallDestroy Plan Operation | CallRead Plan Operation

record handler_env =
  he_clk :: "nat \<Rightarrow> nat \<Rightarrow> gotime"
  he_fresh :: "nat \<Rightarrow> nat \<Rightarrow> string"
  he_others :: "nat \<Rightarrow> WorkloadStore \<Rightarrow> WorkloadStore"
  he_ticks :: "((nat \<Rightarrow> gotime) \<times> (WorkloadStore \<Rightarrow> WorkloadStore)) list"

type_synonym hstate = "WorkloadStore \<times> provider_call list"
type_synonym 'a act = "hstate \<Rightarrow> hstate \<times> (workload_error + 'a)"

definition give :: "'a \<Rightarrow> 'a act" where "give v st = (st, Inr v)"
definition fail :: "workload_error \<Rightarrow> 'a act" where "fail e st = (st, Inl e)"

definition act_bind :: "'a act \<Rightarrow> ('a \<Rightarrow> 'b act) \<Rightarrow> 'b act" where
  "act_bind m f st = (case m st of (st', Inl e) \<Rightarrow> (st', Inl e) | (st', Inr v) \<Rightarrow> f v st')"

definition on_store :: "(WorkloadStore \<Rightarrow> WorkloadStore) \<Rightarrow> (WorkloadStore \<Rightarrow> 'a step) \<Rightarrow> 'a act" where
  "on_store others f st = (case f (others (fst st)) of (s', r) \<Rightarrow> ((s', snd st), r))"

definition read_store :: "(WorkloadStore \<Rightarrow> WorkloadStore) \<Rightarrow> (WorkloadStore \<Rightarrow> workload_error + 'a) \<Rightarrow> 'a act" where
  "read_store others f = on_store others (\<lambda>s. (s, f s))"

definition ask :: "provider_call \<Rightarrow> 'a \<Rightarrow> 'a act" where
  "ask c v st = ((fst st, snd st @ [c]), Inr v)"

definition consume_act :: "ext \<Rightarrow> handler_env \<Rightarrow> nat \<Rightarrow> string \<Rightarrow> string \<Rightarrow> string \<Rightarrow> u64 \<Rightarrow> WorkloadFence option \<Rightarrow> (Operation \<times> Task) act" where
  "consume_act X E i k ck digest expected fence = on_store (he_others E i) (\<lambda>s. case fence of
     Some f \<Rightarrow> ConsumeFenced X (he_clk E i) (he_fresh E i) s k ck digest expected f
   | None \<Rightarrow> Consume_wl (he_clk E i) (he_fresh E i) s k ck digest expected)"

definition renewDispatchLease :: "ext \<Rightarrow> (nat \<Rightarrow> gotime) \<Rightarrow> (WorkloadStore \<Rightarrow> WorkloadStore) \<Rightarrow> string \<Rightarrow> string \<Rightarrow> u64 \<Rightarrow> WorkloadFence option \<Rightarrow> Operation act" where
  "renewDispatchLease X clk others k claim epoch fence = on_store others (\<lambda>s. case fence of
     Some f \<Rightarrow> RenewDispatchLeaseFenced X clk s k claim epoch f
   | None \<Rightarrow> RenewDispatchLease clk s k claim epoch)"

definition completeDispatch :: "ext \<Rightarrow> handler_env \<Rightarrow> nat \<Rightarrow> Operation \<Rightarrow> string \<Rightarrow> Readback \<Rightarrow> string \<Rightarrow> WorkloadFence option \<Rightarrow> (Operation \<times> Task) act" where
  "completeDispatch X E i o1 code r summary fence = on_store (he_others E i) (\<lambda>s. case fence of
     Some f \<Rightarrow> CompleteDispatchFenced X (he_clk E i) s (op_ID o1) (op_TaskID o1) (op_DispatchClaim o1) (op_DispatchEpoch o1) code r summary f
   | None \<Rightarrow> CompleteDispatch X (he_clk E i) s (op_ID o1) (op_TaskID o1) (op_DispatchClaim o1) (op_DispatchEpoch o1) code r summary)"

definition append_act :: "handler_env \<Rightarrow> nat \<Rightarrow> string \<Rightarrow> string \<Rightarrow> OperationStatus \<Rightarrow> string \<Rightarrow> string \<Rightarrow> Event act" where
  "append_act E i k kind st msg rb = on_store (he_others E i) (\<lambda>s. AppendEvent (he_clk E i) s k
     \<lparr>ev_OperationID = [], ev_Sequence = 0, ev_Kind = kind, ev_Status = st, ev_Message = msg, ev_Readback = rb, ev_At = time_zero\<rparr>)"

text \<open>The loop of the renewer goroutine: it stops at the first renewal that fails, and its error is the answer of \<open>Handle\<close>.\<close>

fun renewer :: "ext \<Rightarrow> Operation \<Rightarrow> WorkloadFence option \<Rightarrow> ((nat \<Rightarrow> gotime) \<times> (WorkloadStore \<Rightarrow> WorkloadStore)) list \<Rightarrow> unit act" where
  "renewer X o1 fence [] = give ()"
| "renewer X o1 fence ((clk, others) # ticks) = act_bind (renewDispatchLease X clk others (op_ID o1) (op_DispatchClaim o1) (op_DispatchEpoch o1) fence)
     (\<lambda>_. renewer X o1 fence ticks)"

section \<open>The handler\<close>

definition with_digest :: "ext \<Rightarrow> Readback \<Rightarrow> Readback" where
  "with_digest X r = (if rb_Digest r = [] then r\<lparr>rb_Digest := ReadbackDigest X r\<rparr> else r)"

definition outcome_code :: "Plan \<Rightarrow> Operation \<Rightarrow> Readback \<Rightarrow> string" where
  "outcome_code plan o1 r =
    (if rb_WorkloadID r = [] \<or> rb_WorkloadID r \<noteq> op_WorkloadID o1 \<or> rb_TargetKind r \<noteq> op_TargetKind o1
        \<or> \<not> targetIdentityEqual (rb_Identity r) (ts_Identity (pn_Target plan)) (pn_TargetKind plan)
        \<or> (op_Kind o1 = OperationApply \<and> rb_State r \<noteq> ''ready'') \<or> (op_Kind o1 = OperationDestroy \<and> rb_State r \<noteq> ''destroyed'')
     then ''provider_uncertain'' else [])"

type_synonym handled = "Operation \<times> workload_error option"

definition conclude :: "ext \<Rightarrow> handler_env \<Rightarrow> nat \<Rightarrow> Operation \<Rightarrow> string \<Rightarrow> Readback \<Rightarrow> string \<Rightarrow> WorkloadFence option \<Rightarrow> workload_error option \<Rightarrow> handled act" where
  "conclude X E i o1 code r summary fence err = act_bind (completeDispatch X E i o1 code r summary fence) (\<lambda>(out, _). give (out, err))"

text \<open>A readback that was read without an error decides between success and reconciliation.\<close>

definition settle :: "ext \<Rightarrow> handler_env \<Rightarrow> nat \<Rightarrow> string \<Rightarrow> Plan \<Rightarrow> Operation \<Rightarrow> Readback \<Rightarrow> WorkloadFence option \<Rightarrow> handled act" where
  "settle X E i kind plan o1 r fence =
     act_bind (append_act E i (op_ID o1) kind OperationRunning [] (json_Marshal X (readback_json X r))) (\<lambda>_.
     let code = outcome_code plan o1 r in conclude X E (Suc i) o1 code r code fence None)"

definition after_failure :: "ext \<Rightarrow> handler_env \<Rightarrow> Provider \<Rightarrow> Plan \<Rightarrow> Operation \<Rightarrow> string \<Rightarrow> WorkloadFence option \<Rightarrow> handled act" where
  "after_failure X E P plan o1 e fence =
     act_bind (append_act E 5 (op_ID o1) ''provider_error'' OperationRunning (snd (SafeFailure ''provider_error'' e)) []) (\<lambda>_.
     act_bind (ask (CallRead plan o1) (pv_Read P plan o1)) (\<lambda>(r0, readErr).
     let r = with_digest X (SanitizeReadback X r0) in
     case readErr of
       Some re \<Rightarrow> let readText = snd (SafeFailure ''provider_uncertain'' re) in
         act_bind (append_act E 6 (op_ID o1) ''uncertain'' OperationUncertain readText (json_Marshal X (readback_json X r))) (\<lambda>_.
         conclude X E 7 o1 ''provider_uncertain'' r readText fence (RedactError readErr))
     | None \<Rightarrow> settle X E 6 ''recovered_readback'' plan o1 r fence))"

definition after_success :: "ext \<Rightarrow> handler_env \<Rightarrow> Provider \<Rightarrow> Plan \<Rightarrow> Operation \<Rightarrow> WorkloadFence option \<Rightarrow> handled act" where
  "after_success X E P plan o1 fence =
     act_bind (ask (CallRead plan o1) (pv_Read P plan o1)) (\<lambda>(r0, readErr).
     case readErr of
       Some re \<Rightarrow> let errText = snd (SafeFailure ''provider_uncertain'' re) in
         act_bind (append_act E 5 (op_ID o1) ''uncertain'' OperationUncertain errText []) (\<lambda>_.
         conclude X E 6 o1 ''provider_uncertain'' (SanitizeReadback X r0) errText fence (RedactError readErr))
     | None \<Rightarrow> settle X E 5 ''readback'' plan o1 (with_digest X (SanitizeReadback X r0)) fence)"

definition dispatch_act :: "ext \<Rightarrow> handler_env \<Rightarrow> Provider \<Rightarrow> Plan \<Rightarrow> Operation \<Rightarrow> WorkloadFence option \<Rightarrow> handled act" where
  "dispatch_act X E P plan o1 fence =
     act_bind (append_act E 3 (op_ID o1) ''dispatched'' OperationRunning ''provider dispatch claimed'' []) (\<lambda>_.
     act_bind (if op_Kind o1 = OperationApply then ask (CallApply plan o1) (snd (pv_Apply P plan o1))
               else ask (CallDestroy plan o1) (snd (pv_Destroy P plan o1))) (\<lambda>providerErr.
     act_bind (renewer X o1 fence (he_ticks E)) (\<lambda>_.
     act_bind (renewDispatchLease X (he_clk E 4) (he_others E 4) (op_ID o1) (op_DispatchClaim o1) (op_DispatchEpoch o1) fence) (\<lambda>o2.
     case providerErr of Some e \<Rightarrow> after_failure X E P plan o2 e fence | None \<Rightarrow> after_success X E P plan o2 fence))))"

definition claimed_ok :: "Task \<Rightarrow> bool" where
  "claimed_ok t \<longleftrightarrow> \<not> (t_Status t \<noteq> StatusRunning \<or> t_Attempt t = 0 \<or> t_LeaseEpoch t = 0 \<or> t_Lease t = None \<or> t_Revision t = 0)"

text \<open>The variadic fences: more than one is refused, and one must be valid at the zero time.\<close>

definition one_fence :: "ext \<Rightarrow> WorkloadFence list \<Rightarrow> workload_error + WorkloadFence option" where
  "one_fence X fences = (if length fences > 1 then Inl ErrInvalid_wl
     else case fences of f # _ \<Rightarrow> if \<not> WorkloadFence_Valid X f time_zero then Inl ErrRevisionConflict_wl else Inr (Some f) | [] \<Rightarrow> Inr None)"

definition settled :: "OperationStatus \<Rightarrow> bool" where
  "settled st \<longleftrightarrow> st = OperationSucceeded \<or> st = OperationFailed \<or> st = OperationRejected \<or> st = OperationExpired
     \<or> st = OperationCanceled \<or> st = OperationUncertain"

definition Handle :: "ext \<Rightarrow> handler_env \<Rightarrow> Provider \<Rightarrow> string \<Rightarrow> string \<Rightarrow> u64 \<Rightarrow> WorkloadFence list \<Rightarrow> handled act" where
  "Handle X E P operationID planDigest expectedRevision fences =
    (if \<not> ValidUUID_wl X operationID \<or> \<not> ValidDigest_wl X planDigest \<or> expectedRevision = 0 then fail ErrInvalid_wl
     else act_bind (read_store (he_others E 0) (\<lambda>s. GetOperation s operationID)) (\<lambda>o0.
     if settled (op_Status o0) then give (o0, None)
     else act_bind (read_store (he_others E 1) (\<lambda>s. GetPlan s (op_PlanID o0))) (\<lambda>plan.
     if pn_Digest plan \<noteq> planDigest \<or> pn_Revision plan \<noteq> op_PlanRevision o0 then fail ErrStale_wl
     else case one_fence X fences of Inl e \<Rightarrow> fail e
     | Inr fence \<Rightarrow> act_bind (consume_act X E 2 (op_ID o0) (op_ConfirmationID o0) planDigest expectedRevision fence) (\<lambda>(o1, opTask).
       if \<not> claimed_ok opTask then fail ErrRevisionConflict_wl
       else if (case fence of None \<Rightarrow> False | Some f \<Rightarrow> \<not> sameTaskFence opTask f) then fail ErrRevisionConflict_wl
       else dispatch_act X E P plan o1 fence))))"

section \<open>Recovery\<close>

definition recover_read :: "ext \<Rightarrow> handler_env \<Rightarrow> Provider \<Rightarrow> Plan \<Rightarrow> Operation \<Rightarrow> WorkloadFence option \<Rightarrow> handled act" where
  "recover_read X E P plan o1 fence =
     act_bind (ask (CallRead plan o1) (pv_Read P plan o1)) (\<lambda>(r0, readErr).
     let r = with_digest X (SanitizeReadback X r0) in
     case readErr of
       Some re \<Rightarrow> let errText = snd (SafeFailure ''provider_uncertain'' re) in
         act_bind (append_act E 2 (op_ID o1) ''recovered_uncertain'' OperationUncertain errText (json_Marshal X (readback_json X r))) (\<lambda>_.
         conclude X E 3 o1 ''provider_uncertain'' r errText fence (RedactError readErr))
     | None \<Rightarrow> settle X E 2 ''recovered_readback'' plan o1 r fence)"

definition recover_claim :: "ext \<Rightarrow> handler_env \<Rightarrow> string \<Rightarrow> WorkloadFence option \<Rightarrow> Operation act" where
  "recover_claim X E k fence = on_store (he_others E 0) (\<lambda>s. case fence of
     Some f \<Rightarrow> RecoverClaimFenced X (he_clk E 0) (he_fresh E 0) s k [] f
   | None \<Rightarrow> RecoverClaim (he_clk E 0) (he_fresh E 0) s k [])"

definition Recover :: "ext \<Rightarrow> handler_env \<Rightarrow> Provider \<Rightarrow> string \<Rightarrow> WorkloadFence list \<Rightarrow> handled act" where
  "Recover X E P operationID fences st =
    (if \<not> ValidUUID_wl X operationID then fail ErrInvalid_wl st
     else case one_fence X fences of Inl e \<Rightarrow> fail e st
     | Inr fence \<Rightarrow> (case recover_claim X E operationID fence st of
         (st1, Inl e) \<Rightarrow> if e = ErrRevisionConflict_wl
           then act_bind (read_store (he_others E 1) (\<lambda>s. GetOperation s operationID)) (\<lambda>o1. give (o1, None)) st1
           else fail e st1
       | (st1, Inr o1) \<Rightarrow>
           if op_Status o1 \<noteq> OperationRunning \<or> op_DispatchState o1 \<noteq> ''uncertain'' then give (o1, None) st1
           else act_bind (read_store (he_others E 1) (\<lambda>s. GetPlan s (op_PlanID o1))) (\<lambda>plan. recover_read X E P plan o1 fence) st1))"

definition Reconcile :: "ext \<Rightarrow> handler_env \<Rightarrow> Provider \<Rightarrow> string \<Rightarrow> handled act" where
  "Reconcile X E P operationID = Recover X E P operationID []"

end
