(* ===== verification/Workload_Handler.thy ===== *)
theory Workload_Handler
  imports Workload_Service
begin

text \<open>
  The handler against a store that others change between its calls: every action of it moves the store only by steps of the store
  (locale \<open>store_action\<close>), the provider is asked for a mutation only after the handler's own call has consumed the confirmation, and
  what a provider says in its errors never matters.
\<close>

section \<open>Interference\<close>

text \<open>Other goroutines change the store by running its operations.\<close>

definition interference :: "ext \<Rightarrow> (WorkloadStore \<Rightarrow> WorkloadStore) \<Rightarrow> bool" where
  "interference X f \<longleftrightarrow> (\<forall>s. store_ok s \<longrightarrow> (\<exists>cs. run_ok X cs s \<and> f s = store_run X cs s))"

definition env_ok :: "ext \<Rightarrow> handler_env \<Rightarrow> bool" where
  "env_ok X E \<longleftrightarrow> (\<forall>i. interference X (he_others E i)) \<and> (\<forall>i k. 0 \<le> instant (he_clk E i k)) \<and> (\<forall>i k. he_fresh E i k \<noteq> [])
     \<and> list_all (\<lambda>(clk, others). (\<forall>k. 0 \<le> instant (clk k)) \<and> interference X others) (he_ticks E)"

lemma env_facts: "env_ok X E \<Longrightarrow> interference X (he_others E i)" "env_ok X E \<Longrightarrow> 0 \<le> instant (he_clk E i k)" "env_ok X E \<Longrightarrow> he_fresh E i k \<noteq> []"
  by (simp_all add: env_ok_def)

definition evolves :: "WorkloadStore \<Rightarrow> WorkloadStore \<Rightarrow> bool" where
  "evolves s s' \<longleftrightarrow> (store_ok s \<longrightarrow> store_ok s' \<and> later s s')"

lemma evolves_refl [simp]: "evolves s s"
  by (simp add: evolves_def)

lemma evolves_trans: "evolves s t \<Longrightarrow> evolves t u \<Longrightarrow> evolves s u"
  unfolding evolves_def using later_trans by blast

lemma shape_evolves: "(store_ok s \<Longrightarrow> shape d s s') \<Longrightarrow> evolves s s'"
  unfolding evolves_def by (metis shape_keeps_ok shape_later)

lemma interference_evolves: "interference X f \<Longrightarrow> evolves s (f s)"
  unfolding interference_def evolves_def using run_later by metis

section \<open>Actions that move the store by its own steps\<close>

definition keeps :: "'a act \<Rightarrow> bool" where
  "keeps m \<longleftrightarrow> (\<forall>st. evolves (fst st) (fst (fst (m st))))"

text \<open>A method of the store as the handler calls it.\<close>

locale store_action =
  fixes run :: "WorkloadStore \<Rightarrow> 'a step"
  assumes moves: "evolves s (fst (run s))"
begin

lemma on_store_keeps: "interference X others \<Longrightarrow> keeps (on_store others run)"
  unfolding keeps_def on_store_def
  by (auto split: prod.split) (metis evolves_trans fst_conv interference_evolves moves)

end

interpretation pure_read: store_action "\<lambda>s. (s, f s)" for f :: "WorkloadStore \<Rightarrow> workload_error + 'a"
  by unfold_locales simp

interpretation log_entry: store_action "\<lambda>s. AppendEvent clk s k e" for clk k e
  by unfold_locales (rule shape_evolves [where d = None], rule AppendEvent_shape)

interpretation plain_complete: store_action "\<lambda>s. CompleteDispatch X clk s k tk claim epoch code r sm" for X clk k tk claim epoch code r sm
  by unfold_locales (rule shape_evolves [where d = None], simp add: CompleteDispatch_shape store_ok_def)

interpretation fenced_complete: store_action "\<lambda>s. CompleteDispatchFenced X clk s k tk claim epoch code r sm f" for X clk k tk claim epoch code r sm f
  by unfold_locales (rule shape_evolves [where d = None], simp add: CompleteDispatchFenced_shape store_ok_def)

interpretation fenced_renew: store_action "\<lambda>s. RenewDispatchLeaseFenced X clk s k claim epoch f" for X clk k claim epoch f
  by unfold_locales (rule shape_evolves [where d = None], simp add: RenewDispatchLeaseFenced_shape store_ok_def)

lemma plain_renew: "0 \<le> instant (clk 0) \<Longrightarrow> store_action (\<lambda>s. RenewDispatchLease clk s k claim epoch)"
  by unfold_locales (rule shape_evolves [where d = None], simp add: RenewDispatchLease_shape store_ok_def)

lemma plain_consume: "fresh 0 \<noteq> [] \<Longrightarrow> store_action (\<lambda>s. Consume_wl clk fresh s k ck d n)"
  by unfold_locales (rule shape_evolves, rule Consume_shape, auto simp: store_ok_def)

lemma fenced_consume: "fresh 0 \<noteq> [] \<Longrightarrow> store_action (\<lambda>s. ConsumeFenced X clk fresh s k ck d n f)"
  by unfold_locales (rule shape_evolves, rule ConsumeFenced_shape, auto simp: store_ok_def)

lemma plain_recover: "fresh 0 \<noteq> [] \<Longrightarrow> store_action (\<lambda>s. RecoverClaim clk fresh s k claim)"
  by unfold_locales (rule shape_evolves [where d = None], simp add: RecoverClaim_shape store_ok_def)

lemma fenced_recover: "fresh 0 \<noteq> [] \<Longrightarrow> store_action (\<lambda>s. RecoverClaimFenced X clk fresh s k claim f)"
  by unfold_locales (rule shape_evolves [where d = None], simp add: RecoverClaimFenced_shape store_ok_def)

lemma keeps_simple [simp, intro]: "keeps (give v)" "keeps (fail e)" "keeps (ask c v)"
  by (simp_all add: keeps_def give_def fail_def ask_def)

lemma keeps_bind [intro]: "keeps m \<Longrightarrow> (\<And>v. keeps (f v)) \<Longrightarrow> keeps (act_bind m f)"
  unfolding keeps_def act_bind_def
  by (auto split: prod.split sum.split) (metis evolves_trans fst_conv)+

lemma keeps_read: "env_ok X E \<Longrightarrow> keeps (read_store (he_others E i) f)"
  unfolding read_store_def by (rule pure_read.on_store_keeps [OF env_facts(1)])

lemma keeps_append: "env_ok X E \<Longrightarrow> keeps (append_act E i k kind st msg rb)"
  unfolding append_act_def by (rule log_entry.on_store_keeps [OF env_facts(1)])

lemma keeps_consume: "env_ok X E \<Longrightarrow> keeps (consume_act X E i k ck d n fence)"
  unfolding consume_act_def
  by (cases fence) (auto intro: store_action.on_store_keeps [OF plain_consume [OF env_facts(3)] env_facts(1)]
      store_action.on_store_keeps [OF fenced_consume [OF env_facts(3)] env_facts(1)])

lemma keeps_renew: "0 \<le> instant (clk 0) \<Longrightarrow> interference X others \<Longrightarrow> keeps (renewDispatchLease X clk others k claim epoch fence)"
  unfolding renewDispatchLease_def
  by (cases fence) (auto intro: store_action.on_store_keeps [OF plain_renew] fenced_renew.on_store_keeps)

lemma keeps_complete: "env_ok X E \<Longrightarrow> keeps (completeDispatch X E i o1 code r sm fence)"
  unfolding completeDispatch_def
  by (cases fence) (auto intro: plain_complete.on_store_keeps fenced_complete.on_store_keeps env_facts)

lemma keeps_renewer: "list_all (\<lambda>(clk, others). (\<forall>k. 0 \<le> instant (clk k)) \<and> interference X others) ticks \<Longrightarrow> keeps (renewer X o1 fence ticks)"
  by (induction X o1 fence ticks rule: renewer.induct) (auto intro!: keeps_bind keeps_renew)

lemma keeps_conclude: "env_ok X E \<Longrightarrow> keeps (conclude X E i o1 code r sm fence err)"
  unfolding conclude_def by (auto intro!: keeps_bind keeps_complete)

lemma keeps_settle: "env_ok X E \<Longrightarrow> keeps (settle X E i kind plan o1 r fence)"
  unfolding settle_def Let_def by (auto intro!: keeps_bind keeps_append keeps_conclude)

lemma keeps_after: "env_ok X E \<Longrightarrow> keeps (after_failure X E P plan o1 e fence)" "env_ok X E \<Longrightarrow> keeps (after_success X E P plan o1 fence)"
    "env_ok X E \<Longrightarrow> keeps (recover_read X E P plan o1 fence)"
  unfolding after_failure_def after_success_def recover_read_def Let_def
  by (auto intro!: keeps_bind keeps_append keeps_conclude keeps_settle split: option.split)

lemma keeps_dispatch: "env_ok X E \<Longrightarrow> keeps (dispatch_act X E P plan o1 fence)"
proof -
  assume e: "env_ok X E"
  then have "keeps (renewer X o1 fence (he_ticks E))"
    "keeps (renewDispatchLease X (he_clk E 4) (he_others E 4) (op_ID o1) (op_DispatchClaim o1) (op_DispatchEpoch o1) fence)"
    by (auto simp: env_ok_def intro!: keeps_renewer keeps_renew)
  with e show ?thesis unfolding dispatch_act_def
    by (auto intro!: keeps_bind keeps_append keeps_after split: option.split)
qed

lemma keeps_Handle: "env_ok X E \<Longrightarrow> keeps (Handle X E P k d n fences)"
  unfolding Handle_def
  by (auto intro!: keeps_bind keeps_read keeps_consume keeps_dispatch split: sum.split)

lemma keeps_recover_claim: "env_ok X E \<Longrightarrow> keeps (recover_claim X E k fence)"
  unfolding recover_claim_def
  by (cases fence) (auto intro: store_action.on_store_keeps [OF plain_recover [OF env_facts(3)] env_facts(1)]
      store_action.on_store_keeps [OF fenced_recover [OF env_facts(3)] env_facts(1)])

section \<open>Mutations asked of the provider\<close>

fun is_mutation :: "provider_call \<Rightarrow> bool" where
  "is_mutation (CallRead _ _) = False"
| "is_mutation _ = True"

definition mutations :: "provider_call list \<Rightarrow> provider_call list" where
  "mutations tr = filter is_mutation tr"

definition reads_only :: "'a act \<Rightarrow> bool" where
  "reads_only m \<longleftrightarrow> (\<forall>st. mutations (snd (fst (m st))) = mutations (snd st))"

lemma reads_simple [simp, intro]: "reads_only (give v)" "reads_only (fail e)" "reads_only (on_store others f)"
    "reads_only (read_store others g)" "reads_only (ask (CallRead plan o1) v)"
  by (auto simp: reads_only_def give_def fail_def on_store_def read_store_def ask_def mutations_def split: prod.split)

lemma reads_bind [intro]: "reads_only m \<Longrightarrow> (\<And>v. reads_only (f v)) \<Longrightarrow> reads_only (act_bind m f)"
  unfolding reads_only_def act_bind_def
  by (auto split: prod.split sum.split) (metis fst_conv snd_conv)+

lemma reads_store [simp]: "reads_only (append_act E i k kind st msg rb)" "reads_only (consume_act X E i k ck d n fence)"
    "reads_only (renewDispatchLease X clk others k claim epoch fence)" "reads_only (completeDispatch X E i o1 code r sm fence)"
    "reads_only (recover_claim X E k fence)"
  by (simp_all add: append_act_def consume_act_def renewDispatchLease_def completeDispatch_def recover_claim_def)

lemma reads_renewer [simp]: "reads_only (renewer X o1 fence ticks)"
  by (induction X o1 fence ticks rule: renewer.induct) (auto intro!: reads_bind)

lemma reads_settle [simp]: "reads_only (conclude X E i o1 code r sm fence err)" "reads_only (settle X E i kind plan o1 r fence)"
  unfolding settle_def conclude_def Let_def by (auto intro!: reads_bind)

lemma reads_after [simp]: "reads_only (after_failure X E P plan o1 e fence)" "reads_only (after_success X E P plan o1 fence)"
    "reads_only (recover_read X E P plan o1 fence)"
  unfolding after_failure_def after_success_def recover_read_def Let_def by (auto intro!: reads_bind split: option.split)

lemma Recover_reads: "reads_only (Recover X E P k fences)"
proof -
  have c: "mutations (snd st1) = mutations (snd st)" if "recover_claim X E k fence st = (st1, r)" for fence st st1 r
    using that reads_store(5) [of X E k fence] unfolding reads_only_def by (metis fst_conv)
  have r: "reads_only (act_bind (read_store others f) (\<lambda>o1. give (o1, None)))"
    "reads_only (act_bind (read_store others g) (\<lambda>plan. recover_read X E P plan o1 fence))" for others f g o1 fence
    by (auto intro!: reads_bind)
  show ?thesis unfolding reads_only_def
    by (auto simp: Recover_def fail_def give_def r [unfolded reads_only_def, rule_format] split: sum.split prod.split dest!: c)
qed

section \<open>A mutation follows the consumption\<close>

definition seen :: "handler_env \<Rightarrow> WorkloadStore \<Rightarrow> WorkloadStore" where
  "seen E s = he_others E 2 (he_others E 1 (he_others E 0 s))"

definition consumes :: "ext \<Rightarrow> handler_env \<Rightarrow> WorkloadStore \<Rightarrow> string \<Rightarrow> string \<Rightarrow> string \<Rightarrow> u64 \<Rightarrow> WorkloadFence option \<Rightarrow> (Operation \<times> Task) step" where
  "consumes X E s k ck d n fence = (case fence of
     Some f \<Rightarrow> ConsumeFenced X (he_clk E 2) (he_fresh E 2) s k ck d n f
   | None \<Rightarrow> Consume_wl (he_clk E 2) (he_fresh E 2) s k ck d n)"

lemma bind_steps: "m st = (st1, Inl x) \<Longrightarrow> act_bind m f st = (st1, Inl x)" "m st = (st1, Inr v) \<Longrightarrow> act_bind m f st = f v st1"
    "act_bind (ask c w) f st = f w (fst st, snd st @ [c])"
  by (simp_all add: act_bind_def ask_def)

lemma bind_read: "act_bind (read_store others f) g st = (case f (others (fst st)) of
    Inl e \<Rightarrow> ((others (fst st), snd st), Inl e) | Inr v \<Rightarrow> g v (others (fst st), snd st))"
  by (simp add: act_bind_def read_store_def on_store_def split: sum.split)

lemma bind_ask: "act_bind (ask c w) f = (\<lambda>st. f w (fst st, snd st @ [c]))"
  by (simp add: fun_eq_iff bind_steps)

lemma dispatch_mutations: "\<exists>cs. mutations (snd (fst (dispatch_act X E P plan o1 fence st))) = mutations (snd st) @ cs
    \<and> (cs = [] \<or> cs = [if op_Kind o1 = OperationApply then CallApply plan o1 else CallDestroy plan o1])"
proof -
  define c where "c = (if op_Kind o1 = OperationApply then CallApply plan o1 else CallDestroy plan o1)"
  define e where "e = (if op_Kind o1 = OperationApply then snd (pv_Apply P plan o1) else snd (pv_Destroy P plan o1))"
  define rest where "rest = act_bind (renewer X o1 fence (he_ticks E)) (\<lambda>_.
     act_bind (renewDispatchLease X (he_clk E 4) (he_others E 4) (op_ID o1) (op_DispatchClaim o1) (op_DispatchEpoch o1) fence) (\<lambda>o2.
     case e of Some e \<Rightarrow> after_failure X E P plan o2 e fence | None \<Rightarrow> after_success X E P plan o2 fence))"
  have r: "reads_only rest" unfolding rest_def by (auto intro!: reads_bind split: option.split)
  obtain st1 res where a: "append_act E 3 (op_ID o1) ''dispatched'' OperationRunning ''provider dispatch claimed'' [] st = (st1, res)" by fastforce
  then have m: "mutations (snd st1) = mutations (snd st)"
    using reads_store(1) [unfolded reads_only_def] by (metis fst_conv)
  have "dispatch_act X E P plan o1 fence st = (case res of Inl x \<Rightarrow> (st1, Inl x) | Inr _ \<Rightarrow> rest (fst st1, snd st1 @ [c]))"
    by (cases res) (simp_all add: dispatch_act_def bind_steps a c_def e_def rest_def)
  with m r [unfolded reads_only_def, rule_format, of "(fst st1, snd st1 @ [c])"] show ?thesis
    by (cases res) (auto simp: mutations_def c_def)
qed

lemma Handle_dispatches:
  assumes "mutations (snd (fst (Handle X E P k d n fences st))) \<noteq> mutations (snd st)"
  shows "\<exists>o0 plan fence s' o1 t. GetOperation (he_others E 0 (fst st)) k = Inr o0
    \<and> consumes X E (seen E (fst st)) (op_ID o0) (op_ConfirmationID o0) d n fence = (s', Inr (o1, t))
    \<and> Handle X E P k d n fences st = dispatch_act X E P plan o1 fence (s', snd st)"
proof -
  let ?h = "Handle X E P k d n fences st"
  have "?h = fail ErrInvalid_wl st" if "\<not> (ValidUUID_wl X k \<and> ValidDigest_wl X d \<and> n \<noteq> 0)" using that by (auto simp: Handle_def)
  then have "ValidUUID_wl X k \<and> ValidDigest_wl X d \<and> n \<noteq> 0" using assms unfolding fail_def by (metis fst_conv)
  then have v: "ValidUUID_wl X k" "ValidDigest_wl X d" "n \<noteq> 0" by simp_all
  obtain o0 where o0: "GetOperation (he_others E 0 (fst st)) k = Inr o0" "\<not> settled (op_Status o0)"
    using assms v by (auto simp: Handle_def bind_read give_def split: sum.splits if_splits)
  obtain plan where pl: "GetPlan (he_others E 1 (he_others E 0 (fst st))) (op_PlanID o0) = Inr plan" "pn_Digest plan = d" "pn_Revision plan = op_PlanRevision o0"
    using assms v o0 by (auto simp: Handle_def bind_read fail_def split: sum.splits if_splits)
  obtain fence where fe: "one_fence X fences = Inr fence"
    using assms v o0 pl by (auto simp: Handle_def bind_read fail_def split: sum.splits)
  obtain s' res where c: "consumes X E (seen E (fst st)) (op_ID o0) (op_ConfirmationID o0) d n fence = (s', res)" by fastforce
  have ca: "consume_act X E 2 (op_ID o0) (op_ConfirmationID o0) d n fence (he_others E 1 (he_others E 0 (fst st)), snd st) = ((s', snd st), res)"
    using c by (auto simp: consume_act_def on_store_def consumes_def seen_def split: option.splits prod.splits)
  have h: "?h = act_bind (consume_act X E 2 (op_ID o0) (op_ConfirmationID o0) d n fence) (\<lambda>(o1, opTask).
       if \<not> claimed_ok opTask then fail ErrRevisionConflict_wl
       else if (case fence of None \<Rightarrow> False | Some f \<Rightarrow> \<not> sameTaskFence opTask f) then fail ErrRevisionConflict_wl
       else dispatch_act X E P plan o1 fence) (he_others E 1 (he_others E 0 (fst st)), snd st)"
    using v o0 pl fe by (simp add: Handle_def bind_read)
  show ?thesis
  proof (cases res)
    case (Inl e)
    with assms h ca show ?thesis by (simp add: bind_steps)
  next
    case (Inr p)
    obtain o1 t where p: "p = (o1, t)" by fastforce
    with assms h ca Inr have "?h = dispatch_act X E P plan o1 fence (s', snd st)"
      by (auto simp: bind_steps fail_def split: if_splits)
    with o0 c Inr p show ?thesis by blast
  qed
qed

lemma Consume_op: "Consume_wl clk fresh s k ck d n = (s', Inr (o1, t)) \<Longrightarrow> \<exists>v. lookup (ws_operations s) k = Some v \<and> op_Status v = OperationWaitingUser
    \<and> lookup (ws_operations s') k = Some o1 \<and> op_Status o1 = OperationRunning \<and> op_Kind o1 = op_Kind v"
  unfolding Consume_wl_def Let_def by (force split: option.splits if_splits)

lemma ConsumeFenced_op: "ConsumeFenced X clk fresh s k ck d n f = (s', Inr (o1, t)) \<Longrightarrow> \<exists>v. lookup (ws_operations s) k = Some v
    \<and> op_Status v = OperationWaitingUser \<and> lookup (ws_operations s') k = Some o1 \<and> op_Status o1 = OperationRunning \<and> op_Kind o1 = op_Kind v"
  unfolding ConsumeFenced_def Let_def by (force split: option.splits if_splits)

lemma consumes_op: "consumes X E s k ck d n fence = (s', Inr (o1, t)) \<Longrightarrow> \<exists>v. lookup (ws_operations s) k = Some v \<and> op_Status v = OperationWaitingUser
    \<and> lookup (ws_operations s') k = Some o1 \<and> op_Status o1 = OperationRunning \<and> op_Kind o1 = op_Kind v"
  by (cases fence) (auto simp: consumes_def dest!: Consume_op ConsumeFenced_op)

lemma consumes_evolves:
  assumes "env_ok X E" "consumes X E s k ck d n fence = (s', r)"
  shows "evolves s s'"
proof (cases fence)
  case None
  have "store_action (\<lambda>s. Consume_wl (he_clk E 2) (he_fresh E 2) s k ck d n)" by (rule plain_consume, rule env_facts(3), rule assms(1))
  from store_action.moves [OF this, of s] assms(2) None show ?thesis by (simp add: consumes_def)
next
  case (Some f)
  have "store_action (\<lambda>s. ConsumeFenced X (he_clk E 2) (he_fresh E 2) s k ck d n f)" by (rule fenced_consume, rule env_facts(3), rule assms(1))
  from store_action.moves [OF this, of s] assms(2) Some show ?thesis by (simp add: consumes_def)
qed

lemma seen_evolves: "env_ok X E \<Longrightarrow> evolves s (seen E s)"
  unfolding seen_def by (metis env_facts(1) evolves_trans interference_evolves)

lemma Handle_mutation:
  assumes "env_ok X E" "store_ok s" "Handle X E P k d n fences (s, []) = ((s', tr), r)" "mutations tr \<noteq> []"
  shows "length (mutations tr) = 1" "\<exists>v. lookup (ws_operations (seen E s)) k = Some v \<and> op_Status v = OperationWaitingUser"
    "\<exists>w. lookup (ws_operations s') k = Some w \<and> op_Status w \<noteq> OperationWaitingUser"
proof -
  from assms(3,4) have "mutations (snd (fst (Handle X E P k d n fences (s, [])))) \<noteq> mutations (snd (s, []))" by (simp add: mutations_def)
  from Handle_dispatches [OF this] obtain o0 plan fence s1 o1 t where h: "GetOperation (he_others E 0 s) k = Inr o0"
      "consumes X E (seen E s) (op_ID o0) (op_ConfirmationID o0) d n fence = (s1, Inr (o1, t))"
      "((s', tr), r) = dispatch_act X E P plan o1 fence (s1, [])" using assms(3) by auto
  from interference_evolves [OF env_facts(1) [OF assms(1)]] assms(2) have "store_ok (he_others E 0 s)" unfolding evolves_def by blast
  with h(1) have id: "op_ID o0 = k" by (auto simp: GetOperation_def found_def store_ok_def keys_ok_def split: option.splits)
  from consumes_op [OF h(2)] id obtain v where v: "lookup (ws_operations (seen E s)) k = Some v" "op_Status v = OperationWaitingUser"
    and w: "lookup (ws_operations s1) k = Some o1" "op_Status o1 = OperationRunning" by auto
  from seen_evolves [OF assms(1), of s] consumes_evolves [OF assms(1) h(2)] assms(2) have s1: "store_ok s1"
    by (simp add: evolves_def)
  from keeps_dispatch [OF assms(1), of P plan o1 fence] s1 have "later s1 (fst (fst (dispatch_act X E P plan o1 fence (s1, []))))"
    unfolding keeps_def evolves_def by (metis fst_conv)
  with h(3) have "later s1 s'" by (metis fst_conv)
  with w show "\<exists>w. lookup (ws_operations s') k = Some w \<and> op_Status w \<noteq> OperationWaitingUser"
    unfolding later_def using left_waiting by (metis OperationStatus.distinct(1))
  from dispatch_mutations [of X E P plan o1 fence "(s1, [])"] h(3) assms(4) show "length (mutations tr) = 1"
    by (auto simp: mutations_def) (metis fst_conv snd_conv length_Cons list.size(3) One_nat_def)+
  from v show "\<exists>v. lookup (ws_operations (seen E s)) k = Some v \<and> op_Status v = OperationWaitingUser" by blast
qed

section \<open>What the provider says in its errors\<close>

text \<open>Two answers that differ only in the text of the error and in the details and the digest of the readback.\<close>

definition alike :: "ext \<Rightarrow> answer \<Rightarrow> answer \<Rightarrow> bool" where
  "alike X a b \<longleftrightarrow> SanitizeReadback X (fst a) = SanitizeReadback X (fst b) \<and> (snd a = None \<longleftrightarrow> snd b = None)"

definition alike_providers :: "ext \<Rightarrow> Provider \<Rightarrow> Provider \<Rightarrow> bool" where
  "alike_providers X P Q \<longleftrightarrow> (\<forall>plan o1. alike X (pv_Apply P plan o1) (pv_Apply Q plan o1) \<and> alike X (pv_Destroy P plan o1) (pv_Destroy Q plan o1)
     \<and> alike X (pv_Read P plan o1) (pv_Read Q plan o1))"

lemma SafeFailure_fixed: "SafeFailure ''provider_error'' e = (''provider_error'', ''provider operation failed'')"
    "SafeFailure ''provider_uncertain'' e = (''provider_uncertain'', ''provider outcome requires reconciliation'')"
  by (simp_all add: SafeFailure_def)

lemma alike_after:
  assumes "alike_providers X P Q"
  shows "after_failure X E P plan o1 e fence = after_failure X E Q plan o1 e' fence" "after_success X E P plan o1 fence = after_success X E Q plan o1 fence"
    "recover_read X E P plan o1 fence = recover_read X E Q plan o1 fence"
proof -
  have "alike X (pv_Read P plan o1) (pv_Read Q plan o1)" using assms by (simp add: alike_providers_def)
  then obtain r p q x y where a: "pv_Read P plan o1 = (p, x)" "pv_Read Q plan o1 = (q, y)" "SanitizeReadback X p = r" "SanitizeReadback X q = r"
    "x = None \<longleftrightarrow> y = None" by (cases "pv_Read P plan o1"; cases "pv_Read Q plan o1") (auto simp: alike_def)
  show "after_failure X E P plan o1 e fence = after_failure X E Q plan o1 e' fence" "after_success X E P plan o1 fence = after_success X E Q plan o1 fence"
    "recover_read X E P plan o1 fence = recover_read X E Q plan o1 fence"
    using a(5) unfolding after_failure_def after_success_def recover_read_def SafeFailure_fixed
    by (cases x; cases y; simp add: a(1-4) bind_ask Let_def RedactError_def)+
qed

lemma alike_dispatch: "alike_providers X P Q \<Longrightarrow> dispatch_act X E P plan o1 fence = dispatch_act X E Q plan o1 fence"
proof -
  assume a: "alike_providers X P Q"
  then have "(snd (pv_Apply P plan o1) = None) = (snd (pv_Apply Q plan o1) = None)" "(snd (pv_Destroy P plan o1) = None) = (snd (pv_Destroy Q plan o1) = None)"
    by (simp_all add: alike_providers_def alike_def)
  moreover have k: "(\<lambda>o2. case x of Some e \<Rightarrow> after_failure X E P plan o2 e fence | None \<Rightarrow> after_success X E P plan o2 fence)
      = (\<lambda>o2. case y of Some e \<Rightarrow> after_failure X E Q plan o2 e fence | None \<Rightarrow> after_success X E Q plan o2 fence)"
    if "(x = None) = (y = None)" for x y
    using that by (cases x; cases y) (auto intro!: ext alike_after [OF a] simp: alike_after(2) [OF a])
  ultimately show ?thesis unfolding dispatch_act_def bind_ask if_distrib [of "\<lambda>m. act_bind m _"] by (simp add: k)
qed

end
