(* ===== verification/Workload_Example.thy ===== *)
theory Workload_Example
  imports Workload_Handler Confirm_Example
begin

text \<open>
  A run of the workload store on which the properties are evaluated: a plan is created, its application requested, confirmed and
  consumed, and the dispatch completed by a matching readback.
\<close>

definition ex_identity :: TargetIdentity where
  "ex_identity = \<lparr>ti_Kind = TargetCoreRunner, ti_CoreRunnerID = ''runner'', ti_CoreRunnerService = ''service'', ti_ImageDigest = []\<rparr>"

definition ex_limits :: ResourceLimits where
  "ex_limits = \<lparr>lim_CPU = 1, lim_MemoryMB = 64, lim_Processes = 0, lim_DiskMB = 0, lim_TimeoutS = 0, lim_OutputMB = 0\<rparr>"

definition ex_settings :: TargetSettings where
  "ex_settings = \<lparr>ts_Identity = ex_identity, ts_Ports = [8080], ts_PortDetails = [], ts_NetworkGrantDetails = [], ts_Labels = []\<rparr>"

definition ex_plan_input :: PlanInput where
  "ex_plan_input = \<lparr>pi_Summary = ''goal'', pi_Artifact = [], pi_Source = [], pi_CommandSteps = Some [''done''], pi_ImageDigest = [],
     pi_TargetKind = TargetCoreRunner, pi_Target = ex_settings, pi_NetworkGrants = None, pi_SecretGrants = None, pi_SecretGrantRefs = None,
     pi_ResourceLimits = ex_limits, pi_ExpiresAt = ex_time 100000, pi_IdempotencyKey = ex_id 9\<rparr>"

definition ex_plan_digest :: string where
  "ex_plan_digest = sha256_hex ex ''null''"

definition ex_plan :: Plan where
  "ex_plan = (plan_of (ex_id 2) (ex_time 100) ex_plan_input)\<lparr>pn_Digest := ex_plan_digest\<rparr>"

definition ex_clk :: "int \<Rightarrow> nat \<Rightarrow> gotime" where "ex_clk t k = ex_time t"

definition ex_fresh :: "nat \<Rightarrow> nat \<Rightarrow> string" where "ex_fresh n k = ex_id (n + k)"

definition ex_wrequest :: OperationRequest where
  "ex_wrequest = \<lparr>wr_PlanID = ex_id 2, wr_WorkloadID = [], wr_IdempotencyKey = ex_id 9, wr_Kind = OperationApply, wr_ExpiresAt = ex_time 1000\<rparr>"

definition ex_result :: RequestResult where
  "ex_result = requested ex (ex_fresh 3) (ex_time 100) (ex_time 1000) ex_plan (ex_id 3) OperationApply"

definition ex_s1 :: WorkloadStore where
  "ex_s1 = put_plan_replay (ex_id 9) ex_plan ex_plan_digest (NewMemoryStore\<lparr>ws_plans := [(ex_id 2, ex_plan)]\<rparr>)"

definition ex_s2 :: WorkloadStore where
  "ex_s2 = put_result (ex_id 9) ex_result ex_plan_digest (store_result ex_result ex_s1)"

definition ex_conf :: "State \<Rightarrow> int \<Rightarrow> int \<Rightarrow> Confirmation" where
  "ex_conf st n t = (rr_Confirmation ex_result)\<lparr>c_State := st, c_Revision := n, c_UpdatedAt := ex_time t\<rparr>"

definition ex_s3 :: WorkloadStore where
  "ex_s3 = put_confirmation (ex_id 6) (ex_conf StateConfirmed 2 200) ex_s2"

definition ex_op_running :: Operation where
  "ex_op_running = (rr_Operation ex_result)\<lparr>op_Status := OperationRunning, op_DispatchState := ''dispatched'', op_DispatchAttempt := 1, op_DispatchEpoch := 1,
     op_DispatchClaim := ex_id 8, op_DispatchLeaseUntil := ex_time 3900, op_Revision := 2, op_UpdatedAt := ex_time 300\<rparr>"

definition ex_task_running :: Task where
  "ex_task_running = (rr_Task ex_result)\<lparr>t_Status := StatusRunning, t_LeaseEpoch := 1, t_Revision := 2, t_UpdatedAt := ex_time 300,
     t_Lease := Some \<lparr>l_TaskID = ex_id 5, l_Attempt = 1, l_Epoch = 1, l_Holder = ''workload-handler'', l_ExpiresAt = ex_time 3900\<rparr>\<rparr>"

definition ex_s4 :: WorkloadStore where
  "ex_s4 = add_event (ex_id 4) ''consumed'' OperationRunning [] (ex_time 300) (put_confirmation (ex_id 6) (ex_conf StateConsumed 3 300)
     (put_task (ex_id 5) ex_task_running (put_op (ex_id 4) ex_op_running ex_s3)))"

definition ex_readback :: Readback where
  "ex_readback = \<lparr>rb_TargetKind = TargetCoreRunner, rb_WorkloadID = ex_id 3, rb_State = ''ready'', rb_Identity = ex_identity,
     rb_ProviderVersion = [], rb_Details = [], rb_Digest = [], rb_At = ex_time 350\<rparr>"

lemmas ex_workload_data = ex_identity_def ex_limits_def ex_settings_def ex_plan_input_def ex_wrequest_def ex_readback_def

section \<open>Evaluation\<close>

lemma ex_id_wl [simp]: "n < 16 \<Longrightarrow> ValidUUID_wl ex (ex_id n)"
  using ex_id_uuid [of n] by (simp add: validateUUID_def ValidUUID_wl_def)

lemma ValidDigest_wl_iff: "ValidDigest_wl X d \<longleftrightarrow> lower_hex64 d"
  using digest_test [of d X] by (auto simp: ValidDigest_wl_def)

lemma ex_sum [simp]: "lower_hex64 (sha256_hex ex v)"
  by (rule sha256_hex_digest) (simp add: ex_def ex_Sum256_def)

lemma ex_object_digest [simp]: "canonicalDigest ex (JObj m) = ex_plan_digest"
  by (simp add: canonicalDigest_def ex_plan_digest_def) (simp add: ex_def ex_json_Marshal_def)

lemma ex_plan_digest_ok [simp]: "ValidDigest_wl ex ex_plan_digest"
  by (simp add: ValidDigest_wl_iff ex_plan_digest_def)

lemma ex_plan_fields [simp]: "pn_ID ex_plan = ex_id 2" "pn_Digest ex_plan = ex_plan_digest" "pn_Revision ex_plan = 1" "pn_TargetKind ex_plan = TargetCoreRunner"
    "pn_ExpiresAt ex_plan = ex_time 100000" "pn_Target ex_plan = ex_settings"
  by (simp_all add: ex_plan_def plan_of_def ex_plan_input_def ex_times)

lemma ex_plan_normal: "Plan_Normalize ex (plan_of (ex_id 2) (ex_time 100) ex_plan_input) = Inr ex_plan"
proof -
  have t: "Plan_trim (plan_of (ex_id 2) (ex_time 100) ex_plan_input) = plan_of (ex_id 2) (ex_time 100) ex_plan_input"
    by (simp add: Plan_trim_def plan_of_def ex_plan_input_def)
  have "TrimSpace ''done'' = ''done''" "TrimSpace ''runner'' = ''runner''" "TrimSpace ''service'' = ''service''"
    by (simp_all add: TrimSpace_printable printable_def)
  moreover have "\<not> ContainsAny ''done'' command_breaks" by code_simp
  ultimately show ?thesis unfolding Plan_Normalize_def t Let_def
    by (simp add: plan_of_def ex_workload_data plan_head_ok_def plan_strings_ok_def plan_grants_ok_def plan_limits_ok_def Let_def
        normalizeStrings_def copied_def TargetIdentity_Validate_def planInputDigest_def validTarget_def ex_times ex_plan_def)
qed

lemma ex_w1: "CreatePlan ex (ex_clk 100) (ex_fresh 2) NewMemoryStore ex_plan_input = (ex_s1, Inr ex_plan)"
  by (simp add: CreatePlan_def ex_fresh_def ex_clk_def ex_plan_normal Let_def planInputDigest_def ex_s1_def)
     (simp add: ex_plan_input_def NewMemoryStore_def put_def)

lemma ex_plans [simp]: "lookup (ws_plans ex_s1) (ex_id 2) = Some ex_plan" "ws_workloads ex_s1 = []" "ws_replays ex_s1 = []" "ws_operations ex_s1 = []"
    "ws_tasks ex_s1 = []" "ws_confirmations ex_s1 = []" "ws_events ex_s1 = []"
  by (simp_all add: ex_s1_def put_plan_replay_def lookup_def NewMemoryStore_def)

lemma ex_w2: "RequestOperation ex (ex_clk 100) (ex_fresh 3) ex_s1 ex_wrequest = (ex_s2, Inr ex_result)"
  by (simp add: RequestOperation_def Let_def ex_wrequest_def RequestInputDigest_def workload_admits_def ex_s2_def ex_result_def ex_fresh_def ex_clk_def)
     (simp add: ex_times)

lemma ex_result_fields [simp]: "op_ID (rr_Operation ex_result) = ex_id 4" "op_TaskID (rr_Operation ex_result) = ex_id 5"
    "op_ConfirmationID (rr_Operation ex_result) = ex_id 6" "op_Status (rr_Operation ex_result) = OperationWaitingUser" "op_Revision (rr_Operation ex_result) = 1"
    "op_PlanDigest (rr_Operation ex_result) = ex_plan_digest" "op_DispatchAttempt (rr_Operation ex_result) = 0" "op_DispatchEpoch (rr_Operation ex_result) = 0"
    "op_PlanID (rr_Operation ex_result) = ex_id 2" "op_PlanRevision (rr_Operation ex_result) = 1" "op_WorkloadID (rr_Operation ex_result) = ex_id 3"
    "op_Kind (rr_Operation ex_result) = OperationApply" "op_TargetKind (rr_Operation ex_result) = TargetCoreRunner"
    "t_ID (rr_Task ex_result) = ex_id 5" "t_Attempt (rr_Task ex_result) = 1" "t_Revision (rr_Task ex_result) = 1" "t_LeaseEpoch (rr_Task ex_result) = 0"
    "c_State (rr_Confirmation ex_result) = StatePending" "c_Revision (rr_Confirmation ex_result) = 1" "c_ExpiresAt (rr_Confirmation ex_result) = ex_time 1000"
    "c_ConfirmationID (rr_Confirmation ex_result) = ex_id 6"
  by (simp_all add: ex_result_def requested_def ex_fresh_def zero_task_def ex_times)

lemma ex_s2_fields [simp]: "ws_operations ex_s2 = put (ex_id 4) (rr_Operation ex_result) []" "ws_tasks ex_s2 = put (ex_id 5) (rr_Task ex_result) []"
    "ws_confirmations ex_s2 = put (ex_id 6) (rr_Confirmation ex_result) []" "ws_plans ex_s2 = ws_plans ex_s1" "ws_workloads ex_s2 = []"
  by (simp_all add: ex_s2_def store_result_def Let_def) (simp add: put_result_def put_confirmation_def put_task_def put_op_def)

lemma ex_w3: "Confirm_wl (ex_clk 200) ex_s2 (ex_id 6) 1 = (ex_s3, Inr (ex_conf StateConfirmed 2 200))"
  by (simp add: Confirm_wl_def Let_def ex_s3_def ex_conf_def ex_clk_def wrap64_def) (simp add: ex_times)

lemma ex_w4: "Consume_wl (ex_clk 300) (ex_fresh 8) ex_s3 (ex_id 4) (ex_id 6) ex_plan_digest 1 = (ex_s4, Inr (ex_op_running, ex_task_running))"
  by (simp add: Consume_wl_def Let_def task_at_def confirmation_at_def or_zero_def ex_s3_def ex_conf_def ex_clk_def ex_fresh_def)
     (simp add: ex_s4_def ex_conf_def ex_op_running_def ex_task_running_def ex_s3_def wrap64_def ex_times)

section \<open>A handler at work\<close>

definition ex_env :: handler_env where
  "ex_env = \<lparr>he_clk = (\<lambda>_. ex_clk 300), he_fresh = (\<lambda>_. ex_fresh 8), he_others = (\<lambda>_ s. s), he_ticks = []\<rparr>"

definition ex_provider :: Provider where
  "ex_provider = \<lparr>pv_Apply = (\<lambda>_ _. (zero_readback, None)), pv_Destroy = (\<lambda>_ _. (zero_readback, None)), pv_Read = (\<lambda>_ _. (ex_readback, None))\<rparr>"

definition ex_op_renewed :: Operation where
  "ex_op_renewed = ex_op_running\<lparr>op_Revision := 3\<rparr>"

definition ex_task_renewed :: Task where
  "ex_task_renewed = ex_task_running\<lparr>t_Revision := 3\<rparr>"

lemma ex_s4_lookups [simp]: "lookup (ws_operations ex_s4) (ex_id 4) = Some ex_op_running" "lookup (ws_tasks ex_s4) (ex_id 5) = Some ex_task_running"
    "ws_plans ex_s4 = ws_plans ex_s1" "ws_workloads ex_s4 = []"
  by (simp_all add: ex_s4_def ex_s3_def) (simp add: add_event_def put_confirmation_def put_task_def put_op_def)

lemma ex_running_fields [simp]: "op_ID ex_op_running = ex_id 4" "op_TaskID ex_op_running = ex_id 5" "op_Status ex_op_running = OperationRunning"
    "op_Kind ex_op_running = OperationApply" "op_DispatchClaim ex_op_running = ex_id 8" "op_DispatchEpoch ex_op_running = 1"
    "op_DispatchLeaseUntil ex_op_running = ex_time 3900" "op_WorkloadID ex_op_running = ex_id 3" "op_TargetKind ex_op_running = TargetCoreRunner"
    "op_PlanID ex_op_running = ex_id 2" "op_PlanRevision ex_op_running = 1" "op_PlanDigest ex_op_running = ex_plan_digest" "op_Revision ex_op_running = 2"
  by (simp_all add: ex_op_running_def)

lemma ex_running_task [simp]: "t_ID ex_task_running = ex_id 5" "t_Status ex_task_running = StatusRunning" "t_Revision ex_task_running = 2"
    "t_Lease ex_task_running = Some \<lparr>l_TaskID = ex_id 5, l_Attempt = 1, l_Epoch = 1, l_Holder = ''workload-handler'', l_ExpiresAt = ex_time 3900\<rparr>"
    "claimed_ok ex_task_running"
  by (simp_all add: ex_task_running_def claimed_ok_def)

lemma AppendEvent_runs: "lookup (ws_operations s) k = Some v \<Longrightarrow> \<exists>es. AppendEvent clk s k e = (s\<lparr>ws_events := es\<rparr>, Inr (e\<lparr>ev_OperationID := k,
    ev_Sequence := of_nat (length (events_at s k) + 1), ev_At := (if IsZero (ev_At e) then to_UTC (clk 0) else ev_At e)\<rparr>))"
  by (auto simp: AppendEvent_def Let_def)

lemma ex_renew: "RenewDispatchLease (ex_clk 300) (ex_s4\<lparr>ws_events := es\<rparr>) (ex_id 4) (ex_id 8) 1
    = (put_task (ex_id 5) ex_task_renewed (put_op (ex_id 4) ex_op_renewed (ex_s4\<lparr>ws_events := es\<rparr>)), Inr ex_op_renewed)"
proof -
  have a: "After (ex_time 3900) (ex_time 300)" "time_Add (ex_time 300) Hour = ex_time 3900" "to_UTC (ex_time 300) = ex_time 300"
    by (simp_all add: ex_times)
  have o: "ex_op_running\<lparr>op_DispatchLeaseUntil := ex_time 3900, op_UpdatedAt := ex_time 300, op_Revision := 3\<rparr> = ex_op_renewed"
    by (simp add: ex_op_renewed_def ex_op_running_def)
  have t: "ex_task_running\<lparr>t_Lease := Some \<lparr>l_TaskID = ex_id 5, l_Attempt = 1, l_Epoch = 1, l_Holder = ''workload-handler'', l_ExpiresAt = ex_time 3900\<rparr>,
      t_UpdatedAt := ex_time 300, t_Revision := 3\<rparr> = ex_task_renewed"
    by (simp add: ex_task_renewed_def ex_task_running_def)
  have r: "op_DispatchLeaseUntil ex_op_renewed = ex_time 3900" by (simp add: ex_op_renewed_def)
  show ?thesis
    by (simp add: RenewDispatchLease_def Let_def task_at_def or_zero_def ex_clk_def a o r t)
qed

lemma ex_renewed_fields [simp]: "op_ID ex_op_renewed = ex_id 4" "op_TaskID ex_op_renewed = ex_id 5" "op_Status ex_op_renewed = OperationRunning"
    "op_Kind ex_op_renewed = OperationApply" "op_DispatchClaim ex_op_renewed = ex_id 8" "op_DispatchEpoch ex_op_renewed = 1"
    "op_DispatchLeaseUntil ex_op_renewed = ex_time 3900" "op_WorkloadID ex_op_renewed = ex_id 3" "op_TargetKind ex_op_renewed = TargetCoreRunner"
    "op_PlanID ex_op_renewed = ex_id 2" "op_PlanRevision ex_op_renewed = 1" "op_PlanDigest ex_op_renewed = ex_plan_digest"
  by (simp_all add: ex_op_renewed_def)

definition ex_seen :: Readback where
  "ex_seen = with_digest ex (SanitizeReadback ex ex_readback)"

lemma ex_seen_fields [simp]: "rb_WorkloadID ex_seen = ex_id 3" "rb_TargetKind ex_seen = TargetCoreRunner" "rb_State ex_seen = ''ready''" "rb_Identity ex_seen = ex_identity"
  by (simp_all add: ex_seen_def with_digest_def SanitizeReadback_def Let_def ex_readback_def)

lemma ex_identity_ok [simp]: "TargetIdentity_Validate ex_identity TargetCoreRunner = None"
  by (simp add: TargetIdentity_Validate_def ex_identity_def TrimSpace_printable printable_def)

definition ex_before :: "(string \<times> Event list) list \<Rightarrow> (string \<times> Event list) list \<Rightarrow> WorkloadStore" where
  "ex_before es fs = (put_task (ex_id 5) ex_task_renewed (put_op (ex_id 4) ex_op_renewed (ex_s4\<lparr>ws_events := es\<rparr>)))\<lparr>ws_events := fs\<rparr>"

definition ex_op_done :: Operation where
  "ex_op_done = completed_op ex_op_renewed [] [] (CompletionFingerprint ex [] ex_seen) (ex_time 300)"

definition ex_task_done :: Task where
  "ex_task_done = completed_task ex ex_task_renewed [] (sealed_readback ex ex_seen) [] (ex_time 300)"

definition ex_s5 :: "WorkloadStore \<Rightarrow> WorkloadStore" where
  "ex_s5 s = add_event (ex_id 4) ''terminal'' OperationSucceeded [] (ex_time 300)
     (put_task (ex_id 5) ex_task_done (put_op (ex_id 4) ex_op_done (put_workload (ex_id 3) (new_workload ex_op_renewed (sealed_readback ex ex_seen) (ex_time 300)) s)))"

lemma ex_finish: "CompleteDispatch ex (ex_clk 300) (ex_before es fs) (ex_id 4) (ex_id 5) (ex_id 8) 1 [] ex_seen []
    = (ex_s5 (ex_before es fs), Inr (ex_op_done, ex_task_done))"
proof -
  have a: "After (ex_time 3900) (ex_time 300)" "to_UTC (ex_time 300) = ex_time 300" by (simp_all add: ex_times)
  have l: "lookup (ws_operations (ex_before es fs)) (ex_id 4) = Some ex_op_renewed" "lookup (ws_tasks (ex_before es fs)) (ex_id 5) = Some ex_task_renewed"
    "ws_plans (ex_before es fs) = ws_plans ex_s1" "ws_workloads (ex_before es fs) = []"
    by (simp_all add: ex_before_def) (simp add: put_task_def put_op_def)
  have v: "valid_task ex_task_renewed 1 (ex_time 300) None" by (simp add: valid_task_def ex_task_renewed_def a)
  have r: "readback_ok (ex_before es fs) ex_op_renewed ex_seen" by (simp add: readback_ok_def l targetIdentityEqual_def ex_settings_def)
  have w: "record_workload ex_op_renewed [] (sealed_readback ex ex_seen) (ex_time 300) (ex_before es fs)
     = put_workload (ex_id 3) (new_workload ex_op_renewed (sealed_readback ex ex_seen) (ex_time 300)) (ex_before es fs)"
    by (simp add: record_workload_def l)
  have st: "op_Status ex_op_done = OperationSucceeded" "snd (SafeFailure [] []) = []" by (simp_all add: ex_op_done_def completed_op_def SafeFailure_def)
  show ?thesis
    by (simp add: CompleteDispatch_def completeLocked_def Let_def l v r w st a ex_clk_def ex_op_done_def [symmetric] ex_task_done_def [symmetric] ex_s5_def)
qed

lemma ex_handle: "\<exists>es fs. Handle ex ex_env ex_provider (ex_id 4) ex_plan_digest 1 [] (ex_s3, [])
    = ((ex_s5 (ex_before es fs), [CallApply ex_plan ex_op_running, CallRead ex_plan ex_op_renewed]), Inr (ex_op_done, None))"
proof -
  have e [simp]: "he_clk ex_env i = ex_clk 300" "he_fresh ex_env i = ex_fresh 8" "he_others ex_env i s = s" "he_ticks ex_env = []" for i s
    by (simp_all add: ex_env_def)
  have p [simp]: "snd (pv_Apply ex_provider plan v) = None" "pv_Read ex_provider plan v = (ex_readback, None)" for plan v by (simp_all add: ex_provider_def)
  define ev where "ev kind st msg rb = \<lparr>ev_OperationID = [], ev_Sequence = 0, ev_Kind = kind, ev_Status = st, ev_Message = msg, ev_Readback = rb, ev_At = time_zero\<rparr>" for kind st msg rb
  obtain es ev1 where a1: "AppendEvent (ex_clk 300) ex_s4 (ex_id 4) (ev ''dispatched'' OperationRunning ''provider dispatch claimed'' []) = (ex_s4\<lparr>ws_events := es\<rparr>, Inr ev1)"
    using AppendEvent_runs [OF ex_s4_lookups(1)] by blast
  define s4 where "s4 = put_task (ex_id 5) ex_task_renewed (put_op (ex_id 4) ex_op_renewed (ex_s4\<lparr>ws_events := es\<rparr>))"
  have "lookup (ws_operations s4) (ex_id 4) = Some ex_op_renewed" by (simp add: s4_def)
  then obtain fs ev2 where a2: "AppendEvent (ex_clk 300) s4 (ex_id 4) (ev ''readback'' OperationRunning [] (json_Marshal ex (readback_json ex ex_seen))) = (s4\<lparr>ws_events := fs\<rparr>, Inr ev2)"
    using AppendEvent_runs by blast
  have b: "s4\<lparr>ws_events := fs\<rparr> = ex_before es fs" by (simp add: s4_def ex_before_def)
  have g: "GetOperation ex_s3 (ex_id 4) = Inr (rr_Operation ex_result)" "GetPlan ex_s3 (ex_id 2) = Inr ex_plan"
    by (simp_all add: GetOperation_def GetPlan_def found_def ex_s3_def)
  have c: "outcome_code ex_plan ex_op_renewed ex_seen = []" by (simp add: outcome_code_def targetIdentityEqual_def ex_settings_def)
  have "dispatch_act ex ex_env ex_provider ex_plan ex_op_running None (ex_s4, [])
      = ((ex_s5 (ex_before es fs), [CallApply ex_plan ex_op_running, CallRead ex_plan ex_op_renewed]), Inr (ex_op_done, None))"
    by (simp add: dispatch_act_def append_act_def act_bind_def on_store_def ask_def give_def renewDispatchLease_def ev_def [symmetric] a1 ex_renew s4_def [symmetric]
        after_success_def settle_def conclude_def completeDispatch_def ex_seen_def [symmetric] a2 b c ex_finish)
  moreover have ca: "consume_act ex ex_env 2 (ex_id 4) (ex_id 6) ex_plan_digest 1 None (ex_s3, []) = ((ex_s4, []), Inr (ex_op_running, ex_task_running))"
    by (simp add: consume_act_def on_store_def ex_w4)
  ultimately show ?thesis
    by (intro exI) (simp add: Handle_def bind_read g settled_def one_fence_def bind_steps ca)
qed

end
