(* ===== verification/Workload_Safety.thy ===== *)
theory Workload_Safety
  imports Workload_Example
begin

text \<open>
  The properties of the workload store and of its handler: one dispatch per operation whatever else runs, final outcomes with an exact
  replay, evidence behind every success, an append-only event log, immutable plans, and what the store cannot undo.
\<close>

section \<open>Plans and tasks along a run\<close>

definition tasks_kept :: "WorkloadStore \<Rightarrow> WorkloadStore \<Rightarrow> bool" where
  "tasks_kept s s' \<longleftrightarrow> (\<forall>k. lookup (ws_tasks s) k \<noteq> None \<longrightarrow> lookup (ws_tasks s') k \<noteq> None)"

lemma tasks_kept_intros [simp]: "ws_tasks s' = ws_tasks s \<Longrightarrow> tasks_kept s s'" "ws_tasks s' = put j t (ws_tasks s) \<Longrightarrow> tasks_kept s s'"
  by (auto simp: tasks_kept_def)

lemma plan_replay_tasks [simp]: "ws_tasks (put_plan_replay k p h s) = ws_tasks s"
  by (simp add: put_plan_replay_def)

lemma store_result_tables [simp]: "ws_tasks (store_result r s) = put (op_TaskID (rr_Operation r)) (rr_Task r) (ws_tasks s)"
    "ws_plans (store_result r s) = ws_plans s"
  by (simp_all add: store_result_def Let_def)

lemma terminalize_tables: "tasks_kept s (fst (terminalizeBeforeDispatchLocked clk s c ost cst tst code sm))"
    "ws_plans (fst (terminalizeBeforeDispatchLocked clk s c ost cst tst code sm)) = ws_plans s"
  by (simp_all add: terminalizeBeforeDispatchLocked_def Let_def split: option.split)

lemma Cancel_tables: "tasks_kept s (fst (CancelOperation X clk s k key n))" "ws_plans (fst (CancelOperation X clk s k key n)) = ws_plans s"
proof -
  have r: "tasks_kept s (put_result a b h s1) = tasks_kept s s1" for a b h s1 by (simp add: tasks_kept_def)
  note t = terminalize_tables [where s = s]
  show "tasks_kept s (fst (CancelOperation X clk s k key n))" "ws_plans (fst (CancelOperation X clk s k key n)) = ws_plans s"
    unfolding CancelOperation_def Let_def by (auto simp: r split: option.split prod.split sum.split) (metis fst_conv t)+
qed

lemma complete_tables: "tasks_kept s (fst (completeLocked X clk s k tk code r sm claim epoch f))"
    "ws_plans (fst (completeLocked X clk s k tk code r sm claim epoch f)) = ws_plans s"
  by (simp_all add: completeLocked_def Let_def split: option.split)

lemma apply_tables: "tasks_kept s (store_apply X clk fresh c s)" "(\<forall>i. c \<noteq> DoCreatePlan i) \<Longrightarrow> ws_plans (store_apply X clk fresh c s) = ws_plans s"
proof -
  note defs = CreatePlan_def RequestOperation_def Confirm_wl_def Reject_wl_def Expire_wl_def Consume_wl_def ConsumeFenced_def AppendEvent_def
    CompleteDispatch_def CompleteDispatchFenced_def RenewDispatchLease_def RenewDispatchLeaseFenced_def RecoverClaim_def RecoverClaimFenced_def
  show "tasks_kept s (store_apply X clk fresh c s)"
    by (cases c) (simp_all add: defs Let_def terminalize_tables Cancel_tables complete_tables split: option.split sum.split)
  show "(\<forall>i. c \<noteq> DoCreatePlan i) \<Longrightarrow> ws_plans (store_apply X clk fresh c s) = ws_plans s"
    by (cases c) (simp_all add: defs Let_def terminalize_tables Cancel_tables complete_tables split: option.split sum.split)
qed

lemma run_tasks_kept: "tasks_kept s (store_run X cs s)"
proof (induction cs arbitrary: s)
  case (Cons c cs)
  have "tasks_kept s (store_step X c s)" by (simp add: store_step_def apply_tables)
  with Cons [of "store_step X c s"] show ?case by (simp add: tasks_kept_def)
qed simp

text \<open>Every stored plan carries the digest of its own content.\<close>

definition plans_sealed :: "ext \<Rightarrow> WorkloadStore \<Rightarrow> bool" where
  "plans_sealed X s \<longleftrightarrow> (\<forall>k p. lookup (ws_plans s) k = Some p \<longrightarrow> pn_ID p = k \<and> planInputDigest X p = pn_Digest p \<and> lower_hex64 (pn_Digest p))"

lemma normalized_sealed: "Plan_Normalize X (plan_of i now inp) = Inr n \<Longrightarrow> pn_Digest n = planInputDigest X n \<and> lower_hex64 (pn_Digest n)"
  by (auto simp: Plan_Normalize_def Let_def plan_of_def Plan_trim_def planInputDigest_def ValidDigest_wl_iff split: if_splits option.splits)

lemma CreatePlan_plans: "ws_plans (fst (CreatePlan X clk fresh s i)) = ws_plans s
    \<or> (\<exists>n. Plan_Normalize X (plan_of (fresh 0) (clk 0) i) = Inr n \<and> ws_plans (fst (CreatePlan X clk fresh s i)) = put (pn_ID n) n (ws_plans s))"
  by (auto simp: CreatePlan_def Let_def split: sum.split option.split)

lemma apply_sealed: "plans_sealed X s \<Longrightarrow> plans_sealed X (store_apply X clk fresh c s)"
proof (cases "\<exists>i. c = DoCreatePlan i")
  case True
  then obtain i where c: "c = DoCreatePlan i" by blast
  assume s: "plans_sealed X s"
  from CreatePlan_plans [of X clk fresh s i] show ?thesis
  proof
    assume "\<exists>n. Plan_Normalize X (plan_of (fresh 0) (clk 0) i) = Inr n \<and> ws_plans (fst (CreatePlan X clk fresh s i)) = put (pn_ID n) n (ws_plans s)"
    then obtain n where n: "Plan_Normalize X (plan_of (fresh 0) (clk 0) i) = Inr n" "ws_plans (fst (CreatePlan X clk fresh s i)) = put (pn_ID n) n (ws_plans s)"
      by blast
    from s normalized_sealed [OF n(1)] show ?thesis
      unfolding c plans_sealed_def store_apply.simps n(2) lookup_put by (metis option.inject)
  qed (use s in \<open>simp only: c plans_sealed_def store_apply.simps\<close>)
qed (simp add: plans_sealed_def apply_tables)

lemma run_sealed: "plans_sealed X s \<Longrightarrow> plans_sealed X (store_run X cs s)"
  by (induction cs arbitrary: s) (simp_all add: store_step_def apply_sealed)

lemma reached: "run_ok X cs NewMemoryStore \<Longrightarrow> store_ok (store_run X cs NewMemoryStore)"
  using run_later NewMemoryStore_ok by blast

section \<open>Dispatch\<close>

text \<open>C11. The store hands an operation to a provider at most once: along any sequence of store operations, in any order and with any
  arguments, at most one \<open>Consume\<close> or \<open>ConsumeFenced\<close> of an operation succeeds, the stored dispatch attempt counts exactly that, and a dispatched operation has used up
  its confirmation for good.\<close>

theorem dispatched_at_most_once:
  assumes "run_ok X cs NewMemoryStore"
  shows "dispatches X k cs NewMemoryStore \<le> 1 \<and> attempts (store_run X cs NewMemoryStore) k = dispatches X k cs NewMemoryStore
    \<and> (dispatches X k cs NewMemoryStore = 1 \<longrightarrow> (\<exists>v c. lookup (ws_operations (store_run X cs NewMemoryStore)) k = Some v
         \<and> lookup (ws_confirmations (store_run X cs NewMemoryStore)) (op_ConfirmationID v) = Some c \<and> \<not> conf_open c))"
proof -
  let ?s = "store_run X cs NewMemoryStore"
  from run_attempts [OF NewMemoryStore_ok assms] have a: "attempts ?s k = dispatches X k cs NewMemoryStore"
    by (simp add: attempts_def [of NewMemoryStore]) (simp add: NewMemoryStore_def)
  have "\<exists>v c. lookup (ws_operations ?s) k = Some v \<and> lookup (ws_confirmations ?s) (op_ConfirmationID v) = Some c \<and> \<not> conf_open c"
    if "attempts ?s k = 1"
  proof -
    from that obtain v where v: "lookup (ws_operations ?s) k = Some v" "unat (op_DispatchAttempt v) = 1" by (auto simp: attempts_def split: option.splits)
    then have "op_DispatchAttempt v \<noteq> 0" by (metis unat_0 zero_neq_one)
    with v reached [OF assms] show ?thesis unfolding store_ok_def links_ok_def by blast
  qed
  with a attempts_bound [OF reached [OF assms], of k] show ?thesis by simp
qed

definition ex_calls :: "store_call list" where
  "ex_calls = [\<lparr>sc_clk = ex_clk 100, sc_fresh = ex_fresh 2, sc_command = store_command.DoCreatePlan ex_plan_input\<rparr>,
     \<lparr>sc_clk = ex_clk 100, sc_fresh = ex_fresh 3, sc_command = store_command.DoRequest ex_wrequest\<rparr>,
     \<lparr>sc_clk = ex_clk 200, sc_fresh = ex_fresh 8, sc_command = store_command.DoConfirm (ex_id 6) 1\<rparr>,
     \<lparr>sc_clk = ex_clk 300, sc_fresh = ex_fresh 8, sc_command = store_command.DoConsume (ex_id 4) (ex_id 6) ex_plan_digest 1\<rparr>]"

lemma ex_clk_past: "0 \<le> t \<Longrightarrow> 0 \<le> instant (ex_clk t k)"
  by (simp add: ex_clk_def ex_times)

lemma ex_store_run: "store_run ex (take 3 ex_calls) NewMemoryStore = ex_s3" "run_ok ex (take 3 ex_calls) NewMemoryStore"
    "store_run ex ex_calls NewMemoryStore = ex_s4" "run_ok ex ex_calls NewMemoryStore" "dispatches ex (ex_id 4) ex_calls NewMemoryStore = 1"
proof -
  have e: "lookup (ws_plans NewMemoryStore) k = None" for k by (simp add: NewMemoryStore_def)
  show "store_run ex (take 3 ex_calls) NewMemoryStore = ex_s3" "run_ok ex (take 3 ex_calls) NewMemoryStore"
    "store_run ex ex_calls NewMemoryStore = ex_s4" "run_ok ex ex_calls NewMemoryStore" "dispatches ex (ex_id 4) ex_calls NewMemoryStore = 1"
    by (simp_all add: ex_calls_def store_step_def ex_w1 ex_w2 ex_w3 ex_w4 call_ok_def ex_clk_past e is_dispatch_def) (simp_all add: ex_fresh_def)
qed

theorem dispatched_at_most_once_witness: "dispatches ex (ex_id 4) ex_calls NewMemoryStore = 1 \<and> attempts ex_s4 (ex_id 4) = 1"
  using dispatched_at_most_once [OF ex_store_run(4), of "ex_id 4"] ex_store_run by simp

text \<open>C12. A handler asks its provider for at most one change per operation. Two runs of \<open>Handle\<close> for the same operation, against a store that other
  goroutines change before, between and during them (also between any two store calls of a handler, and beside the provider), make at most one
  \<open>Apply\<close> or \<open>Destroy\<close> call together; \<open>Recover\<close> makes none.\<close>

theorem Handle_mutates_once:
  assumes "run_ok X cs NewMemoryStore" "env_ok X E" "env_ok X E'"
    and "Handle X E P k d n fences (store_run X cs NewMemoryStore, []) = ((s1, tr), r)"
    and "run_ok X cs' s1" "Handle X E' P' k d' n' fences' (store_run X cs' s1, []) = ((s2, tr'), r')"
  shows "length (mutations tr) + length (mutations tr') \<le> 1 \<and> mutations (snd (fst (Recover X E' P' k fences' (s2, [])))) = []"
proof -
  have ok: "store_ok (store_run X cs NewMemoryStore)" by (rule reached [OF assms(1)])
  from keeps_Handle [OF assms(2)] assms(4) ok have s1: "store_ok s1" unfolding keeps_def evolves_def by (metis fst_conv)
  from run_later [OF s1 assms(5)] have s1': "store_ok (store_run X cs' s1)" "later s1 (store_run X cs' s1)" by simp_all
  have "mutations tr = [] \<or> mutations tr' = []"
  proof (rule ccontr)
    assume "\<not> (mutations tr = [] \<or> mutations tr' = [])"
    then have ne: "mutations tr \<noteq> []" "mutations tr' \<noteq> []" by auto
    from Handle_mutation(3) [OF assms(2) ok assms(4) ne(1)] obtain w where w: "lookup (ws_operations s1) k = Some w" "op_Status w \<noteq> OperationWaitingUser" by blast
    from Handle_mutation(2) [OF assms(3) s1'(1) assms(6) ne(2)] obtain v where v: "lookup (ws_operations (seen E' (store_run X cs' s1))) k = Some v"
      "op_Status v = OperationWaitingUser" by blast
    have "later s1 (seen E' (store_run X cs' s1))"
      using seen_evolves [OF assms(3), of "store_run X cs' s1"] s1' later_trans unfolding evolves_def by blast
    with v w show False unfolding later_def using left_waiting by (metis option.inject)
  qed
  with Handle_mutation(1) [OF assms(2) ok assms(4)] Handle_mutation(1) [OF assms(3) s1'(1) assms(6)] have "length (mutations tr) + length (mutations tr') \<le> 1"
    by (cases "mutations tr = []"; cases "mutations tr' = []") simp_all
  moreover have "mutations (snd (fst (Recover X E' P' k fences' (s2, [])))) = []"
    using Recover_reads [of X E' P' k fences'] unfolding reads_only_def by (simp add: mutations_def)
  ultimately show ?thesis by simp
qed

lemma ex_env_ok: "env_ok ex ex_env"
proof -
  have "interference ex (\<lambda>s. s)" unfolding interference_def by (metis store_run.simps(1) run_ok.simps(1))
  then show ?thesis by (simp add: env_ok_def ex_env_def ex_clk_past) (simp add: ex_fresh_def)
qed

theorem Handle_mutates_once_witness:
  "\<exists>s1 s2 tr tr' r'. Handle ex ex_env ex_provider (ex_id 4) ex_plan_digest 1 [] (ex_s3, []) = ((s1, tr), Inr (ex_op_done, None)) \<and> length (mutations tr) = 1
     \<and> Handle ex ex_env ex_provider (ex_id 4) ex_plan_digest 1 [] (s1, []) = ((s2, tr'), r') \<and> mutations tr' = []"
proof -
  from ex_handle obtain s1 where h: "Handle ex ex_env ex_provider (ex_id 4) ex_plan_digest 1 [] (ex_s3, [])
      = ((s1, [CallApply ex_plan ex_op_running, CallRead ex_plan ex_op_renewed]), Inr (ex_op_done, None))" by blast
  obtain s2 tr' r' where h': "Handle ex ex_env ex_provider (ex_id 4) ex_plan_digest 1 [] (s1, []) = ((s2, tr'), r')" by (metis surj_pair)
  have m: "mutations [CallApply ex_plan ex_op_running, CallRead ex_plan ex_op_renewed] = [CallApply ex_plan ex_op_running]" by (simp add: mutations_def)
  have g: "Handle ex ex_env ex_provider (ex_id 4) ex_plan_digest 1 [] (store_run ex [] s1, []) = ((s2, tr'), r')" "run_ok ex [] s1" using h' by simp_all
  from Handle_mutates_once [OF ex_store_run(2) ex_env_ok ex_env_ok h [folded ex_store_run(1)] g(2,1)] m have "mutations tr' = []" by simp
  with h h' m show ?thesis by (intro exI conjI) (assumption | simp)+
qed

text \<open>C13. The free texts of a provider reach neither the store nor the caller; what it reports as version, state and identity does. Two providers whose answers differ only in the texts of their errors and in the details and
  the digest of their readbacks cannot be told apart: \<open>Handle\<close> and \<open>Recover\<close> leave the same store, the same events and the same answer, whatever the clock,
  the identifiers and the other goroutines do.\<close>

theorem provider_texts_are_redacted:
  assumes "alike_providers X P Q"
  shows "Handle X E P k d n fences st = Handle X E Q k d n fences st \<and> Recover X E P k fences st = Recover X E Q k fences st"
proof -
  have "dispatch_act X E P = dispatch_act X E Q" "recover_read X E P = recover_read X E Q"
    by (intro ext, simp add: alike_dispatch [OF assms] alike_after(3) [OF assms])+
  then show ?thesis by (simp only: Handle_def Recover_def)
qed

definition ex_talkative :: Provider where
  "ex_talkative = \<lparr>pv_Apply = (\<lambda>_ _. (zero_readback, Some ''password 1234'')), pv_Destroy = (\<lambda>_ _. (zero_readback, None)),
     pv_Read = (\<lambda>_ _. (ex_readback\<lparr>rb_Details := ''token''\<rparr>, None))\<rparr>"

definition ex_terse :: Provider where
  "ex_terse = ex_provider\<lparr>pv_Apply := (\<lambda>_ _. (zero_readback, Some []))\<rparr>"

theorem provider_texts_are_redacted_witness:
  "Handle ex ex_env ex_talkative (ex_id 4) ex_plan_digest 1 [] (ex_s3, []) = Handle ex ex_env ex_terse (ex_id 4) ex_plan_digest 1 [] (ex_s3, [])"
proof -
  have "alike_providers ex ex_talkative ex_terse"
    by (simp add: alike_providers_def alike_def ex_talkative_def ex_terse_def ex_provider_def SanitizeReadback_def Let_def)
  from provider_texts_are_redacted [OF this] show ?thesis by blast
qed

section \<open>Outcomes\<close>

lemma complete_outcome: "completeLocked X clk s k tk code r sm claim epoch f = (s', Inr (v, t)) \<Longrightarrow>
    lookup (ws_tasks s) tk \<noteq> None \<and> op_TaskID v = tk \<and> lookup (ws_operations s') k = Some v \<and> lookup (ws_tasks s') tk = Some t
    \<and> op_DispatchClaim v = claim \<and> op_DispatchEpoch v = epoch \<and> claim \<noteq> [] \<and> op_CompletionFingerprint v = CompletionFingerprint X code r \<and> finished (op_Status v)"
  by (auto simp: completeLocked_def Let_def same_completion_def completed_op_def finished_def split: option.splits if_splits)

lemma complete_again: "lookup (ws_operations s) k = Some v \<Longrightarrow> lookup (ws_tasks s) (op_TaskID v) \<noteq> None \<Longrightarrow> finished (op_Status v) \<Longrightarrow> op_DispatchClaim v \<noteq> [] \<Longrightarrow>
    completeLocked X clk s k (op_TaskID v) code r sm (op_DispatchClaim v) (op_DispatchEpoch v) f
    = (s, if op_CompletionFingerprint v = CompletionFingerprint X code r then Inr (v, task_at s (op_TaskID v)) else Inl ErrRevisionConflict_wl)"
  by (auto simp: completeLocked_def Let_def same_completion_def finished_def task_at_def or_zero_def)

text \<open>An outcome is recorded once. After a completion has succeeded, whatever the store does in between, the operation is still the one the completion
  returned, and completing it again under the same claim changes nothing: with the same outcome (by its fingerprint) it returns that operation, at any time, with any
  summary and any fence, and with another outcome it is refused.\<close>

theorem completion_replays_exactly:
  assumes "run_ok X cs NewMemoryStore" "completeLocked X clk (store_run X cs NewMemoryStore) k tk code r sm claim epoch f = (s1, Inr (v, t))" "run_ok X cs' s1"
  shows "GetOperation (store_run X cs' s1) k = Inr v \<and> completeLocked X clk' (store_run X cs' s1) k tk code' r' sm' claim epoch f'
    = (store_run X cs' s1, if CompletionFingerprint X code' r' = CompletionFingerprint X code r then Inr (v, task_at (store_run X cs' s1) tk) else Inl ErrRevisionConflict_wl)"
proof -
  let ?s = "store_run X cs NewMemoryStore" and ?s2 = "store_run X cs' s1"
  note out = complete_outcome [OF assms(2)]
  have "store_ok ?s" by (rule reached [OF assms(1)])
  then have "store_ok s1" using shape_keeps_ok [OF complete_shape [of ?s X clk k tk code r sm claim epoch f]] assms(2) by (simp add: store_ok_def)
  from run_later [OF this assms(3)] have "later s1 ?s2" by simp
  with out obtain w where w: "lookup (ws_operations ?s2) k = Some w" "later_op v w" unfolding later_def by blast
  from out have "op_final v" by (auto simp: op_final_def finished_def)
  with w final_kept have v: "lookup (ws_operations ?s2) k = Some v" by metis
  have "lookup (ws_tasks ?s2) tk \<noteq> None" using out run_tasks_kept [of s1 X cs'] by (auto simp: tasks_kept_def)
  with complete_again [OF v, of X clk' code' r' sm' f'] out v show ?thesis by (auto simp: GetOperation_def found_def)
qed

definition ex_failed :: "(Operation \<times> Task) step" where
  "ex_failed = completeLocked ex (ex_clk 300) ex_s4 (ex_id 4) (ex_id 5) ''provider_error'' ex_readback ''secret'' (ex_id 8) 1 None"

lemma ex_failed_ok: "\<exists>s1 v t. ex_failed = (s1, Inr (v, t))"
proof -
  have a: "After (ex_time 3900) (ex_time 300)" "to_UTC (ex_time 300) = ex_time 300" by (simp_all add: ex_times)
  have v: "valid_task ex_task_running 1 (ex_time 300) None" by (simp add: valid_task_def a)
  show ?thesis by (simp add: ex_failed_def completeLocked_def Let_def ex_clk_def a v)
qed

theorem completion_replays_exactly_witness:
  "\<exists>s1 v t. ex_failed = (s1, Inr (v, t)) \<and> completeLocked ex (ex_clk 900000) s1 (ex_id 4) (ex_id 5) ''other'' ex_readback [] (ex_id 8) 1 None = (s1, Inr (v, task_at s1 (ex_id 5)))"
proof -
  from ex_failed_ok obtain s1 v t where f: "ex_failed = (s1, Inr (v, t))" by blast
  have c: "CompletionFingerprint ex ''other'' ex_readback = CompletionFingerprint ex ''provider_error'' ex_readback" by (simp add: CompletionFingerprint_def)
  from completion_replays_exactly [OF ex_store_run(4), of "ex_clk 300" "ex_id 4" "ex_id 5" "''provider_error''" ex_readback "''secret''" "ex_id 8" 1 None s1 v t "[]"
      "ex_clk 900000" "''other''" ex_readback "[]" None] f
  have "completeLocked ex (ex_clk 900000) s1 (ex_id 4) (ex_id 5) ''other'' ex_readback [] (ex_id 8) 1 None = (s1, Inr (v, task_at s1 (ex_id 5)))"
    by (simp add: ex_store_run(3) ex_failed_def c)
  with f show ?thesis by blast
qed

text \<open>C14. A success is evidenced. When completing a running operation with no failure code succeeds, the plan the operation was requested for is still the stored one, and the
  readback names the workload and the exact target identity of that plan in the state the operation asked for. If the operation applies a plan, or the store knew the workload, the store then shows the
  workload in that state with the applied plan's digest and the digest the store computed of the readback itself; the destruction of a workload that the store never knew records none.\<close>

theorem success_is_evidenced:
  assumes "GetOperation s k = Inr o1" "op_Status o1 = OperationRunning" "completeLocked X clk s k tk [] r sm claim epoch f = (s', Inr (v, t))"
  shows "op_Status v = OperationSucceeded \<and> t_Status t = StatusSucceeded
    \<and> (\<exists>p. GetPlan s (op_PlanID v) = Inr p \<and> pn_Digest p = op_PlanDigest v \<and> pn_Revision p = op_PlanRevision v \<and> rb_WorkloadID r = op_WorkloadID v
        \<and> targetIdentityEqual (rb_Identity r) (ts_Identity (pn_Target p)) (op_TargetKind v) \<and> TargetIdentity_Validate (rb_Identity r) (op_TargetKind v) = None
        \<and> (op_Kind v = OperationApply \<longrightarrow> rb_State r = ''ready'') \<and> (op_Kind v = OperationDestroy \<longrightarrow> rb_State r = ''destroyed'')
        \<and> (if op_Kind v = OperationApply \<or> \<not> isl (GetWorkload s (op_WorkloadID v))
            then \<exists>w. GetWorkload s' (op_WorkloadID v) = Inr w \<and> wk_State w = (if op_Kind v = OperationDestroy then ''destroyed'' else ''ready'')
              \<and> wk_Identity w = rb_Identity r \<and> as_AppliedPlanDigest (wk_Actual w) = pn_Digest p
              \<and> as_ReadbackDigest (wk_Actual w) = ReadbackDigest X (SanitizeReadback X r)
            else isl (GetWorkload s' (op_WorkloadID v))))"
proof -
  have o1: "lookup (ws_operations s) k = Some o1" using assms(1) by (auto simp: GetOperation_def found_def split: option.splits)
  let ?r = "sealed_readback X r" and ?now = "to_UTC (clk 0)"
  have seal: "rb_Identity ?r = rb_Identity r" "rb_Digest ?r = ReadbackDigest X (SanitizeReadback X r)"
    by (simp_all add: sealed_readback_def SanitizeReadback_def Let_def)
  from assms(3) o1 assms(2) obtain t0 where t0: "readback_ok s o1 r" "v = completed_op o1 [] sm (CompletionFingerprint X [] r) ?now"
      "t = completed_task X t0 [] ?r sm ?now"
      "s' = add_event k ''terminal'' (op_Status v) (snd (SafeFailure [] sm)) ?now (put_task tk t (put_op k v (record_workload o1 [] ?r ?now s)))"
    by (auto simp: completeLocked_def Let_def split: option.splits if_splits)
  then have v: "op_Status v = OperationSucceeded" "t_Status t = StatusSucceeded" "op_identity v = op_identity o1"
    by (simp_all add: completed_op_def completed_task_def op_identity_def)
  have w': "ws_workloads s' = ws_workloads (record_workload o1 [] ?r ?now s)" by (simp add: t0(4) add_event_def put_task_def put_op_def)
  have stored: "\<exists>w. GetWorkload s' (op_WorkloadID o1) = Inr w \<and> wk_State w = (if op_Kind o1 = OperationDestroy then ''destroyed'' else ''ready'')
      \<and> wk_Identity w = rb_Identity r \<and> as_AppliedPlanDigest (wk_Actual w) = op_PlanDigest o1 \<and> as_ReadbackDigest (wk_Actual w) = rb_Digest ?r"
    if "op_Kind o1 = OperationApply \<or> \<not> isl (GetWorkload s (op_WorkloadID o1))"
    using that by (auto simp: GetWorkload_def found_def w' record_workload_def put_workload_def observed_workload_def new_workload_def actual_of_def Let_def seal
        split: option.splits)
  have unknown: "isl (GetWorkload s' (op_WorkloadID o1))" if "\<not> (op_Kind o1 = OperationApply \<or> \<not> isl (GetWorkload s (op_WorkloadID o1)))"
    using that by (auto simp: GetWorkload_def found_def w' record_workload_def split: option.splits)
  from t0(1) obtain p where "lookup (ws_plans s) (op_PlanID o1) = Some p" by (auto simp: readback_ok_def split: option.splits)
  with t0(1) v seal stored unknown show ?thesis
    by (auto simp: readback_ok_def GetPlan_def found_def op_identity_def)
qed

lemma ex_success: "\<exists>s1 t. completeLocked ex (ex_clk 300) (ex_before [] []) (ex_id 4) (ex_id 5) [] ex_seen [] (ex_id 8) 1 None = (s1, Inr (ex_op_done, t))"
  using ex_finish [of "[]" "[]"] by (simp add: CompleteDispatch_def ex_before_def split: option.splits)

theorem success_is_evidenced_witness:
  "\<exists>s1 w. GetWorkload s1 (ex_id 3) = Inr w \<and> wk_State w = ''ready'' \<and> wk_Identity w = ex_identity
     \<and> as_ReadbackDigest (wk_Actual w) = ReadbackDigest ex (SanitizeReadback ex ex_seen)"
proof -
  from ex_success obtain s1 t where c: "completeLocked ex (ex_clk 300) (ex_before [] []) (ex_id 4) (ex_id 5) [] ex_seen [] (ex_id 8) 1 None = (s1, Inr (ex_op_done, t))"
    by blast
  have g: "GetOperation (ex_before [] []) (ex_id 4) = Inr ex_op_renewed" by (simp add: GetOperation_def found_def ex_before_def)
  have d: "op_WorkloadID ex_op_done = ex_id 3" "op_Kind ex_op_done = OperationApply" by (simp_all add: ex_op_done_def completed_op_def)
  from success_is_evidenced [OF g _ c] d show ?thesis by (auto split: if_splits)
qed

section \<open>Histories\<close>

lemma numbered_suffix: "numbered es \<Longrightarrow> length es < 2 ^ 64 \<Longrightarrow> n \<le> length es \<Longrightarrow> filter (\<lambda>e. ev_Sequence e > of_nat n) es = drop n es"
proof -
  assume num: "numbered es" and len: "length es < 2 ^ 64" and n: "n \<le> length es"
  have s: "ev_Sequence (es ! i) = of_nat (Suc i)" if "i < length es" for i
  proof -
    from that num have "map ev_Sequence es ! i = (map of_nat [1..<Suc (length es)] :: u64 list) ! i" by (simp add: numbered_def)
    with that show ?thesis by (simp add: nth_upt del: upt_Suc)
  qed
  have u: "unat (of_nat m :: u64) = m" if "m < 2 ^ 64" for m using that by (simp add: unat_of_nat)
  have gt: "ev_Sequence (es ! i) > of_nat n \<longleftrightarrow> n \<le> i" if "i < length es" for i
  proof -
    from that len n have "unat (of_nat (Suc i) :: u64) = Suc i" "unat (of_nat n :: u64) = n" by (simp_all only: u)
    then show ?thesis unfolding s [OF that] word_less_nat_alt by (simp only: less_Suc_eq_le)
  qed
  have "filter (\<lambda>e. ev_Sequence e > of_nat n) (take n es) = []"
    by (auto simp: filter_empty_conv in_set_conv_nth gt)
  moreover have "filter (\<lambda>e. ev_Sequence e > of_nat n) (drop n es) = drop n es"
    by (auto simp: filter_id_conv in_set_conv_nth gt)
  ultimately show ?thesis by (metis append_Nil append_take_drop_id filter_append)
qed

text \<open>The event log of an operation is append-only and numbered without gaps, so a reader never misses or rereads an event: asking a later store for the events after the
  last one already seen returns exactly what was added since, in order.\<close>

theorem readers_miss_no_event:
  assumes "run_ok X cs NewMemoryStore" "run_ok X cs' (store_run X cs NewMemoryStore)"
    and "length (events_at (store_run X (cs @ cs') NewMemoryStore) k) < 2 ^ 64"
  shows "\<exists>new. ListEvents (store_run X (cs @ cs') NewMemoryStore) k (of_nat (length (events_at (store_run X cs NewMemoryStore) k))) = Inr new
    \<and> events_at (store_run X (cs @ cs') NewMemoryStore) k = events_at (store_run X cs NewMemoryStore) k @ new"
proof -
  let ?s1 = "store_run X cs NewMemoryStore" and ?s2 = "store_run X (cs @ cs') NewMemoryStore"
  from run_later [OF reached [OF assms(1)] assms(2)] have ok: "store_ok ?s2" and "later ?s1 ?s2" by (simp_all add: run_append)
  then obtain new where new: "events_at ?s2 k = events_at ?s1 k @ new" unfolding later_def by blast
  from ok have "numbered (events_at ?s2 k)" by (simp add: store_ok_def log_ok_def)
  from numbered_suffix [OF this assms(3), of "length (events_at ?s1 k)"] new show ?thesis by (simp add: ListEvents_def)
qed

theorem readers_miss_no_event_witness:
  "\<exists>new. ListEvents ex_s4 (ex_id 4) 1 = Inr new \<and> length (events_at ex_s4 (ex_id 4)) = 2 \<and> events_at ex_s4 (ex_id 4) = events_at ex_s3 (ex_id 4) @ new"
proof -
  have e: "length (events_at ex_s3 (ex_id 4)) = 1"
    by (simp add: ex_s3_def events_at_def or_zero_def ex_s2_def store_result_def Let_def)
  then have e4: "length (events_at ex_s4 (ex_id 4)) = 2"
    by (simp add: ex_s4_def add_event_def events_at_def or_zero_def)
  have t: "take 3 ex_calls @ drop 3 ex_calls = ex_calls" by simp
  have r: "run_ok ex (drop 3 ex_calls) (store_run ex (take 3 ex_calls) NewMemoryStore)" using ex_store_run(4) run_append(2) [of ex "take 3 ex_calls" "drop 3 ex_calls"] by simp
  from readers_miss_no_event [OF ex_store_run(2) r, unfolded t ex_store_run(1,3), of "ex_id 4"] e e4 show ?thesis by simp
qed

text \<open>Plans are immutable and content-addressed: a plan that \<open>GetPlan\<close> returns stays the plan of its identifier in every later store, and its digest is the digest of the
  plan's own content.\<close>

theorem plans_are_immutable:
  assumes "run_ok X cs NewMemoryStore" "GetPlan (store_run X cs NewMemoryStore) k = Inr p" "run_ok X cs' (store_run X cs NewMemoryStore)"
  shows "GetPlan (store_run X (cs @ cs') NewMemoryStore) k = Inr p \<and> pn_ID p = k \<and> pn_Digest p = planInputDigest X p"
proof -
  from assms(2) have p: "lookup (ws_plans (store_run X cs NewMemoryStore)) k = Some p" by (auto simp: GetPlan_def found_def split: option.splits)
  from run_later [OF reached [OF assms(1)] assms(3)] have "later (store_run X cs NewMemoryStore) (store_run X (cs @ cs') NewMemoryStore)" by (simp add: run_append)
  with p have "lookup (ws_plans (store_run X (cs @ cs') NewMemoryStore)) k = Some p" unfolding later_def plans_kept_def by blast
  moreover have "plans_sealed X (store_run X cs NewMemoryStore)" by (rule run_sealed) (simp add: plans_sealed_def NewMemoryStore_def)
  ultimately show ?thesis using p by (simp add: GetPlan_def found_def plans_sealed_def)
qed

theorem plans_are_immutable_witness: "GetPlan ex_s4 (ex_id 2) = Inr ex_plan \<and> pn_Digest ex_plan = planInputDigest ex ex_plan"
proof -
  have t: "take 3 ex_calls @ drop 3 ex_calls = ex_calls" by simp
  have r: "run_ok ex (drop 3 ex_calls) (store_run ex (take 3 ex_calls) NewMemoryStore)" using ex_store_run(4) run_append(2) [of ex "take 3 ex_calls" "drop 3 ex_calls"] by simp
  have g: "GetPlan (store_run ex (take 3 ex_calls) NewMemoryStore) (ex_id 2) = Inr ex_plan" unfolding ex_store_run(1) by (simp add: GetPlan_def found_def ex_s3_def)
  from plans_are_immutable [OF ex_store_run(2) g r, unfolded t ex_store_run(3)] show ?thesis by blast
qed

section \<open>What the store cannot undo\<close>

definition stranded :: "string \<Rightarrow> Operation \<Rightarrow> WorkloadStore \<Rightarrow> bool" where
  "stranded k v s \<longleftrightarrow> lookup (ws_operations s) k = Some v \<and> op_Status v = OperationWaitingUser
     \<and> (\<exists>c. lookup (ws_confirmations s) (op_ConfirmationID v) = Some c \<and> \<not> conf_open c)"

lemma shape_stranded: "shape d s s' \<Longrightarrow> stranded k v s \<Longrightarrow> stranded k v s'"
  by (induction rule: shape.induct) (auto simp: stranded_def dest: conf_closed)

lemma run_stranded: "store_ok s \<Longrightarrow> run_ok X cs s \<Longrightarrow> stranded k v s \<Longrightarrow> stranded k v (store_run X cs s)"
proof (induction cs arbitrary: s)
  case (Cons c cs)
  then have sh: "shape (dispatch_of X (sc_clk c) (sc_fresh c) (sc_command c) s) s (store_step X c s)" by (simp add: step_shape)
  with Cons show ?case by (auto intro: shape_keeps_ok shape_stranded)
qed simp

text \<open>A confirmation that expires under \<open>Confirm\<close> strands its operation. \<open>Confirm\<close> writes the expired confirmation without ending the operation and its task, and no
  sequence of store operations can move the operation afterwards: it waits for its user forever, although \<open>Expire\<close>, called instead, would have ended all three.\<close>

theorem expired_Confirm_strands_operation:
  assumes "run_ok X cs NewMemoryStore" "GetOperation (store_run X cs NewMemoryStore) k = Inr v" "op_Status v = OperationWaitingUser"
    and "Confirm_wl clk (store_run X cs NewMemoryStore) (op_ConfirmationID v) n = (s1, Inl ErrConflict_wl)" "run_ok X cs' s1"
  shows "GetOperation (store_run X cs' s1) k = Inr v"
proof -
  let ?s = "store_run X cs NewMemoryStore"
  have ok: "store_ok ?s" by (rule reached [OF assms(1)])
  then have "store_ok s1" using shape_keeps_ok [OF Confirm_shape [of ?s clk "op_ConfirmationID v" n]] assms(4) by simp
  moreover have "stranded k v s1"
    using assms(2-4) by (auto simp: stranded_def GetOperation_def found_def Confirm_wl_def Let_def conf_open_def split: option.splits if_splits)
  ultimately have "stranded k v (store_run X cs' s1)" using assms(5) by (simp add: run_stranded)
  then show ?thesis by (simp add: stranded_def GetOperation_def found_def)
qed

lemma ex_expired_confirm: "\<exists>s1. Confirm_wl (ex_clk 5000) ex_s2 (ex_id 6) 1 = (s1, Inl ErrConflict_wl)"
  by (simp add: Confirm_wl_def ex_clk_def) (simp add: ex_times)

lemma ex_run2: "store_run ex (take 2 ex_calls) NewMemoryStore = ex_s2" "run_ok ex (take 2 ex_calls) NewMemoryStore"
proof -
  have e: "lookup (ws_plans NewMemoryStore) k = None" for k by (simp add: NewMemoryStore_def)
  show "store_run ex (take 2 ex_calls) NewMemoryStore = ex_s2" "run_ok ex (take 2 ex_calls) NewMemoryStore"
    by (simp_all add: ex_calls_def store_step_def ex_w1 ex_w2 call_ok_def ex_clk_past e)
qed

theorem expired_Confirm_strands_operation_witness:
  "\<exists>s1. Confirm_wl (ex_clk 5000) ex_s2 (ex_id 6) 1 = (s1, Inl ErrConflict_wl)
     \<and> GetOperation (fst (Expire_wl (ex_clk 6000) s1 (ex_id 6) 2)) (ex_id 4) = Inr (rr_Operation ex_result)"
proof -
  from ex_expired_confirm obtain s1 where c: "Confirm_wl (ex_clk 5000) ex_s2 (ex_id 6) 1 = (s1, Inl ErrConflict_wl)" by blast
  let ?call = "\<lparr>sc_clk = ex_clk 6000, sc_fresh = ex_fresh 8, sc_command = store_command.DoExpire (ex_id 6) 2\<rparr>"
  have g: "GetOperation (store_run ex (take 2 ex_calls) NewMemoryStore) (ex_id 4) = Inr (rr_Operation ex_result)" unfolding ex_run2(1) by (simp add: GetOperation_def found_def)
  have r: "run_ok ex [?call] s1" by (simp add: call_ok_def ex_clk_past) (simp add: ex_fresh_def)
  from expired_Confirm_strands_operation [OF ex_run2(2) g, of "ex_clk 5000" 1 s1 "[?call]", unfolded ex_run2(1)] c r
  have "GetOperation (fst (Expire_wl (ex_clk 6000) s1 (ex_id 6) 2)) (ex_id 4) = Inr (rr_Operation ex_result)" by (simp add: store_step_def)
  with c show ?thesis by blast
qed

text \<open>Applying another plan to a workload that exists leaves the workload under its first plan: the plan that is actually applied is only in the actual snapshot, and a
  request to destroy the workload with the applied plan is refused.\<close>

theorem reapplied_workload_keeps_first_plan:
  assumes "GetOperation s k = Inr o1" "op_Status o1 = OperationRunning" "op_Kind o1 = OperationApply" "GetWorkload s (op_WorkloadID o1) = Inr w0"
    and "completeLocked X clk s k tk [] r sm claim epoch f = (s', Inr (v, t))" "wk_PlanDigest w0 \<noteq> op_PlanDigest o1" "pn_Digest p = op_PlanDigest o1"
  shows "\<exists>w. GetWorkload s' (op_WorkloadID o1) = Inr w \<and> as_AppliedPlanDigest (wk_Actual w) = op_PlanDigest o1 \<and> wk_PlanDigest w = wk_PlanDigest w0
    \<and> \<not> workload_admits s' OperationDestroy p (op_WorkloadID o1)"
proof -
  let ?now = "to_UTC (clk 0)" and ?r = "sealed_readback X r"
  have o1: "lookup (ws_operations s) k = Some o1" "lookup (ws_workloads s) (op_WorkloadID o1) = Some w0"
    using assms(1,4) by (auto simp: GetOperation_def GetWorkload_def found_def split: option.splits)
  with assms(2,5) have "s' = add_event k ''terminal'' (op_Status v) (snd (SafeFailure [] sm)) ?now (put_task tk t (put_op k v (record_workload o1 [] ?r ?now s)))"
    by (auto simp: completeLocked_def Let_def split: option.splits if_splits)
  then have "ws_workloads s' = ws_workloads (record_workload o1 [] ?r ?now s)" by (simp add: add_event_def put_task_def put_op_def)
  with o1 have "lookup (ws_workloads s') (op_WorkloadID o1) = Some (observed_workload o1 w0 ?r ?now)" by (simp add: record_workload_def put_workload_def)
  with assms(3,6,7) show ?thesis by (simp add: GetWorkload_def found_def workload_admits_def observed_workload_def actual_of_def Let_def)
qed

end
