(* ===== verification/Ledger_Types.thy ===== *)
theory Ledger_Types
  imports Agent_Prelude
begin

text \<open>
  The data of the capability operation ledger, \<^verbatim>\<open>src/internal/capability/operation/manager.go\<close>: operations, events, their states and
  wire forms; the errors that cross it with \<^verbatim>\<open>src/internal/capability/operation/failure.go\<close>; and the constraints that
  \<^verbatim>\<open>src/migrations/agent_migrations.sql\<close> puts on its two tables.
\<close>

section \<open>Errors\<close>

datatype ledger_error = ErrNotFound_op | ErrIdempotencyConflict_op | ErrTerminal_op | ErrInvalid_op

text \<open>The errors a handler can return. \<open>Opaque\<close> is an error with a text and no further structure, \<open>Wrapped\<close> an error whose \<open>Unwrap\<close> gives another one,
  \<open>Joined\<close> one that unwraps to several, \<open>Marked\<close> one with the method \<open>Uncertain\<close> and \<open>Failure\<close> the typed failure of the package. \<open>Database\<close> is an error
  of the database driver.\<close>

datatype goerror = Opaque string | Canceled | DeadlineExceeded | ErrExplicitCancel | Ledger ledger_error | Database string
  | Wrapped string goerror | Joined string "goerror list" | Marked string bool "goerror option" | Failure string string "goerror option"

text \<open>\<open>err.Error()\<close>; the texts of the errors of the package are those of its variables.\<close>

fun ledger_text :: "ledger_error \<Rightarrow> string" where
  "ledger_text ErrNotFound_op = ''capability operation not found''"
| "ledger_text ErrIdempotencyConflict_op = ''capability operation idempotency conflict''"
| "ledger_text ErrTerminal_op = ''capability operation is terminal''"
| "ledger_text ErrInvalid_op = ''invalid capability operation''"

fun error_text :: "goerror \<Rightarrow> string" where
  "error_text (Opaque s) = s"
| "error_text Canceled = ''context canceled''"
| "error_text DeadlineExceeded = ''context deadline exceeded''"
| "error_text ErrExplicitCancel = ''capability operation explicitly cancelled''"
| "error_text (Ledger e) = ledger_text e"
| "error_text (Database s) = s"
| "error_text (Wrapped s e) = s"
| "error_text (Joined s es) = s"
| "error_text (Marked s b e) = s"
| "error_text (Failure code message cause) = message"

text \<open>The errors that \<open>errors.Is\<close> and \<open>errors.As\<close> visit, in their order: the error itself, then those it unwraps to, depth first.\<close>

fun error_chain :: "goerror \<Rightarrow> goerror list" where
  "error_chain (Wrapped s e) = Wrapped s e # error_chain e"
| "error_chain (Joined s es) = Joined s es # concat (map error_chain es)"
| "error_chain (Marked s b (Some e)) = Marked s b (Some e) # error_chain e"
| "error_chain (Failure code message (Some e)) = Failure code message (Some e) # error_chain e"
| "error_chain e = [e]"

definition errors_Is :: "goerror \<Rightarrow> goerror \<Rightarrow> bool" where
  "errors_Is e target = (target \<in> set (error_chain e))"

definition is_marked :: "goerror \<Rightarrow> bool" where
  "is_marked e = (case e of Marked _ _ _ \<Rightarrow> True | _ \<Rightarrow> False)"

definition is_failure :: "goerror \<Rightarrow> bool" where
  "is_failure e = (case e of Failure _ _ _ \<Rightarrow> True | _ \<Rightarrow> False)"

definition IsUncertain :: "goerror option \<Rightarrow> bool" where
  "IsUncertain err = (case err of None \<Rightarrow> False
     | Some e \<Rightarrow> (case find is_marked (error_chain e) of Some (Marked _ b _) \<Rightarrow> b | _ \<Rightarrow> False))"

section \<open>Typed failures\<close>

definition NewFailure :: "ext \<Rightarrow> string \<Rightarrow> string \<Rightarrow> goerror option \<Rightarrow> goerror option" where
  "NewFailure X code message cause = (let code = ToUpper X (TrimSpace code); message = TrimSpace message in
     if code = [] \<or> message = [] \<or> cause = None then cause else Some (Failure code message cause))"

definition FailureDetails :: "goerror \<Rightarrow> (string \<times> string) option" where
  "FailureDetails e = (case find is_failure (error_chain e) of
     Some (Failure code message _) \<Rightarrow> if code = [] \<or> message = [] then None else Some (code, message)
   | _ \<Rightarrow> None)"

definition KnowledgeQuotaExceededMessage :: string where "KnowledgeQuotaExceededMessage = ''Knowledge content quota is exhausted''"
definition ExtensionInstallBusyMessage :: string where "ExtensionInstallBusyMessage = ''Another extension installation is in progress''"
definition ExtensionInstallationLimitMessage :: string where "ExtensionInstallationLimitMessage = ''Extension installation capacity is exhausted''"
definition ExtensionNodeStorageQuotaMessage :: string where "ExtensionNodeStorageQuotaMessage = ''Managed Node extension storage quota is exhausted''"

definition SafeFailureDetails :: "ext \<Rightarrow> string \<Rightarrow> string \<Rightarrow> (string \<times> string) list" where
  "SafeFailureDetails X code message = (let code = ToUpper X (TrimSpace code); message = TrimSpace message in
     if code = ''RESOURCE_EXHAUSTED'' \<and> message = KnowledgeQuotaExceededMessage then [(''code'', ''knowledge_quota_exceeded'')]
     else if code = ''PRECONDITION_FAILED'' \<and> message = ExtensionInstallBusyMessage then [(''code'', ''extension_install_busy'')]
     else if code = ''RESOURCE_EXHAUSTED'' \<and> message = ExtensionInstallationLimitMessage then [(''code'', ''extension_installation_limit'')]
     else if code = ''RESOURCE_EXHAUSTED'' \<and> message = ExtensionNodeStorageQuotaMessage then [(''code'', ''extension_node_storage_quota'')]
     else [])"

section \<open>Operations and events\<close>

datatype OpState = Pending | Running | Completed | Failed | Cancelled | Uncertain | OpStateOther string

fun OpState_string :: "OpState \<Rightarrow> string" where
  "OpState_string Pending = ''pending''"
| "OpState_string Running = ''running''"
| "OpState_string Completed = ''completed''"
| "OpState_string Failed = ''failed''"
| "OpState_string Cancelled = ''cancelled''"
| "OpState_string Uncertain = ''uncertain''"
| "OpState_string (OpStateOther s) = s"

definition terminalOperationState :: "OpState \<Rightarrow> bool" where
  "terminalOperationState s \<longleftrightarrow> s = Completed \<or> s = Failed \<or> s = Cancelled \<or> s = Uncertain"

text \<open>\<open>co_ResultJSON\<close> is \<^term>\<open>None\<close> where the column is NULL and the slice nil.\<close>

record CapOperation =
  co_ID :: string
  co_CapabilityID :: string
  co_OperationName :: string
  co_State :: OpState
  co_RequestJSON :: string
  co_RootRequestDigest :: "8 word list"
  co_RequestDigest :: "8 word list"
  co_ResultJSON :: "string option"
  co_ErrorCode :: string
  co_ErrorMessage :: string
  co_ExpectedRevision :: int
  co_ActualRevision :: int
  co_CreatedAt :: gotime
  co_UpdatedAt :: gotime
  co_CompletedAt :: "gotime option"
  co_OwnerID :: string
  co_AccountGeneration :: int
  co_Sequence :: int

record CapEvent =
  ce_ID :: int
  ce_OperationID :: string
  ce_Sequence :: int
  ce_EventType :: string
  ce_EventJSON :: string
  ce_CreatedAt :: gotime

definition terminalEvent :: "CapEvent \<Rightarrow> bool" where
  "terminalEvent e \<longleftrightarrow> ce_EventType e = ''result'' \<or> ce_EventType e = ''error'' \<or> ce_EventType e = ''cancelled''"

definition isDeprovisionOperation :: "CapOperation \<Rightarrow> bool" where
  "isDeprovisionOperation v \<longleftrightarrow> co_CapabilityID v = ''agent.account.v1'' \<and> co_OperationName v = ''deprovision_account''"

definition sameRequest :: "CapOperation \<Rightarrow> CapOperation \<Rightarrow> bool" where
  "sameRequest a b \<longleftrightarrow> co_CapabilityID a = co_CapabilityID b \<and> co_OperationName a = co_OperationName b
     \<and> co_RootRequestDigest a = co_RootRequestDigest b \<and> co_OwnerID a = co_OwnerID b \<and> co_AccountGeneration a = co_AccountGeneration b"

definition redactedRequestJSON :: string where "redactedRequestJSON = ''{}''"

section \<open>The constraints of the tables\<close>

text \<open>A text value is valid UTF-8 without the zero byte; \<open>length\<close> counts its characters.\<close>

definition pg_text :: "string \<Rightarrow> bool" where
  "pg_text s \<longleftrightarrow> ValidString s \<and> char_of (0::nat) \<notin> set s"

definition char_length :: "string \<Rightarrow> nat" where
  "char_length s = length (filter (\<lambda>c. \<not> cont (of_char c)) s)"

definition MaxPayload :: nat where "MaxPayload = 1048576"

definition state_ok :: "OpState \<Rightarrow> bool" where
  "state_ok s \<longleftrightarrow> OpState_string s \<in> {''pending'', ''running'', ''completed'', ''failed'', ''cancelled'', ''uncertain''}"

definition row_ok :: "CapOperation \<Rightarrow> bool" where
  "row_ok v \<longleftrightarrow> pg_text (co_ID v)
     \<and> pg_text (co_CapabilityID v) \<and> 1 \<le> char_length (co_CapabilityID v) \<and> char_length (co_CapabilityID v) \<le> 256
     \<and> pg_text (co_OperationName v) \<and> 1 \<le> char_length (co_OperationName v) \<and> char_length (co_OperationName v) \<le> 256
     \<and> state_ok (co_State v)
     \<and> co_RequestJSON v = ''{}'' \<and> length (co_RootRequestDigest v) = 32 \<and> length (co_RequestDigest v) = 32
     \<and> (case co_ResultJSON v of None \<Rightarrow> True | Some r \<Rightarrow> length r \<le> MaxPayload)
     \<and> pg_text (co_ErrorCode v) \<and> char_length (co_ErrorCode v) \<le> 128
     \<and> pg_text (co_ErrorMessage v) \<and> char_length (co_ErrorMessage v) \<le> 4096
     \<and> 0 \<le> co_ExpectedRevision v \<and> 0 \<le> co_ActualRevision v
     \<and> pg_text (co_OwnerID v) \<and> 1 \<le> char_length (co_OwnerID v) \<and> char_length (co_OwnerID v) \<le> 256 \<and> 0 \<le> co_AccountGeneration v
     \<and> (OpState_string (co_State v) = ''completed'') = (co_ResultJSON v \<noteq> None)
     \<and> (OpState_string (co_State v) \<noteq> ''completed'' \<or> co_ErrorCode v = [] \<and> co_ErrorMessage v = [])
     \<and> (OpState_string (co_State v) \<noteq> ''failed'' \<or> 0 < char_length (co_ErrorCode v))
     \<and> (OpState_string (co_State v) \<noteq> ''uncertain'' \<or> 0 < char_length (co_ErrorCode v))"

definition event_types :: "string list" where
  "event_types = [''accepted'', ''running'', ''state_changed'', ''progress'', ''result'', ''error'', ''cancelled'']"

text \<open>The payload is \<^term>\<open>None\<close> for a nil slice, which the column refuses.\<close>

definition event_ok :: "string \<Rightarrow> string option \<Rightarrow> bool" where
  "event_ok ty payload \<longleftrightarrow> ty \<in> set event_types \<and> (case payload of None \<Rightarrow> False | Some j \<Rightarrow> length j \<le> MaxPayload)"

section \<open>Wire forms\<close>

datatype OperationState = OPERATION_STATE_UNSPECIFIED | OPERATION_STATE_PENDING | OPERATION_STATE_RUNNING | OPERATION_STATE_COMPLETED
  | OPERATION_STATE_FAILED | OPERATION_STATE_CANCELLED | OPERATION_STATE_UNCERTAIN

fun stateToProto :: "OpState \<Rightarrow> OperationState" where
  "stateToProto Pending = OPERATION_STATE_PENDING"
| "stateToProto Running = OPERATION_STATE_RUNNING"
| "stateToProto Completed = OPERATION_STATE_COMPLETED"
| "stateToProto Failed = OPERATION_STATE_FAILED"
| "stateToProto Cancelled = OPERATION_STATE_CANCELLED"
| "stateToProto Uncertain = OPERATION_STATE_UNCERTAIN"
| "stateToProto (OpStateOther _) = OPERATION_STATE_UNSPECIFIED"

datatype ErrorCode = ERROR_CODE_INVALID_ARGUMENT | ERROR_CODE_PERMISSION_DENIED | ERROR_CODE_NOT_FOUND | ERROR_CODE_CONFLICT
  | ERROR_CODE_PRECONDITION_FAILED | ERROR_CODE_NOT_READY | ERROR_CODE_UNAVAILABLE | ERROR_CODE_UNCERTAIN | ERROR_CODE_CYCLE_DETECTED
  | ERROR_CODE_RESOURCE_EXHAUSTED | ERROR_CODE_UPSTREAM_FAILED

definition error_codes :: "(string \<times> ErrorCode) list" where
  "error_codes = [(''INVALID_ARGUMENT'', ERROR_CODE_INVALID_ARGUMENT), (''PERMISSION_DENIED'', ERROR_CODE_PERMISSION_DENIED),
     (''NOT_FOUND'', ERROR_CODE_NOT_FOUND), (''CONFLICT'', ERROR_CODE_CONFLICT), (''PRECONDITION_FAILED'', ERROR_CODE_PRECONDITION_FAILED),
     (''NOT_READY'', ERROR_CODE_NOT_READY), (''UNAVAILABLE'', ERROR_CODE_UNAVAILABLE), (''UNCERTAIN'', ERROR_CODE_UNCERTAIN),
     (''CYCLE_DETECTED'', ERROR_CODE_CYCLE_DETECTED), (''RESOURCE_EXHAUSTED'', ERROR_CODE_RESOURCE_EXHAUSTED)]"

definition errorCodeToProto :: "ext \<Rightarrow> string \<Rightarrow> ErrorCode" where
  "errorCodeToProto X code = (case map_of error_codes (ToUpper X code) of Some c \<Rightarrow> c | None \<Rightarrow> ERROR_CODE_UPSTREAM_FAILED)"

record CapabilityError =
  er_Code :: ErrorCode
  er_Message :: string
  er_Details :: "(string \<times> string) list"

record GetOperationResponse =
  gr_OperationId :: string
  gr_State :: OperationState
  gr_ResultJson :: "string option"
  gr_Sequence :: int
  gr_Error :: "CapabilityError option"

definition ToProto :: "ext \<Rightarrow> CapOperation \<Rightarrow> GetOperationResponse" where
  "ToProto X v = \<lparr>gr_OperationId = co_ID v, gr_State = stateToProto (co_State v), gr_ResultJson = co_ResultJSON v, gr_Sequence = co_Sequence v,
     gr_Error = (if co_ErrorCode v \<noteq> [] then Some \<lparr>er_Code = errorCodeToProto X (co_ErrorCode v), er_Message = co_ErrorMessage v,
       er_Details = SafeFailureDetails X (co_ErrorCode v) (co_ErrorMessage v)\<rparr> else None)\<rparr>"

end
