(* ===== verification/Ledger_Redact.thy ===== *)
theory Ledger_Redact
  imports Ledger_Types
begin

text \<open>
  Redaction in \<^verbatim>\<open>src/internal/capability/operation/manager.go\<close>: the credential-shaped values of a request are remembered while its operation runs, and
  every result, event and message is cleaned of them and of members with a sensitive key before it is stored. What remains is shown to hold no sensitive key
  and, for secrets that cannot be confused with the replacement text, no secret in any string value.

  Go iterates over a map in an unspecified order; the lists of the model follow the order of the object, and the lemmas hold for any order of the secrets.
\<close>

section \<open>Replacement in a string\<close>

text \<open>\<open>strings.ReplaceAll\<close> for a non-empty old string, the only case the sources reach.\<close>

function ReplaceAll :: "string \<Rightarrow> string \<Rightarrow> string \<Rightarrow> string" where
  "ReplaceAll s old new = (case s of [] \<Rightarrow> []
     | c # r \<Rightarrow> if old \<noteq> [] \<and> starts_with s old then new @ ReplaceAll (drop (length old) s) old new
               else c # ReplaceAll r old new)"
  by pat_completeness auto
termination
  by (relation "measure (\<lambda>(s, old, new). length s)") auto

declare ReplaceAll.simps [simp del]

lemma ReplaceAll_Nil [simp]: "ReplaceAll [] old new = []"
  by (simp add: ReplaceAll.simps)

lemma ReplaceAll_Cons: "ReplaceAll (c # r) old new = (if old \<noteq> [] \<and> starts_with (c # r) old then new @ ReplaceAll (drop (length old) (c # r)) old new
    else c # ReplaceAll r old new)"
  by (simp add: ReplaceAll.simps [of "c # r"])

definition redaction :: string where "redaction = ''[redacted]''"

definition replace_secrets :: "string list \<Rightarrow> string \<Rightarrow> string" where
  "replace_secrets secrets value = foldl (\<lambda>v secret. if secret \<noteq> [] then ReplaceAll v secret redaction else v) value secrets"

section \<open>Sensitive members\<close>

definition sensitive_names :: "string list" where
  "sensitive_names = [''apikey'', ''secret'', ''secretkey'', ''secretaccesskey'', ''sessiontoken'', ''accesstoken'', ''refreshtoken'', ''password'',
     ''clientsecret'', ''webhooksecret'']"

definition sensitiveJSONKey :: "ext \<Rightarrow> string \<Rightarrow> bool" where
  "sensitiveJSONKey X key = (filter (\<lambda>c. c \<noteq> CHR ''_'' \<and> c \<noteq> CHR ''-'' \<and> c \<noteq> CHR '' '') (ToLower X (TrimSpace key)) \<in> set sensitive_names)"

fun redactJSONValue :: "ext \<Rightarrow> string list \<Rightarrow> json \<Rightarrow> json \<times> bool"
  and redact_members :: "ext \<Rightarrow> string list \<Rightarrow> (string \<times> json) list \<Rightarrow> (string \<times> json) list \<times> bool"
  and redact_elements :: "ext \<Rightarrow> string list \<Rightarrow> json list \<Rightarrow> json list \<times> bool" where
  "redactJSONValue X secrets (JObj ms) = (let (ms', changed) = redact_members X secrets ms in (JObj ms', changed))"
| "redactJSONValue X secrets (JArr vs) = (let (vs', changed) = redact_elements X secrets vs in (JArr vs', changed))"
| "redactJSONValue X secrets (JStr s) = (let t = replace_secrets secrets s in (JStr t, t \<noteq> s))"
| "redactJSONValue X secrets v = (v, False)"
| "redact_members X secrets [] = ([], False)"
| "redact_members X secrets ((key, child) # ms) =
     (let (ms', rest) = redact_members X secrets ms in
      if sensitiveJSONKey X key then (ms', True)
      else let (c, childChanged) = redactJSONValue X secrets child in ((key, c) # ms', childChanged \<or> rest))"
| "redact_elements X secrets [] = ([], False)"
| "redact_elements X secrets (v # vs) =
     (let (w, childChanged) = redactJSONValue X secrets v; (ws, rest) = redact_elements X secrets vs in (w # ws, childChanged \<or> rest))"

fun visit_secrets :: "ext \<Rightarrow> string \<Rightarrow> json \<Rightarrow> string list" where
  "visit_secrets X key (JObj ms) = concat (map (\<lambda>(k, v). visit_secrets X k v) ms)"
| "visit_secrets X key (JArr vs) = concat (map (visit_secrets X key) vs)"
| "visit_secrets X key (JStr s) = (if sensitiveJSONKey X key \<and> TrimSpace s \<noteq> [] then [s] else [])"
| "visit_secrets X key _ = []"

definition collectSecretValues :: "ext \<Rightarrow> json \<Rightarrow> string list" where
  "collectSecretValues X v = visit_secrets X [] v"

text \<open>The tail of \<open>redactJSON\<close>, with the secrets of the operation: text that is not JSON is replaced by an empty object, text that needs no change is kept as it is.\<close>

definition redact_payload :: "ext \<Rightarrow> string list \<Rightarrow> string \<Rightarrow> string option" where
  "redact_payload X secrets payload = (if payload = [] then None
     else case json_Unmarshal X payload of None \<Rightarrow> Some redactedRequestJSON
     | Some v \<Rightarrow> (let (w, changed) = redactJSONValue X secrets v in
         if \<not> changed then Some payload
         else let t = json_Marshal X w in if t = [] then Some redactedRequestJSON else Some t))"

section \<open>Occurrences in a replaced string\<close>

definition occurs :: "string \<Rightarrow> string \<Rightarrow> bool" where
  "occurs p s \<longleftrightarrow> (\<exists>a b. s = a @ p @ b)"

lemma Contains_occurs: "Contains s p \<longleftrightarrow> occurs p s"
proof (induction s)
  case (Cons c s)
  have "occurs p (c # s) \<longleftrightarrow> starts_with (c # s) p \<or> occurs p s"
  proof
    assume "occurs p (c # s)"
    then obtain a b where "c # s = a @ p @ b" by (auto simp: occurs_def)
    then show "starts_with (c # s) p \<or> occurs p s"
      by (cases a) (auto simp: occurs_def starts_with_def)
  next
    assume "starts_with (c # s) p \<or> occurs p s"
    then show "occurs p (c # s)"
      unfolding occurs_def starts_with_def
      by (metis append.left_neutral append_Cons append_take_drop_id)
  qed
  with Cons show ?case by simp
qed (simp add: occurs_def)

text \<open>A secret that cannot be confused with the replacement: it has no bracket and is not a part of the replacement.\<close>

definition distinguishable :: "string \<Rightarrow> bool" where
  "distinguishable p \<longleftrightarrow> p \<noteq> [] \<and> CHR ''['' \<notin> set p \<and> CHR '']'' \<notin> set p \<and> \<not> Contains redaction p"

lemma occurs_Cons: "occurs p (c # s) \<longleftrightarrow> starts_with (c # s) p \<or> occurs p s"
  by (simp flip: Contains_occurs)

lemma occurs_cut: "x \<notin> set p \<Longrightarrow> p \<noteq> [] \<Longrightarrow> occurs p (u @ x # w) \<Longrightarrow> occurs p u \<or> occurs p w"
proof (induction u)
  case Nil
  then have "\<not> starts_with (x # w) p" by (cases p) (auto simp: starts_with_def)
  with Nil show ?case by (simp add: occurs_Cons)
next
  case (Cons c u)
  from Cons.prems(3) consider "starts_with (c # u @ x # w) p" | "occurs p (u @ x # w)" by (auto simp: occurs_Cons)
  then show ?case
  proof cases
    case 1
    have "length p \<le> length (c # u)"
    proof (rule ccontr)
      assume "\<not> length p \<le> length (c # u)"
      then have "(c # u @ x # w) ! length (c # u) = p ! length (c # u)" using 1 by (metis nth_take not_le_imp_less starts_with_def)
      moreover have "p ! length (c # u) \<in> set p" using \<open>\<not> length p \<le> length (c # u)\<close> by (intro nth_mem) simp
      ultimately show False using Cons.prems(1) by (simp add: nth_append)
    qed
    with 1 have "starts_with (c # u) p" unfolding starts_with_def by (metis append_Cons append_Nil2 diff_is_0_eq' take0 take_append)
    then show ?thesis by (simp add: occurs_Cons)
  qed (use Cons in \<open>auto simp: occurs_Cons\<close>)
qed

lemma bracket_edges: "redaction = CHR ''['' # tl redaction" "redaction = butlast redaction @ [CHR '']'']"
  by (simp_all add: redaction_def)

text \<open>What the result starts with, as far as the first bracket, is what the string starts with.\<close>

lemma ReplaceAll_start: "CHR ''['' \<notin> set p \<Longrightarrow> starts_with (ReplaceAll s old redaction) p \<Longrightarrow> starts_with s p"
proof (induction p arbitrary: s)
  case (Cons c p)
  then obtain d r where s: "s = d # r" by (cases s) (auto simp: starts_with_def)
  with Cons.prems have "\<not> (old \<noteq> [] \<and> starts_with s old)"
    by (auto simp: ReplaceAll_Cons starts_with_def redaction_def)
  with Cons s show ?case by (auto simp: ReplaceAll_Cons starts_with_def)
qed (simp add: starts_with_def)

lemma occurs_append: "occurs p s \<Longrightarrow> occurs p (u @ s)"
  unfolding occurs_def by (metis append.assoc)

lemma occurs_redacted: "distinguishable p \<Longrightarrow> occurs p (redaction @ R) \<Longrightarrow> occurs p R"
proof -
  assume p: "distinguishable p" and "occurs p (redaction @ R)"
  then have "occurs p (butlast redaction @ CHR '']'' # R)" using bracket_edges(2) by (metis append.assoc append_Cons append_Nil)
  then have "occurs p (butlast redaction) \<or> occurs p R" using p by (auto simp: distinguishable_def dest: occurs_cut [rotated 2])
  moreover have "\<not> occurs p (butlast redaction)"
  proof
    assume "occurs p (butlast redaction)"
    then have "occurs p (butlast redaction @ [CHR '']''])" unfolding occurs_def by (metis append.assoc)
    with p show False by (simp add: distinguishable_def Contains_occurs flip: bracket_edges(2))
  qed
  ultimately show ?thesis by blast
qed

lemma ReplaceAll_hit: "old \<noteq> [] \<Longrightarrow> s \<noteq> [] \<Longrightarrow> starts_with s old \<Longrightarrow> ReplaceAll s old new = new @ ReplaceAll (drop (length old) s) old new"
  by (cases s) (simp_all add: ReplaceAll_Cons)

lemma ReplaceAll_miss: "\<not> (old \<noteq> [] \<and> starts_with (c # r) old) \<Longrightarrow> ReplaceAll (c # r) old new = c # ReplaceAll r old new"
  by (simp only: ReplaceAll_Cons if_False)

lemma ReplaceAll_new: "distinguishable p \<Longrightarrow> occurs p (ReplaceAll s old redaction) \<Longrightarrow> occurs p s"
proof (induction s rule: length_induct)
  case (1 s)
  show ?case
  proof (cases s)
    case Nil
    with 1 show ?thesis by simp
  next
    case (Cons c r)
    show ?thesis
    proof (cases "old \<noteq> [] \<and> starts_with s old")
      case True
      have hit: "ReplaceAll s old redaction = redaction @ ReplaceAll (drop (length old) s) old redaction"
        by (rule ReplaceAll_hit) (use True Cons in auto)
      have "occurs p (ReplaceAll (drop (length old) s) old redaction)"
        by (rule occurs_redacted [OF "1.prems"(1)]) (fact "1.prems"(2) [unfolded hit])
      moreover have "length (drop (length old) s) < length s" using True Cons by simp
      ultimately have "occurs p (drop (length old) s)" using "1.IH" "1.prems"(1) by blast
      then show ?thesis by (metis append_take_drop_id occurs_append)
    next
      case False
      then have eq: "ReplaceAll s old redaction = c # ReplaceAll r old redaction"
        unfolding Cons by (rule ReplaceAll_miss)
      with "1.prems"(2) consider "starts_with (ReplaceAll s old redaction) p" | "occurs p (ReplaceAll r old redaction)" by (auto simp: occurs_Cons)
      then show ?thesis
      proof cases
        case 1
        then have "starts_with s p" using \<open>distinguishable p\<close> ReplaceAll_start by (auto simp: distinguishable_def)
        with Cons show ?thesis by (simp add: occurs_Cons)
      next
        case 2
        moreover have "length r < length s" using Cons by simp
        ultimately have "occurs p r" using "1.IH" "1.prems"(1) by blast
        with Cons show ?thesis by (simp add: occurs_Cons)
      qed
    qed
  qed
qed

lemma ReplaceAll_gone: "distinguishable p \<Longrightarrow> \<not> occurs p (ReplaceAll s p redaction)"
proof (induction s rule: length_induct)
  case (1 s)
  then have p: "p \<noteq> []" "CHR ''['' \<notin> set p" by (auto simp: distinguishable_def)
  show ?case
  proof (cases s)
    case Nil
    with p show ?thesis by (simp add: occurs_def)
  next
    case (Cons c r)
    show ?thesis
    proof (cases "starts_with s p")
      case True
      moreover have "length (drop (length p) s) < length s" using p Cons by simp
      ultimately have "\<not> occurs p (ReplaceAll (drop (length p) s) p redaction)" using "1.IH" "1.prems" by blast
      moreover have "ReplaceAll s p redaction = redaction @ ReplaceAll (drop (length p) s) p redaction"
        by (rule ReplaceAll_hit) (use p True Cons in auto)
      ultimately show ?thesis using occurs_redacted [OF "1.prems"] by metis
    next
      case False
      then have "\<not> starts_with (ReplaceAll s p redaction) p" using ReplaceAll_start p by blast
      moreover have "ReplaceAll s p redaction = c # ReplaceAll r p redaction"
        using False unfolding Cons by (intro ReplaceAll_miss) blast
      moreover have "\<not> occurs p (ReplaceAll r p redaction)" using "1.IH" "1.prems" Cons by simp
      ultimately show ?thesis by (simp add: occurs_Cons)
    qed
  qed
qed

lemma replace_secrets_new: "distinguishable p \<Longrightarrow> occurs p (replace_secrets secrets s) \<Longrightarrow> occurs p s"
  unfolding replace_secrets_def
  by (induction secrets arbitrary: s) (auto split: if_splits dest: ReplaceAll_new)

lemma replace_secrets_gone: "distinguishable p \<Longrightarrow> p \<in> set secrets \<Longrightarrow> \<not> occurs p (replace_secrets secrets s)"
proof (induction secrets arbitrary: s)
  case (Cons q secrets)
  have step: "replace_secrets (q # secrets) s = replace_secrets secrets (if q \<noteq> [] then ReplaceAll s q redaction else s)"
    by (simp add: replace_secrets_def)
  show ?case
  proof (cases "p = q")
    case True
    then have "q \<noteq> []" using Cons.prems(1) by (simp add: distinguishable_def)
    with True show ?thesis unfolding step using replace_secrets_new [OF Cons.prems(1)] ReplaceAll_gone [OF Cons.prems(1)] by auto
  next
    case False
    with Cons show ?thesis unfolding step by simp
  qed
qed simp

section \<open>What a redacted value holds\<close>

fun json_keys :: "json \<Rightarrow> string list" where
  "json_keys (JObj ms) = concat (map (\<lambda>(k, v). k # json_keys v) ms)"
| "json_keys (JArr vs) = concat (map json_keys vs)"
| "json_keys _ = []"

fun json_strings :: "json \<Rightarrow> string list" where
  "json_strings (JObj ms) = concat (map (\<lambda>(k, v). json_strings v) ms)"
| "json_strings (JArr vs) = concat (map json_strings vs)"
| "json_strings (JStr s) = [s]"
| "json_strings _ = []"

definition clean :: "ext \<Rightarrow> string list \<Rightarrow> json \<Rightarrow> bool" where
  "clean X secrets v \<longleftrightarrow> list_all (\<lambda>k. \<not> sensitiveJSONKey X k) (json_keys v)
     \<and> list_all (\<lambda>s. list_all (\<lambda>p. distinguishable p \<longrightarrow> \<not> Contains s p) secrets) (json_strings v)"

lemma redact_unchanged:
  "\<not> snd (redactJSONValue X secrets v) \<Longrightarrow> fst (redactJSONValue X secrets v) = v"
  "\<not> snd (redact_members X secrets ms) \<Longrightarrow> fst (redact_members X secrets ms) = ms"
  "\<not> snd (redact_elements X secrets vs) \<Longrightarrow> fst (redact_elements X secrets vs) = vs"
  by (induction v and ms and vs rule: redactJSONValue_redact_members_redact_elements.induct)
     (auto simp: Let_def split: prod.splits if_splits)

lemma clean_parts_iff: "clean X secrets (JObj ms) \<longleftrightarrow> list_all (\<lambda>(k, v). \<not> sensitiveJSONKey X k \<and> clean X secrets v) ms"
    "clean X secrets (JArr vs) \<longleftrightarrow> list_all (clean X secrets) vs"
  by (auto simp: clean_def list_all_iff)

lemma clean_atoms: "clean X secrets JNull" "clean X secrets (JBool b)" "clean X secrets (JNum n)" "clean X secrets (JRaw r)"
  by (simp_all add: clean_def)

lemma redact_clean:
  "clean X secrets (fst (redactJSONValue X secrets v))"
  "list_all (\<lambda>(k, v). \<not> sensitiveJSONKey X k \<and> clean X secrets v) (fst (redact_members X secrets ms))"
  "list_all (clean X secrets) (fst (redact_elements X secrets vs))"
proof (induction v and ms and vs rule: redactJSONValue_redact_members_redact_elements.induct)
  case (3 X secrets s)
  then show ?case by (auto simp: clean_def Let_def list_all_iff Contains_occurs replace_secrets_gone)
qed (simp_all add: clean_parts_iff clean_atoms Let_def case_prod_unfold, (metis prod.collapse)+)

text \<open>What is stored in place of a payload.\<close>

lemma redact_payload_clean: "redact_payload X secrets payload = Some t \<Longrightarrow>
    t = redactedRequestJSON \<or> (\<exists>w. clean X secrets w \<and> (t = json_Marshal X w \<or> t = payload \<and> json_Unmarshal X payload = Some w))"
  unfolding redact_payload_def
  by (auto simp: Let_def split: if_splits option.splits prod.splits)
     (metis redact_clean(1) redact_unchanged(1) fst_conv snd_conv)+

end
