(* ===== verification/Ledger_Store.thy ===== *)
theory Ledger_Store
  imports Ledger_Redact
begin

text \<open>
  \<^verbatim>\<open>src/internal/capability/operation/manager.go\<close> over its PostgreSQL tables. The manager is a record of the two tables, the sequence behind the
  identifiers of events, the watchers, the running executions and the secrets in memory.

  The database is a service: \<open>db k\<close> says what becomes of the \<open>k\<close>-th statement of a call. An answered statement has the effect that its text asks for, unless
  a constraint of the schema refuses it, with the given text of the driver's error; a refused one has no effect; a lost one has its effect and still reports an
  error. A transaction takes effect as a whole with its commit. \<open>clk k\<close> is the \<open>k\<close>-th reading of the clock of a call. The adapter for
  \<open>database/sql\<close>, which only unit tests use, sends the same statements.

  The mutex \<open>m.mu\<close> guards the watchers, the executions and the secrets; each of its critical sections is one step. What a consumer takes from its channel is the
  step \<open>receive\<close>.
\<close>

datatype reply = Answered string | Refused string | Lost string

record watcher =
  w_ch :: "CapEvent list"
  w_done :: bool
  w_seen :: "int list"
  w_keepAfterSeal :: bool

text \<open>Watchers and the contexts of executions are objects with an identity: \<open>m_watchers\<close> and \<open>m_runtime\<close> hold their numbers, \<open>m_objects\<close> and \<open>m_causes\<close> their
  contents. The cause of a context is \<^term>\<open>None\<close> until it is canceled.\<close>

record Manager =
  m_db :: bool
  m_ops :: "(string \<times> CapOperation) list"
  m_events :: "CapEvent list"
  m_next :: int
  m_watchers :: "(string \<times> nat list) list"
  m_objects :: "watcher list"
  m_runtime :: "(string \<times> nat) list"
  m_causes :: "goerror option list"
  m_secrets :: "(string \<times> string list) list"

type_synonym 'a ms = "Manager \<times> (goerror + 'a)"

definition NewManager :: "bool \<Rightarrow> Manager" where
  "NewManager db = \<lparr>m_db = db, m_ops = [], m_events = [], m_next = 1, m_watchers = [], m_objects = [], m_runtime = [], m_causes = [], m_secrets = []\<rparr>"

definition ensure :: "Manager \<Rightarrow> goerror option" where
  "ensure m = (if m_db m then None else Some (Ledger ErrInvalid_op))"

definition ms_bind :: "'a ms \<Rightarrow> ('a \<Rightarrow> Manager \<Rightarrow> 'b ms) \<Rightarrow> 'b ms" where
  "ms_bind r f = (case r of (m, Inl e) \<Rightarrow> (m, Inl e) | (m, Inr v) \<Rightarrow> f v m)"

section \<open>Statements\<close>

text \<open>An effect is \<^term>\<open>None\<close> where a constraint refuses it.\<close>

definition statement :: "reply \<Rightarrow> (Manager \<Rightarrow> (Manager \<times> 'a) option) \<Rightarrow> Manager \<Rightarrow> 'a ms" where
  "statement r f m = (case r of Refused t \<Rightarrow> (m, Inl (Database t))
     | Answered t \<Rightarrow> (case f m of None \<Rightarrow> (m, Inl (Database t)) | Some (m', v) \<Rightarrow> (m', Inr v))
     | Lost t \<Rightarrow> (case f m of None \<Rightarrow> (m, Inl (Database t)) | Some (m', v) \<Rightarrow> (m', Inl (Database t))))"

text \<open>\<open>INSERT ... ON CONFLICT DO NOTHING\<close>; the constraints are checked before the conflict. The value is the number of rows.\<close>

definition insert_op :: "CapOperation \<Rightarrow> Manager \<Rightarrow> (Manager \<times> nat) option" where
  "insert_op v m = (if \<not> row_ok v then None
     else case lookup (m_ops m) (co_ID v) of Some _ \<Rightarrow> Some (m, 0) | None \<Rightarrow> Some (m\<lparr>m_ops := put (co_ID v) v (m_ops m)\<rparr>, 1))"

text \<open>\<open>UPDATE ... WHERE id = k AND state IN (...)\<close>\<close>

definition update_op :: "string \<Rightarrow> OpState list \<Rightarrow> (CapOperation \<Rightarrow> CapOperation) \<Rightarrow> Manager \<Rightarrow> (Manager \<times> nat) option" where
  "update_op k states f m = (case lookup (m_ops m) k of
     Some v \<Rightarrow> if co_State v \<notin> set states then Some (m, 0)
               else if row_ok (f v) then Some (m\<lparr>m_ops := put k (f v) (m_ops m)\<rparr>, 1) else None
   | None \<Rightarrow> Some (m, 0))"

text \<open>\<open>INSERT INTO events ... RETURNING id\<close>, with the foreign key.\<close>

text \<open>The statement assigns the next identifier of the sequence and makes the event visible in one step. Two concurrent inserts of the database can become visible in the other order; that is not modelled.\<close>

definition insert_event :: "string \<Rightarrow> string \<Rightarrow> string option \<Rightarrow> gotime \<Rightarrow> Manager \<Rightarrow> (Manager \<times> CapEvent) option" where
  "insert_event k ty payload now m = (if lookup (m_ops m) k = None \<or> \<not> event_ok ty payload then None
     else let e = \<lparr>ce_ID = m_next m, ce_OperationID = k, ce_Sequence = m_next m, ce_EventType = ty,
                   ce_EventJSON = (case payload of Some j \<Rightarrow> j | None \<Rightarrow> []), ce_CreatedAt = now\<rparr>
          in Some (m\<lparr>m_events := m_events m @ [e], m_next := m_next m + 1\<rparr>, e))"

definition max_event :: "string \<Rightarrow> CapEvent list \<Rightarrow> int" where
  "max_event k es = foldr (\<lambda>e n. if ce_OperationID e = k then max (ce_ID e) n else n) es 0"

definition operationQuery :: "string \<Rightarrow> Manager \<Rightarrow> CapOperation option" where
  "operationQuery k m = map_option (\<lambda>v. v\<lparr>co_Sequence := max_event k (m_events m)\<rparr>) (lookup (m_ops m) k)"

definition getWithRow :: "reply \<Rightarrow> CapOperation option \<Rightarrow> goerror + CapOperation" where
  "getWithRow r v = (case r of Refused t \<Rightarrow> Inl (Database t) | Lost t \<Rightarrow> Inl (Database t)
     | Answered _ \<Rightarrow> (case v of None \<Rightarrow> Inl (Ledger ErrNotFound_op)
         | Some w \<Rightarrow> Inr (w\<lparr>co_CompletedAt := map_option to_UTC (co_CompletedAt w)\<rparr>)))"

definition Get_op :: "reply \<Rightarrow> Manager \<Rightarrow> string \<Rightarrow> goerror + CapOperation" where
  "Get_op r m k = (case ensure m of Some e \<Rightarrow> Inl e
     | None \<Rightarrow> if TrimSpace k = [] then Inl (Ledger ErrInvalid_op) else getWithRow r (operationQuery k m))"

definition getEvents :: "reply \<Rightarrow> Manager \<Rightarrow> string \<Rightarrow> int \<Rightarrow> goerror + CapEvent list" where
  "getEvents r m k after = (case r of Answered _ \<Rightarrow> Inr (sort_key ce_ID (filter (\<lambda>e. ce_OperationID e = k \<and> after < ce_ID e) (m_events m)))
     | Refused t \<Rightarrow> Inl (Database t) | Lost t \<Rightarrow> Inl (Database t))"

section \<open>Secrets in memory\<close>

definition secrets_of :: "Manager \<Rightarrow> string \<Rightarrow> string list" where
  "secrets_of m k = (case lookup (m_secrets m) k of None \<Rightarrow> [] | Some s \<Rightarrow> s)"

fun add_new :: "string list \<Rightarrow> string list \<Rightarrow> string list" where
  "add_new known [] = known"
| "add_new known (s # ss) = (if s \<in> set known then add_new known ss else add_new (known @ [s]) ss)"

definition rememberSecrets :: "ext \<Rightarrow> Manager \<Rightarrow> string \<Rightarrow> string \<Rightarrow> Manager" where
  "rememberSecrets X m k request = (if TrimSpace k = [] then m
     else case json_Unmarshal X request of None \<Rightarrow> m
     | Some v \<Rightarrow> let values = collectSecretValues X v in
         if values = [] then m else m\<lparr>m_secrets := put k (add_new (secrets_of m k) values) (m_secrets m)\<rparr>)"

definition clearSecrets :: "Manager \<Rightarrow> string \<Rightarrow> Manager" where
  "clearSecrets m k = m\<lparr>m_secrets := del k (m_secrets m)\<rparr>"

definition redactString :: "Manager \<Rightarrow> string \<Rightarrow> string \<Rightarrow> string" where
  "redactString m k v = (if v = [] then [] else replace_secrets (secrets_of m k) v)"

definition redactJSON :: "ext \<Rightarrow> Manager \<Rightarrow> string \<Rightarrow> string \<Rightarrow> string option" where
  "redactJSON X m k payload = redact_payload X (secrets_of m k) payload"

fun failure_root :: "goerror \<Rightarrow> goerror" where
  "failure_root (Failure code message (Some e)) = failure_root e"
| "failure_root e = e"

definition handlerErrorDetail :: "Manager \<Rightarrow> string \<Rightarrow> goerror option \<Rightarrow> string" where
  "handlerErrorDetail m k err = (case err of None \<Rightarrow> [] | Some e \<Rightarrow> redactString m k (error_text (failure_root e)))"

section \<open>Watchers\<close>

definition watcher_capacity :: nat where "watcher_capacity = 32"

definition sendWatcherEventLocked :: "CapEvent \<Rightarrow> watcher \<Rightarrow> watcher \<times> bool" where
  "sendWatcherEventLocked e w = (if w_done w then (w, False) else if ce_Sequence e \<in> set (w_seen w) then (w, True)
     else if length (w_ch w) < watcher_capacity then (w\<lparr>w_ch := w_ch w @ [e], w_seen := ce_Sequence e # w_seen w\<rparr>, True) else (w, False))"

definition closeWatcherLocked :: "watcher \<Rightarrow> watcher" where
  "closeWatcherLocked w = w\<lparr>w_done := True\<rparr>"

text \<open>The loop that makes room for a terminal event: receive one buffered event, send again. \<^term>\<open>None\<close> is a receive from an empty channel, which blocks for ever
  because the loop holds the mutex that every sender needs.\<close>

function evict :: "CapEvent \<Rightarrow> watcher \<Rightarrow> watcher option" where
  "evict e w = (case w_ch w of [] \<Rightarrow> None
     | _ # r \<Rightarrow> (case sendWatcherEventLocked e (w\<lparr>w_ch := r\<rparr>) of (w', sent) \<Rightarrow> if sent then Some w' else evict e (w\<lparr>w_ch := r\<rparr>)))"
  by pat_completeness auto
termination
  by (relation "measure (\<lambda>(e, w). length (w_ch w))") auto

declare evict.simps [simp del]

text \<open>What \<open>publishEvent\<close> does to one watcher; \<open>taken\<close> is the number of events the consumer takes between the refused send and the loop.\<close>

definition publish_to :: "nat \<Rightarrow> CapEvent \<Rightarrow> watcher \<Rightarrow> watcher option" where
  "publish_to taken e w = (case sendWatcherEventLocked e w of (w', sent) \<Rightarrow>
     if \<not> terminalEvent e then Some w'
     else if sent \<or> w_done w' then Some (closeWatcherLocked w')
     else map_option closeWatcherLocked (evict e (w'\<lparr>w_ch := drop taken (w_ch w')\<rparr>)))"

definition watcher_set :: "Manager \<Rightarrow> string \<Rightarrow> nat list" where
  "watcher_set m k = (case lookup (m_watchers m) k of None \<Rightarrow> [] | Some ws \<Rightarrow> ws)"

definition put_set :: "string \<Rightarrow> nat list \<Rightarrow> Manager \<Rightarrow> Manager" where
  "put_set k ws m = m\<lparr>m_watchers := (if ws = [] then del k (m_watchers m) else put k ws (m_watchers m))\<rparr>"

definition on_object :: "nat \<Rightarrow> (watcher \<Rightarrow> watcher) \<Rightarrow> watcher list \<Rightarrow> watcher list" where
  "on_object i f ws = (if i < length ws then ws[i := f (ws ! i)] else ws)"

text \<open>With no interference by consumers inside the critical section, the loop never blocks: see \<open>publish_to_returns\<close>.\<close>

definition published :: "CapEvent \<Rightarrow> watcher \<Rightarrow> watcher" where
  "published e w = (case publish_to 0 e w of Some w' \<Rightarrow> w' | None \<Rightarrow> w)"

definition publishEvent :: "CapEvent \<Rightarrow> Manager \<Rightarrow> Manager" where
  "publishEvent e m = (let k = ce_OperationID e; ws = watcher_set m k in
     put_set k (if terminalEvent e then [] else ws) (m\<lparr>m_objects := fold (\<lambda>i. on_object i (published e)) ws (m_objects m)\<rparr>))"

definition emitEvent :: "ext \<Rightarrow> reply \<Rightarrow> gotime \<Rightarrow> string \<Rightarrow> string \<Rightarrow> string \<Rightarrow> Manager \<Rightarrow> unit ms" where
  "emitEvent X r now k ty data m = (case ensure m of Some e \<Rightarrow> (m, Inl e)
     | None \<Rightarrow> (case statement r (insert_event k ty (redactJSON X m k data) (to_UTC now)) m of
         (m', Inl e) \<Rightarrow> (m', Inl (Wrapped (''insert operation event: '' @ error_text e) e))
       | (m', Inr e) \<Rightarrow> (publishEvent e m', Inr ())))"

end
