(* ===== verification/Ledger_Manager.thy ===== *)
theory Ledger_Manager
  imports Ledger_Store
begin

text \<open>
  The operations of the ledger, \<^verbatim>\<open>src/internal/capability/operation/manager.go\<close>: admission, the terminal transitions, cancellation, reopening, recovery
  after a restart, execution of a handler, and watching.
\<close>

section \<open>Admission\<close>

text \<open>The guards are functions that the wiring installs; \<^term>\<open>None\<close> is a manager without one.\<close>

type_synonym guard = "(CapOperation \<Rightarrow> goerror option) option"

definition checkAdmission :: "guard \<Rightarrow> CapOperation \<Rightarrow> goerror option" where
  "checkAdmission g v = (case g of None \<Rightarrow> None | Some f \<Rightarrow> f v)"

definition acquireExecution :: "guard \<Rightarrow> CapOperation \<Rightarrow> goerror option" where
  "acquireExecution g v = (case g of None \<Rightarrow> None | Some f \<Rightarrow> f v)"

definition accepted_event :: "string" where
  "accepted_event = ''{'' @ [CHR 0x22] @ ''state'' @ [CHR 0x22] @ '':'' @ [CHR 0x22] @ ''pending'' @ [CHR 0x22] @ ''}''"

definition wrap :: "string \<Rightarrow> goerror \<Rightarrow> goerror" where
  "wrap s e = Wrapped (s @ '': '' @ error_text e) e"

text \<open>A control statement of a transaction: begin, lock.\<close>

definition plain :: "reply \<Rightarrow> goerror option" where
  "plain r = (case r of Answered _ \<Rightarrow> None | Refused t \<Rightarrow> Some (Database t) | Lost t \<Rightarrow> Some (Database t))"

text \<open>The end of a transaction that left \<open>m'\<close> from \<open>m\<close>: a refused commit undoes it, a lost one keeps it.\<close>

definition commit :: "reply \<Rightarrow> string \<Rightarrow> Manager \<Rightarrow> Manager \<Rightarrow> 'a \<Rightarrow> 'a ms" where
  "commit r what m m' v = (case r of Answered _ \<Rightarrow> (m', Inr v) | Refused t \<Rightarrow> (m, Inl (wrap what (Database t))) | Lost t \<Rightarrow> (m', Inl (wrap what (Database t))))"

text \<open>A statement inside a transaction: with an error the deferred rollback leaves nothing.\<close>

definition in_tx :: "reply \<Rightarrow> string \<Rightarrow> (Manager \<Rightarrow> (Manager \<times> 'a) option) \<Rightarrow> Manager \<Rightarrow> Manager \<Rightarrow> ('a \<Rightarrow> Manager \<Rightarrow> 'b ms) \<Rightarrow> 'b ms" where
  "in_tx r what f m m1 g = (case statement r f m1 of (_, Inl e) \<Rightarrow> (m, Inl (wrap what e)) | (m2, Inr v) \<Rightarrow> g v m2)"

definition inserted_row :: "gotime \<Rightarrow> CapOperation \<Rightarrow> CapOperation" where
  "inserted_row now v = v\<lparr>co_State := Pending, co_ResultJSON := None, co_ErrorCode := [], co_ErrorMessage := [], co_CreatedAt := now, co_UpdatedAt := now,
     co_CompletedAt := None, co_Sequence := 0\<rparr>"

definition startPostgres :: "ext \<Rightarrow> (nat \<Rightarrow> reply) \<Rightarrow> gotime \<Rightarrow> guard \<Rightarrow> Manager \<Rightarrow> CapOperation \<Rightarrow> string \<Rightarrow> (CapOperation \<times> bool) ms" where
  "startPostgres X db clk g m v rawRequest = (let now = to_UTC clk in
     case plain (db 0) of Some e \<Rightarrow> (m, Inl (wrap ''begin capability operation admission'' e))
   | None \<Rightarrow> (case plain (db 1) of Some e \<Rightarrow> (m, Inl (wrap ''lock account admission fence'' e))
   | None \<Rightarrow> (case checkAdmission g v of Some e \<Rightarrow> (m, Inl e)
   | None \<Rightarrow> in_tx (db 2) ''insert capability operation'' (insert_op (inserted_row now v)) m m (\<lambda>rows m1.
     if rows = 0 then (case getWithRow (db 3) (operationQuery (co_ID v) m1) of Inl e \<Rightarrow> (m, Inl e)
       | Inr existing \<Rightarrow> if \<not> sameRequest existing v then (m, Inl (Ledger ErrIdempotencyConflict_op)) else (m, Inr (existing, False)))
     else in_tx (db 3) ''persist accepted event'' (insert_event (co_ID v) ''accepted'' (Some accepted_event) now) m m1 (\<lambda>e m2.
       ms_bind (commit (db 4) ''commit capability operation admission'' m m2 ()) (\<lambda>_ m3.
         (publishEvent e (rememberSecrets X m3 (co_ID v) rawRequest),
          Inr (v\<lparr>co_State := Pending, co_CreatedAt := now, co_UpdatedAt := now, co_Sequence := ce_ID e\<rparr>, True))))))))"

definition with_digests :: "ext \<Rightarrow> CapOperation \<Rightarrow> CapOperation" where
  "with_digests X v =
    (let d = (if co_RequestDigest v = [] then Sum256 X (co_RequestJSON v) else co_RequestDigest v);
         root = (if co_RootRequestDigest v = [] then (if length d = 32 then Sum256 X (co_RequestJSON v) else d) else co_RootRequestDigest v)
     in v\<lparr>co_RequestDigest := d, co_RootRequestDigest := root, co_RequestJSON := redactedRequestJSON\<rparr>)"

definition StartOrGet :: "ext \<Rightarrow> (nat \<Rightarrow> reply) \<Rightarrow> gotime \<Rightarrow> guard \<Rightarrow> Manager \<Rightarrow> CapOperation option \<Rightarrow> (CapOperation \<times> bool) ms" where
  "StartOrGet X db clk g m request = (case ensure m of Some e \<Rightarrow> (m, Inl e)
     | None \<Rightarrow> (case request of None \<Rightarrow> (m, Inl (Ledger ErrInvalid_op))
     | Some v \<Rightarrow> if TrimSpace (co_ID v) = [] \<or> TrimSpace (co_CapabilityID v) = [] \<or> TrimSpace (co_OperationName v) = []
         then (m, Inl (Ledger ErrInvalid_op))
         else startPostgres X db clk g m (with_digests X v) (co_RequestJSON v)))"

definition Start :: "ext \<Rightarrow> (nat \<Rightarrow> reply) \<Rightarrow> gotime \<Rightarrow> guard \<Rightarrow> Manager \<Rightarrow> CapOperation option \<Rightarrow> unit ms" where
  "Start X db clk g m request = ms_bind (StartOrGet X db clk g m request) (\<lambda>_ m'. (m', Inr ()))"

section \<open>Transitions\<close>

definition object_text :: "ext \<Rightarrow> (string \<times> string) list \<Rightarrow> string" where
  "object_text X ms = json_Marshal X (JObj (map (\<lambda>(k, v). (k, JStr v)) ms))"

text \<open>No row was updated: the state decides between a repeated call and a conflict.\<close>

definition unchanged :: "reply \<Rightarrow> string \<Rightarrow> OpState \<Rightarrow> Manager \<Rightarrow> unit ms" where
  "unchanged r k wanted m = (case Get_op r m k of Inl e \<Rightarrow> (m, Inl e)
     | Inr v \<Rightarrow> if co_State v = wanted then (m, Inr ()) else (m, Inl (Ledger ErrTerminal_op)))"

definition UpdateState :: "ext \<Rightarrow> (nat \<Rightarrow> reply) \<Rightarrow> (nat \<Rightarrow> gotime) \<Rightarrow> Manager \<Rightarrow> string \<Rightarrow> OpState \<Rightarrow> unit ms" where
  "UpdateState X db clk m k newState = (if newState \<noteq> Pending \<and> newState \<noteq> Running then (m, Inl (Ledger ErrInvalid_op))
     else case ensure m of Some e \<Rightarrow> (m, Inl e)
     | None \<Rightarrow> ms_bind (statement (db 0) (update_op k [Pending] (\<lambda>v. v\<lparr>co_State := newState, co_UpdatedAt := to_UTC (clk 0)\<rparr>)) m) (\<lambda>rows m1.
         if rows = 0 then unchanged (db 1) k newState m1
         else emitEvent X (db 1) (clk 1) k ''state_changed'' (object_text X [(''new_state'', OpState_string newState)]) m1))"

definition claimRunning :: "ext \<Rightarrow> (nat \<Rightarrow> reply) \<Rightarrow> (nat \<Rightarrow> gotime) \<Rightarrow> Manager \<Rightarrow> string \<Rightarrow> unit ms" where
  "claimRunning X db clk m k = (case ensure m of Some e \<Rightarrow> (m, Inl e)
     | None \<Rightarrow> ms_bind (statement (db 0) (update_op k [Pending] (\<lambda>v. v\<lparr>co_State := Running, co_UpdatedAt := to_UTC (clk 0)\<rparr>)) m) (\<lambda>rows m1.
         if rows = 0 then unchanged (db 1) k Running m1
         else emitEvent X (db 1) (clk 1) k ''running'' (object_text X [(''state'', OpState_string Running)]) m1))"

definition terminal_event :: "ext \<Rightarrow> OpState \<Rightarrow> string option \<Rightarrow> string \<Rightarrow> string \<Rightarrow> string \<times> string" where
  "terminal_event X st result code message =
    (if st = Failed \<or> st = Uncertain then (''error'', object_text X [(''error_code'', code), (''error_message'', message)])
     else if st = Cancelled then (''cancelled'', object_text X [(''reason'', message)])
     else (''result'', case result of None \<Rightarrow> [] | Some r \<Rightarrow> r))"

definition terminal_op :: "ext \<Rightarrow> (nat \<Rightarrow> reply) \<Rightarrow> (nat \<Rightarrow> gotime) \<Rightarrow> Manager \<Rightarrow> string \<Rightarrow> OpState \<Rightarrow> string \<Rightarrow> string \<Rightarrow> string \<Rightarrow> unit ms" where
  "terminal_op X db clk m k st result0 code message0 = (case ensure m of Some e \<Rightarrow> (m, Inl e)
     | None \<Rightarrow> let result = redactJSON X m k result0; message = redactString m k message0; now = to_UTC (clk 0);
                  allowed = (if st = Failed then [Pending, Running, Uncertain] else [Pending, Running])
       in ms_bind (statement (db 0) (update_op k allowed (\<lambda>v. v\<lparr>co_State := st, co_ResultJSON := result, co_ErrorCode := code,
              co_ErrorMessage := message, co_UpdatedAt := now, co_CompletedAt := Some now\<rparr>)) m) (\<lambda>rows m1.
          if rows = 0 then unchanged (db 1) k st m1
          else case terminal_event X st result code message of (ty, payload) \<Rightarrow>
            ms_bind (emitEvent X (db 1) (clk 1) k ty payload m1) (\<lambda>_ m2.
              (if terminalOperationState st then clearSecrets m2 k else m2, Inr ()))))"

definition Complete_op :: "ext \<Rightarrow> (nat \<Rightarrow> reply) \<Rightarrow> (nat \<Rightarrow> gotime) \<Rightarrow> Manager \<Rightarrow> string \<Rightarrow> string \<Rightarrow> unit ms" where
  "Complete_op X db clk m k result = terminal_op X db clk m k Completed result [] []"

definition Fail_op :: "ext \<Rightarrow> (nat \<Rightarrow> reply) \<Rightarrow> (nat \<Rightarrow> gotime) \<Rightarrow> Manager \<Rightarrow> string \<Rightarrow> string \<Rightarrow> string \<Rightarrow> unit ms" where
  "Fail_op X db clk m k code message = terminal_op X db clk m k Failed [] code message"

definition markUncertain :: "ext \<Rightarrow> (nat \<Rightarrow> reply) \<Rightarrow> (nat \<Rightarrow> gotime) \<Rightarrow> Manager \<Rightarrow> string \<Rightarrow> string \<Rightarrow> unit ms" where
  "markUncertain X db clk m k reason = terminal_op X db clk m k Uncertain [] ''UNCERTAIN'' reason"

section \<open>Recovery after a restart\<close>

definition interrupted :: "Manager \<Rightarrow> string list" where
  "interrupted m = map fst (sort_key (\<lambda>(k, v). (instant (co_UpdatedAt v), k)) (filter (\<lambda>(k, v). co_State v \<in> {Pending, Running}) (m_ops m)))"

definition interrupted_reason :: string where
  "interrupted_reason = ''operation interrupted by Agent restart; external outcome requires reconciliation''"

text \<open>\<open>dbs i\<close> and \<open>clks i\<close> are the replies and the readings for the \<open>i\<close>-th interrupted operation.\<close>

fun fence_all :: "ext \<Rightarrow> (nat \<Rightarrow> nat \<Rightarrow> reply) \<Rightarrow> (nat \<Rightarrow> nat \<Rightarrow> gotime) \<Rightarrow> nat \<Rightarrow> string list \<Rightarrow> Manager \<Rightarrow> unit ms" where
  "fence_all X dbs clks i [] m = (m, Inr ())"
| "fence_all X dbs clks i (k # ks) m = (case markUncertain X (dbs i) (clks i) m k interrupted_reason of
     (m', Inl e) \<Rightarrow> if \<not> errors_Is e (Ledger ErrTerminal_op) then (m', Inl (wrap (''fence interrupted capability operation '' @ k) e))
                   else fence_all X dbs clks (Suc i) ks m'
   | (m', Inr _) \<Rightarrow> fence_all X dbs clks (Suc i) ks m')"

definition Recover_op :: "ext \<Rightarrow> reply \<Rightarrow> (nat \<Rightarrow> nat \<Rightarrow> reply) \<Rightarrow> (nat \<Rightarrow> nat \<Rightarrow> gotime) \<Rightarrow> Manager \<Rightarrow> unit ms" where
  "Recover_op X r dbs clks m = (case ensure m of Some e \<Rightarrow> (m, Inl e)
     | None \<Rightarrow> (case plain r of Some e \<Rightarrow> (m, Inl (wrap ''list interrupted capability operations'' e))
     | None \<Rightarrow> fence_all X dbs clks 0 (interrupted m) m))"

section \<open>Cancellation\<close>

text \<open>What ends the wait for a running handler: its own error, or the context of the caller. \<open>others\<close> is what the other goroutines do in the meantime.\<close>

datatype waited = HandlerDone "goerror option" | CallerDone goerror

definition cancel_context :: "nat \<Rightarrow> goerror \<Rightarrow> Manager \<Rightarrow> Manager" where
  "cancel_context i cause m = m\<lparr>m_causes := (if i < length (m_causes m) \<and> m_causes m ! i = None then (m_causes m)[i := Some cause] else m_causes m)\<rparr>"

definition await_handler :: "waited \<Rightarrow> (Manager \<Rightarrow> Manager) \<Rightarrow> Manager \<Rightarrow> string \<Rightarrow> unit ms" where
  "await_handler w others m k = (case lookup (m_runtime m) k of None \<Rightarrow> (others m, Inr ())
     | Some i \<Rightarrow> let m1 = others (cancel_context i ErrExplicitCancel m) in
         (case w of CallerDone e \<Rightarrow> (m1, Inl e)
          | HandlerDone None \<Rightarrow> (m1, Inr ())
          | HandlerDone (Some e) \<Rightarrow> if \<not> errors_Is e Canceled \<and> \<not> errors_Is e ErrExplicitCancel then (m1, Inl e) else (m1, Inr ())))"

definition cancel_row :: "ext \<Rightarrow> (nat \<Rightarrow> reply) \<Rightarrow> (nat \<Rightarrow> gotime) \<Rightarrow> string \<Rightarrow> string \<Rightarrow> Manager \<Rightarrow> unit ms" where
  "cancel_row X db clk k reason0 m = (let reason = redactString m k reason0; now = to_UTC (clk 0) in
     ms_bind (statement (db 1) (update_op k [Pending, Running] (\<lambda>v. v\<lparr>co_State := Cancelled, co_ErrorMessage := reason, co_UpdatedAt := now,
       co_CompletedAt := Some now\<rparr>)) m) (\<lambda>rows m1.
       if rows = 0 then unchanged (db 2) k Cancelled m1
       else ms_bind (emitEvent X (db 2) (clk 1) k ''cancelled'' (object_text X [(''reason'', reason)]) m1) (\<lambda>_ m2. (clearSecrets m2 k, Inr ()))))"

text \<open>Other callers, \<open>others\<close>, run while \<open>Cancel\<close> waits for the handler; the first read of the row and the lookup of the running execution are one step.\<close>

definition Cancel_op :: "ext \<Rightarrow> (nat \<Rightarrow> reply) \<Rightarrow> (nat \<Rightarrow> gotime) \<Rightarrow> waited \<Rightarrow> (Manager \<Rightarrow> Manager) \<Rightarrow> Manager \<Rightarrow> string \<Rightarrow> string \<Rightarrow> unit ms" where
  "Cancel_op X db clk w others m k reason = (case ensure m of Some e \<Rightarrow> (m, Inl e)
     | None \<Rightarrow> (case Get_op (db 0) m k of Inl e \<Rightarrow> (m, Inl e)
     | Inr v \<Rightarrow> if co_State v = Cancelled then (m, Inr ())
         else if co_State v \<noteq> Pending \<and> co_State v \<noteq> Running then (m, Inl (Ledger ErrTerminal_op))
         else ms_bind (await_handler w others m k) (\<lambda>_ m1. cancel_row X db clk k reason m1)))"

section \<open>Reopening\<close>

definition reopenReplayExisting :: "reply \<Rightarrow> Manager \<Rightarrow> string \<Rightarrow> (CapOperation \<times> bool) ms" where
  "reopenReplayExisting r m k = (case Get_op r m k of Inl e \<Rightarrow> (m, Inl e)
     | Inr v \<Rightarrow> if co_State v = Pending \<or> co_State v = Running then (m, Inr (v, False)) else (m, Inl (Ledger ErrTerminal_op)))"

definition reopened_row :: "gotime \<Rightarrow> CapOperation \<Rightarrow> CapOperation" where
  "reopened_row now v = v\<lparr>co_State := Pending, co_ResultJSON := None, co_ErrorCode := [], co_ErrorMessage := [], co_UpdatedAt := now, co_CompletedAt := None\<rparr>"

definition replay_event :: "ext \<Rightarrow> string" where
  "replay_event X = json_Marshal X (JObj [(''replay'', JBool True), (''state'', JStr (OpState_string Pending))])"

definition reopenReplayPostgres :: "ext \<Rightarrow> (nat \<Rightarrow> reply) \<Rightarrow> gotime \<Rightarrow> Manager \<Rightarrow> string \<Rightarrow> (CapOperation \<times> bool) ms" where
  "reopenReplayPostgres X db clk m k = (let now = to_UTC clk in
     case plain (db 0) of Some e \<Rightarrow> (m, Inl (wrap ''begin capability replay'' e))
   | None \<Rightarrow> in_tx (db 1) ''reopen capability operation'' (update_op k [Failed, Uncertain] (reopened_row now)) m m (\<lambda>rows m1.
     if rows = 0 then ms_bind (commit (db 2) ''commit capability replay no-op'' m m1 ()) (\<lambda>_ m2. reopenReplayExisting (db 3) m2 k)
     else in_tx (db 2) ''persist capability replay event'' (insert_event k ''accepted'' (Some (replay_event X)) now) m m1 (\<lambda>e m2.
       case getWithRow (db 3) (operationQuery k m2) of Inl err \<Rightarrow> (m, Inl (wrap ''read reopened capability operation'' err))
       | Inr v \<Rightarrow> ms_bind (commit (db 4) ''commit capability replay'' m m2 ()) (\<lambda>_ m3.
           (publishEvent e m3, Inr (if co_Sequence v < ce_ID e then v\<lparr>co_Sequence := ce_ID e\<rparr> else v, True))))))"

definition ReopenForReplay :: "ext \<Rightarrow> (nat \<Rightarrow> reply) \<Rightarrow> gotime \<Rightarrow> Manager \<Rightarrow> string \<Rightarrow> (CapOperation \<times> bool) ms" where
  "ReopenForReplay X db clk m k = (case ensure m of Some e \<Rightarrow> (m, Inl e)
     | None \<Rightarrow> if TrimSpace k = [] then (m, Inl (Ledger ErrInvalid_op)) else reopenReplayPostgres X db clk m k)"

section \<open>Reconciliation and progress\<close>

definition reconcile_reason :: string where
  "reconcile_reason = ''operation outcome requires external reconciliation; side effect was not retried''"

definition Reconcile_op :: "ext \<Rightarrow> (nat \<Rightarrow> reply) \<Rightarrow> (nat \<Rightarrow> gotime) \<Rightarrow> Manager \<Rightarrow> string \<Rightarrow> CapOperation ms" where
  "Reconcile_op X db clk m k = (case Get_op (db 0) m k of Inl e \<Rightarrow> (m, Inl e)
     | Inr v \<Rightarrow> if co_State v \<noteq> Uncertain then (m, Inr v)
         else (case Fail_op X (\<lambda>i. db (i + 1)) clk m k ''UNCERTAIN'' reconcile_reason of
             (m', Inl e) \<Rightarrow> if \<not> errors_Is e (Ledger ErrTerminal_op) then (m', Inl e) else (m', Get_op (db 3) m' k)
           | (m', Inr _) \<Rightarrow> (m', Get_op (db 3) m' k)))"

definition Progress_op :: "ext \<Rightarrow> (nat \<Rightarrow> reply) \<Rightarrow> gotime \<Rightarrow> Manager \<Rightarrow> string \<Rightarrow> string \<Rightarrow> unit ms" where
  "Progress_op X db clk m k eventJSON = (case ensure m of Some e \<Rightarrow> (m, Inl e)
     | None \<Rightarrow> let data = (case redactJSON X m k eventJSON of None \<Rightarrow> [] | Some d \<Rightarrow> d) in
       if TrimSpace k = [] \<or> data = [] \<or> length data > MaxPayload \<or> \<not> json_Valid X data then (m, Inl (Ledger ErrInvalid_op))
       else (case Get_op (db 0) m k of Inl e \<Rightarrow> (m, Inl e)
         | Inr v \<Rightarrow> if co_State v \<noteq> Pending \<and> co_State v \<noteq> Running then (m, Inl (Ledger ErrTerminal_op))
             else emitEvent X (db 1) clk k ''progress'' data m))"

end
