(* ===== verification/Ledger_Execute.thy ===== *)
theory Ledger_Execute
  imports Ledger_Manager
begin

text \<open>
  Execution of a handler and the watchers of an operation, \<^verbatim>\<open>src/internal/capability/operation/manager.go\<close>. Both run in goroutines of their own: before the
  \<open>i\<close>-th access to the manager the other goroutines may have changed it by \<open>xe_others i\<close>, and \<open>xe_db i\<close> and \<open>xe_clk i\<close> are the replies of the database and the readings of
  the clock for it.
\<close>

section \<open>Execution\<close>

record exec_env =
  xe_others :: "nat \<Rightarrow> Manager \<Rightarrow> Manager"
  xe_db :: "nat \<Rightarrow> nat \<Rightarrow> reply"
  xe_clk :: "nat \<Rightarrow> nat \<Rightarrow> gotime"

text \<open>An execution leaves the manager, whether the handler has run, and the error that a waiting \<open>Cancel\<close> receives.\<close>

record execution =
  xr_manager :: Manager
  xr_ran :: bool
  xr_error :: "goerror option"

type_synonym op_handler = "CapOperation \<Rightarrow> goerror + string"

definition outcome :: "Manager \<Rightarrow> bool \<Rightarrow> goerror option \<Rightarrow> execution" where
  "outcome m called err = \<lparr>xr_manager = m, xr_ran = called, xr_error = err\<rparr>"

definition cause_of :: "Manager \<Rightarrow> nat \<Rightarrow> goerror option" where
  "cause_of m i = (if i < length (m_causes m) then m_causes m ! i else None)"

definition explicitly_cancelled :: "Manager \<Rightarrow> nat \<Rightarrow> bool" where
  "explicitly_cancelled m i = (case cause_of m i of None \<Rightarrow> False | Some e \<Rightarrow> errors_Is e ErrExplicitCancel)"

text \<open>\<open>ctx.Err()\<close> of a context whose cause is known: a deadline of the parent, or a cancellation.\<close>

definition context_error :: "Manager \<Rightarrow> nat \<Rightarrow> goerror option" where
  "context_error m i = (case cause_of m i of None \<Rightarrow> None | Some e \<Rightarrow> Some (if e = DeadlineExceeded then DeadlineExceeded else Canceled))"

definition begin_runtime :: "string \<Rightarrow> Manager \<Rightarrow> Manager" where
  "begin_runtime k m = m\<lparr>m_runtime := put k (length (m_causes m)) (m_runtime m), m_causes := m_causes m @ [None]\<rparr>"

definition end_runtime :: "string \<Rightarrow> nat \<Rightarrow> Manager \<Rightarrow> Manager" where
  "end_runtime k i m = (cancel_context i Canceled m)\<lparr>m_runtime := del k (m_runtime m)\<rparr>"

text \<open>What is recorded for the error of a handler that was not canceled.\<close>

definition record_error :: "ext \<Rightarrow> exec_env \<Rightarrow> string \<Rightarrow> nat \<Rightarrow> goerror \<Rightarrow> Manager \<Rightarrow> Manager" where
  "record_error X E k i e m =
    (if errors_Is e Canceled \<or> errors_Is e DeadlineExceeded \<or> (case context_error m i of None \<Rightarrow> False | Some c \<Rightarrow> errors_Is c Canceled)
     then fst (markUncertain X (xe_db E 6) (xe_clk E 6) m k (error_text e))
     else if IsUncertain (Some e) then fst (markUncertain X (xe_db E 6) (xe_clk E 6) m k reconcile_reason)
     else case FailureDetails e of
       Some (code, message) \<Rightarrow> if code = ''CANCELLED'' then fst (terminal_op X (xe_db E 6) (xe_clk E 6) m k Cancelled [] [] message)
                               else fst (Fail_op X (xe_db E 6) (xe_clk E 6) m k code message)
     | None \<Rightarrow> fst (Fail_op X (xe_db E 6) (xe_clk E 6) m k ''UPSTREAM_FAILED'' ''Agent operation failed''))"

definition after_handler :: "ext \<Rightarrow> exec_env \<Rightarrow> string \<Rightarrow> nat \<Rightarrow> goerror + string \<Rightarrow> Manager \<Rightarrow> Manager" where
  "after_handler X E k i answer m = (case answer of
     Inr result \<Rightarrow> fst (Complete_op X (xe_db E 5) (xe_clk E 5) m k result)
   | Inl e \<Rightarrow> if explicitly_cancelled m i then m
       else (case Get_op (xe_db E 5 0) m k of
           Inr current \<Rightarrow> if co_State current = Cancelled then m else record_error X E k i e (xe_others E 6 m)
         | Inl _ \<Rightarrow> record_error X E k i e (xe_others E 6 m)))"

text \<open>From the claim to the return, with the context \<open>i\<close> of the execution.\<close>

definition run_claimed :: "ext \<Rightarrow> exec_env \<Rightarrow> op_handler \<Rightarrow> string \<Rightarrow> nat \<Rightarrow> Manager \<Rightarrow> execution" where
  "run_claimed X E handler k i m0 = (case claimRunning X (xe_db E 2) (xe_clk E 2) m0 k of
     (m1, Inl e) \<Rightarrow> outcome m1 False (Some e)
   | (m1, Inr _) \<Rightarrow> let m2 = xe_others E 3 m1 in
       if explicitly_cancelled m2 i then outcome m2 False (Some Canceled)
       else (case Get_op (xe_db E 3 0) m2 k of
         Inl e \<Rightarrow> outcome (fst (Fail_op X (xe_db E 4) (xe_clk E 4) m2 k ''NOT_FOUND'' (error_text e))) False (Some e)
       | Inr v \<Rightarrow> let answer = handler v in
           outcome (after_handler X E k i answer (xe_others E 5 m2)) True (case answer of Inl e \<Rightarrow> Some e | Inr _ \<Rightarrow> None)))"

definition Execute_op :: "ext \<Rightarrow> exec_env \<Rightarrow> guard \<Rightarrow> guard \<Rightarrow> op_handler option \<Rightarrow> Manager \<Rightarrow> string \<Rightarrow> execution" where
  "Execute_op X E adm exe handler m k = (case handler of
     None \<Rightarrow> outcome (fst (Fail_op X (xe_db E 0) (xe_clk E 0) m k ''INVALID_ARGUMENT'' ''operation handler is nil'')) False None
   | Some h \<Rightarrow> let m0 = xe_others E 0 m in
       (case Get_op (xe_db E 0 0) m0 k of Inl _ \<Rightarrow> outcome m0 False None
        | Inr v \<Rightarrow> let m1 = xe_others E 1 m0 in
          (case checkAdmission adm v of
             Some _ \<Rightarrow> outcome (fst (Fail_op X (xe_db E 1) (xe_clk E 1) m1 k ''ACCOUNT_DEPROVISIONED'' ''Agent account is deprovisioned; operation was not executed'')) False None
           | None \<Rightarrow> (case acquireExecution exe v of
             Some _ \<Rightarrow> outcome (fst (Fail_op X (xe_db E 1) (xe_clk E 1) m1 k ''ACCOUNT_DEPROVISIONED'' ''Agent account is deprovisioning; operation was not executed'')) False None
           | None \<Rightarrow> let i = length (m_causes m1); x = run_claimed X E h k i (xe_others E 2 (begin_runtime k m1))
                    in x\<lparr>xr_manager := end_runtime k i (xr_manager x)\<rparr>))))"

section \<open>Watching\<close>

definition Watch_op :: "reply \<Rightarrow> Manager \<Rightarrow> string \<Rightarrow> nat ms" where
  "Watch_op r m k = (case Get_op r m k of Inl e \<Rightarrow> (m, Inl e)
     | Inr v \<Rightarrow> let i = length (m_objects m) in
         (put_set k (watcher_set m k @ [i]) (m\<lparr>m_objects := m_objects m @ [\<lparr>w_ch = [], w_done = False, w_seen = [],
            w_keepAfterSeal = isDeprovisionOperation v\<rparr>]\<rparr>), Inr i))"

definition object_at :: "Manager \<Rightarrow> nat \<Rightarrow> watcher" where
  "object_at m i = m_objects m ! i"

definition sendWatcherEvent :: "nat \<Rightarrow> CapEvent \<Rightarrow> Manager \<Rightarrow> Manager \<times> bool" where
  "sendWatcherEvent i e m = (m\<lparr>m_objects := on_object i (\<lambda>w. fst (sendWatcherEventLocked e w)) (m_objects m)\<rparr>, snd (sendWatcherEventLocked e (object_at m i)))"

text \<open>The blocking send holds the mutex until the consumer has taken \<open>n + 1\<close> events or, with \<^term>\<open>None\<close>, its context ends.\<close>

definition sendWatcherEventBlocking :: "nat option \<Rightarrow> nat \<Rightarrow> CapEvent \<Rightarrow> Manager \<Rightarrow> Manager \<times> bool" where
  "sendWatcherEventBlocking taken i e m = (case taken of
     Some n \<Rightarrow> sendWatcherEvent i e (m\<lparr>m_objects := on_object i (\<lambda>w. w\<lparr>w_ch := drop (Suc n) (w_ch w)\<rparr>) (m_objects m)\<rparr>)
   | None \<Rightarrow> if w_done (object_at m i) then (m, False) else (m, ce_Sequence e \<in> set (w_seen (object_at m i))))"

definition removeWatcher :: "string \<Rightarrow> nat \<Rightarrow> Manager \<Rightarrow> Manager" where
  "removeWatcher k i m = (put_set k (removeAll i (watcher_set m k)) m)\<lparr>m_objects := on_object i closeWatcherLocked (m_objects m)\<rparr>"

text \<open>The replay loop of the goroutine: the result says whether the watcher stays.\<close>

fun replay_events :: "(nat \<Rightarrow> Manager \<Rightarrow> Manager) \<Rightarrow> (nat \<Rightarrow> nat option) \<Rightarrow> nat \<Rightarrow> nat \<Rightarrow> CapEvent list \<Rightarrow> Manager \<Rightarrow> Manager \<times> bool" where
  "replay_events others taken j i [] m = (m, True)"
| "replay_events others taken j i (e # es) m =
    (case sendWatcherEvent i e (others j m) of (m1, sent) \<Rightarrow>
     (case (if sent then (m1, True) else sendWatcherEventBlocking (taken j) i e m1) of (m2, sent2) \<Rightarrow>
       if \<not> sent2 then (m2, False) else if terminalEvent e then (m2, False) else replay_events others taken (Suc j) i es m2))"

definition watch_goroutine :: "reply \<Rightarrow> (nat \<Rightarrow> Manager \<Rightarrow> Manager) \<Rightarrow> (nat \<Rightarrow> nat option) \<Rightarrow> OpState \<Rightarrow> string \<Rightarrow> int \<Rightarrow> nat \<Rightarrow> Manager \<Rightarrow> Manager \<times> bool" where
  "watch_goroutine r others taken st k after i m = (case getEvents r m k after of Inl _ \<Rightarrow> (removeWatcher k i m, False)
     | Inr es \<Rightarrow> (case replay_events others taken 0 i es m of (m1, stays) \<Rightarrow>
         if stays \<and> \<not> terminalOperationState st then (m1, True) else (removeWatcher k i m1, False)))"

definition receive :: "nat \<Rightarrow> nat \<Rightarrow> Manager \<Rightarrow> Manager \<times> CapEvent list" where
  "receive i n m = (m\<lparr>m_objects := on_object i (\<lambda>w. w\<lparr>w_ch := drop n (w_ch w)\<rparr>) (m_objects m)\<rparr>, take n (w_ch (object_at m i)))"

text \<open>The ordinary watchers are closed one after the other, without a test; to close one that is closed already is a panic, \<^term>\<open>None\<close>.\<close>

fun close_ordinary :: "nat list \<Rightarrow> watcher list \<Rightarrow> watcher list option" where
  "close_ordinary [] ws = Some ws"
| "close_ordinary (i # is) ws = (if w_keepAfterSeal (ws ! i) then close_ordinary is ws
     else if w_done (ws ! i) then None else close_ordinary is (on_object i closeWatcherLocked ws))"

definition CloseOrdinaryWatchers :: "Manager \<Rightarrow> Manager option" where
  "CloseOrdinaryWatchers m = (case close_ordinary (concat (map snd (m_watchers m))) (m_objects m) of None \<Rightarrow> None
     | Some ws \<Rightarrow> Some (m\<lparr>m_objects := ws,
         m_watchers := filter (\<lambda>(k, ws). ws \<noteq> []) (map (\<lambda>(k, ws). (k, filter (\<lambda>i. w_keepAfterSeal (object_at m i)) ws)) (m_watchers m))\<rparr>))"

end
