(* ===== verification/Ledger_Runs.thy ===== *)
theory Ledger_Runs
  imports Ledger_Execute
begin

text \<open>
  What every call of the ledger does to its tables: rows are never deleted, their binding never changes, a state moves only forward unless the operation is reopened, and the
  event journal only grows. Each call satisfies the contract \<open>ledger_call\<close>; its consequences for sequences of calls are proved once, in the locale.
\<close>

section \<open>Moving forward\<close>

definition rank :: "OpState \<Rightarrow> nat" where
  "rank s = (case s of Pending \<Rightarrow> 0 | Running \<Rightarrow> 1 | Uncertain \<Rightarrow> 2 | _ \<Rightarrow> 3)"

text \<open>What an operation was admitted for.\<close>

definition binding :: "CapOperation \<Rightarrow> CapOperation" where
  "binding v = v\<lparr>co_State := Pending, co_ResultJSON := None, co_ErrorCode := [], co_ErrorMessage := [], co_UpdatedAt := time_zero, co_CompletedAt := None\<rparr>"

definition forward :: "CapOperation \<Rightarrow> CapOperation \<Rightarrow> bool" where
  "forward v w \<longleftrightarrow> w = v \<or> rank (co_State v) < rank (co_State w) \<or> co_State v = Pending \<and> (\<exists>t. w = v\<lparr>co_UpdatedAt := t\<rparr>)"

definition final :: "CapOperation \<Rightarrow> bool" where
  "final v \<longleftrightarrow> co_State v = Completed \<or> co_State v = Cancelled"

text \<open>From \<open>v\<close> to \<open>w\<close>, where the operation may have been reopened or not.\<close>

definition row_moves :: "bool \<Rightarrow> CapOperation \<Rightarrow> CapOperation \<Rightarrow> bool" where
  "row_moves reopened v w \<longleftrightarrow> binding w = binding v \<and> (final v \<longrightarrow> w = v) \<and> (reopened \<or> forward v w)"

definition moves :: "string set \<Rightarrow> Manager \<Rightarrow> Manager \<Rightarrow> bool" where
  "moves R m m' \<longleftrightarrow> (\<forall>k v. lookup (m_ops m) k = Some v \<longrightarrow> (\<exists>w. lookup (m_ops m') k = Some w \<and> row_moves (k \<in> R) v w))
     \<and> (\<exists>es. m_events m' = m_events m @ es) \<and> m_next m \<le> m_next m' \<and> m_db m' = m_db m"

definition ledger_ok :: "Manager \<Rightarrow> bool" where
  "ledger_ok m \<longleftrightarrow> gomap (m_ops m) \<and> (\<forall>k v. lookup (m_ops m) k = Some v \<longrightarrow> co_ID v = k \<and> row_ok v)
     \<and> sorted_wrt (<) (map ce_ID (m_events m)) \<and> 1 \<le> m_next m
     \<and> (\<forall>e\<in>set (m_events m). 1 \<le> ce_ID e \<and> ce_ID e < m_next m \<and> ce_Sequence e = ce_ID e \<and> lookup (m_ops m) (ce_OperationID e) \<noteq> None
          \<and> ce_EventType e \<in> set event_types)"

definition evolves_op :: "string set \<Rightarrow> Manager \<Rightarrow> Manager \<Rightarrow> bool" where
  "evolves_op R m m' \<longleftrightarrow> (ledger_ok m \<longrightarrow> ledger_ok m' \<and> moves R m m')"

lemma binding_ID: "co_ID (binding v) = co_ID v"
  by (simp add: binding_def)

lemma forward_refl [simp]: "forward v v"
  by (simp add: forward_def)

lemma forward_trans: "forward u v \<Longrightarrow> forward v w \<Longrightarrow> forward u w"
proof -
  assume uv: "forward u v" and vw: "forward v w"
  consider "v = u" | "rank (co_State u) < rank (co_State v)" | t where "co_State u = Pending" "v = u\<lparr>co_UpdatedAt := t\<rparr>"
    using uv unfolding forward_def by blast
  then show ?thesis
  proof cases
    case 2
    then have "co_State v \<noteq> Pending" by (auto simp: rank_def)
    with 2 vw show ?thesis unfolding forward_def by (metis less_trans)
  next
    case (3 t)
    then have "co_State v = Pending" by simp
    with 3 vw show ?thesis unfolding forward_def by (auto simp del: CapOperation.simps simp: CapOperation.update_convs CapOperation.select_convs)
  qed (use vw in simp)
qed

lemma row_moves_refl [simp]: "row_moves b v v"
  by (simp add: row_moves_def)

lemma row_moves_trans: "row_moves b u v \<Longrightarrow> row_moves b v w \<Longrightarrow> row_moves b u w"
  unfolding row_moves_def using forward_trans by metis

lemma row_moves_weaken: "row_moves False v w \<Longrightarrow> row_moves b v w"
  by (simp add: row_moves_def)

lemma moves_refl [simp]: "moves R m m"
  by (auto simp: moves_def)

lemma moves_trans: "moves R l m \<Longrightarrow> moves R m n \<Longrightarrow> moves R l n"
proof -
  assume a: "moves R l m" "moves R m n"
  have "\<exists>w. lookup (m_ops n) k = Some w \<and> row_moves (k \<in> R) v w" if "lookup (m_ops l) k = Some v" for k v
    using a that unfolding moves_def by (meson row_moves_trans)
  moreover have "\<exists>es. m_events n = m_events l @ es" using a unfolding moves_def by (metis append.assoc)
  ultimately show ?thesis using a by (auto simp: moves_def)
qed

lemma moves_weaken: "moves R m n \<Longrightarrow> R \<subseteq> S \<Longrightarrow> moves S m n"
  unfolding moves_def row_moves_def by (metis subsetD)

lemma evolves_op_refl [simp, intro]: "evolves_op R m m"
  by (simp add: evolves_op_def)

lemma evolves_op_trans: "evolves_op R l m \<Longrightarrow> evolves_op R m n \<Longrightarrow> evolves_op R l n"
  unfolding evolves_op_def using moves_trans by blast

lemma evolves_op_weaken: "evolves_op R m n \<Longrightarrow> R \<subseteq> S \<Longrightarrow> evolves_op S m n"
  unfolding evolves_op_def using moves_weaken by blast

text \<open>A change of the memory alone leaves the tables.\<close>

definition same_tables :: "Manager \<Rightarrow> Manager \<Rightarrow> bool" where
  "same_tables m m' \<longleftrightarrow> m_ops m' = m_ops m \<and> m_events m' = m_events m \<and> m_next m' = m_next m \<and> m_db m' = m_db m"

lemma same_tables_refl [simp]: "same_tables m m"
  by (simp add: same_tables_def)

lemma same_tables_trans: "same_tables l m \<Longrightarrow> same_tables m n \<Longrightarrow> same_tables l n"
  by (simp add: same_tables_def)

lemma same_evolves [intro]: "same_tables m m' \<Longrightarrow> evolves_op R m m'"
  by (auto simp: same_tables_def evolves_op_def ledger_ok_def moves_def)

lemma memory_steps [simp]: "same_tables m (rememberSecrets X m k req)" "same_tables m (clearSecrets m k)" "same_tables m (put_set k ws m)"
    "same_tables m (publishEvent e m)" "same_tables m (cancel_context i c m)" "same_tables m (begin_runtime k m)" "same_tables m (end_runtime k i m)"
    "same_tables m (removeWatcher k i m)" "same_tables m (fst (sendWatcherEvent i e m))" "same_tables m (fst (sendWatcherEventBlocking t i e m))"
    "same_tables m (fst (receive i n m))"
  by (simp_all add: same_tables_def rememberSecrets_def clearSecrets_def put_set_def publishEvent_def cancel_context_def begin_runtime_def end_runtime_def
      removeWatcher_def sendWatcherEvent_def sendWatcherEventBlocking_def receive_def Let_def split: option.split)

lemmas memory_evolves [simp, intro] = memory_steps [THEN same_evolves]

section \<open>Statements\<close>

lemma insert_op_evolves: "insert_op v m = Some (m', n) \<Longrightarrow> evolves_op {} m m'"
  by (auto simp: insert_op_def evolves_op_def ledger_ok_def moves_def split: if_splits option.splits)

lemma update_op_evolves: "update_op k sts f m = Some (m', n) \<Longrightarrow>
    (\<And>v. co_State v \<in> set sts \<Longrightarrow> row_moves (k \<in> R) v (f v)) \<Longrightarrow> evolves_op R m m'"
proof -
  assume u: "update_op k sts f m = Some (m', n)" and f: "\<And>v. co_State v \<in> set sts \<Longrightarrow> row_moves (k \<in> R) v (f v)"
  show ?thesis
  proof (cases "m' = m")
    case False
    then obtain v where v: "lookup (m_ops m) k = Some v" "co_State v \<in> set sts" "row_ok (f v)" "m' = m\<lparr>m_ops := put k (f v) (m_ops m)\<rparr>"
      using u by (auto simp: update_op_def split: option.splits if_splits)
    have "co_ID (f v) = co_ID v" using f [OF v(2)] unfolding row_moves_def by (metis binding_ID)
    with v f [OF v(2)] show ?thesis unfolding evolves_op_def ledger_ok_def moves_def by auto
  qed simp
qed

lemma insert_event_evolves: "insert_event k ty p now m = Some (m', e) \<Longrightarrow> evolves_op R m m'"
  by (auto simp: insert_event_def evolves_op_def ledger_ok_def moves_def sorted_wrt_append event_ok_def Let_def split: if_splits)
     force+

section \<open>The changes of a row\<close>

lemma terminal_row: "terminalOperationState st \<Longrightarrow> co_State v \<in> set (if st = Failed then [Pending, Running, Uncertain] else [Pending, Running]) \<Longrightarrow>
    row_moves b v (v\<lparr>co_State := st, co_ResultJSON := r, co_ErrorCode := c, co_ErrorMessage := t, co_UpdatedAt := n, co_CompletedAt := d\<rparr>)"
  by (auto simp: terminalOperationState_def row_moves_def forward_def final_def binding_def rank_def split: if_splits)

lemma running_row: "co_State v \<in> set [Pending] \<Longrightarrow> st = Pending \<or> st = Running \<Longrightarrow> row_moves b v (v\<lparr>co_State := st, co_UpdatedAt := n\<rparr>)"
  by (cases v) (auto simp: row_moves_def forward_def final_def binding_def rank_def)

lemma cancelled_row: "co_State v \<in> set [Pending, Running] \<Longrightarrow>
    row_moves b v (v\<lparr>co_State := Cancelled, co_ErrorMessage := t, co_UpdatedAt := n, co_CompletedAt := d\<rparr>)"
  by (auto simp: row_moves_def forward_def final_def binding_def rank_def)

lemma reopened_moves: "co_State v \<in> set [Failed, Uncertain] \<Longrightarrow> row_moves True v (reopened_row now v)"
  by (auto simp: row_moves_def final_def binding_def reopened_row_def)

section \<open>What every call preserves\<close>

text \<open>An operation whose row is uncertain or at its end.\<close>

definition closed_row :: "Manager \<Rightarrow> string \<Rightarrow> bool" where
  "closed_row m k \<longleftrightarrow> (\<exists>v. lookup (m_ops m) k = Some v \<and> 2 \<le> rank (co_State v))"

lemma emit_fields: "m_ops (fst (emitEvent X r now k ty d m)) = m_ops m" "m_causes (fst (emitEvent X r now k ty d m)) = m_causes m"
    "m_runtime (fst (emitEvent X r now k ty d m)) = m_runtime m" "m_db (fst (emitEvent X r now k ty d m)) = m_db m"
    "m_secrets (fst (emitEvent X r now k ty d m)) = m_secrets m"
  by (auto simp: emitEvent_def statement_def insert_event_def publishEvent_def put_set_def Let_def split: option.splits reply.splits prod.splits sum.splits if_splits)

lemma update_closes: "statement r (update_op k sts f) m = (m1, Inr rows) \<Longrightarrow> rows \<noteq> 0 \<Longrightarrow> (\<And>v. 2 \<le> rank (co_State (f v))) \<Longrightarrow> closed_row m1 k"
  by (auto simp: statement_def update_op_def closed_row_def split: reply.splits option.splits if_splits)

text \<open>A preorder on managers that the statements and the changes in memory respect is respected by every call. \<open>moved k v w\<close> says which changes of the row of \<open>k\<close> it allows. The secrets of an operation are
  forgotten only when its row is closed.\<close>

locale ledger_relation =
  fixes rel :: "Manager \<Rightarrow> Manager \<Rightarrow> bool" and moved :: "string \<Rightarrow> CapOperation \<Rightarrow> CapOperation \<Rightarrow> bool"
  assumes rel_refl [simp, intro]: "rel m m"
    and rel_trans: "rel l m \<Longrightarrow> rel m n \<Longrightarrow> rel l n"
    and inserted: "insert_op v m = Some (m', rows) \<Longrightarrow> rel m m'"
    and updated: "update_op k sts f m = Some (m', rows) \<Longrightarrow> (\<And>v. co_State v \<in> set sts \<Longrightarrow> moved k v (f v)) \<Longrightarrow> rel m m'"
    and journaled: "insert_event k ty p now m = Some (m', e) \<Longrightarrow> rel m m'"
    and published_rel: "rel m (publishEvent e m)"
    and secrets_rel: "rel m (rememberSecrets X m k req)"
    and cleared_rel: "closed_row m k \<Longrightarrow> rel m (clearSecrets m k)"
    and causes_rel: "rel m (cancel_context i c m)"
    and forward_moved: "row_moves False v w \<Longrightarrow> moved k v w"
begin

lemma statement_step: "(\<And>m' v. f m = Some (m', v) \<Longrightarrow> rel m m') \<Longrightarrow> rel m (fst (statement r f m))"
  by (auto simp: statement_def split: reply.split option.split)

lemma in_tx_step: "(\<And>m2 v. f m1 = Some (m2, v) \<Longrightarrow> rel m (fst (g v m2))) \<Longrightarrow> rel m (fst (in_tx r what f m m1 g))"
  by (auto simp: in_tx_def statement_def split: reply.split option.split)

lemma commit_step: "rel m m' \<Longrightarrow> rel m (fst (commit r what m m' v))"
  by (simp add: commit_def split: reply.split)

lemma ms_bind_step: "rel m (fst r) \<Longrightarrow> (\<And>v m'. r = (m', Inr v) \<Longrightarrow> rel m' (fst (f v m'))) \<Longrightarrow> rel m (fst (ms_bind r f))"
  by (cases r; cases "snd r") (auto simp: ms_bind_def intro: rel_trans)


lemma emitEvent_step: "rel m (fst (emitEvent X r now k ty data m))"
proof (cases "ensure m")
  case None
  have "rel m (fst (statement r (insert_event k ty (redactJSON X m k data) (to_UTC now)) m))"
    by (rule statement_step) (rule journaled)
  then show ?thesis
    unfolding emitEvent_def None by (auto split: prod.split sum.split) (metis rel_trans published_rel)
qed (simp add: emitEvent_def)

lemma unchanged_step: "rel m (fst (unchanged r k st m))"
  by (simp add: unchanged_def split: sum.split)

text \<open>A transition writes one row and one event.\<close>

lemma update_step: "(\<And>v. co_State v \<in> set sts \<Longrightarrow> moved k v (f v)) \<Longrightarrow> rel m (fst (statement r (update_op k sts f) m))"
  by (rule statement_step) (rule updated)

lemma transition_step:
  assumes "\<And>v. co_State v \<in> set sts \<Longrightarrow> moved k v (f v)"
    and "\<And>m1. rel m1 (fst (g m1))"
  shows "rel m (fst (ms_bind (statement r (update_op k sts f) m) (\<lambda>rows m1. if rows = 0 then unchanged r' k st m1 else g m1)))"
  by (rule ms_bind_step, rule update_step [OF assms(1)]) (simp_all add: unchanged_step assms(2))

text \<open>One that closes the row may forget the secrets.\<close>

lemma closing_step:
  assumes "\<And>v. co_State v \<in> set sts \<Longrightarrow> moved k v (f v)" "\<And>v. 2 \<le> rank (co_State (f v))"
  shows "rel m (fst (ms_bind (statement r (update_op k sts f) m) (\<lambda>rows m1. if rows = 0 then unchanged r' k st m1
      else ms_bind (emitEvent X r'' now k ty d m1) (\<lambda>_ m2. (if b then clearSecrets m2 k else m2, Inr ())))))"
proof (rule ms_bind_step)
  fix rows m1
  assume s: "statement r (update_op k sts f) m = (m1, Inr rows)"
  have "rel m1 (fst (ms_bind (emitEvent X r'' now k ty d m1) (\<lambda>_ m2. (if b then clearSecrets m2 k else m2, Inr ()))))" if "rows \<noteq> 0"
  proof (rule ms_bind_step)
    fix u m2
    assume "emitEvent X r'' now k ty d m1 = (m2, Inr u)"
    then have "m_ops m2 = m_ops m1" using emit_fields(1) [of X r'' now k ty d m1] by simp
    then have "closed_row m2 k" using update_closes [OF s that assms(2)] by (simp add: closed_row_def)
    then show "rel m2 (fst (if b then clearSecrets m2 k else m2, Inr ()))" by (simp add: cleared_rel)
  qed (rule emitEvent_step)
  then show "rel m1 (fst (if rows = 0 then unchanged r' k st m1 else ms_bind (emitEvent X r'' now k ty d m1) (\<lambda>_ m2. (if b then clearSecrets m2 k else m2, Inr ()))))"
    by (simp add: unchanged_step)
qed (rule update_step [OF assms(1)])

lemma terminal_op_step: "terminalOperationState st \<Longrightarrow> rel m (fst (terminal_op X db clk m k st result code message))"
proof (cases "ensure m")
  case None
  assume st: "terminalOperationState st"
  show ?thesis unfolding terminal_op_def None option.case Let_def case_prod_unfold
    by (rule closing_step, rule forward_moved, erule terminal_row [OF st]) (use st in \<open>auto simp: terminalOperationState_def rank_def\<close>)
qed (simp add: terminal_op_def)

lemma outcome_steps: "rel m (fst (Complete_op X db clk m k r))" "rel m (fst (Fail_op X db clk m k c t))"
    "rel m (fst (markUncertain X db clk m k t))"
  unfolding Complete_op_def Fail_op_def markUncertain_def by (simp_all add: terminal_op_step terminalOperationState_def)

lemma UpdateState_step: "rel m (fst (UpdateState X db clk m k st))"
  unfolding UpdateState_def by (auto split: option.split intro!: transition_step forward_moved running_row emitEvent_step)

lemma claimRunning_step: "rel m (fst (claimRunning X db clk m k))"
  unfolding claimRunning_def by (auto split: option.split intro!: transition_step forward_moved running_row emitEvent_step)

lemma fence_all_step: "rel m (fst (fence_all X dbs clks i ks m))"
proof (induction X dbs clks i ks m rule: fence_all.induct)
  case (2 X dbs clks i k ks m)
  have "rel m (fst (markUncertain X (dbs i) (clks i) m k interrupted_reason))" by (rule outcome_steps)
  with 2 show ?case by (auto split: prod.split sum.split intro: rel_trans)
qed simp

lemma Recover_op_step: "rel m (fst (Recover_op X r dbs clks m))"
  unfolding Recover_op_def by (auto split: option.split intro: fence_all_step)

lemma cancel_row_step: "rel m (fst (cancel_row X db clk k reason m))"
  unfolding cancel_row_def Let_def
  by (rule closing_step [where b = True, simplified if_True], rule forward_moved, erule cancelled_row) (simp add: rank_def)

lemma await_step: "(\<And>m. rel m (others m)) \<Longrightarrow> rel m (fst (await_handler w others m k))"
  unfolding await_handler_def Let_def
  by (auto split: option.split waited.split intro: rel_trans [OF causes_rel])

lemma Cancel_op_step: "(\<And>m. rel m (others m)) \<Longrightarrow> rel m (fst (Cancel_op X db clk w others m k reason))"
  unfolding Cancel_op_def
  by (auto split: option.split sum.split intro!: ms_bind_step await_step cancel_row_step)

lemma startPostgres_step: "rel m (fst (startPostgres X db clk g m v raw))"
  unfolding startPostgres_def Let_def
  apply (simp split: option.split)
  apply (intro impI in_tx_step)
  subgoal for m1 rows
    apply (cases "rows = 0")
     apply (simp split: sum.split)
    apply simp
    apply (rule in_tx_step)
    apply (rule ms_bind_step)
     apply (rule commit_step, rule rel_trans, erule inserted, erule journaled)
    apply (simp, blast intro: rel_trans secrets_rel published_rel)
    done
  done

lemma StartOrGet_step: "rel m (fst (StartOrGet X db clk g m request))"
  unfolding StartOrGet_def by (auto split: option.split intro: startPostgres_step)

lemma reopenReplayPostgres_step: "(\<And>v. co_State v \<in> set [Failed, Uncertain] \<Longrightarrow> moved k v (reopened_row (to_UTC clk) v)) \<Longrightarrow> rel m (fst (reopenReplayPostgres X db clk m k))"
  unfolding reopenReplayPostgres_def Let_def
  apply (simp split: option.split)
  apply (intro impI in_tx_step)
  subgoal for m1 rows
    apply (subgoal_tac "rel m m1")
     apply (cases "rows = 0")
      apply (auto simp: reopenReplayExisting_def split: sum.split intro!: ms_bind_step commit_step) [1]
     apply simp
     apply (rule in_tx_step)
     apply (auto split: sum.split intro!: ms_bind_step commit_step intro: rel_trans journaled published_rel) [1]
    apply (erule updated)
    apply simp
    done
  done

lemma ReopenForReplay_step: "(\<And>v. co_State v \<in> set [Failed, Uncertain] \<Longrightarrow> moved k v (reopened_row (to_UTC clk) v)) \<Longrightarrow> rel m (fst (ReopenForReplay X db clk m k))"
  unfolding ReopenForReplay_def by (auto split: option.split intro: reopenReplayPostgres_step)

lemma Reconcile_op_step: "rel m (fst (Reconcile_op X db clk m k))"
proof -
  have "rel m (fst (Fail_op X (\<lambda>i. db (i + 1)) clk m k ''UNCERTAIN'' reconcile_reason))" by (rule outcome_steps)
  then show ?thesis unfolding Reconcile_op_def by (auto split: sum.split prod.split)
qed

lemma Progress_op_step: "rel m (fst (Progress_op X db clk m k data))"
  unfolding Progress_op_def Let_def by (auto split: option.split sum.split intro: emitEvent_step)

end

interpretation tables: ledger_relation "evolves_op R" "\<lambda>k. row_moves (k \<in> R)" for R
proof (unfold_locales, goal_cases)
  case 3
  then show ?case by (blast intro: evolves_op_weaken insert_op_evolves)
next
  case 4
  then show ?case by (rule update_op_evolves)
qed (auto intro: evolves_op_trans insert_event_evolves row_moves_weaken)

lemma Watch_op_evolves: "evolves_op R m (fst (Watch_op r m k))"
  unfolding Watch_op_def Let_def
  by (auto simp: same_tables_def put_set_def split: sum.split)

lemma ReopenForReplay_evolves: "evolves_op {k} m (fst (ReopenForReplay X db clk m k))"
  by (rule tables.ReopenForReplay_step) (simp add: reopened_moves)

lemmas ledger_steps = tables.StartOrGet_step tables.UpdateState_step tables.claimRunning_step tables.outcome_steps tables.terminal_op_step tables.Recover_op_step
  tables.Cancel_op_step tables.Reconcile_op_step tables.Progress_op_step Watch_op_evolves ReopenForReplay_evolves

end
