(* ===== verification/Ledger_Calls.thy ===== *)
theory Ledger_Calls
  imports Ledger_Runs
begin

text \<open>
  The calls of the ledger as data, sequences of them, and the contract \<open>ledger_call\<close> that each of them satisfies. A sequence stands for any interleaving of the goroutines that
  use the ledger, at the granularity of the calls; \<open>Execute\<close> and \<open>Cancel\<close>, which let others run in between, are treated with arbitrary such sequences as interference.
\<close>

section \<open>The contract of a call\<close>

locale ledger_call =
  fixes reopens :: "string set" and run :: "Manager \<Rightarrow> Manager"
  assumes step: "evolves_op reopens m (run m)"
begin

lemma keeps_ok: "ledger_ok m \<Longrightarrow> ledger_ok (run m)"
  using step unfolding evolves_op_def by blast

lemma keeps_row: "ledger_ok m \<Longrightarrow> lookup (m_ops m) k = Some v \<Longrightarrow> \<exists>w. lookup (m_ops (run m)) k = Some w \<and> row_moves (k \<in> reopens) v w"
  using step [of m] unfolding evolves_op_def moves_def by blast

lemma keeps_final: "ledger_ok m \<Longrightarrow> lookup (m_ops m) k = Some v \<Longrightarrow> final v \<Longrightarrow> lookup (m_ops (run m)) k = Some v"
  using keeps_row unfolding row_moves_def by blast

lemma never_back: "ledger_ok m \<Longrightarrow> lookup (m_ops m) k = Some v \<Longrightarrow> k \<notin> reopens \<Longrightarrow>
    \<exists>w. lookup (m_ops (run m)) k = Some w \<and> binding w = binding v \<and> forward v w"
  using keeps_row unfolding row_moves_def by blast

lemma journal_grows: "ledger_ok m \<Longrightarrow> \<exists>es. m_events (run m) = m_events m @ es"
  using step [of m] unfolding evolves_op_def moves_def by blast

lemma then_call: "ledger_call reopens g \<Longrightarrow> ledger_call reopens (\<lambda>m. g (run m))"
  using step evolves_op_trans unfolding ledger_call_def by blast

end

interpretation start_call: ledger_call "{}" "\<lambda>m. fst (StartOrGet X db clk g m request)" for X db clk g request
  by unfold_locales (rule ledger_steps)

interpretation update_call: ledger_call "{}" "\<lambda>m. fst (UpdateState X db clk m k st)" for X db clk k st
  by unfold_locales (rule ledger_steps)

interpretation claim_call: ledger_call "{}" "\<lambda>m. fst (claimRunning X db clk m k)" for X db clk k
  by unfold_locales (rule ledger_steps)

interpretation complete_call: ledger_call "{}" "\<lambda>m. fst (Complete_op X db clk m k r)" for X db clk k r
  by unfold_locales (rule ledger_steps)

interpretation fail_call: ledger_call "{}" "\<lambda>m. fst (Fail_op X db clk m k c t)" for X db clk k c t
  by unfold_locales (rule ledger_steps)

interpretation uncertain_call: ledger_call "{}" "\<lambda>m. fst (markUncertain X db clk m k t)" for X db clk k t
  by unfold_locales (rule ledger_steps)

interpretation recover_call: ledger_call "{}" "\<lambda>m. fst (Recover_op X r dbs clks m)" for X r dbs clks
  by unfold_locales (rule ledger_steps)

interpretation cancel_call: ledger_call "{}" "\<lambda>m. fst (Cancel_op X db clk w (\<lambda>m. m) m k reason)" for X db clk w k reason
  by unfold_locales (rule ledger_steps, rule evolves_op_refl)

interpretation reopen_call: ledger_call "{k}" "\<lambda>m. fst (ReopenForReplay X db clk m k)" for X db clk k
  by unfold_locales (rule ledger_steps)

interpretation reconcile_call: ledger_call "{}" "\<lambda>m. fst (Reconcile_op X db clk m k)" for X db clk k
  by unfold_locales (rule ledger_steps)

interpretation progress_call: ledger_call "{}" "\<lambda>m. fst (Progress_op X db clk m k data)" for X db clk k data
  by unfold_locales (rule ledger_steps)

interpretation watch_call: ledger_call "{}" "\<lambda>m. fst (Watch_op r m k)" for r k
  by unfold_locales (rule ledger_steps)

section \<open>Sequences of calls\<close>

text \<open>The commands are the calls of the manager. The statements with which the deprovision store deletes the rows and events of an account are not among them.\<close>

datatype ledger_command =
    DoStart "nat \<Rightarrow> reply" gotime guard "CapOperation option"
  | DoUpdateState "nat \<Rightarrow> reply" "nat \<Rightarrow> gotime" string OpState
  | DoClaim "nat \<Rightarrow> reply" "nat \<Rightarrow> gotime" string
  | DoComplete "nat \<Rightarrow> reply" "nat \<Rightarrow> gotime" string string
  | DoFail "nat \<Rightarrow> reply" "nat \<Rightarrow> gotime" string string string
  | DoUncertain "nat \<Rightarrow> reply" "nat \<Rightarrow> gotime" string string
  | DoCancelled "nat \<Rightarrow> reply" "nat \<Rightarrow> gotime" string string
  | DoCancel "nat \<Rightarrow> reply" "nat \<Rightarrow> gotime" waited string string
  | DoReopen "nat \<Rightarrow> reply" gotime string
  | DoReconcile "nat \<Rightarrow> reply" "nat \<Rightarrow> gotime" string
  | DoRecover reply "nat \<Rightarrow> nat \<Rightarrow> reply" "nat \<Rightarrow> nat \<Rightarrow> gotime"
  | DoProgress "nat \<Rightarrow> reply" gotime string string
  | DoRemember string string
  | DoBegin string
  | DoInterrupt nat goerror
  | DoEnd string nat
  | DoWatch reply string
  | DoUnwatch string nat
  | DoSend nat CapEvent
  | DoReceive nat nat
  | DoSeal

fun ledger_apply :: "ext \<Rightarrow> ledger_command \<Rightarrow> Manager \<Rightarrow> Manager" where
  "ledger_apply X (DoStart db clk g v) m = fst (StartOrGet X db clk g m v)"
| "ledger_apply X (DoUpdateState db clk k st) m = fst (UpdateState X db clk m k st)"
| "ledger_apply X (DoClaim db clk k) m = fst (claimRunning X db clk m k)"
| "ledger_apply X (DoComplete db clk k r) m = fst (Complete_op X db clk m k r)"
| "ledger_apply X (DoFail db clk k c t) m = fst (Fail_op X db clk m k c t)"
| "ledger_apply X (DoUncertain db clk k t) m = fst (markUncertain X db clk m k t)"
| "ledger_apply X (DoCancelled db clk k t) m = fst (terminal_op X db clk m k Cancelled [] [] t)"
| "ledger_apply X (DoCancel db clk w k reason) m = fst (Cancel_op X db clk w (\<lambda>m. m) m k reason)"
| "ledger_apply X (DoReopen db clk k) m = fst (ReopenForReplay X db clk m k)"
| "ledger_apply X (DoReconcile db clk k) m = fst (Reconcile_op X db clk m k)"
| "ledger_apply X (DoRecover r dbs clks) m = fst (Recover_op X r dbs clks m)"
| "ledger_apply X (DoProgress db clk k data) m = fst (Progress_op X db clk m k data)"
| "ledger_apply X (DoRemember k req) m = rememberSecrets X m k req"
| "ledger_apply X (DoBegin k) m = begin_runtime k m"
| "ledger_apply X (DoInterrupt i c) m = cancel_context i c m"
| "ledger_apply X (DoEnd k i) m = end_runtime k i m"
| "ledger_apply X (DoWatch r k) m = fst (Watch_op r m k)"
| "ledger_apply X (DoUnwatch k i) m = removeWatcher k i m"
| "ledger_apply X (DoSend i e) m = fst (sendWatcherEvent i e m)"
| "ledger_apply X (DoReceive i n) m = fst (receive i n m)"
| "ledger_apply X DoSeal m = (case CloseOrdinaryWatchers m of Some m' \<Rightarrow> m' | None \<Rightarrow> m)"

fun ledger_run :: "ext \<Rightarrow> ledger_command list \<Rightarrow> Manager \<Rightarrow> Manager" where
  "ledger_run X [] m = m"
| "ledger_run X (c # cs) m = ledger_run X cs (ledger_apply X c m)"

fun reopened_by :: "ledger_command \<Rightarrow> string set" where
  "reopened_by (DoReopen db clk k) = {k}"
| "reopened_by c = {}"

definition reopened :: "ledger_command list \<Rightarrow> string set" where
  "reopened cs = (\<Union>c\<in>set cs. reopened_by c)"

lemma close_tables: "CloseOrdinaryWatchers m = Some m' \<Longrightarrow> same_tables m m'"
  by (auto simp: CloseOrdinaryWatchers_def same_tables_def split: option.splits)

lemma apply_evolves: "evolves_op (reopened_by c) m (ledger_apply X c m)"
  by (cases c) (auto intro: ledger_steps close_tables simp: terminalOperationState_def split: option.split)

lemma run_evolves: "evolves_op (reopened cs) m (ledger_run X cs m)"
proof (induction cs arbitrary: m)
  case (Cons c cs)
  have "evolves_op (reopened (c # cs)) m (ledger_apply X c m)"
    by (rule evolves_op_weaken [OF apply_evolves]) (simp add: reopened_def)
  moreover have "evolves_op (reopened (c # cs)) (ledger_apply X c m) (ledger_run X cs (ledger_apply X c m))"
    by (rule evolves_op_weaken [OF Cons.IH]) (auto simp: reopened_def)
  ultimately show ?case using evolves_op_trans by simp
qed simp

lemma run_call: "ledger_call (reopened cs) (ledger_run X cs)"
  by unfold_locales (rule run_evolves)

lemma new_ledger_ok [simp]: "ledger_ok (NewManager b)"
  by (simp add: ledger_ok_def NewManager_def)

lemma reached_ok: "ledger_ok (ledger_run X cs (NewManager b))"
  by (rule ledger_call.keeps_ok [OF run_call new_ledger_ok])

lemma ledger_run_append: "ledger_run X (cs @ ds) m = ledger_run X ds (ledger_run X cs m)"
  by (induction cs arbitrary: m) simp_all

section \<open>Interference\<close>

text \<open>What other goroutines do to the manager: some sequence of calls that reopens only operations of \<open>R\<close>.\<close>

definition interferes :: "ext \<Rightarrow> string set \<Rightarrow> (Manager \<Rightarrow> Manager) \<Rightarrow> bool" where
  "interferes X R f \<longleftrightarrow> (\<forall>m. \<exists>cs. f m = ledger_run X cs m \<and> reopened cs \<subseteq> R)"

lemma interferes_evolves: "interferes X R f \<Longrightarrow> evolves_op R m (f m)"
  unfolding interferes_def using run_evolves evolves_op_weaken by metis

lemma interferes_id: "interferes X R (\<lambda>m. m)"
  unfolding interferes_def by (rule allI, rule exI [of _ "[]"]) (simp add: reopened_def)

end
