(* ===== verification/Ledger_Watch.thy ===== *)
theory Ledger_Watch
  imports Ledger_Calls
begin

text \<open>
  The watchers of the ledger: their invariant, when the loop that makes room for a terminal event ends, and what the consumer of a watcher receives along a sequence of calls.
\<close>

section \<open>The invariant\<close>

definition object_ok :: "watcher \<Rightarrow> bool" where
  "object_ok w \<longleftrightarrow> length (w_ch w) \<le> watcher_capacity \<and> distinct (w_seen w) \<and> distinct (map ce_Sequence (w_ch w))
     \<and> set (map ce_Sequence (w_ch w)) \<subseteq> set (w_seen w)"

text \<open>Every registered watcher is open, and registered once.\<close>

definition watchers_ok :: "Manager \<Rightarrow> bool" where
  "watchers_ok m \<longleftrightarrow> list_all object_ok (m_objects m) \<and> gomap (m_watchers m)
     \<and> (\<forall>k. distinct (watcher_set m k) \<and> (\<forall>i\<in>set (watcher_set m k). i < length (m_objects m) \<and> \<not> w_done (object_at m i)))
     \<and> (\<forall>k l. k \<noteq> l \<longrightarrow> set (watcher_set m k) \<inter> set (watcher_set m l) = {})"

lemma send_ok: "object_ok w \<Longrightarrow> object_ok (fst (sendWatcherEventLocked e w))" "w_done (fst (sendWatcherEventLocked e w)) = w_done w"
    "w_keepAfterSeal (fst (sendWatcherEventLocked e w)) = w_keepAfterSeal w"
  by (auto simp: sendWatcherEventLocked_def object_ok_def)

lemma take_ok: "object_ok w \<Longrightarrow> object_ok (w\<lparr>w_ch := drop n (w_ch w)\<rparr>)"
  unfolding object_ok_def by (auto simp flip: drop_map dest: in_set_dropD) (auto simp: drop_map dest: in_set_dropD)

lemma push_ok: "object_ok w \<Longrightarrow> w_ch w = c # r \<Longrightarrow> ce_Sequence e \<notin> set (w_seen w) \<Longrightarrow>
    object_ok (w\<lparr>w_ch := r @ [e], w_seen := ce_Sequence e # w_seen w\<rparr>)"
  by (auto simp: object_ok_def)

lemma close_ok [simp]: "object_ok (closeWatcherLocked w) = object_ok w" "w_done (closeWatcherLocked w)"
  by (simp_all add: object_ok_def closeWatcherLocked_def)

section \<open>Making room for a terminal event\<close>

lemma evict_once: "object_ok w \<Longrightarrow> \<not> w_done w \<Longrightarrow> ce_Sequence e \<notin> set (w_seen w) \<Longrightarrow> w_ch w = c # r \<Longrightarrow>
    evict e w = Some (w\<lparr>w_ch := r @ [e], w_seen := ce_Sequence e # w_seen w\<rparr>)"
  by (subst evict.simps) (simp add: sendWatcherEventLocked_def object_ok_def)

lemma evict_blocked: "w_ch w = [] \<Longrightarrow> evict e w = None"
  by (subst evict.simps) simp

lemma refused_iff: "sendWatcherEventLocked e w = (w', False) \<Longrightarrow> \<not> w_done w \<Longrightarrow> w' = w \<and> ce_Sequence e \<notin> set (w_seen w) \<and> watcher_capacity \<le> length (w_ch w)"
  by (auto simp: sendWatcherEventLocked_def split: if_splits)

lemma publish_to_cases:
  assumes "object_ok w"
  shows "publish_to taken e w = (if terminalEvent e \<and> \<not> w_done w \<and> ce_Sequence e \<notin> set (w_seen w) \<and> length (w_ch w) = watcher_capacity
    then (case drop taken (w_ch w) of [] \<Rightarrow> None | c # r \<Rightarrow> Some (closeWatcherLocked (w\<lparr>w_ch := r @ [e], w_seen := ce_Sequence e # w_seen w\<rparr>)))
    else Some (if terminalEvent e then closeWatcherLocked (fst (sendWatcherEventLocked e w)) else fst (sendWatcherEventLocked e w)))"
proof (cases "terminalEvent e \<and> \<not> w_done w \<and> ce_Sequence e \<notin> set (w_seen w) \<and> length (w_ch w) = watcher_capacity")
  case True
  then have "sendWatcherEventLocked e w = (w, False)" by (simp add: sendWatcherEventLocked_def)
  moreover have "evict e (w\<lparr>w_ch := drop taken (w_ch w)\<rparr>) = (case drop taken (w_ch w) of [] \<Rightarrow> None
      | c # r \<Rightarrow> Some (w\<lparr>w_ch := r @ [e], w_seen := ce_Sequence e # w_seen w\<rparr>))"
    using True take_ok [OF assms, of taken] by (auto simp: evict_blocked evict_once split: list.split)
  ultimately show ?thesis using True by (simp add: publish_to_def split: list.split)
next
  case False
  then have "\<not> terminalEvent e \<or> snd (sendWatcherEventLocked e w) \<or> w_done (fst (sendWatcherEventLocked e w))"
    using assms by (auto simp: sendWatcherEventLocked_def object_ok_def)
  with False show ?thesis by (auto simp: publish_to_def split: prod.split)
qed

lemma publish_to_returns: "object_ok w \<Longrightarrow> publish_to 0 e w = Some (published e w) \<and> object_ok (published e w)
    \<and> w_done (published e w) = (w_done w \<or> terminalEvent e) \<and> w_keepAfterSeal (published e w) = w_keepAfterSeal w"
proof -
  assume w: "object_ok w"
  show ?thesis
  proof (cases "terminalEvent e \<and> \<not> w_done w \<and> ce_Sequence e \<notin> set (w_seen w) \<and> length (w_ch w) = watcher_capacity")
    case True
    then obtain c r where "w_ch w = c # r" by (cases "w_ch w") (auto simp: watcher_capacity_def)
    with True w push_ok [OF w this, of e] show ?thesis
      unfolding published_def publish_to_cases [OF w] by (simp, simp add: closeWatcherLocked_def)
  next
    case False
    with w show ?thesis unfolding published_def publish_to_cases [OF w] if_not_P [OF False]
      by (simp add: send_ok, simp add: closeWatcherLocked_def send_ok)
  qed
qed

section \<open>Calls keep the invariant\<close>

lemma on_objects_length [simp]: "length (fold (\<lambda>i. on_object i f) is ws) = length ws"
  by (induction "is" arbitrary: ws) (simp_all add: on_object_def)

lemma on_objects_other: "i \<notin> set is \<or> f (ws ! i) = ws ! i \<Longrightarrow> fold (\<lambda>i. on_object i f) is ws ! i = ws ! i"
  by (induction "is" arbitrary: ws) (auto simp: on_object_def nth_list_update)

lemma on_objects_ok: "(\<And>w. object_ok w \<Longrightarrow> object_ok (f w)) \<Longrightarrow> list_all object_ok ws \<Longrightarrow> list_all object_ok (fold (\<lambda>i. on_object i f) is ws)"
proof (induction "is" arbitrary: ws)
  case (Cons i "is")
  then have "list_all object_ok (on_object i f ws)"
    by (auto simp: on_object_def list_all_iff dest!: set_update_subset_insert [THEN subsetD])
  with Cons show ?case by simp
qed simp

lemma on_objects_open: "(\<And>w. object_ok w \<Longrightarrow> w_done (f w) = w_done w) \<Longrightarrow> (\<And>w. object_ok w \<Longrightarrow> object_ok (f w)) \<Longrightarrow> list_all object_ok ws \<Longrightarrow> i < length ws \<Longrightarrow>
    w_done (fold (\<lambda>i. on_object i f) is ws ! i) = w_done (ws ! i)"
proof (induction "is" arbitrary: ws)
  case (Cons j "is")
  have "list_all object_ok (on_object j f ws)" using on_objects_ok [of f ws "[j]"] Cons.prems(2,3) by simp
  moreover have "length (on_object j f ws) = length ws" by (simp add: on_object_def)
  ultimately have "w_done (fold (\<lambda>i. on_object i f) is (on_object j f ws) ! i) = w_done (on_object j f ws ! i)" using Cons by simp
  also have "\<dots> = w_done (ws ! i)" using Cons.prems by (auto simp: on_object_def nth_list_update list_all_length)
  finally show ?case by simp
qed simp

lemma watcher_set_put: "watcher_set (put_set k ws m) l = (if l = k then ws else watcher_set m l)"
  by (simp add: put_set_def watcher_set_def)

lemma put_set_fields [simp]: "m_objects (put_set k ws m) = m_objects m" "gomap (m_watchers m) \<Longrightarrow> gomap (m_watchers (put_set k ws m))"
  by (simp_all add: put_set_def)

lemma watcher_set_objects [simp]: "watcher_set (m\<lparr>m_objects := ws\<rparr>) k = watcher_set m k"
  by (simp add: watcher_set_def)

definition keeps_watchers :: "Manager \<Rightarrow> Manager \<Rightarrow> bool" where
  "keeps_watchers m m' \<longleftrightarrow> (watchers_ok m \<longrightarrow> watchers_ok m')"

text \<open>A change that neither registers nor closes a watcher.\<close>

lemma objects_changed:
  assumes "watchers_ok m" "list_all object_ok ws" "length ws = length (m_objects m)"
    and "\<And>k i. i \<in> set (watcher_set m k) \<Longrightarrow> \<not> w_done (ws ! i)"
  shows "watchers_ok (m\<lparr>m_objects := ws\<rparr>)"
  using assms unfolding watchers_ok_def object_at_def by simp

lemma set_changed:
  assumes "watchers_ok m" "set ws \<subseteq> set (watcher_set m k)" "distinct ws"
  shows "watchers_ok (put_set k ws m)"
  using assms unfolding watchers_ok_def object_at_def watcher_set_put by (simp add: disjoint_iff subset_iff) blast

lemma publishEvent_keeps: "keeps_watchers m (publishEvent e m)"
  unfolding keeps_watchers_def
proof
  assume m: "watchers_ok m"
  let ?k = "ce_OperationID e"
  let ?ws = "fold (\<lambda>i. on_object i (published e)) (watcher_set m ?k) (m_objects m)"
  have ok: "list_all object_ok (m_objects m)" using m by (simp add: watchers_ok_def)
  have objs: "list_all object_ok ?ws" using ok by (intro on_objects_ok) (simp_all add: publish_to_returns)
  show "watchers_ok (publishEvent e m)"
  proof (cases "terminalEvent e")
    case False
    have "w_done (?ws ! i) = w_done (m_objects m ! i)" if "i \<in> set (watcher_set m k)" for i k
      using m that False by (intro on_objects_open) (auto simp: publish_to_returns watchers_ok_def)
    then have "watchers_ok (m\<lparr>m_objects := ?ws\<rparr>)" using m objs by (intro objects_changed) (auto simp: watchers_ok_def object_at_def)
    then have "watchers_ok (put_set ?k (watcher_set m ?k) (m\<lparr>m_objects := ?ws\<rparr>))"
      by (rule set_changed) (use m in \<open>simp_all add: watchers_ok_def\<close>)
    then show ?thesis using False by (simp add: publishEvent_def Let_def)
  next
    case True
    have "?ws ! i = m_objects m ! i" if "i \<in> set (watcher_set m k)" "k \<noteq> ?k" for i k
      using m that unfolding watchers_ok_def by (intro on_objects_other disjI1) blast
    then show ?thesis using m objs True unfolding publishEvent_def Let_def watchers_ok_def
      by (simp add: watcher_set_put object_at_def)
  qed
qed

lemma same_watchers: "m_watchers m' = m_watchers m \<Longrightarrow> m_objects m' = m_objects m \<Longrightarrow> keeps_watchers m m'"
  by (simp add: keeps_watchers_def watchers_ok_def watcher_set_def object_at_def)

interpretation watching: ledger_relation keeps_watchers "\<lambda>_ _ _. True"
proof (unfold_locales, goal_cases)
  case 2
  then show ?case by (simp add: keeps_watchers_def)
next
  case 6
  show ?case by (rule publishEvent_keeps)
qed (auto simp: insert_op_def update_op_def insert_event_def rememberSecrets_def clearSecrets_def cancel_context_def Let_def keeps_watchers_def [of m m for m]
    split: if_splits option.splits intro!: same_watchers)

lemma Watch_keeps: "keeps_watchers m (fst (Watch_op r m k))"
  unfolding keeps_watchers_def
proof
  assume m: "watchers_ok m"
  have new: "length (m_objects m) \<notin> set (watcher_set m l)" for l using m unfolding watchers_ok_def by blast
  show "watchers_ok (fst (Watch_op r m k))"
  proof (cases "Get_op r m k")
    case (Inr v)
    with m new show ?thesis unfolding Watch_op_def watchers_ok_def
      by (auto simp: Let_def watcher_set_put object_at_def nth_append object_ok_def intro: less_SucI)
  qed (simp add: Watch_op_def m)
qed

lemma send_keeps: "keeps_watchers m (fst (sendWatcherEvent i e m))"
  unfolding keeps_watchers_def
proof
  assume m: "watchers_ok m"
  let ?ws = "on_object i (\<lambda>w. fst (sendWatcherEventLocked e w)) (m_objects m)"
  have "list_all object_ok ?ws" using m on_objects_ok [of "\<lambda>w. fst (sendWatcherEventLocked e w)" "m_objects m" "[i]"] by (simp add: send_ok watchers_ok_def)
  moreover have "\<not> w_done (?ws ! j)" if "j \<in> set (watcher_set m k)" for j k
    using m that by (auto simp: watchers_ok_def object_at_def on_object_def nth_list_update send_ok)
  ultimately show "watchers_ok (fst (sendWatcherEvent i e m))" using m unfolding sendWatcherEvent_def
    by (auto intro!: objects_changed simp: on_object_def)
qed

lemma receive_keeps: "keeps_watchers m (fst (receive i n m))"
  unfolding keeps_watchers_def
proof
  assume m: "watchers_ok m"
  let ?ws = "on_object i (\<lambda>w. w\<lparr>w_ch := drop n (w_ch w)\<rparr>) (m_objects m)"
  have "list_all object_ok ?ws" using m on_objects_ok [of "\<lambda>w. w\<lparr>w_ch := drop n (w_ch w)\<rparr>" "m_objects m" "[i]"] by (simp add: take_ok watchers_ok_def)
  moreover have "\<not> w_done (?ws ! j)" if "j \<in> set (watcher_set m k)" for j k
    using m that by (auto simp: watchers_ok_def object_at_def on_object_def nth_list_update)
  ultimately show "watchers_ok (fst (receive i n m))" using m unfolding receive_def
    by (auto intro!: objects_changed simp: on_object_def)
qed

text \<open>The goroutine of a watcher removes it from the operation it was registered for.\<close>

lemma remove_keeps: "watchers_ok m \<Longrightarrow> (\<And>l. i \<in> set (watcher_set m l) \<Longrightarrow> l = k) \<Longrightarrow> watchers_ok (removeWatcher k i m)"
proof -
  assume m: "watchers_ok m" and own: "\<And>l. i \<in> set (watcher_set m l) \<Longrightarrow> l = k"
  let ?m = "put_set k (removeAll i (watcher_set m k)) m" and ?ws = "on_object i closeWatcherLocked (m_objects m)"
  have "watchers_ok ?m" using m by (intro set_changed) (auto simp: watchers_ok_def distinct_removeAll)
  moreover have "list_all object_ok ?ws" using m on_objects_ok [of closeWatcherLocked "m_objects m" "[i]"] by (simp add: watchers_ok_def)
  moreover have "\<not> w_done (?ws ! j)" if j: "j \<in> set (watcher_set ?m l)" for j l
  proof -
    have "j \<noteq> i" using j own by (auto simp: watcher_set_put split: if_splits)
    moreover have "j \<in> set (watcher_set m l)" using j by (auto simp: watcher_set_put split: if_splits)
    ultimately show ?thesis using m by (auto simp: on_object_def watchers_ok_def object_at_def)
  qed
  ultimately have "watchers_ok (?m\<lparr>m_objects := ?ws\<rparr>)" by (intro objects_changed) (auto simp: on_object_def)
  then show ?thesis by (simp add: removeWatcher_def)
qed

section \<open>Sealing\<close>

lemma sealed_sets: "gomap ms \<Longrightarrow> lookup (filter (\<lambda>(k, ws). ws \<noteq> []) (map (\<lambda>(k, ws). (k, filter P ws)) ms)) k
    = (case lookup ms k of None \<Rightarrow> None | Some ws \<Rightarrow> if filter P ws = [] then None else Some (filter P ws))"
proof (induction ms)
  case (Cons a ms)
  have "map_of (filter (\<lambda>(k, ws). ws \<noteq> []) (map (\<lambda>(k, ws). (k, filter P ws)) ms)) k = None" if "k = fst a"
    using Cons.prems that by (auto simp: gomap_def map_of_eq_None_iff image_iff split: prod.splits)
  with Cons show ?case by (cases a) (auto simp: lookup_def gomap_def split: option.splits)
qed (simp add: lookup_def)

lemma registered_in: "gomap (m_watchers m) \<Longrightarrow> i \<in> set (concat (map snd (m_watchers m))) \<Longrightarrow> \<exists>k. i \<in> set (watcher_set m k)"
proof -
  assume g: "gomap (m_watchers m)" and "i \<in> set (concat (map snd (m_watchers m)))"
  then obtain k ws where "(k, ws) \<in> set (m_watchers m)" "i \<in> set ws" by auto
  with g have "watcher_set m k = ws" by (simp add: watcher_set_def lookup_def gomap_def map_of_is_SomeI)
  with \<open>i \<in> set ws\<close> show ?thesis by metis
qed

lemma sets_distinct: "gomap ms \<Longrightarrow> (\<And>k ws. lookup ms k = Some ws \<Longrightarrow> distinct ws) \<Longrightarrow>
    (\<And>k l us ws. k \<noteq> l \<Longrightarrow> lookup ms k = Some us \<Longrightarrow> lookup ms l = Some ws \<Longrightarrow> set us \<inter> set ws = {}) \<Longrightarrow> distinct (concat (map snd ms))"
proof (induction ms)
  case (Cons a ms)
  obtain k us where a: "a = (k, us)" by force
  have g: "gomap ms" "k \<notin> fst ` set ms" using Cons.prems(1) by (auto simp: a gomap_def)
  have tail: "l \<noteq> k \<and> lookup (a # ms) l = Some ws" if "lookup ms l = Some ws" for l ws
    using that g(2) by (auto simp: a lookup_def dest: map_of_SomeD) (metis fst_conv image_eqI map_of_SomeD)
  have "distinct (concat (map snd ms))" using Cons.IH [OF g(1)] Cons.prems(2,3) tail by blast
  moreover have "set us \<inter> set ws = {}" if "(l, ws) \<in> set ms" for l ws
  proof -
    have "lookup ms l = Some ws" using that g(1) by (simp add: lookup_def gomap_def map_of_is_SomeI)
    then show ?thesis using Cons.prems(3) [of k l us ws] tail by (auto simp: a lookup_def)
  qed
  moreover have "distinct us" using Cons.prems(2) [of k us] by (simp add: a lookup_def)
  ultimately show ?case by (fastforce simp: a)
qed simp

lemma registered_once: "watchers_ok m \<Longrightarrow> distinct (concat (map snd (m_watchers m)))"
  unfolding watchers_ok_def watcher_set_def by (rule sets_distinct) (auto split: option.splits, force+)

lemma close_ordinary_open: "distinct is \<Longrightarrow> (\<And>i. i \<in> set is \<Longrightarrow> i < length ws \<and> \<not> w_done (ws ! i)) \<Longrightarrow>
    close_ordinary is ws = Some (fold (\<lambda>i. on_object i (\<lambda>w. if w_keepAfterSeal w then w else closeWatcherLocked w)) is ws)"
proof (induction "is" arbitrary: ws)
  case (Cons i "is")
  let ?f = "\<lambda>w. if w_keepAfterSeal w then w else closeWatcherLocked w"
  have i: "i < length ws" "\<not> w_done (ws ! i)" "i \<notin> set is" using Cons.prems by simp_all
  have "close_ordinary is (on_object i ?f ws) = Some (fold (\<lambda>i. on_object i ?f) is (on_object i ?f ws))"
    using Cons.prems by (intro Cons.IH) (auto simp: on_object_def nth_list_update)
  moreover have "on_object i ?f ws = (if w_keepAfterSeal (ws ! i) then ws else on_object i closeWatcherLocked ws)" by (simp add: on_object_def)
  ultimately show ?case using i(2) by (simp split: if_splits)
qed simp

lemma closed_all: "watchers_ok m \<Longrightarrow> close_ordinary (concat (map snd (m_watchers m))) (m_objects m)
    = Some (fold (\<lambda>i. on_object i (\<lambda>w. if w_keepAfterSeal w then w else closeWatcherLocked w)) (concat (map snd (m_watchers m))) (m_objects m))"
proof (rule close_ordinary_open)
  assume m: "watchers_ok m"
  show "distinct (concat (map snd (m_watchers m)))" using registered_once [OF m] .
  show "i < length (m_objects m) \<and> \<not> w_done (m_objects m ! i)" if "i \<in> set (concat (map snd (m_watchers m)))" for i
    using registered_in [OF _ that] m unfolding watchers_ok_def object_at_def by blast
qed

lemma close_returns: "watchers_ok m \<Longrightarrow> \<exists>m'. CloseOrdinaryWatchers m = Some m'"
  by (simp add: CloseOrdinaryWatchers_def closed_all)

lemma close_keeps: "watchers_ok m \<Longrightarrow> CloseOrdinaryWatchers m = Some m' \<Longrightarrow> watchers_ok m'"
proof -
  assume m: "watchers_ok m" and c: "CloseOrdinaryWatchers m = Some m'"
  let ?f = "\<lambda>w. if w_keepAfterSeal w then w else closeWatcherLocked w"
  let ?ws = "fold (\<lambda>i. on_object i ?f) (concat (map snd (m_watchers m))) (m_objects m)"
  have m': "m_objects m' = ?ws" "m_watchers m' = filter (\<lambda>(k, ws). ws \<noteq> []) (map (\<lambda>(k, ws). (k, filter (\<lambda>i. w_keepAfterSeal (object_at m i)) ws)) (m_watchers m))"
    using c by (auto simp: CloseOrdinaryWatchers_def closed_all [OF m])
  have set: "watcher_set m' k = filter (\<lambda>i. w_keepAfterSeal (object_at m i)) (watcher_set m k)" for k
    using m unfolding watcher_set_def m'(2) by (subst sealed_sets) (auto simp: watchers_ok_def split: option.split)
  have same: "?ws ! i = m_objects m ! i" if "i \<in> set (watcher_set m' k)" for i k
    using that unfolding set by (intro on_objects_other disjI2) (simp add: object_at_def)
  have "list_all object_ok ?ws" using m by (intro on_objects_ok) (simp_all add: watchers_ok_def)
  moreover have "gomap (m_watchers m')" using m unfolding watchers_ok_def gomap_def m'(2)
    by (auto simp: distinct_map_filter comp_def case_prod_unfold)
  moreover have "i < length ?ws \<and> \<not> w_done (object_at m' i)" if "i \<in> set (watcher_set m' k)" for i k
    using m that same [OF that] unfolding object_at_def m'(1) by (auto simp: set watchers_ok_def object_at_def)
  moreover have "set (watcher_set m' k) \<inter> set (watcher_set m' l) = {}" if "k \<noteq> l" for k l
    using m that unfolding watchers_ok_def set set_filter by blast
  moreover have "distinct (watcher_set m' k)" for k using m by (simp add: watchers_ok_def set)
  ultimately show ?thesis unfolding watchers_ok_def m'(1) by blast
qed

section \<open>Runs\<close>

text \<open>A watcher is removed by the goroutine that registered it, with the operation it registered it for.\<close>

definition own_removal :: "ledger_command \<Rightarrow> Manager \<Rightarrow> bool" where
  "own_removal c m = (case c of DoUnwatch k i \<Rightarrow> \<forall>l. i \<in> set (watcher_set m l) \<longrightarrow> l = k | _ \<Rightarrow> True)"

fun own_removals :: "ext \<Rightarrow> ledger_command list \<Rightarrow> Manager \<Rightarrow> bool" where
  "own_removals X [] m = True"
| "own_removals X (c # cs) m = (own_removal c m \<and> own_removals X cs (ledger_apply X c m))"

lemma refl_watchers [simp]: "keeps_watchers m m"
  by (simp add: keeps_watchers_def)

lemma runtime_keeps: "keeps_watchers m (begin_runtime k m)" "keeps_watchers m (end_runtime k i m)"
  by (rule same_watchers; simp add: begin_runtime_def end_runtime_def cancel_context_def)+

lemma apply_keeps: "own_removal c m \<Longrightarrow> watchers_ok m \<Longrightarrow> watchers_ok (ledger_apply X c m)"
proof (cases c)
  case (DoUnwatch k i)
  assume "own_removal c m" "watchers_ok m"
  then show ?thesis by (simp add: DoUnwatch own_removal_def remove_keeps)
next
  case DoSeal
  assume "watchers_ok m"
  then show ?thesis using close_returns close_keeps by (fastforce simp: DoSeal)
next
  case (DoStart db clk g v)
  assume "watchers_ok m"
  then show ?thesis using watching.StartOrGet_step unfolding keeps_watchers_def by (simp add: DoStart)
qed (use watching.UpdateState_step watching.claimRunning_step watching.outcome_steps watching.terminal_op_step watching.Recover_op_step
    watching.Cancel_op_step [where others = "\<lambda>m. m"] watching.Reconcile_op_step watching.Progress_op_step watching.ReopenForReplay_step
    Watch_keeps send_keeps receive_keeps runtime_keeps watching.secrets_rel watching.causes_rel in
    \<open>simp_all add: keeps_watchers_def terminalOperationState_def\<close>)

lemma run_keeps: "own_removals X cs m \<Longrightarrow> watchers_ok m \<Longrightarrow> watchers_ok (ledger_run X cs m)"
  by (induction cs arbitrary: m) (simp_all add: apply_keeps)

lemma new_watchers [simp]: "watchers_ok (NewManager b)"
  by (simp add: watchers_ok_def NewManager_def watcher_set_def)

section \<open>What a consumer receives\<close>

text \<open>The events that the consumer of the watcher \<open>i\<close> has received, in a sequence of calls.\<close>

fun received :: "ext \<Rightarrow> nat \<Rightarrow> ledger_command list \<Rightarrow> Manager \<Rightarrow> CapEvent list" where
  "received X i [] m = []"
| "received X i (c # cs) m = (case c of DoReceive j n \<Rightarrow> if j = i \<and> i < length (m_objects m) then snd (receive i n m) else [] | _ \<Rightarrow> [])
     @ received X i cs (ledger_apply X c m)"

text \<open>What enters a channel has not been in it before.\<close>

definition sends_new :: "watcher \<Rightarrow> watcher \<Rightarrow> bool" where
  "sends_new w w' \<longleftrightarrow> set (w_seen w) \<subseteq> set (w_seen w')
     \<and> set (map ce_Sequence (w_ch w')) \<inter> set (w_seen w) \<subseteq> set (map ce_Sequence (w_ch w))"

definition sent_new :: "Manager \<Rightarrow> Manager \<Rightarrow> bool" where
  "sent_new m m' \<longleftrightarrow> (list_all object_ok (m_objects m) \<longrightarrow> list_all object_ok (m_objects m') \<and> length (m_objects m) \<le> length (m_objects m')
     \<and> (\<forall>i < length (m_objects m). sends_new (m_objects m ! i) (m_objects m' ! i)))"

lemma sends_new_refl [simp]: "sends_new w w"
  by (auto simp: sends_new_def)

lemma sends_new_trans: "sends_new u v \<Longrightarrow> sends_new v w \<Longrightarrow> sends_new u w"
  unfolding sends_new_def by blast

lemma sends_new_drop: "sends_new w (w\<lparr>w_ch := drop n (w_ch w)\<rparr>)"
  by (auto simp: sends_new_def dest: in_set_dropD)

lemma sends_new_send: "sends_new w (fst (sendWatcherEventLocked e w))"
  by (auto simp: sends_new_def sendWatcherEventLocked_def)

lemma sends_new_close [simp]: "sends_new w (closeWatcherLocked w')  = sends_new w w'"
  by (simp add: sends_new_def closeWatcherLocked_def)

lemma sends_new_publish: "object_ok w \<Longrightarrow> sends_new w (published e w)"
  unfolding published_def
  by (auto simp: publish_to_cases sends_new_send split: list.split) (auto simp: sends_new_def split: if_splits)

lemma sent_new_refl [simp]: "sent_new m m"
  by (simp add: sent_new_def)

lemma sent_new_trans: "sent_new l m \<Longrightarrow> sent_new m n \<Longrightarrow> sent_new l n"
  unfolding sent_new_def using sends_new_trans by (meson le_trans less_le_trans)

lemma same_objects: "m_objects m' = m_objects m \<Longrightarrow> sent_new m m'"
  by (simp add: sent_new_def)

lemma sends_new_fold:
  assumes "\<And>w. object_ok w \<Longrightarrow> sends_new w (f w)" "\<And>w. object_ok w \<Longrightarrow> object_ok (f w)"
  shows "list_all object_ok ws \<Longrightarrow> i < length ws \<Longrightarrow> sends_new (ws ! i) (fold (\<lambda>i. on_object i f) is ws ! i)"
proof (induction "is" arbitrary: ws)
  case (Cons j "is")
  have "list_all object_ok (on_object j f ws)" using on_objects_ok [of f ws "[j]"] assms(2) Cons.prems(1) by simp
  moreover have "i < length (on_object j f ws)" using Cons.prems(2) by (simp add: on_object_def)
  ultimately have "sends_new (on_object j f ws ! i) (fold (\<lambda>i. on_object i f) is (on_object j f ws) ! i)" by (rule Cons.IH)
  moreover have "sends_new (ws ! i) (on_object j f ws ! i)"
    using Cons.prems assms(1) by (auto simp: on_object_def nth_list_update list_all_length)
  ultimately show ?case using sends_new_trans by simp
qed simp

lemma objects_sent:
  assumes "m_objects m' = fold (\<lambda>i. on_object i f) is (m_objects m)" "\<And>w. object_ok w \<Longrightarrow> sends_new w (f w)" "\<And>w. object_ok w \<Longrightarrow> object_ok (f w)"
  shows "sent_new m m'"
  using assms on_objects_ok [of f] sends_new_fold [of f] by (simp add: sent_new_def)

interpretation sending: ledger_relation sent_new "\<lambda>_ _ _. True"
proof (unfold_locales, goal_cases)
  case (2 l m n)
  then show ?case by (rule sent_new_trans)
next
  case (6 m e)
  show ?case by (rule objects_sent [of _ "published e" "watcher_set m (ce_OperationID e)"])
    (simp_all add: publishEvent_def Let_def sends_new_publish publish_to_returns)
qed (auto simp: insert_op_def update_op_def insert_event_def rememberSecrets_def clearSecrets_def cancel_context_def Let_def
    split: if_splits option.splits intro!: same_objects)

lemma watch_sent: "sent_new m (fst (Watch_op r m k))"
  by (auto simp: Watch_op_def sent_new_def Let_def nth_append object_ok_def split: sum.split)

lemma object_sent:
  assumes "\<And>w. object_ok w \<Longrightarrow> sends_new w (f w)" "\<And>w. object_ok w \<Longrightarrow> object_ok (f w)"
  shows "sent_new m (m\<lparr>m_objects := on_object i f (m_objects m)\<rparr>)"
  using objects_sent [of _ f "[i]" m, OF _ assms] by simp

lemma receive_sent: "sent_new m (fst (receive i n m))"
  unfolding receive_def fst_conv by (rule object_sent) (simp_all add: sends_new_drop take_ok)

lemma remove_sent: "sent_new m (removeWatcher k i m)"
  by (rule objects_sent [of _ closeWatcherLocked "[i]"]) (simp_all add: removeWatcher_def)

lemma close_sent: "CloseOrdinaryWatchers m = Some m' \<Longrightarrow> sent_new m m'"
proof -
  have "close_ordinary is ws = Some ws' \<Longrightarrow> list_all object_ok ws \<Longrightarrow> list_all object_ok ws' \<and> length ws' = length ws \<and> (\<forall>i < length ws. sends_new (ws ! i) (ws' ! i))" for "is" ws ws'
  proof (induction "is" arbitrary: ws)
    case (Cons j "is")
    let ?ws = "on_object j closeWatcherLocked ws"
    have "list_all object_ok ?ws" using on_objects_ok [of closeWatcherLocked ws "[j]"] Cons.prems(2) by simp
    moreover have "sends_new (ws ! i) (?ws ! i)" if "i < length ws" for i using that by (auto simp: on_object_def nth_list_update)
    moreover have "length ?ws = length ws" by (simp add: on_object_def)
    ultimately show ?case using Cons sends_new_trans by (fastforce split: if_splits)
  qed simp
  then show "CloseOrdinaryWatchers m = Some m' \<Longrightarrow> sent_new m m'" by (fastforce simp: CloseOrdinaryWatchers_def sent_new_def split: option.splits)
qed

lemma runtime_sent: "sent_new m (begin_runtime k m)" "sent_new m (end_runtime k i m)"
  by (rule same_objects; simp add: begin_runtime_def end_runtime_def cancel_context_def)+

lemma apply_sent: "sent_new m (ledger_apply X c m)"
proof (cases c)
  case (DoSend i e)
  show ?thesis unfolding DoSend ledger_apply.simps sendWatcherEvent_def fst_conv by (rule object_sent) (simp_all add: sends_new_send send_ok)
qed (auto intro: sending.StartOrGet_step sending.UpdateState_step sending.claimRunning_step sending.outcome_steps sending.terminal_op_step
    sending.Recover_op_step sending.Cancel_op_step sending.Reconcile_op_step sending.Progress_op_step sending.ReopenForReplay_step sending.secrets_rel sending.causes_rel
    watch_sent receive_sent remove_sent close_sent runtime_sent simp: terminalOperationState_def split: option.split)

text \<open>No event is received twice, nor received and still in the channel.\<close>

lemma received_once:
  assumes "list_all object_ok (m_objects m)"
    and "if i < length (m_objects m) then distinct (map ce_Sequence (got @ w_ch (m_objects m ! i))) \<and> set (map ce_Sequence got) \<subseteq> set (w_seen (m_objects m ! i)) else got = []"
    and "m' = ledger_run X cs m" "i < length (m_objects m')"
  shows "distinct (map ce_Sequence (got @ received X i cs m @ w_ch (m_objects m' ! i)))"
  using assms(1-3)
proof (induction cs arbitrary: m got)
  case Nil
  then show ?case using assms(4) by simp
next
  case (Cons c cs)
  let ?m = "ledger_apply X c m" and ?new = "case c of DoReceive j n \<Rightarrow> if j = i \<and> i < length (m_objects m) then snd (receive i n m) else [] | _ \<Rightarrow> []"
  have step: "list_all object_ok (m_objects ?m)" "length (m_objects m) \<le> length (m_objects ?m)" "\<And>j. j < length (m_objects m) \<Longrightarrow> sends_new (m_objects m ! j) (m_objects ?m ! j)"
    using apply_sent [of m X c] Cons.prems(1) by (auto simp: sent_new_def)
  have "if i < length (m_objects ?m) then distinct (map ce_Sequence ((got @ ?new) @ w_ch (m_objects ?m ! i))) \<and> set (map ce_Sequence (got @ ?new)) \<subseteq> set (w_seen (m_objects ?m ! i)) else got @ ?new = []"
  proof (cases "i < length (m_objects m)")
    case True
    let ?w = "m_objects m ! i" and ?w' = "m_objects ?m ! i"
    have got: "distinct (map ce_Sequence (got @ w_ch ?w))" "set (map ce_Sequence got) \<subseteq> set (w_seen ?w)" using Cons.prems(2) True by auto
    have ok: "object_ok ?w" "object_ok ?w'" using Cons.prems(1) step(1,2) True by (auto simp: list_all_length)
    show ?thesis
    proof (cases "\<exists>n. c = DoReceive i n")
      case True
      then obtain n where c: "c = DoReceive i n" by blast
      have "w_ch ?w' = drop n (w_ch ?w)" "w_seen ?w' = w_seen ?w" "?new = take n (w_ch ?w)"
        using \<open>i < length (m_objects m)\<close> by (auto simp: c receive_def on_object_def object_at_def)
      moreover from this have "distinct (map ce_Sequence ((got @ ?new) @ w_ch ?w'))" using got(1) by (simp only: append_assoc append_take_drop_id)
      moreover have "set (map ce_Sequence (take n (w_ch ?w))) \<subseteq> set (w_seen ?w)" using ok(1) set_take_subset [of n "w_ch ?w"] unfolding object_ok_def set_map by blast
      ultimately show ?thesis using \<open>i < length (m_objects m)\<close> step(2) got(2) by simp
    next
      case False
      then have "?new = []" by (auto split: ledger_command.split)
      moreover have new: "set (w_seen ?w) \<subseteq> set (w_seen ?w')" "set (map ce_Sequence (w_ch ?w')) \<inter> set (w_seen ?w) \<subseteq> set (map ce_Sequence (w_ch ?w))"
        using step(3) [OF \<open>i < length (m_objects m)\<close>] by (simp_all only: sends_new_def)
      have "set (map ce_Sequence got) \<inter> set (map ce_Sequence (w_ch ?w)) = {}" "distinct (map ce_Sequence got)" using got(1) by simp_all
      then have "distinct (map ce_Sequence got @ map ce_Sequence (w_ch ?w'))" using new(2) got(2) ok(2) unfolding distinct_append object_ok_def by blast
      moreover have "i < length (m_objects ?m)" using \<open>i < length (m_objects m)\<close> step(2) by (rule less_le_trans)
      ultimately show ?thesis using got(2) new(1) by (simp only: append_Nil2 map_append) auto
    qed
  next
    case False
    then have "got @ ?new = []" using Cons.prems(2) by (auto split: ledger_command.split)
    moreover have "distinct (map ce_Sequence (w_ch (m_objects ?m ! i)))" if "i < length (m_objects ?m)"
      using step(1) that by (simp add: list_all_length object_ok_def)
    ultimately show ?thesis by simp
  qed
  from Cons.IH [OF step(1) this] Cons.prems(3) show ?case by simp
qed

end
