(* ===== verification/Ledger_Secrets.thy ===== *)
theory Ledger_Secrets
  imports Ledger_Calls
begin

text \<open>
  How long the ledger remembers the secrets of an operation: as long as its row is pending or running, whatever is called, unless the operation is reopened.
\<close>

section \<open>The relation of a call\<close>

definition keeps_secrets :: "string set \<Rightarrow> Manager \<Rightarrow> Manager \<Rightarrow> bool" where
  "keeps_secrets R m m' \<longleftrightarrow> evolves_op R m m' \<and> (ledger_ok m \<longrightarrow> (\<forall>k. k \<notin> R \<longrightarrow> closed_row m' k \<or> set (secrets_of m k) \<subseteq> set (secrets_of m' k)))"

lemma closed_moves: "moves R m m' \<Longrightarrow> k \<notin> R \<Longrightarrow> closed_row m k \<Longrightarrow> closed_row m' k"
proof -
  assume m: "moves R m m'" and k: "k \<notin> R" and "closed_row m k"
  then obtain v where v: "lookup (m_ops m) k = Some v" "2 \<le> rank (co_State v)" by (auto simp: closed_row_def)
  with m k obtain w where "lookup (m_ops m') k = Some w" "forward v w" unfolding moves_def row_moves_def by blast
  then show ?thesis using v(2) by (auto simp: closed_row_def forward_def)
qed

lemma keeps_secrets_trans: "keeps_secrets R l m \<Longrightarrow> keeps_secrets R m n \<Longrightarrow> keeps_secrets R l n"
proof -
  assume lm: "keeps_secrets R l m" and mn: "keeps_secrets R m n"
  then have "closed_row n k \<or> set (secrets_of l k) \<subseteq> set (secrets_of n k)" if "ledger_ok l" "k \<notin> R" for k
    using that closed_moves [of R m n k] unfolding keeps_secrets_def evolves_op_def by (metis subset_trans)
  then show ?thesis using lm mn evolves_op_trans unfolding keeps_secrets_def by blast
qed

lemma keeps_secrets_refl [simp]: "keeps_secrets R m m"
  by (simp add: keeps_secrets_def)

lemma keeps_secrets_weaken: "keeps_secrets R m m' \<Longrightarrow> R \<subseteq> S \<Longrightarrow> keeps_secrets S m m'"
  unfolding keeps_secrets_def using evolves_op_weaken by blast

text \<open>A change of the memory or of the tables that leaves the secrets.\<close>

lemma same_secrets: "evolves_op R m m' \<Longrightarrow> m_secrets m' = m_secrets m \<Longrightarrow> keeps_secrets R m m'"
  by (simp add: keeps_secrets_def secrets_of_def)

lemma add_new_set: "set (add_new known ss) = set known \<union> set ss"
  by (induction known ss rule: add_new.induct) auto

lemma remember_more: "set (secrets_of m k) \<subseteq> set (secrets_of (rememberSecrets X m j req) k)"
  by (auto simp: rememberSecrets_def secrets_of_def add_new_set Let_def split: option.split)

lemma clear_other: "j \<noteq> k \<Longrightarrow> secrets_of (clearSecrets m k) j = secrets_of m j"
  by (simp add: secrets_of_def clearSecrets_def)

lemma clear_closed: "closed_row m k \<Longrightarrow> closed_row (clearSecrets m k) k"
  by (simp add: closed_row_def clearSecrets_def)

interpretation remembering: ledger_relation "keeps_secrets R" "\<lambda>k. row_moves (k \<in> R)" for R
proof (unfold_locales, goal_cases)
  case (2 l m n)
  then show ?case by (rule keeps_secrets_trans)
next
  case (3 v m m' rows)
  then have "m_secrets m' = m_secrets m" by (auto simp: insert_op_def split: if_splits option.splits)
  then show ?case by (rule same_secrets [OF tables.inserted [OF 3]])
next
  case (4 k sts f m m' rows)
  then have "m_secrets m' = m_secrets m" by (auto simp: update_op_def split: if_splits option.splits)
  moreover have "evolves_op R m m'" by (rule tables.updated [OF 4])
  ultimately show ?case by (simp add: same_secrets)
next
  case (5 k ty p now m m' e)
  then have "m_secrets m' = m_secrets m" by (auto simp: insert_event_def Let_def split: if_splits)
  then show ?case by (rule same_secrets [OF tables.journaled [OF 5]])
next
  case (7 m X k req)
  show ?case using remember_more by (auto simp: keeps_secrets_def tables.secrets_rel)
next
  case (8 m k)
  have "closed_row (clearSecrets m k) j \<or> set (secrets_of m j) \<subseteq> set (secrets_of (clearSecrets m k) j)" for j
    using clear_closed [OF 8] by (cases "j = k") (auto simp: clear_other)
  then show ?case by (simp add: keeps_secrets_def tables.cleared_rel [OF 8])
next
  case (10 v w k)
  then show ?case by (rule row_moves_weaken)
next
  case (6 m e)
  show ?case by (rule same_secrets [OF tables.published_rel]) (simp add: publishEvent_def put_set_def Let_def)
next
  case (9 m i c)
  show ?case by (rule same_secrets [OF tables.causes_rel]) (simp add: cancel_context_def)
qed simp

section \<open>Runs\<close>

lemma memory_keeps: "keeps_secrets R m (begin_runtime k m)" "keeps_secrets R m (end_runtime k i m)" "keeps_secrets R m (removeWatcher k i m)"
    "keeps_secrets R m (fst (sendWatcherEvent i e m))" "keeps_secrets R m (fst (receive i n m))" "keeps_secrets R m (fst (Watch_op r m k))"
    "CloseOrdinaryWatchers m = Some m' \<Longrightarrow> keeps_secrets R m m'"
proof -
  show "keeps_secrets R m (fst (Watch_op r m k))"
    by (rule same_secrets [OF Watch_op_evolves]) (auto simp: Watch_op_def put_set_def Let_def split: sum.split)
  show "keeps_secrets R m m'" if "CloseOrdinaryWatchers m = Some m'"
    using that by (intro same_secrets same_evolves close_tables) (auto simp: CloseOrdinaryWatchers_def split: option.splits)
qed (rule same_secrets, blast, simp add: begin_runtime_def end_runtime_def cancel_context_def removeWatcher_def put_set_def sendWatcherEvent_def receive_def)+

lemma reopen_keeps: "keeps_secrets {k} m (fst (ReopenForReplay X db clk m k))"
  by (rule remembering.ReopenForReplay_step) (simp add: reopened_moves)

lemma apply_keeps_secrets: "keeps_secrets (reopened_by c) m (ledger_apply X c m)"
  by (cases c) (auto intro: remembering.StartOrGet_step remembering.UpdateState_step remembering.claimRunning_step remembering.outcome_steps remembering.terminal_op_step
      remembering.Recover_op_step remembering.Cancel_op_step remembering.Reconcile_op_step remembering.Progress_op_step remembering.secrets_rel remembering.causes_rel
      memory_keeps reopen_keeps simp: terminalOperationState_def split: option.split)

lemma run_keeps_secrets: "keeps_secrets (reopened cs) m (ledger_run X cs m)"
proof (induction cs arbitrary: m)
  case (Cons c cs)
  have "keeps_secrets (reopened (c # cs)) m (ledger_apply X c m)"
    by (rule keeps_secrets_weaken [OF apply_keeps_secrets]) (simp add: reopened_def)
  moreover have "keeps_secrets (reopened (c # cs)) (ledger_apply X c m) (ledger_run X cs (ledger_apply X c m))"
    by (rule keeps_secrets_weaken [OF Cons.IH]) (auto simp: reopened_def)
  ultimately show ?case using keeps_secrets_trans by simp
qed simp

text \<open>An operation that is pending or running, and has not been reopened, has all the secrets that were ever remembered for it.\<close>

lemma open_row_remembers:
  assumes "ledger_ok m" "p \<in> set (secrets_of m k)" "k \<notin> reopened cs" "lookup (m_ops (ledger_run X cs m)) k = Some u" "co_State u = Pending \<or> co_State u = Running"
  shows "p \<in> set (secrets_of (ledger_run X cs m) k)"
proof -
  have "\<not> closed_row (ledger_run X cs m) k" using assms(4,5) by (auto simp: closed_row_def rank_def)
  then show ?thesis using run_keeps_secrets [of cs m X] assms(1-3) unfolding keeps_secrets_def by blast
qed

end
