(* ===== verification/Ledger_Safety.thy ===== *)
theory Ledger_Safety
  imports Ledger_Watch Ledger_Secrets
begin

text \<open>
  The properties of the capability operation ledger: one admission per identifier, states that only move forward, outcomes of executions, what a restart leaves, what redaction keeps
  out of the tables, and what can go wrong between the memory and the database.
\<close>

section \<open>Single calls\<close>

lemma Get_found: "Get_op (Answered t) m k = Inr v \<Longrightarrow> \<exists>w. lookup (m_ops m) k = Some w \<and> co_State v = co_State w"
  by (auto simp: Get_op_def getWithRow_def operationQuery_def split: option.splits if_splits)

lemma Get_row: "Get_op r m k = Inr v \<Longrightarrow> \<exists>w. lookup (m_ops m) k = Some w \<and> co_State v = co_State w"
  by (cases r) (auto simp: Get_op_def getWithRow_def operationQuery_def split: option.splits if_splits)

lemma unchanged_state: "fst (unchanged r k st m) = m"
  by (simp add: unchanged_def split: sum.split)

lemma clear_fields [simp]: "m_ops (clearSecrets m k) = m_ops m" "m_causes (clearSecrets m k) = m_causes m" "m_runtime (clearSecrets m k) = m_runtime m"
  by (simp_all add: clearSecrets_def)

lemma ms_bind_ops: "(\<And>v m'. m_ops (fst (f v m')) = m_ops m') \<Longrightarrow> m_ops (fst (ms_bind r f)) = m_ops (fst r)"
  by (auto simp: ms_bind_def split: prod.split sum.split)

text \<open>An answered transition writes its row, unless a constraint refuses it.\<close>

definition ended_row :: "ext \<Rightarrow> Manager \<Rightarrow> string \<Rightarrow> OpState \<Rightarrow> string \<Rightarrow> string \<Rightarrow> string \<Rightarrow> gotime \<Rightarrow> CapOperation \<Rightarrow> CapOperation" where
  "ended_row X m k st result code message now v = v\<lparr>co_State := st, co_ResultJSON := redactJSON X m k result, co_ErrorCode := code,
     co_ErrorMessage := redactString m k message, co_UpdatedAt := now, co_CompletedAt := Some now\<rparr>"

lemma terminal_effect:
  assumes "m_db m" "lookup (m_ops m) k = Some v" "co_State v = Running \<or> co_State v = Pending" "db 0 = Answered t"
  shows "terminal_op X db clk m k st result code message =
    (if row_ok (ended_row X m k st result code message (to_UTC (clk 0)) v)
     then (case terminal_event X st (redactJSON X m k result) code (redactString m k message) of (ty, payload) \<Rightarrow>
       ms_bind (emitEvent X (db 1) (clk 1) k ty payload (m\<lparr>m_ops := put k (ended_row X m k st result code message (to_UTC (clk 0)) v) (m_ops m)\<rparr>))
         (\<lambda>_ m2. (if terminalOperationState st then clearSecrets m2 k else m2, Inr ())))
     else (m, Inl (Database t)))"
proof -
  have "co_State v \<in> set (if st = Failed then [Pending, Running, Uncertain] else [Pending, Running])" using assms(3) by auto
  then have "update_op k (if st = Failed then [Pending, Running, Uncertain] else [Pending, Running]) (ended_row X m k st result code message (to_UTC (clk 0))) m
     = (if row_ok (ended_row X m k st result code message (to_UTC (clk 0)) v)
        then Some (m\<lparr>m_ops := put k (ended_row X m k st result code message (to_UTC (clk 0)) v) (m_ops m)\<rparr>, 1) else None)"
    unfolding update_op_def assms(2) option.case by (simp only: simp_thms if_False)
  then show ?thesis
    unfolding terminal_op_def Let_def statement_def assms(4) using assms(1)
    by (simp add: ensure_def ms_bind_def ended_row_def [abs_def] cong: if_cong)
qed

lemma terminal_written:
  assumes "m_db m" "lookup (m_ops m) k = Some v" "co_State v = Running \<or> co_State v = Pending" "db 0 = Answered t"
  shows "lookup (m_ops (fst (terminal_op X db clk m k st result code message))) k =
    Some (if row_ok (ended_row X m k st result code message (to_UTC (clk 0)) v) then ended_row X m k st result code message (to_UTC (clk 0)) v else v)"
  unfolding terminal_effect [where db = db, OF assms] using assms(2)
  by (simp add: case_prod_unfold ms_bind_ops emit_fields)

section \<open>Executions\<close>

lemma Execute_evolves: "(\<And>i m. evolves_op R m (xe_others E i m)) \<Longrightarrow> evolves_op R m (xr_manager (Execute_op X E adm exe h m k))"
proof -
  assume others: "\<And>i m. evolves_op R m (xe_others E i m)"
  note steps = tables.outcome_steps tables.terminal_op_step
  have errs: "evolves_op R m (record_error X E k i e m)" for i e m
    unfolding record_error_def by (auto simp: terminalOperationState_def split: option.split intro: steps)
  have ends: "evolves_op R m (after_handler X E k i a m)" for i a m
    unfolding after_handler_def by (auto split: sum.split intro: steps evolves_op_trans [OF others errs])
  have "evolves_op R m (xr_manager (run_claimed X E h k i m))" for h i m
  proof -
    obtain m1 r where c: "claimRunning X (xe_db E 2) (xe_clk E 2) m k = (m1, r)" by (metis surj_pair)
    then have "evolves_op R m m1" using tables.claimRunning_step by (metis fst_conv)
    moreover have "evolves_op R m1 (xr_manager (run_claimed X E h k i m))"
      unfolding run_claimed_def c Let_def outcome_def
      by (auto split: sum.split intro: evolves_op_trans [OF others] steps ends)
    ultimately show ?thesis by (rule evolves_op_trans)
  qed
  then have "evolves_op R m (end_runtime k i (xr_manager (run_claimed X E h k j (xe_others E 2 (begin_runtime k m)))))" for m i j h
    by (meson evolves_op_trans memory_evolves others)
  note run = evolves_op_trans [OF evolves_op_trans [OF others others] this]
  show ?thesis unfolding Execute_op_def Let_def outcome_def
    by (auto split: option.split sum.split intro: steps others run evolves_op_trans [OF evolves_op_trans [OF others others]])
qed

text \<open>The claim of an operation that is not pending or running fails.\<close>

lemma claim_refused: "lookup (m_ops m) k = Some v \<Longrightarrow> co_State v \<noteq> Pending \<Longrightarrow> co_State v \<noteq> Running \<Longrightarrow> \<exists>e. snd (claimRunning X db clk m k) = Inl e"
  by (auto simp: claimRunning_def statement_def update_op_def ms_bind_def unchanged_def dest: Get_row split: option.split reply.split sum.split)

lemma forward_rank: "forward v w \<Longrightarrow> rank (co_State v) \<le> rank (co_State w)"
  by (auto simp: forward_def)

text \<open>C17. A finished operation is never executed. Whatever other callers do to the ledger before and while \<open>Execute\<close> runs, and whatever the database answers, an operation that is completed, failed,
  cancelled or uncertain and is not reopened has its handler not called, and a completed or cancelled one keeps its row.\<close>

theorem finished_operations_are_not_executed:
  assumes "ledger_ok m" "lookup (m_ops m) k = Some v" "terminalOperationState (co_State v)" "\<And>i. interferes X R (xe_others E i)" "k \<notin> R"
  shows "\<not> xr_ran (Execute_op X E adm exe h m k) \<and> (final v \<longrightarrow> lookup (m_ops (xr_manager (Execute_op X E adm exe h m k))) k = Some v)"
proof
  have others: "evolves_op R m (xe_others E i m)" for i m using interferes_evolves [OF assms(4)] .
  have "ledger_call R (\<lambda>m. xr_manager (Execute_op X E adm exe h m k))" by unfold_locales (rule Execute_evolves [OF others])
  from ledger_call.keeps_final [OF this assms(1,2)]
  show "final v \<longrightarrow> lookup (m_ops (xr_manager (Execute_op X E adm exe h m k))) k = Some v" by blast
  let ?m = "xe_others E 2 (begin_runtime k (xe_others E 1 (xe_others E 0 m)))"
  have "evolves_op R m ?m" by (meson others evolves_op_trans memory_evolves(6))
  then obtain w where w: "lookup (m_ops ?m) k = Some w" "forward v w"
    using assms(1,2,5) unfolding evolves_op_def moves_def row_moves_def by metis
  have "2 \<le> rank (co_State v)" using assms(3) by (auto simp: terminalOperationState_def rank_def)
  then have "2 \<le> rank (co_State w)" using forward_rank [OF w(2)] by simp
  then have "co_State w \<noteq> Pending" "co_State w \<noteq> Running" by (auto simp: rank_def)
  then obtain e where "snd (claimRunning X (xe_db E 2) (xe_clk E 2) ?m k) = Inl e" using claim_refused [OF w(1)] by blast
  then have "\<not> xr_ran (run_claimed X E hh k i ?m)" for hh i by (auto simp: run_claimed_def outcome_def split: prod.split sum.split)
  then show "\<not> xr_ran (Execute_op X E adm exe h m k)"
    unfolding Execute_op_def Let_def outcome_def by (simp split: option.split sum.split)
qed

section \<open>The outcome of an execution\<close>

text \<open>Nobody else uses the ledger, and the database answers.\<close>

definition quiet :: "exec_env \<Rightarrow> bool" where
  "quiet E \<longleftrightarrow> (\<forall>i m. xe_others E i m = m) \<and> (\<forall>i j. \<exists>t. xe_db E i j = Answered t)"

text \<open>The state, the code and the message that an error of the handler stands for.\<close>

definition verdict :: "goerror \<Rightarrow> OpState \<times> string \<times> string" where
  "verdict e = (if errors_Is e Canceled \<or> errors_Is e DeadlineExceeded then (Uncertain, ''UNCERTAIN'', error_text e)
     else if IsUncertain (Some e) then (Uncertain, ''UNCERTAIN'', reconcile_reason)
     else case FailureDetails e of Some (code, message) \<Rightarrow> if code = ''CANCELLED'' then (Cancelled, [], message) else (Failed, code, message)
     | None \<Rightarrow> (Failed, ''UPSTREAM_FAILED'', ''Agent operation failed''))"

definition asked_row :: "ext \<Rightarrow> exec_env \<Rightarrow> Manager \<Rightarrow> string \<Rightarrow> goerror + string \<Rightarrow> CapOperation \<Rightarrow> CapOperation" where
  "asked_row X E m k answer v = (case answer of
     Inr result \<Rightarrow> ended_row X m k Completed result [] [] (to_UTC (xe_clk E 5 0)) v
   | Inl e \<Rightarrow> (case verdict e of (st, code, message) \<Rightarrow> ended_row X m k st [] code message (to_UTC (xe_clk E 6 0)) v))"

lemma claim_effect:
  assumes "m_db m" "lookup (m_ops m) k = Some v" "co_State v = Pending" "db 0 = Answered t" "claimRunning X db clk m k = (m1, Inr ())"
  shows "lookup (m_ops m1) k = Some (v\<lparr>co_State := Running, co_UpdatedAt := to_UTC (clk 0)\<rparr>)" "m_causes m1 = m_causes m" "m_db m1" "m_secrets m1 = m_secrets m"
proof -
  let ?w = "v\<lparr>co_State := Running, co_UpdatedAt := to_UTC (clk 0)\<rparr>"
  have "row_ok ?w" and e: "emitEvent X (db 1) (clk 1) k ''running'' (object_text X [(''state'', OpState_string Running)]) (m\<lparr>m_ops := put k ?w (m_ops m)\<rparr>) = (m1, Inr ())"
    using assms by (auto simp: claimRunning_def ensure_def statement_def update_op_def ms_bind_def split: if_splits)
  from arg_cong [OF e, of fst] have m1: "m1 = fst (emitEvent X (db 1) (clk 1) k ''running'' (object_text X [(''state'', OpState_string Running)]) (m\<lparr>m_ops := put k ?w (m_ops m)\<rparr>))" by simp
  show "lookup (m_ops m1) k = Some ?w" "m_causes m1 = m_causes m" "m_db m1" "m_secrets m1 = m_secrets m"
    unfolding m1 emit_fields using assms(1) by simp_all
qed

lemma record_written:
  assumes "m_db m" "lookup (m_ops m) k = Some v" "co_State v = Running" "xe_db E 6 0 = Answered t" "cause_of m i = None"
  shows "lookup (m_ops (record_error X E k i e m)) k = Some (let w = asked_row X E m k (Inl e) v in if row_ok w then w else v)"
proof -
  note t = terminal_written [where db = "xe_db E 6" and clk = "xe_clk E 6", OF assms(1,2) disjI1 [OF assms(3)] assms(4)]
  show ?thesis
    unfolding record_error_def asked_row_def verdict_def context_error_def assms(5) Let_def Fail_op_def markUncertain_def
    by (simp add: t split: option.split)
qed

lemma executed:
  assumes q: "quiet E" and m: "m_db m" "TrimSpace k \<noteq> []" "lookup (m_ops m) k = Some v" "co_State v = Pending"
    and guards: "\<And>u. checkAdmission adm u = None" "\<And>u. acquireExecution exe u = None"
    and claim: "claimRunning X (xe_db E 2) (xe_clk E 2) (begin_runtime k m) k = (m1, Inr ())" and g: "Get_op (xe_db E 3 0) m1 k = Inr g"
  shows "Execute_op X E adm exe (Some h) m k = \<lparr>xr_manager = end_runtime k (length (m_causes m)) (after_handler X E k (length (m_causes m)) (h g) m1), xr_ran = True,
      xr_error = (case h g of Inl e \<Rightarrow> Some e | Inr _ \<Rightarrow> None)\<rparr>"
proof -
  have others [simp]: "xe_others E i x = x" for i x using q by (simp add: quiet_def)
  obtain t t2 where a: "xe_db E 0 0 = Answered t" "xe_db E 2 0 = Answered t2" using q unfolding quiet_def by metis
  have "m_db (begin_runtime k m)" "lookup (m_ops (begin_runtime k m)) k = Some v" using m by (simp_all add: begin_runtime_def)
  note m1 = claim_effect [OF this m(4) a(2) claim]
  have "cause_of m1 (length (m_causes m)) = None" unfolding cause_of_def m1(2) by (simp add: begin_runtime_def)
  moreover have "\<exists>u. Get_op (xe_db E 0 0) m k = Inr u" using m by (simp add: Get_op_def ensure_def getWithRow_def operationQuery_def a(1))
  ultimately show ?thesis using guards claim g by (auto simp: Execute_op_def run_claimed_def explicitly_cancelled_def outcome_def Let_def)
qed

lemma execution_recorded:
  assumes "quiet E" "m_db m" "TrimSpace k \<noteq> []" "lookup (m_ops m) k = Some v" "co_State v = Pending"
    and "\<And>u. checkAdmission adm u = None" "\<And>u. acquireExecution exe u = None"
    and "claimRunning X (xe_db E 2) (xe_clk E 2) (begin_runtime k m) k = (m1, Inr ())" "Get_op (xe_db E 3 0) m1 k = Inr g"
  shows "xr_ran (Execute_op X E adm exe (Some h) m k) \<and> lookup (m_ops (xr_manager (Execute_op X E adm exe (Some h) m k))) k =
    (let running = v\<lparr>co_State := Running, co_UpdatedAt := to_UTC (xe_clk E 2 0)\<rparr>; w = asked_row X E m k (h g) running in
     Some (if row_ok w then w else running))"
proof -
  let ?run = "v\<lparr>co_State := Running, co_UpdatedAt := to_UTC (xe_clk E 2 0)\<rparr>" and ?i = "length (m_causes m)"
  obtain t2 t5 t6 where a: "xe_db E 2 0 = Answered t2" "xe_db E 5 0 = Answered t5" "xe_db E 6 0 = Answered t6" using assms(1) unfolding quiet_def by metis
  have others [simp]: "xe_others E i x = x" for i x using assms(1) by (simp add: quiet_def)
  have "m_db (begin_runtime k m)" "lookup (m_ops (begin_runtime k m)) k = Some v" using assms by (simp_all add: begin_runtime_def)
  note m1 = claim_effect [OF this assms(5) a(1) assms(8)]
  have cause: "cause_of m1 ?i = None" unfolding cause_of_def m1(2) by (simp add: begin_runtime_def)
  have sec: "secrets_of m1 k = secrets_of m k" unfolding secrets_of_def m1(4) by (simp add: begin_runtime_def)
  have same: "asked_row X E m1 k a w = asked_row X E m k a w" for a w
    by (simp add: asked_row_def ended_row_def redactJSON_def redactString_def sec split: sum.split prod.split)
  have "lookup (m_ops (after_handler X E k ?i (h g) m1)) k = Some (let w = asked_row X E m1 k (h g) ?run in if row_ok w then w else ?run)"
  proof (cases "h g")
    case (Inr r)
    then show ?thesis
      using terminal_written [where db = "xe_db E 5" and clk = "xe_clk E 5", OF m1(3,1) _ a(2)]
      by (simp add: after_handler_def Complete_op_def asked_row_def)
  next
    case (Inl e)
    have rec: "lookup (m_ops (record_error X E k ?i e m1)) k = Some (let w = asked_row X E m1 k (Inl e) ?run in if row_ok w then w else ?run)"
      by (rule record_written [OF m1(3,1) _ a(3) cause]) simp
    have "co_State u \<noteq> Cancelled" if "Get_op (xe_db E 5 0) m1 k = Inr u" for u using Get_row [OF that] m1(1) by auto
    then have "after_handler X E k ?i (Inl e) m1 = record_error X E k ?i e m1"
      by (auto simp: after_handler_def explicitly_cancelled_def cause split: sum.split)
    then show ?thesis unfolding Inl using rec by simp
  qed
  then show ?thesis unfolding executed [OF assms] same by (simp add: end_runtime_def cancel_context_def Let_def)
qed

text \<open>C18. What an execution records. When a pending operation is executed with nobody interfering (no other call, and a handler that publishes no progress), a database that answers, an admission and an execution guard that let
  every operation pass, and a claim and a re-read of the row that succeed, the handler runs once and its answer decides the row: completed with the redacted result, uncertain for a cancelled, timed out or
  explicitly uncertain outcome, cancelled or failed with the code of a typed failure, failed as upstream otherwise. The row is written exactly if it satisfies the constraints of the table; otherwise the operation
  stays running.\<close>

theorem Execute_records_the_answer:
  assumes "quiet E" "m_db m" "TrimSpace k \<noteq> []" "lookup (m_ops m) k = Some v" "co_State v = Pending"
    and "\<And>u. checkAdmission adm u = None" "\<And>u. acquireExecution exe u = None"
    and "claimRunning X (xe_db E 2) (xe_clk E 2) (begin_runtime k m) k = (m1, Inr ())" "Get_op (xe_db E 3 0) m1 k = Inr g"
  shows "xr_ran (Execute_op X E adm exe (Some h) m k) \<and> lookup (m_ops (xr_manager (Execute_op X E adm exe (Some h) m k))) k =
    (let running = v\<lparr>co_State := Running, co_UpdatedAt := to_UTC (xe_clk E 2 0)\<rparr>; w = asked_row X E m k (h g) running in
     Some (if row_ok w then w else running))"
  using assms by (rule execution_recorded)

text \<open>A result the table refuses is lost. When a pending operation is executed with nobody interfering (no other call, and a handler that publishes no progress), a database that answers, guards that let every operation
  pass, and a claim and a re-read that succeed, and its handler succeeds with no result, or with one whose redacted text is over a mebibyte, then \<open>Execute\<close> drops the error of the refused update: it returns, no
  event is journaled after the claim, no execution is registered any more, and the operation still reads as running.\<close>

theorem unstorable_result_leaves_running:
  assumes "quiet E" "m_db m" "TrimSpace k \<noteq> []" "lookup (m_ops m) k = Some v" "co_State v = Pending"
    and "\<And>u. checkAdmission adm u = None" "\<And>u. acquireExecution exe u = None"
    and "claimRunning X (xe_db E 2) (xe_clk E 2) (begin_runtime k m) k = (m1, Inr ())" "Get_op (xe_db E 3 0) m1 k = Inr g"
    and "h g = Inr r" "r = [] \<or> (\<exists>t. redactJSON X m k r = Some t \<and> MaxPayload < length t)"
  shows "lookup (m_ops (xr_manager (Execute_op X E adm exe (Some h) m k))) k = Some (v\<lparr>co_State := Running, co_UpdatedAt := to_UTC (xe_clk E 2 0)\<rparr>)
    \<and> m_events (xr_manager (Execute_op X E adm exe (Some h) m k)) = m_events m1 \<and> lookup (m_runtime (xr_manager (Execute_op X E adm exe (Some h) m k))) k = None"
proof -
  let ?run = "v\<lparr>co_State := Running, co_UpdatedAt := to_UTC (xe_clk E 2 0)\<rparr>"
  obtain t2 t5 where a: "xe_db E 2 0 = Answered t2" "xe_db E 5 0 = Answered t5" using assms(1) unfolding quiet_def by metis
  have "m_db (begin_runtime k m)" "lookup (m_ops (begin_runtime k m)) k = Some v" using assms by (simp_all add: begin_runtime_def)
  note m1 = claim_effect [OF this assms(5) a(1) assms(8)]
  have sec: "secrets_of m1 k = secrets_of m k" unfolding secrets_of_def m1(4) by (simp add: begin_runtime_def)
  have "\<not> row_ok (ended_row X m1 k Completed r [] [] now ?run)" for now
    using assms(11) by (auto simp: row_ok_def ended_row_def sec redactJSON_def redact_payload_def [of X _ "[]"])
  then have "fst (Complete_op X (xe_db E 5) (xe_clk E 5) m1 k r) = m1"
    unfolding Complete_op_def using terminal_effect [where db = "xe_db E 5" and clk = "xe_clk E 5", OF m1(3,1) _ a(2), of X Completed r "[]" "[]"] by simp
  then show ?thesis unfolding executed [OF assms(1-9)] using m1(1)
    by (simp add: assms(10) after_handler_def end_runtime_def cancel_context_def)
qed

text \<open>C25. \<open>Cancel\<close> drops the outcome of a handler that fails in another way. When the running handler answers the cancellation with an error that is not a cancellation, \<open>Execute\<close> leaves the
  outcome to \<open>Cancel\<close> and \<open>Cancel\<close> returns the error without writing anything: the operation stays running with no handler, and no event tells.\<close>

theorem Cancel_drops_other_failures:
  assumes "m_db m" "TrimSpace k \<noteq> []" "lookup (m_ops m) k = Some v" "co_State v = Running" "lookup (m_runtime m) k = Some i" "i < length (m_causes m)" "m_causes m ! i = None"
    and "\<not> errors_Is e Canceled" "\<not> errors_Is e ErrExplicitCancel" "db 0 = Answered t"
  shows "case Cancel_op X db clk (HandlerDone (Some e)) (\<lambda>m. end_runtime k i (after_handler X E k i (Inl e) m)) m k reason of (m', r) \<Rightarrow>
    r = Inl e \<and> lookup (m_ops m') k = Some v \<and> m_events m' = m_events m \<and> lookup (m_runtime m') k = None"
proof -
  let ?c = "cancel_context i ErrExplicitCancel m"
  have "explicitly_cancelled ?c i" using assms(6,7) by (simp add: explicitly_cancelled_def cause_of_def cancel_context_def errors_Is_def)
  then have "after_handler X E k i (Inl e) ?c = ?c" by (simp add: after_handler_def)
  moreover have "Get_op (db 0) m k = Inr (v\<lparr>co_Sequence := max_event k (m_events m), co_CompletedAt := map_option to_UTC (co_CompletedAt v)\<rparr>)"
    using assms(1-3,10) by (simp add: Get_op_def ensure_def getWithRow_def operationQuery_def)
  ultimately show ?thesis using assms
    by (simp add: Cancel_op_def await_handler_def ms_bind_def ensure_def end_runtime_def, simp add: cancel_context_def)
qed

section \<open>Admission\<close>

text \<open>C15. The ledger only moves forward. From any ledger that a sequence of calls reaches, with any replies of the database, and along any further sequence: an operation keeps its row and its binding
  (identifier, capability, digests, revisions, owner, generation), a completed or cancelled one keeps everything, and one that is not reopened only advances from pending through
  running and uncertain to its end. The journal only grows, with ascending identifiers.\<close>

theorem operations_only_move_forward:
  assumes "m = ledger_run X cs (NewManager b)" "lookup (m_ops m) k = Some v" "m' = ledger_run X ds m"
  shows "\<exists>w. lookup (m_ops m') k = Some w \<and> binding w = binding v \<and> (final v \<longrightarrow> w = v) \<and> (k \<notin> reopened ds \<longrightarrow> forward v w)
    \<and> (\<exists>es. m_events m' = m_events m @ es) \<and> sorted_wrt (<) (map ce_ID (m_events m'))"
proof -
  have ok: "ledger_ok m" using assms(1) reached_ok by simp
  from ledger_call.keeps_row [OF run_call ok assms(2)] obtain w where "lookup (m_ops m') k = Some w" "row_moves (k \<in> reopened ds) v w"
    unfolding assms(3) by blast
  moreover have "\<exists>es. m_events m' = m_events m @ es" using ledger_call.journal_grows [OF run_call ok] unfolding assms(3) .
  moreover have "ledger_ok m'" using ledger_call.keeps_ok [OF run_call ok] unfolding assms(3) .
  ultimately show ?thesis unfolding row_moves_def ledger_ok_def by blast
qed

text \<open>A call that admits the operation \<open>k\<close>.\<close>

definition admits :: "ext \<Rightarrow> string \<Rightarrow> ledger_command \<Rightarrow> Manager \<Rightarrow> bool" where
  "admits X k c m = (case c of DoStart db clk g (Some v) \<Rightarrow> co_ID v = k \<and> (case snd (StartOrGet X db clk g m (Some v)) of Inr (_, new) \<Rightarrow> new | Inl _ \<Rightarrow> False) | _ \<Rightarrow> False)"

fun admissions :: "ext \<Rightarrow> string \<Rightarrow> ledger_command list \<Rightarrow> Manager \<Rightarrow> nat" where
  "admissions X k [] m = 0"
| "admissions X k (c # cs) m = (if admits X k c m then 1 else 0) + admissions X k cs (ledger_apply X c m)"

lemma with_digests_ID [simp]: "co_ID (with_digests X v) = co_ID v"
  by (simp add: with_digests_def Let_def)

lemma insert_event_ops: "insert_event k ty p now m = Some (m', e) \<Longrightarrow> m_ops m' = m_ops m"
  by (auto simp: insert_event_def Let_def split: if_splits)

lemma in_tx_cases: "in_tx r what f m m1 g = (m', Inr x) \<Longrightarrow> \<exists>m2 v. f m1 = Some (m2, v) \<and> g v m2 = (m', Inr x)"
  by (auto simp: in_tx_def statement_def split: reply.splits option.splits)

lemma publish_ops [simp]: "m_ops (publishEvent e m) = m_ops m" "m_events (publishEvent e m) = m_events m" "m_ops (rememberSecrets X m k r) = m_ops m"
  using memory_steps(4) [of m e] memory_steps(1) [of m X k r] by (simp_all add: same_tables_def)

lemma start_admitted: "startPostgres X db clk g m v raw = (m', Inr (w, True)) \<Longrightarrow> lookup (m_ops m) (co_ID v) = None \<and> lookup (m_ops m') (co_ID v) = Some (inserted_row (to_UTC clk) v)"
  unfolding startPostgres_def Let_def
  by (auto simp: insert_op_def inserted_row_def ms_bind_def commit_def split: option.splits if_splits sum.splits reply.splits dest!: in_tx_cases insert_event_ops)

lemma start_replayed: "startPostgres X db clk g m v raw = (m', Inr (w, False)) \<Longrightarrow> m' = m \<and> (\<exists>u. lookup (m_ops m) (co_ID v) = Some u \<and> sameRequest u v)"
  unfolding startPostgres_def Let_def
  by (auto simp: insert_op_def inserted_row_def ms_bind_def commit_def getWithRow_def operationQuery_def sameRequest_def split: option.splits if_splits sum.splits reply.splits
      dest!: in_tx_cases)

lemma admits_row: "admits X k c m \<Longrightarrow> lookup (m_ops m) k = None \<and> lookup (m_ops (ledger_apply X c m)) k \<noteq> None"
proof -
  assume "admits X k c m"
  then obtain db clk g v w where c: "c = DoStart db clk g (Some v)" "co_ID v = k" "snd (StartOrGet X db clk g m (Some v)) = Inr (w, True)"
    by (auto simp: admits_def split: ledger_command.splits option.splits sum.splits)
  then have "StartOrGet X db clk g m (Some v) = startPostgres X db clk g m (with_digests X v) (co_RequestJSON v)"
    by (auto simp: StartOrGet_def split: option.splits if_splits)
  with c have "startPostgres X db clk g m (with_digests X v) (co_RequestJSON v) = (ledger_apply X c m, Inr (w, True))"
    by (metis ledger_apply.simps(1) prod.collapse)
  from start_admitted [OF this] show ?thesis using c(2) by simp
qed

lemma admissions_none: "ledger_ok m \<Longrightarrow> lookup (m_ops m) k \<noteq> None \<Longrightarrow> admissions X k cs m = 0"
proof (induction cs arbitrary: m)
  case (Cons c cs)
  have call: "ledger_call (reopened_by c) (ledger_apply X c)" by unfold_locales (rule apply_evolves)
  have "ledger_ok (ledger_apply X c m)" using ledger_call.keeps_ok [OF call Cons.prems(1)] .
  moreover have "lookup (m_ops (ledger_apply X c m)) k \<noteq> None" using ledger_call.keeps_row [OF call Cons.prems(1)] Cons.prems(2) by blast
  moreover have "\<not> admits X k c m" using admits_row [of X k c m] Cons.prems(2) by auto
  ultimately show ?case using Cons.IH by simp
qed simp

text \<open>C16. An identifier is admitted at most once. Along any sequence of calls, with a database that may refuse statements or lose their replies, at most one \<open>StartOrGet\<close> reports a new operation for an
  identifier, so at most one caller starts its handler; and one that reports an existing operation does so only for the same capability, operation, root digest, owner and generation, and changes nothing.\<close>

theorem operation_admitted_once:
  "admissions X k cs (NewManager b) \<le> 1 \<and>
   (StartOrGet X db clk g m (Some v) = (m', Inr (w, False)) \<longrightarrow> m' = m \<and> (\<exists>u. lookup (m_ops m) (co_ID v) = Some u \<and> sameRequest u (with_digests X v)))"
proof
  have "admissions X k cs m \<le> 1" if "ledger_ok m" for m using that
  proof (induction cs arbitrary: m)
    case (Cons c cs)
    have ok: "ledger_ok (ledger_apply X c m)" using apply_evolves [of c m X] Cons.prems by (simp add: evolves_op_def)
    then show ?case using Cons.IH [OF ok] admits_row [of X k c m] admissions_none [OF ok] by (cases "admits X k c m") auto
  qed simp
  then show "admissions X k cs (NewManager b) \<le> 1" by simp
  show "StartOrGet X db clk g m (Some v) = (m', Inr (w, False)) \<longrightarrow> m' = m \<and> (\<exists>u. lookup (m_ops m) (co_ID v) = Some u \<and> sameRequest u (with_digests X v))"
    by (auto simp: StartOrGet_def split: option.splits if_splits dest: start_replayed)
qed

section \<open>What is never stored\<close>

text \<open>A manager without its memory of secrets.\<close>

definition forget :: "Manager \<Rightarrow> Manager" where
  "forget m = m\<lparr>m_secrets := []\<rparr>"

lemma forget_publish: "forget (publishEvent e (rememberSecrets X m k r)) = forget (publishEvent e m)"
  by (auto simp: forget_def publishEvent_def put_set_def watcher_set_def rememberSecrets_def Let_def split: option.split)

text \<open>C20. The request never reaches the ledger. Two requests that agree in everything but their JSON, with their digests given, lead to the same answer, the same tables and the same events for the
  watchers: the text of a request influences nothing but the secrets that are remembered in memory to be redacted.\<close>

theorem request_text_is_not_stored:
  assumes "co_RequestDigest v \<noteq> []" "co_RootRequestDigest v \<noteq> []"
  shows "snd (StartOrGet X db clk g m (Some (v\<lparr>co_RequestJSON := j\<rparr>))) = snd (StartOrGet X db clk g m (Some v))
    \<and> forget (fst (StartOrGet X db clk g m (Some (v\<lparr>co_RequestJSON := j\<rparr>)))) = forget (fst (StartOrGet X db clk g m (Some v)))"
proof -
  have "with_digests X (v\<lparr>co_RequestJSON := j\<rparr>) = with_digests X v" using assms by (simp add: with_digests_def Let_def)
  moreover have "snd (startPostgres X db clk g m u raw) = snd (startPostgres X db clk g m u raw') \<and>
      forget (fst (startPostgres X db clk g m u raw)) = forget (fst (startPostgres X db clk g m u raw'))" for u raw raw'
    by (simp add: startPostgres_def in_tx_def ms_bind_def Let_def forget_publish split: option.split sum.split prod.split)
  ultimately show ?thesis by (simp add: StartOrGet_def split: option.split)
qed

lemma remembered: "json_Unmarshal X raw = Some req \<Longrightarrow> TrimSpace k \<noteq> [] \<Longrightarrow> set (collectSecretValues X req) \<subseteq> set (secrets_of (rememberSecrets X m k raw) k)"
  by (auto simp: rememberSecrets_def secrets_of_def add_new_set Let_def)

lemma publish_secrets [simp]: "secrets_of (publishEvent e m) k = secrets_of m k"
  by (simp add: secrets_of_def publishEvent_def put_set_def Let_def)

lemma start_remembers: "startPostgres X db clk g m v raw = (m', Inr (w, True)) \<Longrightarrow> json_Unmarshal X raw = Some req \<Longrightarrow> TrimSpace (co_ID v) \<noteq> [] \<Longrightarrow>
    set (collectSecretValues X req) \<subseteq> set (secrets_of m' (co_ID v))"
  unfolding startPostgres_def Let_def
  by (auto simp: ms_bind_def split: option.splits if_splits sum.splits prod.splits dest!: in_tx_cases)
     (rule remembered [THEN subsetD])

text \<open>What the ledger keeps of a completed operation.\<close>

lemma complete_stored: "Complete_op X db clk m k r = (m', Inr ()) \<Longrightarrow> lookup (m_ops m) k = Some v \<Longrightarrow> co_State v \<noteq> Completed \<Longrightarrow>
    (co_State v = Pending \<or> co_State v = Running) \<and> (\<exists>w. lookup (m_ops m') k = Some w \<and> co_ResultJSON w = redactJSON X m k r \<and> row_ok w \<and> co_State w = Completed)"
proof -
  assume c: "Complete_op X db clk m k r = (m', Inr ())" and v: "lookup (m_ops m) k = Some v" "co_State v \<noteq> Completed"
  then have "m_db m" by (auto simp: Complete_op_def terminal_op_def ensure_def split: if_splits)
  have st: "co_State v = Running \<or> co_State v = Pending"
    using c v \<open>m_db m\<close> by (auto simp: Complete_op_def terminal_op_def ensure_def statement_def update_op_def ms_bind_def unchanged_def Let_def
        split: reply.splits option.splits if_splits sum.splits) (metis Get_row option.inject)
  obtain t where a: "db 0 = Answered t"
    using c v \<open>m_db m\<close> by (cases "db 0") (auto simp: Complete_op_def terminal_op_def ensure_def statement_def ms_bind_def Let_def split: option.splits)
  let ?w = "ended_row X m k Completed r [] [] (to_UTC (clk 0)) v"
  have ok: "row_ok ?w"
    using c unfolding Complete_op_def terminal_effect [where db = db and clk = clk, OF \<open>m_db m\<close> v(1) st a] by (auto split: if_splits)
  have "lookup (m_ops (fst (Complete_op X db clk m k r))) k = Some ?w"
    unfolding Complete_op_def using terminal_written [where db = db and clk = clk, OF \<open>m_db m\<close> v(1) st a, of X Completed r "[]" "[]"] ok by simp
  then show ?thesis using ok st by (auto simp: c ended_row_def)
qed

text \<open>C19. The string values of a stored result hold no secret of the request. After an admission whose request carries a credential under a sensitive key, and after any calls of the ledger that do not reopen the operation,
  the completion that ends it stores the result as an empty object, as it is or re-encoded. In the last two cases the value that the stored text was decoded from or encoded from has no member with a sensitive key and
  no string value that contains the credential, provided the credential cannot be confused with the text that replaces it. This is about string values of the decoded text: a member name that contains the credential
  is kept, and so is a member that decoding drops for a later one of the same name when nothing else has to change.\<close>

theorem request_secrets_are_redacted:
  assumes "ledger_ok m" "StartOrGet X db clk g m (Some v) = (m1, Inr (a, True))" "json_Unmarshal X (co_RequestJSON v) = Some req"
    and "p \<in> set (collectSecretValues X req)" "distinguishable p"
    and "m2 = ledger_run X cs m1" "co_ID v \<notin> reopened cs" "lookup (m_ops m2) (co_ID v) = Some u" "co_State u \<noteq> Completed"
    and "Complete_op X db' clk' m2 (co_ID v) r = (m3, Inr ())"
  shows "\<exists>w t. lookup (m_ops m3) (co_ID v) = Some w \<and> co_State w = Completed \<and> co_ResultJSON w = Some t \<and>
    (t = redactedRequestJSON \<or> (\<exists>j. (t = json_Marshal X j \<or> t = r \<and> json_Unmarshal X r = Some j)
      \<and> list_all (\<lambda>k. \<not> sensitiveJSONKey X k) (json_keys j) \<and> list_all (\<lambda>s. \<not> Contains s p) (json_strings j)))"
proof -
  have s: "startPostgres X db clk g m (with_digests X v) (co_RequestJSON v) = (m1, Inr (a, True))" "TrimSpace (co_ID v) \<noteq> []"
    using assms(2) by (auto simp: StartOrGet_def split: option.splits if_splits)
  have ok: "ledger_ok m1" using start_call.keeps_ok [OF assms(1)] assms(2) by (metis fst_conv)
  from complete_stored [OF assms(10,8,9)] obtain w where u: "co_State u = Pending \<or> co_State u = Running"
    and w: "lookup (m_ops m3) (co_ID v) = Some w" "co_ResultJSON w = redactJSON X m2 (co_ID v) r" "row_ok w" "co_State w = Completed" by auto
  then obtain t where t: "redactJSON X m2 (co_ID v) r = Some t" by (auto simp: row_ok_def)
  have "p \<in> set (secrets_of m1 (co_ID v))" using start_remembers [OF s(1) assms(3)] s(2) assms(4) by auto
  then have "p \<in> set (secrets_of m2 (co_ID v))" using open_row_remembers [OF ok _ assms(7)] u assms(8) unfolding assms(6) by blast
  with redact_payload_clean [OF t [unfolded redactJSON_def]] assms(5) show ?thesis
    using w(1,2,4) t unfolding clean_def list_all_iff by fastforce
qed

section \<open>Restart\<close>

text \<open>The texts of the events that the ledger writes itself are short.\<close>

definition short_events :: "ext \<Rightarrow> bool" where
  "short_events X \<longleftrightarrow> (\<forall>a b. length a \<le> 128 \<longrightarrow> length b \<le> 4096 \<longrightarrow>
     (case redact_payload X [] (object_text X [(''error_code'', a), (''error_message'', b)]) of None \<Rightarrow> False | Some t \<Rightarrow> length t \<le> MaxPayload))"

lemma no_secrets: "m_secrets m = [] \<Longrightarrow> secrets_of m k = []" "m_secrets m = [] \<Longrightarrow> redactString m k t = t"
  by (simp_all add: secrets_of_def redactString_def replace_secrets_def)

lemma emit_succeeds: "m_db m \<Longrightarrow> lookup (m_ops m) k \<noteq> None \<Longrightarrow> redactJSON X m k d = Some p \<Longrightarrow> length p \<le> MaxPayload \<Longrightarrow> ty \<in> set event_types \<Longrightarrow> r = Answered t \<Longrightarrow>
    \<exists>m'. emitEvent X r now k ty d m = (m', Inr ())"
  by (auto simp: emitEvent_def ensure_def statement_def insert_event_def event_ok_def Let_def)

lemma interrupted_text: "row_ok v \<Longrightarrow> co_State v = Pending \<or> co_State v = Running \<Longrightarrow> row_ok (v\<lparr>co_State := Uncertain, co_ResultJSON := None, co_ErrorCode := ''UNCERTAIN'',
    co_ErrorMessage := interrupted_reason, co_UpdatedAt := n, co_CompletedAt := d\<rparr>)"
proof -
  have "pg_text interrupted_reason" "char_length interrupted_reason \<le> 4096" "pg_text ''UNCERTAIN''" "char_length ''UNCERTAIN'' = 9"
    by code_simp+
  then show "row_ok v \<Longrightarrow> co_State v = Pending \<or> co_State v = Running \<Longrightarrow> ?thesis" by (auto simp: row_ok_def state_ok_def)
qed

definition fenced_row :: "gotime \<Rightarrow> CapOperation \<Rightarrow> CapOperation" where
  "fenced_row now v = v\<lparr>co_State := Uncertain, co_ResultJSON := None, co_ErrorCode := ''UNCERTAIN'', co_ErrorMessage := interrupted_reason, co_UpdatedAt := now, co_CompletedAt := Some now\<rparr>"

lemma mark_interrupted:
  assumes "m_db m" "m_secrets m = []" "short_events X" "\<And>j. \<exists>t. db j = Answered t" "lookup (m_ops m) k = Some v" "row_ok v" "co_State v = Pending \<or> co_State v = Running"
  shows "\<exists>m'. markUncertain X db clk m k interrupted_reason = (m', Inr ()) \<and> m_ops m' = put k (fenced_row (to_UTC (clk 0)) v) (m_ops m) \<and> m_db m' \<and> m_secrets m' = []"
proof -
  let ?w = "fenced_row (to_UTC (clk 0)) v" and ?d = "object_text X [(''error_code'', ''UNCERTAIN''), (''error_message'', interrupted_reason)]"
  obtain t0 t1 where a: "db 0 = Answered t0" "db 1 = Answered t1" using assms(4) by metis
  have e: "ended_row X m k Uncertain [] ''UNCERTAIN'' interrupted_reason (to_UTC (clk 0)) v = ?w"
    by (simp add: ended_row_def fenced_row_def redactJSON_def redact_payload_def no_secrets [OF assms(2)])
  have "row_ok ?w" unfolding fenced_row_def using interrupted_text [OF assms(6,7)] .
  let ?m = "m\<lparr>m_ops := put k ?w (m_ops m)\<rparr>"
  have "length interrupted_reason \<le> 4096" "length ''UNCERTAIN'' \<le> 128" by code_simp+
  then have "case redact_payload X [] ?d of None \<Rightarrow> False | Some t \<Rightarrow> length t \<le> MaxPayload" using assms(3) unfolding short_events_def by blast
  moreover have "redactJSON X ?m k ?d = redact_payload X [] ?d" using assms(2) by (simp add: redactJSON_def no_secrets)
  ultimately obtain p where "redactJSON X ?m k ?d = Some p" "length p \<le> MaxPayload" by (auto split: option.splits)
  then obtain m' where m': "emitEvent X (db 1) (clk 1) k ''error'' ?d ?m = (m', Inr ())"
    using emit_succeeds [of ?m k X ?d p "''error''" "db 1" t1 "clk 1"] assms(1) a(2) by (auto simp: event_types_def)
  have "m_ops m' = m_ops ?m" "m_db m' = m_db ?m" "m_secrets m' = m_secrets ?m"
    using emit_fields [of X "db 1" "clk 1" k "''error''" ?d ?m] unfolding m' by simp_all
  moreover have "markUncertain X db clk m k interrupted_reason = (clearSecrets m' k, Inr ())"
    unfolding markUncertain_def using terminal_effect [where db = db and clk = clk and st = Uncertain and X = X, OF assms(1,5) _ a(1)] assms(7) \<open>row_ok ?w\<close> m'
    by (auto simp: e terminal_event_def no_secrets [OF assms(2)] ms_bind_def terminalOperationState_def)
  ultimately show ?thesis using assms(1,2) by (simp add: clearSecrets_def del_def)
qed

lemma fence_all_effect:
  assumes "m_db m" "m_secrets m = []" "short_events X" "\<And>i j. \<exists>t. dbs i j = Answered t" "distinct ks"
    and "\<And>k. k \<in> set ks \<Longrightarrow> \<exists>v. lookup (m_ops m) k = Some v \<and> row_ok v \<and> (co_State v = Pending \<or> co_State v = Running)"
  shows "\<exists>m'. fence_all X dbs clks i ks m = (m', Inr ()) \<and> (\<forall>k v. lookup (m_ops m) k = Some v \<longrightarrow>
    (\<exists>now. lookup (m_ops m') k = Some (if k \<in> set ks then fenced_row now v else v)))"
  using assms
proof (induction ks arbitrary: m i)
  case (Cons k ks)
  obtain v where v: "lookup (m_ops m) k = Some v" "row_ok v" "co_State v = Pending \<or> co_State v = Running" using Cons.prems(6) [of k] by auto
  obtain m1 where m1: "markUncertain X (dbs i) (clks i) m k interrupted_reason = (m1, Inr ())" "m_ops m1 = put k (fenced_row (to_UTC (clks i 0)) v) (m_ops m)" "m_db m1" "m_secrets m1 = []"
    using mark_interrupted [where db = "dbs i" and clk = "clks i", OF Cons.prems(1-4) v] by blast
  have "\<exists>m'. fence_all X dbs clks (Suc i) ks m1 = (m', Inr ()) \<and> (\<forall>l u. lookup (m_ops m1) l = Some u \<longrightarrow>
      (\<exists>now. lookup (m_ops m') l = Some (if l \<in> set ks then fenced_row now u else u)))"
    using Cons.prems(3-6) by (intro Cons.IH m1(3,4)) (auto simp: m1(2))
  then obtain m' where m': "fence_all X dbs clks (Suc i) ks m1 = (m', Inr ())"
    "\<And>l u. lookup (m_ops m1) l = Some u \<Longrightarrow> \<exists>now. lookup (m_ops m') l = Some (if l \<in> set ks then fenced_row now u else u)" by blast
  have "\<exists>now. lookup (m_ops m') l = Some (if l \<in> set (k # ks) then fenced_row now u else u)" if "lookup (m_ops m) l = Some u" for l u
    using m'(2) [of l] that v(1) Cons.prems(5) by (cases "l = k") (auto simp: m1(2))
  then show ?case using m1(1) m'(1) by auto
qed simp

lemma interrupted_rows: "gomap (m_ops m) \<Longrightarrow> distinct (interrupted m) \<and> (k \<in> set (interrupted m) \<longleftrightarrow> (\<exists>v. lookup (m_ops m) k = Some v \<and> co_State v \<in> {Pending, Running}))"
proof -
  assume g: "gomap (m_ops m)"
  have "distinct (map fst (filter (\<lambda>(k, v). co_State v \<in> {Pending, Running}) (m_ops m)))" using g unfolding gomap_def by (rule distinct_map_filter)
  then have "distinct (interrupted m)"
    unfolding interrupted_def by (simp add: distinct_map)
  then show ?thesis using g by (auto simp: interrupted_def lookup_def gomap_def image_iff intro: map_of_SomeD map_of_is_SomeI)
qed

text \<open>C21. Recovery fences everything a former process left. With a database that answers, \<open>Recover\<close> succeeds in any ledger that calls can reach, and afterwards no operation is pending or running: each
  interrupted one is uncertain with its reason and keeps its binding, and every other row is unchanged.\<close>

theorem Recover_fences_interrupted:
  assumes "ledger_ok m" "m_db m" "m_secrets m = []" "short_events X" "r = Answered t" "\<And>i j. \<exists>t. dbs i j = Answered t"
  shows "\<exists>m'. Recover_op X r dbs clks m = (m', Inr ()) \<and> (\<forall>k v. lookup (m_ops m) k = Some v \<longrightarrow>
    (\<exists>w. lookup (m_ops m') k = Some w \<and> binding w = binding v \<and> (if co_State v \<in> {Pending, Running} then co_State w = Uncertain \<and> co_ErrorMessage w = interrupted_reason else w = v)))"
proof -
  have g: "gomap (m_ops m)" and rows: "\<And>k v. lookup (m_ops m) k = Some v \<Longrightarrow> row_ok v" using assms(1) by (auto simp: ledger_ok_def)
  have "\<exists>m'. fence_all X dbs clks 0 (interrupted m) m = (m', Inr ()) \<and> (\<forall>k v. lookup (m_ops m) k = Some v \<longrightarrow>
    (\<exists>now. lookup (m_ops m') k = Some (if k \<in> set (interrupted m) then fenced_row now v else v)))"
    using interrupted_rows [OF g] rows by (intro fence_all_effect assms) auto
  then obtain m' where m': "fence_all X dbs clks 0 (interrupted m) m = (m', Inr ())"
    "\<And>k v. lookup (m_ops m) k = Some v \<Longrightarrow> \<exists>now. lookup (m_ops m') k = Some (if k \<in> set (interrupted m) then fenced_row now v else v)" by blast
  have "\<exists>w. lookup (m_ops m') k = Some w \<and> binding w = binding v \<and> (if co_State v \<in> {Pending, Running} then co_State w = Uncertain \<and> co_ErrorMessage w = interrupted_reason else w = v)"
    if "lookup (m_ops m) k = Some v" for k v
    using m'(2) [OF that] interrupted_rows [OF g, of k] that by (auto simp: fenced_row_def binding_def)
  with m'(1) show ?thesis using assms(2,5) by (simp add: Recover_op_def ensure_def plain_def)
qed

section \<open>Watchers\<close>

lemma object_done: "object_ok (w\<lparr>w_done := d\<rparr>) = object_ok w"
  by (simp add: object_ok_def)

text \<open>C23. When publishing ends. For a watcher in a state the ledger can reach, delivering an event ends unless it is a terminal event for an open watcher with a full channel whose consumer empties the channel between the
  refused send and the loop that makes room: then the loop waits for an event that nobody can send while it holds the mutex of the manager. In every other case a new terminal event is the last of the channel and
  the watcher is closed.\<close>

theorem publishing_ends_iff:
  assumes "object_ok w"
  shows "(publish_to taken e w = None) = (terminalEvent e \<and> \<not> w_done w \<and> ce_Sequence e \<notin> set (w_seen w) \<and> length (w_ch w) = watcher_capacity \<and> watcher_capacity \<le> taken)
    \<and> (\<forall>w'. publish_to taken e w = Some w' \<longrightarrow> object_ok w' \<and> (terminalEvent e \<longrightarrow> w_done w' \<and> (\<not> w_done w \<and> ce_Sequence e \<notin> set (w_seen w) \<longrightarrow> last (w_ch w') = e)))"
proof (cases "terminalEvent e \<and> \<not> w_done w \<and> ce_Sequence e \<notin> set (w_seen w) \<and> length (w_ch w) = watcher_capacity")
  case True
  show ?thesis
  proof (cases "drop taken (w_ch w)")
    case (Cons c r)
    then have "object_ok (w\<lparr>w_ch := r @ [e], w_seen := ce_Sequence e # w_seen w\<rparr>)"
      using push_ok [OF take_ok [OF assms, of taken], of c r e] True by simp
    moreover have "\<not> watcher_capacity \<le> taken" using Cons True by (metis drop_all list.distinct(1))
    ultimately show ?thesis unfolding publish_to_cases [OF assms] if_P [OF True] using True Cons by (auto simp: closeWatcherLocked_def object_done)
  qed (unfold publish_to_cases [OF assms] if_P [OF True], use True in auto)
next
  case False
  have "last (w_ch (fst (sendWatcherEventLocked e w))) = e" if "\<not> w_done w" "ce_Sequence e \<notin> set (w_seen w)" "terminalEvent e"
    using that False assms by (auto simp: sendWatcherEventLocked_def object_ok_def)
  then show ?thesis unfolding publish_to_cases [OF assms] if_not_P [OF False] using False send_ok(1) [OF assms] send_ok(2)
    by (auto, simp_all add: closeWatcherLocked_def)
qed

text \<open>C22. Watchers are closed once and told once. In every ledger that calls can reach, with the goroutine of a watcher removing it under its own operation: every registered watcher is open, it is registered for one
  operation only and once, so sealing the ledger never closes a closed channel; and the events that a consumer has received along the way, with those still in its channel, have distinct sequence numbers, so no
  event reaches a watcher twice.\<close>

theorem watchers_are_closed_once:
  assumes "own_removals X cs (NewManager b)" "m = ledger_run X cs (NewManager b)"
  shows "CloseOrdinaryWatchers m \<noteq> None
    \<and> (\<forall>k. distinct (watcher_set m k) \<and> (\<forall>i \<in> set (watcher_set m k). i < length (m_objects m) \<and> \<not> w_done (object_at m i)))
    \<and> (\<forall>k l. k \<noteq> l \<longrightarrow> set (watcher_set m k) \<inter> set (watcher_set m l) = {})
    \<and> (\<forall>i < length (m_objects m). distinct (map ce_Sequence (received X i cs (NewManager b) @ w_ch (object_at m i))))"
proof (intro conjI)
  have ok: "watchers_ok m" using run_keeps [OF assms(1)] assms(2) by simp
  then show "CloseOrdinaryWatchers m \<noteq> None" using close_returns by blast
  from ok show "\<forall>k. distinct (watcher_set m k) \<and> (\<forall>i \<in> set (watcher_set m k). i < length (m_objects m) \<and> \<not> w_done (object_at m i))"
    "\<forall>k l. k \<noteq> l \<longrightarrow> set (watcher_set m k) \<inter> set (watcher_set m l) = {}" by (simp_all add: watchers_ok_def)
  have "m_objects (NewManager b) = []" by (simp add: NewManager_def)
  then show "\<forall>i < length (m_objects m). distinct (map ce_Sequence (received X i cs (NewManager b) @ w_ch (object_at m i)))"
    using received_once [of "NewManager b" _ "[]", OF _ _ assms(2)] by (simp add: object_at_def)
qed

text \<open>The events up to the first terminal one.\<close>

fun upto_terminal :: "CapEvent list \<Rightarrow> CapEvent list" where
  "upto_terminal [] = []"
| "upto_terminal (e # es) = (if terminalEvent e then [e] else e # upto_terminal es)"

lemma object_after: "i < length (m_objects m) \<Longrightarrow> object_at (m\<lparr>m_objects := on_object i f (m_objects m)\<rparr>) i = f (object_at m i)"
  by (simp add: object_at_def on_object_def)

lemma on_object_length [simp]: "length (on_object i f ws) = length ws"
  by (simp add: on_object_def)

lemma send_room:
  assumes "i < length (m_objects m)" "object_ok (object_at m i)" "\<not> w_done (object_at m i)" "ce_Sequence e \<notin> set (w_seen (object_at m i))" "length (w_ch (object_at m i)) < watcher_capacity"
  shows "\<exists>m'. sendWatcherEvent i e m = (m', True) \<and> w_seen (object_at m' i) = ce_Sequence e # w_seen (object_at m i) \<and> object_ok (object_at m' i) \<and> \<not> w_done (object_at m' i)
    \<and> i < length (m_objects m')"
  using assms by (simp add: sendWatcherEvent_def object_after send_ok, simp add: sendWatcherEventLocked_def object_ok_def)

lemma send_fresh:
  assumes "i < length (m_objects m)" "object_ok (object_at m i)" "\<not> w_done (object_at m i)" "ce_Sequence e \<notin> set (w_seen (object_at m i))"
  shows "\<exists>m'. (case sendWatcherEvent i e m of (m1, sent) \<Rightarrow> if sent then (m1, True) else sendWatcherEventBlocking (Some n) i e m1) = (m', True)
    \<and> w_seen (object_at m' i) = ce_Sequence e # w_seen (object_at m i) \<and> object_ok (object_at m' i) \<and> \<not> w_done (object_at m' i) \<and> i < length (m_objects m')"
proof (cases "length (w_ch (object_at m i)) < watcher_capacity")
  case True
  from send_room [OF assms True] show ?thesis by auto
next
  case False
  then have full: "sendWatcherEventLocked e (object_at m i) = (object_at m i, False)" using assms by (simp add: sendWatcherEventLocked_def)
  then have "m\<lparr>m_objects := on_object i (\<lambda>w. fst (sendWatcherEventLocked e w)) (m_objects m)\<rparr> = m"
    using assms(1) by (cases m) (simp add: object_at_def on_object_def)
  then have s: "sendWatcherEvent i e m = (m, False)" by (simp add: sendWatcherEvent_def full)
  let ?m = "m\<lparr>m_objects := on_object i (\<lambda>w. w\<lparr>w_ch := drop (Suc n) (w_ch w)\<rparr>) (m_objects m)\<rparr>"
  have "length (drop (Suc n) (w_ch (object_at m i))) < watcher_capacity" using assms(2) unfolding object_ok_def watcher_capacity_def length_drop by linarith
  then have "\<exists>m'. sendWatcherEvent i e ?m = (m', True) \<and> w_seen (object_at m' i) = ce_Sequence e # w_seen (object_at ?m i) \<and> object_ok (object_at m' i) \<and> \<not> w_done (object_at m' i)
    \<and> i < length (m_objects m')"
    using assms take_ok [OF assms(2), of "Suc n"] by (intro send_room) (simp_all add: object_after)
  then show ?thesis using assms(1) by (auto simp: s sendWatcherEventBlocking_def object_after)
qed

lemma replay_pushes:
  assumes "\<And>j m. others j m = m" "\<And>j. \<exists>n. taken j = Some n" "i < length (m_objects m)" "object_ok (object_at m i)" "\<not> w_done (object_at m i)"
    and "distinct (map ce_Sequence es)" "set (map ce_Sequence es) \<inter> set (w_seen (object_at m i)) = {}"
  shows "w_seen (object_at (fst (replay_events others taken j i es m)) i) = rev (map ce_Sequence (upto_terminal es)) @ w_seen (object_at m i)"
  using assms(3-)
proof (induction es arbitrary: m j)
  case (Cons e es)
  obtain n where n: "taken j = Some n" using assms(2) by blast
  obtain m' where m': "(case sendWatcherEvent i e m of (m1, sent) \<Rightarrow> if sent then (m1, True) else sendWatcherEventBlocking (Some n) i e m1) = (m', True)"
    "w_seen (object_at m' i) = ce_Sequence e # w_seen (object_at m i)" "object_ok (object_at m' i)" "\<not> w_done (object_at m' i)" "i < length (m_objects m')"
    using send_fresh [OF Cons.prems(1-3), of e n] Cons.prems(5) by auto
  have step: "replay_events others taken j i (e # es) m = (if terminalEvent e then (m', False) else replay_events others taken (Suc j) i es m')"
    using m'(1) by (simp add: assms(1) n case_prod_unfold split: if_splits)
  have "w_seen (object_at (fst (replay_events others taken (Suc j) i es m')) i) = rev (map ce_Sequence (upto_terminal es)) @ w_seen (object_at m' i)"
    using Cons.prems(4,5) by (intro Cons.IH m') (auto simp: m'(2))
  then show ?case unfolding step by (simp add: m'(2))
qed simp

lemma journal_sorted: "ledger_ok m \<Longrightarrow> sort_key ce_ID (filter P (m_events m)) = filter P (m_events m)"
proof -
  assume "ledger_ok m"
  then have "sorted_wrt (<) (map ce_ID (m_events m))" by (simp add: ledger_ok_def)
  then have "sorted (map ce_ID (filter P (m_events m)))"
    by (simp add: sorted_wrt_map sorted_wrt_filter) (metis (mono_tags, lifting) order_less_imp_le sorted_wrt_filter sorted_wrt_mono_rel)
  then show ?thesis by (rule sort_key_id_if_sorted)
qed

text \<open>A watcher replays the journal. When a watcher is opened on an operation and its goroutine runs with nobody interfering and a consumer that keeps reading, the events sent to it are exactly those of the
  operation behind the given sequence number, in the order of the journal, up to the first terminal one, each once, however many there are.\<close>

theorem watch_replays_the_journal:
  assumes "ledger_ok m" "Watch_op r m k = (m1, Inr i)" "\<And>j m. others j m = m" "\<And>j. \<exists>n. taken j = Some n" "r' = Answered t"
  shows "rev (w_seen (object_at (fst (watch_goroutine r' others taken st k after i m1)) i)) =
    map ce_Sequence (upto_terminal (filter (\<lambda>e. ce_OperationID e = k \<and> after < ce_ID e) (m_events m)))"
proof -
  let ?es = "filter (\<lambda>e. ce_OperationID e = k \<and> after < ce_ID e) (m_events m)"
  have m1: "m_events m1 = m_events m" "i < length (m_objects m1)" "w_ch (object_at m1 i) = []" "\<not> w_done (object_at m1 i)" "w_seen (object_at m1 i) = []"
    using assms(2) by (auto simp: Watch_op_def Let_def put_set_def object_at_def split: sum.splits)
  have seqs: "map ce_Sequence ?es = map ce_ID ?es" using assms(1) by (auto simp: ledger_ok_def)
  have "distinct (map ce_ID (m_events m))" using assms(1) by (simp add: ledger_ok_def strict_sorted_iff)
  then have "distinct (map ce_Sequence ?es)" unfolding seqs by (rule distinct_map_filter)
  then have w: "w_seen (object_at (fst (replay_events others taken 0 i ?es m1)) i) = rev (map ce_Sequence (upto_terminal ?es))"
    using replay_pushes [OF assms(3,4) m1(2), where es = ?es and j = 0] m1(3-) by (simp add: object_ok_def)
  have len: "i < length (m_objects (fst (replay_events others taken j i es mm)))" if "i < length (m_objects mm)" for j es mm
    using that by (induction es arbitrary: j mm)
      (auto simp: assms(3) sendWatcherEvent_def sendWatcherEventBlocking_def split: prod.splits option.splits if_splits)
  have "w_seen (object_at (removeWatcher k i mm) i) = w_seen (object_at mm i)" if "i < length (m_objects mm)" for mm
    using that by (simp add: removeWatcher_def object_at_def on_object_def closeWatcherLocked_def)
  then show ?thesis using w len [OF m1(2)] journal_sorted [OF assms(1)]
    by (simp add: watch_goroutine_def getEvents_def assms(5) m1(1) split: prod.split) (metis fst_conv rev_rev_ident)
qed

end
