(* ===== verification/Ledger_Example.thy ===== *)
theory Ledger_Example
  imports Ledger_Safety Example_Data
begin

text \<open>
  A small ledger on which the properties are evaluated: one operation whose request carries a credential, admitted, claimed and ended in different ways.
\<close>

definition lx_Unmarshal :: "string \<Rightarrow> json option" where
  "lx_Unmarshal s = (if s = [] then None else if s = ''request'' then Some (JObj [(''api_key'', JStr ''sk-123'')])
     else if s = ''result'' then Some (JObj [(''text'', JStr ''used sk-123'')]) else Some (JStr s))"

definition lx :: ext where
  "lx = ex\<lparr>json_Unmarshal := lx_Unmarshal\<rparr>"

definition lx_op :: CapOperation where
  "lx_op = \<lparr>co_ID = ''op'', co_CapabilityID = ''agent.demo.v1'', co_OperationName = ''run'', co_State = Pending, co_RequestJSON = ''request'', co_RootRequestDigest = replicate 32 1,
     co_RequestDigest = replicate 32 2, co_ResultJSON = None, co_ErrorCode = [], co_ErrorMessage = [], co_ExpectedRevision = 0, co_ActualRevision = 0, co_CreatedAt = time_zero,
     co_UpdatedAt = time_zero, co_CompletedAt = None, co_OwnerID = ''owner'', co_AccountGeneration = 1, co_Sequence = 0\<rparr>"

definition lx_db :: "nat \<Rightarrow> reply" where "lx_db j = Answered []"
definition lx_now :: gotime where "lx_now = \<lparr>instant = 1000, zone = UTC\<rparr>"
definition lx_clk :: "nat \<Rightarrow> gotime" where "lx_clk j = lx_now"

definition lx_row :: CapOperation where
  "lx_row = lx_op\<lparr>co_RequestJSON := ''{}'', co_CreatedAt := lx_now, co_UpdatedAt := lx_now\<rparr>"

definition lx_event :: CapEvent where
  "lx_event = \<lparr>ce_ID = 1, ce_OperationID = ''op'', ce_Sequence = 1, ce_EventType = ''accepted'', ce_EventJSON = accepted_event, ce_CreatedAt = lx_now\<rparr>"

definition lx_m1 :: Manager where
  "lx_m1 = (NewManager True)\<lparr>m_ops := [(''op'', lx_row)], m_events := [lx_event], m_next := 2, m_secrets := [(''op'', [''sk-123''])]\<rparr>"

lemma lx_trim: "TrimSpace ''op'' = ''op''" "TrimSpace ''agent.demo.v1'' = ''agent.demo.v1''" "TrimSpace ''run'' = ''run''"
  by (simp_all add: TrimSpace_edges printable_def)

lemma lx_row_ok: "row_ok lx_row"
proof -
  have t: "pg_text ''op''" "pg_text ''agent.demo.v1''" "pg_text ''run''" "pg_text ''owner''" "pg_text []"
    "char_length ''agent.demo.v1'' = 13" "char_length ''run'' = 3" "char_length ''owner'' = 5" "char_length [] = 0"
    by code_simp+
  show ?thesis by (simp add: row_ok_def lx_row_def lx_op_def t state_ok_def)
qed

lemma lx_secrets: "collectSecretValues lx (JObj [(''api_key'', JStr ''sk-123'')]) = [''sk-123'']"
  by code_simp

lemma lx_admitted: "StartOrGet lx lx_db lx_now None (NewManager True) (Some lx_op) = (lx_m1, Inr (lx_row\<lparr>co_Sequence := 1\<rparr>, True))"
proof -
  have d: "with_digests lx lx_op = lx_op\<lparr>co_RequestJSON := ''{}''\<rparr>" by (simp add: with_digests_def lx_op_def redactedRequestJSON_def)
  have i: "inserted_row lx_now (lx_op\<lparr>co_RequestJSON := ''{}''\<rparr>) = lx_row" by (simp add: inserted_row_def lx_op_def lx_row_def)
  have u: "to_UTC lx_now = lx_now" by (simp add: to_UTC_def lx_now_def)
  have e: "event_ok ''accepted'' (Some accepted_event)" by (simp add: event_ok_def event_types_def accepted_event_def MaxPayload_def)
  have j: "json_Unmarshal lx ''request'' = Some (JObj [(''api_key'', JStr ''sk-123'')])" by (simp add: lx_def lx_Unmarshal_def)
  have k: "co_ID lx_op = ''op''" "co_CapabilityID lx_op = ''agent.demo.v1''" "co_OperationName lx_op = ''run''" "co_RequestJSON lx_op = ''request''" "co_ID lx_row = ''op''"
    by (simp_all add: lx_op_def lx_row_def)
  show ?thesis
    by (simp add: StartOrGet_def ensure_def NewManager_def startPostgres_def plain_def lx_db_def checkAdmission_def in_tx_def statement_def insert_op_def insert_event_def commit_def
        ms_bind_def d i u e j k lx_trim lx_row_ok lx_secrets lookup_def put_def rememberSecrets_def secrets_of_def publishEvent_def watcher_set_def put_set_def del_def lx_m1_def lx_event_def
        terminalEvent_def Let_def) (simp add: lx_row_def lx_op_def)
qed

section \<open>The claim\<close>

definition lx_env :: exec_env where
  "lx_env = \<lparr>xe_others = \<lambda>i m. m, xe_db = \<lambda>i. lx_db, xe_clk = \<lambda>i. lx_clk\<rparr>"

definition lx_running :: CapOperation where
  "lx_running = lx_row\<lparr>co_State := Running\<rparr>"

definition lx_event2 :: CapEvent where
  "lx_event2 = \<lparr>ce_ID = 2, ce_OperationID = ''op'', ce_Sequence = 2, ce_EventType = ''running'', ce_EventJSON = ''null'', ce_CreatedAt = lx_now\<rparr>"

text \<open>The ledger after the claim of the only execution.\<close>

definition lx_m2 :: Manager where
  "lx_m2 = lx_m1\<lparr>m_ops := [(''op'', lx_running)], m_events := [lx_event, lx_event2], m_next := 3, m_runtime := [(''op'', 0)], m_causes := [None]\<rparr>"

lemma lx_fields: "m_db lx_m1" "m_ops lx_m1 = [(''op'', lx_row)]" "m_causes lx_m1 = []" "m_runtime lx_m1 = []" "m_events lx_m1 = [lx_event]" "m_objects lx_m1 = []" "m_watchers lx_m1 = []"
    "m_secrets lx_m1 = [(''op'', [''sk-123''])]" "m_next lx_m1 = 2" "co_State lx_row = Pending" "co_ID lx_row = ''op''" "co_State lx_running = Running" "co_ID lx_running = ''op''"
    "m_db lx_m2" "m_ops lx_m2 = [(''op'', lx_running)]" "m_runtime lx_m2 = [(''op'', 0)]" "m_causes lx_m2 = [None]" "m_events lx_m2 = [lx_event, lx_event2]"
    "m_secrets lx_m2 = [(''op'', [''sk-123''])]" "to_UTC lx_now = lx_now" "co_UpdatedAt lx_row = lx_now"
  by (simp_all add: lx_m1_def lx_m2_def NewManager_def lx_row_def lx_op_def lx_running_def to_UTC_def lx_now_def)

lemma lx_running_ok: "row_ok lx_running"
  using lx_row_ok by (simp add: row_ok_def lx_running_def lx_fields state_ok_def)

lemma lx_marshal: "json_Marshal lx (JObj ms) = ''null''" "object_text lx ms' = ''null''"
  by (simp_all add: lx_def ex_def ex_json_Marshal_def object_text_def)

lemma lx_null: "redact_payload lx ss ''null'' = (if replace_secrets ss ''null'' = ''null'' then Some ''null'' else Some (replace_secrets ss ''null'') )" if "replace_secrets ss ''null'' \<noteq> []"
  using that by (simp add: redact_payload_def lx_def lx_Unmarshal_def ex_def ex_json_Marshal_def Let_def)

lemma lx_replace: "replace_secrets [''sk-123''] ''null'' = ''null''" "replace_secrets [] s = s" "replace_secrets [''sk-123''] ''used sk-123'' = ''used [redacted]''"
  by (simp_all add: replace_secrets_def ReplaceAll_Cons starts_with_def redaction_def)

lemma lx_claimed: "claimRunning lx lx_db lx_clk (begin_runtime ''op'' lx_m1) ''op'' = (lx_m2, Inr ())"
proof -
  have r: "lx_row\<lparr>co_State := Running, co_UpdatedAt := lx_now\<rparr> = lx_running" by (simp add: lx_running_def lx_row_def lx_op_def)
  show ?thesis
    by (simp add: claimRunning_def begin_runtime_def ensure_def statement_def update_op_def lx_db_def ms_bind_def lookup_def put_def lx_fields lx_clk_def r lx_running_ok emitEvent_def
        insert_event_def event_ok_def redactJSON_def secrets_of_def lx_marshal lx_null lx_replace event_types_def MaxPayload_def publishEvent_def watcher_set_def put_set_def del_def
        terminalEvent_def Let_def)
      (simp add: lx_m2_def lx_event2_def lx_m1_def NewManager_def)
qed

lemma lx_got: "Get_op (lx_db 0) lx_m2 ''op'' = Inr (lx_running\<lparr>co_Sequence := 2\<rparr>)"
  by (simp add: Get_op_def ensure_def lx_db_def getWithRow_def operationQuery_def lx_fields lx_trim lookup_def max_event_def lx_event_def lx_event2_def)
    (simp add: lx_running_def lx_row_def lx_op_def)

lemma lx_quiet: "quiet lx_env"
  by (simp add: quiet_def lx_env_def lx_db_def)

lemma lx_ok: "ledger_ok lx_m1" "ledger_ok lx_m2"
  by (auto simp: ledger_ok_def lx_fields lookup_def gomap_def lx_row_ok lx_running_ok lx_event_def lx_event2_def event_types_def lx_m1_def lx_m2_def NewManager_def)

section \<open>The properties at work\<close>

definition lx_completed :: CapOperation where
  "lx_completed = lx_running\<lparr>co_State := Completed, co_ResultJSON := Some ''null'', co_CompletedAt := Some lx_now\<rparr>"

definition lx_m3 :: Manager where
  "lx_m3 = lx_m2\<lparr>m_ops := [(''op'', lx_completed)]\<rparr>"

lemma lx_completed_fields: "co_State lx_completed = Completed" "co_ID lx_completed = ''op''" "m_ops lx_m3 = [(''op'', lx_completed)]" "m_events lx_m3 = [lx_event, lx_event2]" "m_next lx_m3 = 3"
  by (simp_all add: lx_completed_def lx_fields lx_m3_def) (simp add: lx_m2_def)

lemma lx_completed_ok: "row_ok lx_completed"
  using lx_running_ok by (simp add: row_ok_def lx_completed_def lx_fields state_ok_def MaxPayload_def lx_running_def lx_row_def lx_op_def)

lemma lx_m3_ok: "ledger_ok lx_m3"
  by (simp add: ledger_ok_def lx_completed_fields lookup_def gomap_def lx_completed_ok lx_event_def lx_event2_def event_types_def)

theorem finished_operations_are_not_executed_witness:
  "\<not> xr_ran (Execute_op lx lx_env None None (Some (\<lambda>_. Inr ''result'')) lx_m3 ''op'') \<and>
   lookup (m_ops (xr_manager (Execute_op lx lx_env None None (Some (\<lambda>_. Inr ''result'')) lx_m3 ''op''))) ''op'' = Some lx_completed"
proof -
  have "interferes lx {} (xe_others lx_env i)" for i by (simp add: lx_env_def interferes_id)
  from finished_operations_are_not_executed [OF lx_m3_ok, of "''op''" lx_completed lx "{}" lx_env None None "Some (\<lambda>_. Inr ''result'')"] this
  show ?thesis by (simp add: lookup_def lx_completed_fields terminalOperationState_def final_def)
qed

lemma lx_result: "redactJSON lx lx_m1 ''op'' ''result'' = Some ''null''" "redactString lx_m1 ''op'' [] = []"
proof -
  have "\<not> sensitiveJSONKey lx ''text''"
    by (simp add: sensitiveJSONKey_def TrimSpace_edges printable_def ToLower_def is_ascii_def lower_char_def sensitive_names_def)
  then show "redactJSON lx lx_m1 ''op'' ''result'' = Some ''null''" "redactString lx_m1 ''op'' [] = []"
    by (simp_all add: redactJSON_def redact_payload_def secrets_of_def lookup_def lx_fields lx_replace lx_marshal redactString_def)
      (simp add: lx_def lx_Unmarshal_def lx_replace Let_def ex_def ex_json_Marshal_def)
qed

theorem Execute_records_the_answer_witness:
  "xr_ran (Execute_op lx lx_env None None (Some (\<lambda>_. Inr ''result'')) lx_m1 ''op'') \<and>
   lookup (m_ops (xr_manager (Execute_op lx lx_env None None (Some (\<lambda>_. Inr ''result'')) lx_m1 ''op''))) ''op'' = Some lx_completed"
proof -
  have asked: "asked_row lx lx_env lx_m1 ''op'' (Inr ''result'') lx_running = lx_completed"
    by (simp add: asked_row_def ended_row_def lx_result lx_env_def lx_clk_def lx_fields) (simp add: lx_completed_def lx_running_def lx_row_def lx_op_def)
  have run: "lx_row\<lparr>co_State := Running, co_UpdatedAt := lx_now\<rparr> = lx_running" by (simp add: lx_running_def lx_row_def lx_op_def)
  show ?thesis
    using Execute_records_the_answer [OF lx_quiet, of lx_m1 "''op''" lx_row None None lx lx_m2 "lx_running\<lparr>co_Sequence := 2\<rparr>" "\<lambda>_. Inr ''result''"]
    by (simp add: lx_fields lx_trim lookup_def checkAdmission_def acquireExecution_def lx_env_def [THEN arg_cong, of xe_db] lx_env_def [THEN arg_cong, of xe_clk]
        lx_claimed lx_got lx_clk_def run asked lx_completed_ok Let_def)
qed

theorem unstorable_result_leaves_running_witness:
  "lookup (m_ops (xr_manager (Execute_op lx lx_env None None (Some (\<lambda>_. Inr [])) lx_m1 ''op''))) ''op'' = Some lx_running
    \<and> m_events (xr_manager (Execute_op lx lx_env None None (Some (\<lambda>_. Inr [])) lx_m1 ''op'')) = [lx_event, lx_event2]"
proof -
  have run: "lx_row\<lparr>co_State := Running, co_UpdatedAt := lx_now\<rparr> = lx_running" by (simp add: lx_running_def lx_row_def lx_op_def)
  show ?thesis
    using unstorable_result_leaves_running [OF lx_quiet, of lx_m1 "''op''" lx_row None None lx lx_m2 "lx_running\<lparr>co_Sequence := 2\<rparr>" "\<lambda>_. Inr []" "[]"]
    by (simp add: lx_fields lx_trim lookup_def checkAdmission_def acquireExecution_def lx_env_def [THEN arg_cong, of xe_db] lx_env_def [THEN arg_cong, of xe_clk]
        lx_claimed lx_got lx_clk_def run)
qed

theorem Cancel_drops_other_failures_witness:
  "case Cancel_op lx lx_db lx_clk (HandlerDone (Some (Opaque ''stream closed''))) (\<lambda>m. end_runtime ''op'' 0 (after_handler lx lx_env ''op'' 0 (Inl (Opaque ''stream closed'')) m))
      lx_m2 ''op'' ''user requested'' of (m', r) \<Rightarrow>
    r = Inl (Opaque ''stream closed'') \<and> lookup (m_ops m') ''op'' = Some lx_running \<and> m_events m' = m_events lx_m2 \<and> lookup (m_runtime m') ''op'' = None"
  by (rule Cancel_drops_other_failures [where t = "[]"]) (simp_all add: lx_fields lx_trim lookup_def errors_Is_def lx_db_def)

definition lx_start :: ledger_command where
  "lx_start = DoStart lx_db lx_now None (Some lx_op)"

lemma lx_started: "ledger_run lx [lx_start] (NewManager True) = lx_m1"
  by (simp add: lx_start_def lx_admitted)

theorem operations_only_move_forward_witness:
  "\<exists>w. lookup (m_ops (ledger_run lx [DoBegin ''op'', DoClaim lx_db lx_clk ''op''] lx_m1)) ''op'' = Some w \<and> binding w = binding lx_row \<and> forward lx_row w"
  using operations_only_move_forward [of lx_m1 lx "[lx_start]" True "''op''" lx_row _ "[DoBegin ''op'', DoClaim lx_db lx_clk ''op'']", OF _ _ refl]
  by (simp only: lx_started) (auto simp: lx_fields lookup_def reopened_def)

lemma lx_replayed: "StartOrGet lx lx_db lx_now None lx_m1 (Some lx_op) = (lx_m1, Inr (lx_row\<lparr>co_Sequence := 1\<rparr>, False))"
proof -
  have d: "with_digests lx lx_op = lx_op\<lparr>co_RequestJSON := ''{}''\<rparr>" by (simp add: with_digests_def lx_op_def redactedRequestJSON_def)
  have i: "inserted_row lx_now (lx_op\<lparr>co_RequestJSON := ''{}''\<rparr>) = lx_row" by (simp add: inserted_row_def lx_op_def lx_row_def)
  have k: "co_ID lx_op = ''op''" "co_CapabilityID lx_op = ''agent.demo.v1''" "co_OperationName lx_op = ''run''" by (simp_all add: lx_op_def)
  show ?thesis
    by (simp add: StartOrGet_def ensure_def lx_fields startPostgres_def plain_def lx_db_def checkAdmission_def in_tx_def statement_def insert_op_def d i k lx_trim lx_row_ok lookup_def
        getWithRow_def operationQuery_def max_event_def lx_event_def Let_def)
      (simp add: lx_row_def lx_op_def sameRequest_def)
qed

theorem operation_admitted_once_witness:
  "admissions lx ''op'' [lx_start, lx_start] (NewManager True) = 1 \<and> sameRequest lx_row (with_digests lx lx_op)"
proof -
  have "admits lx ''op'' lx_start (NewManager True)" by (simp add: admits_def lx_start_def lx_admitted) (simp add: lx_op_def)
  then have "1 \<le> admissions lx ''op'' [lx_start, lx_start] (NewManager True)" by simp
  with operation_admitted_once [of lx "''op''" "[lx_start, lx_start]" True lx_db lx_now None lx_m1 lx_op lx_m1 "lx_row\<lparr>co_Sequence := 1\<rparr>"] lx_replayed
  show ?thesis by (auto simp: lookup_def lx_fields lx_op_def)
qed

theorem request_text_is_not_stored_witness:
  "snd (StartOrGet lx lx_db lx_now None (NewManager True) (Some (lx_op\<lparr>co_RequestJSON := ''other''\<rparr>))) = Inr (lx_row\<lparr>co_Sequence := 1\<rparr>, True) \<and>
   forget (fst (StartOrGet lx lx_db lx_now None (NewManager True) (Some (lx_op\<lparr>co_RequestJSON := ''other''\<rparr>)))) = forget lx_m1"
proof -
  have "co_RequestDigest lx_op \<noteq> []" "co_RootRequestDigest lx_op \<noteq> []" by (simp_all add: lx_op_def)
  from request_text_is_not_stored [OF this, of lx lx_db lx_now None "NewManager True" "''other''"] show ?thesis by (simp add: lx_admitted)
qed

lemma lx_running_secrets: "redactJSON lx lx_m2 ''op'' p = redactJSON lx lx_m1 ''op'' p" "redactString lx_m2 ''op'' t = redactString lx_m1 ''op'' t"
  by (simp_all add: redactJSON_def redactString_def secrets_of_def lx_fields)

lemma lx_completes: "\<exists>m3. Complete_op lx lx_db lx_clk lx_m2 ''op'' ''result'' = (m3, Inr ())"
proof -
  let ?w = "ended_row lx lx_m2 ''op'' Completed ''result'' [] [] lx_now lx_running"
  have w: "row_ok ?w" using lx_running_ok by (simp add: ended_row_def lx_running_secrets lx_result row_ok_def lx_fields state_ok_def MaxPayload_def lx_running_def lx_row_def lx_op_def)
  have "\<exists>m'. emitEvent lx (lx_db 1) lx_now ''op'' ''result'' ''null'' (lx_m2\<lparr>m_ops := put ''op'' ?w (m_ops lx_m2)\<rparr>) = (m', Inr ())"
    by (rule emit_succeeds [where t = "[]" and p = "''null''"])
      (simp_all add: lx_fields lx_db_def event_types_def redactJSON_def secrets_of_def lookup_def put_def lx_null lx_replace MaxPayload_def)
  then show ?thesis
    unfolding Complete_op_def using terminal_effect [where db = lx_db and clk = lx_clk and m = lx_m2 and k = "''op''" and v = lx_running and t = "[]" and X = lx and st = Completed
        and result = "''result''" and code = "[]" and message = "[]"] w
    by (auto simp: lx_fields lookup_def lx_db_def lx_clk_def terminal_event_def lx_result lx_running_secrets ms_bind_def)
qed

theorem request_secrets_are_redacted_witness:
  "\<exists>m3 w t. Complete_op lx lx_db lx_clk (ledger_run lx [DoBegin ''op'', DoClaim lx_db lx_clk ''op''] lx_m1) ''op'' ''result'' = (m3, Inr ()) \<and> lookup (m_ops m3) ''op'' = Some w \<and> co_ResultJSON w = Some t \<and>
    (t = redactedRequestJSON \<or> (\<exists>j. (t = json_Marshal lx j \<or> t = ''result'' \<and> json_Unmarshal lx ''result'' = Some j)
      \<and> list_all (\<lambda>k. \<not> sensitiveJSONKey lx k) (json_keys j) \<and> list_all (\<lambda>s. \<not> Contains s ''sk-123'') (json_strings j)))"
proof -
  have j: "json_Unmarshal lx (co_RequestJSON lx_op) = Some (JObj [(''api_key'', JStr ''sk-123'')])" "co_ID lx_op = ''op''" by (simp_all add: lx_def lx_Unmarshal_def lx_op_def)
  have run: "lx_m2 = ledger_run lx [DoBegin ''op'', DoClaim lx_db lx_clk ''op''] lx_m1" by (simp add: lx_claimed)
  obtain m3 where m3: "Complete_op lx lx_db lx_clk lx_m2 ''op'' ''result'' = (m3, Inr ())" using lx_completes by blast
  have "distinguishable ''sk-123''" by (simp add: distinguishable_def redaction_def starts_with_def)
  from request_secrets_are_redacted [OF new_ledger_ok lx_admitted j(1) _ this run, unfolded j(2), OF _ _ _ _ m3] show ?thesis using m3
    by (auto simp: lx_secrets lx_fields lookup_def reopened_def lx_claimed)
qed

theorem Recover_fences_interrupted_witness:
  "\<exists>m' w. Recover_op lx (Answered []) (\<lambda>i. lx_db) (\<lambda>i. lx_clk) (lx_m1\<lparr>m_secrets := []\<rparr>) = (m', Inr ()) \<and> lookup (m_ops m') ''op'' = Some w \<and> co_State w = Uncertain"
proof -
  have "ledger_ok (lx_m1\<lparr>m_secrets := []\<rparr>)" using lx_ok(1) by (simp add: ledger_ok_def)
  moreover have "short_events lx" by (simp add: short_events_def lx_marshal lx_null lx_replace MaxPayload_def)
  ultimately obtain m' where "Recover_op lx (Answered []) (\<lambda>i. lx_db) (\<lambda>i. lx_clk) (lx_m1\<lparr>m_secrets := []\<rparr>) = (m', Inr ())"
    and rows: "\<And>k v. lookup (m_ops (lx_m1\<lparr>m_secrets := []\<rparr>)) k = Some v \<Longrightarrow> \<exists>w. lookup (m_ops m') k = Some w \<and> binding w = binding v
      \<and> (if co_State v \<in> {Pending, Running} then co_State w = Uncertain \<and> co_ErrorMessage w = interrupted_reason else w = v)"
    using Recover_fences_interrupted [of "lx_m1\<lparr>m_secrets := []\<rparr>" lx "Answered []" "[]" "\<lambda>i. lx_db" "\<lambda>i. lx_clk"] by (auto simp: lx_fields lx_db_def)
  moreover have "lookup (m_ops (lx_m1\<lparr>m_secrets := []\<rparr>)) ''op'' = Some lx_row" by (simp add: lx_fields lookup_def)
  ultimately show ?thesis using rows [of "''op''" lx_row] by (auto simp: lx_fields)
qed

definition lx_full :: watcher where
  "lx_full = \<lparr>w_ch = map (\<lambda>i. lx_event\<lparr>ce_Sequence := int i\<rparr>) [0..<32], w_done = False, w_seen = map int [0..<32], w_keepAfterSeal = False\<rparr>"

theorem publishing_ends_iff_witness:
  "publish_to 32 (lx_event\<lparr>ce_Sequence := 32, ce_EventType := ''result''\<rparr>) lx_full = None \<and> publish_to 31 (lx_event\<lparr>ce_Sequence := 32, ce_EventType := ''result''\<rparr>) lx_full \<noteq> None"
proof -
  have "object_ok lx_full" by (auto simp: object_ok_def lx_full_def watcher_capacity_def distinct_map inj_on_def comp_def)
  from publishing_ends_iff [OF this] show ?thesis by (simp add: lx_full_def terminalEvent_def watcher_capacity_def image_iff)
qed

text \<open>A watcher is opened, is sent an event, its consumer takes it, the event is sent again and the watcher is removed.\<close>

definition lx_watch :: "ledger_command list" where
  "lx_watch = [lx_start, DoWatch (Answered []) ''op'', DoSend 0 lx_event, DoReceive 0 1, DoSend 0 lx_event, DoUnwatch ''op'' 0]"

lemma lx_watched: "fst (Watch_op (Answered []) lx_m1 ''op'') = put_set ''op'' [0] (lx_m1\<lparr>m_objects := [\<lparr>w_ch = [], w_done = False, w_seen = [], w_keepAfterSeal = False\<rparr>]\<rparr>)"
  using lx_fields lx_trim(1)
  by (simp add: Watch_op_def Get_op_def ensure_def getWithRow_def operationQuery_def lookup_def Let_def watcher_set_def isDeprovisionOperation_def) (simp add: lx_row_def lx_op_def)

theorem watchers_are_closed_once_witness:
  "CloseOrdinaryWatchers (ledger_run lx lx_watch (NewManager True)) \<noteq> None \<and> received lx 0 lx_watch (NewManager True) = [lx_event]
    \<and> distinct (map ce_Sequence [lx_event])"
proof -
  have sets: "watcher_set (put_set k ws m) l = (if l = k then ws else watcher_set m l)" for k ws m l by (rule watcher_set_put)
  have none: "watcher_set lx_m1 l = []" for l by (simp add: watcher_set_def lx_fields lookup_def)
  have own: "own_removals lx lx_watch (NewManager True)"
    by (auto simp: lx_watch_def own_removal_def lx_start_def lx_admitted lx_watched sendWatcherEvent_def receive_def sets none split: if_splits)
  have got: "received lx 0 lx_watch (NewManager True) = [lx_event]"
    by (simp add: lx_watch_def lx_start_def lx_admitted lx_watched sendWatcherEvent_def receive_def object_at_def on_object_def sendWatcherEventLocked_def watcher_capacity_def put_set_def)
  have len: "length (m_objects (ledger_run lx lx_watch (NewManager True))) = 1"
    by (simp add: lx_watch_def lx_start_def lx_admitted lx_watched sendWatcherEvent_def receive_def object_at_def on_object_def sendWatcherEventLocked_def watcher_capacity_def put_set_def removeWatcher_def)
  from watchers_are_closed_once [OF own refl] got len show ?thesis by (metis distinct_append less_one map_append)
qed

theorem watch_replays_the_journal_witness:
  "rev (w_seen (object_at (fst (watch_goroutine (Answered []) (\<lambda>j m. m) (\<lambda>j. Some 0) Pending ''op'' 0 0 (fst (Watch_op (Answered []) lx_m1 ''op'')))) 0)) = [1]"
proof -
  have "Watch_op (Answered []) lx_m1 ''op'' = (fst (Watch_op (Answered []) lx_m1 ''op''), Inr 0)"
    using lx_fields lx_trim(1) by (simp add: Watch_op_def Get_op_def ensure_def getWithRow_def operationQuery_def lookup_def Let_def)
  from watch_replays_the_journal [OF lx_ok(1) this, of "\<lambda>j m. m" "\<lambda>j. Some 0" "Answered []" "[]" Pending 0]
  show ?thesis by (simp add: lx_fields lx_event_def terminalEvent_def)
qed

end
