(* ===== verification/Fence_Lifecycle.thy ===== *)
theory Fence_Lifecycle
  imports Ledger_Execute "HOL-Library.Multiset"
begin

text \<open>
  The account lifecycle fence, \<^verbatim>\<open>src/internal/coredeprovision/lifecycle.go\<close>: mutations enter as readers, a purge is the writer that waits for them and seals the account.
  Every critical section under the mutex is one definition. A goroutine that calls the fence is at one of its positions \<open>fence_pc\<close>, and \<open>fence_step\<close> interleaves any number of them.
\<close>

section \<open>The fence\<close>

text \<open>The channel \<open>changed\<close> is its number: signalling closes it and makes the next one, so the channel \<open>c\<close> is closed if and only if \<open>c\<close> is below the current number. Hooks are
  known by their numbers.\<close>

record LifecycleFence =
  lf_changed :: nat
  lf_readers :: nat
  lf_writer :: bool
  lf_sealed :: bool
  lf_sealHooks :: "nat list"

definition NewLifecycleFence :: LifecycleFence where
  "NewLifecycleFence = \<lparr>lf_changed = 0, lf_readers = 0, lf_writer = False, lf_sealed = False, lf_sealHooks = []\<rparr>"

definition ErrClosed :: goerror where "ErrClosed = Opaque ''account lifecycle is closed''"

definition signalLocked :: "LifecycleFence \<Rightarrow> LifecycleFence" where
  "signalLocked f = f\<lparr>lf_changed := Suc (lf_changed f)\<rparr>"

definition IsSealed :: "LifecycleFence \<Rightarrow> bool" where
  "IsSealed f = lf_sealed f"

text \<open>Where a goroutine is: in the loop of \<open>Enter\<close> or waiting on a channel there, inside its mutation, at the top of the loop of \<open>BeginPurge\<close>, waiting for another writer or for the readers,
  holding the lease, running hooks, or back with or without an error. \<open>Restoring\<close> and \<open>Registering\<close> are the calls of \<open>RestoreSealed\<close> and \<open>OnSealed\<close>.\<close>

datatype fence_pc = Entering | EnterWaits nat | Inside | Left
  | Purging | PurgeWaits nat | Drains nat | Leased
  | Restoring | Registering nat | Hooks "nat list" | Returned "goerror option"

definition enter_section :: "LifecycleFence \<Rightarrow> LifecycleFence \<times> fence_pc" where
  "enter_section f = (if lf_sealed f then (f, Returned (Some ErrClosed))
     else if lf_writer f then (f, EnterWaits (lf_changed f))
     else (f\<lparr>lf_readers := Suc (lf_readers f)\<rparr>, Inside))"

definition releaseReader :: "LifecycleFence \<Rightarrow> LifecycleFence" where
  "releaseReader f = signalLocked (if lf_readers f > 0 then f\<lparr>lf_readers := lf_readers f - 1\<rparr> else f)"

text \<open>The inner loop of \<open>BeginPurge\<close>, from its test on.\<close>

definition drain_section :: "LifecycleFence \<Rightarrow> LifecycleFence \<times> fence_pc" where
  "drain_section f = (if lf_readers f \<noteq> 0 then (f, Drains (lf_changed f)) else (f, Leased))"

definition begin_section :: "LifecycleFence \<Rightarrow> LifecycleFence \<times> fence_pc" where
  "begin_section f = (if \<not> lf_writer f then drain_section (signalLocked (f\<lparr>lf_writer := True\<rparr>))
     else (f, PurgeWaits (lf_changed f)))"

definition give_up_section :: "LifecycleFence \<Rightarrow> LifecycleFence" where
  "give_up_section f = signalLocked (f\<lparr>lf_writer := False\<rparr>)"

definition Finish :: "LifecycleFence \<Rightarrow> LifecycleFence \<times> fence_pc" where
  "Finish f = (signalLocked (f\<lparr>lf_sealed := True, lf_writer := False, lf_sealHooks := []\<rparr>), Hooks (lf_sealHooks f))"

definition Abort_lease :: "LifecycleFence \<Rightarrow> LifecycleFence" where
  "Abort_lease f = signalLocked (f\<lparr>lf_writer := False\<rparr>)"

definition RestoreSealed :: "LifecycleFence \<Rightarrow> LifecycleFence \<times> fence_pc" where
  "RestoreSealed f = (signalLocked (f\<lparr>lf_sealed := True, lf_sealHooks := []\<rparr>), Hooks (lf_sealHooks f))"

definition OnSealed :: "nat \<Rightarrow> LifecycleFence \<Rightarrow> LifecycleFence \<times> fence_pc" where
  "OnSealed h f = (if lf_sealed f then (f, Hooks [h]) else (f\<lparr>lf_sealHooks := lf_sealHooks f @ [h]\<rparr>, Returned None))"

section \<open>Goroutines\<close>

text \<open>What a goroutine does next: go on where it is, give up waiting because its context ended (with the error of the context), release its reader, finish or abort its lease.\<close>

datatype fence_act = Advance | GiveUp goerror | Release | Finishes | Aborts

text \<open>\<^term>\<open>None\<close> is a move that is not possible there: a receive from an open channel, or a call that the goroutine cannot make. The release function and the lease do nothing
  the second time.\<close>

fun fence_move :: "fence_act \<Rightarrow> fence_pc \<Rightarrow> LifecycleFence \<Rightarrow> (LifecycleFence \<times> fence_pc) option" where
  "fence_move Advance Entering f = Some (enter_section f)"
| "fence_move Advance (EnterWaits c) f = (if c < lf_changed f then Some (f, Entering) else None)"
| "fence_move (GiveUp e) (EnterWaits c) f = Some (f, Returned (Some e))"
| "fence_move Release Inside f = Some (releaseReader f, Left)"
| "fence_move Release Left f = Some (f, Left)"
| "fence_move Advance Purging f = Some (begin_section f)"
| "fence_move Advance (PurgeWaits c) f = (if c < lf_changed f then Some (f, Purging) else None)"
| "fence_move (GiveUp e) (PurgeWaits c) f = Some (f, Returned (Some e))"
| "fence_move Advance (Drains c) f = (if c < lf_changed f then Some (drain_section f) else None)"
| "fence_move (GiveUp e) (Drains c) f = Some (give_up_section f, Returned (Some e))"
| "fence_move Finishes Leased f = Some (Finish f)"
| "fence_move Aborts Leased f = Some (Abort_lease f, Returned None)"
| "fence_move Finishes (Returned r) f = Some (f, Returned r)"
| "fence_move Aborts (Returned r) f = Some (f, Returned r)"
| "fence_move Advance Restoring f = Some (RestoreSealed f)"
| "fence_move Advance (Registering h) f = Some (OnSealed h f)"
| "fence_move Advance (Hooks []) f = Some (f, Returned None)"
| "fence_move Advance (Hooks (h # hs)) f = Some (f, Hooks hs)"
| "fence_move _ _ _ = None"

text \<open>The fence, the positions of the goroutines, and the history: the hooks that ran and the calls that were made.\<close>

record fence_system =
  fs_fence :: LifecycleFence
  fs_pcs :: "fence_pc list"
  fs_ran :: "nat list"
  fs_calls :: "fence_pc list"

text \<open>Calls start at these positions.\<close>

definition fence_call :: "fence_pc \<Rightarrow> bool" where
  "fence_call p \<longleftrightarrow> p \<in> {Entering, Purging, Restoring} \<or> (\<exists>h. p = Registering h)"

definition ran_hook :: "fence_act \<Rightarrow> fence_pc \<Rightarrow> nat list" where
  "ran_hook a p = (case (a, p) of (Advance, Hooks (h # hs)) \<Rightarrow> [h] | _ \<Rightarrow> [])"

inductive fence_step :: "fence_system \<Rightarrow> fence_system \<Rightarrow> bool" where
  spawn: "fence_call p \<Longrightarrow> fence_step s (s\<lparr>fs_pcs := fs_pcs s @ [p], fs_calls := fs_calls s @ [p]\<rparr>)"
| move: "i < length (fs_pcs s) \<Longrightarrow> fence_move a (fs_pcs s ! i) (fs_fence s) = Some (f, p) \<Longrightarrow>
    fence_step s (s\<lparr>fs_fence := f, fs_pcs := (fs_pcs s)[i := p], fs_ran := fs_ran s @ ran_hook a (fs_pcs s ! i)\<rparr>)"

inductive_cases fence_stepE: "fence_step s t"

definition fence_start :: fence_system where
  "fence_start = \<lparr>fs_fence = NewLifecycleFence, fs_pcs = [], fs_ran = [], fs_calls = []\<rparr>"

definition fence_reachable :: "fence_system \<Rightarrow> bool" where
  "fence_reachable s \<longleftrightarrow> fence_step\<^sup>*\<^sup>* fence_start s"

end
