(* ===== verification/Closing_Gate.thy ===== *)
theory Closing_Gate
  imports Agent_Prelude
begin

text \<open>
  The contract that the lifecycle fence and the durable jobs of the capability server share: a gate that lets work in until it is closed. What follows for runs is proved once,
  for any step relation that satisfies the contract.
\<close>

locale closing_gate =
  fixes step :: "'s \<Rightarrow> 's \<Rightarrow> bool" and closed :: "'s \<Rightarrow> bool" and inside :: "'s \<Rightarrow> nat set"
  assumes closed_stays: "step s t \<Longrightarrow> closed s \<Longrightarrow> closed t"
    and closed_admits_none: "step s t \<Longrightarrow> closed s \<Longrightarrow> inside t \<subseteq> inside s"
begin

lemma run_closed:
  assumes "step\<^sup>*\<^sup>* s t" "closed s"
  shows "closed t \<and> inside t \<subseteq> inside s"
  using assms by (induction rule: rtranclp_induct) (use closed_stays closed_admits_none in blast)+

lemma run_drained:
  assumes "step\<^sup>*\<^sup>* s t" "closed s" "inside s = {}"
  shows "inside t = {}"
  using run_closed [OF assms(1,2)] assms(3) by blast

end

text \<open>A list updated at one place: what a filter counts.\<close>

lemma filter_update:
  assumes "i < length xs"
  shows "length (filter P (xs[i := y])) + of_bool (P (xs ! i)) = length (filter P xs) + of_bool (P y)"
proof -
  obtain as x bs where xs: "xs = as @ x # bs" "length as = i" using id_take_nth_drop [OF assms] assms by (metis length_take min.absorb4)
  then have "xs ! i = x" "xs[i := y] = as @ y # bs" by auto
  then show ?thesis by (simp add: xs(1))
qed

lemma filter_none: "(length (filter P xs) = 0) = (\<forall>x \<in> set xs. \<not> P x)"
  by (simp add: filter_empty_conv)

lemma filter_one:
  assumes "length (filter P xs) = 1" "i < length xs" "j < length xs" "P (xs ! i)" "P (xs ! j)"
  shows "i = j"
proof (rule ccontr)
  assume "i \<noteq> j"
  then have "{i, j} \<subseteq> {k. k < length xs \<and> P (xs ! k)}" using assms by auto
  then have "card {i, j} \<le> length (filter P xs)" unfolding length_filter_conv_card by (intro card_mono) auto
  then show False using \<open>i \<noteq> j\<close> assms(1) by simp
qed

end
