(* ===== verification/Fence_Safety.thy ===== *)
theory Fence_Safety
  imports Fence_Lifecycle Closing_Gate
begin

text \<open>
  What the lifecycle fence promises, for any number of goroutines and any interleaving: a purge runs alone, a sealed account stays closed, no waiting goroutine misses the signal it waits for,
  and hooks run once.
\<close>

section \<open>The invariant\<close>

definition is_writer :: "fence_pc \<Rightarrow> bool" where
  "is_writer p \<longleftrightarrow> p = Leased \<or> (\<exists>c. p = Drains c)"

text \<open>A goroutine that waits on the current channel waits for something that has not happened yet.\<close>

fun waits_ok :: "LifecycleFence \<Rightarrow> fence_pc \<Rightarrow> bool" where
  "waits_ok f (EnterWaits c) = (c < lf_changed f \<or> c = lf_changed f \<and> lf_writer f)"
| "waits_ok f (PurgeWaits c) = (c < lf_changed f \<or> c = lf_changed f \<and> lf_writer f)"
| "waits_ok f (Drains c) = (c < lf_changed f \<or> c = lf_changed f \<and> lf_readers f \<noteq> 0)"
| "waits_ok f Leased = (lf_readers f = 0)"
| "waits_ok f (Hooks hs) = lf_sealed f"
| "waits_ok f _ = True"

definition fence_inv :: "fence_system \<Rightarrow> bool" where
  "fence_inv s \<longleftrightarrow> length (filter (\<lambda>p. p = Inside) (fs_pcs s)) = lf_readers (fs_fence s)
     \<and> length (filter is_writer (fs_pcs s)) = of_bool (lf_writer (fs_fence s))
     \<and> (\<forall>p \<in> set (fs_pcs s). waits_ok (fs_fence s) p)"

lemmas fence_sections = enter_section_def releaseReader_def drain_section_def begin_section_def give_up_section_def Finish_def Abort_lease_def RestoreSealed_def OnSealed_def signalLocked_def

lemma move_counts:
  assumes "fence_move a p f = Some (f', p')" "p = Inside \<longrightarrow> 0 < lf_readers f" "is_writer p \<longrightarrow> lf_writer f"
  shows "lf_readers f' + of_bool (p = Inside) = lf_readers f + of_bool (p' = Inside)"
    "of_bool (lf_writer f') + of_bool (is_writer p) = of_bool (lf_writer f) + (of_bool (is_writer p') :: nat)"
  using assms by (cases rule: fence_move.cases [of "(a, p, f)"]; auto simp: fence_sections is_writer_def split: if_splits)+

text \<open>What one goroutine does keeps what another one may rely on. A holder of the lease relies on the writer bit that only it can clear.\<close>

lemma move_others:
  assumes "fence_move a p f = Some (f', p')" "waits_ok f q" "q = Leased \<longrightarrow> lf_writer f" "is_writer q \<longrightarrow> \<not> is_writer p"
  shows "waits_ok f' q"
  using assms by (cases q; cases rule: fence_move.cases [of "(a, p, f)"]; auto simp: fence_sections is_writer_def split: if_splits)

lemma move_self:
  assumes "fence_move a p f = Some (f', p')" "waits_ok f p"
  shows "waits_ok f' p'"
  using assms by (cases rule: fence_move.cases [of "(a, p, f)"]; auto simp: fence_sections split: if_splits)

lemma fence_inv_start: "fence_inv fence_start"
  by (simp add: fence_inv_def fence_start_def NewLifecycleFence_def)

lemma fence_inv_step:
  assumes "fence_step s t" "fence_inv s"
  shows "fence_inv t"
  using assms(1)
proof cases
  case (spawn p)
  then show ?thesis using assms(2) by (auto simp: fence_inv_def fence_call_def is_writer_def)
next
  case (move i a f p)
  let ?q = "fs_pcs s ! i"
  note inv = assms(2)[unfolded fence_inv_def]
  have q: "?q \<in> set (fs_pcs s)" using move(2) by simp
  have ins: "?q = Inside \<longrightarrow> 0 < lf_readers (fs_fence s)"
    using inv q by (metis (mono_tags, lifting) filter_none gr0I)
  have wr: "is_writer x \<longrightarrow> lf_writer (fs_fence s)" if "x \<in> set (fs_pcs s)" for x
    using inv that by (metis (mono_tags, lifting) filter_none of_bool_eq(1))
  have "waits_ok f x" if x: "x \<in> set ((fs_pcs s)[i := p])" for x
  proof -
    obtain j where j: "j < length (fs_pcs s)" "x = (fs_pcs s)[i := p] ! j"
      using x unfolding in_set_conv_nth length_list_update by blast
    show ?thesis
    proof (cases "j = i")
      case True
      then have "x = p" using j(2) move(2) by simp
      moreover have "waits_ok (fs_fence s) ?q" using inv q by blast
      ultimately show ?thesis using move_self [OF move(3)] by simp
    next
      case False
      then have x: "x = fs_pcs s ! j" "x \<in> set (fs_pcs s)" using j by auto
      have "is_writer x \<longrightarrow> \<not> is_writer ?q"
        using filter_one [of is_writer "fs_pcs s" i j] inv wr [OF x(2)] move(2) j(1) x(1) False by auto
      then show ?thesis using move_others [OF move(3), of x] inv x(2) wr [OF x(2)] by (simp add: is_writer_def)
    qed
  qed
  moreover have "length (filter (\<lambda>x. x = Inside) ((fs_pcs s)[i := p])) = lf_readers f"
    using filter_update [OF move(2), of "\<lambda>x. x = Inside" p] move_counts(1) [OF move(3) ins] wr [OF q] inv by simp
  moreover have "length (filter is_writer ((fs_pcs s)[i := p])) = of_bool (lf_writer f)"
    using filter_update [OF move(2), of is_writer p] move_counts(2) [OF move(3) ins] wr [OF q] inv by simp
  ultimately show ?thesis by (simp add: fence_inv_def move(1))
qed

lemma reachable_inv: "fence_reachable s \<Longrightarrow> fence_inv s"
  unfolding fence_reachable_def by (induction rule: rtranclp_induct) (auto intro: fence_inv_start fence_inv_step)

lemma reachable_run: "fence_reachable s \<Longrightarrow> fence_step\<^sup>*\<^sup>* s t \<Longrightarrow> fence_reachable t"
  unfolding fence_reachable_def by (rule rtranclp_trans)

section \<open>A purge is alone\<close>

definition goroutines :: "(fence_pc \<Rightarrow> bool) \<Rightarrow> fence_system \<Rightarrow> nat set" where
  "goroutines P s = {i. i < length (fs_pcs s) \<and> P (fs_pcs s ! i)}"

lemma inv_writer: "fence_inv s \<Longrightarrow> i \<in> goroutines is_writer s \<Longrightarrow> goroutines is_writer s = {i} \<and> lf_writer (fs_fence s)"
  using filter_none [of is_writer "fs_pcs s"] filter_one [of is_writer "fs_pcs s" i]
  by (auto simp: fence_inv_def goroutines_def)

lemma inv_readers: "fence_inv s \<Longrightarrow> (lf_readers (fs_fence s) = 0) = (goroutines (\<lambda>p. p = Inside) s = {})"
  using filter_none [of "\<lambda>p. p = Inside" "fs_pcs s"] by (auto simp: fence_inv_def goroutines_def in_set_conv_nth)

lemma purge_alone:
  assumes "fence_reachable s" "i \<in> goroutines (\<lambda>p. p = Leased) s"
  shows "goroutines (\<lambda>p. p = Inside) s = {} \<and> goroutines is_writer s = {i}"
proof -
  note inv = reachable_inv [OF assms(1)]
  have "i \<in> goroutines is_writer s" using assms(2) by (simp add: goroutines_def is_writer_def)
  moreover have "Leased \<in> set (fs_pcs s)" using assms(2) using nth_mem [of i "fs_pcs s"] by (simp add: goroutines_def)
  then have "lf_readers (fs_fence s) = 0" using inv by (auto simp: fence_inv_def)
  ultimately show ?thesis using inv_writer [OF inv] inv_readers [OF inv] by blast
qed

text \<open>C26. A purge runs alone. In every state that any number of goroutines can reach by any interleaving of \<open>Enter\<close>, release, \<open>BeginPurge\<close>, \<open>Finish\<close>, \<open>Abort\<close>, \<open>RestoreSealed\<close> and \<open>OnSealed\<close>, when a
  goroutine holds the purge lease, no goroutine is inside a mutation and no other one holds the lease or drains the mutations for it; purges that wait for this one to end may be many.\<close>

theorem purge_is_exclusive:
  assumes "fence_reachable s" "i \<in> goroutines (\<lambda>p. p = Leased) s"
  shows "goroutines (\<lambda>p. p = Inside) s = {} \<and> goroutines is_writer s = {i}"
  using purge_alone [OF assms] .

section \<open>A sealed account stays closed\<close>

lemma move_sealed: "fence_move a p f = Some (f', p') \<Longrightarrow> lf_sealed f \<Longrightarrow> lf_sealed f' \<and> (p' = Inside \<longrightarrow> p = Inside)"
  by (cases rule: fence_move.cases [of "(a, p, f)"]) (auto simp: fence_sections split: if_splits)

interpretation fence: closing_gate fence_step "\<lambda>s. lf_sealed (fs_fence s)" "goroutines (\<lambda>p. p = Inside)"
proof
  fix s t assume step: "fence_step s t" and "lf_sealed (fs_fence s)"
  then show "lf_sealed (fs_fence t)" by cases (auto dest: move_sealed)
  from step show "goroutines (\<lambda>p. p = Inside) t \<subseteq> goroutines (\<lambda>p. p = Inside) s"
  proof cases
    case (spawn p)
    then show ?thesis by (auto simp: goroutines_def fence_call_def nth_append split: if_splits)
  next
    case (move i a f p)
    with move_sealed [OF move(3)] \<open>lf_sealed (fs_fence s)\<close> show ?thesis
      by (auto simp: goroutines_def nth_list_update split: if_splits)
  qed
qed

text \<open>A sealed account stays closed. Once the holder of the purge lease finishes it, in every state that is reached later the account is sealed and no goroutine is inside a mutation, whatever calls are made; a call
  of \<open>Enter\<close> is refused.\<close>

theorem sealed_account_stays_closed:
  assumes "fence_reachable s" "i \<in> goroutines (\<lambda>p. p = Leased) s" "Finish (fs_fence s) = (f, p)"
    and "fence_step\<^sup>*\<^sup>* (s\<lparr>fs_fence := f, fs_pcs := (fs_pcs s)[i := p]\<rparr>) t"
  shows "lf_sealed (fs_fence t) \<and> goroutines (\<lambda>p. p = Inside) t = {} \<and> enter_section (fs_fence t) = (fs_fence t, Returned (Some ErrClosed))"
proof -
  let ?s = "s\<lparr>fs_fence := f, fs_pcs := (fs_pcs s)[i := p]\<rparr>"
  have "lf_sealed (fs_fence ?s)" "p \<noteq> Inside" using assms(3) by (auto simp: fence_sections)
  moreover have "goroutines (\<lambda>p. p = Inside) ?s = {}"
    using conjunct1 [OF purge_alone [OF assms(1,2)]] assms(2) \<open>p \<noteq> Inside\<close> by (simp add: goroutines_def nth_list_update)
  ultimately show ?thesis using fence.run_closed [OF assms(4)] by (auto simp: enter_section_def)
qed

section \<open>Nobody waits for nothing\<close>

definition is_waiting :: "fence_pc \<Rightarrow> bool" where
  "is_waiting p \<longleftrightarrow> (\<exists>c. p = EnterWaits c \<or> p = PurgeWaits c \<or> p = Drains c)"

lemma inv_member: "fence_inv s \<Longrightarrow> i \<in> goroutines P s \<Longrightarrow> waits_ok (fs_fence s) (fs_pcs s ! i)"
  by (auto simp: fence_inv_def goroutines_def)

text \<open>C29. No signal is lost. In every reachable state in which no goroutine is inside a mutation or holds the lease, a purge that waits for the readers takes the lease with its next step, and when there is no such purge
  every goroutine that waits can go on: the fence never deadlocks.\<close>

theorem fence_never_deadlocks:
  assumes "fence_reachable s" "goroutines (\<lambda>p. p = Inside \<or> p = Leased) s = {}"
  shows "(\<forall>i \<in> goroutines is_writer s. fence_move Advance (fs_pcs s ! i) (fs_fence s) = Some (fs_fence s, Leased))
    \<and> (goroutines is_writer s = {} \<longrightarrow> (\<forall>i \<in> goroutines is_waiting s. fence_move Advance (fs_pcs s ! i) (fs_fence s) \<noteq> None))"
proof -
  note inv = reachable_inv [OF assms(1)]
  have r: "lf_readers (fs_fence s) = 0" using inv_readers [OF inv] assms(2) by (auto simp: goroutines_def)
  have "fence_move Advance (fs_pcs s ! i) (fs_fence s) = Some (fs_fence s, Leased)" if i: "i \<in> goroutines is_writer s" for i
  proof -
    obtain c where "fs_pcs s ! i = Drains c" using i assms(2) by (auto simp: goroutines_def is_writer_def)
    then show ?thesis using inv_member [OF inv i] r by (simp add: drain_section_def)
  qed
  moreover have "fence_move Advance (fs_pcs s ! i) (fs_fence s) \<noteq> None" if none: "goroutines is_writer s = {}" and i: "i \<in> goroutines is_waiting s" for i
  proof -
    have "\<forall>x \<in> set (fs_pcs s). \<not> is_writer x" using none by (auto simp: goroutines_def in_set_conv_nth)
    then have "filter is_writer (fs_pcs s) = []" by (simp add: filter_empty_conv)
    then have "\<not> lf_writer (fs_fence s)" using inv by (auto simp: fence_inv_def split: if_splits)
    moreover have "\<not> is_writer (fs_pcs s ! i)" "i < length (fs_pcs s)" "is_waiting (fs_pcs s ! i)" using none i by (auto simp: goroutines_def)
    ultimately show ?thesis using inv_member [OF inv i] by (auto simp: is_waiting_def is_writer_def)
  qed
  ultimately show ?thesis by blast
qed

text \<open>While a purge waits for the readers the fence is a closed gate too.\<close>

lemma writer_admits_none:
  assumes "fence_step s t" "fence_inv s" "i \<in> goroutines is_writer s"
  shows "goroutines (\<lambda>p. p = Inside) t \<subseteq> goroutines (\<lambda>p. p = Inside) s"
proof -
  have w: "lf_writer (fs_fence s)" using inv_writer [OF assms(2,3)] by simp
  have "p = Inside" if "fence_move a p (fs_fence s) = Some (f, Inside)" for a p f
    using that w by (cases rule: fence_move.cases [of "(a, p, fs_fence s)"]) (auto simp: fence_sections split: if_splits)
  with assms(1) show ?thesis
    by cases (auto simp: goroutines_def fence_call_def nth_append nth_list_update split: if_splits)
qed

interpretation draining: closing_gate "\<lambda>s t. fence_step s t \<and> i \<in> goroutines is_writer t" "\<lambda>s. fence_inv s \<and> i \<in> goroutines is_writer s" "goroutines (\<lambda>p. p = Inside)" for i
  by unfold_locales (auto intro: fence_inv_step dest: writer_admits_none)

text \<open>A purge that waits gets its lease. As long as a purge that has become the writer neither gives up nor ends, no goroutine enters a mutation, and as soon as those inside have left, its next step takes
  the lease.\<close>

theorem draining_purge_gets_lease:
  assumes "fence_reachable s" "i < length (fs_pcs s)" "fs_pcs s ! i = Drains c" "(\<lambda>s t. fence_step s t \<and> i \<in> goroutines is_writer t)\<^sup>*\<^sup>* s t" "fs_pcs t ! i = Drains d"
  shows "goroutines (\<lambda>p. p = Inside) t \<subseteq> goroutines (\<lambda>p. p = Inside) s
    \<and> (goroutines (\<lambda>p. p = Inside) t = {} \<longrightarrow> fence_move Advance (Drains d) (fs_fence t) = Some (fs_fence t, Leased))"
proof -
  have "fence_inv s \<and> i \<in> goroutines is_writer s" using reachable_inv [OF assms(1)] assms(2,3) by (auto simp: goroutines_def is_writer_def)
  note t = draining.run_closed [OF assms(4) this]
  then have "waits_ok (fs_fence t) (Drains d)" using inv_member [of t i is_writer] assms(5) by simp
  then show ?thesis using t inv_readers [of t] by (auto simp: drain_section_def)
qed

section \<open>Hooks\<close>

fun pending_hooks :: "fence_pc \<Rightarrow> nat list" where
  "pending_hooks (Registering h) = [h]"
| "pending_hooks (Hooks hs) = hs"
| "pending_hooks _ = []"

definition hooks_of :: "fence_pc list \<Rightarrow> nat multiset" where
  "hooks_of ps = mset (concat (map pending_hooks ps))"

lemma hooks_of_update:
  assumes "i < length ps"
  shows "hooks_of (ps[i := p]) + mset (pending_hooks (ps ! i)) = hooks_of ps + mset (pending_hooks p)"
proof -
  obtain as q bs where ps: "ps = as @ q # bs" "length as = i" using id_take_nth_drop [OF assms] assms by (metis length_take min.absorb4)
  then have "ps ! i = q" "ps[i := p] = as @ p # bs" by auto
  then show ?thesis by (simp add: ps(1) hooks_of_def)
qed

lemma hooks_exchange:
  assumes "H' + q = H + p" "L + q = L' + p + r"
  shows "L' + H' + r = L + (H :: 'a multiset)"
proof -
  have "(L' + H' + r) + (p + q) = (L' + p + r) + (H' + q)" by (simp add: ac_simps)
  also have "\<dots> = (L + H) + (p + q)" unfolding assms [symmetric] by (simp add: assms ac_simps)
  finally show ?thesis by (rule add_right_imp_eq)
qed

definition hooks_inv :: "fence_system \<Rightarrow> bool" where
  "hooks_inv s \<longleftrightarrow> mset (lf_sealHooks (fs_fence s)) + hooks_of (fs_pcs s) + mset (fs_ran s) = hooks_of (fs_calls s)
     \<and> (if lf_sealed (fs_fence s) then lf_sealHooks (fs_fence s) = [] else fs_ran s = [])"

lemma move_hooks:
  "fence_move a p f = Some (f', p') \<Longrightarrow> mset (lf_sealHooks f) + mset (pending_hooks p) = mset (lf_sealHooks f') + mset (pending_hooks p') + mset (ran_hook a p)"
  "fence_move a p f = Some (f', p') \<Longrightarrow> lf_sealed f \<Longrightarrow> lf_sealHooks f = [] \<Longrightarrow> lf_sealHooks f' = []"
  "fence_move a p f = Some (f', p') \<Longrightarrow> \<not> lf_sealed f \<Longrightarrow> lf_sealed f' \<Longrightarrow> lf_sealHooks f' = []"
  "fence_move a p f = Some (f', p') \<Longrightarrow> waits_ok f p \<Longrightarrow> \<not> lf_sealed f \<Longrightarrow> ran_hook a p = []"
  by (cases rule: fence_move.cases [of "(a, p, f)"]; auto simp: fence_sections ran_hook_def split: if_splits)+

lemma hooks_inv_step:
  assumes "fence_step s t" "fence_inv s" "hooks_inv s"
  shows "hooks_inv t"
  using assms(1)
proof cases
  case (spawn p)
  then show ?thesis using assms(3) by (auto simp: hooks_inv_def hooks_of_def split: if_splits)
next
  case (move i a f p)
  let ?q = "fs_pcs s ! i"
  have w: "waits_ok (fs_fence s) ?q" using assms(2) move(2) by (simp add: fence_inv_def)
  have "mset (lf_sealHooks f) + hooks_of ((fs_pcs s)[i := p]) + mset (ran_hook a ?q) = mset (lf_sealHooks (fs_fence s)) + hooks_of (fs_pcs s)"
    using hooks_exchange [OF hooks_of_update [OF move(2), of p] move_hooks(1) [OF move(3)]] .
  then have "mset (lf_sealHooks f) + hooks_of ((fs_pcs s)[i := p]) + mset (fs_ran s @ ran_hook a ?q) = hooks_of (fs_calls s)"
    using assms(3) by (simp add: hooks_inv_def ac_simps)
  moreover have "if lf_sealed f then lf_sealHooks f = [] else fs_ran s @ ran_hook a ?q = []"
    using assms(3) move_hooks(2-4) [OF move(3)] move_sealed [OF move(3)] w by (auto simp: hooks_inv_def split: if_splits)
  ultimately show ?thesis by (simp add: hooks_inv_def move(1))
qed

lemma reachable_hooks: "fence_reachable s \<Longrightarrow> hooks_inv s"
proof -
  assume "fence_reachable s"
  then have "fence_inv s \<and> hooks_inv s" unfolding fence_reachable_def
  proof (induction rule: rtranclp_induct)
    case base
    show ?case using fence_inv_start by (simp add: hooks_inv_def hooks_of_def fence_start_def NewLifecycleFence_def)
  qed (blast intro: fence_inv_step hooks_inv_step)
  then show ?thesis by simp
qed

text \<open>Hooks run once. No hook has run more often than it was registered. When no goroutine has a hook left to register or to run, every registered hook has run exactly as often as it was registered if the
  account is sealed, and none has run if it is not.\<close>

theorem hooks_run_once:
  assumes "fence_reachable s"
  shows "mset (fs_ran s) \<subseteq># hooks_of (fs_calls s)
    \<and> (hooks_of (fs_pcs s) = {#} \<longrightarrow> mset (fs_ran s) = (if lf_sealed (fs_fence s) then hooks_of (fs_calls s) else {#}))"
proof -
  have h: "mset (lf_sealHooks (fs_fence s)) + hooks_of (fs_pcs s) + mset (fs_ran s) = hooks_of (fs_calls s)"
    "if lf_sealed (fs_fence s) then lf_sealHooks (fs_fence s) = [] else fs_ran s = []"
    using reachable_hooks [OF assms] by (simp_all add: hooks_inv_def)
  then have "mset (fs_ran s) \<subseteq># hooks_of (fs_calls s)" by (metis mset_subset_eq_add_right)
  then show ?thesis using h by (auto split: if_splits)
qed

end
