(* ===== verification/Fence_Service.thy ===== *)
theory Fence_Service
  imports Fence_Safety Ledger_Calls
begin

text \<open>
  Account deprovisioning, \<^verbatim>\<open>src/internal/coredeprovision/service.go\<close>, over the lifecycle fence, and the guards that \<^verbatim>\<open>src/cmd/dirextalk-agent/core_serve.go\<close> installs in the operation ledger. The
  store and the precondition are interfaces of the service and arguments here.
\<close>

section \<open>The service\<close>

record dp_Command =
  dc_OwnerID :: string
  dc_AccountGeneration :: int
  dc_IdempotencyKey :: string
  dc_Confirmation :: string

record dp_Result =
  dr_Status :: string
  dr_DatabasePurged :: bool
  dr_ExternalPurged :: bool

definition Confirmation_text :: string where "Confirmation_text = ''deprovision_account''"

datatype dp_error = ErrInvalid_dp | ErrNotReady_dp

fun dp_text :: "dp_error \<Rightarrow> string" where
  "dp_text ErrInvalid_dp = ''invalid account deprovision request''"
| "dp_text ErrNotReady_dp = ''account deprovision is not ready''"

definition dp_err :: "dp_error \<Rightarrow> goerror" where
  "dp_err e = Opaque (dp_text e)"

text \<open>The store gets the precondition and the external purge as functions that it may call; here it gets what they return. \<open>ds_CheckAdmission\<close> and \<open>ds_HasDeprovisionFence\<close> are \<^term>\<open>None\<close> for a
  store that does not have the optional interface.\<close>

record dp_store =
  ds_Deprovision :: "dp_Command \<Rightarrow> goerror option \<Rightarrow> goerror option \<Rightarrow> dp_Result \<times> goerror option"
  ds_CheckAdmission :: "(string \<Rightarrow> int \<Rightarrow> goerror option) option"
  ds_HasDeprovisionFence :: "(goerror + bool) option"

record dp_service =
  sv_store :: dp_store
  sv_precondition :: "(dp_Command \<Rightarrow> goerror option) option"

definition validUUID_dp :: "ext \<Rightarrow> string \<Rightarrow> bool" where
  "validUUID_dp X v \<longleftrightarrow> uuid_Parse X (TrimSpace v) \<noteq> None"

definition deprovision_ok :: "ext \<Rightarrow> dp_Command \<Rightarrow> bool" where
  "deprovision_ok X c \<longleftrightarrow> TrimSpace (dc_OwnerID c) \<noteq> [] \<and> 0 < dc_AccountGeneration c \<and> validUUID_dp X (dc_IdempotencyKey c) \<and> dc_Confirmation c = Confirmation_text"

definition checkPrecondition :: "dp_service \<Rightarrow> LifecycleFence \<Rightarrow> dp_Command \<Rightarrow> goerror option" where
  "checkPrecondition sv f c = (case sv_precondition sv of
     None \<Rightarrow> if IsSealed f then None else Some (dp_err ErrInvalid_dp)
   | Some check \<Rightarrow> check c)"

text \<open>\<open>Deprovision\<close> up to the call of \<open>BeginPurge\<close>, which the fence interleaves with the other goroutines, and from the granted lease on: the result, the error and what happens to the lease.\<close>

definition Deprovision_begin :: "ext \<Rightarrow> dp_service \<Rightarrow> LifecycleFence \<Rightarrow> dp_Command \<Rightarrow> fence_pc" where
  "Deprovision_begin X sv f c = (if \<not> deprovision_ok X c then Returned (Some (dp_err ErrInvalid_dp))
     else case checkPrecondition sv f c of Some e \<Rightarrow> Returned (Some e) | None \<Rightarrow> Purging)"

definition Deprovision_leased :: "dp_service \<Rightarrow> LifecycleFence \<Rightarrow> dp_Command \<Rightarrow> goerror option \<Rightarrow> dp_Result \<times> goerror option \<times> fence_act" where
  "Deprovision_leased sv f c external = (case ds_Deprovision (sv_store sv) c (checkPrecondition sv f c) external of
     (r, Some e) \<Rightarrow> (r, Some e, if dr_DatabasePurged r then Finishes else Aborts)
   | (r, None) \<Rightarrow> (r, None, Finishes))"

definition CheckAdmission :: "dp_service \<Rightarrow> LifecycleFence \<Rightarrow> string \<Rightarrow> int \<Rightarrow> goerror option" where
  "CheckAdmission sv f owner generation = (if TrimSpace owner = [] \<or> generation \<le> 0 then Some (dp_err ErrInvalid_dp)
     else if lf_sealed f \<or> lf_writer f then Some (dp_err ErrNotReady_dp)
     else case ds_CheckAdmission (sv_store sv) of None \<Rightarrow> None | Some check \<Rightarrow> check owner generation)"

definition RestoreFence :: "dp_service \<Rightarrow> LifecycleFence \<Rightarrow> goerror + LifecycleFence" where
  "RestoreFence sv f = (case ds_HasDeprovisionFence (sv_store sv) of
     None \<Rightarrow> Inr f
   | Some (Inl e) \<Rightarrow> Inl e
   | Some (Inr b) \<Rightarrow> if b then Inr (fst (RestoreSealed f)) else Inr f)"

section \<open>The guards of the ledger\<close>

definition admission_guard :: "dp_service \<Rightarrow> LifecycleFence \<Rightarrow> CapOperation \<Rightarrow> goerror option" where
  "admission_guard sv f v = (if isDeprovisionOperation v then None else CheckAdmission sv f (co_OwnerID v) (co_AccountGeneration v))"

text \<open>\<open>EnterMutation\<close> with the fences that the passes through its loop read, and the error of the context that ends it.\<close>

fun EnterMutation :: "goerror \<Rightarrow> LifecycleFence list \<Rightarrow> goerror option" where
  "EnterMutation e [] = Some e"
| "EnterMutation e (f # fs) = (case snd (enter_section f) of Inside \<Rightarrow> None | Returned r \<Rightarrow> r | _ \<Rightarrow> EnterMutation e fs)"

definition execution_guard :: "goerror \<Rightarrow> LifecycleFence list \<Rightarrow> CapOperation \<Rightarrow> goerror option" where
  "execution_guard e fs v = (if isDeprovisionOperation v then None else EnterMutation e fs)"

section \<open>What deprovisioning does\<close>

text \<open>C27. Deprovisioning seals exactly when it must. A goroutine that holds the lease of a reachable fence runs the store alone, with no mutation inside. If the store succeeds, or fails after its database phase, the account is
  sealed in every later state and no mutation is ever inside again; if it fails before, the fence is as open as it was and the next \<open>Enter\<close> of an account that is not sealed is admitted.\<close>

theorem Deprovision_seals_or_reopens:
  assumes "fence_reachable s" "i < length (fs_pcs s)" "fs_pcs s ! i = Leased"
    and "Deprovision_leased sv (fs_fence s) c external = (r, err, act)" "fence_move act Leased (fs_fence s) = Some (f, p)"
  shows "goroutines (\<lambda>p. p = Inside) s = {}
    \<and> (if err = None \<or> dr_DatabasePurged r
       then \<forall>t. fence_step\<^sup>*\<^sup>* (s\<lparr>fs_fence := f, fs_pcs := (fs_pcs s)[i := p]\<rparr>) t \<longrightarrow> lf_sealed (fs_fence t) \<and> goroutines (\<lambda>p. p = Inside) t = {}
       else lf_sealed f = lf_sealed (fs_fence s) \<and> \<not> lf_writer f \<and> (\<not> lf_sealed f \<longrightarrow> snd (enter_section f) = Inside))"
proof -
  have i: "i \<in> goroutines (\<lambda>p. p = Leased) s" using assms(2,3) by (simp add: goroutines_def)
  note none = conjunct1 [OF purge_alone [OF assms(1) i]]
  show ?thesis
  proof (cases "err = None \<or> dr_DatabasePurged r")
    case True
    then have "act = Finishes" using assms(4) by (auto simp: Deprovision_leased_def split: prod.splits option.splits if_splits)
    then have f: "lf_sealed f" "p \<noteq> Inside" using assms(5) by (auto simp: fence_sections)
    let ?s = "s\<lparr>fs_fence := f, fs_pcs := (fs_pcs s)[i := p]\<rparr>"
    have "goroutines (\<lambda>p. p = Inside) ?s = {}" using none assms(2) f(2) by (simp add: goroutines_def nth_list_update)
    then have "lf_sealed (fs_fence t) \<and> goroutines (\<lambda>p. p = Inside) t = {}" if "fence_step\<^sup>*\<^sup>* ?s t" for t
      using fence.run_closed [OF that] f(1) by auto
    then show ?thesis using True none by auto
  next
    case False
    then have "act = Aborts" using assms(4) by (auto simp: Deprovision_leased_def split: prod.splits option.splits if_splits)
    then show ?thesis using False none assms(5) by (auto simp: fence_sections)
  qed
qed

lemma sealed_refuses: "lf_sealed f \<Longrightarrow> \<not> isDeprovisionOperation v \<Longrightarrow> admission_guard sv f v \<noteq> None"
  by (auto simp: admission_guard_def CheckAdmission_def)

lemma sealed_excludes: "\<forall>g \<in> set fs. lf_sealed g \<Longrightarrow> EnterMutation e fs \<noteq> None"
  by (cases fs) (auto simp: enter_section_def)

lemma binding_deprovision: "binding v = binding w \<Longrightarrow> isDeprovisionOperation v = isDeprovisionOperation w"
proof -
  assume "binding v = binding w"
  then have "co_CapabilityID (binding v) = co_CapabilityID (binding w)" "co_OperationName (binding v) = co_OperationName (binding w)" by simp_all
  then show ?thesis by (simp add: binding_def isDeprovisionOperation_def)
qed

lemma Get_binding: "Get_op r m k = Inr v \<Longrightarrow> \<exists>w. lookup (m_ops m) k = Some w \<and> isDeprovisionOperation v = isDeprovisionOperation w"
  by (cases r) (auto simp: Get_op_def getWithRow_def operationQuery_def isDeprovisionOperation_def split: option.splits if_splits)

text \<open>C28. A sealed account is inert. With the guards of the service installed in the ledger, no ordinary operation is admitted once the fence is sealed. The handler of one that had been admitted before is not called if the fence is
  sealed when its admission is checked again or at the latest when it enters its mutation, whatever other callers do to the ledger meanwhile. The deprovisioning operation itself passes both guards.\<close>

theorem sealed_account_is_inert:
  assumes "ledger_ok m" "\<And>i. interferes X R (xe_others E i)"
  shows "(lf_sealed f \<and> \<not> isDeprovisionOperation v \<longrightarrow> (\<exists>e. StartOrGet X db clk (Some (admission_guard sv f)) m (Some v) = (m, Inl e)))
    \<and> ((lf_sealed f \<or> (\<forall>g \<in> set fs. lf_sealed g)) \<and> lookup (m_ops m) k = Some w \<and> \<not> isDeprovisionOperation w
         \<longrightarrow> \<not> xr_ran (Execute_op X E (Some (admission_guard sv f)) (Some (execution_guard e fs)) (Some h) m k))
    \<and> (isDeprovisionOperation v \<longrightarrow> admission_guard sv f v = None \<and> execution_guard e fs v = None)"
proof (intro conjI impI)
  assume v: "lf_sealed f \<and> \<not> isDeprovisionOperation v"
  then have "\<not> isDeprovisionOperation (with_digests X v)" by (simp add: with_digests_def isDeprovisionOperation_def Let_def)
  then obtain e where "admission_guard sv f (with_digests X v) = Some e" using sealed_refuses v by blast
  then show "\<exists>e. StartOrGet X db clk (Some (admission_guard sv f)) m (Some v) = (m, Inl e)"
    by (auto simp: StartOrGet_def startPostgres_def checkAdmission_def Let_def split: option.splits)
next
  assume w: "(lf_sealed f \<or> (\<forall>g \<in> set fs. lf_sealed g)) \<and> lookup (m_ops m) k = Some w \<and> \<not> isDeprovisionOperation w"
  let ?m = "xe_others E 0 m"
  have "evolves_op R m ?m" using interferes_evolves [OF assms(2)] .
  then obtain u where u: "lookup (m_ops ?m) k = Some u" "binding u = binding w" using w assms(1) unfolding evolves_op_def moves_def row_moves_def by blast
  have refused: "admission_guard sv f g \<noteq> None \<or> execution_guard e fs g \<noteq> None" if "Get_op r ?m k = Inr g" for r g
    using Get_binding [OF that] u binding_deprovision [OF u(2)] w sealed_refuses sealed_excludes by (auto simp: execution_guard_def)
  show "\<not> xr_ran (Execute_op X E (Some (admission_guard sv f)) (Some (execution_guard e fs)) (Some h) m k)"
  proof (cases "Get_op (xe_db E 0 0) ?m k")
    case (Inr g)
    with refused [OF Inr] show ?thesis
      by (auto simp: Execute_op_def Let_def outcome_def checkAdmission_def acquireExecution_def split: option.split)
  qed (simp add: Execute_op_def Let_def outcome_def)
qed (simp_all add: admission_guard_def execution_guard_def)

end
