(* ===== verification/Fence_Example.thy ===== *)
theory Fence_Example
  imports Fence_Service Ledger_Example
begin

text \<open>Runs of the lifecycle fence, computed by a function that follows a schedule, and the ledger of \<open>Ledger_Example\<close> behind its guards.\<close>

datatype fence_cmd = Call fence_pc | Go nat fence_act

fun fence_exec :: "fence_cmd list \<Rightarrow> fence_system \<Rightarrow> fence_system option" where
  "fence_exec [] s = Some s"
| "fence_exec (Call p # cs) s = (if p = Entering \<or> p = Purging \<or> p = Restoring \<or> (case p of Registering _ \<Rightarrow> True | _ \<Rightarrow> False)
     then fence_exec cs (s\<lparr>fs_pcs := fs_pcs s @ [p], fs_calls := fs_calls s @ [p]\<rparr>) else None)"
| "fence_exec (Go i a # cs) s = (if i < length (fs_pcs s) then case fence_move a (fs_pcs s ! i) (fs_fence s) of None \<Rightarrow> None
     | Some (f, p) \<Rightarrow> fence_exec cs (s\<lparr>fs_fence := f, fs_pcs := (fs_pcs s)[i := p], fs_ran := fs_ran s @ ran_hook a (fs_pcs s ! i)\<rparr>) else None)"

lemma exec_steps: "fence_exec cs s = Some t \<Longrightarrow> fence_step\<^sup>*\<^sup>* s t"
proof (induction cs s rule: fence_exec.induct)
  case (2 p cs s)
  then have "fence_call p" by (auto simp: fence_call_def split: if_splits fence_pc.splits)
  then have "fence_step s (s\<lparr>fs_pcs := fs_pcs s @ [p], fs_calls := fs_calls s @ [p]\<rparr>)" by (rule fence_step.spawn)
  then show ?case using 2 by (auto split: if_splits intro: converse_rtranclp_into_rtranclp)
next
  case (3 i a cs s)
  then obtain f p where i: "i < length (fs_pcs s)" and m: "fence_move a (fs_pcs s ! i) (fs_fence s) = Some (f, p)"
    by (auto split: if_splits option.splits)
  note step = fence_step.move [OF i m]
  have "fence_step\<^sup>*\<^sup>* (s\<lparr>fs_fence := f, fs_pcs := (fs_pcs s)[i := p], fs_ran := fs_ran s @ ran_hook a (fs_pcs s ! i)\<rparr>) t"
    using 3 i m by auto
  with step show ?case by (rule converse_rtranclp_into_rtranclp)
qed simp

lemma exec_reachable: "fence_exec cs fence_start = Some s \<Longrightarrow> fence_reachable s"
  unfolding fence_reachable_def by (rule exec_steps)

text \<open>A reader enters, a purge waits for it, a second reader waits for the purge, the first one leaves, and the purge takes the lease.\<close>

definition fx_cmds :: "fence_cmd list" where
  "fx_cmds = [Call (Registering 7), Go 0 Advance, Call Entering, Go 1 Advance, Call Purging, Go 2 Advance, Call Entering, Go 3 Advance]"

definition fx_fence :: "nat \<Rightarrow> nat \<Rightarrow> LifecycleFence" where
  "fx_fence c r = \<lparr>lf_changed = c, lf_readers = r, lf_writer = True, lf_sealed = False, lf_sealHooks = [7]\<rparr>"

definition fx_waiting :: fence_system where
  "fx_waiting = \<lparr>fs_fence = fx_fence 1 1, fs_pcs = [Returned None, Inside, Drains 1, EnterWaits 1], fs_ran = [], fs_calls = [Registering 7, Entering, Purging, Entering]\<rparr>"

definition fx_left :: fence_system where
  "fx_left = \<lparr>fs_fence = fx_fence 2 0, fs_pcs = [Returned None, Left, Drains 1, EnterWaits 1], fs_ran = [], fs_calls = [Registering 7, Entering, Purging, Entering]\<rparr>"

definition fx_leased :: fence_system where
  "fx_leased = \<lparr>fs_fence = fx_fence 2 0, fs_pcs = [Returned None, Left, Leased, EnterWaits 1], fs_ran = [], fs_calls = [Registering 7, Entering, Purging, Entering]\<rparr>"

definition fx_sealed :: LifecycleFence where
  "fx_sealed = \<lparr>lf_changed = 3, lf_readers = 0, lf_writer = False, lf_sealed = True, lf_sealHooks = []\<rparr>"

lemmas fx_defs = fx_cmds_def fx_fence_def fx_waiting_def fx_left_def fx_leased_def fx_sealed_def fence_start_def NewLifecycleFence_def fence_sections ran_hook_def

lemma fx_runs: "fence_exec fx_cmds fence_start = Some fx_waiting" "fence_exec [Go 1 Release] fx_waiting = Some fx_left" "fence_exec [Go 2 Advance] fx_left = Some fx_leased"
  by (simp_all add: fx_defs)

lemma fx_reachable: "fence_reachable fx_waiting" "fence_reachable fx_left" "fence_reachable fx_leased"
  using exec_reachable [OF fx_runs(1)] exec_steps [OF fx_runs(2)] exec_steps [OF fx_runs(3)] reachable_run by blast+

lemma no_goroutine: "(goroutines P s = {}) = list_all (\<lambda>p. \<not> P p) (fs_pcs s)"
  by (auto simp: goroutines_def list_all_length)

lemma fx_places: "2 \<in> goroutines (\<lambda>p. p = Leased) fx_leased" "goroutines (\<lambda>p. p = Inside \<or> p = Leased) fx_left = {}"
  by (simp add: goroutines_def fx_leased_def numeral_eq_Suc, simp add: no_goroutine fx_left_def)

theorem purge_is_exclusive_witness: "goroutines (\<lambda>p. p = Inside) fx_leased = {} \<and> goroutines is_writer fx_leased = {2}"
  using purge_is_exclusive [OF fx_reachable(3) fx_places(1)] .

lemma fx_finish: "Finish (fs_fence fx_leased) = (fx_sealed, Hooks [7])"
  by (simp add: fx_defs)

lemma fx_later: "fence_exec [Go 3 Advance, Go 3 Advance] (fx_leased\<lparr>fs_fence := fx_sealed, fs_pcs := (fs_pcs fx_leased)[2 := Hooks [7]]\<rparr>)
    = Some (fx_leased\<lparr>fs_fence := fx_sealed, fs_pcs := [Returned None, Left, Hooks [7], Returned (Some ErrClosed)]\<rparr>)"
  by (simp add: fx_defs numeral_eq_Suc)

theorem sealed_account_stays_closed_witness:
  "goroutines (\<lambda>p. p = Inside) (fx_leased\<lparr>fs_fence := fx_sealed, fs_pcs := [Returned None, Left, Hooks [7], Returned (Some ErrClosed)]\<rparr>) = {}
    \<and> enter_section fx_sealed = (fx_sealed, Returned (Some ErrClosed))"
  using sealed_account_stays_closed [OF fx_reachable(3) fx_places(1) fx_finish exec_steps [OF fx_later]] by simp

theorem fence_never_deadlocks_witness: "fence_move Advance (Drains 1) (fs_fence fx_left) = Some (fs_fence fx_left, Leased)"
proof -
  have "2 \<in> goroutines is_writer fx_left" by (simp add: goroutines_def is_writer_def fx_left_def numeral_eq_Suc)
  with fence_never_deadlocks [OF fx_reachable(2) fx_places(2)] have "fence_move Advance (fs_pcs fx_left ! 2) (fs_fence fx_left) = Some (fs_fence fx_left, Leased)" by blast
  then show ?thesis by (simp add: fx_left_def numeral_eq_Suc)
qed

theorem draining_purge_gets_lease_witness: "fence_move Advance (Drains 1) (fs_fence fx_left) = Some (fs_fence fx_left, Leased)"
proof -
  have at: "2 < length (fs_pcs fx_waiting)" "fs_pcs fx_waiting ! 2 = Drains 1" "fs_pcs fx_left ! 2 = Drains 1" by (simp_all add: fx_waiting_def fx_left_def numeral_eq_Suc)
  have "fence_move Release (fs_pcs fx_waiting ! 1) (fs_fence fx_waiting) = Some (fs_fence fx_left, Left)" by (simp add: fx_defs)
  from fence_step.move [OF _ this] have "fence_step fx_waiting fx_left" by (simp add: fx_defs)
  moreover have "2 \<in> goroutines is_writer fx_left" by (simp add: goroutines_def is_writer_def fx_left_def numeral_eq_Suc)
  ultimately have run: "(\<lambda>s t. fence_step s t \<and> 2 \<in> goroutines is_writer t)\<^sup>*\<^sup>* fx_waiting fx_left" by blast
  have "goroutines (\<lambda>p. p = Inside) fx_left = {}" using fx_places(2) by (auto simp: goroutines_def)
  then show ?thesis using draining_purge_gets_lease [OF fx_reachable(1) at(1,2) run at(3)] by blast
qed

lemma fx_hooks: "fence_exec [Go 2 Finishes, Go 2 Advance] fx_leased
    = Some (fx_leased\<lparr>fs_fence := fx_sealed, fs_pcs := [Returned None, Left, Hooks [], EnterWaits 1], fs_ran := [7]\<rparr>)"
  by (simp add: fx_defs numeral_eq_Suc)

theorem hooks_run_once_witness: "mset [7] = hooks_of [Registering 7, Entering, Purging, Entering]"
proof -
  have r: "fence_reachable (fx_leased\<lparr>fs_fence := fx_sealed, fs_pcs := [Returned None, Left, Hooks [], EnterWaits 1], fs_ran := [7]\<rparr>)"
    using reachable_run [OF fx_reachable(3) exec_steps [OF fx_hooks]] .
  show ?thesis using hooks_run_once [OF r] by (simp add: hooks_of_def fx_sealed_def fx_leased_def)
qed

text \<open>A store whose database phase succeeds and whose external purge fails.\<close>

definition fx_result :: "bool \<Rightarrow> dp_Result" where
  "fx_result b = \<lparr>dr_Status = ''pending'', dr_DatabasePurged = b, dr_ExternalPurged = False\<rparr>"

definition fx_store :: dp_store where
  "fx_store = \<lparr>ds_Deprovision = \<lambda>c pre ext. (fx_result True, Some (Opaque ''purge'')), ds_CheckAdmission = None, ds_HasDeprovisionFence = Some (Inr True)\<rparr>"

definition fx_service :: dp_service where
  "fx_service = \<lparr>sv_store = fx_store, sv_precondition = Some (\<lambda>_. None)\<rparr>"

definition fx_command :: dp_Command where
  "fx_command = \<lparr>dc_OwnerID = ''o'', dc_AccountGeneration = 1, dc_IdempotencyKey = ''k'', dc_Confirmation = Confirmation_text\<rparr>"

theorem Deprovision_seals_or_reopens_witness:
  "goroutines (\<lambda>p. p = Inside) fx_leased = {}
    \<and> goroutines (\<lambda>p. p = Inside) (fx_leased\<lparr>fs_fence := fx_sealed, fs_pcs := [Returned None, Left, Hooks [7], Returned (Some ErrClosed)]\<rparr>) = {}"
proof -
  have at: "2 < length (fs_pcs fx_leased)" "fs_pcs fx_leased ! 2 = Leased" by (simp_all add: fx_leased_def numeral_eq_Suc)
  have l: "Deprovision_leased fx_service (fs_fence fx_leased) fx_command (Some (Opaque ''purge'')) = (fx_result True, Some (Opaque ''purge''), Finishes)"
    by (simp add: Deprovision_leased_def fx_service_def fx_store_def fx_result_def)
  have m: "fence_move Finishes Leased (fs_fence fx_leased) = Some (fx_sealed, Hooks [7])" by (simp add: fx_finish)
  have "dr_DatabasePurged (fx_result True)" by (simp add: fx_result_def)
  with Deprovision_seals_or_reopens [OF fx_reachable(3) at l m] exec_steps [OF fx_later] show ?thesis by simp
qed

theorem sealed_account_is_inert_witness:
  "\<not> xr_ran (Execute_op lx lx_env (Some (admission_guard fx_service fx_sealed)) (Some (execution_guard Canceled [])) (Some (\<lambda>_. Inr ''result'')) lx_m1 ''op'')"
proof -
  have i: "interferes lx {} (xe_others lx_env i)" for i by (simp add: lx_env_def interferes_id)
  have "lookup (m_ops lx_m1) ''op'' = Some lx_row" "\<not> isDeprovisionOperation lx_row" "lf_sealed fx_sealed"
    by (simp_all add: lx_m1_def lookup_def lx_row_def lx_op_def isDeprovisionOperation_def fx_sealed_def)
  then show ?thesis using sealed_account_is_inert [OF lx_ok(1) i, where f = fx_sealed and fs = "[]" and e = Canceled] by blast
qed

end
