(* ===== verification/Server_Types.thy ===== *)
theory Server_Types
  imports Fence_Service Go_Base64
begin

text \<open>
  The data of the capability server, \<^verbatim>\<open>src/internal/capability/server\<close>: the messages of the protocol as far as the server reads them, the functions it takes from the protocol package
  \<^verbatim>\<open>github.com/YingSuiAI/dirextalk-capability-api\<close> as a record of parameters, status errors, and the wire forms of \<^verbatim>\<open>handlers.go\<close>.
\<close>

section \<open>Messages\<close>

record CallContext =
  cc_ChainId :: string
  cc_RootOperationId :: string
  cc_ParentCallId :: string
  cc_DeadlineUnixMs :: int
  cc_Route :: string
  cc_Hop :: int

record PermissionContext =
  pm_AuthenticatedOwnerId :: string
  pm_AccountGeneration :: int
  pm_CapabilityGrant :: string
  pm_GrantedScopes :: "string list"

datatype OperationType = OPERATION_TYPE_READ | OPERATION_TYPE_DURABLE_STREAM | OperationTypeOther int

record OperationDescriptor =
  od_OperationId :: string
  od_OperationType :: OperationType
  od_InputSchemaJson :: string
  od_RequiredScopes :: "string list"

record CapabilityDescriptor =
  cd_CapabilityId :: string
  cd_SemanticVersion :: string
  cd_ProtocolVersion :: int
  cd_Operations :: "OperationDescriptor list"

record StartOperationRequest =
  sr_CallContext :: "CallContext option"
  sr_Permission :: "PermissionContext option"
  sr_OperationId :: string
  sr_CapabilityId :: string
  sr_Operation :: string
  sr_RequestJson :: string
  sr_RequestDigest :: "8 word list"
  sr_ExpectedRevision :: int

record QueryRequest =
  qr_CallContext :: "CallContext option"
  qr_Permission :: "PermissionContext option"
  qr_CapabilityId :: string
  qr_OperationId :: string
  qr_RequestJson :: string

text \<open>The requests of \<open>GetOperation\<close>, \<open>WatchOperation\<close>, \<open>CancelOperation\<close> and \<open>ReconcileOperation\<close>; only a watch has a sequence number.\<close>

record ControlRequest =
  kr_CallContext :: "CallContext option"
  kr_Permission :: "PermissionContext option"
  kr_OperationId :: string
  kr_AfterSequence :: int

text \<open>Getters of a message that may be nil give the zero value.\<close>

definition owner_of :: "PermissionContext option \<Rightarrow> string" where
  "owner_of p = (case p of None \<Rightarrow> [] | Some v \<Rightarrow> pm_AuthenticatedOwnerId v)"

definition generation_of :: "PermissionContext option \<Rightarrow> int" where
  "generation_of p = (case p of None \<Rightarrow> 0 | Some v \<Rightarrow> pm_AccountGeneration v)"

definition grant_of :: "PermissionContext option \<Rightarrow> string" where
  "grant_of p = (case p of None \<Rightarrow> [] | Some v \<Rightarrow> pm_CapabilityGrant v)"

section \<open>The protocol package\<close>

record AgentGrantBinding =
  ab_CallContext :: CallContext
  ab_RootOperationID :: string
  ab_OwnerID :: string
  ab_AccountGeneration :: int
  ab_RootCapabilityID :: string
  ab_RootOperation :: string
  ab_RootRequestDigest :: "8 word list"
  ab_CatalogDigest :: "8 word list"
  ab_SchemaDigest :: "8 word list"
  ab_RequiredScopes :: "string list"

record GrantClaims =
  gc_MaxHop :: int
  gc_MaxRouteLength :: int
  gc_Scopes :: "string list"

record ControlBinding =
  cb_CallContext :: "CallContext option"
  cb_OwnerID :: string
  cb_AccountGeneration :: int
  cb_OperationID :: string
  cb_ControlAction :: string
  cb_ControlScope :: string

record Metadata =
  md_Token :: string
  md_InstanceID :: string
  md_AccountGeneration :: int

text \<open>The functions and constants of the package that the server uses. A grant is checked with the public key and, for root and query grants, the time. \<open>proto_Marshal\<close> is the deterministic encoding of a descriptor.\<close>

record capv1 =
  ValidateCallContext :: "CallContext \<Rightarrow> goerror option"
  ValidateAgentCallPath :: "CallContext \<Rightarrow> goerror option"
  ValidateAndAdvanceAgentCallContext :: "CallContext \<Rightarrow> goerror + CallContext"
  RemainingDeadlineMs :: "CallContext \<Rightarrow> int \<Rightarrow> int"
  ValidateRootOperationRequest :: "StartOperationRequest \<Rightarrow> goerror option"
  CanonicalizeJSON :: "string \<Rightarrow> goerror + string"
  ParseBusinessInput :: "string \<Rightarrow> goerror + json"
  ComputeRequestDigest :: "int \<Rightarrow> string \<Rightarrow> string \<Rightarrow> 8 word list \<Rightarrow> string \<Rightarrow> int \<Rightarrow> json \<Rightarrow> 8 word list \<Rightarrow> goerror + 8 word list"
  ComputeRootRequestDigest :: "int \<Rightarrow> string \<Rightarrow> string \<Rightarrow> 8 word list \<Rightarrow> string \<Rightarrow> int \<Rightarrow> json \<Rightarrow> goerror + 8 word list"
  VerifyRequestDigest :: "8 word list \<Rightarrow> 8 word list \<Rightarrow> goerror option"
  VerifyAgentQueryGrant :: "string \<Rightarrow> string \<Rightarrow> gotime \<Rightarrow> AgentGrantBinding \<Rightarrow> goerror + GrantClaims"
  VerifyAgentRootBinding :: "string \<Rightarrow> string \<Rightarrow> gotime \<Rightarrow> AgentGrantBinding \<Rightarrow> goerror + GrantClaims"
  VerifyOperationControlGrant :: "string \<Rightarrow> string \<Rightarrow> ControlBinding \<Rightarrow> goerror option"
  ParseGrantPublicKey :: "string \<Rightarrow> goerror + string"
  ParseCapabilityMetadata :: "(string \<times> string list) list \<Rightarrow> goerror + Metadata"
  proto_Marshal :: "CapabilityDescriptor \<Rightarrow> string"
  RouteSeparator :: string
  NodeAgent :: string
  MinGrantKeySize :: nat
  ErrCycleDetected :: goerror
  ErrInvalidCallPath :: goerror
  ErrInvalidGrant :: goerror
  ErrGrantBinding :: goerror

section \<open>Status errors\<close>

datatype grpc_code = G_Canceled | G_InvalidArgument | G_DeadlineExceeded | G_NotFound | G_PermissionDenied | G_ResourceExhausted | G_FailedPrecondition
  | G_Aborted | G_Unavailable | G_Unauthenticated

text \<open>An error of a handler is a status or, on a stream, any other error. \<open>Panic\<close> is a handler that dereferences nil.\<close>

datatype rpc_error = Status grpc_code string | Plain goerror | Panic

type_synonym 'a rpc = "rpc_error + 'a"

definition check :: "rpc_error option \<Rightarrow> 'a rpc \<Rightarrow> 'a rpc" where
  "check e r = (case e of Some x \<Rightarrow> Inl x | None \<Rightarrow> r)"

lemma check_Inr [simp]: "(check e r = Inr v) = (e = None \<and> r = Inr v)"
  by (simp add: check_def split: option.split)

fun operation_status_code :: "string \<Rightarrow> grpc_code option" where
  "operation_status_code c = map_of [(''INVALID_ARGUMENT'', G_InvalidArgument), (''PERMISSION_DENIED'', G_PermissionDenied), (''NOT_FOUND'', G_NotFound), (''CONFLICT'', G_Aborted),
     (''PRECONDITION_FAILED'', G_FailedPrecondition), (''NOT_READY'', G_FailedPrecondition), (''UNAVAILABLE'', G_Unavailable), (''UPSTREAM_FAILED'', G_Unavailable),
     (''RESOURCE_EXHAUSTED'', G_ResourceExhausted)] c"

definition operationStatusError :: "goerror \<Rightarrow> rpc_error" where
  "operationStatusError e = (if errors_Is e Canceled then Status G_Canceled (error_text e)
     else if errors_Is e DeadlineExceeded then Status G_DeadlineExceeded (error_text DeadlineExceeded)
     else case FailureDetails e of
       Some (code, message) \<Rightarrow> (case operation_status_code code of Some c \<Rightarrow> Status c message | None \<Rightarrow> Status G_Unavailable ''Agent operation failed'')
     | None \<Rightarrow> Status G_Unavailable ''Agent operation failed'')"

section \<open>Wire forms\<close>

text \<open>Unlike \<open>errorCodeToProto\<close> of the ledger, the server compares the code as it is.\<close>

definition operationErrorCodeInternal :: "string \<Rightarrow> ErrorCode" where
  "operationErrorCodeInternal v = (case map_of error_codes v of Some c \<Rightarrow> c | None \<Rightarrow> ERROR_CODE_UPSTREAM_FAILED)"

definition capabilityError :: "ext \<Rightarrow> string \<Rightarrow> string \<Rightarrow> CapabilityError" where
  "capabilityError X code message = \<lparr>er_Code = operationErrorCodeInternal code, er_Message = message, er_Details = SafeFailureDetails X code message\<rparr>"

record StartOperationResponse =
  so_OperationId :: string
  so_State :: OperationState
  so_Replayed :: bool
  so_Error :: "CapabilityError option"

definition startOperationResponse :: "ext \<Rightarrow> CapOperation \<Rightarrow> bool \<Rightarrow> StartOperationResponse" where
  "startOperationResponse X accepted created = \<lparr>so_OperationId = co_ID accepted, so_State = stateToProto (co_State accepted), so_Replayed = (\<not> created),
     so_Error = (if co_ErrorCode accepted \<noteq> [] then Some (capabilityError X (co_ErrorCode accepted) (co_ErrorMessage accepted)) else None)\<rparr>"

definition OpState_of_string :: "string \<Rightarrow> OpState" where
  "OpState_of_string s = (case map_of (map (\<lambda>st. (OpState_string st, st)) [Pending, Running, Completed, Failed, Cancelled, Uncertain]) s of Some st \<Rightarrow> st | None \<Rightarrow> OpStateOther s)"

definition operationStateFromString :: "string \<Rightarrow> OperationState" where
  "operationStateFromString v = stateToProto (OpState_of_string v)"

text \<open>A string field of a struct that is decoded from JSON: the last member whose name matches, whatever its case, and whose value is a string. Text that does not decode leaves the field empty.\<close>

definition field_name :: "ext \<Rightarrow> string \<Rightarrow> string" where
  "field_name X s = ToUpper X (ToLower X s)"

definition string_field :: "ext \<Rightarrow> string \<Rightarrow> string \<Rightarrow> string" where
  "string_field X name text = (case json_Unmarshal X text of
     Some (JObj ms) \<Rightarrow> fold (\<lambda>(k, v) s. if field_name X k = field_name X name then (case v of JStr t \<Rightarrow> t | _ \<Rightarrow> s) else s) ms []
   | _ \<Rightarrow> [])"

datatype WatchEvent = Accepted OperationState | Progress string | Result string | ErrorEvent CapabilityError | CancelledEvent string

record WatchOperationEvent =
  we_OperationId :: string
  we_Sequence :: int
  we_TimestampUnixMs :: int
  we_Event :: WatchEvent

definition unix_epoch :: int where "unix_epoch = 62135596800 * Second"

definition time_UnixMilli :: "gotime \<Rightarrow> int" where
  "time_UnixMilli t = (instant t - unix_epoch) div 1000000"

definition eventProto :: "ext \<Rightarrow> CapEvent \<Rightarrow> WatchOperationEvent" where
  "eventProto X e = \<lparr>we_OperationId = ce_OperationID e, we_Sequence = ce_Sequence e, we_TimestampUnixMs = time_UnixMilli (ce_CreatedAt e),
     we_Event = (if ce_EventType e \<in> {''accepted'', ''running'', ''state_changed''}
         then let state = string_field X ''state'' (ce_EventJSON e) in
              Accepted (operationStateFromString (if state = [] then string_field X ''new_state'' (ce_EventJSON e) else state))
       else if ce_EventType e = ''result'' then Result (ce_EventJSON e)
       else if ce_EventType e = ''error''
         then ErrorEvent (capabilityError X (string_field X ''error_code'' (ce_EventJSON e)) (string_field X ''error_message'' (ce_EventJSON e)))
       else if ce_EventType e = ''cancelled'' then CancelledEvent (string_field X ''reason'' (ce_EventJSON e))
       else Progress (ce_EventJSON e))\<rparr>"

end
