(* ===== verification/Server_Context.thy ===== *)
theory Server_Context
  imports Server_Types
begin

text \<open>
  Who may call the capability server, \<^verbatim>\<open>src/internal/capability/server/server.go\<close>: construction, authentication of the peer, call contexts, grants and scopes, the semaphores and the interceptors. The state of
  the durable jobs is in \<open>Server_Jobs\<close>.
\<close>

section \<open>The server\<close>

record server_Config =
  cf_ListenAddr :: string
  cf_PeerCommonName :: string
  cf_PeerInstanceID :: string
  cf_AccountGeneration :: int
  cf_GrantPublicKeyFile :: string
  cf_MaxConcurrentQuery :: int
  cf_MaxConcurrentWatch :: int

text \<open>The values that a context carries to a handler.\<close>

record call_values =
  cx_CallContext :: "CallContext option"
  cx_Permission :: "PermissionContext option"
  cx_OperationID :: "string option"

record Capability =
  cap_Descriptor :: CapabilityDescriptor
  cap_HandleOperation :: "call_values \<Rightarrow> string \<Rightarrow> string \<Rightarrow> goerror + string"

text \<open>The registry is a map from identifiers; the semaphores are the numbers of their tokens that are taken. \<open>s_chain\<close> has the chains with outstanding product calls, \<^term>\<open>None\<close> without a chain fence.\<close>

record Server =
  s_config :: server_Config
  s_token :: string
  s_grantKey :: string
  s_ready :: bool
  s_registry :: "(string \<times> Capability) list"
  s_querySem :: int
  s_watchSem :: int
  s_chain :: "(string \<times> int) list option"
  s_opMgr :: Manager

definition registry_List :: "Server \<Rightarrow> CapabilityDescriptor list" where
  "registry_List S = map (\<lambda>(k, c). cap_Descriptor c) (s_registry S)"

text \<open>\<open>New\<close> with the contents of its two files, \<^term>\<open>None\<close> for one that cannot be read, up to the certificates.\<close>

definition with_defaults :: "server_Config \<Rightarrow> server_Config" where
  "with_defaults c = c\<lparr>cf_PeerCommonName := (if TrimSpace (cf_PeerCommonName c) = [] then ''message-server-client'' else cf_PeerCommonName c),
     cf_MaxConcurrentQuery := (if cf_MaxConcurrentQuery c \<le> 0 then 32 else cf_MaxConcurrentQuery c),
     cf_MaxConcurrentWatch := (if cf_MaxConcurrentWatch c \<le> 0 then 64 else cf_MaxConcurrentWatch c)\<rparr>"

definition direction_token :: "string option \<Rightarrow> goerror + string" where
  "direction_token file = (case file of None \<Rightarrow> Inl (Opaque ''failed to read token file'')
     | Some value \<Rightarrow> (case DecodeString value of
         Some decoded \<Rightarrow> if length decoded \<noteq> 32 \<or> EncodeToString decoded \<noteq> value then Inl (Opaque ''invalid capability direction token'') else Inr value
       | None \<Rightarrow> Inl (Opaque ''invalid capability direction token'')))"

definition New_server :: "capv1 \<Rightarrow> server_Config \<Rightarrow> string option \<Rightarrow> string option \<Rightarrow> (string \<times> Capability) list \<Rightarrow> Manager \<Rightarrow> (string \<times> int) list option \<Rightarrow> goerror + Server" where
  "New_server C c token key reg m chain =
    (if TrimSpace (cf_ListenAddr c) = [] then Inl (Opaque ''capability listen address is required'')
     else if TrimSpace (cf_PeerInstanceID c) = [] then Inl (Opaque ''capability peer instance id is required'')
     else if cf_AccountGeneration c \<le> 0 then Inl (Opaque ''capability account generation must be positive'')
     else if TrimSpace (cf_GrantPublicKeyFile c) = [] then Inl (Opaque ''capability grant public key file is required'')
     else rbind (direction_token token) (\<lambda>value.
       case key of None \<Rightarrow> Inl (Opaque ''invalid capability grant public key'')
       | Some material \<Rightarrow> (case ParseGrantPublicKey C material of Inl _ \<Rightarrow> Inl (Opaque ''invalid capability grant public key'')
         | Inr k \<Rightarrow> Inr \<lparr>s_config = with_defaults c, s_token = value, s_grantKey = k, s_ready = True, s_registry = reg, s_querySem = 0, s_watchSem = 0,
             s_chain = chain, s_opMgr = m\<rparr>)))"

section \<open>Authentication\<close>

text \<open>What the transport knows of a peer: no peer information, a peer without TLS, or the number of verified chains, the common names of its certificates and the metadata.\<close>

record tls_peer =
  tp_VerifiedChains :: nat
  tp_CommonNames :: "string list"
  tp_Metadata :: "(string \<times> string list) list option"

datatype peer = NoPeer | NoTLS | TLS tls_peer

definition authenticate :: "capv1 \<Rightarrow> Server \<Rightarrow> peer \<Rightarrow> rpc_error option" where
  "authenticate C S p = (case p of NoPeer \<Rightarrow> Some (Status G_Unauthenticated ''no peer info'')
     | NoTLS \<Rightarrow> Some (Status G_Unauthenticated ''no TLS info'')
     | TLS t \<Rightarrow> if tp_VerifiedChains t = 0 then Some (Status G_Unauthenticated ''no verified chains'')
       else (case tp_CommonNames t of [] \<Rightarrow> Some (Status G_Unauthenticated ''client certificate is required'')
         | cn # _ \<Rightarrow> if cn \<noteq> cf_PeerCommonName (s_config S) then Some (Status G_Unauthenticated (''invalid client CN: '' @ cn))
           else (case tp_Metadata t of None \<Rightarrow> Some (Status G_Unauthenticated ''capability direction token is required'')
             | Some md \<Rightarrow> (case ParseCapabilityMetadata C md of Inl e \<Rightarrow> Some (Status G_Unauthenticated (''invalid capability metadata: '' @ error_text e))
               | Inr n \<Rightarrow> if md_Token n \<noteq> s_token S then Some (Status G_Unauthenticated ''invalid capability direction token'')
                 else if md_InstanceID n \<noteq> cf_PeerInstanceID (s_config S) then Some (Status G_Unauthenticated ''invalid capability peer instance'')
                 else if cf_AccountGeneration (s_config S) \<le> 0 \<or> md_AccountGeneration n \<noteq> cf_AccountGeneration (s_config S)
                   then Some (Status G_Unauthenticated ''invalid capability account generation'')
                 else None))))"

section \<open>Call contexts\<close>

text \<open>\<open>strings.Split\<close> with a separator that is not empty.\<close>

function split_by :: "string \<Rightarrow> string \<Rightarrow> string \<Rightarrow> string list" where
  "split_by sep acc s = (if s = [] then [acc]
     else if sep \<noteq> [] \<and> starts_with s sep then acc # split_by sep [] (drop (length sep) s)
     else split_by sep (acc @ [hd s]) (tl s))"
  by pat_completeness auto
termination
  by (relation "measure (\<lambda>(sep, acc, s). length s)") auto

declare split_by.simps [simp del]

text \<open>A conversion to \<open>int32\<close>.\<close>

definition wrap32 :: "int \<Rightarrow> int" where
  "wrap32 i = (i + 2 ^ 31) mod 2 ^ 32 - 2 ^ 31"

definition validateOrAdvanceAgentCallContext :: "capv1 \<Rightarrow> CallContext \<Rightarrow> goerror + CallContext" where
  "validateOrAdvanceAgentCallContext C cc = (let parts = split_by (RouteSeparator C) [] (cc_Route cc) in
     if cc_Route cc = [] then Inl (Wrapped (error_text (ErrInvalidCallPath C) @ '': peer-bound call_context route is required'') (ErrInvalidCallPath C))
     else if last parts = NodeAgent C then
       (if length parts < 2 then Inl (Wrapped (error_text (ErrInvalidCallPath C) @ '': agent route has no message-server sender'') (ErrInvalidCallPath C))
        else (case ValidateAgentCallPath C (cc\<lparr>cc_Route := Join (butlast parts) (RouteSeparator C), cc_Hop := wrap32 (int (length parts) - 1)\<rparr>) of
            Some e \<Rightarrow> Inl e | None \<Rightarrow> Inr cc))
     else (case ValidateAgentCallPath C cc of Some e \<Rightarrow> Inl e | None \<Rightarrow> ValidateAndAdvanceAgentCallContext C cc))"

definition chain_active :: "Server \<Rightarrow> string \<Rightarrow> bool" where
  "chain_active S k = (case s_chain S of None \<Rightarrow> False | Some act \<Rightarrow> k \<noteq> [] \<and> (case lookup act k of None \<Rightarrow> False | Some n \<Rightarrow> 0 < n))"

text \<open>With the time in milliseconds; the result replaces the call context of the request.\<close>

definition validateCallContext :: "capv1 \<Rightarrow> Server \<Rightarrow> int \<Rightarrow> CallContext option \<Rightarrow> CallContext option rpc" where
  "validateCallContext C S now_ms cc = (case cc of None \<Rightarrow> Inr None
     | Some v \<Rightarrow> (case ValidateCallContext C v of Some e \<Rightarrow> Inl (Status G_InvalidArgument (''invalid call_context: '' @ error_text e))
       | None \<Rightarrow> (case validateOrAdvanceAgentCallContext C v of
           Inl e \<Rightarrow> if errors_Is e (ErrCycleDetected C) then Inl (Status G_FailedPrecondition ''CYCLE_DETECTED'')
                    else Inl (Status G_InvalidArgument (''invalid call path: '' @ error_text e))
         | Inr adv \<Rightarrow> if chain_active S (cc_ChainId v) then Inl (Status G_FailedPrecondition ''CYCLE_DETECTED'')
             else if RemainingDeadlineMs C v now_ms \<le> 0 then Inl (Status G_DeadlineExceeded ''call context deadline exceeded'')
             else Inr (Some adv))))"

definition requireCallContext :: "capv1 \<Rightarrow> Server \<Rightarrow> int \<Rightarrow> CallContext option \<Rightarrow> CallContext rpc" where
  "requireCallContext C S now_ms cc = (case cc of None \<Rightarrow> Inl (Status G_InvalidArgument ''call_context is required'')
     | Some v \<Rightarrow> (case validateCallContext C S now_ms cc of Inl e \<Rightarrow> Inl e | Inr (Some adv) \<Rightarrow> Inr adv | Inr None \<Rightarrow> Inr v))"

section \<open>Grants\<close>

definition computeCatalogDigest :: "ext \<Rightarrow> capv1 \<Rightarrow> CapabilityDescriptor list \<Rightarrow> 8 word list" where
  "computeCatalogDigest X C ds = Sum256 X (concat (map (proto_Marshal C) (sort_key cd_CapabilityId ds)))"

definition containsScope :: "string list \<Rightarrow> string \<Rightarrow> bool" where
  "containsScope scopes wanted = list_ex (\<lambda>s. s = wanted) scopes"

definition sameScopes :: "string list \<Rightarrow> string list \<Rightarrow> bool" where
  "sameScopes a b \<longleftrightarrow> length a = length b \<and> list_all (\<lambda>v. v \<in> set a) b"

definition find_operation :: "CapabilityDescriptor \<Rightarrow> string \<Rightarrow> OperationDescriptor option" where
  "find_operation d op = find (\<lambda>x. od_OperationId x = op) (cd_Operations d)"

definition agent_binding :: "ext \<Rightarrow> capv1 \<Rightarrow> Server \<Rightarrow> CallContext \<Rightarrow> PermissionContext \<Rightarrow> CapabilityDescriptor \<Rightarrow> OperationDescriptor \<Rightarrow> string \<Rightarrow> 8 word list \<Rightarrow> AgentGrantBinding" where
  "agent_binding X C S cc p d od op digest = \<lparr>ab_CallContext = cc, ab_RootOperationID = cc_RootOperationId cc, ab_OwnerID = pm_AuthenticatedOwnerId p, ab_AccountGeneration = pm_AccountGeneration p,
     ab_RootCapabilityID = cd_CapabilityId d, ab_RootOperation = op, ab_RootRequestDigest = digest, ab_CatalogDigest = computeCatalogDigest X C (registry_List S),
     ab_SchemaDigest = Sum256 X (od_InputSchemaJson od), ab_RequiredScopes = sort (od_RequiredScopes od)\<rparr>"

definition verifyAgentGrant :: "ext \<Rightarrow> capv1 \<Rightarrow> Server \<Rightarrow> gotime \<Rightarrow> CallContext \<Rightarrow> PermissionContext \<Rightarrow> CapabilityDescriptor \<Rightarrow> string \<Rightarrow> 8 word list \<Rightarrow> bool \<Rightarrow> goerror option" where
  "verifyAgentGrant X C S now cc p d op digest query =
    (if length (s_grantKey S) \<noteq> MinGrantKeySize C \<or> length digest \<noteq> 32 then Some (ErrInvalidGrant C)
     else if pm_AccountGeneration p \<le> 0 then Some (ErrGrantBinding C)
     else case find_operation d op of None \<Rightarrow> Some (ErrGrantBinding C)
     | Some od \<Rightarrow> let binding = agent_binding X C S cc p d od op digest; required = sort (od_RequiredScopes od) in
         (case (if query then VerifyAgentQueryGrant C else VerifyAgentRootBinding C) (pm_CapabilityGrant p) (s_grantKey S) now binding of
            Inl e \<Rightarrow> Some e
          | Inr claims \<Rightarrow> if cc_Hop cc > gc_MaxHop claims \<or> wrap32 (int (length (cc_Route cc))) > gc_MaxRouteLength claims then Some (ErrGrantBinding C)
              else if list_ex (\<lambda>s. \<not> containsScope (gc_Scopes claims) s) required then Some (ErrGrantBinding C)
              else if \<not> sameScopes (gc_Scopes claims) (pm_GrantedScopes p) then Some (ErrGrantBinding C)
              else None))"

definition validatePermissionWithRoot :: "ext \<Rightarrow> capv1 \<Rightarrow> Server \<Rightarrow> gotime \<Rightarrow> CallContext \<Rightarrow> PermissionContext option \<Rightarrow> CapabilityDescriptor \<Rightarrow> string \<Rightarrow> 8 word list \<Rightarrow> bool \<Rightarrow> rpc_error option" where
  "validatePermissionWithRoot X C S now cc perm d op digest query = (case perm of None \<Rightarrow> Some (Status G_PermissionDenied ''permission context is required'')
     | Some p \<Rightarrow> if TrimSpace (pm_AuthenticatedOwnerId p) = [] then Some (Status G_PermissionDenied ''permission context is required'')
       else if 0 < cf_AccountGeneration (s_config S) \<and> pm_AccountGeneration p \<noteq> cf_AccountGeneration (s_config S) then Some (Status G_PermissionDenied ''account generation is stale'')
       else if pm_CapabilityGrant p = [] then Some (Status G_PermissionDenied ''capability grant is required'')
       else (case find (\<lambda>s. s \<notin> set (pm_GrantedScopes p)) (case find_operation d op of None \<Rightarrow> [] | Some od \<Rightarrow> od_RequiredScopes od) of
           Some s \<Rightarrow> Some (Status G_PermissionDenied (''missing capability scope '' @ [CHR 0x22] @ s @ [CHR 0x22]))
         | None \<Rightarrow> (case verifyAgentGrant X C S now cc p d op digest query of
             Some e \<Rightarrow> Some (Status G_PermissionDenied (''invalid capability grant: '' @ error_text e)) | None \<Rightarrow> None)))"

definition authorizeOperation :: "capv1 \<Rightarrow> Server \<Rightarrow> CallContext option \<Rightarrow> PermissionContext option \<Rightarrow> CapOperation \<Rightarrow> string \<Rightarrow> rpc_error option" where
  "authorizeOperation C S cc perm v action =
    (if perm = None \<or> owner_of perm = [] then Some (Status G_PermissionDenied ''permission context is required'')
     else if owner_of perm \<noteq> co_OwnerID v then Some (Status G_PermissionDenied ''operation owner mismatch'')
     else if 0 < cf_AccountGeneration (s_config S) \<and> generation_of perm \<noteq> cf_AccountGeneration (s_config S) then Some (Status G_PermissionDenied ''account generation is stale'')
     else if grant_of perm = [] then Some (Status G_PermissionDenied ''capability grant is required'')
     else (case VerifyOperationControlGrant C (grant_of perm) (s_grantKey S) \<lparr>cb_CallContext = cc, cb_OwnerID = owner_of perm, cb_AccountGeneration = generation_of perm,
             cb_OperationID = co_ID v, cb_ControlAction = action, cb_ControlScope = ''operation:control:'' @ action\<rparr> of
         Some e \<Rightarrow> Some (Status G_PermissionDenied (''invalid operation control grant: '' @ error_text e)) | None \<Rightarrow> None))"

definition operationDescriptor :: "Server \<Rightarrow> string \<Rightarrow> string \<Rightarrow> (Capability \<times> OperationDescriptor) rpc" where
  "operationDescriptor S cap op = (case lookup (s_registry S) cap of None \<Rightarrow> Inl (Status G_NotFound ''capability not found'')
     | Some c \<Rightarrow> (case find_operation (cap_Descriptor c) op of None \<Rightarrow> Inl (Status G_NotFound ''capability operation not found'') | Some od \<Rightarrow> Inr (c, od)))"

section \<open>Semaphores and interceptors\<close>

text \<open>Why a wait for a token ended without one, when it did; with no reason given the token is taken if there is one, and the wait times out otherwise.\<close>

datatype sem_wait = SemTakes | SemContextDone | SemTimeout

definition acquireQuerySem :: "sem_wait \<Rightarrow> Server \<Rightarrow> Server rpc" where
  "acquireQuerySem w S = (if w = SemContextDone then Inl (Status G_DeadlineExceeded ''timeout acquiring query semaphore'')
     else if w = SemTimeout \<or> s_querySem S \<ge> cf_MaxConcurrentQuery (s_config S) then Inl (Status G_ResourceExhausted ''query semaphore exhausted'')
     else Inr (S\<lparr>s_querySem := s_querySem S + 1\<rparr>))"

definition releaseQuerySem :: "Server \<Rightarrow> Server" where
  "releaseQuerySem S = S\<lparr>s_querySem := s_querySem S - 1\<rparr>"

definition acquireWatchSem :: "sem_wait \<Rightarrow> Server \<Rightarrow> Server rpc" where
  "acquireWatchSem w S = (if w = SemContextDone then Inl (Status G_DeadlineExceeded ''timeout acquiring watch semaphore'')
     else if w = SemTimeout \<or> s_watchSem S \<ge> cf_MaxConcurrentWatch (s_config S) then Inl (Status G_ResourceExhausted ''watch semaphore exhausted'')
     else Inr (S\<lparr>s_watchSem := s_watchSem S + 1\<rparr>))"

definition releaseWatchSem :: "Server \<Rightarrow> Server" where
  "releaseWatchSem S = S\<lparr>s_watchSem := s_watchSem S - 1\<rparr>"

text \<open>A unary call: \<open>request\<close> is the call context of the request if its type has one, and the handler gets the one that replaces it. The second interceptor is that of streams.\<close>

definition unaryInterceptor :: "capv1 \<Rightarrow> Server \<Rightarrow> peer \<Rightarrow> int \<Rightarrow> CallContext option \<Rightarrow> string \<Rightarrow> (CallContext option \<Rightarrow> Server \<times> 'a rpc) \<Rightarrow> Server \<times> 'a rpc" where
  "unaryInterceptor C S p now_ms request fullMethod handler = (case authenticate C S p of Some e \<Rightarrow> (S, Inl e)
     | None \<Rightarrow> (case validateCallContext C S now_ms request of Inl e \<Rightarrow> (S, Inl e)
       | Inr cc \<Rightarrow> if fullMethod \<noteq> ''/dirextalk.capability.v1.AgentCapabilityService/DescribeCapabilities'' \<and> \<not> s_ready S
           then (S, Inl (Status G_Unavailable ''service not ready'')) else handler cc))"

definition streamInterceptor :: "capv1 \<Rightarrow> Server \<Rightarrow> peer \<Rightarrow> (Server \<times> 'a rpc) \<Rightarrow> Server \<times> 'a rpc" where
  "streamInterceptor C S p handled = (case authenticate C S p of Some e \<Rightarrow> (S, Inl e)
     | None \<Rightarrow> if \<not> s_ready S then (S, Inl (Status G_Unavailable ''service not ready'')) else handled)"

end
