(* ===== verification/Server_Handlers.thy ===== *)
theory Server_Handlers
  imports Server_Context
begin

text \<open>
  The calls of the capability server, \<^verbatim>\<open>src/internal/capability/server/handlers.go\<close>: queries, operations and their control. Every call gets what it reads of the world in a record: how its wait for a semaphore ended, the
  time, what the mutation guard answers, and the replies of the database.
\<close>

record rpc_env =
  re_sem :: sem_wait
  re_now_ms :: int
  re_now :: gotime
  re_guard :: "goerror option option"
  re_admission :: guard
  re_db :: "nat \<Rightarrow> nat \<Rightarrow> reply"
  re_clk :: "nat \<Rightarrow> nat \<Rightarrow> gotime"

definition enterMutation :: "goerror option option \<Rightarrow> rpc_error option" where
  "enterMutation guard = (case guard of Some (Some _) \<Rightarrow> Some (Status G_FailedPrecondition ''Agent account is deprovisioning'') | _ \<Rightarrow> None)"

definition allowOperationObservation :: "goerror option option \<Rightarrow> CapOperation \<Rightarrow> rpc_error option" where
  "allowOperationObservation guard v = (if isDeprovisionOperation v then None else enterMutation guard)"

section \<open>Queries\<close>

definition canonicalRootRequestDigest :: "ext \<Rightarrow> capv1 \<Rightarrow> CapabilityDescriptor \<Rightarrow> OperationDescriptor \<Rightarrow> string \<Rightarrow> int \<Rightarrow> goerror + 8 word list" where
  "canonicalRootRequestDigest X C d od json revision = rbind (ParseBusinessInput C json) (\<lambda>business.
     ComputeRootRequestDigest C (cd_ProtocolVersion d) (cd_CapabilityId d) (cd_SemanticVersion d) (Sum256 X (od_InputSchemaJson od)) (od_OperationId od) revision business)"

definition canonicalRequestDigest :: "ext \<Rightarrow> capv1 \<Rightarrow> CapabilityDescriptor \<Rightarrow> OperationDescriptor \<Rightarrow> StartOperationRequest \<Rightarrow> goerror + 8 word list" where
  "canonicalRequestDigest X C d od r = rbind (ParseBusinessInput C (sr_RequestJson r)) (\<lambda>business.
     ComputeRequestDigest C (cd_ProtocolVersion d) (cd_CapabilityId d) (cd_SemanticVersion d) (Sum256 X (od_InputSchemaJson od)) (od_OperationId od) (sr_ExpectedRevision r) business
       (Sum256 X (grant_of (sr_Permission r))))"

definition query_answer :: "ext \<Rightarrow> capv1 \<Rightarrow> Server \<Rightarrow> gotime \<Rightarrow> QueryRequest \<Rightarrow> CallContext \<Rightarrow> string rpc" where
  "query_answer X C S now q cc = rbind (operationDescriptor S (qr_CapabilityId q) (qr_OperationId q)) (\<lambda>(c, od).
     if od_OperationType od \<noteq> OPERATION_TYPE_READ then Inl (Status G_InvalidArgument ''Query only supports read operations'')
     else if qr_RequestJson q = [] then Inl (Status G_InvalidArgument ''request_json is required'')
     else if CanonicalizeJSON C (qr_RequestJson q) \<noteq> Inr (qr_RequestJson q) then Inl (Status G_InvalidArgument ''request_json must be RFC 8785 canonical JSON'')
     else case canonicalRootRequestDigest X C (cap_Descriptor c) od (qr_RequestJson q) 0 of
       Inl e \<Rightarrow> Inl (Status G_InvalidArgument (error_text e))
     | Inr digest \<Rightarrow> check (validatePermissionWithRoot X C S now cc (qr_Permission q) (cap_Descriptor c) (od_OperationId od) digest True)
         (case cap_HandleOperation c \<lparr>cx_CallContext = Some cc, cx_Permission = qr_Permission q, cx_OperationID = None\<rparr> (qr_OperationId q) (qr_RequestJson q) of
            Inl e \<Rightarrow> Inl (operationStatusError e) | Inr result \<Rightarrow> Inr result))"

definition Query_rpc :: "ext \<Rightarrow> capv1 \<Rightarrow> rpc_env \<Rightarrow> Server \<Rightarrow> QueryRequest option \<Rightarrow> Server \<times> string rpc" where
  "Query_rpc X C E S req = (case req of None \<Rightarrow> (S, Inl (Status G_InvalidArgument ''request is required''))
     | Some q \<Rightarrow> (case requireCallContext C S (re_now_ms E) (qr_CallContext q) of Inl e \<Rightarrow> (S, Inl e)
       | Inr cc \<Rightarrow> (case enterMutation (re_guard E) of Some e \<Rightarrow> (S, Inl e)
         | None \<Rightarrow> (case acquireQuerySem (re_sem E) S of Inl e \<Rightarrow> (S, Inl e)
           | Inr S1 \<Rightarrow> (releaseQuerySem S1, query_answer X C S1 (re_now E) q cc)))))"

definition DescribeCapabilities :: "ext \<Rightarrow> capv1 \<Rightarrow> Server \<Rightarrow> CapabilityDescriptor list \<times> 8 word list" where
  "DescribeCapabilities X C S = (registry_List S, computeCatalogDigest X C (registry_List S))"

section \<open>Starting an operation\<close>

text \<open>The checks of a start request up to the ledger; \<open>r\<close> has the advanced call context \<open>cc\<close>.\<close>

definition ledger_request :: "StartOperationRequest \<Rightarrow> 8 word list \<Rightarrow> 8 word list \<Rightarrow> CapOperation" where
  "ledger_request r root digest = \<lparr>co_ID = sr_OperationId r, co_CapabilityID = sr_CapabilityId r, co_OperationName = sr_Operation r, co_State = OpStateOther [], co_RequestJSON = sr_RequestJson r,
     co_RootRequestDigest = root, co_RequestDigest = digest, co_ResultJSON = None, co_ErrorCode = [], co_ErrorMessage = [], co_ExpectedRevision = sr_ExpectedRevision r, co_ActualRevision = 0,
     co_CreatedAt = time_zero, co_UpdatedAt = time_zero, co_CompletedAt = None, co_OwnerID = owner_of (sr_Permission r), co_AccountGeneration = generation_of (sr_Permission r), co_Sequence = 0\<rparr>"

definition start_checks :: "ext \<Rightarrow> capv1 \<Rightarrow> Server \<Rightarrow> gotime \<Rightarrow> StartOperationRequest \<Rightarrow> CallContext \<Rightarrow> (Capability \<times> OperationDescriptor \<times> CapOperation) rpc" where
  "start_checks X C S now r cc =
    (if sr_OperationId r = [] \<or> sr_CapabilityId r = [] \<or> sr_Operation r = [] then Inl (Status G_InvalidArgument ''operation_id, capability_id and operation are required'')
     else rbind (operationDescriptor S (sr_CapabilityId r) (sr_Operation r)) (\<lambda>(c, od).
       if od_OperationType od = OPERATION_TYPE_READ then Inl (Status G_InvalidArgument ''read operation must use Query'')
       else if sr_RequestJson r = [] \<or> \<not> json_Valid X (sr_RequestJson r) then Inl (Status G_InvalidArgument ''request_json must be valid JSON'')
       else case canonicalRootRequestDigest X C (cap_Descriptor c) od (sr_RequestJson r) (sr_ExpectedRevision r) of
         Inl e \<Rightarrow> Inl (Status G_InvalidArgument (error_text e))
       | Inr root \<Rightarrow> (case canonicalRequestDigest X C (cap_Descriptor c) od r of
           Inl e \<Rightarrow> Inl (Status G_InvalidArgument (error_text e))
         | Inr digest \<Rightarrow> (case VerifyRequestDigest C (sr_RequestDigest r) digest of
             Some e \<Rightarrow> Inl (Status G_Aborted (''operation request digest conflicts with canonical request: '' @ error_text e))
           | None \<Rightarrow> check (validatePermissionWithRoot X C S now cc (sr_Permission r) (cap_Descriptor c) (sr_Operation r) root False)
               (Inr (c, od, ledger_request r root digest))))))"

text \<open>What a started operation runs in a goroutine of its own: the handler, given whether the server shut down while it ran, and the deadline of its context.\<close>

record launch =
  la_handler :: "bool \<Rightarrow> op_handler"
  la_durable :: bool
  la_deadline :: "gotime option"

text \<open>\<open>shutdown\<close> is what \<^verbatim>\<open>context.Cause\<close> of the handler's context says after the handler has returned. The source sets that cause in a callback, \<^verbatim>\<open>context.AfterFunc\<close>, so a handler can return an error after
  the shutdown has begun and before the cause is set, and an explicit cancellation can be the cause instead; both read as False here.\<close>

definition accepted_handler :: "Capability \<Rightarrow> StartOperationRequest \<Rightarrow> bool \<Rightarrow> bool \<Rightarrow> op_handler" where
  "accepted_handler c r durable shutdown v =
    (case cap_HandleOperation c \<lparr>cx_CallContext = sr_CallContext r, cx_Permission = sr_Permission r, cx_OperationID = Some (sr_OperationId r)\<rparr> (sr_Operation r) (sr_RequestJson r) of
       Inl e \<Rightarrow> if durable \<and> shutdown then Inl Canceled else Inl e
     | Inr result \<Rightarrow> Inr result)"

definition time_of_UnixMilli :: "int \<Rightarrow> gotime" where
  "time_of_UnixMilli d = \<lparr>instant = unix_epoch + d * 1000000, zone = UTC\<rparr>"

text \<open>\<open>admitted\<close> is what \<open>beginDurableJob\<close> answers.\<close>

definition executeAcceptedOperation :: "ext \<Rightarrow> (nat \<Rightarrow> reply) \<Rightarrow> (nat \<Rightarrow> gotime) \<Rightarrow> gotime \<Rightarrow> bool \<Rightarrow> StartOperationRequest \<Rightarrow> OperationDescriptor \<Rightarrow> Capability \<Rightarrow> Manager \<Rightarrow> Manager \<times> launch option" where
  "executeAcceptedOperation X db clk now admitted r od c m =
    (if od_OperationType od = OPERATION_TYPE_DURABLE_STREAM then
       (if \<not> admitted then (fst (Fail_op X db clk m (sr_OperationId r) ''UNAVAILABLE'' ''capability server stopped before operation execution''), None)
        else (m, Some \<lparr>la_handler = accepted_handler c r True, la_durable = True, la_deadline = None\<rparr>))
     else (case sr_CallContext r of
         Some cc \<Rightarrow> if 0 < cc_DeadlineUnixMs cc then
             (if instant (time_of_UnixMilli (cc_DeadlineUnixMs cc)) \<le> instant now
              then (fst (Fail_op X db clk m (sr_OperationId r) ''UNCERTAIN'' ''call context deadline elapsed''), None)
              else (m, Some \<lparr>la_handler = accepted_handler c r False, la_durable = False, la_deadline = Some (time_of_UnixMilli (cc_DeadlineUnixMs cc))\<rparr>))
           else (m, Some \<lparr>la_handler = accepted_handler c r False, la_durable = False, la_deadline = None\<rparr>)
       | None \<Rightarrow> (m, Some \<lparr>la_handler = accepted_handler c r False, la_durable = False, la_deadline = None\<rparr>)))"

text \<open>The part of \<open>StartOperation\<close> that uses the ledger.\<close>

definition start_ledger :: "ext \<Rightarrow> rpc_env \<Rightarrow> bool \<Rightarrow> StartOperationRequest \<Rightarrow> OperationDescriptor \<Rightarrow> Capability \<Rightarrow> CapOperation \<Rightarrow> Manager \<Rightarrow> Manager \<times> StartOperationResponse rpc \<times> launch option" where
  "start_ledger X E admitted r od c v m = (case StartOrGet X (re_db E 0) (re_clk E 0 0) (re_admission E) m (Some v) of
     (m1, Inl e) \<Rightarrow> (m1, Inl (Status (if errors_Is e (Ledger ErrNotFound_op) then G_NotFound else G_Aborted) (error_text e)), None)
   | (m1, Inr (accepted, created)) \<Rightarrow>
       (if \<not> created \<and> sr_CapabilityId r = ''agent.account.v1'' \<and> sr_Operation r = ''deprovision_account'' \<and> (co_State accepted = Failed \<or> co_State accepted = Uncertain)
        then (case ReopenForReplay X (re_db E 1) (re_clk E 1 0) m1 (sr_OperationId r) of
            (m2, Inl e) \<Rightarrow> (m2, Inl (Status G_FailedPrecondition (error_text e)), None)
          | (m2, Inr (again, was)) \<Rightarrow> if was
              then (case executeAcceptedOperation X (re_db E 2) (re_clk E 2) (re_now E) admitted r od c (rememberSecrets X m2 (sr_OperationId r) (sr_RequestJson r)) of
                 (m3, l) \<Rightarrow> (m3, Inr (startOperationResponse X again created), l))
              else (m2, Inr (startOperationResponse X again created), None))
        else if created then (case executeAcceptedOperation X (re_db E 2) (re_clk E 2) (re_now E) admitted r od c m1 of
            (m3, l) \<Rightarrow> (m3, Inr (startOperationResponse X accepted created), l))
        else (m1, Inr (startOperationResponse X accepted created), None)))"

definition StartOperation :: "ext \<Rightarrow> capv1 \<Rightarrow> rpc_env \<Rightarrow> bool \<Rightarrow> Server \<Rightarrow> StartOperationRequest option \<Rightarrow> Server \<times> StartOperationResponse rpc \<times> launch option" where
  "StartOperation X C E admitted S req = (case req of None \<Rightarrow> (S, Inl (Status G_InvalidArgument ''request is required''), None)
     | Some r0 \<Rightarrow> (case requireCallContext C S (re_now_ms E) (sr_CallContext r0) of Inl e \<Rightarrow> (S, Inl e, None)
       | Inr cc \<Rightarrow> let r = r0\<lparr>sr_CallContext := Some cc\<rparr> in
         (case ValidateRootOperationRequest C r of Some e \<Rightarrow> (S, Inl (Status G_InvalidArgument (''invalid root operation request: '' @ error_text e)), None)
          | None \<Rightarrow> (case acquireQuerySem (re_sem E) S of Inl e \<Rightarrow> (S, Inl e, None)
            | Inr S1 \<Rightarrow> (case start_checks X C S1 (re_now E) r cc of Inl e \<Rightarrow> (releaseQuerySem S1, Inl e, None)
              | Inr (c, od, v) \<Rightarrow> (case start_ledger X E admitted r od c v (s_opMgr S1) of
                  (m, answer, l) \<Rightarrow> (releaseQuerySem (S1\<lparr>s_opMgr := m\<rparr>), answer, l)))))))"

section \<open>Controlling an operation\<close>

definition GetOperation_rpc :: "ext \<Rightarrow> capv1 \<Rightarrow> rpc_env \<Rightarrow> Server \<Rightarrow> ControlRequest option \<Rightarrow> GetOperationResponse rpc" where
  "GetOperation_rpc X C E S req = (case req of None \<Rightarrow> Inl (Status G_InvalidArgument ''request is required'')
     | Some k \<Rightarrow> rbind (requireCallContext C S (re_now_ms E) (kr_CallContext k)) (\<lambda>cc.
         case Get_op (re_db E 0 0) (s_opMgr S) (kr_OperationId k) of Inl _ \<Rightarrow> Inl (Status G_NotFound ''operation not found'')
         | Inr v \<Rightarrow> check (allowOperationObservation (re_guard E) v) (check (authorizeOperation C S (Some cc) (kr_Permission k) v ''get'') (Inr (ToProto X v)))))"

text \<open>The loop of a watch: what it receives, and the error of the first send that fails.\<close>

datatype received = Received CapEvent | ChannelClosed | StreamDone goerror

fun watch_loop :: "ext \<Rightarrow> (nat \<Rightarrow> goerror option) \<Rightarrow> nat \<Rightarrow> received list \<Rightarrow> WatchOperationEvent list \<times> rpc_error option" where
  "watch_loop X send i [] = ([], None)"
| "watch_loop X send i (ChannelClosed # rs) = ([], None)"
| "watch_loop X send i (StreamDone e # rs) = ([], Some (Plain e))"
| "watch_loop X send i (Received ev # rs) = (case send i of Some e \<Rightarrow> ([], Some (Plain e))
     | None \<Rightarrow> (case watch_loop X send (Suc i) rs of (sent, r) \<Rightarrow> (eventProto X ev # sent, r)))"

text \<open>The wait for a token, the checks and the registration of the watcher; the token is returned when the loop ends.\<close>

definition WatchOperation_begin :: "capv1 \<Rightarrow> rpc_env \<Rightarrow> Server \<Rightarrow> ControlRequest option \<Rightarrow> Server \<times> nat rpc" where
  "WatchOperation_begin C E S req = (case req of None \<Rightarrow> (S, Inl (Status G_InvalidArgument ''request is required''))
     | Some k \<Rightarrow> (case requireCallContext C S (re_now_ms E) (kr_CallContext k) of Inl e \<Rightarrow> (S, Inl e)
       | Inr cc \<Rightarrow> (case acquireWatchSem (re_sem E) S of Inl e \<Rightarrow> (S, Inl e)
         | Inr S1 \<Rightarrow> (case Get_op (re_db E 0 0) (s_opMgr S1) (kr_OperationId k) of Inl _ \<Rightarrow> (releaseWatchSem S1, Inl (Status G_NotFound ''operation not found''))
           | Inr v \<Rightarrow> (case allowOperationObservation (re_guard E) v of Some e \<Rightarrow> (releaseWatchSem S1, Inl e)
             | None \<Rightarrow> (case authorizeOperation C S1 (Some cc) (kr_Permission k) v ''watch'' of Some e \<Rightarrow> (releaseWatchSem S1, Inl e)
               | None \<Rightarrow> (case Watch_op (re_db E 1 0) (s_opMgr S1) (kr_OperationId k) of
                   (m, Inl _) \<Rightarrow> (releaseWatchSem (S1\<lparr>s_opMgr := m\<rparr>), Inl (Status G_NotFound ''operation not found''))
                 | (m, Inr i) \<Rightarrow> (S1\<lparr>s_opMgr := m\<rparr>, Inr i))))))))"

definition CancelOperation_rpc :: "ext \<Rightarrow> capv1 \<Rightarrow> rpc_env \<Rightarrow> waited \<Rightarrow> (Manager \<Rightarrow> Manager) \<Rightarrow> Server \<Rightarrow> ControlRequest option \<Rightarrow> Server \<times> OperationState rpc" where
  "CancelOperation_rpc X C E w ends S req = (case req of None \<Rightarrow> (S, Inl (Status G_InvalidArgument ''request is required''))
     | Some k \<Rightarrow> (case requireCallContext C S (re_now_ms E) (kr_CallContext k) of Inl e \<Rightarrow> (S, Inl e)
       | Inr cc \<Rightarrow> (case enterMutation (re_guard E) of Some e \<Rightarrow> (S, Inl e)
         | None \<Rightarrow> (case Get_op (re_db E 0 0) (s_opMgr S) (kr_OperationId k) of Inl _ \<Rightarrow> (S, Inl (Status G_NotFound ''operation not found''))
           | Inr v \<Rightarrow> (case authorizeOperation C S (Some cc) (kr_Permission k) v ''cancel'' of Some e \<Rightarrow> (S, Inl e)
             | None \<Rightarrow> (case Cancel_op X (re_db E 1) (re_clk E 1) w ends (s_opMgr S) (kr_OperationId k) ''user requested'' of (m, canceled) \<Rightarrow>
                 (S\<lparr>s_opMgr := m\<rparr>,
                  (case (case canceled of Inl e \<Rightarrow> if errors_Is e (Ledger ErrTerminal_op) then None else Some e | Inr _ \<Rightarrow> None) of
                     Some e \<Rightarrow> Inl (Status G_FailedPrecondition (error_text e))
                   | None \<Rightarrow> (case Get_op (re_db E 2 0) m (kr_OperationId k) of Inl _ \<Rightarrow> Inl Panic | Inr u \<Rightarrow> Inr (stateToProto (co_State u)))))))))))"

record ReconcileOperationResponse =
  rr_State :: OperationState
  rr_ResultJson :: "string option"
  rr_Error :: "CapabilityError option"

definition ReconcileOperation :: "ext \<Rightarrow> capv1 \<Rightarrow> rpc_env \<Rightarrow> Server \<Rightarrow> ControlRequest option \<Rightarrow> Server \<times> ReconcileOperationResponse rpc" where
  "ReconcileOperation X C E S req = (case req of None \<Rightarrow> (S, Inl (Status G_InvalidArgument ''request is required''))
     | Some k \<Rightarrow> (case requireCallContext C S (re_now_ms E) (kr_CallContext k) of Inl e \<Rightarrow> (S, Inl e)
       | Inr cc \<Rightarrow> (case enterMutation (re_guard E) of Some e \<Rightarrow> (S, Inl e)
         | None \<Rightarrow> (case Get_op (re_db E 0 0) (s_opMgr S) (kr_OperationId k) of Inl _ \<Rightarrow> (S, Inl (Status G_NotFound ''operation not found''))
           | Inr v \<Rightarrow> (case authorizeOperation C S (Some cc) (kr_Permission k) v ''reconcile'' of Some e \<Rightarrow> (S, Inl e)
             | None \<Rightarrow> (case Reconcile_op X (re_db E 1) (re_clk E 1) (s_opMgr S) (kr_OperationId k) of
                 (m, Inl e) \<Rightarrow> (S\<lparr>s_opMgr := m\<rparr>, Inl (Status G_Unavailable (error_text e)))
               | (m, Inr u) \<Rightarrow> (S\<lparr>s_opMgr := m\<rparr>, Inr \<lparr>rr_State = stateToProto (co_State u), rr_ResultJson = co_ResultJSON u,
                   rr_Error = (if co_ErrorCode u \<noteq> [] then Some (capabilityError X (co_ErrorCode u) (co_ErrorMessage u)) else None)\<rparr>)))))))"

end
