(* ===== verification/Server_Jobs.thy ===== *)
theory Server_Jobs
  imports Closing_Gate Ledger_Types
begin

text \<open>
  The durable jobs of the capability server, \<^verbatim>\<open>src/internal/capability/server/server.go\<close>: handlers that outlive the call that admitted them, and the shutdown that waits for them. Every critical section is one
  definition, the goroutines are at positions of the code, and \<open>job_step\<close> interleaves them. A closed gate is a server that stops.
\<close>

section \<open>The critical sections\<close>

text \<open>The context with its cancellation, the wait group, the count of active jobs and the channel \<open>durableDrained\<close>, with whether it exists and whether it is closed.\<close>

record durable_jobs =
  j_ctx :: bool
  j_cancelled :: bool
  j_jobs :: nat
  j_active :: nat
  j_stopping :: bool
  j_drained :: bool
  j_drainedClose :: bool

definition no_jobs :: durable_jobs where
  "no_jobs = \<lparr>j_ctx = False, j_cancelled = False, j_jobs = 0, j_active = 0, j_stopping = False, j_drained = False, j_drainedClose = False\<rparr>"

definition initializeDurableLifecycle :: "durable_jobs \<Rightarrow> durable_jobs" where
  "initializeDurableLifecycle j = (if j_ctx j \<or> j_stopping j then j else j\<lparr>j_ctx := True, j_drained := True\<rparr>)"

definition beginDurableJob :: "durable_jobs \<Rightarrow> durable_jobs \<times> bool" where
  "beginDurableJob j = (if j_stopping j then (j, False)
     else let k = (if j_ctx j then j else j\<lparr>j_ctx := True, j_drained := True\<rparr>) in (k\<lparr>j_jobs := Suc (j_jobs k), j_active := Suc (j_active k)\<rparr>, True))"

text \<open>Closing a channel that does not exist is a panic, \<^term>\<open>None\<close>.\<close>

definition closeDurableDrainedLocked :: "durable_jobs \<Rightarrow> durable_jobs option" where
  "closeDurableDrainedLocked j = (if j_drainedClose j then Some j else if \<not> j_drained j then None else Some (j\<lparr>j_drainedClose := True\<rparr>))"

text \<open>\<open>finishDurableJob\<close> leaves the wait group, where a negative count is a panic, and takes the mutex afterwards.\<close>

definition job_done :: "durable_jobs \<Rightarrow> durable_jobs option" where
  "job_done j = (if j_jobs j = 0 then None else Some (j\<lparr>j_jobs := j_jobs j - 1\<rparr>))"

definition job_unlisted :: "durable_jobs \<Rightarrow> durable_jobs option" where
  "job_unlisted j = (let k = j\<lparr>j_active := j_active j - 1\<rparr> in if j_stopping k \<and> j_active k = 0 then closeDurableDrainedLocked k else Some k)"

definition stop_section :: "durable_jobs \<Rightarrow> durable_jobs option" where
  "stop_section j = (let k = (if j_stopping j then j else j\<lparr>j_stopping := True, j_cancelled := j_ctx j\<rparr>); k2 = k\<lparr>j_drained := True\<rparr> in
     if j_active k2 = 0 then closeDurableDrainedLocked k2 else Some k2)"

section \<open>Goroutines\<close>

datatype job_pc = JobRuns | JobLeaves | JobEnded | JobRefused | Stops | StopWaits | StopJoins | Stopped "goerror option" | JobPanic

datatype job_act = JobAdvance | StopGivesUp goerror

fun job_move :: "job_act \<Rightarrow> job_pc \<Rightarrow> durable_jobs \<Rightarrow> (durable_jobs \<times> job_pc) option" where
  "job_move JobAdvance JobRuns j = Some (case job_done j of Some k \<Rightarrow> (k, JobLeaves) | None \<Rightarrow> (j, JobPanic))"
| "job_move JobAdvance JobLeaves j = Some (case job_unlisted j of Some k \<Rightarrow> (k, JobEnded) | None \<Rightarrow> (j, JobPanic))"
| "job_move JobAdvance Stops j = Some (case stop_section j of Some k \<Rightarrow> (k, StopWaits) | None \<Rightarrow> (j, JobPanic))"
| "job_move JobAdvance StopWaits j = (if j_drainedClose j then Some (j, StopJoins) else None)"
| "job_move (StopGivesUp e) StopWaits j = Some (j, Stopped (Some e))"
| "job_move JobAdvance StopJoins j = (if j_jobs j = 0 then Some (j, Stopped None) else None)"
| "job_move _ _ _ = None"

record job_system =
  js_jobs :: durable_jobs
  js_pcs :: "job_pc list"

inductive job_step :: "job_system \<Rightarrow> job_system \<Rightarrow> bool" where
  init: "job_step s (s\<lparr>js_jobs := initializeDurableLifecycle (js_jobs s)\<rparr>)"
| start: "beginDurableJob (js_jobs s) = (j, admitted) \<Longrightarrow> job_step s (s\<lparr>js_jobs := j, js_pcs := js_pcs s @ [if admitted then JobRuns else JobRefused]\<rparr>)"
| stop: "job_step s (s\<lparr>js_pcs := js_pcs s @ [Stops]\<rparr>)"
| move: "i < length (js_pcs s) \<Longrightarrow> job_move a (js_pcs s ! i) (js_jobs s) = Some (j, p) \<Longrightarrow> job_step s (s\<lparr>js_jobs := j, js_pcs := (js_pcs s)[i := p]\<rparr>)"

inductive_cases job_stepE: "job_step s t"

definition job_reachable :: "job_system \<Rightarrow> bool" where
  "job_reachable s \<longleftrightarrow> job_step\<^sup>*\<^sup>* \<lparr>js_jobs = no_jobs, js_pcs = []\<rparr> s"

section \<open>The invariant\<close>

definition active_job :: "job_pc \<Rightarrow> bool" where
  "active_job p \<longleftrightarrow> p = JobRuns \<or> p = JobLeaves"

definition pc_ok :: "durable_jobs \<Rightarrow> job_pc \<Rightarrow> bool" where
  "pc_ok j p \<longleftrightarrow> p \<noteq> JobPanic \<and> (p \<in> {StopWaits, StopJoins, Stopped None} \<longrightarrow> j_stopping j) \<and> (p \<in> {StopJoins, Stopped None} \<longrightarrow> j_drainedClose j)"

definition jobs_ok :: "durable_jobs \<Rightarrow> bool" where
  "jobs_ok j \<longleftrightarrow> j_jobs j \<le> j_active j \<and> (j_drainedClose j \<longleftrightarrow> j_stopping j \<and> j_active j = 0) \<and> (j_stopping j \<longrightarrow> j_drained j)
     \<and> (0 < j_active j \<longrightarrow> j_ctx j) \<and> (j_stopping j \<longrightarrow> j_cancelled j = j_ctx j) \<and> (j_ctx j \<longrightarrow> j_drained j)"

definition jobs_inv :: "job_system \<Rightarrow> bool" where
  "jobs_inv s \<longleftrightarrow> jobs_ok (js_jobs s) \<and> length (filter (\<lambda>p. p = JobRuns) (js_pcs s)) = j_jobs (js_jobs s)
     \<and> length (filter active_job (js_pcs s)) = j_active (js_jobs s) \<and> (\<forall>p \<in> set (js_pcs s). pc_ok (js_jobs s) p)"

lemmas job_sections = beginDurableJob_def initializeDurableLifecycle_def closeDurableDrainedLocked_def job_done_def job_unlisted_def stop_section_def

lemma move_jobs:
  assumes "job_move a p j = Some (k, q)" "jobs_ok j" "pc_ok j p" "p = JobRuns \<longrightarrow> 0 < j_jobs j" "p = JobLeaves \<longrightarrow> j_jobs j < j_active j"
  shows "jobs_ok k" "pc_ok k q" "j_jobs k + of_bool (p = JobRuns) = j_jobs j + of_bool (q = JobRuns)" "j_active k + of_bool (active_job p) = j_active j + of_bool (active_job q)"
    "pc_ok j x \<Longrightarrow> pc_ok k x" "j_stopping j \<Longrightarrow> j_stopping k" "q = JobRuns \<Longrightarrow> p = JobRuns"
  using assms by (cases rule: job_move.cases [of "(a, p, j)"];
    auto simp: job_sections jobs_ok_def pc_ok_def active_job_def Let_def split: if_splits option.splits)+

lemma begin_jobs:
  assumes "jobs_ok j" "beginDurableJob j = (k, b)"
  shows "jobs_ok k" "j_jobs k = j_jobs j + of_bool b" "j_active k = j_active j + of_bool b" "pc_ok j x \<Longrightarrow> pc_ok k x" "b = (\<not> j_stopping j)"
  using assms by (auto simp: job_sections jobs_ok_def pc_ok_def Let_def split: if_splits)

lemma init_jobs: "jobs_ok j \<Longrightarrow> jobs_ok (initializeDurableLifecycle j)" "pc_ok j x \<Longrightarrow> pc_ok (initializeDurableLifecycle j) x"
    "j_jobs (initializeDurableLifecycle j) = j_jobs j" "j_active (initializeDurableLifecycle j) = j_active j"
  by (auto simp: job_sections jobs_ok_def pc_ok_def)

lemma jobs_inv_step:
  assumes "job_step s t" "jobs_inv s"
  shows "jobs_inv t"
  using assms(1)
proof cases
  case init
  then show ?thesis using assms(2) by (auto simp: jobs_inv_def init_jobs)
next
  case (start j admitted)
  then show ?thesis using assms(2) begin_jobs [of "js_jobs s" j admitted]
    by (auto simp: jobs_inv_def active_job_def) (simp_all add: pc_ok_def)
next
  case stop
  then show ?thesis using assms(2) by (auto simp: jobs_inv_def active_job_def pc_ok_def)
next
  case (move i a j p)
  let ?q = "js_pcs s ! i"
  note inv = assms(2)[unfolded jobs_inv_def]
  have q: "?q \<in> set (js_pcs s)" using move(2) by simp
  have runs: "?q = JobRuns \<longrightarrow> 0 < j_jobs (js_jobs s)" using inv q by (metis (mono_tags, lifting) filter_none gr0I)
  have leaves: "?q = JobLeaves \<longrightarrow> j_jobs (js_jobs s) < j_active (js_jobs s)"
  proof
    assume l: "?q = JobLeaves"
    have "filter (\<lambda>p. p = JobRuns) xs = filter (\<lambda>p. p = JobRuns) (filter active_job xs)" for xs by (induction xs) (auto simp: active_job_def)
    moreover have "?q \<in> set (filter active_job (js_pcs s))" using q l by (simp add: active_job_def)
    then have "length (filter (\<lambda>p. p = JobRuns) (filter active_job (js_pcs s))) < length (filter active_job (js_pcs s))"
      using l by (intro length_filter_less) auto
    ultimately show "j_jobs (js_jobs s) < j_active (js_jobs s)" using inv by simp
  qed
  have ok: "jobs_ok (js_jobs s)" "pc_ok (js_jobs s) ?q" using inv q by auto
  note m = move_jobs [OF move(3) ok runs leaves]
  have "pc_ok j x" if "x \<in> set ((js_pcs s)[i := p])" for x
  proof -
    from that have "x = p \<or> x \<in> set (js_pcs s)" using set_update_subset_insert [of "js_pcs s" i p] by auto
    then show ?thesis using m(2,5) inv by auto
  qed
  moreover have "length (filter (\<lambda>x. x = JobRuns) ((js_pcs s)[i := p])) = j_jobs j" using filter_update [OF move(2), of "\<lambda>x. x = JobRuns" p] m(3) inv by simp
  moreover have "length (filter active_job ((js_pcs s)[i := p])) = j_active j" using filter_update [OF move(2), of active_job p] m(4) inv by simp
  ultimately show ?thesis using m(1) by (simp add: jobs_inv_def move(1))
qed

lemma jobs_reachable_inv: "job_reachable s \<Longrightarrow> jobs_inv s"
  unfolding job_reachable_def
proof (induction rule: rtranclp_induct)
  case base
  show ?case by (simp add: jobs_inv_def jobs_ok_def no_jobs_def)
qed (rule jobs_inv_step)

definition job_goroutines :: "(job_pc \<Rightarrow> bool) \<Rightarrow> job_system \<Rightarrow> nat set" where
  "job_goroutines P s = {i. i < length (js_pcs s) \<and> P (js_pcs s ! i)}"

interpretation jobs: closing_gate job_step "\<lambda>s. jobs_inv s \<and> j_stopping (js_jobs s)" "job_goroutines (\<lambda>p. p = JobRuns)"
proof
  fix s t assume step: "job_step s t" and s: "jobs_inv s \<and> j_stopping (js_jobs s)"
  have "j_stopping (js_jobs t)" "job_goroutines (\<lambda>p. p = JobRuns) t \<subseteq> job_goroutines (\<lambda>p. p = JobRuns) s"
    using step
  proof (atomize (full), cases)
    case (move i a j p)
    have "j_stopping j" "p = JobRuns \<Longrightarrow> js_pcs s ! i = JobRuns" using move(3) s
      by (cases rule: job_move.cases [of "(a, js_pcs s ! i, js_jobs s)"]; auto simp: job_sections Let_def split: if_splits option.splits)+
    then show "j_stopping (js_jobs t) \<and> job_goroutines (\<lambda>p. p = JobRuns) t \<subseteq> job_goroutines (\<lambda>p. p = JobRuns) s"
      using move(1,2) by (auto simp: job_goroutines_def nth_list_update split: if_splits)
  qed (use s in \<open>auto simp: job_sections job_goroutines_def nth_append Let_def split: if_splits\<close>)
  then show "jobs_inv t \<and> j_stopping (js_jobs t)" "job_goroutines (\<lambda>p. p = JobRuns) t \<subseteq> job_goroutines (\<lambda>p. p = JobRuns) s"
    using jobs_inv_step [OF step] s by auto
qed

lemma pc_at: "jobs_inv s \<Longrightarrow> i < length (js_pcs s) \<Longrightarrow> pc_ok (js_jobs s) (js_pcs s ! i)"
  by (simp add: jobs_inv_def)

section \<open>Shutdown\<close>

text \<open>C36. Shutdown waits for every durable job. In every state that any interleaving of jobs and shutdowns can reach, no goroutine has panicked on the channel or the wait group; a job that runs while the server stops has its context canceled;
  and once a shutdown has returned without an error, no durable handler runs in that state or in any later one, and no new job is admitted.\<close>

theorem shutdown_waits_for_jobs:
  assumes "job_reachable s"
  shows "job_goroutines (\<lambda>p. p = JobPanic) s = {}
    \<and> (j_stopping (js_jobs s) \<and> job_goroutines (\<lambda>p. p = JobRuns) s \<noteq> {} \<longrightarrow> j_cancelled (js_jobs s))
    \<and> (job_goroutines (\<lambda>p. p = Stopped None) s \<noteq> {} \<and> job_step\<^sup>*\<^sup>* s t \<longrightarrow> job_goroutines (\<lambda>p. p = JobRuns) t = {} \<and> \<not> snd (beginDurableJob (js_jobs t)))"
proof (intro conjI impI)
  note inv = jobs_reachable_inv [OF assms]
  have active: "job_goroutines (\<lambda>p. p = JobRuns) s = {}" if "j_active (js_jobs s) = 0"
    using inv that by (auto simp: jobs_inv_def job_goroutines_def active_job_def filter_empty_conv)
  show "job_goroutines (\<lambda>p. p = JobPanic) s = {}" using pc_at [OF inv] by (auto simp: job_goroutines_def pc_ok_def)
  show "j_cancelled (js_jobs s)" if "j_stopping (js_jobs s) \<and> job_goroutines (\<lambda>p. p = JobRuns) s \<noteq> {}"
    using that active inv by (auto simp: jobs_inv_def jobs_ok_def)
  assume "job_goroutines (\<lambda>p. p = Stopped None) s \<noteq> {} \<and> job_step\<^sup>*\<^sup>* s t"
  then obtain i where i: "i < length (js_pcs s)" "js_pcs s ! i = Stopped None" and run: "job_step\<^sup>*\<^sup>* s t" by (auto simp: job_goroutines_def)
  then have "pc_ok (js_jobs s) (Stopped None)" using pc_at [OF inv i(1)] by simp
  then have "j_stopping (js_jobs s)" "j_active (js_jobs s) = 0" using inv by (auto simp: pc_ok_def jobs_inv_def jobs_ok_def)
  with inv jobs.run_closed [OF run] jobs.run_drained [OF run] active
  show "job_goroutines (\<lambda>p. p = JobRuns) t = {}" "\<not> snd (beginDurableJob (js_jobs t))" by (auto simp: beginDurableJob_def)
qed

text \<open>C37. Shutdown ends when the jobs have. In every reachable state in which no job is active any more, a shutdown that waits for the drained channel and one that waits for the wait group can both go on, and the second returns
  without an error.\<close>

theorem shutdown_ends:
  assumes "job_reachable s" "job_goroutines active_job s = {}"
  shows "(\<forall>i \<in> job_goroutines (\<lambda>p. p = StopWaits) s. job_move JobAdvance StopWaits (js_jobs s) = Some (js_jobs s, StopJoins))
    \<and> (\<forall>i \<in> job_goroutines (\<lambda>p. p = StopJoins) s. job_move JobAdvance StopJoins (js_jobs s) = Some (js_jobs s, Stopped None))"
proof -
  note inv = jobs_reachable_inv [OF assms(1)]
  have "filter active_job (js_pcs s) = []" using assms(2) by (auto simp: job_goroutines_def filter_empty_conv in_set_conv_nth)
  then have "j_active (js_jobs s) = 0" using inv by (simp add: jobs_inv_def)
  moreover have "j_stopping (js_jobs s)" if "js_pcs s ! i \<in> {StopWaits, StopJoins}" "i < length (js_pcs s)" for i
    using pc_at [OF inv that(2)] that(1) unfolding pc_ok_def by blast
  ultimately show ?thesis using inv by (auto simp: job_goroutines_def jobs_inv_def jobs_ok_def)
qed

end
