(* ===== verification/Server_Safety.thy ===== *)
theory Server_Safety
  imports Server_Handlers Server_Jobs Ledger_Safety
begin

text \<open>
  The properties of the capability server over the operation ledger: what a caller must prove before the ledger changes, that an operation is launched once, what shutdown records, what watchers are told, and where a
  call ends in a panic.
\<close>

section \<open>Starting needs a grant\<close>

lemma rbind_Inr_iff: "(rbind r f = Inr b) = (\<exists>a. r = Inr a \<and> f a = Inr b)"
  by (cases r) (auto simp: rbind_def)

lemma find_None_all: "(find P xs = None) = (\<forall>x \<in> set xs. \<not> P x)"
  by (auto simp: find_None_iff)

lemma sameScopes_subset: "sameScopes a b \<Longrightarrow> set b \<subseteq> set a"
  by (auto simp: sameScopes_def list_all_iff)

lemma containsScope_iff: "containsScope xs s = (s \<in> set xs)"
  by (auto simp: containsScope_def list_ex_iff)

text \<open>A grant that the verification accepts: it is signed for exactly this call, owner, generation, capability, operation, request and catalog, and its scopes cover the required and the granted ones.\<close>

definition granted :: "ext \<Rightarrow> capv1 \<Rightarrow> Server \<Rightarrow> gotime \<Rightarrow> CallContext \<Rightarrow> PermissionContext option \<Rightarrow> CapabilityDescriptor \<Rightarrow> string \<Rightarrow> 8 word list \<Rightarrow> bool \<Rightarrow> bool" where
  "granted X C S now cc perm d op digest query \<longleftrightarrow> (\<exists>p od claims. perm = Some p \<and> find_operation d op = Some od \<and> 0 < pm_AccountGeneration p
     \<and> (0 < cf_AccountGeneration (s_config S) \<longrightarrow> pm_AccountGeneration p = cf_AccountGeneration (s_config S))
     \<and> (if query then VerifyAgentQueryGrant C else VerifyAgentRootBinding C) (pm_CapabilityGrant p) (s_grantKey S) now (agent_binding X C S cc p d od op digest) = Inr claims
     \<and> set (od_RequiredScopes od) \<subseteq> set (gc_Scopes claims) \<inter> set (pm_GrantedScopes p) \<and> set (pm_GrantedScopes p) \<subseteq> set (gc_Scopes claims)
     \<and> cc_Hop cc \<le> gc_MaxHop claims)"

lemma permission_granted: "validatePermissionWithRoot X C S now cc perm d op digest query = None \<Longrightarrow> granted X C S now cc perm d op digest query"
  unfolding validatePermissionWithRoot_def verifyAgentGrant_def granted_def
  by (auto simp: Let_def find_None_all list_ex_iff containsScope_iff not_less dest!: sameScopes_subset split: option.splits if_splits sum.splits)

lemma granted_cong: "granted X C (S\<lparr>s_querySem := n\<rparr>) now cc perm d op digest query = granted X C S now cc perm d op digest query"
  by (simp add: granted_def agent_binding_def registry_List_def)

text \<open>Rows of other operations.\<close>

definition only_row :: "string \<Rightarrow> Manager \<Rightarrow> Manager \<Rightarrow> bool" where
  "only_row k m m' \<longleftrightarrow> (\<forall>j. j \<noteq> k \<longrightarrow> lookup (m_ops m') j = lookup (m_ops m) j)"

lemma only_row_refl [simp]: "only_row k m m"
  by (simp add: only_row_def)

lemma only_row_trans: "only_row k l m \<Longrightarrow> only_row k m n \<Longrightarrow> only_row k l n"
  by (simp add: only_row_def)

lemma only_row_ops: "m_ops m' = m_ops m \<Longrightarrow> only_row k m m'"
  by (simp add: only_row_def)

lemma insert_op_only: "insert_op v m = Some (m', n) \<Longrightarrow> only_row (co_ID v) m m'"
  by (auto simp: insert_op_def only_row_def split: if_splits option.splits)

lemma update_op_only: "update_op k sts f m = Some (m', n) \<Longrightarrow> only_row k m m'"
  by (auto simp: update_op_def only_row_def split: if_splits option.splits)

lemma StartOrGet_only: "only_row (co_ID v) m (fst (StartOrGet X db clk g m (Some v)))"
  unfolding StartOrGet_def startPostgres_def Let_def
  by (auto simp: in_tx_def statement_def ms_bind_def commit_def inserted_row_def only_row_ops split: option.splits reply.splits sum.splits prod.splits if_splits
      dest!: insert_op_only insert_event_ops simp: only_row_def)

lemma Reopen_only: "only_row k m (fst (ReopenForReplay X db clk m k))"
  unfolding ReopenForReplay_def reopenReplayPostgres_def reopenReplayExisting_def Let_def
  by (auto simp: in_tx_def statement_def ms_bind_def commit_def only_row_ops split: option.splits reply.splits sum.splits prod.splits if_splits
      dest!: update_op_only insert_event_ops simp: only_row_def)

lemma statement_only: "only_row k m (fst (statement r (update_op k sts f) m))"
  by (auto simp: statement_def split: reply.splits option.splits dest: update_op_only)

lemma bind_only: "only_row k m (fst r) \<Longrightarrow> (\<And>a m1. only_row k m1 (fst (g a m1))) \<Longrightarrow> only_row k m (fst (ms_bind r g))"
  by (auto simp: ms_bind_def split: prod.splits sum.splits intro: only_row_trans)

lemma terminal_only: "only_row k m (fst (terminal_op X db clk m k st result code message))"
proof -
  have "only_row k m1 (fst (ms_bind (emitEvent X r t k ty p m1) (\<lambda>_ m2. (if b then clearSecrets m2 k else m2, Inr ()))))" for m1 r t ty p b
    by (rule bind_only) (simp_all add: only_row_ops emit_fields)
  then show ?thesis unfolding terminal_op_def Let_def
    by (auto split: option.split prod.split simp: unchanged_state intro!: bind_only statement_only)
qed

lemma execute_only: "only_row (sr_OperationId r) m (fst (executeAcceptedOperation X db clk now b r od c m))"
  by (auto simp: executeAcceptedOperation_def Fail_op_def terminal_only split: option.split)

lemma start_ledger_only:
  assumes "co_ID v = sr_OperationId r"
  shows "only_row (sr_OperationId r) m (fst (start_ledger X E b r od c v m))"
proof -
  obtain m1 a where s: "StartOrGet X (re_db E 0) (re_clk E 0 0) (re_admission E) m (Some v) = (m1, a)" by (metis surj_pair)
  have m1: "only_row (sr_OperationId r) m m1" using StartOrGet_only [of v m X "re_db E 0" "re_clk E 0 0" "re_admission E"] s assms by simp
  obtain m2 o2 where ro: "ReopenForReplay X (re_db E 1) (re_clk E 1 0) m1 (sr_OperationId r) = (m2, o2)" by (metis surj_pair)
  have m2: "only_row (sr_OperationId r) m m2" using only_row_trans [OF m1] Reopen_only [of "sr_OperationId r" m1 X "re_db E 1" "re_clk E 1 0"] ro by simp
  have rem: "only_row (sr_OperationId r) m (rememberSecrets X m2 k j)" for k j using m2 by (simp add: only_row_def)
  have ex: "only_row (sr_OperationId r) m n \<Longrightarrow> executeAcceptedOperation X (re_db E 2) (re_clk E 2) (re_now E) b r od c n = (n', l) \<Longrightarrow> only_row (sr_OperationId r) m n'" for n n' l
    using only_row_trans execute_only by (metis fst_conv)
  show ?thesis unfolding start_ledger_def s prod.case ro using m1 m2 ex [OF m1] ex [OF rem]
    by (auto split: sum.split prod.split)
qed

text \<open>C30. Nothing starts without a grant. If a call of \<open>StartOperation\<close> changes the ledger or succeeds, its call context was valid and its permission had a grant that verifies for exactly this call context, owner, account generation,
  capability, operation, canonical request and catalog, whose scopes cover those that the operation requires; the operation is not a read; and no row of another operation changes.\<close>

theorem started_operations_are_granted:
  assumes "StartOperation X C E b S (Some r) = (T, answer, l)" "s_opMgr T \<noteq> s_opMgr S \<or> (\<exists>a. answer = Inr a)"
  shows "(\<exists>cc c od root. requireCallContext C S (re_now_ms E) (sr_CallContext r) = Inr cc \<and> operationDescriptor S (sr_CapabilityId r) (sr_Operation r) = Inr (c, od)
      \<and> od_OperationType od \<noteq> OPERATION_TYPE_READ
      \<and> canonicalRootRequestDigest X C (cap_Descriptor c) od (sr_RequestJson r) (sr_ExpectedRevision r) = Inr root
      \<and> granted X C S (re_now E) cc (sr_Permission r) (cap_Descriptor c) (sr_Operation r) root False)
    \<and> (\<forall>k. k \<noteq> sr_OperationId r \<longrightarrow> lookup (m_ops (s_opMgr T)) k = lookup (m_ops (s_opMgr S)) k)"
proof -
  obtain cc S1 c od v where cc: "requireCallContext C S (re_now_ms E) (sr_CallContext r) = Inr cc" and S1: "acquireQuerySem (re_sem E) S = Inr S1"
    and v: "start_checks X C S1 (re_now E) (r\<lparr>sr_CallContext := Some cc\<rparr>) cc = Inr (c, od, v)"
    and T: "s_opMgr T = fst (start_ledger X E b (r\<lparr>sr_CallContext := Some cc\<rparr>) od c v (s_opMgr S1))"
    using assms by (auto simp: StartOperation_def acquireQuerySem_def releaseQuerySem_def Let_def split: sum.splits option.splits prod.splits if_splits)
  have S1': "S1 = S\<lparr>s_querySem := s_querySem S + 1\<rparr>" using S1 by (simp add: acquireQuerySem_def split: if_splits)
  obtain root where d: "operationDescriptor S (sr_CapabilityId r) (sr_Operation r) = Inr (c, od)" "od_OperationType od \<noteq> OPERATION_TYPE_READ"
    "canonicalRootRequestDigest X C (cap_Descriptor c) od (sr_RequestJson r) (sr_ExpectedRevision r) = Inr root"
    "validatePermissionWithRoot X C S1 (re_now E) cc (sr_Permission r) (cap_Descriptor c) (sr_Operation r) root False = None" and id: "co_ID v = sr_OperationId r"
    using v by (auto simp: start_checks_def rbind_Inr_iff S1' operationDescriptor_def ledger_request_def split: if_splits sum.splits option.splits)
  have "granted X C S (re_now E) cc (sr_Permission r) (cap_Descriptor c) (sr_Operation r) root False"
    using permission_granted [OF d(4)] by (simp add: S1' granted_cong)
  moreover have "only_row (sr_OperationId r) (s_opMgr S) (s_opMgr T)"
    using start_ledger_only [of v "r\<lparr>sr_CallContext := Some cc\<rparr>" "s_opMgr S1"] id by (simp add: T S1')
  ultimately show ?thesis using cc d by (auto simp: only_row_def)
qed

section \<open>Control needs the owner\<close>

definition controls :: "capv1 \<Rightarrow> rpc_env \<Rightarrow> Server \<Rightarrow> ControlRequest \<Rightarrow> string \<Rightarrow> bool" where
  "controls C E S k action \<longleftrightarrow> (\<exists>cc p v. requireCallContext C S (re_now_ms E) (kr_CallContext k) = Inr cc \<and> kr_Permission k = Some p
     \<and> Get_op (re_db E 0 0) (s_opMgr S) (kr_OperationId k) = Inr v \<and> pm_AuthenticatedOwnerId p = co_OwnerID v
     \<and> (0 < cf_AccountGeneration (s_config S) \<longrightarrow> pm_AccountGeneration p = cf_AccountGeneration (s_config S))
     \<and> VerifyOperationControlGrant C (pm_CapabilityGrant p) (s_grantKey S) \<lparr>cb_CallContext = Some cc, cb_OwnerID = pm_AuthenticatedOwnerId p, cb_AccountGeneration = pm_AccountGeneration p,
         cb_OperationID = co_ID v, cb_ControlAction = action, cb_ControlScope = ''operation:control:'' @ action\<rparr> = None)"

lemma authorized_controls:
  assumes "authorizeOperation C S (Some cc) (kr_Permission k) v action = None" "requireCallContext C S (re_now_ms E) (kr_CallContext k) = Inr cc"
    "Get_op (re_db E 0 0) (s_opMgr S) (kr_OperationId k) = Inr v"
  shows "controls C E S k action"
  using assms unfolding authorizeOperation_def controls_def
  by (auto simp: owner_of_def generation_of_def grant_of_def split: if_splits option.splits)

lemma authorize_sem [simp]: "authorizeOperation C (S\<lparr>s_watchSem := n\<rparr>) cc p v action = authorizeOperation C S cc p v action"
  by (simp add: authorizeOperation_def)

lemma watch_sem:
  assumes "acquireWatchSem w S = Inr S1"
  shows "S1 = S\<lparr>s_watchSem := s_watchSem S + 1\<rparr>" "releaseWatchSem S1 = S" "releaseWatchSem (S1\<lparr>s_opMgr := s_opMgr S\<rparr>) = S"
  using assms by (auto simp: acquireWatchSem_def releaseWatchSem_def split: if_splits)

lemma Watch_op_fails: "Watch_op r m k = (m', Inl e) \<Longrightarrow> m' = m"
  by (auto simp: Watch_op_def Let_def split: sum.splits)

text \<open>C31. Only the owner controls an operation. \<open>GetOperation\<close> answers, and \<open>WatchOperation\<close>, \<open>CancelOperation\<close> and \<open>ReconcileOperation\<close> answer or change anything, only for a caller whose authenticated owner is the owner of the
  operation, in the current account generation, with a control grant that verifies for this call, operation and action.\<close>

theorem only_owners_control:
  "(\<not> isl (GetOperation_rpc X C E S (Some k)) \<longrightarrow> controls C E S k ''get'')
    \<and> (fst (WatchOperation_begin C E S (Some k)) \<noteq> S \<or> \<not> isl (snd (WatchOperation_begin C E S (Some k))) \<longrightarrow> controls C E S k ''watch'')
    \<and> (fst (CancelOperation_rpc X C E w ends S (Some k)) \<noteq> S \<or> \<not> isl (snd (CancelOperation_rpc X C E w ends S (Some k))) \<longrightarrow> controls C E S k ''cancel'')
    \<and> (fst (ReconcileOperation X C E S (Some k)) \<noteq> S \<or> \<not> isl (snd (ReconcileOperation X C E S (Some k))) \<longrightarrow> controls C E S k ''reconcile'')"
proof (intro conjI)
  show "\<not> isl (GetOperation_rpc X C E S (Some k)) \<longrightarrow> controls C E S k ''get''"
    by (auto simp: GetOperation_rpc_def rbind_def check_def split: sum.split option.split intro: authorized_controls)
  show "fst (WatchOperation_begin C E S (Some k)) \<noteq> S \<or> \<not> isl (snd (WatchOperation_begin C E S (Some k))) \<longrightarrow> controls C E S k ''watch''"
  proof (cases "acquireWatchSem (re_sem E) S")
    case (Inr S1)
    note sem = watch_sem [OF Inr]
    show ?thesis unfolding WatchOperation_begin_def option.case Inr sum.case
      by (auto split: sum.split option.split prod.split dest!: Watch_op_fails simp: sem(2,3)) (auto simp: sem(1) releaseWatchSem_def intro: authorized_controls)
  qed (auto simp: WatchOperation_begin_def split: sum.split)
  show "fst (CancelOperation_rpc X C E w ends S (Some k)) \<noteq> S \<or> \<not> isl (snd (CancelOperation_rpc X C E w ends S (Some k))) \<longrightarrow> controls C E S k ''cancel''"
    using authorized_controls [of C S _ k _ "''cancel''" E] by (auto simp: CancelOperation_rpc_def split: sum.splits option.splits)
  show "fst (ReconcileOperation X C E S (Some k)) \<noteq> S \<or> \<not> isl (snd (ReconcileOperation X C E S (Some k))) \<longrightarrow> controls C E S k ''reconcile''"
    using authorized_controls [of C S _ k _ "''reconcile''" E] by (auto simp: ReconcileOperation_def split: sum.splits option.splits)
qed

section \<open>Launched once\<close>

lemma execute_launches: "executeAcceptedOperation X db clk now b r od c m = (m', Some l) \<Longrightarrow> m' = m"
  by (auto simp: executeAcceptedOperation_def split: option.splits if_splits)

lemma StartOrGet_cases: "StartOrGet X db clk g m (Some v) = (m', Inr (w, b)) \<Longrightarrow>
    if b then lookup (m_ops m) (co_ID v) = None \<and> lookup (m_ops m') (co_ID v) \<noteq> None else m' = m \<and> lookup (m_ops m) (co_ID v) \<noteq> None"
  using start_admitted [of X db clk g m "with_digests X v" "co_RequestJSON v" m' w] start_replayed [of X db clk g m "with_digests X v" "co_RequestJSON v" m' w]
  by (auto simp: StartOrGet_def split: option.splits if_splits)

lemma StartOrGet_fails: "StartOrGet X db clk g m (Some v) = (m', Inl e) \<Longrightarrow> lookup (m_ops m) (co_ID v) \<noteq> None \<Longrightarrow> m' = m"
  unfolding StartOrGet_def startPostgres_def Let_def
  by (auto simp: in_tx_def statement_def insert_op_def inserted_row_def ms_bind_def split: option.splits reply.splits sum.splits prod.splits if_splits)

definition deprovisions :: "StartOperationRequest \<Rightarrow> bool" where
  "deprovisions r \<longleftrightarrow> sr_CapabilityId r = ''agent.account.v1'' \<and> sr_Operation r = ''deprovision_account''"

lemma start_ledger_launched:
  assumes "start_ledger X E b r od c v m = (m', answer, Some l)" "co_ID v = sr_OperationId r" "ledger_ok m"
  shows "ledger_ok m' \<and> lookup (m_ops m') (sr_OperationId r) \<noteq> None \<and> (lookup (m_ops m) (sr_OperationId r) = None \<or> deprovisions r)"
proof -
  obtain m1 w cr where s: "StartOrGet X (re_db E 0) (re_clk E 0 0) (re_admission E) m (Some v) = (m1, Inr (w, cr))"
    using assms(1) by (auto simp: start_ledger_def split: prod.splits sum.splits)
  have ok1: "ledger_ok m1" using start_call.keeps_ok [OF assms(3)] s by (metis fst_conv)
  note cases = StartOrGet_cases [OF s]
  show ?thesis
  proof (cases cr)
    case True
    then have "m' = m1" using assms(1) s by (auto simp: start_ledger_def split: prod.splits dest: execute_launches)
    then show ?thesis using cases True assms(2) ok1 by simp
  next
    case False
    then obtain m2 w2 where ro: "ReopenForReplay X (re_db E 1) (re_clk E 1 0) m1 (sr_OperationId r) = (m2, Inr (w2, True))"
      and d: "deprovisions r" and m': "m' = rememberSecrets X m2 (sr_OperationId r) (sr_RequestJson r)"
      using assms(1) s by (auto simp: start_ledger_def deprovisions_def split: prod.splits sum.splits if_splits dest: execute_launches)
    have ok2: "ledger_ok m2" using reopen_call.keeps_ok [OF ok1] ro by (metis fst_conv)
    have reopened: "evolves_op {sr_OperationId r} m1 m2" using reopen_call.step ro by (metis fst_conv)
    have "lookup (m_ops m2) (sr_OperationId r) \<noteq> None"
      using reopened cases False assms(2) ok1 unfolding evolves_op_def moves_def by auto
    moreover have "evolves_op {} m2 m'" unfolding m' by (rule same_evolves) simp
    then have "ledger_ok m'" using ok2 unfolding evolves_op_def by blast
    ultimately show ?thesis using d m' by simp
  qed
qed

lemma start_ledger_replays:
  assumes "start_ledger X E b r od c v m = (m', answer, l)" "co_ID v = sr_OperationId r" "lookup (m_ops m) (sr_OperationId r) \<noteq> None" "\<not> deprovisions r"
  shows "m' = m \<and> l = None \<and> (\<forall>a. answer = Inr a \<longrightarrow> so_Replayed a)"
proof -
  obtain m1 res where s: "StartOrGet X (re_db E 0) (re_clk E 0 0) (re_admission E) m (Some v) = (m1, res)" by (metis surj_pair)
  show ?thesis
  proof (cases res)
    case (Inl e)
    then show ?thesis using assms s StartOrGet_fails [OF s [unfolded Inl]] by (auto simp: start_ledger_def)
  next
    case (Inr p)
    then obtain w cr where p: "p = (w, cr)" by force
    have "m1 = m" "\<not> cr" using StartOrGet_cases [OF s [unfolded Inr p]] assms(2,3) by (auto split: if_splits)
    then show ?thesis using assms(1,4) s Inr p by (auto simp: start_ledger_def deprovisions_def startOperationResponse_def split: if_splits)
  qed
qed

lemma start_checks_ID: "start_checks X C S now r cc = Inr (c, od, v) \<Longrightarrow> co_ID v = sr_OperationId r"
  by (auto simp: start_checks_def rbind_Inr_iff ledger_request_def split: if_splits sum.splits option.splits)

lemma StartOperation_ledger:
  assumes "StartOperation X C E b S (Some r) = (T, answer, l)"
  shows "s_opMgr T = s_opMgr S \<and> l = None \<and> isl answer
    \<or> (\<exists>cc od c v. start_ledger X E b (r\<lparr>sr_CallContext := Some cc\<rparr>) od c v (s_opMgr S) = (s_opMgr T, answer, l) \<and> co_ID v = sr_OperationId r)"
  using assms by (auto simp: StartOperation_def acquireQuerySem_def releaseQuerySem_def Let_def split: sum.splits option.splits prod.splits if_splits dest!: start_checks_ID)

text \<open>C32. An operation is launched once. After a call of \<open>StartOperation\<close> has launched the handler of an operation, whatever happens to the ledger in between, another call for the same identifier launches nothing and changes
  nothing in the ledger, and its answer, if it has one, says that it is a replay. Only the deprovisioning of the account is launched again.\<close>

theorem operations_are_launched_once:
  assumes "ledger_ok (s_opMgr S)" "StartOperation X C E b S (Some r) = (T, answer, Some l)"
    and "interferes X R f" "s_opMgr S2 = f (s_opMgr T)"
    and "sr_OperationId r2 = sr_OperationId r" "\<not> deprovisions r2" "StartOperation X C E2 b2 S2 (Some r2) = (T2, answer2, l2)"
  shows "s_opMgr T2 = s_opMgr S2 \<and> l2 = None \<and> (\<forall>a. answer2 = Inr a \<longrightarrow> so_Replayed a) \<and> (lookup (m_ops (s_opMgr S)) (sr_OperationId r) = None \<or> deprovisions r)"
proof -
  obtain cc od c v where s: "start_ledger X E b (r\<lparr>sr_CallContext := Some cc\<rparr>) od c v (s_opMgr S) = (s_opMgr T, answer, Some l)" "co_ID v = sr_OperationId r"
    using StartOperation_ledger [OF assms(2)] by auto
  from start_ledger_launched [OF s(1) _ assms(1)] s(2) have t: "ledger_ok (s_opMgr T)" "lookup (m_ops (s_opMgr T)) (sr_OperationId r) \<noteq> None"
    "lookup (m_ops (s_opMgr S)) (sr_OperationId r) = None \<or> deprovisions r" by (auto simp: deprovisions_def)
  have "lookup (m_ops (s_opMgr S2)) (sr_OperationId r2) \<noteq> None"
    using interferes_evolves [OF assms(3), of "s_opMgr T"] t(1,2) unfolding assms(4,5) evolves_op_def moves_def by blast
  then have "s_opMgr T2 = s_opMgr S2 \<and> l2 = None \<and> (\<forall>a. answer2 = Inr a \<longrightarrow> so_Replayed a)"
    using StartOperation_ledger [OF assms(7)]
  proof (elim disjE exE conjE)
    fix cc od c v assume s2: "start_ledger X E2 b2 (r2\<lparr>sr_CallContext := Some cc\<rparr>) od c v (s_opMgr S2) = (s_opMgr T2, answer2, l2)" "co_ID v = sr_OperationId r2"
      and row: "lookup (m_ops (s_opMgr S2)) (sr_OperationId r2) \<noteq> None"
    from start_ledger_replays [OF s2(1)] s2(2) row assms(6) show ?thesis by (simp add: deprovisions_def)
  qed auto
  with t(3) show ?thesis by blast
qed

section \<open>Shutdown and errors\<close>

text \<open>C33. Shutdown is not an outcome. When a durable operation is executed with nobody interfering (in particular nobody cancels it explicitly), a database that answers, guards that let every operation pass, and a claim and a
  re-read that succeed, its handler returns an error, and the context of the handler reads as cancelled by the shutdown of the server when the handler has returned, then the operation is recorded as uncertain, not as
  cancelled or failed, whatever the error is, also one that a typed adapter made of its closed stream. If the constraints of the table refuse that row, the operation stays running.\<close>

theorem shutdown_leaves_uncertain:
  assumes "quiet E" "m_db m" "TrimSpace k \<noteq> []" "lookup (m_ops m) k = Some v" "co_State v = Pending"
    and "\<And>u. checkAdmission adm u = None" "\<And>u. acquireExecution exe u = None"
    and "claimRunning X (xe_db E 2) (xe_clk E 2) (begin_runtime k m) k = (m1, Inr ())" "Get_op (xe_db E 3 0) m1 k = Inr g"
    and "cap_HandleOperation c \<lparr>cx_CallContext = sr_CallContext r, cx_Permission = sr_Permission r, cx_OperationID = Some (sr_OperationId r)\<rparr> (sr_Operation r) (sr_RequestJson r) = Inl e"
  shows "lookup (m_ops (xr_manager (Execute_op X E adm exe (Some (accepted_handler c r True True)) m k))) k =
    (let running = v\<lparr>co_State := Running, co_UpdatedAt := to_UTC (xe_clk E 2 0)\<rparr>;
         w = ended_row X m k Uncertain [] ''UNCERTAIN'' ''context canceled'' (to_UTC (xe_clk E 6 0)) running in Some (if row_ok w then w else running))"
proof -
  have "accepted_handler c r True True g = Inl Canceled" using assms(10) by (simp add: accepted_handler_def)
  then show ?thesis using execution_recorded [OF assms(1-9), of "accepted_handler c r True True"]
    by (simp add: asked_row_def verdict_def errors_Is_def Let_def)
qed

text \<open>A cancellation can end the process. Once a call of \<open>CancelOperation\<close> is authorized, it dereferences nil exactly when the cancellation went well, or found the operation ended, and the operation cannot be read again
  afterwards: the error of that read is dropped.\<close>

theorem CancelOperation_panics_iff:
  assumes "requireCallContext C S (re_now_ms E) (kr_CallContext k) = Inr cc" "enterMutation (re_guard E) = None"
    and "Get_op (re_db E 0 0) (s_opMgr S) (kr_OperationId k) = Inr v" "authorizeOperation C S (Some cc) (kr_Permission k) v ''cancel'' = None"
    and "Cancel_op X (re_db E 1) (re_clk E 1) w ends (s_opMgr S) (kr_OperationId k) ''user requested'' = (m, res)"
  shows "(snd (CancelOperation_rpc X C E w ends S (Some k)) = Inl Panic) =
    ((case res of Inl e \<Rightarrow> errors_Is e (Ledger ErrTerminal_op) | Inr _ \<Rightarrow> True) \<and> isl (Get_op (re_db E 2 0) m (kr_OperationId k)))"
  using assms by (auto simp: CancelOperation_rpc_def split: sum.split)

section \<open>What watchers read\<close>

text \<open>What the JSON package documents for objects of the ledger: an object of valid strings has a text, which decodes to its members.\<close>

definition decodes :: "ext \<Rightarrow> (string \<times> string) list \<Rightarrow> bool" where
  "decodes X ms \<longleftrightarrow> object_text X ms \<noteq> [] \<and> json_Unmarshal X (object_text X ms) = Some (JObj (map (\<lambda>(k, v). (k, JStr v)) ms))"

lemma field_name_ascii: "is_ascii s \<Longrightarrow> field_name X s = map upper_char (map lower_char s)"
proof -
  assume "is_ascii s"
  moreover have "of_char (lower_char c) < (128::nat)" if "of_char c < (128::nat)" for c using that by (simp add: lower_char_def Let_def)
  then have "is_ascii (map lower_char s)" using calculation by (auto simp: is_ascii_def list_all_iff)
  ultimately show ?thesis by (simp add: field_name_def ToLower_def ToUpper_def)
qed

lemma field_names: "field_name X ''error_code'' = ''ERROR_CODE''" "field_name X ''error_message'' = ''ERROR_MESSAGE''" "field_name X ''reason'' = ''REASON''"
    "field_name X ''state'' = ''STATE''" "field_name X ''new_state'' = ''NEW_STATE''"
proof -
  have "is_ascii ''error_code'' \<and> is_ascii ''error_message'' \<and> is_ascii ''reason'' \<and> is_ascii ''state'' \<and> is_ascii ''new_state''" by code_simp
  moreover have "map upper_char (map lower_char ''error_code'') = ''ERROR_CODE'' \<and> map upper_char (map lower_char ''error_message'') = ''ERROR_MESSAGE''
    \<and> map upper_char (map lower_char ''reason'') = ''REASON'' \<and> map upper_char (map lower_char ''state'') = ''STATE'' \<and> map upper_char (map lower_char ''new_state'') = ''NEW_STATE''" by code_simp
  ultimately show "field_name X ''error_code'' = ''ERROR_CODE''" "field_name X ''error_message'' = ''ERROR_MESSAGE''" "field_name X ''reason'' = ''REASON''"
    "field_name X ''state'' = ''STATE''" "field_name X ''new_state'' = ''NEW_STATE''" by (simp_all add: field_name_ascii)
qed

text \<open>The event is redacted again before it is stored: of an object of strings, every value.\<close>

lemma plain_keys: "\<not> sensitiveJSONKey X ''error_code''" "\<not> sensitiveJSONKey X ''error_message''" "\<not> sensitiveJSONKey X ''reason''"
  by (simp_all add: sensitiveJSONKey_def TrimSpace_edges printable_def ToLower_def is_ascii_def lower_char_def sensitive_names_def)

lemma redact_strings: "list_all (\<lambda>(k, v). \<not> sensitiveJSONKey X k) ms \<Longrightarrow> redact_members X S (map (\<lambda>(k, v). (k, JStr v)) ms)
    = (map (\<lambda>(k, v). (k, JStr (replace_secrets S v))) ms, list_ex (\<lambda>(k, v). replace_secrets S v \<noteq> v) ms)"
  by (induction ms) (auto simp: Let_def)

lemma redact_object:
  assumes "decodes X ms" "decodes X (map (\<lambda>(k, v). (k, replace_secrets S v)) ms)" "list_all (\<lambda>(k, v). \<not> sensitiveJSONKey X k) ms"
  shows "redact_payload X S (object_text X ms) = Some (object_text X (map (\<lambda>(k, v). (k, replace_secrets S v)) ms))"
proof (cases "list_ex (\<lambda>(k, v). replace_secrets S v \<noteq> v) ms")
  case True
  have "object_text X (map (\<lambda>(k, v). (k, replace_secrets S v)) ms) = json_Marshal X (JObj (map (\<lambda>(k, v). (k, JStr (replace_secrets S v))) ms))"
    by (simp add: object_text_def comp_def case_prod_unfold)
  with True assms show ?thesis by (simp add: redact_payload_def decodes_def redact_strings Let_def)
next
  case False
  then have "map (\<lambda>(k, v). (k, replace_secrets S v)) ms = ms" by (auto simp: list_ex_iff intro!: map_idI)
  with False assms show ?thesis by (simp add: redact_payload_def decodes_def redact_strings Let_def)
qed

lemma emit_stored: "emitEvent X r now k ty d m = (m', Inr u) \<Longrightarrow>
    \<exists>e. m_events m' = m_events m @ [e] \<and> ce_OperationID e = k \<and> ce_EventType e = ty \<and> redactJSON X m k d = Some (ce_EventJSON e)"
  by (auto simp: emitEvent_def statement_def insert_event_def event_ok_def Let_def split: option.splits reply.splits if_splits)

lemma ReplaceAll_absent: "\<not> occurs p s \<Longrightarrow> ReplaceAll s p new = s"
  by (induction s) (auto simp: ReplaceAll_Cons occurs_Cons)

lemma replace_absent: "(\<And>p. p \<in> set S \<Longrightarrow> \<not> occurs p s) \<Longrightarrow> replace_secrets S s = s"
  by (induction S) (simp_all add: replace_secrets_def ReplaceAll_absent)

lemma redactString_stable: "list_all distinguishable (secrets_of m k) \<Longrightarrow> replace_secrets (secrets_of m k) (redactString m k t) = redactString m k t"
proof (rule replace_absent)
  fix p
  assume "list_all distinguishable (secrets_of m k)" "p \<in> set (secrets_of m k)"
  then have "distinguishable p" by (simp add: list_all_iff)
  then show "\<not> occurs p (redactString m k t)"
    using replace_secrets_gone \<open>p \<in> set (secrets_of m k)\<close> by (auto simp: redactString_def distinguishable_def occurs_def)
qed

text \<open>A terminal transition that succeeds on a pending or running operation writes its row and one event.\<close>

lemma terminal_journaled:
  assumes "terminal_op X db clk m k st result code message = (m', Inr u)" "lookup (m_ops m) k = Some v" "co_State v = Pending \<or> co_State v = Running"
  shows "\<exists>e. lookup (m_ops m') k = Some (ended_row X m k st result code message (to_UTC (clk 0)) v) \<and> m_events m' = m_events m @ [e] \<and> ce_OperationID e = k
    \<and> (case terminal_event X st (redactJSON X m k result) code (redactString m k message) of (ty, payload) \<Rightarrow>
        ce_EventType e = ty \<and> redact_payload X (secrets_of m k) payload = Some (ce_EventJSON e))"
proof -
  have db: "m_db m" using assms(1) by (auto simp: terminal_op_def ensure_def split: if_splits)
  have st: "co_State v = Running \<or> co_State v = Pending" using assms(3) by blast
  obtain t where a: "db 0 = Answered t"
    using assms db by (cases "db 0") (auto simp: terminal_op_def ensure_def statement_def ms_bind_def Let_def split: option.splits)
  let ?w = "ended_row X m k st result code message (to_UTC (clk 0)) v"
  obtain ty payload where p: "terminal_event X st (redactJSON X m k result) code (redactString m k message) = (ty, payload)" by (metis surj_pair)
  note eff = terminal_effect [where db = db and clk = clk and X = X and st = st and result = result and code = code and message = message, OF db assms(2) st a]
  have ok: "row_ok ?w" using assms(1) unfolding eff by (auto split: if_splits)
  obtain m2 where e: "emitEvent X (db 1) (clk 1) k ty payload (m\<lparr>m_ops := put k ?w (m_ops m)\<rparr>) = (m2, Inr ())" and m': "m' = m2 \<or> m' = clearSecrets m2 k"
    using assms(1) ok unfolding eff p by (auto simp: ms_bind_def split: prod.splits sum.splits if_splits)
  have "m_ops m2 = put k ?w (m_ops m)" using emit_fields(1) [of X "db 1" "clk 1" k ty payload "m\<lparr>m_ops := put k ?w (m_ops m)\<rparr>"] unfolding e by simp
  then show ?thesis using emit_stored [OF e] m' unfolding p by (auto simp: redactJSON_def secrets_of_def clearSecrets_def)
qed

text \<open>What a watcher is told about a row that ended, when the operation had the secrets \<open>S\<close>.\<close>

definition told :: "ext \<Rightarrow> string list \<Rightarrow> CapOperation \<Rightarrow> WatchEvent" where
  "told X S w = (if co_State w = Failed \<or> co_State w = Uncertain then ErrorEvent (capabilityError X (replace_secrets S (co_ErrorCode w)) (replace_secrets S (co_ErrorMessage w)))
     else if co_State w = Cancelled then CancelledEvent (replace_secrets S (co_ErrorMessage w))
     else Result (case redact_payload X S (case co_ResultJSON w of None \<Rightarrow> [] | Some r \<Rightarrow> r) of None \<Rightarrow> [] | Some t \<Rightarrow> t))"

text \<open>C35. Watchers read the outcome. When a terminal transition of a pending or running operation succeeds, it writes one event, and that event reaches a watcher as the outcome of the row, redacted once more: a completion with its
  result, a cancellation with its reason, a failure or an uncertain outcome with its code and message. When no secret of the operation can be confused with the text that replaces it and none occurs in the code, the
  error that the watcher reads is, for a code in upper case, the one that \<open>GetOperation\<close> gives for the row. The JSON package is assumed to encode and decode the objects of these codes and messages.\<close>

theorem watchers_read_the_outcome:
  assumes "terminal_op X db clk m k st result code message0 = (m', Inr u)" "terminalOperationState st" "lookup (m_ops m) k = Some v" "co_State v = Pending \<or> co_State v = Running"
    and "S = secrets_of m k" "message = redactString m k message0"
    and "\<And>c t. (c, t) = (code, message) \<or> (c, t) = (replace_secrets S code, replace_secrets S message) \<Longrightarrow> decodes X [(''error_code'', c), (''error_message'', t)]"
    and "\<And>t. t = message \<or> t = replace_secrets S message \<Longrightarrow> decodes X [(''reason'', t)]"
  shows "\<exists>w e. lookup (m_ops m') k = Some w \<and> co_State w = st \<and> co_ErrorCode w = code \<and> co_ErrorMessage w = message
    \<and> m_events m' = m_events m @ [e] \<and> ce_OperationID e = k \<and> we_Event (eventProto X e) = told X S w
    \<and> ((st = Failed \<or> st = Uncertain) \<and> list_all (\<lambda>p. distinguishable p \<and> \<not> Contains code p) S \<and> code \<noteq> [] \<and> ToUpper X code = code
        \<longrightarrow> (\<exists>err. we_Event (eventProto X e) = ErrorEvent err \<and> gr_Error (ToProto X w) = Some err))"
proof -
  let ?w = "ended_row X m k st result code message0 (to_UTC (clk 0)) v"
  obtain e where w: "lookup (m_ops m') k = Some ?w" "m_events m' = m_events m @ [e]" "ce_OperationID e = k"
    and e: "case terminal_event X st (redactJSON X m k result) code message of (ty, payload) \<Rightarrow> ce_EventType e = ty \<and> redact_payload X S payload = Some (ce_EventJSON e)"
    using terminal_journaled [OF assms(1,3,4), folded assms(5,6)] by (elim exE conjE)
  have row: "co_State ?w = st" "co_ErrorCode ?w = code" "co_ErrorMessage ?w = message" "co_ResultJSON ?w = redactJSON X m k result"
    by (simp_all add: ended_row_def assms(6))
  have err: "redact_payload X S (object_text X [(''error_code'', code), (''error_message'', message)]) = Some (object_text X [(''error_code'', replace_secrets S code), (''error_message'', replace_secrets S message)])"
    using redact_object [of X "[(''error_code'', code), (''error_message'', message)]" S] assms(7) by (simp add: plain_keys)
  have can: "redact_payload X S (object_text X [(''reason'', message)]) = Some (object_text X [(''reason'', replace_secrets S message)])"
    using redact_object [of X "[(''reason'', message)]" S] assms(8) by (simp add: plain_keys)
  have texts: "json_Unmarshal X (object_text X [(''error_code'', replace_secrets S code), (''error_message'', replace_secrets S message)])
        = Some (JObj [(''error_code'', JStr (replace_secrets S code)), (''error_message'', JStr (replace_secrets S message))])"
      "json_Unmarshal X (object_text X [(''reason'', replace_secrets S message)]) = Some (JObj [(''reason'', JStr (replace_secrets S message))])"
    using assms(7) [OF disjI2 [OF refl]] assms(8) [OF disjI2 [OF refl]] by (simp_all add: decodes_def)
  have told_row: "told X S ?w = (if st = Failed \<or> st = Uncertain then ErrorEvent (capabilityError X (replace_secrets S code) (replace_secrets S message))
      else if st = Cancelled then CancelledEvent (replace_secrets S message)
      else Result (case redact_payload X S (case redactJSON X m k result of None \<Rightarrow> [] | Some r \<Rightarrow> r) of None \<Rightarrow> [] | Some t \<Rightarrow> t))"
    unfolding told_def row ..
  consider "st = Failed \<or> st = Uncertain" | "st = Cancelled" | "st = Completed" using assms(2) by (auto simp: terminalOperationState_def)
  then have told: "we_Event (eventProto X e) = told X S ?w"
  proof cases
    case 1
    then have "ce_EventType e = ''error''" "object_text X [(''error_code'', replace_secrets S code), (''error_message'', replace_secrets S message)] = ce_EventJSON e"
      using e by (auto simp: terminal_event_def err)
    then show ?thesis unfolding told_row using 1 texts(1) by (auto simp: eventProto_def string_field_def field_names)
  next
    case 2
    then have "ce_EventType e = ''cancelled''" "object_text X [(''reason'', replace_secrets S message)] = ce_EventJSON e" using e by (auto simp: terminal_event_def can)
    then show ?thesis unfolding told_row using 2 texts(2) by (simp add: eventProto_def string_field_def field_names)
  next
    case 3
    then show ?thesis unfolding told_row using e by (simp add: terminal_event_def eventProto_def)
  qed
  have "gr_Error (ToProto X ?w) = Some (capabilityError X (replace_secrets S code) (replace_secrets S message))"
    if "list_all (\<lambda>p. distinguishable p \<and> \<not> Contains code p) S" "code \<noteq> []" "ToUpper X code = code"
  proof -
    have "replace_secrets S code = code" using that(1) by (intro replace_absent) (auto simp: list_all_iff Contains_occurs)
    moreover have "replace_secrets S message = message" using that(1) unfolding assms(5,6) by (intro redactString_stable) (simp add: list_all_iff)
    ultimately show ?thesis using that(2,3) by (simp add: ToProto_def row capabilityError_def errorCodeToProto_def operationErrorCodeInternal_def)
  qed
  then show ?thesis using w told row by (intro exI [of _ ?w] exI [of _ e]) (auto simp: told_row)
qed

end
