(* ===== verification/Server_Example.thy ===== *)
theory Server_Example
  imports Server_Safety Fence_Example
begin

text \<open>A capability server over the ledger of \<open>Ledger_Example\<close>, with an instance of the protocol package, and runs of its durable jobs.\<close>

section \<open>Durable jobs\<close>

lemma job_reachable_step: "job_reachable s \<Longrightarrow> job_step s t \<Longrightarrow> job_reachable t"
  unfolding job_reachable_def by (rule rtranclp.rtrancl_into_rtrancl)

lemma job_start: "job_reachable \<lparr>js_jobs = no_jobs, js_pcs = []\<rparr>"
  by (simp add: job_reachable_def)

definition jx :: "nat \<Rightarrow> nat \<Rightarrow> bool \<Rightarrow> bool \<Rightarrow> job_pc list \<Rightarrow> job_system" where
  "jx n a st cl ps = \<lparr>js_jobs = \<lparr>j_ctx = True, j_cancelled = st, j_jobs = n, j_active = a, j_stopping = st, j_drained = True, j_drainedClose = cl\<rparr>, js_pcs = ps\<rparr>"

lemma jx_begins: "job_reachable (jx 1 1 False False [JobRuns])"
proof -
  have "beginDurableJob no_jobs = (js_jobs (jx 1 1 False False []), True)" by (simp add: jx_def no_jobs_def beginDurableJob_def Let_def)
  with job_step.start [of "\<lparr>js_jobs = no_jobs, js_pcs = []\<rparr>"] have "job_step \<lparr>js_jobs = no_jobs, js_pcs = []\<rparr> (jx 1 1 False False [JobRuns])" by (fastforce simp: jx_def)
  then show ?thesis by (rule job_reachable_step [OF job_start])
qed

lemma jx_moves:
  assumes "job_reachable (jx n a st cl ps)" "i < length ps" "job_move act (ps ! i) (js_jobs (jx n a st cl ps)) = Some (js_jobs (jx n' a' st' cl' []), p)"
  shows "job_reachable (jx n' a' st' cl' (ps[i := p]))"
proof -
  have "job_step (jx n a st cl ps) ((jx n a st cl ps)\<lparr>js_jobs := js_jobs (jx n' a' st' cl' []), js_pcs := ps[i := p]\<rparr>)"
    using job_step.move [of i "jx n a st cl ps" act] assms(2,3) by (simp add: jx_def)
  then show ?thesis using job_reachable_step [OF assms(1)] by (simp add: jx_def)
qed

lemma jx_run: "job_reachable (jx 1 1 True False [JobRuns, StopWaits])" "job_reachable (jx 0 0 True True [JobEnded, StopWaits])" "job_reachable (jx 0 0 True True [JobEnded, Stopped None])"
proof -
  have "job_reachable (jx 1 1 False False [JobRuns, Stops])" using job_reachable_step [OF jx_begins job_step.stop] by (simp add: jx_def)
  from jx_moves [OF this, of 1 JobAdvance 1 1 True False StopWaits] show w: "job_reachable (jx 1 1 True False [JobRuns, StopWaits])"
    by (simp add: jx_def stop_section_def Let_def)
  from jx_moves [OF w, of 0 JobAdvance 0 1 True False JobLeaves] have "job_reachable (jx 0 1 True False [JobLeaves, StopWaits])"
    by (simp add: jx_def job_done_def)
  from jx_moves [OF this, of 0 JobAdvance 0 0 True True JobEnded] show e: "job_reachable (jx 0 0 True True [JobEnded, StopWaits])"
    by (simp add: jx_def job_unlisted_def closeDurableDrainedLocked_def Let_def)
  from jx_moves [OF e, of 1 JobAdvance 0 0 True True StopJoins] have "job_reachable (jx 0 0 True True [JobEnded, StopJoins])"
    by (simp add: jx_def)
  from jx_moves [OF this, of 1 JobAdvance 0 0 True True "Stopped None"] show "job_reachable (jx 0 0 True True [JobEnded, Stopped None])"
    by (simp add: jx_def)
qed

theorem shutdown_waits_for_jobs_witness:
  "j_cancelled (js_jobs (jx 1 1 True False [JobRuns, StopWaits])) \<and> \<not> snd (beginDurableJob (js_jobs (jx 0 0 True True [JobEnded, Stopped None])))"
proof -
  have "0 \<in> job_goroutines (\<lambda>p. p = JobRuns) (jx 1 1 True False [JobRuns, StopWaits])" by (simp add: job_goroutines_def jx_def)
  moreover have "j_stopping (js_jobs (jx 1 1 True False [JobRuns, StopWaits]))" by (simp add: jx_def)
  moreover have "1 \<in> job_goroutines (\<lambda>p. p = Stopped None) (jx 0 0 True True [JobEnded, Stopped None])" by (simp add: job_goroutines_def jx_def)
  ultimately show ?thesis using shutdown_waits_for_jobs [OF jx_run(1)] shutdown_waits_for_jobs [OF jx_run(3)] by blast
qed

lemma no_job_goroutine: "(job_goroutines P s = {}) = list_all (\<lambda>p. \<not> P p) (js_pcs s)"
  by (auto simp: job_goroutines_def list_all_length)

theorem shutdown_ends_witness:
  "job_move JobAdvance StopWaits (js_jobs (jx 0 0 True True [JobEnded, StopWaits])) = Some (js_jobs (jx 0 0 True True [JobEnded, StopWaits]), StopJoins)"
proof -
  have "job_goroutines active_job (jx 0 0 True True [JobEnded, StopWaits]) = {}" by (simp add: no_job_goroutine jx_def active_job_def)
  moreover have "1 \<in> job_goroutines (\<lambda>p. p = StopWaits) (jx 0 0 True True [JobEnded, StopWaits])" by (simp add: job_goroutines_def jx_def)
  ultimately show ?thesis using shutdown_ends [OF jx_run(2)] by blast
qed

section \<open>A server\<close>

definition sx_capv1 :: capv1 where
  "sx_capv1 = \<lparr>ValidateCallContext = \<lambda>_. None, ValidateAgentCallPath = \<lambda>_. None,
     ValidateAndAdvanceAgentCallContext = \<lambda>c. Inr (c\<lparr>cc_Route := cc_Route c @ ''/agent'', cc_Hop := cc_Hop c + 1\<rparr>), RemainingDeadlineMs = \<lambda>c t. cc_DeadlineUnixMs c - t,
     ValidateRootOperationRequest = \<lambda>_. None, CanonicalizeJSON = Inr, ParseBusinessInput = \<lambda>s. Inr (JStr s),
     ComputeRequestDigest = \<lambda>a b c d e f g h. Inr (replicate 32 2), ComputeRootRequestDigest = \<lambda>a b c d e f g. Inr (replicate 32 1),
     VerifyRequestDigest = \<lambda>a b. if a = b then None else Some (Opaque ''digest''),
     VerifyAgentQueryGrant = \<lambda>g k t b. Inl (Opaque ''grant''),
     VerifyAgentRootBinding = \<lambda>g k t b. if g = ''grant'' then Inr \<lparr>gc_MaxHop = 4, gc_MaxRouteLength = 64, gc_Scopes = [''run'']\<rparr> else Inl (Opaque ''grant''),
     VerifyOperationControlGrant = \<lambda>g k b. if g = ''grant'' then None else Some (Opaque ''grant''),
     ParseGrantPublicKey = Inr, ParseCapabilityMetadata = \<lambda>_. Inl (Opaque ''metadata''), proto_Marshal = cd_CapabilityId, RouteSeparator = ''/'', NodeAgent = ''agent'', MinGrantKeySize = 3,
     ErrCycleDetected = Opaque ''cycle'', ErrInvalidCallPath = Opaque ''path'', ErrInvalidGrant = Opaque ''grant'', ErrGrantBinding = Opaque ''binding''\<rparr>"

definition sx_od :: OperationDescriptor where
  "sx_od = \<lparr>od_OperationId = ''run'', od_OperationType = OperationTypeOther 2, od_InputSchemaJson = ''{}'', od_RequiredScopes = [''run'']\<rparr>"

definition sx_cap :: Capability where
  "sx_cap = \<lparr>cap_Descriptor = \<lparr>cd_CapabilityId = ''agent.demo.v1'', cd_SemanticVersion = ''1.0.0'', cd_ProtocolVersion = 1, cd_Operations = [sx_od]\<rparr>,
     cap_HandleOperation = \<lambda>cx op input. Inl (Failure ''CANCELLED'' ''stream closed'' None)\<rparr>"

definition sx_server :: "Manager \<Rightarrow> Server" where
  "sx_server m = \<lparr>s_config = \<lparr>cf_ListenAddr = ''localhost'', cf_PeerCommonName = ''message-server-client'', cf_PeerInstanceID = ''ms'', cf_AccountGeneration = 1, cf_GrantPublicKeyFile = ''key'',
       cf_MaxConcurrentQuery = 2, cf_MaxConcurrentWatch = 2\<rparr>, s_token = ''token'', s_grantKey = ''key'', s_ready = True, s_registry = [(''agent.demo.v1'', sx_cap)], s_querySem = 0,
     s_watchSem = 0, s_chain = None, s_opMgr = m\<rparr>"

definition sx_call :: CallContext where
  "sx_call = \<lparr>cc_ChainId = ''chain'', cc_RootOperationId = ''op'', cc_ParentCallId = [], cc_DeadlineUnixMs = 5000, cc_Route = ''ms'', cc_Hop = 1\<rparr>"

definition sx_perm :: PermissionContext where
  "sx_perm = \<lparr>pm_AuthenticatedOwnerId = ''owner'', pm_AccountGeneration = 1, pm_CapabilityGrant = ''grant'', pm_GrantedScopes = [''run'']\<rparr>"

definition sx_request :: StartOperationRequest where
  "sx_request = \<lparr>sr_CallContext = Some sx_call, sr_Permission = Some sx_perm, sr_OperationId = ''op'', sr_CapabilityId = ''agent.demo.v1'', sr_Operation = ''run'', sr_RequestJson = ''request'',
     sr_RequestDigest = replicate 32 2, sr_ExpectedRevision = 0\<rparr>"

definition sx_env :: "(nat \<Rightarrow> nat \<Rightarrow> reply) \<Rightarrow> rpc_env" where
  "sx_env db = \<lparr>re_sem = SemTakes, re_now_ms = 1000, re_now = lx_now, re_guard = None, re_admission = None, re_db = db, re_clk = \<lambda>i. lx_clk\<rparr>"

definition sx_control :: ControlRequest where
  "sx_control = \<lparr>kr_CallContext = Some sx_call, kr_Permission = Some sx_perm, kr_OperationId = ''op'', kr_AfterSequence = 0\<rparr>"

definition sx_advanced :: CallContext where
  "sx_advanced = sx_call\<lparr>cc_Route := ''ms/agent'', cc_Hop := 2\<rparr>"

lemma sx_context: "requireCallContext sx_capv1 (sx_server m) 1000 (Some sx_call) = Inr sx_advanced"
  by (simp add: requireCallContext_def validateCallContext_def validateOrAdvanceAgentCallContext_def sx_capv1_def sx_call_def sx_advanced_def split_by.simps starts_with_def chain_active_def
      sx_server_def)


lemma start_ignores_state: "StartOrGet X db clk None m (Some (v\<lparr>co_State := st\<rparr>)) = StartOrGet X db clk None m (Some v)"
proof -
  have d: "with_digests X (v\<lparr>co_State := st\<rparr>) = (with_digests X v)\<lparr>co_State := st\<rparr>" by (simp add: with_digests_def Let_def)
  have f: "inserted_row now (w\<lparr>co_State := st\<rparr>) = inserted_row now w" "sameRequest e (w\<lparr>co_State := st\<rparr>) = sameRequest e w" "checkAdmission None u = None"
      "w\<lparr>co_State := st, co_State := q\<rparr> = w\<lparr>co_State := q\<rparr>" "co_ID (w\<lparr>co_State := st\<rparr>) = co_ID w" "co_CapabilityID (w\<lparr>co_State := st\<rparr>) = co_CapabilityID w"
      "co_OperationName (w\<lparr>co_State := st\<rparr>) = co_OperationName w" "co_RequestJSON (w\<lparr>co_State := st\<rparr>) = co_RequestJSON w" for now w e q u
    by (simp_all add: inserted_row_def sameRequest_def checkAdmission_def)
  show ?thesis unfolding StartOrGet_def option.case d startPostgres_def f ..
qed

lemma sx_ledger_request: "ledger_request (sx_request\<lparr>sr_CallContext := Some cc\<rparr>) (replicate 32 1) (replicate 32 2) = lx_op\<lparr>co_State := OpStateOther []\<rparr>"
  by (simp add: ledger_request_def sx_request_def sx_perm_def owner_of_def generation_of_def lx_op_def)

lemma sx_operation: "operationDescriptor (sx_server m) ''agent.demo.v1'' ''run'' = Inr (sx_cap, sx_od)"
  by (simp add: operationDescriptor_def sx_server_def lookup_def find_operation_def sx_cap_def sx_od_def)

lemma sx_find: "find_operation (cap_Descriptor sx_cap) ''run'' = Some sx_od"
  by (simp add: find_operation_def sx_cap_def sx_od_def)


lemma sx_permission: "validatePermissionWithRoot lx sx_capv1 (S\<lparr>s_querySem := n\<rparr>) lx_now sx_advanced (Some sx_perm) (cap_Descriptor sx_cap) ''run'' (replicate 32 1) False = None"
  if "s_config S = s_config (sx_server m)" "s_grantKey S = ''key''"
proof -
  have t: "TrimSpace ''owner'' = ''owner''" by (simp add: TrimSpace_edges printable_def)
  have r: "od_RequiredScopes sx_od = [''run'']" by (simp add: sx_od_def)
  have v: "verifyAgentGrant lx sx_capv1 (S\<lparr>s_querySem := n\<rparr>) lx_now sx_advanced sx_perm (cap_Descriptor sx_cap) ''run'' (replicate 32 1) False = None"
    by (simp add: verifyAgentGrant_def that(2) sx_find r sx_capv1_def sx_perm_def sx_advanced_def sx_call_def Let_def wrap32_def containsScope_def sameScopes_def)
  show ?thesis
    by (simp add: validatePermissionWithRoot_def v sx_find r that(1)) (simp add: sx_perm_def t sx_server_def)
qed

lemma sx_checks: "start_checks lx sx_capv1 ((sx_server m)\<lparr>s_querySem := n\<rparr>) lx_now (sx_request\<lparr>sr_CallContext := Some sx_advanced\<rparr>) sx_advanced
    = Inr (sx_cap, sx_od, lx_op\<lparr>co_State := OpStateOther []\<rparr>)"
proof -
  have o: "operationDescriptor ((sx_server m)\<lparr>s_querySem := n\<rparr>) ''agent.demo.v1'' ''run'' = Inr (sx_cap, sx_od)"
    using sx_operation [of m] by (simp add: operationDescriptor_def)
  have p: "validatePermissionWithRoot lx sx_capv1 ((sx_server m)\<lparr>s_querySem := n\<rparr>) lx_now sx_advanced (Some sx_perm) (cap_Descriptor sx_cap) ''run'' (replicate 32 1) False = None"
    by (rule sx_permission) (simp_all add: sx_server_def)
  have f: "sr_OperationId sx_request = ''op''" "sr_CapabilityId sx_request = ''agent.demo.v1''" "sr_Operation sx_request = ''run''" "sr_RequestJson sx_request = ''request''"
    "sr_RequestDigest sx_request = replicate 32 2" "sr_Permission sx_request = Some sx_perm" by (simp_all add: sx_request_def)
  have d: "canonicalRootRequestDigest lx sx_capv1 c od ''request'' rev = Inr (replicate 32 1)" "canonicalRequestDigest lx sx_capv1 c od r = Inr (replicate 32 2)" for c od rev r
    by (simp_all add: canonicalRootRequestDigest_def canonicalRequestDigest_def sx_capv1_def rbind_def)
  have w: "od_OperationType sx_od \<noteq> OPERATION_TYPE_READ" "json_Valid lx ''request''" "VerifyRequestDigest sx_capv1 = (\<lambda>a b. if a = b then None else Some (Opaque ''digest''))"
    by (simp_all add: sx_od_def lx_def ex_def sx_capv1_def)
  show ?thesis unfolding start_checks_def
    by (simp add: f o d w p sx_ledger_request [simplified] rbind_def check_def)
qed

lemma sx_started: "StartOperation lx sx_capv1 (sx_env (\<lambda>i. lx_db)) True (sx_server (NewManager True)) (Some sx_request)
    = (sx_server lx_m1, Inr (startOperationResponse lx (lx_row\<lparr>co_Sequence := 1\<rparr>) True),
       Some \<lparr>la_handler = accepted_handler sx_cap (sx_request\<lparr>sr_CallContext := Some sx_advanced\<rparr>) False, la_durable = False, la_deadline = Some (time_of_UnixMilli 5000)\<rparr>)"
proof -
  have c: "sr_CallContext sx_request = Some sx_call" by (simp add: sx_request_def)
  have ctx: "requireCallContext sx_capv1 (sx_server m) (re_now_ms (sx_env db)) (Some sx_call) = Inr sx_advanced" for m db using sx_context by (simp add: sx_env_def)
  have v: "ValidateRootOperationRequest sx_capv1 r = None" for r by (simp add: sx_capv1_def)
  have q: "acquireQuerySem (re_sem (sx_env db)) (sx_server m) = Inr ((sx_server m)\<lparr>s_querySem := 1\<rparr>)" for db m by (simp add: acquireQuerySem_def sx_env_def sx_server_def)
  have n: "re_now (sx_env db) = lx_now" for db by (simp add: sx_env_def)
  have e: "executeAcceptedOperation lx lx_db clk lx_now True (sx_request\<lparr>sr_CallContext := Some sx_advanced\<rparr>) sx_od sx_cap m
      = (m, Some \<lparr>la_handler = accepted_handler sx_cap (sx_request\<lparr>sr_CallContext := Some sx_advanced\<rparr>) False, la_durable = False, la_deadline = Some (time_of_UnixMilli 5000)\<rparr>)" for clk m
    by (simp add: executeAcceptedOperation_def sx_od_def sx_advanced_def sx_call_def time_of_UnixMilli_def unix_epoch_def Second_def lx_now_def)
  have l: "start_ledger lx (sx_env (\<lambda>i. lx_db)) True (sx_request\<lparr>sr_CallContext := Some sx_advanced\<rparr>) sx_od sx_cap (lx_op\<lparr>co_State := OpStateOther []\<rparr>) (NewManager True)
      = (lx_m1, Inr (startOperationResponse lx (lx_row\<lparr>co_Sequence := 1\<rparr>) True),
         Some \<lparr>la_handler = accepted_handler sx_cap (sx_request\<lparr>sr_CallContext := Some sx_advanced\<rparr>) False, la_durable = False, la_deadline = Some (time_of_UnixMilli 5000)\<rparr>)"
    by (simp add: start_ledger_def n e lx_clk_def sx_env_def [THEN arg_cong, of re_db] sx_env_def [THEN arg_cong, of re_clk] sx_env_def [THEN arg_cong, of re_admission] start_ignores_state lx_admitted)
  show ?thesis unfolding StartOperation_def option.case c ctx sum.case v q n Let_def sx_checks prod.case
    by (simp add: l [simplified] sx_server_def [THEN arg_cong, of s_opMgr] releaseQuerySem_def) (simp add: sx_server_def)
qed


section \<open>The calls at work\<close>

theorem started_operations_are_granted_witness:
  "(\<exists>cc c od root. requireCallContext sx_capv1 (sx_server (NewManager True)) 1000 (Some sx_call) = Inr cc
      \<and> operationDescriptor (sx_server (NewManager True)) ''agent.demo.v1'' ''run'' = Inr (c, od)
      \<and> granted lx sx_capv1 (sx_server (NewManager True)) lx_now cc (Some sx_perm) (cap_Descriptor c) ''run'' root False)
    \<and> lookup (m_ops lx_m1) ''other'' = None"
  using started_operations_are_granted [OF sx_started]
  by (fastforce simp: sx_request_def sx_env_def sx_server_def [THEN arg_cong, of s_opMgr] NewManager_def lookup_def)

lemma sx_got: "Get_op (Answered t) lx_m1 ''op'' = Inr (lx_row\<lparr>co_Sequence := 1\<rparr>)"
  by (simp add: Get_op_def ensure_def getWithRow_def operationQuery_def lx_fields lx_trim lookup_def max_event_def lx_event_def) (simp add: lx_row_def lx_op_def)

lemma sx_authorized: "authorizeOperation sx_capv1 (sx_server m) (Some cc) (Some sx_perm) (lx_row\<lparr>co_Sequence := q\<rparr>) action = None"
  by (simp add: authorizeOperation_def owner_of_def generation_of_def grant_of_def) (simp add: sx_perm_def lx_row_def lx_op_def sx_server_def sx_capv1_def)

lemma sx_control_fields: "kr_CallContext sx_control = Some sx_call" "kr_Permission sx_control = Some sx_perm" "kr_OperationId sx_control = ''op''"
  by (simp_all add: sx_control_def)

lemma sx_env_fields: "re_now_ms (sx_env db) = 1000" "re_guard (sx_env db) = None" "re_db (sx_env db) = db" "re_clk (sx_env db) = (\<lambda>i. lx_clk)" "s_opMgr (sx_server m) = m"
  by (simp_all add: sx_env_def sx_server_def)

theorem only_owners_control_witness: "controls sx_capv1 (sx_env (\<lambda>i. lx_db)) (sx_server lx_m1) sx_control ''get''"
proof -
  have "\<not> isl (GetOperation_rpc lx sx_capv1 (sx_env (\<lambda>i. lx_db)) (sx_server lx_m1) (Some sx_control))"
    by (simp add: GetOperation_rpc_def sx_control_fields sx_env_fields sx_context rbind_def lx_db_def sx_got allowOperationObservation_def enterMutation_def check_def sx_authorized)
  with only_owners_control [of lx sx_capv1 "sx_env (\<lambda>i. lx_db)" "sx_server lx_m1" sx_control] show ?thesis by blast
qed

theorem operations_are_launched_once_witness:
  "s_opMgr (fst (StartOperation lx sx_capv1 (sx_env (\<lambda>i. lx_db)) True (sx_server lx_m1) (Some sx_request))) = lx_m1
    \<and> snd (snd (StartOperation lx sx_capv1 (sx_env (\<lambda>i. lx_db)) True (sx_server lx_m1) (Some sx_request))) = None"
proof -
  have "ledger_ok (s_opMgr (sx_server (NewManager True)))" using new_ledger_ok by (simp add: sx_env_fields)
  moreover have "s_opMgr (sx_server lx_m1) = id (s_opMgr (sx_server lx_m1))" by simp
  moreover have "\<not> deprovisions sx_request" by (simp add: deprovisions_def sx_request_def)
  moreover obtain T a l where r: "StartOperation lx sx_capv1 (sx_env (\<lambda>i. lx_db)) True (sx_server lx_m1) (Some sx_request) = (T, a, l)" by (metis prod_cases3)
  ultimately show ?thesis using operations_are_launched_once [OF _ sx_started interferes_id _ refl _ r] by (simp add: r sx_env_fields)
qed

theorem shutdown_leaves_uncertain_witness:
  "\<exists>w. lookup (m_ops (xr_manager (Execute_op lx lx_env None None (Some (accepted_handler sx_cap sx_request True True)) lx_m1 ''op''))) ''op'' = Some w \<and> co_State w = Uncertain"
proof -
  have run: "lx_row\<lparr>co_State := Running, co_UpdatedAt := lx_now\<rparr> = lx_running" by (simp add: lx_running_def lx_row_def lx_op_def)
  let ?w = "ended_row lx lx_m1 ''op'' Uncertain [] ''UNCERTAIN'' ''context canceled'' lx_now lx_running"
  have t: "pg_text ''UNCERTAIN''" "pg_text ''context canceled''" "char_length ''UNCERTAIN'' = 9" "char_length ''context canceled'' = 16" by code_simp+
  have "row_ok ?w" "co_State ?w = Uncertain" using lx_running_ok
    by (simp_all add: ended_row_def row_ok_def t redactJSON_def redact_payload_def redactString_def secrets_of_def lookup_def lx_fields replace_secrets_def ReplaceAll_Cons starts_with_def state_ok_def)
  then show ?thesis
    using shutdown_leaves_uncertain [OF lx_quiet, of lx_m1 "''op''" lx_row None None lx lx_m2 "lx_running\<lparr>co_Sequence := 2\<rparr>" sx_cap sx_request]
    by (simp add: lx_fields lx_trim lookup_def checkAdmission_def acquireExecution_def lx_env_def [THEN arg_cong, of xe_db] lx_env_def [THEN arg_cong, of xe_clk]
        lx_claimed lx_got lx_clk_def run sx_cap_def Let_def)
qed

definition sx_lost :: "nat \<Rightarrow> nat \<Rightarrow> reply" where
  "sx_lost i j = (if i = 2 then Refused ''context canceled'' else Answered [])"

theorem CancelOperation_panics_iff_witness:
  "snd (CancelOperation_rpc lx sx_capv1 (sx_env sx_lost) (HandlerDone None) id (sx_server lx_m3) (Some sx_control)) = Inl Panic"
proof -
  have g: "Get_op (sx_lost i j) lx_m3 ''op'' = (if i = 2 then Inl (Database ''context canceled'') else Inr (lx_completed\<lparr>co_Sequence := 2\<rparr>))" for i j
    by (simp add: sx_lost_def Get_op_def ensure_def getWithRow_def operationQuery_def lx_completed_fields lx_trim lookup_def max_event_def lx_event_def lx_event2_def)
      (simp add: lx_m3_def lx_fields lx_completed_def lx_running_def lx_row_def lx_op_def to_UTC_def lx_now_def)
  have a: "authorizeOperation sx_capv1 (sx_server lx_m3) (Some sx_advanced) (Some sx_perm) (lx_completed\<lparr>co_Sequence := 2\<rparr>) ''cancel'' = None"
    by (simp add: authorizeOperation_def owner_of_def generation_of_def grant_of_def) (simp add: sx_perm_def lx_completed_def lx_running_def lx_row_def lx_op_def sx_server_def sx_capv1_def)
  have c: "Cancel_op lx (sx_lost (Suc 0)) lx_clk w ends lx_m3 ''op'' ''user requested'' = (lx_m3, Inl (Ledger ErrTerminal_op))" for w ends
    by (simp add: Cancel_op_def ensure_def g) (simp add: lx_m3_def lx_fields lx_completed_fields)
  show ?thesis
    using CancelOperation_panics_iff [of sx_capv1 "sx_server lx_m3" "sx_env sx_lost" sx_control sx_advanced "lx_completed\<lparr>co_Sequence := 2\<rparr>" lx "HandlerDone None" id lx_m3 "Inl (Ledger ErrTerminal_op)"]
    by (simp add: sx_control_fields sx_env_fields sx_context enterMutation_def g a c errors_Is_def)
qed

definition sx_json :: ext where
  "sx_json = lx\<lparr>json_Marshal := (\<lambda>v. case v of JObj [m] \<Rightarrow> ''reason'' | _ \<Rightarrow> ''error''),
     json_Unmarshal := (\<lambda>s. if s = ''reason'' then Some (JObj [(''reason'', JStr ''gone'')]) else Some (JObj [(''error_code'', JStr ''UNAVAILABLE''), (''error_message'', JStr ''gone'')]))\<rparr>"

lemma sx_texts: "object_text sx_json [(''error_code'', c), (''error_message'', t)] = ''error''" "object_text sx_json [(''reason'', t)] = ''reason''"
  by (simp_all add: sx_json_def object_text_def)

lemma sx_unchanged: "replace_secrets [''sk-123''] ''UNAVAILABLE'' = ''UNAVAILABLE''" "replace_secrets [''sk-123''] ''gone'' = ''gone''"
    "redactString lx_m2 ''op'' ''gone'' = ''gone''" "secrets_of lx_m2 ''op'' = [''sk-123'']"
  by (simp_all add: replace_secrets_def ReplaceAll_Cons starts_with_def redactString_def secrets_of_def lx_fields lookup_def)

lemma sx_decodes: "decodes sx_json [(''error_code'', ''UNAVAILABLE''), (''error_message'', ''gone'')]" "decodes sx_json [(''reason'', ''gone'')]"
  by (simp_all add: decodes_def sx_texts) (simp_all add: sx_json_def)

lemma sx_fails: "\<exists>m'. terminal_op sx_json lx_db lx_clk lx_m2 ''op'' Failed [] ''UNAVAILABLE'' ''gone'' = (m', Inr ())"
proof -
  let ?w = "ended_row sx_json lx_m2 ''op'' Failed [] ''UNAVAILABLE'' ''gone'' lx_now lx_running"
  have t: "pg_text ''UNAVAILABLE''" "pg_text ''gone''" "char_length ''UNAVAILABLE'' = 11" "char_length ''gone'' = 4" by code_simp+
  have "row_ok ?w" using lx_running_ok by (simp add: ended_row_def row_ok_def t redactJSON_def redact_payload_def sx_unchanged state_ok_def lx_fields)
  moreover have "\<exists>m'. emitEvent sx_json (lx_db 1) lx_now ''op'' ''error'' ''error'' (lx_m2\<lparr>m_ops := put ''op'' ?w (m_ops lx_m2)\<rparr>) = (m', Inr ())"
  proof (rule emit_succeeds [where t = "[]" and p = "''error''"])
    have "redact_payload sx_json [''sk-123''] (object_text sx_json [(''error_code'', ''UNAVAILABLE''), (''error_message'', ''gone'')]) = Some ''error''"
      by (subst redact_object) (simp_all add: sx_decodes sx_unchanged sx_texts plain_keys)
    then show "redactJSON sx_json (lx_m2\<lparr>m_ops := put ''op'' ?w (m_ops lx_m2)\<rparr>) ''op'' ''error'' = Some ''error''"
      by (simp add: sx_texts redactJSON_def secrets_of_def lx_fields lookup_def)
  qed (simp_all add: lx_fields lx_db_def event_types_def lookup_def put_def MaxPayload_def)
  ultimately show ?thesis
    using terminal_effect [where db = lx_db and clk = lx_clk and m = lx_m2 and k = "''op''" and v = lx_running and t = "[]" and X = sx_json and st = Failed
        and result = "[]" and code = "''UNAVAILABLE''" and message = "''gone''"]
    by (auto simp: lx_fields lookup_def lx_db_def lx_clk_def terminal_event_def sx_unchanged sx_texts redactJSON_def redact_payload_def ms_bind_def)
qed

theorem watchers_read_the_outcome_witness:
  "\<exists>m' w e. terminal_op sx_json lx_db lx_clk lx_m2 ''op'' Failed [] ''UNAVAILABLE'' ''gone'' = (m', Inr ()) \<and> lookup (m_ops m') ''op'' = Some w \<and> m_events m' = m_events lx_m2 @ [e]
    \<and> we_Event (eventProto sx_json e) = ErrorEvent (capabilityError sx_json ''UNAVAILABLE'' ''gone'') \<and> gr_Error (ToProto sx_json w) = Some (capabilityError sx_json ''UNAVAILABLE'' ''gone'')"
proof -
  obtain m' where m': "terminal_op sx_json lx_db lx_clk lx_m2 ''op'' Failed [] ''UNAVAILABLE'' ''gone'' = (m', Inr ())" using sx_fails by blast
  have "distinguishable ''sk-123''" "\<not> Contains ''UNAVAILABLE'' ''sk-123''" by (simp_all add: distinguishable_def redaction_def starts_with_def)
  moreover have "ToUpper sx_json ''UNAVAILABLE'' = ''UNAVAILABLE''" by (simp add: ToUpper_def is_ascii_def upper_char_def)
  ultimately show ?thesis
    using watchers_read_the_outcome [OF m', of lx_running "[''sk-123'']" "''gone''"] m' sx_decodes
    by (fastforce simp: terminalOperationState_def lx_fields lookup_def sx_unchanged told_def)
qed

text \<open>A secret that occurs in the code is replaced in the event and kept in the row, so a watcher reads another error than \<open>GetOperation\<close>.\<close>

lemma redacted_code_differs:
  "told X [''FOUND''] (v\<lparr>co_State := Failed, co_ErrorCode := ''NOT_FOUND'', co_ErrorMessage := []\<rparr>) = ErrorEvent (capabilityError X ''NOT_[redacted]'' [])
    \<and> er_Code (capabilityError X ''NOT_[redacted]'' []) = ERROR_CODE_UPSTREAM_FAILED \<and> er_Code (capabilityError X ''NOT_FOUND'' []) = ERROR_CODE_NOT_FOUND"
  by (simp add: told_def replace_secrets_def ReplaceAll_Cons starts_with_def redaction_def capabilityError_def operationErrorCodeInternal_def error_codes_def)

end
