(* ===== verification/Extension_Types.thy ===== *)
theory Extension_Types
  imports Confirm_Types
begin

text \<open>
  \<^verbatim>\<open>src/internal/coreextension/types.go\<close>: candidates, inspections, versions, installations and mutations, with their validation. The packages \<^verbatim>\<open>net/url\<close> and \<^verbatim>\<open>net\<close> and the
  identifiers that \<^verbatim>\<open>github.com/google/uuid\<close> derives from a name are the record \<open>xlib\<close>, an argument \<open>U\<close>. A secret purpose is a string that two packages name; its type is the one of the
  confirmation package.
\<close>

section \<open>Enumerations\<close>

datatype Kind = KindMCP | KindSkill | KindOther string

fun Kind_string :: "Kind \<Rightarrow> string" where
  "Kind_string KindMCP = ''mcp''"
| "Kind_string KindSkill = ''skill''"
| "Kind_string (KindOther s) = s"

datatype Source = SourceOfficialRegistry | SourceSmithery | SourceGlama | SourceGitHub | SourceSkillsSh | SourceBuiltin | SourceNPM | SourceOther string

fun Source_string :: "Source \<Rightarrow> string" where
  "Source_string SourceOfficialRegistry = ''official_registry''"
| "Source_string SourceSmithery = ''smithery''"
| "Source_string SourceGlama = ''glama''"
| "Source_string SourceGitHub = ''github''"
| "Source_string SourceSkillsSh = ''skills_sh''"
| "Source_string SourceBuiltin = ''builtin''"
| "Source_string SourceNPM = ''npm''"
| "Source_string (SourceOther s) = s"

datatype Transport = TransportStdioStatic | TransportStreamableHTTP | TransportSkillStatic | TransportStdioNode | TransportOther string

fun Transport_string :: "Transport \<Rightarrow> string" where
  "Transport_string TransportStdioStatic = ''stdio_static''"
| "Transport_string TransportStreamableHTTP = ''streamable_http''"
| "Transport_string TransportSkillStatic = ''skill_static''"
| "Transport_string TransportStdioNode = ''stdio_node''"
| "Transport_string (TransportOther s) = s"

datatype InstallState = StateDraft | StateInstalling | StateInstalled | StateUpdating | StateUninstalling | StateRemoved | StateFailed | InstallStateOther string

fun InstallState_string :: "InstallState \<Rightarrow> string" where
  "InstallState_string StateDraft = ''draft''"
| "InstallState_string StateInstalling = ''installing''"
| "InstallState_string StateInstalled = ''installed''"
| "InstallState_string StateUpdating = ''updating''"
| "InstallState_string StateUninstalling = ''uninstalling''"
| "InstallState_string StateRemoved = ''removed''"
| "InstallState_string StateFailed = ''failed''"
| "InstallState_string (InstallStateOther s) = s"

text \<open>\<open>Foreign\<close> is an error of an adapter or a store, passed on as it is.\<close>

datatype ext_error = ErrInvalid_x | ErrNotFound_x | ErrConflict_x | ErrIdempotencyConflict_x | ErrRevisionConflict_x | ErrInstallBusy_x | ErrInstallationLimit_x | ErrNodeStorageQuota_x
  | ErrExpired_x | Foreign string

definition MaxNodeArtifactBytes :: u64 where "MaxNodeArtifactBytes = 64 * 2 ^ 20"
definition MaxNodeArtifactFiles :: u32 where "MaxNodeArtifactFiles = 8192"
definition ManagedNodeVersion :: string where "ManagedNodeVersion = ''v24.18.1''"
definition ManagedNPMVersion :: string where "ManagedNPMVersion = ''11.16.0''"

section \<open>Packages outside the repository\<close>

record parsed_url =
  u_Scheme :: string
  u_Host :: string
  u_Hostname :: string
  u_Port :: string
  u_User :: bool
  u_Path :: string
  u_EscapedPath :: string
  u_RawQuery :: string
  u_Fragment :: string

text \<open>\<open>url.Parse\<close> with the accessors of its result, whether \<open>net.ParseIP\<close> finds an address, and \<open>uuid.NewSHA1(uuid.NameSpaceURL, data).String()\<close>.\<close>

record xlib =
  url_Parse :: "string \<Rightarrow> parsed_url option"
  ParseIP :: "string \<Rightarrow> bool"
  NewSHA1_URL :: "string \<Rightarrow> string"

section \<open>Digests, versions and names\<close>

definition validDigest :: "string \<Rightarrow> bool" where
  "validDigest s \<longleftrightarrow> length s = 64 \<and> list_all hex_lower s"

definition validCommit :: "string \<Rightarrow> bool" where
  "validCommit s \<longleftrightarrow> length s = 40 \<and> list_all hex_lower s"

definition validUUID_x :: "ext \<Rightarrow> string \<Rightarrow> bool" where
  "validUUID_x X s \<longleftrightarrow> uuid_Parse X (TrimSpace s) \<noteq> None"

text \<open>The regular expression of exact versions: the build metadata starts at the first plus sign, the pre-release at the first hyphen before it. The result is its fourth group, empty without a pre-release.\<close>

definition semver_number :: "string \<Rightarrow> bool" where
  "semver_number s \<longleftrightarrow> s = ''0'' \<or> s \<noteq> [] \<and> hd s \<noteq> CHR ''0'' \<and> list_all is_digit s"

definition semver_char :: "char \<Rightarrow> bool" where
  "semver_char c = (let n = of_char c :: nat in is_digit c \<or> 65 \<le> n \<and> n \<le> 90 \<or> 97 \<le> n \<and> n \<le> 122 \<or> c = CHR ''-'')"

definition semver_identifiers :: "string \<Rightarrow> bool" where
  "semver_identifiers s = list_all (\<lambda>i. i \<noteq> [] \<and> list_all semver_char i) (Split (CHR ''.'') s)"

definition exactSemver_match :: "string \<Rightarrow> string option" where
  "exactSemver_match s = (let body = takeWhile (\<lambda>c. c \<noteq> CHR ''+'') s; build = dropWhile (\<lambda>c. c \<noteq> CHR ''+'') s;
       core = takeWhile (\<lambda>c. c \<noteq> CHR ''-'') body; pre = dropWhile (\<lambda>c. c \<noteq> CHR ''-'') body in
     if build \<noteq> [] \<and> \<not> semver_identifiers (tl build) \<or> pre \<noteq> [] \<and> \<not> semver_identifiers (tl pre) then None
     else if length (Split (CHR ''.'') core) = 3 \<and> list_all semver_number (Split (CHR ''.'') core) then Some (tl pre) else None)"

definition validExactSemver :: "string \<Rightarrow> bool" where
  "validExactSemver value = (case exactSemver_match value of None \<Rightarrow> False
     | Some pre \<Rightarrow> if pre = [] then True
         else list_all (\<lambda>i. \<not> (1 < length i \<and> hd i = CHR ''0'' \<and> list_all is_digit i)) (Split (CHR ''.'') pre))"

definition npm_char :: "char \<Rightarrow> bool" where
  "npm_char c = (let n = of_char c :: nat in is_digit c \<or> 97 \<le> n \<and> n \<le> 122)"

definition npmNamePart :: "string \<Rightarrow> bool" where
  "npmNamePart s \<longleftrightarrow> s \<noteq> [] \<and> npm_char (hd s) \<and> list_all (\<lambda>c. npm_char c \<or> c \<in> set ''._-'') (tl s)"

definition validNPMPackageName :: "ext \<Rightarrow> string \<Rightarrow> bool" where
  "validNPMPackageName X value =
    (if value = [] \<or> 214 < length value \<or> value \<noteq> ToLower X value \<or> Contains value ''..'' then False
     else if HasPrefix value ''@'' then
       (let parts = Split (CHR ''/'') (drop 1 value) in length parts = 2 \<and> npmNamePart (parts ! 0) \<and> npmNamePart (parts ! 1))
     else \<not> Contains value ''/'' \<and> npmNamePart value)"

section \<open>Sources and execution\<close>

record SourcePin =
  pin_RegistryVersion :: string
  pin_RegistrySHA256 :: string
  pin_GitCommit :: string
  pin_GitSHA256 :: string

text \<open>\<open>strings.EqualFold(s, "latest")\<close>: of its letters only s has another form, the long s (two bytes), besides the upper case.\<close>

fun unlong_s :: "string \<Rightarrow> string" where
  "unlong_s (a # b # r) = (if of_char a = (197 :: nat) \<and> of_char b = (191 :: nat) then CHR ''s'' # unlong_s r else a # unlong_s (b # r))"
| "unlong_s s = s"

definition EqualFold_latest :: "string \<Rightarrow> bool" where
  "EqualFold_latest s \<longleftrightarrow> map lower_char (unlong_s s) = ''latest''"

definition SourcePin_Validate :: "SourcePin \<Rightarrow> ext_error option" where
  "SourcePin_Validate p = (let reg = pin_RegistryVersion p \<noteq> [] \<or> pin_RegistrySHA256 p \<noteq> []; git = pin_GitCommit p \<noteq> [] \<or> pin_GitSHA256 p \<noteq> [] in
     if reg = git then Some ErrInvalid_x
     else if reg \<and> (TrimSpace (pin_RegistryVersion p) = [] \<or> EqualFold_latest (pin_RegistryVersion p) \<or> \<not> validDigest (pin_RegistrySHA256 p)) then Some ErrInvalid_x
     else if git \<and> (\<not> validCommit (pin_GitCommit p) \<or> \<not> validDigest (pin_GitSHA256 p)) then Some ErrInvalid_x else None)"

record StaticEntry =
  ste_RelativePath :: string
  ste_Digest :: string
  ste_Argv :: "string slice"
  ste_Runtime :: string

record RemoteEndpoint =
  rme_URL :: string
  rme_CredentialReferenceID :: string

record SkillEntry =
  ske_RelativePath :: string
  ske_Digest :: string
  ske_Executable :: bool
  ske_Argv :: "string slice"

record ExecutionDescriptor =
  exd_Stdio :: "StaticEntry option"
  exd_Remote :: "RemoteEndpoint option"
  exd_Skill :: "SkillEntry option"

definition zero_byte :: char where "zero_byte = char_of (0 :: nat)"

definition validPath :: "string \<Rightarrow> bool" where
  "validPath p \<longleftrightarrow> p \<noteq> [] \<and> \<not> HasPrefix p ''/'' \<and> \<not> Contains p ''..'' \<and> \<not> ContainsAny p (CHR 0x5C # zero_byte # line_breaks)"

definition validStatic :: "StaticEntry \<Rightarrow> bool" where
  "validStatic s \<longleftrightarrow> \<not> (\<not> validPath (ste_RelativePath s) \<or> \<not> validDigest (ste_Digest s) \<or> elems (ste_Argv s) = [])
     \<and> list_all (\<lambda>a. \<not> (a = [] \<or> ContainsAny a line_breaks)) (elems (ste_Argv s))"

definition validNodeStatic :: "StaticEntry \<Rightarrow> bool" where
  "validNodeStatic s \<longleftrightarrow> \<not> (\<not> validPath (ste_RelativePath s) \<or> \<not> validDigest (ste_Digest s) \<or> ste_Runtime s \<noteq> ''node'' \<or> 128 < length (elems (ste_Argv s)))
     \<and> list_all (\<lambda>a. \<not> (a = [] \<or> ContainsAny a (zero_byte # line_breaks) \<or> 16 * 2 ^ 10 < length a)) (elems (ste_Argv s))"

definition validSkill :: "SkillEntry \<Rightarrow> bool" where
  "validSkill s = (if \<not> validPath (ske_RelativePath s) \<or> \<not> validDigest (ske_Digest s) then False
     else if \<not> ske_Executable s then elems (ske_Argv s) = []
     else if ske_RelativePath s \<noteq> ''entry'' \<or> elems (ske_Argv s) = [] \<or> 128 < length (elems (ske_Argv s)) then False
     else list_all (\<lambda>a. \<not> (zero_byte \<in> set a \<or> 16 * 2 ^ 10 < length a)) (elems (ske_Argv s)))"

definition validRemote :: "ext \<Rightarrow> xlib \<Rightarrow> RemoteEndpoint \<Rightarrow> bool" where
  "validRemote X U r = (case url_Parse U (rme_URL r) of None \<Rightarrow> False
     | Some u \<Rightarrow> u_Scheme u = ''https'' \<and> u_Host u \<noteq> [] \<and> u_Host u = ToLower X (u_Host u)
         \<and> (rme_CredentialReferenceID r = [] \<or> validUUID_x X (rme_CredentialReferenceID r)) \<and> \<not> u_User u \<and> u_Fragment u = [] \<and> u_RawQuery u = [] \<and> \<not> Contains (u_Path u) ''..'')"

definition ExecutionDescriptor_Validate :: "ext \<Rightarrow> xlib \<Rightarrow> ExecutionDescriptor \<Rightarrow> Kind \<Rightarrow> Transport \<Rightarrow> ext_error option" where
  "ExecutionDescriptor_Validate X U e kind transport =
    (if of_bool (exd_Stdio e \<noteq> None) + of_bool (exd_Remote e \<noteq> None) + of_bool (exd_Skill e \<noteq> None) \<noteq> (1 :: nat) then Some ErrInvalid_x
     else case transport of
       TransportStdioStatic \<Rightarrow> (case exd_Stdio e of Some s \<Rightarrow> if kind \<noteq> KindMCP \<or> \<not> validStatic s \<or> ste_Runtime s \<noteq> [] then Some ErrInvalid_x else None | None \<Rightarrow> Some ErrInvalid_x)
     | TransportStdioNode \<Rightarrow> (case exd_Stdio e of Some s \<Rightarrow> if kind \<noteq> KindMCP \<or> \<not> validNodeStatic s then Some ErrInvalid_x else None | None \<Rightarrow> Some ErrInvalid_x)
     | TransportStreamableHTTP \<Rightarrow> (case exd_Remote e of Some r \<Rightarrow> if kind \<noteq> KindMCP \<or> \<not> validRemote X U r then Some ErrInvalid_x else None | None \<Rightarrow> Some ErrInvalid_x)
     | TransportSkillStatic \<Rightarrow> (case exd_Skill e of Some s \<Rightarrow> if kind \<noteq> KindSkill \<or> \<not> validSkill s then Some ErrInvalid_x else None | None \<Rightarrow> Some ErrInvalid_x)
     | TransportOther _ \<Rightarrow> Some ErrInvalid_x)"

section \<open>Grants and secrets\<close>

record NetGrant =
  nw_Scheme :: string
  nw_Host :: string
  nw_Port :: u32
  nw_PathPrefix :: string
  nw_Digest :: string

definition NetGrant_Validate :: "xlib \<Rightarrow> NetGrant \<Rightarrow> ext_error option" where
  "NetGrant_Validate U g =
    (if nw_Scheme g \<noteq> ''https'' \<and> nw_Scheme g \<noteq> ''http'' then Some ErrInvalid_x
     else if nw_Host g = [] \<or> 253 < length (nw_Host g) \<or> nw_Host g \<noteq> TrimSpace (nw_Host g) \<or> \<not> is_ascii (nw_Host g) then Some ErrInvalid_x
     else if \<not> ParseIP U (nw_Host g) \<and> ContainsAny (nw_Host g) ('' /'' @ [CHR 0x5C]) then Some ErrInvalid_x
     else if nw_Port g = 0 \<or> 65535 < nw_Port g \<or> \<not> HasPrefix (nw_PathPrefix g) ''/'' \<or> \<not> validDigest (nw_Digest g) then Some ErrInvalid_x
     else None)"

record SecretInput =
  sin_ReferenceID :: string
  sin_Purpose :: SecretPurpose
  sin_Value :: string

definition extension_purpose :: "SecretPurpose \<Rightarrow> bool" where
  "extension_purpose p \<longleftrightarrow> p = SecretPurposeMCPCredential \<or> p = SecretPurposeSkillSecret"

definition SecretInput_Validate :: "ext \<Rightarrow> SecretInput \<Rightarrow> ext_error option" where
  "SecretInput_Validate X s = (if \<not> validUUID_x X (sin_ReferenceID s) \<or> \<not> extension_purpose (sin_Purpose s) \<or> sin_Value s = [] then Some ErrInvalid_x else None)"

definition Fingerprint :: "ext \<Rightarrow> SecretInput \<Rightarrow> string" where
  "Fingerprint X s = sha256_hex X (sin_Value s)"

record SecretGrantDescriptor =
  sgd_ReferenceID :: string
  sgd_Purpose :: SecretPurpose
  sgd_BindingDigest :: string
  sgd_Configured :: bool

definition SecretGrantDescriptor_Validate :: "ext \<Rightarrow> SecretGrantDescriptor \<Rightarrow> ext_error option" where
  "SecretGrantDescriptor_Validate X s =
    (if \<not> validUUID_x X (sgd_ReferenceID s) \<or> \<not> extension_purpose (sgd_Purpose s) \<or> \<not> validDigest (sgd_BindingDigest s) then Some ErrInvalid_x else None)"

end
