(* ===== verification/Extension_Data.thy ===== *)
theory Extension_Data
  imports Extension_Types
begin

text \<open>
  The compound values of \<^verbatim>\<open>src/internal/coreextension/types.go\<close> and \<^verbatim>\<open>repository_catalog.go\<close>: candidates, inspections, artifacts, versions and installations, what they must satisfy, their copies, their JSON
  values, their digests, and the projection that leaves the service. A copy with \<^verbatim>\<open>append(nil, xs...)\<close> of an empty slice is nil, and one with \<^verbatim>\<open>append([]T{}, xs...)\<close> of a nil slice is empty.
\<close>

section \<open>Candidates and inspections\<close>

record Candidate =
  cand_ID :: string
  cand_Kind :: Kind
  cand_Source :: Source
  cand_Name :: string
  cand_Description :: string
  cand_Pin :: SourcePin
  cand_Transport :: Transport

definition equalCandidate :: "Candidate \<Rightarrow> Candidate \<Rightarrow> bool" where
  "equalCandidate a b \<longleftrightarrow> cand_ID a = cand_ID b \<and> cand_Kind a = cand_Kind b \<and> cand_Source a = cand_Source b \<and> cand_Name a = cand_Name b \<and> cand_Description a = cand_Description b
     \<and> cand_Transport a = cand_Transport b \<and> cand_Pin a = cand_Pin b"

definition validKindSource :: "Kind \<Rightarrow> Source \<Rightarrow> bool" where
  "validKindSource k s = (case k of
       KindMCP \<Rightarrow> s = SourceOfficialRegistry \<or> s = SourceSmithery \<or> s = SourceGlama \<or> s = SourceGitHub \<or> s = SourceNPM \<or> s = SourceBuiltin
     | KindSkill \<Rightarrow> s = SourceSkillsSh \<or> s = SourceGitHub \<or> s = SourceBuiltin
     | KindOther _ \<Rightarrow> False)"

definition validTransport :: "Kind \<Rightarrow> Transport \<Rightarrow> bool" where
  "validTransport k t \<longleftrightarrow> k = KindMCP \<and> (t = TransportStdioStatic \<or> t = TransportStreamableHTTP \<or> t = TransportStdioNode) \<or> k = KindSkill \<and> t = TransportSkillStatic"

definition validInstallState :: "InstallState \<Rightarrow> bool" where
  "validInstallState s \<longleftrightarrow> s \<in> {StateDraft, StateInstalling, StateInstalled, StateUpdating, StateUninstalling, StateRemoved, StateFailed}"

definition Candidate_Validate :: "ext \<Rightarrow> Candidate \<Rightarrow> ext_error option" where
  "Candidate_Validate X c =
    (if cand_ID c = [] \<or> cand_Name c = [] \<or> \<not> validKindSource (cand_Kind c) (cand_Source c) \<or> SourcePin_Validate (cand_Pin c) \<noteq> None
        \<or> \<not> validTransport (cand_Kind c) (cand_Transport c) then Some ErrInvalid_x
     else if cand_Source c = SourceGitHub \<and> pin_GitCommit (cand_Pin c) = [] then Some ErrInvalid_x
     else if cand_Source c \<noteq> SourceGitHub \<and> pin_RegistryVersion (cand_Pin c) = [] then Some ErrInvalid_x
     else if cand_Transport c = TransportStdioNode then
       (if cand_Kind c \<noteq> KindMCP \<or> cand_Source c \<noteq> SourceGitHub \<and> cand_Source c \<noteq> SourceNPM then Some ErrInvalid_x
        else if cand_Source c = SourceNPM \<and> (\<not> validNPMPackageName X (cand_ID c) \<or> \<not> validExactSemver (pin_RegistryVersion (cand_Pin c))) then Some ErrInvalid_x
        else None)
     else if cand_Source c = SourceNPM then Some ErrInvalid_x else None)"

record Inspection =
  insp_Candidate :: Candidate
  insp_ContentDigest :: string
  insp_ManifestDigest :: string
  insp_ExecutionDigest :: string
  insp_NetworkSchemaDigest :: string
  insp_SecretSchemaDigest :: string
  insp_Execution :: ExecutionDescriptor
  insp_NetworkGrants :: "NetGrant slice"
  insp_SecretGrants :: "SecretGrantDescriptor slice"

definition url_port :: "parsed_url \<Rightarrow> u32" where
  "url_port u = (if u_Port u \<noteq> [] then foldl (\<lambda>p c. p * 10 + (of_nat (of_char c) - 48)) 0 (u_Port u) else 443)"

definition url_path :: "parsed_url \<Rightarrow> string" where
  "url_path u = (if u_EscapedPath u = [] then ''/'' else u_EscapedPath u)"

definition grant_matches :: "parsed_url \<Rightarrow> NetGrant \<Rightarrow> bool" where
  "grant_matches u g \<longleftrightarrow> nw_Scheme g = u_Scheme u \<and> nw_Host g = u_Hostname u \<and> nw_Port g = url_port u \<and> nw_PathPrefix g = url_path u"

definition credential_matches :: "Inspection \<Rightarrow> string \<Rightarrow> bool" where
  "credential_matches i ref = (if ref = [] then list_all (\<lambda>g. sgd_Purpose g \<noteq> SecretPurposeMCPCredential) (elems (insp_SecretGrants i))
     else list_ex (\<lambda>g. sgd_ReferenceID g = ref \<and> sgd_Purpose g = SecretPurposeMCPCredential) (elems (insp_SecretGrants i)))"

definition Inspection_Validate :: "ext \<Rightarrow> xlib \<Rightarrow> Inspection \<Rightarrow> ext_error option" where
  "Inspection_Validate X U i =
    (if Candidate_Validate X (insp_Candidate i) \<noteq> None \<or> \<not> validDigest (insp_ContentDigest i) \<or> \<not> validDigest (insp_ManifestDigest i) \<or> \<not> validDigest (insp_ExecutionDigest i)
        \<or> \<not> validDigest (insp_NetworkSchemaDigest i) \<or> \<not> validDigest (insp_SecretSchemaDigest i)
        \<or> ExecutionDescriptor_Validate X U (insp_Execution i) (cand_Kind (insp_Candidate i)) (cand_Transport (insp_Candidate i)) \<noteq> None then Some ErrInvalid_x
     else if list_ex (\<lambda>g. NetGrant_Validate U g \<noteq> None) (elems (insp_NetworkGrants i)) then Some ErrInvalid_x
     else if cand_Transport (insp_Candidate i) \<noteq> TransportStreamableHTTP \<and> elems (insp_NetworkGrants i) \<noteq> [] then Some ErrInvalid_x
     else if list_ex (\<lambda>g. SecretGrantDescriptor_Validate X g \<noteq> None) (elems (insp_SecretGrants i)) then Some ErrInvalid_x
     else case exd_Remote (insp_Execution i) of None \<Rightarrow> None
     | Some remote \<Rightarrow> if cand_Transport (insp_Candidate i) \<noteq> TransportStreamableHTTP then None
         else (case url_Parse U (rme_URL remote) of None \<Rightarrow> Some ErrInvalid_x
           | Some u \<Rightarrow> if \<not> list_ex (grant_matches u) (elems (insp_NetworkGrants i)) \<or> \<not> credential_matches i (rme_CredentialReferenceID remote) then Some ErrInvalid_x else None))"

section \<open>Artifacts, versions and installations\<close>

record NodeArtifactReceipt =
  nar_InputDigest :: string
  nar_ArtifactDigest :: string
  nar_ArtifactBytes :: u64
  nar_FileCount :: u32
  nar_EntryPath :: string
  nar_EntrySHA256 :: string
  nar_PackageName :: string
  nar_PackageVersion :: string
  nar_LockSHA256 :: string
  nar_NodeVersion :: string
  nar_NPMVersion :: string
  nar_LifecycleScriptsDisabled :: bool
  nar_NativeAddonsAbsent :: bool

definition NodeArtifactReceipt_Validate :: "ext \<Rightarrow> NodeArtifactReceipt \<Rightarrow> Candidate \<Rightarrow> ExecutionDescriptor \<Rightarrow> string \<Rightarrow> ext_error option" where
  "NodeArtifactReceipt_Validate X r candidate e artifactDigest = (case exd_Stdio e of None \<Rightarrow> Some ErrInvalid_x
     | Some s \<Rightarrow> if cand_Transport candidate \<noteq> TransportStdioNode \<or> ste_Runtime s \<noteq> ''node'' \<or> \<not> validDigest (nar_InputDigest r) \<or> \<not> validDigest (nar_ArtifactDigest r)
           \<or> nar_ArtifactDigest r \<noteq> artifactDigest \<or> nar_ArtifactBytes r = 0 \<or> MaxNodeArtifactBytes < nar_ArtifactBytes r \<or> nar_FileCount r = 0 \<or> MaxNodeArtifactFiles < nar_FileCount r
           \<or> \<not> validPath (nar_EntryPath r) \<or> \<not> validDigest (nar_EntrySHA256 r) \<or> nar_EntryPath r \<noteq> ste_RelativePath s \<or> nar_EntrySHA256 r \<noteq> ste_Digest s \<or> nar_PackageName r = []
           \<or> \<not> validExactSemver (nar_PackageVersion r) \<or> \<not> validDigest (nar_LockSHA256 r) \<or> nar_NodeVersion r \<noteq> ManagedNodeVersion \<or> nar_NPMVersion r \<noteq> ManagedNPMVersion
           \<or> \<not> nar_LifecycleScriptsDisabled r \<or> \<not> nar_NativeAddonsAbsent r then Some ErrInvalid_x
         else if \<not> validNPMPackageName X (nar_PackageName r) then Some ErrInvalid_x
         else if cand_Source candidate = SourceNPM \<and> (nar_PackageName r \<noteq> cand_ID candidate \<or> nar_PackageVersion r \<noteq> pin_RegistryVersion (cand_Pin candidate)) then Some ErrInvalid_x
         else None)"

record FetchArtifact =
  fa_Candidate :: Candidate
  fa_Content :: string
  fa_ContentDigest :: string
  fa_ManifestDigest :: string
  fa_Inspection :: Inspection

definition FetchArtifact_Validate :: "ext \<Rightarrow> xlib \<Rightarrow> FetchArtifact \<Rightarrow> ext_error option" where
  "FetchArtifact_Validate X U f = (if Inspection_Validate X U (fa_Inspection f) \<noteq> None \<or> cand_ID (fa_Candidate f) \<noteq> cand_ID (insp_Candidate (fa_Inspection f))
       \<or> \<not> validDigest (fa_ContentDigest f) \<or> fa_ContentDigest f \<noteq> sha256_hex X (fa_Content f) then Some ErrInvalid_x else None)"

record ExtTool =
  tool_Name :: string
  tool_Description :: string
  tool_InputSchemaDigest :: string
  tool_InputSchema :: "char slice"

record VersionRecord =
  ver_VersionID :: string
  ver_Pin :: SourcePin
  ver_ContentDigest :: string
  ver_ManifestDigest :: string
  ver_ExecutionDigest :: string
  ver_NetworkSchemaDigest :: string
  ver_SecretSchemaDigest :: string
  ver_Execution :: ExecutionDescriptor
  ver_Tools :: "ExtTool list"
  ver_NetworkGrants :: "NetGrant slice"
  ver_SecretGrants :: "SecretGrantDescriptor slice"
  ver_ArtifactPath :: string
  ver_ArtifactDigest :: string
  ver_ArtifactCleanupToken :: string
  ver_NodeArtifact :: "NodeArtifactReceipt option"
  ver_PublishedAt :: gotime
  ver_CreatedAt :: gotime

record Installation =
  inst_ID :: string
  inst_Candidate :: Candidate
  inst_Kind :: Kind
  inst_Source :: Source
  inst_CandidateID :: string
  inst_Name :: string
  inst_Description :: string
  inst_Transport :: Transport
  inst_Revision :: int
  inst_State :: InstallState
  inst_Enabled :: bool
  inst_ActiveVersionID :: string
  inst_ProposedVersionID :: string
  inst_Versions :: "VersionRecord list"
  inst_NetworkGrants :: "NetGrant slice"
  inst_SecretGrants :: "SecretGrantDescriptor slice"
  inst_CreatedAt :: gotime
  inst_UpdatedAt :: gotime

definition version_ok :: "ext \<Rightarrow> xlib \<Rightarrow> Installation \<Rightarrow> VersionRecord \<Rightarrow> bool" where
  "version_ok X U i v \<longleftrightarrow>
    \<not> (SourcePin_Validate (ver_Pin v) \<noteq> None \<or> \<not> validDigest (ver_ContentDigest v) \<or> \<not> validDigest (ver_ManifestDigest v) \<or> \<not> validDigest (ver_ExecutionDigest v)
       \<or> \<not> validDigest (ver_NetworkSchemaDigest v) \<or> \<not> validDigest (ver_SecretSchemaDigest v) \<or> ExecutionDescriptor_Validate X U (ver_Execution v) (inst_Kind i) (inst_Transport i) \<noteq> None)
    \<and> (if inst_Transport i = TransportStdioNode then (case ver_NodeArtifact v of None \<Rightarrow> False
          | Some r \<Rightarrow> validUUID_x X (ver_ArtifactCleanupToken v) \<and> NodeArtifactReceipt_Validate X r (inst_Candidate i) (ver_Execution v) (ver_ArtifactDigest v) = None)
       else ver_NodeArtifact v = None)
    \<and> list_all (\<lambda>g. NetGrant_Validate U g = None) (elems (ver_NetworkGrants v))
    \<and> list_all (\<lambda>g. SecretGrantDescriptor_Validate X g = None \<and> sgd_Configured g) (elems (ver_SecretGrants v))
    \<and> (ver_ArtifactPath v = []) = (ver_ArtifactDigest v = []) \<and> (ver_ArtifactDigest v = [] \<or> validDigest (ver_ArtifactDigest v))"

definition Installation_Validate :: "ext \<Rightarrow> xlib \<Rightarrow> Installation \<Rightarrow> ext_error option" where
  "Installation_Validate X U i =
    (if \<not> validUUID_x X (inst_ID i) \<or> Candidate_Validate X (inst_Candidate i) \<noteq> None \<or> cand_ID (inst_Candidate i) \<noteq> inst_CandidateID i \<or> cand_Kind (inst_Candidate i) \<noteq> inst_Kind i
        \<or> cand_Source (inst_Candidate i) \<noteq> inst_Source i \<or> cand_Name (inst_Candidate i) \<noteq> inst_Name i \<or> cand_Description (inst_Candidate i) \<noteq> inst_Description i
        \<or> cand_Transport (inst_Candidate i) \<noteq> inst_Transport i \<or> \<not> validKindSource (inst_Kind i) (inst_Source i) \<or> inst_CandidateID i = [] \<or> inst_Name i = [] \<or> inst_Revision i < 1
        \<or> \<not> validInstallState (inst_State i) \<or> \<not> validTransport (inst_Kind i) (inst_Transport i) then Some ErrInvalid_x
     else if list_ex (\<lambda>v. \<not> version_ok X U i v) (inst_Versions i) then Some ErrInvalid_x
     else if list_ex (\<lambda>g. SecretGrantDescriptor_Validate X g \<noteq> None) (elems (inst_SecretGrants i)) then Some ErrInvalid_x
     else if (inst_State i = StateInstalling \<or> inst_State i = StateUpdating) \<and> inst_ProposedVersionID i = [] then Some ErrInvalid_x
     else if inst_State i = StateInstalled \<and> inst_ActiveVersionID i = [] then Some ErrInvalid_x else None)"

section \<open>Copies\<close>

definition clone_slice :: "'a slice \<Rightarrow> 'a slice" where
  "clone_slice xs = (if elems xs = [] then None else xs)"

definition fresh_slice :: "'a slice \<Rightarrow> 'a slice" where
  "fresh_slice xs = Some (elems xs)"

definition cloneStatic :: "StaticEntry \<Rightarrow> StaticEntry" where
  "cloneStatic s = s\<lparr>ste_Argv := clone_slice (ste_Argv s)\<rparr>"

definition cloneExecution :: "ExecutionDescriptor \<Rightarrow> ExecutionDescriptor" where
  "cloneExecution e = e\<lparr>exd_Stdio := map_option cloneStatic (exd_Stdio e)\<rparr>"

definition cloneVersion :: "VersionRecord \<Rightarrow> VersionRecord" where
  "cloneVersion v = v\<lparr>ver_Execution := (ver_Execution v)\<lparr>exd_Stdio := map_option cloneStatic (exd_Stdio (ver_Execution v)),
       exd_Skill := map_option (\<lambda>s. s\<lparr>ske_Argv := clone_slice (ske_Argv s)\<rparr>) (exd_Skill (ver_Execution v))\<rparr>,
     ver_NetworkGrants := clone_slice (ver_NetworkGrants v), ver_SecretGrants := clone_slice (ver_SecretGrants v),
     ver_Tools := map (\<lambda>t. t\<lparr>tool_InputSchema := clone_slice (tool_InputSchema t)\<rparr>) (ver_Tools v)\<rparr>"

definition cloneInstallation :: "Installation \<Rightarrow> Installation" where
  "cloneInstallation i = i\<lparr>inst_Versions := map cloneVersion (inst_Versions i), inst_SecretGrants := clone_slice (inst_SecretGrants i), inst_NetworkGrants := clone_slice (inst_NetworkGrants i)\<rparr>"

definition Installation_Redacted :: "Installation \<Rightarrow> Installation" where
  "Installation_Redacted i = (let x = cloneInstallation i in
     x\<lparr>inst_Versions := map (\<lambda>v. v\<lparr>ver_ArtifactPath := [], ver_ArtifactCleanupToken := [], ver_NodeArtifact := None\<rparr>) (inst_Versions x)\<rparr>)"

section \<open>The public projection\<close>

record PublicNodeArtifactReceipt =
  pnr_PackageName :: string
  pnr_PackageVersion :: string
  pnr_ArtifactBytes :: u64
  pnr_FileCount :: u32
  pnr_NodeVersion :: string
  pnr_NPMVersion :: string
  pnr_LifecycleScriptsDisabled :: bool
  pnr_NativeAddonsAbsent :: bool

record PublicVersionRecord =
  pvr_VersionID :: string
  pvr_Pin :: SourcePin
  pvr_ContentDigest :: string
  pvr_ManifestDigest :: string
  pvr_ExecutionDigest :: string
  pvr_NetworkSchemaDigest :: string
  pvr_SecretSchemaDigest :: string
  pvr_Execution :: ExecutionDescriptor
  pvr_NetworkGrants :: "NetGrant slice"
  pvr_SecretGrants :: "SecretGrantDescriptor slice"
  pvr_NodeArtifact :: "PublicNodeArtifactReceipt option"
  pvr_CreatedAt :: gotime

record PublicInstallation =
  pin_ID :: string
  pin_Candidate :: Candidate
  pin_Kind :: Kind
  pin_Source :: Source
  pin_CandidateID :: string
  pin_Name :: string
  pin_Description :: string
  pin_Transport :: Transport
  pin_Revision :: int
  pin_State :: InstallState
  pin_Enabled :: bool
  pin_ActiveVersionID :: string
  pin_ProposedVersionID :: string
  pin_Versions :: "PublicVersionRecord list"
  pin_NetworkGrants :: "NetGrant slice"
  pin_SecretGrants :: "SecretGrantDescriptor slice"
  pin_CreatedAt :: gotime
  pin_UpdatedAt :: gotime

definition public_receipt :: "NodeArtifactReceipt \<Rightarrow> PublicNodeArtifactReceipt" where
  "public_receipt r = \<lparr>pnr_PackageName = nar_PackageName r, pnr_PackageVersion = nar_PackageVersion r, pnr_ArtifactBytes = nar_ArtifactBytes r, pnr_FileCount = nar_FileCount r,
     pnr_NodeVersion = nar_NodeVersion r, pnr_NPMVersion = nar_NPMVersion r, pnr_LifecycleScriptsDisabled = nar_LifecycleScriptsDisabled r, pnr_NativeAddonsAbsent = nar_NativeAddonsAbsent r\<rparr>"

text \<open>The receipt of the build is shown once the version is published.\<close>

definition public_version :: "VersionRecord \<Rightarrow> PublicVersionRecord" where
  "public_version v = (let e = cloneExecution (ver_Execution v) in
     \<lparr>pvr_VersionID = ver_VersionID v, pvr_Pin = ver_Pin v, pvr_ContentDigest = ver_ContentDigest v, pvr_ManifestDigest = ver_ManifestDigest v, pvr_ExecutionDigest = ver_ExecutionDigest v,
      pvr_NetworkSchemaDigest = ver_NetworkSchemaDigest v, pvr_SecretSchemaDigest = ver_SecretSchemaDigest v,
      pvr_Execution = e\<lparr>exd_Stdio := map_option (\<lambda>s. if ste_Argv s = None then s\<lparr>ste_Argv := Some []\<rparr> else s) (exd_Stdio e)\<rparr>,
      pvr_NetworkGrants = fresh_slice (ver_NetworkGrants v), pvr_SecretGrants = fresh_slice (ver_SecretGrants v),
      pvr_NodeArtifact = (if IsZero (ver_PublishedAt v) then None else map_option public_receipt (ver_NodeArtifact v)), pvr_CreatedAt = ver_CreatedAt v\<rparr>)"

definition Installation_Public :: "Installation \<Rightarrow> PublicInstallation" where
  "Installation_Public i = (let x = cloneInstallation i in
     \<lparr>pin_ID = inst_ID x, pin_Candidate = inst_Candidate x, pin_Kind = inst_Kind x, pin_Source = inst_Source x, pin_CandidateID = inst_CandidateID x, pin_Name = inst_Name x,
      pin_Description = inst_Description x, pin_Transport = inst_Transport x, pin_Revision = inst_Revision x, pin_State = inst_State x, pin_Enabled = inst_Enabled x,
      pin_ActiveVersionID = inst_ActiveVersionID x, pin_ProposedVersionID = inst_ProposedVersionID x, pin_Versions = map public_version (inst_Versions x),
      pin_NetworkGrants = fresh_slice (inst_NetworkGrants x), pin_SecretGrants = fresh_slice (inst_SecretGrants x), pin_CreatedAt = inst_CreatedAt x, pin_UpdatedAt = inst_UpdatedAt x\<rparr>)"

end
