(* ===== verification/Extension_Requests.thy ===== *)
theory Extension_Requests
  imports Extension_Data
begin

text \<open>
  The requests of \<^verbatim>\<open>src/internal/coreextension\<close>: mutations with their validation (\<^verbatim>\<open>types.go\<close>, \<^verbatim>\<open>repository_mutations.go\<close>), their digests (\<^verbatim>\<open>repository_catalog.go\<close>), and the lifecycle request, with the binding
  that a person confirms, that a mutation becomes (\<^verbatim>\<open>repository_lifecycle.go\<close>). \<open>sort.Slice\<close> is a stable sort here; the order of equal grants reaches only a digest.
\<close>

section \<open>Mutations\<close>

record Mutation =
  mut_IdempotencyKey :: string
  mut_InstallationID :: string
  mut_ExpectedRevision :: int
  mut_Candidate :: Candidate
  mut_Inspection :: Inspection
  mut_SecretInputs :: "SecretInput list"
  mut_ArtifactPath :: string
  mut_ArtifactDigest :: string
  mut_ArtifactCleanupToken :: string
  mut_NodeArtifact :: "NodeArtifactReceipt option"

definition zero_pin :: SourcePin where
  "zero_pin = \<lparr>pin_RegistryVersion = [], pin_RegistrySHA256 = [], pin_GitCommit = [], pin_GitSHA256 = []\<rparr>"

definition zero_candidate :: Candidate where
  "zero_candidate = \<lparr>cand_ID = [], cand_Kind = KindOther [], cand_Source = SourceOther [], cand_Name = [], cand_Description = [], cand_Pin = zero_pin, cand_Transport = TransportOther []\<rparr>"

definition ValidateUninstallRequest :: "ext \<Rightarrow> Mutation \<Rightarrow> ext_error option" where
  "ValidateUninstallRequest X m = (let i = mut_Inspection m in
     if \<not> validUUID_x X (mut_IdempotencyKey m) \<or> \<not> validUUID_x X (mut_InstallationID m) \<or> mut_ExpectedRevision m < 1 \<or> mut_Candidate m \<noteq> zero_candidate
        \<or> insp_Candidate i \<noteq> zero_candidate \<or> insp_ContentDigest i \<noteq> [] \<or> insp_ManifestDigest i \<noteq> [] \<or> insp_ExecutionDigest i \<noteq> [] \<or> insp_NetworkSchemaDigest i \<noteq> []
        \<or> insp_SecretSchemaDigest i \<noteq> [] \<or> exd_Stdio (insp_Execution i) \<noteq> None \<or> exd_Remote (insp_Execution i) \<noteq> None \<or> exd_Skill (insp_Execution i) \<noteq> None
        \<or> elems (insp_NetworkGrants i) \<noteq> [] \<or> elems (insp_SecretGrants i) \<noteq> [] \<or> mut_SecretInputs m \<noteq> [] \<or> mut_ArtifactPath m \<noteq> [] \<or> mut_ArtifactDigest m \<noteq> []
        \<or> mut_ArtifactCleanupToken m \<noteq> [] \<or> mut_NodeArtifact m \<noteq> None then Some ErrInvalid_x else None)"

definition ValidateArtifactReceipt :: "ext \<Rightarrow> Mutation \<Rightarrow> ext_error option" where
  "ValidateArtifactReceipt X m =
    (if cand_Transport (mut_Candidate m) \<noteq> TransportStdioNode then (if mut_NodeArtifact m \<noteq> None then Some ErrInvalid_x else None)
     else case mut_NodeArtifact m of None \<Rightarrow> Some ErrInvalid_x
     | Some r \<Rightarrow> if \<not> validUUID_x X (mut_ArtifactCleanupToken m) \<or> nar_InputDigest r \<noteq> insp_ContentDigest (mut_Inspection m)
           \<or> NodeArtifactReceipt_Validate X r (mut_Candidate m) (insp_Execution (mut_Inspection m)) (mut_ArtifactDigest m) \<noteq> None then Some ErrInvalid_x else None)"

text \<open>The secrets that a mutation brings are exactly those that its inspection grants, each with its fingerprint.\<close>

definition wrong_purpose :: "Kind \<Rightarrow> SecretPurpose \<Rightarrow> bool" where
  "wrong_purpose k p \<longleftrightarrow> k = KindMCP \<and> p \<noteq> SecretPurposeMCPCredential \<or> k = KindSkill \<and> p \<noteq> SecretPurposeSkillSecret"

definition secret_key_x :: "string \<Rightarrow> SecretPurpose \<Rightarrow> string" where
  "secret_key_x ref p = ref @ '':'' @ SecretPurpose_string p"

fun input_keys :: "Kind \<Rightarrow> SecretInput list \<Rightarrow> string list \<Rightarrow> string list option" where
  "input_keys k [] seen = Some seen"
| "input_keys k (s # ss) seen = (let key = secret_key_x (sin_ReferenceID s) (sin_Purpose s) in
     if wrong_purpose k (sin_Purpose s) \<or> key \<in> set seen then None else input_keys k ss (key # seen))"

definition bound_input :: "ext \<Rightarrow> SecretGrantDescriptor \<Rightarrow> SecretInput \<Rightarrow> bool" where
  "bound_input X g s \<longleftrightarrow> sin_ReferenceID s = sgd_ReferenceID g \<and> sin_Purpose s = sgd_Purpose g \<and> sgd_BindingDigest g = Fingerprint X s"

fun grant_keys :: "ext \<Rightarrow> Kind \<Rightarrow> SecretInput list \<Rightarrow> SecretGrantDescriptor list \<Rightarrow> string list \<Rightarrow> string list \<Rightarrow> string list option" where
  "grant_keys X k inputs [] seen left = Some left"
| "grant_keys X k inputs (g # gs) seen left = (let key = secret_key_x (sgd_ReferenceID g) (sgd_Purpose g) in
     if wrong_purpose k (sgd_Purpose g) \<or> \<not> sgd_Configured g \<or> key \<in> set seen \<or> \<not> list_ex (bound_input X g) inputs then None
     else grant_keys X k inputs gs (key # seen) (removeAll key left))"

text \<open>The loop over the grants for the credential of a remote endpoint keeps what it has found.\<close>

fun remote_bound :: "ext \<Rightarrow> string \<Rightarrow> SecretInput list \<Rightarrow> SecretGrantDescriptor list \<Rightarrow> bool \<Rightarrow> bool" where
  "remote_bound X ref inputs [] found = found"
| "remote_bound X ref inputs (g # gs) found =
     (if sgd_ReferenceID g \<noteq> ref then remote_bound X ref inputs gs found
      else if sgd_Purpose g \<noteq> SecretPurposeMCPCredential \<or> \<not> sgd_Configured g then False
      else let f = found \<or> list_ex (\<lambda>s. sin_ReferenceID s = ref \<and> sin_Purpose s = SecretPurposeMCPCredential \<and> sgd_BindingDigest g = Fingerprint X s) inputs in
        if f then remote_bound X ref inputs gs f else False)"

definition validateSecretInputs :: "ext \<Rightarrow> Mutation \<Rightarrow> ext_error option" where
  "validateSecretInputs X m = (let k = cand_Kind (mut_Candidate m); inputs = mut_SecretInputs m; grants = elems (insp_SecretGrants (mut_Inspection m)) in
     if list_ex (\<lambda>s. SecretInput_Validate X s \<noteq> None) inputs then Some ErrInvalid_x
     else case input_keys k inputs [] of None \<Rightarrow> Some ErrInvalid_x
     | Some keys \<Rightarrow> (case grant_keys X k inputs grants [] keys of None \<Rightarrow> Some ErrInvalid_x
       | Some left \<Rightarrow> if left \<noteq> [] then Some ErrInvalid_x
           else (case exd_Remote (insp_Execution (mut_Inspection m)) of None \<Rightarrow> None
             | Some remote \<Rightarrow> if rme_CredentialReferenceID remote = [] then None
                 else if remote_bound X (rme_CredentialReferenceID remote) inputs grants False then None else Some ErrInvalid_x)))"

section \<open>JSON values\<close>

definition pin_json :: "SourcePin \<Rightarrow> json" where
  "pin_json p = JObj (member (pin_RegistryVersion p \<noteq> []) ''registry_version'' (JStr (pin_RegistryVersion p))
     @ member (pin_RegistrySHA256 p \<noteq> []) ''registry_sha256'' (JStr (pin_RegistrySHA256 p))
     @ member (pin_GitCommit p \<noteq> []) ''git_commit'' (JStr (pin_GitCommit p)) @ member (pin_GitSHA256 p \<noteq> []) ''git_sha256'' (JStr (pin_GitSHA256 p)))"

definition candidate_json :: "Candidate \<Rightarrow> json" where
  "candidate_json c = JObj ([(''id'', JStr (cand_ID c)), (''kind'', JStr (Kind_string (cand_Kind c))), (''source'', JStr (Source_string (cand_Source c))), (''name'', JStr (cand_Name c))]
     @ member (cand_Description c \<noteq> []) ''description'' (JStr (cand_Description c))
     @ [(''pin'', pin_json (cand_Pin c)), (''transport'', JStr (Transport_string (cand_Transport c)))])"

definition execution_json :: "ExecutionDescriptor \<Rightarrow> json" where
  "execution_json e = JObj (
       (case exd_Stdio e of None \<Rightarrow> [] | Some s \<Rightarrow> [(''stdio'', JObj ([(''relative_path'', JStr (ste_RelativePath s)), (''digest'', JStr (ste_Digest s)), (''argv'', strs_json (ste_Argv s))]
          @ member (ste_Runtime s \<noteq> []) ''runtime'' (JStr (ste_Runtime s))))])
     @ (case exd_Remote e of None \<Rightarrow> [] | Some r \<Rightarrow> [(''remote'', JObj [(''url'', JStr (rme_URL r)), (''credential_reference_id'', JStr (rme_CredentialReferenceID r))])])
     @ (case exd_Skill e of None \<Rightarrow> [] | Some s \<Rightarrow> [(''skill'', JObj ([(''relative_path'', JStr (ske_RelativePath s)), (''digest'', JStr (ske_Digest s))]
          @ member (ske_Executable s) ''executable'' (JBool True) @ member (elems (ske_Argv s) \<noteq> []) ''argv'' (strs_json (ske_Argv s))))]))"

definition slice_json :: "('a \<Rightarrow> json) \<Rightarrow> 'a slice \<Rightarrow> json" where
  "slice_json f xs = (case xs of None \<Rightarrow> JNull | Some ys \<Rightarrow> JArr (map f ys))"

definition net_json :: "NetGrant \<Rightarrow> json" where
  "net_json g = JObj [(''scheme'', JStr (nw_Scheme g)), (''host'', JStr (nw_Host g)), (''port'', JInt (uint (nw_Port g))), (''path_prefix'', JStr (nw_PathPrefix g)), (''digest'', JStr (nw_Digest g))]"

definition secret_json :: "SecretGrantDescriptor \<Rightarrow> json" where
  "secret_json g = JObj [(''reference_id'', JStr (sgd_ReferenceID g)), (''purpose'', JStr (SecretPurpose_string (sgd_Purpose g))), (''binding_digest'', JStr (sgd_BindingDigest g)),
     (''configured'', JBool (sgd_Configured g))]"

definition inspection_json :: "Inspection \<Rightarrow> json" where
  "inspection_json i = JObj [(''candidate'', candidate_json (insp_Candidate i)), (''content_digest'', JStr (insp_ContentDigest i)), (''manifest_digest'', JStr (insp_ManifestDigest i)),
     (''execution_digest'', JStr (insp_ExecutionDigest i)), (''network_schema_digest'', JStr (insp_NetworkSchemaDigest i)), (''secret_schema_digest'', JStr (insp_SecretSchemaDigest i)),
     (''execution'', execution_json (insp_Execution i)), (''network_grants'', slice_json net_json (insp_NetworkGrants i)), (''secret_grants'', slice_json secret_json (insp_SecretGrants i))]"

definition node_json :: "NodeArtifactReceipt \<Rightarrow> json" where
  "node_json r = JObj [(''input_digest'', JStr (nar_InputDigest r)), (''artifact_digest'', JStr (nar_ArtifactDigest r)), (''artifact_bytes'', JInt (uint (nar_ArtifactBytes r))),
     (''file_count'', JInt (uint (nar_FileCount r))), (''entry_path'', JStr (nar_EntryPath r)), (''entry_sha256'', JStr (nar_EntrySHA256 r)), (''package_name'', JStr (nar_PackageName r)),
     (''package_version'', JStr (nar_PackageVersion r)), (''lock_sha256'', JStr (nar_LockSHA256 r)), (''node_version'', JStr (nar_NodeVersion r)), (''npm_version'', JStr (nar_NPMVersion r)),
     (''lifecycle_scripts_disabled'', JBool (nar_LifecycleScriptsDisabled r)), (''native_addons_absent'', JBool (nar_NativeAddonsAbsent r))]"

definition ext_tool_json :: "ExtTool \<Rightarrow> json" where
  "ext_tool_json t = JObj ([(''name'', JStr (tool_Name t)), (''description'', JStr (tool_Description t)), (''input_schema_digest'', JStr (tool_InputSchemaDigest t))]
     @ member (elems (tool_InputSchema t) \<noteq> []) ''input_schema'' (JRaw (elems (tool_InputSchema t))))"

definition version_json :: "ext \<Rightarrow> VersionRecord \<Rightarrow> json" where
  "version_json X v = JObj ([(''version_id'', JStr (ver_VersionID v)), (''pin'', pin_json (ver_Pin v)), (''content_digest'', JStr (ver_ContentDigest v)), (''manifest_digest'', JStr (ver_ManifestDigest v)),
       (''execution_digest'', JStr (ver_ExecutionDigest v)), (''network_schema_digest'', JStr (ver_NetworkSchemaDigest v)), (''secret_schema_digest'', JStr (ver_SecretSchemaDigest v)),
       (''execution'', execution_json (ver_Execution v))]
     @ member (ver_Tools v \<noteq> []) ''tools'' (JArr (map ext_tool_json (ver_Tools v)))
     @ member (elems (ver_NetworkGrants v) \<noteq> []) ''network_grants'' (slice_json net_json (ver_NetworkGrants v))
     @ member (elems (ver_SecretGrants v) \<noteq> []) ''secret_grants'' (slice_json secret_json (ver_SecretGrants v))
     @ member (ver_ArtifactPath v \<noteq> []) ''artifact_path'' (JStr (ver_ArtifactPath v)) @ member (ver_ArtifactDigest v \<noteq> []) ''artifact_digest'' (JStr (ver_ArtifactDigest v))
     @ member (ver_ArtifactCleanupToken v \<noteq> []) ''artifact_cleanup_token'' (JStr (ver_ArtifactCleanupToken v))
     @ (case ver_NodeArtifact v of None \<Rightarrow> [] | Some r \<Rightarrow> [(''node_artifact'', node_json r)])
     @ [(''published_at'', JStr (time_text X (ver_PublishedAt v))), (''created_at'', JStr (time_text X (ver_CreatedAt v)))])"

definition installation_json :: "ext \<Rightarrow> Installation \<Rightarrow> json" where
  "installation_json X i = JObj ([(''id'', JStr (inst_ID i)), (''candidate'', candidate_json (inst_Candidate i)), (''kind'', JStr (Kind_string (inst_Kind i))),
       (''source'', JStr (Source_string (inst_Source i))), (''candidate_id'', JStr (inst_CandidateID i)), (''name'', JStr (inst_Name i))]
     @ member (inst_Description i \<noteq> []) ''description'' (JStr (inst_Description i))
     @ [(''transport'', JStr (Transport_string (inst_Transport i))), (''revision'', JInt (inst_Revision i)), (''state'', JStr (InstallState_string (inst_State i))), (''enabled'', JBool (inst_Enabled i))]
     @ member (inst_ActiveVersionID i \<noteq> []) ''active_version_id'' (JStr (inst_ActiveVersionID i)) @ member (inst_ProposedVersionID i \<noteq> []) ''proposed_version_id'' (JStr (inst_ProposedVersionID i))
     @ member (inst_Versions i \<noteq> []) ''versions'' (JArr (map (version_json X) (inst_Versions i)))
     @ member (elems (inst_NetworkGrants i) \<noteq> []) ''network_grants'' (slice_json net_json (inst_NetworkGrants i))
     @ member (elems (inst_SecretGrants i) \<noteq> []) ''secret_grants'' (slice_json secret_json (inst_SecretGrants i))
     @ [(''created_at'', JStr (time_text X (inst_CreatedAt i))), (''updated_at'', JStr (time_text X (inst_UpdatedAt i)))])"

section \<open>Digests\<close>

definition secret_lines :: "ext \<Rightarrow> SecretInput list \<Rightarrow> string list" where
  "secret_lines X ss = sort (map (\<lambda>s. sin_ReferenceID s @ '':'' @ SecretPurpose_string (sin_Purpose s) @ '':'' @ Fingerprint X s) ss)"

definition mutationDigest :: "ext \<Rightarrow> Mutation \<Rightarrow> string" where
  "mutationDigest X m = canonicalDigest X (JObj [(''Candidate'', candidate_json (mut_Candidate m)), (''Inspection'', inspection_json (mut_Inspection m)),
     (''InstallationID'', JStr (mut_InstallationID m)), (''ExpectedRevision'', JInt (mut_ExpectedRevision m)), (''Secrets'', JArr (map JStr (secret_lines X (mut_SecretInputs m)))),
     (''ArtifactPath'', JStr (mut_ArtifactPath m)), (''ArtifactDigest'', JStr (mut_ArtifactDigest m)), (''ArtifactCleanupToken'', JStr (mut_ArtifactCleanupToken m)),
     (''NodeArtifact'', (case mut_NodeArtifact m of None \<Rightarrow> JNull | Some r \<Rightarrow> node_json r))])"

fun decimal :: "nat \<Rightarrow> string" where
  "decimal n = (if n < 10 then [char_of (48 + n)] else decimal (n div 10) @ [char_of (48 + n mod 10)])"

declare decimal.simps [simp del]

definition net_order :: "NetGrant \<Rightarrow> string" where
  "net_order g = nw_Scheme g @ [zero_byte] @ nw_Host g @ decimal (unat (nw_Port g)) @ nw_PathPrefix g"

definition lifecycleDigests :: "ext \<Rightarrow> Mutation \<Rightarrow> string \<Rightarrow> string \<times> string \<times> string" where
  "lifecycleDigests X m op = (let i = mut_Inspection m in
     (canonicalDigest X (JObj [(''Candidate'', candidate_json (mut_Candidate m)), (''Manifest'', JStr (insp_ManifestDigest i)), (''Execution'', execution_json (insp_Execution i)), (''Operation'', JStr op)]),
      canonicalDigest X (JObj [(''Endpoint'', JStr (case exd_Remote (insp_Execution i) of None \<Rightarrow> [] | Some r \<Rightarrow> rme_URL r)),
        (''Grants'', slice_json net_json (map_option (sort_key net_order) (clone_slice (insp_NetworkGrants i))))]),
      canonicalDigest X (JObj [(''Grants'', slice_json secret_json (insp_SecretGrants i)), (''Inputs'', JArr (map JStr (secret_lines X (mut_SecretInputs m))))])))"

section \<open>Lifecycle requests\<close>

record TaskRequest =
  tkr_IdempotencyKey :: string
  tkr_TaskID :: string
  tkr_Goal :: string
  tkr_TargetID :: string
  tkr_ExpectedRevision :: int

record LifecycleRequest =
  lfq_Installation :: Installation
  lfq_Task :: TaskRequest
  lfq_Confirmation :: RequestCommand
  lfq_Operation :: string

definition OperationInstall_x :: string where "OperationInstall_x = ''install''"
definition OperationUpdate_x :: string where "OperationUpdate_x = ''update''"
definition OperationUninstall_x :: string where "OperationUninstall_x = ''uninstall''"

definition requestCommandDigest :: "ext \<Rightarrow> RequestCommand \<Rightarrow> string" where
  "requestCommandDigest X c = canonicalDigest X (JObj [(''Binding'', binding_json X (rq_Binding c)), (''TaskID'', JStr (rq_TaskID c)), (''ExpiresAt'', JStr (time_text X (to_UTC (rq_ExpiresAt c))))])"

definition lifecycleRequestDigest :: "ext \<Rightarrow> LifecycleRequest \<Rightarrow> string" where
  "lifecycleRequestDigest X r = (let t = lfq_Task r; c = lfq_Confirmation r in canonicalDigest X (JObj [(''Installation'', installation_json X (lfq_Installation r)),
     (''Task'', JObj [(''IdempotencyKey'', JStr (tkr_IdempotencyKey t)), (''TaskID'', JStr (tkr_TaskID t)), (''Goal'', JStr (tkr_Goal t)), (''TargetID'', JStr (tkr_TargetID t)),
        (''ExpectedRevision'', JInt (tkr_ExpectedRevision t))]),
     (''Confirmation'', JObj [(''IdempotencyKey'', JStr (rq_IdempotencyKey c)), (''RequestDigest'', JStr (rq_RequestDigest c)), (''Binding'', binding_json X (rq_Binding c)),
        (''TaskID'', JStr (rq_TaskID c)), (''ExpiresAt'', JStr (time_text X (rq_ExpiresAt c))), (''At'', JStr (time_text X (rq_At c)))]),
     (''Operation'', JStr (lfq_Operation r))]))"

definition grant_text :: "NetGrant \<Rightarrow> string" where
  "grant_text g = nw_Scheme g @ ''://'' @ nw_Host g @ '':'' @ decimal (unat (nw_Port g)) @ nw_PathPrefix g @ '':'' @ nw_Digest g"

definition confirm_grant :: "SecretGrantDescriptor \<Rightarrow> SecretGrant" where
  "confirm_grant g = \<lparr>sg_ReferenceID = sgd_ReferenceID g, sg_Purpose = sgd_Purpose g, sg_BindingDigest = sgd_BindingDigest g\<rparr>"

definition lifecycle_binding :: "ext \<Rightarrow> Mutation \<Rightarrow> Installation \<Rightarrow> string \<Rightarrow> Binding" where
  "lifecycle_binding X m i op = (case lifecycleDigests X m op of (parameter, network, secret) \<Rightarrow>
     zero_binding\<lparr>b_OperationDomain := ''extension'', b_TargetID := inst_ID i, b_TargetRevision := inst_Revision i, b_SourceVersion := pin_RegistryVersion (cand_Pin (mut_Candidate m)),
       b_SourceCommit := pin_GitCommit (cand_Pin (mut_Candidate m)), b_ContentDigest := insp_ContentDigest (mut_Inspection m), b_ParameterDigest := parameter, b_NetworkDigest := network,
       b_SecretGrantDigest := secret, b_NetworkGrants := clone_slice (map_option (map grant_text) (insp_NetworkGrants (mut_Inspection m))),
       b_SecretGrants := clone_slice (map_option (map confirm_grant) (insp_SecretGrants (mut_Inspection m)))\<rparr>)"

text \<open>With a fresh identifier of the task and the wall clock; the confirmation can be given for an hour.\<close>

definition lifecycleFor :: "ext \<Rightarrow> string \<Rightarrow> gotime \<Rightarrow> Mutation \<Rightarrow> Installation \<Rightarrow> string \<Rightarrow> LifecycleRequest" where
  "lifecycleFor X taskID wall m i op =
    (let cmd = \<lparr>rq_IdempotencyKey = mut_IdempotencyKey m, rq_RequestDigest = [], rq_Binding = lifecycle_binding X m i op, rq_TaskID = taskID, rq_ExpiresAt = time_Add (to_UTC wall) Hour, rq_At = time_zero\<rparr> in
     \<lparr>lfq_Installation = cloneInstallation i,
      lfq_Task = \<lparr>tkr_IdempotencyKey = mut_IdempotencyKey m, tkr_TaskID = taskID, tkr_Goal = ''extension '' @ op, tkr_TargetID = inst_ID i, tkr_ExpectedRevision = inst_Revision i\<rparr>,
      lfq_Confirmation = cmd\<lparr>rq_RequestDigest := requestCommandDigest X cmd\<rparr>, lfq_Operation = op\<rparr>)"

text \<open>The version that an inspection proposes, with a fresh identifier.\<close>

definition versionFromInspection :: "string \<Rightarrow> gotime \<Rightarrow> Inspection \<Rightarrow> VersionRecord" where
  "versionFromInspection k now i = \<lparr>ver_VersionID = k, ver_Pin = cand_Pin (insp_Candidate i), ver_ContentDigest = insp_ContentDigest i, ver_ManifestDigest = insp_ManifestDigest i,
     ver_ExecutionDigest = insp_ExecutionDigest i, ver_NetworkSchemaDigest = insp_NetworkSchemaDigest i, ver_SecretSchemaDigest = insp_SecretSchemaDigest i,
     ver_Execution = cloneExecution (insp_Execution i), ver_Tools = [], ver_NetworkGrants = clone_slice (insp_NetworkGrants i),
     ver_SecretGrants = clone_slice (map_option (map (\<lambda>g. g\<lparr>sgd_Configured := True\<rparr>)) (insp_SecretGrants i)), ver_ArtifactPath = [], ver_ArtifactDigest = [], ver_ArtifactCleanupToken = [],
     ver_NodeArtifact = None, ver_PublishedAt = time_zero, ver_CreatedAt = now\<rparr>"

definition proposed_version :: "string \<Rightarrow> gotime \<Rightarrow> Mutation \<Rightarrow> VersionRecord" where
  "proposed_version k now m = (versionFromInspection k now (mut_Inspection m))\<lparr>ver_ArtifactPath := mut_ArtifactPath m, ver_ArtifactDigest := mut_ArtifactDigest m,
     ver_ArtifactCleanupToken := mut_ArtifactCleanupToken m, ver_NodeArtifact := mut_NodeArtifact m\<rparr>"

text \<open>An uninstallation is bound to the facts of the active version; without one the mutation stays as it is.\<close>

definition mutationForUninstall :: "Mutation \<Rightarrow> Installation \<Rightarrow> Mutation" where
  "mutationForUninstall m i = (if inst_ActiveVersionID i = [] then m
     else case find (\<lambda>v. ver_VersionID v = inst_ActiveVersionID i) (inst_Versions i) of None \<Rightarrow> m
     | Some v \<Rightarrow> let c = \<lparr>cand_ID = inst_CandidateID i, cand_Kind = inst_Kind i, cand_Source = inst_Source i, cand_Name = inst_Name i, cand_Description = inst_Description i, cand_Pin = ver_Pin v,
           cand_Transport = inst_Transport i\<rparr> in
         m\<lparr>mut_Candidate := c, mut_Inspection := \<lparr>insp_Candidate = c, insp_ContentDigest = ver_ContentDigest v, insp_ManifestDigest = ver_ManifestDigest v, insp_ExecutionDigest = ver_ExecutionDigest v,
             insp_NetworkSchemaDigest = ver_NetworkSchemaDigest v, insp_SecretSchemaDigest = ver_SecretSchemaDigest v, insp_Execution = cloneExecution (ver_Execution v),
             insp_NetworkGrants = clone_slice (ver_NetworkGrants v), insp_SecretGrants = clone_slice (ver_SecretGrants v)\<rparr>,
           mut_ArtifactPath := ver_ArtifactPath v, mut_ArtifactDigest := ver_ArtifactDigest v, mut_ArtifactCleanupToken := ver_ArtifactCleanupToken v, mut_NodeArtifact := ver_NodeArtifact v\<rparr>)"

end
