(* ===== verification/Extension_Repository.thy ===== *)
theory Extension_Repository
  imports Extension_Requests Go_Base64
begin

text \<open>
  The repository of \<^verbatim>\<open>src/internal/coreextension\<close> in memory: \<^verbatim>\<open>repository.go\<close>, \<^verbatim>\<open>repository_mutations.go\<close>, \<^verbatim>\<open>repository_lifecycle.go\<close> and \<^verbatim>\<open>repository_catalog.go\<close>. Every method holds the mutex, so it is one step;
  the fresh identifiers, the readings of the clock and the failpoint of the tests are the record \<open>ext_env\<close>. The tasks and their fences are written by the scheduler (\<open>SetTaskFence_x\<close>, \<open>SetTerminalTaskFence\<close>).
\<close>

section \<open>State\<close>

record ExtTask =
  xt_ID :: string
  xt_State :: string
  xt_Revision :: int
  xt_Attempt :: u32
  xt_LeaseEpoch :: u64
  xt_TerminalAttempt :: u32
  xt_TerminalLeaseEpoch :: u64
  xt_TerminalRevision :: int
  xt_FailureCode :: string

definition zero_ext_task :: ExtTask where
  "zero_ext_task = \<lparr>xt_ID = [], xt_State = [], xt_Revision = 0, xt_Attempt = 0, xt_LeaseEpoch = 0, xt_TerminalAttempt = 0, xt_TerminalLeaseEpoch = 0, xt_TerminalRevision = 0, xt_FailureCode = []\<rparr>"

record LifecycleRecord =
  lfr_InstallationID :: string
  lfr_Operation :: string
  lfr_ConfirmationID :: string
  lfr_TaskID :: string
  lfr_Binding :: Binding
  lfr_AcquiredAttempt :: u32
  lfr_AcquiredLeaseEpoch :: u64
  lfr_AcquiredTaskRevision :: int
  lfr_TerminalAttempt :: u32
  lfr_TerminalLeaseEpoch :: u64
  lfr_TerminalTaskRevision :: int
  lfr_State :: string
  lfr_RequestDigest :: string
  lfr_CompletionDigest :: string
  lfr_ExpectedRevision :: int

record MutationResult =
  mres_Installation :: Installation
  mres_ConfirmationID :: string
  mres_TaskID :: string

definition zero_installation :: Installation where
  "zero_installation = \<lparr>inst_ID = [], inst_Candidate = zero_candidate, inst_Kind = KindOther [], inst_Source = SourceOther [], inst_CandidateID = [], inst_Name = [], inst_Description = [],
     inst_Transport = TransportOther [], inst_Revision = 0, inst_State = InstallStateOther [], inst_Enabled = False, inst_ActiveVersionID = [], inst_ProposedVersionID = [], inst_Versions = [],
     inst_NetworkGrants = None, inst_SecretGrants = None, inst_CreatedAt = time_zero, inst_UpdatedAt = time_zero\<rparr>"

definition only_confirmation :: "string \<Rightarrow> MutationResult" where
  "only_confirmation k = \<lparr>mres_Installation = zero_installation, mres_ConfirmationID = k, mres_TaskID = []\<rparr>"

record replayMutation =
  rpm_digest :: string
  rpm_requestDigest :: string
  rpm_result :: MutationResult

record lifecycleReplay =
  lrp_digest :: string
  lrp_result :: MutationResult
  lrp_confirmation :: Confirmation
  lrp_task :: ExtTask
  lrp_err :: "ext_error option"

record install_replay =
  irp_digest :: string
  irp_result :: Installation

record ExtRepository =
  rx_items :: "(string \<times> Installation) list"
  rx_order :: "string list"
  rx_replay :: "(string \<times> replayMutation) list"
  rx_lifecycleReplay :: "(string \<times> lifecycleReplay) list"
  rx_completionReplay :: "(string \<times> install_replay) list"
  rx_toggleReplay :: "(string \<times> install_replay) list"
  rx_lifecycles :: "(string \<times> LifecycleRecord) list"
  rx_tasks :: "(string \<times> ExtTask) list"
  rx_confirmations :: "(string \<times> Confirmation) list"
  rx_reservations :: "(string \<times> Reservation) list"

definition NewMemoryRepository_x :: ExtRepository where
  "NewMemoryRepository_x = \<lparr>rx_items = [], rx_order = [], rx_replay = [], rx_lifecycleReplay = [], rx_completionReplay = [], rx_toggleReplay = [], rx_lifecycles = [], rx_tasks = [],
     rx_confirmations = [], rx_reservations = []\<rparr>"

record ext_env =
  ev_InstallationID :: string
  ev_VersionID :: string
  ev_TaskID :: string
  ev_ConfirmationID :: string
  ev_now :: "nat \<Rightarrow> gotime"
  ev_wall :: gotime
  ev_failpoint :: "ext_error option"

type_synonym 'a xr = "ExtRepository \<times> (ext_error + 'a)"

section \<open>Requests\<close>

definition lifecycleRecordFrom :: "ext \<Rightarrow> LifecycleRequest \<Rightarrow> MutationResult \<Rightarrow> LifecycleRecord" where
  "lifecycleRecordFrom X q res = \<lparr>lfr_InstallationID = inst_ID (lfq_Installation q), lfr_Operation = lfq_Operation q, lfr_ConfirmationID = mres_ConfirmationID res, lfr_TaskID = mres_TaskID res,
     lfr_Binding = rq_Binding (lfq_Confirmation q), lfr_AcquiredAttempt = 0, lfr_AcquiredLeaseEpoch = 0, lfr_AcquiredTaskRevision = 0, lfr_TerminalAttempt = 0, lfr_TerminalLeaseEpoch = 0,
     lfr_TerminalTaskRevision = 0, lfr_State = ''pending'', lfr_RequestDigest = lifecycleRequestDigest X q, lfr_CompletionDigest = [], lfr_ExpectedRevision = inst_Revision (lfq_Installation q)\<rparr>"

definition request_ok :: "ext \<Rightarrow> xlib \<Rightarrow> LifecycleRequest \<Rightarrow> bool" where
  "request_ok X U q = (let i = lfq_Installation q; t = lfq_Task q; c = lfq_Confirmation q in
     \<not> (Installation_Validate X U i \<noteq> None \<or> \<not> validUUID_x X (tkr_IdempotencyKey t) \<or> \<not> validUUID_x X (tkr_TaskID t) \<or> tkr_TargetID t \<noteq> inst_ID i \<or> tkr_ExpectedRevision t \<noteq> inst_Revision i
        \<or> rq_TaskID c \<noteq> tkr_TaskID t \<or> b_TargetID (rq_Binding c) \<noteq> inst_ID i \<or> b_TargetRevision (rq_Binding c) \<noteq> inst_Revision i \<or> \<not> Binding_Equal X (rq_Binding c) (rq_Binding c)
        \<or> \<not> Digest_Valid X (rq_RequestDigest c)))"

text \<open>A confirmation of the same target that is pending, confirmed, or consumed with a reservation that was not given back.\<close>

definition holds_install :: "ExtRepository \<Rightarrow> Binding \<Rightarrow> string \<Rightarrow> Confirmation \<Rightarrow> bool" where
  "holds_install r b k c \<longleftrightarrow> b_OperationDomain (c_Binding c) = b_OperationDomain b \<and> b_TargetID (c_Binding c) = b_TargetID b
     \<and> (c_State c = StatePending \<or> c_State c = StateConfirmed \<or> c_State c = StateConsumed)
     \<and> (case lookup (rx_reservations r) (c_ConfirmationID c) of None \<Rightarrow> True | Some v \<Rightarrow> rv_Active v)"

definition install_confirmation :: "string \<Rightarrow> gotime \<Rightarrow> RequestCommand \<Rightarrow> Confirmation" where
  "install_confirmation k now c = zero_confirmation\<lparr>c_ConfirmationID := k, c_Binding := rq_Binding c, c_TaskID := rq_TaskID c, c_State := StatePending, c_Revision := 1, c_CreatedAt := now,
     c_UpdatedAt := now, c_ExpiresAt := rq_ExpiresAt c\<rparr>"

definition requestLifecycleLocked :: "ext \<Rightarrow> xlib \<Rightarrow> string \<Rightarrow> gotime \<Rightarrow> ext_error option \<Rightarrow> ExtRepository \<Rightarrow> LifecycleRequest \<Rightarrow> MutationResult xr" where
  "requestLifecycleLocked X U confirmationID clock failpoint r q =
    (if lfq_Operation q \<noteq> OperationInstall_x \<and> lfq_Operation q \<noteq> OperationUpdate_x \<and> lfq_Operation q \<noteq> OperationUninstall_x then (r, Inl ErrInvalid_x)
     else if \<not> request_ok X U q then (r, Inl ErrInvalid_x)
     else let now = to_UTC clock; i = lfq_Installation q; t = lfq_Task q; c = lfq_Confirmation q in
       if IsZero (rq_ExpiresAt c) \<or> \<not> InUTC (rq_ExpiresAt c) \<or> \<not> After (rq_ExpiresAt c) now then (r, Inl ErrInvalid_x)
       else let d = lifecycleRequestDigest X q in
       (case lookup (rx_lifecycleReplay r) (tkr_IdempotencyKey t) of
          Some prior \<Rightarrow> (r, if lrp_digest prior \<noteq> d then Inl ErrIdempotencyConflict_x else Inr (lrp_result prior))
        | None \<Rightarrow> (case failpoint of Some e \<Rightarrow> (r, Inl e)
          | None \<Rightarrow> if any_entry (holds_install r (rq_Binding c)) (rx_confirmations r) then (r, Inl ErrConflict_x)
            else let task = zero_ext_task\<lparr>xt_ID := tkr_TaskID t, xt_State := ''waiting_user'', xt_Revision := 1\<rparr>;
                     conf = install_confirmation confirmationID now (c\<lparr>rq_TaskID := tkr_TaskID t\<rparr>);
                     result = \<lparr>mres_Installation = cloneInstallation i, mres_ConfirmationID = confirmationID, mres_TaskID = tkr_TaskID t\<rparr> in
              (r\<lparr>rx_tasks := put (tkr_TaskID t) task (rx_tasks r), rx_confirmations := put confirmationID conf (rx_confirmations r),
                 rx_order := (if lookup (rx_items r) (inst_ID i) = None then rx_order r @ [inst_ID i] else rx_order r),
                 rx_items := put (inst_ID i) (cloneInstallation i) (rx_items r), rx_lifecycles := put (inst_ID i) (lifecycleRecordFrom X q result) (rx_lifecycles r),
                 rx_lifecycleReplay := put (tkr_IdempotencyKey t) \<lparr>lrp_digest = d, lrp_result = result, lrp_confirmation = zero_confirmation, lrp_task = zero_ext_task, lrp_err = None\<rparr>
                   (rx_lifecycleReplay r)\<rparr>, Inr result))))"

definition replayLocked_x :: "ExtRepository \<Rightarrow> string \<Rightarrow> string \<Rightarrow> (ext_error + MutationResult) option" where
  "replayLocked_x r key d = (case lookup (rx_replay r) key of None \<Rightarrow> None
     | Some x \<Rightarrow> if rpm_digest x \<noteq> d \<and> rpm_requestDigest x \<noteq> d then Some (Inl ErrIdempotencyConflict_x) else Some (Inr (rpm_result x)))"

definition new_installation :: "ext_env \<Rightarrow> gotime \<Rightarrow> Mutation \<Rightarrow> Installation" where
  "new_installation E now m = (let c = mut_Candidate m; v = proposed_version (ev_VersionID E) now m in
     \<lparr>inst_ID = ev_InstallationID E, inst_Candidate = c, inst_Kind = cand_Kind c, inst_Source = cand_Source c, inst_CandidateID = cand_ID c, inst_Name = cand_Name c,
      inst_Description = cand_Description c, inst_Transport = cand_Transport c, inst_Revision = 1, inst_State = StateInstalling, inst_Enabled = False, inst_ActiveVersionID = [],
      inst_ProposedVersionID = ver_VersionID v, inst_Versions = [v], inst_NetworkGrants = None, inst_SecretGrants = None, inst_CreatedAt = now, inst_UpdatedAt = now\<rparr>)"

definition mutation_ok :: "ext \<Rightarrow> xlib \<Rightarrow> Mutation \<Rightarrow> bool" where
  "mutation_ok X U m \<longleftrightarrow> \<not> (Candidate_Validate X (mut_Candidate m) \<noteq> None \<or> Inspection_Validate X U (mut_Inspection m) \<noteq> None
     \<or> \<not> equalCandidate (mut_Candidate m) (insp_Candidate (mut_Inspection m)) \<or> ValidateArtifactReceipt X m \<noteq> None)"

text \<open>The mutex is given back between the first look at the replays and the rest, but nothing but the look depends on it: the model is the second critical section, after the same look.\<close>

definition CreateMutation :: "ext \<Rightarrow> xlib \<Rightarrow> ext_env \<Rightarrow> ExtRepository \<Rightarrow> Mutation \<Rightarrow> MutationResult xr" where
  "CreateMutation X U E r m = (case replayLocked_x r (mut_IdempotencyKey m) (mutationDigest X m) of Some x \<Rightarrow> (r, x)
     | None \<Rightarrow> if \<not> validUUID_x X (mut_IdempotencyKey m) \<or> \<not> mutation_ok X U m then (r, Inl ErrInvalid_x)
       else (case validateSecretInputs X m of Some e \<Rightarrow> (r, Inl e)
       | None \<Rightarrow> let d = mutationDigest X m; now = to_UTC (ev_now E 0); i = new_installation E now m in
         (case requestLifecycleLocked X U (ev_ConfirmationID E) (ev_now E 1) (ev_failpoint E) r (lifecycleFor X (ev_TaskID E) (ev_wall E) m i OperationInstall_x) of
            (r1, Inl e) \<Rightarrow> (r1, Inl e)
          | (r1, Inr res0) \<Rightarrow> let res = res0\<lparr>mres_Installation := cloneInstallation i\<rparr> in
              (r1\<lparr>rx_replay := put (mut_IdempotencyKey m) \<lparr>rpm_digest = d, rpm_requestDigest = d, rpm_result = res\<rparr> (rx_replay r1)\<rparr>, Inr res))))"

definition operationForState :: "InstallState \<Rightarrow> string" where
  "operationForState s = (if s = StateUpdating then OperationUpdate_x else OperationUninstall_x)"

definition same_identity :: "Mutation \<Rightarrow> Installation \<Rightarrow> bool" where
  "same_identity m i \<longleftrightarrow> (let c = mut_Candidate m in
     \<not> (cand_Kind c \<noteq> inst_Kind i \<or> cand_Source c \<noteq> inst_Source i \<or> cand_ID c \<noteq> inst_CandidateID i \<or> cand_Name c \<noteq> inst_Name i \<or> cand_Description c \<noteq> inst_Description i
        \<or> cand_Transport c \<noteq> inst_Transport i))"

definition staged_installation :: "ext_env \<Rightarrow> Mutation \<Rightarrow> Installation \<Rightarrow> InstallState \<Rightarrow> Installation" where
  "staged_installation E m i st =
    (let s = cloneInstallation i; v = proposed_version (ev_VersionID E) (to_UTC (ev_now E 0)) m;
         s1 = (if st = StateUpdating then s\<lparr>inst_Versions := inst_Versions s @ [v], inst_ProposedVersionID := ver_VersionID v, inst_Candidate := mut_Candidate m\<rparr> else s) in
     s1\<lparr>inst_Revision := wrap64 (inst_Revision i + 1), inst_State := st, inst_UpdatedAt := to_UTC (ev_now E 1)\<rparr>)"

definition UpdateMutation :: "ext \<Rightarrow> xlib \<Rightarrow> ext_env \<Rightarrow> ExtRepository \<Rightarrow> Mutation \<Rightarrow> InstallState \<Rightarrow> MutationResult xr" where
  "UpdateMutation X U E r m0 st =
    (if \<not> validUUID_x X (mut_IdempotencyKey m0) \<or> \<not> validUUID_x X (mut_InstallationID m0) \<or> mut_ExpectedRevision m0 < 1 then (r, Inl ErrInvalid_x)
     else if st \<noteq> StateUpdating \<and> st \<noteq> StateUninstalling then (r, Inl ErrInvalid_x)
     else let rawDigest = mutationDigest X m0 @ InstallState_string st in
     (case replayLocked_x r (mut_IdempotencyKey m0) rawDigest of Some x \<Rightarrow> (r, x)
      | None \<Rightarrow> if st = StateUninstalling \<and> ValidateUninstallRequest X m0 \<noteq> None then (r, Inl ErrInvalid_x)
        else if st = StateUpdating \<and> \<not> mutation_ok X U m0 then (r, Inl ErrInvalid_x)
        else if st = StateUpdating \<and> validateSecretInputs X m0 \<noteq> None then (r, Inl ErrInvalid_x)
        else (case lookup (rx_items r) (mut_InstallationID m0) of None \<Rightarrow> (r, Inl ErrNotFound_x)
        | Some i \<Rightarrow> if inst_Revision i \<noteq> mut_ExpectedRevision m0 then (r, Inl ErrRevisionConflict_x)
            else if st = StateUpdating \<and> \<not> same_identity m0 i then (r, Inl ErrInvalid_x)
            else let m = (if st = StateUpdating then m0 else mutationForUninstall m0 i); d = mutationDigest X m @ InstallState_string st in
            (case replayLocked_x r (mut_IdempotencyKey m) d of Some x \<Rightarrow> (r, x)
             | None \<Rightarrow> let staged = staged_installation E m i st in
               (case requestLifecycleLocked X U (ev_ConfirmationID E) (ev_now E 2) (ev_failpoint E) r (lifecycleFor X (ev_TaskID E) (ev_wall E) m staged (operationForState st)) of
                  (r1, Inl e) \<Rightarrow> (r1, Inl e)
                | (r1, Inr res0) \<Rightarrow> let res = res0\<lparr>mres_Installation := cloneInstallation staged\<rparr> in
                    (r1\<lparr>rx_replay := put (mut_IdempotencyKey m) \<lparr>rpm_digest = d, rpm_requestDigest = rawDigest, rpm_result = res\<rparr> (rx_replay r1)\<rparr>, Inr res))))))"

definition RemoveMutation :: "ext \<Rightarrow> xlib \<Rightarrow> ext_env \<Rightarrow> ExtRepository \<Rightarrow> Mutation \<Rightarrow> MutationResult xr" where
  "RemoveMutation X U E r m = UpdateMutation X U E r m StateUninstalling"

section \<open>Confirmation and consumption\<close>

text \<open>Keys of the three kinds of replay share one map.\<close>

definition replayed_lifecycle :: "ExtRepository \<Rightarrow> string \<Rightarrow> string \<Rightarrow> (ext_error + Confirmation) option" where
  "replayed_lifecycle r key d = (case lookup (rx_lifecycleReplay r) key of None \<Rightarrow> None
     | Some prior \<Rightarrow> Some (if lrp_digest prior \<noteq> d then Inl ErrIdempotencyConflict_x else case lrp_err prior of Some e \<Rightarrow> Inl e | None \<Rightarrow> Inr (lrp_confirmation prior)))"

definition put_lifecycle_replay :: "string \<Rightarrow> string \<Rightarrow> MutationResult \<Rightarrow> Confirmation \<Rightarrow> ExtTask \<Rightarrow> ext_error option \<Rightarrow> ExtRepository \<Rightarrow> ExtRepository" where
  "put_lifecycle_replay key d res c t e r = r\<lparr>rx_lifecycleReplay := put key \<lparr>lrp_digest = d, lrp_result = res, lrp_confirmation = c, lrp_task = t, lrp_err = e\<rparr> (rx_lifecycleReplay r)\<rparr>"

definition put_confirmation_x :: "Confirmation \<Rightarrow> ExtRepository \<Rightarrow> ExtRepository" where
  "put_confirmation_x c r = r\<lparr>rx_confirmations := put (c_ConfirmationID c) c (rx_confirmations r)\<rparr>"

definition put_ext_task :: "ExtTask \<Rightarrow> ExtRepository \<Rightarrow> ExtRepository" where
  "put_ext_task t r = r\<lparr>rx_tasks := put (xt_ID t) t (rx_tasks r)\<rparr>"

definition moved_to :: "State \<Rightarrow> gotime \<Rightarrow> Confirmation \<Rightarrow> Confirmation" where
  "moved_to st now c = c\<lparr>c_State := st, c_Revision := wrap64 (c_Revision c + 1), c_UpdatedAt := now\<rparr>"

definition confirm_digest :: "ext \<Rightarrow> ConfirmCommand \<Rightarrow> string" where
  "confirm_digest X c = canonicalDigest X (JObj [(''ID'', JStr (cf_ConfirmationID c)), (''Rev'', JInt (cf_ExpectedRevision c)), (''Binding'', binding_json X (cf_Binding c))])"

definition ConfirmLifecycle :: "ext \<Rightarrow> (nat \<Rightarrow> gotime) \<Rightarrow> ExtRepository \<Rightarrow> ConfirmCommand \<Rightarrow> Confirmation xr" where
  "ConfirmLifecycle X clk r c =
    (if \<not> validUUID_x X (cf_ConfirmationID c) \<or> \<not> validUUID_x X (cf_IdempotencyKey c) \<or> cf_ExpectedRevision c < 1 then (r, Inl ErrInvalid_x)
     else let key = ''confirm:'' @ cf_IdempotencyKey c; d = confirm_digest X c in
     (case replayed_lifecycle r key d of Some x \<Rightarrow> (r, x)
      | None \<Rightarrow> (case lookup (rx_confirmations r) (cf_ConfirmationID c) of None \<Rightarrow> (r, Inl ErrNotFound_x)
        | Some value \<Rightarrow> if c_Revision value \<noteq> cf_ExpectedRevision c \<or> c_State value \<noteq> StatePending then (r, Inl ErrConflict_x)
            else if \<not> After (c_ExpiresAt value) (to_UTC (clk 0)) then (r, Inl ErrConflict_x)
            else if \<not> Binding_Equal X (c_Binding value) (cf_Binding c) then (r, Inl ErrConflict_x)
            else (case lookup (rx_tasks r) (c_TaskID value) of None \<Rightarrow> (r, Inl ErrConflict_x)
              | Some task \<Rightarrow> if xt_State task \<noteq> ''waiting_user'' then (r, Inl ErrConflict_x)
                  else let v = moved_to StateConfirmed (to_UTC (clk 1)) value; t = task\<lparr>xt_State := ''queued'', xt_Revision := wrap64 (xt_Revision task + 1)\<rparr> in
                    (put_lifecycle_replay key d (only_confirmation (c_ConfirmationID v)) v zero_ext_task None (put_ext_task t (put_confirmation_x v r)), Inr v)))))"

definition consume_digest :: "ext \<Rightarrow> ConsumeCommand \<Rightarrow> string" where
  "consume_digest X c = canonicalDigest X (JObj [(''ID'', JStr (cs_ConfirmationID c)), (''Task'', JStr (cs_TaskID c)), (''Attempt'', JInt (uint (cs_Attempt c))), (''Lease'', JInt (uint (cs_LeaseEpoch c))),
     (''Rev'', JInt (cs_ExpectedRevision c)), (''TaskRev'', JInt (cs_ExpectedTaskRevision c)), (''Binding'', binding_json X (cs_Binding c))])"

definition cloneConfirmationValue :: "Confirmation \<Rightarrow> Confirmation" where
  "cloneConfirmationValue v = v\<lparr>c_Binding := (c_Binding v)\<lparr>b_NetworkGrants := clone_slice (b_NetworkGrants (c_Binding v)), b_SecretGrants := clone_slice (b_SecretGrants (c_Binding v))\<rparr>\<rparr>"

text \<open>A confirmation that is found expired is written as expired, and its task, if it exists, as failed.\<close>

definition expire_lifecycle :: "string \<Rightarrow> string \<Rightarrow> gotime \<Rightarrow> Confirmation \<Rightarrow> ExtRepository \<Rightarrow> ExtRepository" where
  "expire_lifecycle key d now value r = (let v = moved_to StateExpired now value; r1 = put_confirmation_x v r in
     case lookup (rx_tasks r1) (c_TaskID v) of
       Some task \<Rightarrow> let t = task\<lparr>xt_State := ''failed'', xt_FailureCode := ReasonExpired, xt_Revision := wrap64 (xt_Revision task + 1)\<rparr> in
         put_lifecycle_replay key d (only_confirmation []) (cloneConfirmationValue v) t (Some ErrExpired_x) (put_ext_task t r1)
     | None \<Rightarrow> put_lifecycle_replay key d (only_confirmation []) (cloneConfirmationValue v) zero_ext_task (Some ErrExpired_x) r1)"

definition ConsumeLifecycle :: "ext \<Rightarrow> (nat \<Rightarrow> gotime) \<Rightarrow> ExtRepository \<Rightarrow> ConsumeCommand \<Rightarrow> Confirmation xr" where
  "ConsumeLifecycle X clk r c =
    (if \<not> validUUID_x X (cs_ConfirmationID c) \<or> \<not> validUUID_x X (cs_TaskID c) \<or> \<not> validUUID_x X (cs_IdempotencyKey c) \<or> cs_Attempt c = 0 \<or> cs_LeaseEpoch c = 0 \<or> cs_ExpectedRevision c < 1
        \<or> cs_ExpectedTaskRevision c < 1 then (r, Inl ErrInvalid_x)
     else let key = ''consume:'' @ cs_IdempotencyKey c; d = consume_digest X c in
     (case replayed_lifecycle r key d of Some x \<Rightarrow> (r, x)
      | None \<Rightarrow> (case lookup (rx_confirmations r) (cs_ConfirmationID c) of None \<Rightarrow> (r, Inl ErrNotFound_x)
        | Some value \<Rightarrow> if c_Revision value \<noteq> cs_ExpectedRevision c \<or> c_TaskID value \<noteq> cs_TaskID c \<or> c_State value \<noteq> StateConfirmed \<or> \<not> Binding_Equal X (c_Binding value) (cs_Binding c)
              then (r, Inl ErrConflict_x)
            else if \<not> After (c_ExpiresAt value) (to_UTC (clk 0)) then (expire_lifecycle key d (to_UTC (clk 1)) value r, Inl ErrExpired_x)
            else (case lookup (rx_tasks r) (cs_TaskID c) of None \<Rightarrow> (r, Inl ErrConflict_x)
              | Some task \<Rightarrow> if xt_State task \<noteq> ''running'' \<or> xt_Attempt task \<noteq> cs_Attempt c \<or> xt_LeaseEpoch task \<noteq> cs_LeaseEpoch c \<or> xt_Revision task \<noteq> cs_ExpectedTaskRevision c
                    then (r, Inl ErrConflict_x)
                  else let v = moved_to StateConsumed (to_UTC (clk 1)) value;
                           rv = \<lparr>rv_ConfirmationID = c_ConfirmationID v, rv_TaskID = cs_TaskID c, rv_AcquiredAttempt = cs_Attempt c, rv_AcquiredLeaseEpoch = cs_LeaseEpoch c,
                             rv_TaskRevision = xt_Revision task, rv_Active = True\<rparr>; r1 = put_confirmation_x v r in
                    (put_lifecycle_replay key d (only_confirmation (c_ConfirmationID v)) v zero_ext_task None
                       (r1\<lparr>rx_reservations := put (c_ConfirmationID v) rv (rx_reservations r1)\<rparr>), Inr v)))))"

section \<open>Completion\<close>

record Completion =
  cpl_InstallationID :: string
  cpl_Operation :: string
  cpl_ConfirmationID :: string
  cpl_TaskID :: string
  cpl_Attempt :: u32
  cpl_LeaseEpoch :: u64
  cpl_AcquiredTaskRevision :: int
  cpl_TerminalAttempt :: u32
  cpl_TerminalLeaseEpoch :: u64
  cpl_TerminalTaskRevision :: int
  cpl_ExpectedRevision :: int
  cpl_OutcomeDigest :: string
  cpl_Success :: bool
  cpl_FailureCode :: string
  cpl_FailureSummary :: string

definition completionDigest :: "ext \<Rightarrow> Completion \<Rightarrow> string" where
  "completionDigest X c = canonicalDigest X (JObj [(''InstallationID'', JStr (cpl_InstallationID c)), (''Operation'', JStr (cpl_Operation c)), (''ConfirmationID'', JStr (cpl_ConfirmationID c)),
     (''TaskID'', JStr (cpl_TaskID c)), (''Attempt'', JInt (uint (cpl_Attempt c))), (''LeaseEpoch'', JInt (uint (cpl_LeaseEpoch c))), (''AcquiredTaskRevision'', JInt (cpl_AcquiredTaskRevision c)),
     (''TerminalAttempt'', JInt (uint (cpl_TerminalAttempt c))), (''TerminalLeaseEpoch'', JInt (uint (cpl_TerminalLeaseEpoch c))), (''TerminalTaskRevision'', JInt (cpl_TerminalTaskRevision c)),
     (''ExpectedRevision'', JInt (cpl_ExpectedRevision c)), (''OutcomeDigest'', JStr (cpl_OutcomeDigest c)), (''Success'', JBool (cpl_Success c)), (''FailureCode'', JStr (cpl_FailureCode c)),
     (''FailureSummary'', JStr (cpl_FailureSummary c))])"

definition LifecycleFailureDetails :: "ext_error option \<Rightarrow> string \<times> string" where
  "LifecycleFailureDetails e = (if e = Some ErrInstallationLimit_x then (''extension_installation_limit'', ''Extension installation capacity is exhausted'')
     else if e = Some ErrNodeStorageQuota_x then (''extension_node_storage_quota'', ''Managed Node extension storage quota is exhausted'')
     else (''extension_failed'', ''Extension lifecycle failed''))"

definition ValidLifecycleFailureDetails :: "string \<Rightarrow> string \<Rightarrow> bool" where
  "ValidLifecycleFailureDetails code summary \<longleftrightarrow> (code, summary) = LifecycleFailureDetails None \<or> (code, summary) = LifecycleFailureDetails (Some ErrInstallationLimit_x)
     \<or> (code, summary) = LifecycleFailureDetails (Some ErrNodeStorageQuota_x)"

definition failure_filled :: "Completion \<Rightarrow> ext_error + Completion" where
  "failure_filled c = (if cpl_Success c then (if cpl_FailureCode c \<noteq> [] \<or> cpl_FailureSummary c \<noteq> [] then Inl ErrInvalid_x else Inr c)
     else if cpl_FailureCode c = [] \<and> cpl_FailureSummary c = []
       then Inr (c\<lparr>cpl_FailureCode := fst (LifecycleFailureDetails None), cpl_FailureSummary := snd (LifecycleFailureDetails None)\<rparr>)
     else if \<not> ValidLifecycleFailureDetails (cpl_FailureCode c) (cpl_FailureSummary c) then Inl ErrInvalid_x else Inr c)"

definition completion_ok :: "ext \<Rightarrow> Completion \<Rightarrow> bool" where
  "completion_ok X c \<longleftrightarrow> \<not> (\<not> validUUID_x X (cpl_InstallationID c) \<or> \<not> validUUID_x X (cpl_ConfirmationID c) \<or> \<not> validUUID_x X (cpl_TaskID c) \<or> cpl_ExpectedRevision c < 1
     \<or> \<not> validDigest (cpl_OutcomeDigest c) \<or> cpl_Attempt c = 0 \<or> cpl_LeaseEpoch c = 0 \<or> cpl_AcquiredTaskRevision c < 1 \<or> cpl_TerminalAttempt c = 0 \<or> cpl_TerminalLeaseEpoch c = 0
     \<or> cpl_TerminalTaskRevision c < 1)"

text \<open>The fences: the record of the request, the installation in the state of the operation, the consumed confirmation with its reservation, and the running task with the revision of its end.\<close>

definition completion_fenced :: "ExtRepository \<Rightarrow> Completion \<Rightarrow> ext_error + (LifecycleRecord \<times> Installation \<times> Reservation \<times> ExtTask)" where
  "completion_fenced r c = (case lookup (rx_lifecycles r) (cpl_InstallationID c) of None \<Rightarrow> Inl ErrNotFound_x
     | Some rec \<Rightarrow> if lfr_Operation rec \<noteq> cpl_Operation c \<or> lfr_ConfirmationID rec \<noteq> cpl_ConfirmationID c \<or> lfr_TaskID rec \<noteq> cpl_TaskID c \<or> lfr_ExpectedRevision rec \<noteq> cpl_ExpectedRevision c then Inl ErrConflict_x
         else (case lookup (rx_items r) (cpl_InstallationID c) of None \<Rightarrow> Inl ErrNotFound_x
         | Some i \<Rightarrow> if inst_Revision i \<noteq> cpl_ExpectedRevision c then Inl ErrRevisionConflict_x
             else if cpl_Operation c \<noteq> OperationInstall_x \<and> cpl_Operation c \<noteq> OperationUpdate_x \<and> cpl_Operation c \<noteq> OperationUninstall_x then Inl ErrInvalid_x
             else if cpl_Operation c = OperationInstall_x \<and> inst_State i \<noteq> StateInstalling \<or> cpl_Operation c = OperationUpdate_x \<and> inst_State i \<noteq> StateUpdating
                 \<or> cpl_Operation c = OperationUninstall_x \<and> inst_State i \<noteq> StateUninstalling then Inl ErrConflict_x
             else (case lookup (rx_confirmations r) (cpl_ConfirmationID c) of None \<Rightarrow> Inl ErrConflict_x
             | Some conf \<Rightarrow> if c_TaskID conf \<noteq> cpl_TaskID c \<or> c_State conf \<noteq> StateConsumed then Inl ErrConflict_x
                 else (case lookup (rx_reservations r) (cpl_ConfirmationID c) of None \<Rightarrow> Inl ErrConflict_x
                 | Some rv \<Rightarrow> if \<not> rv_Active rv \<or> rv_TaskID rv \<noteq> cpl_TaskID c \<or> rv_AcquiredAttempt rv \<noteq> cpl_Attempt c \<or> rv_AcquiredLeaseEpoch rv \<noteq> cpl_LeaseEpoch c then Inl ErrConflict_x
                     else (case lookup (rx_tasks r) (cpl_TaskID c) of None \<Rightarrow> Inl ErrConflict_x
                     | Some t \<Rightarrow> if xt_State t \<noteq> ''running'' \<or> xt_Attempt t \<noteq> cpl_Attempt c \<or> xt_LeaseEpoch t \<noteq> cpl_LeaseEpoch c
                           \<or> (0 < cpl_AcquiredTaskRevision c \<and> xt_Revision t \<noteq> cpl_AcquiredTaskRevision c) then Inl ErrConflict_x
                         else if xt_TerminalAttempt t = 0 \<or> xt_TerminalLeaseEpoch t = 0 \<or> xt_TerminalRevision t = 0 \<or> xt_TerminalAttempt t \<noteq> cpl_TerminalAttempt c
                           \<or> xt_TerminalLeaseEpoch t \<noteq> cpl_TerminalLeaseEpoch c then Inl ErrConflict_x
                         else if xt_TerminalRevision t \<noteq> cpl_TerminalTaskRevision c then Inl ErrConflict_x
                         else Inr (rec, i, rv, t))))))"

text \<open>What becomes of the installation when the operation went well.\<close>

definition completed_installation :: "string \<Rightarrow> Installation \<Rightarrow> Installation" where
  "completed_installation op i = (if op = OperationUninstall_x
     then i\<lparr>inst_ActiveVersionID := [], inst_ProposedVersionID := [], inst_NetworkGrants := None, inst_SecretGrants := None, inst_State := StateRemoved, inst_Enabled := False\<rparr>
     else if inst_ProposedVersionID i \<noteq> [] then
       (let a = i\<lparr>inst_ActiveVersionID := inst_ProposedVersionID i, inst_ProposedVersionID := []\<rparr>;
            g = (case find (\<lambda>v. ver_VersionID v = inst_ProposedVersionID i) (inst_Versions i) of None \<Rightarrow> a
              | Some v \<Rightarrow> a\<lparr>inst_SecretGrants := clone_slice (ver_SecretGrants v), inst_NetworkGrants := clone_slice (ver_NetworkGrants v)\<rparr>);
            s = g\<lparr>inst_State := StateInstalled\<rparr> in if op = OperationInstall_x then s\<lparr>inst_Enabled := True\<rparr> else s)
     else i)"

definition failed_installation :: "string \<Rightarrow> Installation \<Rightarrow> Installation" where
  "failed_installation op i = i\<lparr>inst_State := (if inst_ActiveVersionID i \<noteq> [] \<and> op \<noteq> OperationInstall_x then StateInstalled else StateFailed), inst_ProposedVersionID := []\<rparr>"

record ArtifactReceipt =
  rcp_RelativePath :: string
  rcp_ContentDigest :: string
  rcp_ArtifactDigest :: string
  rcp_CleanupToken :: string
  rcp_NodeArtifact :: "NodeArtifactReceipt option"

text \<open>The removals of the artifacts of a failed proposal, in order, up to the first that fails.\<close>

definition cleanup_receipt :: "xlib \<Rightarrow> string \<Rightarrow> VersionRecord \<Rightarrow> ArtifactReceipt" where
  "cleanup_receipt U k v = \<lparr>rcp_RelativePath = ver_ArtifactPath v, rcp_ContentDigest = ver_ContentDigest v, rcp_ArtifactDigest = ver_ArtifactDigest v,
     rcp_CleanupToken = NewSHA1_URL U (''dirextalk-agent/core-extension-memory-cleanup/v1'' @ [zero_byte] @ k @ [zero_byte] @ ver_VersionID v @ [zero_byte] @ ver_ArtifactDigest v),
     rcp_NodeArtifact = None\<rparr>"

fun remove_artifacts :: "(ArtifactReceipt \<Rightarrow> ext_error option) \<Rightarrow> ArtifactReceipt list \<Rightarrow> ArtifactReceipt list \<times> ext_error option" where
  "remove_artifacts remove [] = ([], None)"
| "remove_artifacts remove (a # rs) = (case remove a of Some e \<Rightarrow> ([a], Some e) | None \<Rightarrow> (case remove_artifacts remove rs of (done, e) \<Rightarrow> (a # done, e)))"

definition proposal_removals :: "xlib \<Rightarrow> (ArtifactReceipt \<Rightarrow> ext_error option) option \<Rightarrow> Completion \<Rightarrow> Installation \<Rightarrow> ArtifactReceipt list \<times> ext_error option" where
  "proposal_removals U store c i = (case store of None \<Rightarrow> ([], None)
     | Some remove \<Rightarrow> if cpl_Success c \<or> inst_ProposedVersionID i = [] then ([], None)
         else remove_artifacts remove (map (cleanup_receipt U (cpl_InstallationID c))
           (filter (\<lambda>v. ver_VersionID v = inst_ProposedVersionID i \<and> ver_ArtifactPath v \<noteq> []) (inst_Versions i))))"

definition completion_key :: "Completion \<Rightarrow> string" where
  "completion_key c = cpl_InstallationID c @ ''/'' @ cpl_ConfirmationID c @ ''/'' @ cpl_TaskID c @ ''/'' @ cpl_Operation c"

definition completion_write :: "ext \<Rightarrow> gotime \<Rightarrow> Completion \<Rightarrow> LifecycleRecord \<Rightarrow> Installation \<Rightarrow> Reservation \<Rightarrow> ExtTask \<Rightarrow> ExtRepository \<Rightarrow> ExtRepository \<times> Installation" where
  "completion_write X now c rec i rv t r =
    (let w0 = (if cpl_Success c then completed_installation (cpl_Operation c) i else failed_installation (cpl_Operation c) i);
         w = w0\<lparr>inst_Revision := wrap64 (inst_Revision w0 + 1), inst_UpdatedAt := now\<rparr>; outcome = (if cpl_Success c then ''succeeded'' else ''failed'');
         t1 = t\<lparr>xt_State := outcome, xt_FailureCode := (if cpl_Success c then xt_FailureCode t else cpl_FailureCode c),
           xt_Revision := (if 0 < cpl_TerminalTaskRevision c then cpl_TerminalTaskRevision c else wrap64 (xt_Revision t + 1))\<rparr>;
         rec1 = rec\<lparr>lfr_State := outcome, lfr_AcquiredAttempt := cpl_Attempt c, lfr_AcquiredLeaseEpoch := cpl_LeaseEpoch c, lfr_AcquiredTaskRevision := cpl_AcquiredTaskRevision c,
           lfr_TerminalAttempt := cpl_TerminalAttempt c, lfr_TerminalLeaseEpoch := cpl_TerminalLeaseEpoch c, lfr_TerminalTaskRevision := cpl_TerminalTaskRevision c,
           lfr_CompletionDigest := cpl_OutcomeDigest c\<rparr> in
     (r\<lparr>rx_items := put (cpl_InstallationID c) w (rx_items r), rx_tasks := put (xt_ID t1) t1 (rx_tasks r), rx_reservations := put (rv_ConfirmationID rv) (rv\<lparr>rv_Active := False\<rparr>) (rx_reservations r),
        rx_lifecycles := put (cpl_InstallationID c) rec1 (rx_lifecycles r),
        rx_completionReplay := put (completion_key c) \<lparr>irp_digest = completionDigest X c, irp_result = cloneInstallation w\<rparr> (rx_completionReplay r)\<rparr>, cloneInstallation w))"

text \<open>The result has the receipts whose removal was asked of the store.\<close>

definition CompleteLifecycle :: "ext \<Rightarrow> xlib \<Rightarrow> gotime \<Rightarrow> (ArtifactReceipt \<Rightarrow> ext_error option) option \<Rightarrow> ExtRepository \<Rightarrow> Completion \<Rightarrow> ArtifactReceipt list \<times> Installation xr" where
  "CompleteLifecycle X U clock store r c0 = (case failure_filled c0 of Inl e \<Rightarrow> ([], r, Inl e)
     | Inr c \<Rightarrow> if \<not> completion_ok X c then ([], r, Inl ErrInvalid_x)
         else (case lookup (rx_completionReplay r) (completion_key c) of
           Some prior \<Rightarrow> ([], r, if irp_digest prior \<noteq> completionDigest X c then Inl ErrConflict_x else Inr (cloneInstallation (irp_result prior)))
         | None \<Rightarrow> (case completion_fenced r c of Inl e \<Rightarrow> ([], r, Inl e)
           | Inr (rec, i, rv, t) \<Rightarrow> (case proposal_removals U store c i of
               (removed, Some e) \<Rightarrow> (removed, r, Inl e)
             | (removed, None) \<Rightarrow> (case completion_write X (to_UTC clock) c rec i rv t r of (r1, out) \<Rightarrow> (removed, r1, Inr out))))))"

section \<open>The catalog\<close>

record ToggleCommand =
  tgl_IdempotencyKey :: string
  tgl_InstallationID :: string
  tgl_ExpectedRevision :: int
  tgl_Enabled :: bool

definition SetEnabled :: "ext \<Rightarrow> gotime \<Rightarrow> ExtRepository \<Rightarrow> ToggleCommand \<Rightarrow> Installation xr" where
  "SetEnabled X clock r c =
    (if \<not> validUUID_x X (tgl_IdempotencyKey c) \<or> \<not> validUUID_x X (tgl_InstallationID c) \<or> tgl_ExpectedRevision c < 1 then (r, Inl ErrInvalid_x)
     else let d = canonicalDigest X (JObj [(''ID'', JStr (tgl_InstallationID c)), (''Rev'', JInt (tgl_ExpectedRevision c)), (''Enabled'', JBool (tgl_Enabled c))]);
              key = (if tgl_Enabled c then ''enable:'' else ''disable:'') @ tgl_IdempotencyKey c in
     (case lookup (rx_toggleReplay r) key of Some prior \<Rightarrow> (r, if irp_digest prior \<noteq> d then Inl ErrIdempotencyConflict_x else Inr (cloneInstallation (irp_result prior)))
      | None \<Rightarrow> (case lookup (rx_items r) (tgl_InstallationID c) of None \<Rightarrow> (r, Inl ErrNotFound_x)
        | Some i \<Rightarrow> if inst_Revision i \<noteq> tgl_ExpectedRevision c then (r, Inl ErrRevisionConflict_x)
            else if inst_State i \<noteq> StateInstalled \<or> inst_ActiveVersionID i = [] then (r, Inl ErrConflict_x)
            else let w = (if inst_Enabled i \<noteq> tgl_Enabled c then i\<lparr>inst_Enabled := tgl_Enabled c, inst_Revision := wrap64 (inst_Revision i + 1), inst_UpdatedAt := to_UTC clock\<rparr> else i);
                     r1 = (if inst_Enabled i \<noteq> tgl_Enabled c then r\<lparr>rx_items := put (inst_ID w) w (rx_items r)\<rparr> else r) in
              (r1\<lparr>rx_toggleReplay := put key \<lparr>irp_digest = d, irp_result = cloneInstallation w\<rparr> (rx_toggleReplay r1)\<rparr>, Inr (cloneInstallation w)))))"

definition Get_x :: "ExtRepository \<Rightarrow> string \<Rightarrow> ext_error + Installation" where
  "Get_x r k = (case lookup (rx_items r) k of None \<Rightarrow> Inl ErrNotFound_x | Some v \<Rightarrow> Inr (cloneInstallation v))"

definition GetTask_x :: "ExtRepository \<Rightarrow> string \<Rightarrow> ext_error + ExtTask" where
  "GetTask_x r k = (case lookup (rx_tasks r) k of None \<Rightarrow> Inl ErrNotFound_x | Some t \<Rightarrow> Inr t)"

definition GetConfirmation_x :: "ExtRepository \<Rightarrow> string \<Rightarrow> ext_error + Confirmation" where
  "GetConfirmation_x r k = (case lookup (rx_confirmations r) k of None \<Rightarrow> Inl ErrNotFound_x | Some c \<Rightarrow> Inr c)"

definition GetLifecycleRecord :: "ExtRepository \<Rightarrow> string \<Rightarrow> ext_error + LifecycleRecord" where
  "GetLifecycleRecord r k = (case lookup (rx_lifecycles r) k of None \<Rightarrow> Inl ErrNotFound_x
     | Some v \<Rightarrow> Inr (v\<lparr>lfr_Binding := (lfr_Binding v)\<lparr>b_NetworkGrants := clone_slice (b_NetworkGrants (lfr_Binding v)), b_SecretGrants := clone_slice (b_SecretGrants (lfr_Binding v))\<rparr>\<rparr>))"

definition SetTaskFence_x :: "TaskFence \<Rightarrow> ExtRepository \<Rightarrow> ExtRepository" where
  "SetTaskFence_x f r = r\<lparr>rx_tasks := put (tf_TaskID f) (zero_ext_task\<lparr>xt_ID := tf_TaskID f, xt_State := tf_State f, xt_Revision := tf_Revision f, xt_Attempt := tf_Attempt f,
     xt_LeaseEpoch := tf_LeaseEpoch f\<rparr>) (rx_tasks r)\<rparr>"

definition SetTerminalTaskFence :: "string \<Rightarrow> u32 \<Rightarrow> u64 \<Rightarrow> int \<Rightarrow> ExtRepository \<Rightarrow> ExtRepository" where
  "SetTerminalTaskFence k attempt lease revision r = (let t = (case lookup (rx_tasks r) k of None \<Rightarrow> zero_ext_task | Some v \<Rightarrow> v) in
     r\<lparr>rx_tasks := put k (t\<lparr>xt_TerminalAttempt := attempt, xt_TerminalLeaseEpoch := lease, xt_TerminalRevision := revision\<rparr>) (rx_tasks r)\<rparr>)"

record InstallQuery =
  iq_Kind :: Kind
  iq_Source :: Source
  iq_State :: InstallState
  iq_PageSize :: int
  iq_PageToken :: string

record InstallationPage =
  ip_Installations :: "Installation list"
  ip_NextPageToken :: string

text \<open>An empty kind, source or state selects everything.\<close>

definition install_selected :: "InstallQuery \<Rightarrow> Installation \<Rightarrow> bool" where
  "install_selected q v \<longleftrightarrow> \<not> (Kind_string (iq_Kind q) \<noteq> [] \<and> inst_Kind v \<noteq> iq_Kind q \<or> Source_string (iq_Source q) \<noteq> [] \<and> inst_Source v \<noteq> iq_Source q
     \<or> InstallState_string (iq_State q) \<noteq> [] \<and> inst_State v \<noteq> iq_State q)"

definition install_at :: "ExtRepository \<Rightarrow> string \<Rightarrow> Installation" where
  "install_at r k = (case lookup (rx_items r) k of None \<Rightarrow> zero_installation | Some v \<Rightarrow> v)"

text \<open>A page starts after the identifier that its token encodes.\<close>

definition List_x :: "ExtRepository \<Rightarrow> InstallQuery \<Rightarrow> ext_error + InstallationPage" where
  "List_x r q =
    (if iq_PageSize q < 0 \<or> 100 < iq_PageSize q then Inl ErrInvalid_x
     else let n = (if iq_PageSize q = 0 then 50 else nat (iq_PageSize q));
              vals = sort_key inst_ID (map cloneInstallation (filter (install_selected q) (map (install_at r) (rx_order r)))) in
     rbind (if iq_PageToken q = [] then Inr 0
            else case DecodeString (iq_PageToken q) of None \<Rightarrow> Inl ErrInvalid_x | Some raw \<Rightarrow> Inr (length (takeWhile (\<lambda>v. inst_ID v \<le> raw) vals)))
       (\<lambda>start. let stop = min (start + n) (length vals) in
         Inr \<lparr>ip_Installations = take (stop - start) (drop start vals),
              ip_NextPageToken = (if stop < length vals then EncodeToString (inst_ID (vals ! (stop - 1))) else [])\<rparr>))"

end
