(* ===== verification/Extension_Service.thy ===== *)
theory Extension_Service
  imports Extension_Repository
begin

text \<open>
  \<^verbatim>\<open>src/internal/coreextension/service.go\<close> and \<^verbatim>\<open>repository_registry.go\<close> over the repository in memory. The adapters of the sources, the artifact store and the secret store are functions; \<open>data_store.go\<close> has two of
  them, and the fingerprint store is modelled. What a request asks of the artifact store is a list of calls.
\<close>

section \<open>Adapters and stores\<close>

record SecretReceipt =
  scr_ReferenceID :: string
  scr_Purpose :: SecretPurpose
  scr_Fingerprint :: string

record SearchQuery =
  seq_Kind :: Kind
  seq_Source :: Source
  seq_Text :: string
  seq_PageSize :: int
  seq_PageToken :: string

record CandidatePage =
  cpg_Candidates :: "Candidate list"
  cpg_NextPageToken :: string

record InspectRequest =
  iqr_Kind :: Kind
  iqr_Source :: Source
  iqr_ID :: string
  iqr_Pin :: SourcePin

record SourceAdapter =
  sad_Search :: "SearchQuery \<Rightarrow> ext_error + CandidatePage"
  sad_Inspect :: "InspectRequest \<Rightarrow> ext_error + Inspection"
  sad_Fetch :: "Candidate \<Rightarrow> ext_error + FetchArtifact"

datatype store_call_x = Materialized FetchArtifact | Removed ArtifactReceipt

text \<open>The registry is a map from sources; without one, without an artifact store or without a secret store the service refuses.\<close>

record ext_service =
  esv_adapters :: "(Source \<times> SourceAdapter) list option"
  esv_Materialize :: "(FetchArtifact \<Rightarrow> ext_error + ArtifactReceipt) option"
  esv_Bind :: "(SecretInput list \<Rightarrow> ext_error + SecretReceipt list) option"
  esv_coordinator :: bool
  esv_runtime :: bool

definition Register_x :: "Source \<Rightarrow> SourceAdapter option \<Rightarrow> (Source \<times> SourceAdapter) list \<Rightarrow> (Source \<times> SourceAdapter) list \<times> ext_error option" where
  "Register_x source a reg = (if \<not> validKindSource KindMCP source \<and> source \<noteq> SourceSkillsSh \<and> source \<noteq> SourceBuiltin then (reg, Some ErrInvalid_x)
     else case a of None \<Rightarrow> (reg, Some ErrInvalid_x) | Some x \<Rightarrow> (put source x reg, None))"

definition Adapter :: "(Source \<times> SourceAdapter) list \<Rightarrow> Source \<Rightarrow> ext_error + SourceAdapter" where
  "Adapter reg source = (case lookup reg source of None \<Rightarrow> Inl ErrNotFound_x | Some a \<Rightarrow> Inr a)"

definition Fingerprint_Bind :: "ext \<Rightarrow> SecretInput list \<Rightarrow> ext_error + SecretReceipt list" where
  "Fingerprint_Bind X inputs = rmap (\<lambda>v. case SecretInput_Validate X v of Some e \<Rightarrow> Inl e
     | None \<Rightarrow> Inr \<lparr>scr_ReferenceID = sin_ReferenceID v, scr_Purpose = sin_Purpose v, scr_Fingerprint = Fingerprint X v\<rparr>) inputs"

section \<open>Inspections\<close>

definition canonicalInspection :: "Inspection \<Rightarrow> Inspection" where
  "canonicalInspection i = i\<lparr>insp_NetworkGrants := fresh_slice (insp_NetworkGrants i), insp_SecretGrants := fresh_slice (insp_SecretGrants i),
     insp_Execution := (insp_Execution i)\<lparr>exd_Stdio := map_option (\<lambda>s. s\<lparr>ste_Argv := fresh_slice (ste_Argv s)\<rparr>) (exd_Stdio (insp_Execution i)),
       exd_Skill := map_option (\<lambda>s. s\<lparr>ske_Argv := fresh_slice (ske_Argv s)\<rparr>) (exd_Skill (insp_Execution i))\<rparr>\<rparr>"

definition Search_x :: "ext_service \<Rightarrow> SearchQuery \<Rightarrow> ext_error + CandidatePage" where
  "Search_x s q = (case esv_adapters s of None \<Rightarrow> Inl ErrNotFound_x | Some reg \<Rightarrow> rbind (Adapter reg (seq_Source q)) (\<lambda>a. sad_Search a q))"

definition Inspect_x :: "ext_service \<Rightarrow> InspectRequest \<Rightarrow> ext_error + Inspection" where
  "Inspect_x s q = (case esv_adapters s of None \<Rightarrow> Inl ErrNotFound_x
     | Some reg \<Rightarrow> rbind (Adapter reg (iqr_Source q)) (\<lambda>a. rbind (sad_Inspect a q) (\<lambda>i. Inr (canonicalInspection i))))"

definition same_secret_grant :: "SecretGrantDescriptor \<Rightarrow> SecretGrantDescriptor \<Rightarrow> bool" where
  "same_secret_grant a b \<longleftrightarrow> sgd_ReferenceID a = sgd_ReferenceID b \<and> sgd_Purpose a = sgd_Purpose b \<and> sgd_BindingDigest a = sgd_BindingDigest b"

definition equalSecretGrantDescriptors :: "SecretGrantDescriptor list \<Rightarrow> SecretGrantDescriptor list \<Rightarrow> bool" where
  "equalSecretGrantDescriptors a b = list_all2 same_secret_grant a b"

definition equalInspection :: "Inspection \<Rightarrow> Inspection \<Rightarrow> bool" where
  "equalInspection a b \<longleftrightarrow> equalCandidate (insp_Candidate a) (insp_Candidate b) \<and> insp_ContentDigest a = insp_ContentDigest b \<and> insp_ManifestDigest a = insp_ManifestDigest b
     \<and> insp_ExecutionDigest a = insp_ExecutionDigest b \<and> insp_NetworkSchemaDigest a = insp_NetworkSchemaDigest b \<and> insp_SecretSchemaDigest a = insp_SecretSchemaDigest b
     \<and> insp_Execution a = insp_Execution b \<and> insp_NetworkGrants a = insp_NetworkGrants b \<and> equalSecretGrantDescriptors (elems (insp_SecretGrants a)) (elems (insp_SecretGrants b))"

section \<open>Secrets\<close>

definition bind_key :: "string \<Rightarrow> SecretPurpose \<Rightarrow> string" where
  "bind_key ref p = ref @ [zero_byte] @ SecretPurpose_string p"

fun by_key :: "ext \<Rightarrow> SecretInput list \<Rightarrow> (string \<times> SecretInput) list \<Rightarrow> ext_error + (string \<times> SecretInput) list" where
  "by_key X [] acc = Inr acc"
| "by_key X (s # ss) acc = (if SecretInput_Validate X s \<noteq> None then Inl ErrInvalid_x
     else let key = bind_key (sin_ReferenceID s) (sin_Purpose s) in
       if lookup acc key \<noteq> None then Inl ErrConflict_x else by_key X ss (put key s acc))"

fun bind_grants :: "ext \<Rightarrow> (string \<times> SecretInput) list \<Rightarrow> SecretGrantDescriptor list \<Rightarrow> string list \<Rightarrow> ext_error + (SecretGrantDescriptor list \<times> string list)" where
  "bind_grants X keyed [] seen = Inr ([], seen)"
| "bind_grants X keyed (g # gs) seen = (let key = bind_key (sgd_ReferenceID g) (sgd_Purpose g) in
     case lookup keyed key of None \<Rightarrow> Inl ErrConflict_x
     | Some s \<Rightarrow> if key \<in> set seen then Inl ErrConflict_x
         else rbind (bind_grants X keyed gs (key # seen)) (\<lambda>(out, sn). Inr (g\<lparr>sgd_BindingDigest := Fingerprint X s, sgd_Configured := True\<rparr> # out, sn)))"

definition bindSecretGrants :: "ext \<Rightarrow> SecretGrantDescriptor list \<Rightarrow> SecretInput list \<Rightarrow> ext_error + SecretGrantDescriptor list" where
  "bindSecretGrants X grants inputs = rbind (by_key X inputs []) (\<lambda>keyed. rbind (bind_grants X keyed grants []) (\<lambda>(out, seen).
     if length seen \<noteq> length keyed then Inl ErrConflict_x else Inr out))"

definition receipts_match :: "ext \<Rightarrow> SecretInput list \<Rightarrow> SecretReceipt list \<Rightarrow> bool" where
  "receipts_match X inputs receipts = list_all (\<lambda>s. list_ex (\<lambda>g. scr_ReferenceID g = sin_ReferenceID s \<and> scr_Purpose g = sin_Purpose s \<and> scr_Fingerprint g = Fingerprint X s) receipts) inputs"

section \<open>Requests\<close>

text \<open>What a mutation becomes before the repository sees it, with the receipt of its artifact, and the calls on the artifact store.\<close>

definition identity_checked :: "ext \<Rightarrow> ExtRepository \<Rightarrow> Mutation \<Rightarrow> ext_error option" where
  "identity_checked X r m = (if mut_InstallationID m = [] \<and> mut_ExpectedRevision m = 0 then None
     else if \<not> validUUID_x X (mut_InstallationID m) \<or> mut_ExpectedRevision m < 1 then Some ErrInvalid_x
     else (case Get_x r (mut_InstallationID m) of Inl e \<Rightarrow> Some e
       | Inr i \<Rightarrow> if inst_Revision i \<noteq> mut_ExpectedRevision m then Some ErrRevisionConflict_x else if \<not> same_identity m i then Some ErrInvalid_x else None))"

definition fetched :: "ext \<Rightarrow> xlib \<Rightarrow> SourceAdapter \<Rightarrow> Mutation \<Rightarrow> ext_error + FetchArtifact" where
  "fetched X U a m = rbind (sad_Fetch a (mut_Candidate m)) (\<lambda>f0. let f = f0\<lparr>fa_Inspection := canonicalInspection (fa_Inspection f0)\<rparr> in
     if FetchArtifact_Validate X U f \<noteq> None then Inl ErrConflict_x
     else if \<not> equalCandidate (fa_Candidate f) (mut_Candidate m) \<or> \<not> equalInspection (fa_Inspection f) (mut_Inspection m) \<or> fa_ContentDigest f \<noteq> insp_ContentDigest (mut_Inspection m)
       then Inl ErrConflict_x else Inr f)"

definition received_x :: "FetchArtifact \<Rightarrow> SecretGrantDescriptor list \<Rightarrow> ArtifactReceipt \<Rightarrow> Mutation \<Rightarrow> Mutation" where
  "received_x f bound receipt m = m\<lparr>mut_ArtifactPath := rcp_RelativePath receipt, mut_ArtifactDigest := rcp_ArtifactDigest receipt, mut_ArtifactCleanupToken := rcp_CleanupToken receipt,
     mut_NodeArtifact := rcp_NodeArtifact receipt, mut_Candidate := fa_Candidate f, mut_Inspection := (fa_Inspection f)\<lparr>insp_SecretGrants := Some bound\<rparr>\<rparr>"

text \<open>Once the artifact is materialized, every refusal removes it.\<close>

definition after_materialize :: "ext \<Rightarrow> (SecretInput list \<Rightarrow> ext_error + SecretReceipt list) \<Rightarrow> FetchArtifact \<Rightarrow> SecretGrantDescriptor list \<Rightarrow> ArtifactReceipt \<Rightarrow> Mutation \<Rightarrow> ext_error + Mutation" where
  "after_materialize X bind f bound receipt m =
    (if \<not> validDigest (rcp_ContentDigest receipt) \<or> rcp_ContentDigest receipt \<noteq> fa_ContentDigest f \<or> \<not> validDigest (rcp_ArtifactDigest receipt) \<or> \<not> validUUID_x X (rcp_CleanupToken receipt)
        \<or> rcp_RelativePath receipt = [] then Inl ErrInvalid_x
     else let m1 = received_x f bound receipt m in
       if ValidateArtifactReceipt X m1 \<noteq> None then Inl ErrInvalid_x
       else rbind (bind (mut_SecretInputs m1)) (\<lambda>receipts. if length receipts \<noteq> length (mut_SecretInputs m1) \<or> \<not> receipts_match X (mut_SecretInputs m1) receipts then Inl ErrConflict_x else Inr m1))"

definition prepareMutation :: "ext \<Rightarrow> xlib \<Rightarrow> ext_service \<Rightarrow> ExtRepository \<Rightarrow> Mutation \<Rightarrow> store_call_x list \<times> (ext_error + (Mutation \<times> ArtifactReceipt))" where
  "prepareMutation X U s r m0 = (case (esv_adapters s, esv_Materialize s, esv_Bind s) of
       (Some reg, Some materialize, Some bind) \<Rightarrow>
         (let m = m0\<lparr>mut_Inspection := canonicalInspection (mut_Inspection m0)\<rparr> in
          if \<not> validUUID_x X (mut_IdempotencyKey m) \<or> Candidate_Validate X (mut_Candidate m) \<noteq> None \<or> Inspection_Validate X U (mut_Inspection m) \<noteq> None
              \<or> \<not> equalCandidate (mut_Candidate m) (insp_Candidate (mut_Inspection m)) then ([], Inl ErrInvalid_x)
          else (case bindSecretGrants X (elems (insp_SecretGrants (mut_Inspection m))) (mut_SecretInputs m) of Inl e \<Rightarrow> ([], Inl e)
          | Inr bound \<Rightarrow> (case identity_checked X r m of Some e \<Rightarrow> ([], Inl e)
            | None \<Rightarrow> (case rbind (Adapter reg (cand_Source (mut_Candidate m))) (\<lambda>a. fetched X U a m) of Inl e \<Rightarrow> ([], Inl e)
              | Inr f \<Rightarrow> (case materialize f of Inl e \<Rightarrow> ([Materialized f], Inl e)
                | Inr receipt \<Rightarrow> (case after_materialize X bind f bound receipt m of Inl e \<Rightarrow> ([Materialized f, Removed receipt], Inl e)
                  | Inr m1 \<Rightarrow> ([Materialized f], Inr (m1, receipt))))))))
     | _ \<Rightarrow> ([], Inl ErrInvalid_x))"

definition with_removal :: "store_call_x list \<Rightarrow> ArtifactReceipt \<Rightarrow> MutationResult xr \<Rightarrow> store_call_x list \<times> MutationResult xr" where
  "with_removal calls receipt res = (case snd res of Inl _ \<Rightarrow> (if rcp_RelativePath receipt \<noteq> [] then calls @ [Removed receipt] else calls, res) | Inr _ \<Rightarrow> (calls, res))"

definition RequestInstall :: "ext \<Rightarrow> xlib \<Rightarrow> ext_env \<Rightarrow> ext_service \<Rightarrow> ExtRepository \<Rightarrow> Mutation \<Rightarrow> store_call_x list \<times> MutationResult xr" where
  "RequestInstall X U E s r m = (case prepareMutation X U s r m of (calls, Inl e) \<Rightarrow> (calls, r, Inl e)
     | (calls, Inr (m1, receipt)) \<Rightarrow> with_removal calls receipt (CreateMutation X U E r m1))"

definition RequestUpdate :: "ext \<Rightarrow> xlib \<Rightarrow> ext_env \<Rightarrow> ext_service \<Rightarrow> ExtRepository \<Rightarrow> Mutation \<Rightarrow> store_call_x list \<times> MutationResult xr" where
  "RequestUpdate X U E s r m = (case prepareMutation X U s r m of (calls, Inl e) \<Rightarrow> (calls, r, Inl e)
     | (calls, Inr (m1, receipt)) \<Rightarrow> with_removal calls receipt (UpdateMutation X U E r m1 StateUpdating))"

definition RequestUninstall :: "ext \<Rightarrow> xlib \<Rightarrow> ext_env \<Rightarrow> ExtRepository \<Rightarrow> Mutation \<Rightarrow> MutationResult xr" where
  "RequestUninstall X U E r m = RemoveMutation X U E r m"

definition toggle :: "ext \<Rightarrow> gotime \<Rightarrow> ExtRepository \<Rightarrow> ToggleCommand \<Rightarrow> bool \<Rightarrow> Installation xr" where
  "toggle X clock r c on = (let d = c\<lparr>tgl_Enabled := on\<rparr> in
     if \<not> validUUID_x X (tgl_IdempotencyKey d) \<or> \<not> validUUID_x X (tgl_InstallationID d) \<or> tgl_ExpectedRevision d < 1 then (r, Inl ErrInvalid_x) else SetEnabled X clock r d)"

section \<open>Use\<close>

text \<open>The version whose tools are asked of the runtime; without a runtime nothing is found.\<close>

definition ListTools :: "ext_service \<Rightarrow> ExtRepository \<Rightarrow> string \<Rightarrow> int \<Rightarrow> ext_error + (Installation \<times> VersionRecord)" where
  "ListTools s r k revision = rbind (Get_x r k) (\<lambda>i.
     if 0 < revision \<and> inst_Revision i \<noteq> revision then Inl ErrRevisionConflict_x
     else if inst_State i \<noteq> StateInstalled \<or> \<not> inst_Enabled i \<or> inst_ActiveVersionID i = [] then Inl ErrConflict_x
     else case find (\<lambda>v. ver_VersionID v = inst_ActiveVersionID i) (inst_Versions i) of
       Some v \<Rightarrow> if esv_runtime s then Inr (i, v) else Inl ErrNotFound_x | None \<Rightarrow> Inl ErrNotFound_x)"

record ExecuteRequest =
  exr_OwnerID :: string
  exr_AccountGeneration :: u64
  exr_InstallationID :: string
  exr_ExpectedRevision :: int
  exr_ToolName :: string
  exr_Input :: string
  exr_IdempotencyKey :: string

text \<open>A request that passes goes to the coordinator, which creates a task that waits for its confirmation.\<close>

definition Execute_x :: "ext \<Rightarrow> ext_service \<Rightarrow> ExecuteRequest \<Rightarrow> ext_error + ExecuteRequest" where
  "Execute_x X s q = (if TrimSpace (exr_OwnerID q) = [] \<or> TrimSpace (exr_OwnerID q) \<noteq> exr_OwnerID q \<or> exr_AccountGeneration q = 0 \<or> \<not> validUUID_x X (exr_IdempotencyKey q)
       \<or> \<not> validUUID_x X (exr_InstallationID q) \<or> exr_ExpectedRevision q < 1 then Inl ErrInvalid_x
     else if \<not> esv_coordinator s then Inl ErrNotFound_x else Inr q)"

end
