(* ===== verification/Extension_Lifecycle.thy ===== *)
theory Extension_Lifecycle
  imports Extension_Service
begin

text \<open>
  The runs of the repository of extensions: the methods that write it as commands, and what a command can do to the installations, the lifecycle records, the confirmations and the reservations as a step relation.
  The replays and the tasks decide which step is taken; the invariants do not speak of them.
\<close>

section \<open>Commands\<close>

text \<open>\<open>XChange\<close> is an update or an uninstallation; the last two are writes of the scheduler. \<open>RequestLifecycle\<close> is the part of the first two that \<open>requestLifecycleLocked\<close> models;
  nothing else in the repository calls it, and with a request made by hand it is not a command.\<close>

datatype ext_command =
    XCreate ext_env Mutation
  | XChange ext_env Mutation InstallState
  | XConfirm "nat \<Rightarrow> gotime" ConfirmCommand
  | XConsume "nat \<Rightarrow> gotime" ConsumeCommand
  | XComplete gotime "(ArtifactReceipt \<Rightarrow> ext_error option) option" Completion
  | XToggle gotime ToggleCommand
  | XFence TaskFence
  | XTerminal string u32 u64 int

fun ext_apply :: "ext \<Rightarrow> xlib \<Rightarrow> ext_command \<Rightarrow> ExtRepository \<Rightarrow> ExtRepository" where
  "ext_apply X U (XCreate E m) r = fst (CreateMutation X U E r m)"
| "ext_apply X U (XChange E m st) r = fst (UpdateMutation X U E r m st)"
| "ext_apply X U (XConfirm clk c) r = fst (ConfirmLifecycle X clk r c)"
| "ext_apply X U (XConsume clk c) r = fst (ConsumeLifecycle X clk r c)"
| "ext_apply X U (XComplete clock store c) r = fst (snd (CompleteLifecycle X U clock store r c))"
| "ext_apply X U (XToggle clock c) r = fst (SetEnabled X clock r c)"
| "ext_apply X U (XFence f) r = SetTaskFence_x f r"
| "ext_apply X U (XTerminal k a l n) r = SetTerminalTaskFence k a l n r"

fun ext_run :: "ext \<Rightarrow> xlib \<Rightarrow> ext_command list \<Rightarrow> ExtRepository \<Rightarrow> ExtRepository" where
  "ext_run X U [] r = r"
| "ext_run X U (c # cs) r = ext_run X U cs (ext_apply X U c r)"

text \<open>The identifiers that a request draws are new.\<close>

definition ids_fresh :: "ext_env \<Rightarrow> ExtRepository \<Rightarrow> bool" where
  "ids_fresh E r \<longleftrightarrow> lookup (rx_confirmations r) (ev_ConfirmationID E) = None
     \<and> list_all (\<lambda>(k, i). ev_VersionID E \<notin> set (map ver_VersionID (inst_Versions i))) (rx_items r)"

fun draws_new :: "ext_command \<Rightarrow> ExtRepository \<Rightarrow> bool" where
  "draws_new (XCreate E m) r = ids_fresh E r"
| "draws_new (XChange E m st) r = ids_fresh E r"
| "draws_new _ r = True"

fun all_fresh :: "ext \<Rightarrow> xlib \<Rightarrow> ext_command list \<Rightarrow> ExtRepository \<Rightarrow> bool" where
  "all_fresh X U [] r = True"
| "all_fresh X U (c # cs) r = (draws_new c r \<and> all_fresh X U cs (ext_apply X U c r))"

section \<open>Steps\<close>

definition core :: "ExtRepository \<Rightarrow> (string \<times> Installation) list \<times> (string \<times> LifecycleRecord) list \<times> (string \<times> Confirmation) list \<times> (string \<times> Reservation) list" where
  "core r = (rx_items r, rx_lifecycles r, rx_confirmations r, rx_reservations r)"

text \<open>The installation that a request proposes, with the operation it asks for.\<close>

definition proposes :: "ext \<Rightarrow> xlib \<Rightarrow> ext_env \<Rightarrow> Mutation \<Rightarrow> ExtRepository \<Rightarrow> Installation \<Rightarrow> string \<Rightarrow> bool" where
  "proposes X U E m r i op \<longleftrightarrow>
     op = OperationInstall_x \<and> mutation_ok X U m \<and> i = new_installation E (to_UTC (ev_now E 0)) m
   \<or> op = OperationUpdate_x \<and> mutation_ok X U m \<and> (\<exists>k j. lookup (rx_items r) k = Some j \<and> inst_Revision j = mut_ExpectedRevision m \<and> i = staged_installation E m j StateUpdating)
   \<or> op = OperationUninstall_x \<and> (\<exists>k j. lookup (rx_items r) k = Some j \<and> i = staged_installation E m j StateUninstalling)"

definition record_for :: "string \<Rightarrow> Installation \<Rightarrow> LifecycleRequest \<Rightarrow> LifecycleRecord \<Rightarrow> bool" where
  "record_for k i q rec \<longleftrightarrow> lfr_ConfirmationID rec = k \<and> lfr_Operation rec = lfq_Operation q \<and> lfr_ExpectedRevision rec = inst_Revision i"

inductive ext_step :: "ext \<Rightarrow> xlib \<Rightarrow> ext_command \<Rightarrow> ExtRepository \<Rightarrow> ExtRepository \<Rightarrow> bool" for X U where
  stays: "core r' = core r \<Longrightarrow> ext_step X U c r r'"
| requests: "proposes X U E m r i op \<Longrightarrow> ids_fresh E r \<Longrightarrow> q = lifecycleFor X tid wall m i op \<Longrightarrow> request_ok X U q \<Longrightarrow>
    \<not> any_entry (holds_install r (rq_Binding (lfq_Confirmation q))) (rx_confirmations r) \<Longrightarrow> record_for (ev_ConfirmationID E) i q rec \<Longrightarrow>
    core r' = (put (inst_ID i) (cloneInstallation i) (rx_items r), put (inst_ID i) rec (rx_lifecycles r),
      put (ev_ConfirmationID E) (install_confirmation (ev_ConfirmationID E) now (lfq_Confirmation q)) (rx_confirmations r), rx_reservations r) \<Longrightarrow> ext_step X U c r r'"
| confirms: "c = XConfirm clk cmd \<Longrightarrow> lookup (rx_confirmations r) (cf_ConfirmationID cmd) = Some v \<Longrightarrow> c_State v = StatePending \<Longrightarrow> Binding_Equal X (c_Binding v) (cf_Binding cmd) \<Longrightarrow>
    After (c_ExpiresAt v) (to_UTC (clk 0)) \<Longrightarrow>
    core r' = (rx_items r, rx_lifecycles r, put (c_ConfirmationID v) (moved_to StateConfirmed now v) (rx_confirmations r), rx_reservations r) \<Longrightarrow> ext_step X U c r r'"
| consumes: "lookup (rx_confirmations r) k = Some v \<Longrightarrow> c_State v = StateConfirmed \<Longrightarrow> rv_ConfirmationID rv = c_ConfirmationID v \<Longrightarrow>
    core r' = (rx_items r, rx_lifecycles r, put (c_ConfirmationID v) (moved_to StateConsumed now v) (rx_confirmations r), put (c_ConfirmationID v) rv (rx_reservations r)) \<Longrightarrow> ext_step X U c r r'"
| expires: "lookup (rx_confirmations r) k = Some v \<Longrightarrow> c_State v = StateConfirmed \<Longrightarrow>
    core r' = (rx_items r, rx_lifecycles r, put (c_ConfirmationID v) (moved_to StateExpired now v) (rx_confirmations r), rx_reservations r) \<Longrightarrow> ext_step X U c r r'"
| completes: "completion_fenced r cpl = Inr (rec, i, rv, t) \<Longrightarrow>
    core r' = (put (cpl_InstallationID cpl)
        ((if cpl_Success cpl then completed_installation (cpl_Operation cpl) i else failed_installation (cpl_Operation cpl) i)\<lparr>inst_Revision := wrap64 (inst_Revision i + 1), inst_UpdatedAt := now\<rparr>) (rx_items r),
      put (cpl_InstallationID cpl) rec' (rx_lifecycles r), rx_confirmations r, put (rv_ConfirmationID rv) (rv\<lparr>rv_Active := False\<rparr>) (rx_reservations r)) \<Longrightarrow>
    lfr_ConfirmationID rec' = lfr_ConfirmationID rec \<Longrightarrow> ext_step X U c r r'"
| toggles: "lookup (rx_items r) k = Some i \<Longrightarrow> inst_State i = StateInstalled \<Longrightarrow>
    core r' = (put (inst_ID i) (i\<lparr>inst_Enabled := b, inst_Revision := wrap64 (inst_Revision i + 1), inst_UpdatedAt := now\<rparr>) (rx_items r), rx_lifecycles r, rx_confirmations r, rx_reservations r) \<Longrightarrow>
    ext_step X U c r r'"

text \<open>A request leaves the repository as it was, or writes the four tables.\<close>

definition requested_x :: "ext \<Rightarrow> xlib \<Rightarrow> string \<Rightarrow> gotime \<Rightarrow> LifecycleRequest \<Rightarrow> ExtRepository \<Rightarrow> ExtRepository \<Rightarrow> bool" where
  "requested_x X U k now q r r1 \<longleftrightarrow> request_ok X U q \<and> \<not> any_entry (holds_install r (rq_Binding (lfq_Confirmation q))) (rx_confirmations r)
     \<and> (\<exists>res. mres_ConfirmationID res = k \<and>
        core r1 = (put (inst_ID (lfq_Installation q)) (cloneInstallation (lfq_Installation q)) (rx_items r), put (inst_ID (lfq_Installation q)) (lifecycleRecordFrom X q res) (rx_lifecycles r),
          put k (install_confirmation k now (lfq_Confirmation q)) (rx_confirmations r), rx_reservations r))"

lemma request_error: "requestLifecycleLocked X U k clock fp r q = (r1, Inl e) \<Longrightarrow> r1 = r"
  by (auto simp: requestLifecycleLocked_def Let_def split: if_splits option.splits)

lemma request_effect:
  assumes "requestLifecycleLocked X U k clock fp r q = (r1, Inr out)"
  shows "r1 = r \<or> requested_x X U k (to_UTC clock) q r r1"
proof (cases "r1 = r")
  case False
  let ?res = "\<lparr>mres_Installation = cloneInstallation (lfq_Installation q), mres_ConfirmationID = k, mres_TaskID = tkr_TaskID (lfq_Task q)\<rparr>"
  have ok: "request_ok X U q" "\<not> any_entry (holds_install r (rq_Binding (lfq_Confirmation q))) (rx_confirmations r)"
    using assms False by (auto simp: requestLifecycleLocked_def Let_def split: if_splits option.splits)
  then have "install_confirmation k (to_UTC clock) ((lfq_Confirmation q)\<lparr>rq_TaskID := tkr_TaskID (lfq_Task q)\<rparr>) = install_confirmation k (to_UTC clock) (lfq_Confirmation q)"
    by (simp add: request_ok_def Let_def install_confirmation_def)
  then have "core r1 = (put (inst_ID (lfq_Installation q)) (cloneInstallation (lfq_Installation q)) (rx_items r), put (inst_ID (lfq_Installation q)) (lifecycleRecordFrom X q ?res) (rx_lifecycles r),
          put k (install_confirmation k (to_UTC clock) (lfq_Confirmation q)) (rx_confirmations r), rx_reservations r)"
    using assms False by (auto simp: requestLifecycleLocked_def Let_def core_def split: if_splits option.splits)
  with ok show ?thesis unfolding requested_x_def by (intro disjI2 conjI exI [of _ ?res]) simp_all
qed simp

lemma record_for_request: "mres_ConfirmationID res = k \<Longrightarrow> record_for k (lfq_Installation q) q (lifecycleRecordFrom X q res)"
  by (simp add: record_for_def lifecycleRecordFrom_def)

lemma clone_idem [simp]: "clone_slice (clone_slice xs) = clone_slice xs"
  by (simp add: clone_slice_def)

lemma elems_clone [simp]: "elems (clone_slice xs) = elems xs"
  by (simp add: clone_slice_def)

lemma clone_map [simp]: "clone_slice (map_option (map f) (clone_slice xs)) = clone_slice (map_option (map f) xs)"
  by (cases xs) (auto simp: clone_slice_def)

lemma cloneStatic_idem [simp]: "cloneStatic (cloneStatic s) = cloneStatic s"
  by (simp add: cloneStatic_def)

lemma cloneVersion_idem [simp]: "cloneVersion (cloneVersion v) = cloneVersion v"
  by (simp add: cloneVersion_def option.map_comp comp_def)

lemma cloneInstallation_idem [simp]: "cloneInstallation (cloneInstallation i) = cloneInstallation i"
  by (simp add: cloneInstallation_def)

lemma cloneInstallation_fields [simp]:
  "inst_ID (cloneInstallation i) = inst_ID i" "inst_Candidate (cloneInstallation i) = inst_Candidate i" "inst_Kind (cloneInstallation i) = inst_Kind i"
  "inst_Source (cloneInstallation i) = inst_Source i" "inst_CandidateID (cloneInstallation i) = inst_CandidateID i" "inst_Name (cloneInstallation i) = inst_Name i"
  "inst_Description (cloneInstallation i) = inst_Description i" "inst_Transport (cloneInstallation i) = inst_Transport i" "inst_Revision (cloneInstallation i) = inst_Revision i"
  "inst_State (cloneInstallation i) = inst_State i" "inst_ActiveVersionID (cloneInstallation i) = inst_ActiveVersionID i" "inst_ProposedVersionID (cloneInstallation i) = inst_ProposedVersionID i"
  "inst_Versions (cloneInstallation i) = map cloneVersion (inst_Versions i)" "elems (inst_SecretGrants (cloneInstallation i)) = elems (inst_SecretGrants i)"
  by (simp_all add: cloneInstallation_def)

lemma lifecycleFor_fields [simp]:
  "lfq_Installation (lifecycleFor X tid wall m i op) = cloneInstallation i" "lfq_Operation (lifecycleFor X tid wall m i op) = op"
  "rq_Binding (lfq_Confirmation (lifecycleFor X tid wall m i op)) = lifecycle_binding X m i op"
  by (simp_all add: lifecycleFor_def Let_def)

lemma requested_step:
  assumes "requested_x X U (ev_ConfirmationID E) now (lifecycleFor X tid wall m i op) r r1" and "proposes X U E m r i op" and "ids_fresh E r" and "core r2 = core r1"
  shows "ext_step X U c r r2"
proof -
  from assms(1) obtain res where "mres_ConfirmationID res = ev_ConfirmationID E"
    "core r1 = (put (inst_ID i) (cloneInstallation i) (rx_items r), put (inst_ID i) (lifecycleRecordFrom X (lifecycleFor X tid wall m i op) res) (rx_lifecycles r),
       put (ev_ConfirmationID E) (install_confirmation (ev_ConfirmationID E) now (lfq_Confirmation (lifecycleFor X tid wall m i op))) (rx_confirmations r), rx_reservations r)"
    unfolding requested_x_def by auto
  moreover from this(1) have "record_for (ev_ConfirmationID E) i (lifecycleFor X tid wall m i op) (lifecycleRecordFrom X (lifecycleFor X tid wall m i op) res)"
    using record_for_request [of res _ "lifecycleFor X tid wall m i op" X] by (simp add: record_for_def)
  ultimately show ?thesis using assms(1) unfolding requested_x_def
    by (intro ext_step.requests [OF assms(2,3) refl]) (auto simp: assms(4))
qed

section \<open>Every command is a step\<close>

lemma create_step: "ids_fresh E r \<Longrightarrow> ext_step X U c r (fst (CreateMutation X U E r m))"
proof -
  assume f: "ids_fresh E r"
  let ?i = "new_installation E (to_UTC (ev_now E 0)) m"
  let ?q = "lifecycleFor X (ev_TaskID E) (ev_wall E) m ?i OperationInstall_x"
  obtain r1 res where q: "requestLifecycleLocked X U (ev_ConfirmationID E) (ev_now E 1) (ev_failpoint E) r ?q = (r1, res)" by force
  show ?thesis
  proof (cases "fst (CreateMutation X U E r m) = r")
    case True then show ?thesis by (simp add: ext_step.stays)
  next
    case False
    have m: "mutation_ok X U m" using False by (auto simp: CreateMutation_def split: option.splits if_splits)
    show ?thesis
    proof (cases res)
      case (Inl e) with q False show ?thesis by (auto simp: CreateMutation_def Let_def dest: request_error split: option.splits if_splits)
    next
      case (Inr out)
      have core: "core (fst (CreateMutation X U E r m)) = core r1" using q Inr False by (auto simp: CreateMutation_def Let_def core_def split: option.splits if_splits)
      from request_effect [OF q [unfolded Inr]] show ?thesis
      proof
        assume "r1 = r" with core show ?thesis by (simp add: ext_step.stays)
      next
        assume "requested_x X U (ev_ConfirmationID E) (to_UTC (ev_now E 1)) ?q r r1"
        then show ?thesis by (rule requested_step [OF _ _ f core]) (simp add: proposes_def m)
      qed
    qed
  qed
qed

lemma change_step: "ids_fresh E r \<Longrightarrow> ext_step X U c r (fst (UpdateMutation X U E r m0 st))"
proof -
  assume f: "ids_fresh E r"
  show ?thesis
  proof (cases "fst (UpdateMutation X U E r m0 st) = r")
    case True then show ?thesis by (simp add: ext_step.stays)
  next
    case False
    then obtain i where i: "lookup (rx_items r) (mut_InstallationID m0) = Some i" "inst_Revision i = mut_ExpectedRevision m0" and st: "st = StateUpdating \<or> st = StateUninstalling"
      and ok: "st = StateUpdating \<Longrightarrow> mutation_ok X U m0"
      by (auto simp: UpdateMutation_def Let_def split: option.splits if_splits)
    define m where "m = (if st = StateUpdating then m0 else mutationForUninstall m0 i)"
    let ?i = "staged_installation E m i st"
    let ?q = "lifecycleFor X (ev_TaskID E) (ev_wall E) m ?i (operationForState st)"
    obtain r1 res where q: "requestLifecycleLocked X U (ev_ConfirmationID E) (ev_now E 2) (ev_failpoint E) r ?q = (r1, res)" by force
    have pr: "proposes X U E m r ?i (operationForState st)"
      using i st ok by (auto simp: proposes_def operationForState_def m_def)
    from st have core: "core (fst (UpdateMutation X U E r m0 st)) = core r1"
    proof
      assume "st = StateUpdating"
      with q i False show ?thesis by (cases res) (auto simp: UpdateMutation_def Let_def m_def core_def split: option.splits if_splits)
    next
      assume "st = StateUninstalling"
      with q i False show ?thesis by (cases res) (auto simp: UpdateMutation_def Let_def m_def core_def split: option.splits if_splits)
    qed
    show ?thesis
    proof (cases res)
      case (Inl e) with q request_error have "r1 = r" by blast
      with core show ?thesis by (simp add: ext_step.stays)
    next
      case (Inr out)
      from request_effect [OF q [unfolded Inr]] show ?thesis
      proof
        assume "r1 = r" with core show ?thesis by (simp add: ext_step.stays)
      next
        assume "requested_x X U (ev_ConfirmationID E) (to_UTC (ev_now E 2)) ?q r r1"
        then show ?thesis by (rule requested_step [OF _ pr f core])
      qed
    qed
  qed
qed

lemma core_replay [simp]: "core (put_lifecycle_replay key d res c t e r) = core r" "core (put_ext_task t r) = core r"
  by (simp_all add: core_def put_lifecycle_replay_def put_ext_task_def)

lemma core_confirmation: "core (put_confirmation_x v r) = (rx_items r, rx_lifecycles r, put (c_ConfirmationID v) v (rx_confirmations r), rx_reservations r)"
  by (simp add: core_def put_confirmation_x_def)

lemma moved_fields [simp]: "c_ConfirmationID (moved_to st now v) = c_ConfirmationID v" "c_State (moved_to st now v) = st" "c_Binding (moved_to st now v) = c_Binding v"
  "c_ExpiresAt (moved_to st now v) = c_ExpiresAt v"
  by (simp_all add: moved_to_def)

lemma confirm_step: "ext_step X U (XConfirm clk c) r (fst (ConfirmLifecycle X clk r c))"
proof (cases "fst (ConfirmLifecycle X clk r c) = r")
  case False
  then obtain v where "lookup (rx_confirmations r) (cf_ConfirmationID c) = Some v" "c_State v = StatePending" "Binding_Equal X (c_Binding v) (cf_Binding c)"
    "After (c_ExpiresAt v) (to_UTC (clk 0))"
    "core (fst (ConfirmLifecycle X clk r c)) = core (put_confirmation_x (moved_to StateConfirmed (to_UTC (clk 1)) v) r)"
    by (auto simp: ConfirmLifecycle_def Let_def split: option.splits if_splits)
  then show ?thesis using ext_step.confirms [OF refl] by (simp add: core_confirmation)
qed (simp add: ext_step.stays)

lemma expire_core: "core (expire_lifecycle key d now v r) = core (put_confirmation_x (moved_to StateExpired now v) r)"
  by (simp add: expire_lifecycle_def Let_def split: option.splits)

lemma consume_step: "ext_step X U c r (fst (ConsumeLifecycle X clk r q))"
proof (cases "fst (ConsumeLifecycle X clk r q) = r")
  case False
  then obtain v where v: "lookup (rx_confirmations r) (cs_ConfirmationID q) = Some v" "c_State v = StateConfirmed"
    by (auto simp: ConsumeLifecycle_def Let_def split: option.splits if_splits)
  show ?thesis
  proof (cases "After (c_ExpiresAt v) (to_UTC (clk 0))")
    case late: False
    have "fst (ConsumeLifecycle X clk r q) = expire_lifecycle (''consume:'' @ cs_IdempotencyKey q) (consume_digest X q) (to_UTC (clk 1)) v r"
      using False v late by (auto simp: ConsumeLifecycle_def Let_def split: option.splits if_splits)
    then show ?thesis using ext_step.expires [OF v] by (simp add: expire_core core_confirmation)
  next
    case True
    then obtain task where t: "lookup (rx_tasks r) (cs_TaskID q) = Some task"
      using False v by (auto simp: ConsumeLifecycle_def Let_def split: option.splits if_splits)
    have "core (fst (ConsumeLifecycle X clk r q)) = (rx_items r, rx_lifecycles r, put (c_ConfirmationID v) (moved_to StateConsumed (to_UTC (clk 1)) v) (rx_confirmations r),
        put (c_ConfirmationID v) \<lparr>rv_ConfirmationID = c_ConfirmationID v, rv_TaskID = cs_TaskID q, rv_AcquiredAttempt = cs_Attempt q, rv_AcquiredLeaseEpoch = cs_LeaseEpoch q,
          rv_TaskRevision = xt_Revision task, rv_Active = True\<rparr> (rx_reservations r))"
      using False v t True by (auto simp: ConsumeLifecycle_def Let_def core_def put_confirmation_x_def put_lifecycle_replay_def split: option.splits if_splits)
    from ext_step.consumes [OF v _ this] show ?thesis by simp
  qed
qed (simp add: ext_step.stays)

lemma outcome_revision [simp]: "inst_Revision (completed_installation op i) = inst_Revision i" "inst_Revision (failed_installation op i) = inst_Revision i"
  by (simp_all add: completed_installation_def failed_installation_def Let_def split: option.splits)

lemma completion_core:
  obtains rec' where "lfr_ConfirmationID rec' = lfr_ConfirmationID rec" and
    "core (fst (completion_write X now d rec i rv t r)) = (put (cpl_InstallationID d)
        ((if cpl_Success d then completed_installation (cpl_Operation d) i else failed_installation (cpl_Operation d) i)\<lparr>inst_Revision := wrap64 (inst_Revision i + 1), inst_UpdatedAt := now\<rparr>) (rx_items r),
      put (cpl_InstallationID d) rec' (rx_lifecycles r), rx_confirmations r, put (rv_ConfirmationID rv) (rv\<lparr>rv_Active := False\<rparr>) (rx_reservations r))"
proof
  let ?rec = "rec\<lparr>lfr_State := (if cpl_Success d then ''succeeded'' else ''failed''), lfr_AcquiredAttempt := cpl_Attempt d, lfr_AcquiredLeaseEpoch := cpl_LeaseEpoch d,
    lfr_AcquiredTaskRevision := cpl_AcquiredTaskRevision d, lfr_TerminalAttempt := cpl_TerminalAttempt d, lfr_TerminalLeaseEpoch := cpl_TerminalLeaseEpoch d,
    lfr_TerminalTaskRevision := cpl_TerminalTaskRevision d, lfr_CompletionDigest := cpl_OutcomeDigest d\<rparr>"
  show "lfr_ConfirmationID ?rec = lfr_ConfirmationID rec" by simp
  show "core (fst (completion_write X now d rec i rv t r)) = (put (cpl_InstallationID d)
        ((if cpl_Success d then completed_installation (cpl_Operation d) i else failed_installation (cpl_Operation d) i)\<lparr>inst_Revision := wrap64 (inst_Revision i + 1), inst_UpdatedAt := now\<rparr>) (rx_items r),
      put (cpl_InstallationID d) ?rec (rx_lifecycles r), rx_confirmations r, put (rv_ConfirmationID rv) (rv\<lparr>rv_Active := False\<rparr>) (rx_reservations r))"
    by (cases "cpl_Success d") (simp_all add: completion_write_def core_def Let_def)
qed

lemma complete_changes:
  assumes "fst (snd (CompleteLifecycle X U clock store r q)) \<noteq> r"
  obtains d rec i rv t where "cpl_ConfirmationID d = cpl_ConfirmationID q" and "completion_fenced r d = Inr (rec, i, rv, t)"
    and "fst (snd (CompleteLifecycle X U clock store r q)) = fst (completion_write X (to_UTC clock) d rec i rv t r)"
proof -
  from assms obtain d where d: "failure_filled q = Inr d" by (auto simp: CompleteLifecycle_def split: sum.splits)
  with assms obtain rec i rv t where f: "completion_fenced r d = Inr (rec, i, rv, t)"
    by (cases "completion_fenced r d") (auto simp: CompleteLifecycle_def split: option.splits if_splits)
  have "fst (snd (CompleteLifecycle X U clock store r q)) = fst (completion_write X (to_UTC clock) d rec i rv t r)"
    using assms d f by (auto simp: CompleteLifecycle_def split: option.splits if_splits prod.splits)
  moreover have "cpl_ConfirmationID d = cpl_ConfirmationID q" using d by (auto simp: failure_filled_def split: if_splits)
  ultimately show ?thesis using f that by blast
qed

lemma complete_step: "ext_step X U c r (fst (snd (CompleteLifecycle X U clock store r q)))"
proof (cases "fst (snd (CompleteLifecycle X U clock store r q)) = r")
  case False
  then obtain d rec i rv t where f: "completion_fenced r d = Inr (rec, i, rv, t)" and e: "fst (snd (CompleteLifecycle X U clock store r q)) = fst (completion_write X (to_UTC clock) d rec i rv t r)"
    by (rule complete_changes)
  show ?thesis unfolding e by (rule completion_core) (erule ext_step.completes [OF f, rotated])
qed (simp add: ext_step.stays)

lemma toggle_step: "ext_step X U c r (fst (SetEnabled X clock r q))"
proof (cases "core (fst (SetEnabled X clock r q)) = core r")
  case False
  then obtain i where "lookup (rx_items r) (tgl_InstallationID q) = Some i" "inst_State i = StateInstalled"
    "core (fst (SetEnabled X clock r q)) = (put (inst_ID i) (i\<lparr>inst_Enabled := tgl_Enabled q, inst_Revision := wrap64 (inst_Revision i + 1), inst_UpdatedAt := to_UTC clock\<rparr>) (rx_items r),
       rx_lifecycles r, rx_confirmations r, rx_reservations r)"
    by (auto simp: SetEnabled_def Let_def core_def split: option.splits if_splits)
  then show ?thesis by (rule ext_step.toggles)
qed (rule ext_step.stays)

lemma ext_apply_step: "draws_new c r \<Longrightarrow> ext_step X U c r (ext_apply X U c r)"
  by (cases c) (auto simp: create_step change_step confirm_step consume_step complete_step toggle_step SetTaskFence_x_def SetTerminalTaskFence_def core_def Let_def intro: ext_step.stays)

text \<open>An invariant that the steps keep holds in every run; it may speak of the commands that ran.\<close>

lemma ext_run_invariant:
  assumes "\<And>h c r r'. Inv h r \<Longrightarrow> ext_step X U c r r' \<Longrightarrow> Inv (h @ [c]) r'" and "Inv h r" and "all_fresh X U cs r"
  shows "Inv (h @ cs) (ext_run X U cs r)"
  using assms(2,3)
proof (induction cs arbitrary: h r)
  case (Cons c cs)
  then have "Inv (h @ [c]) (ext_apply X U c r)" by (intro assms(1) [OF Cons.prems(1) ext_apply_step]) simp
  with Cons.IH [of "h @ [c]" "ext_apply X U c r"] Cons.prems(2) show ?case by simp
qed simp

lemma ext_run_keeps:
  assumes "\<And>c r r'. I r \<Longrightarrow> ext_step X U c r r' \<Longrightarrow> I r'" and "I r" and "all_fresh X U cs r"
  shows "I (ext_run X U cs r)"
  using assms(2,3) by (induction cs arbitrary: r) (auto intro: assms(1) ext_apply_step)

end
