(* ===== verification/Extension_Safety.thy ===== *)
theory Extension_Safety
  imports Extension_Lifecycle
begin

text \<open>
  What holds in every run of the repository of extensions: installations are well formed, an installation has at most one open request, a version is active only after a person confirmed exactly its
  contents, and a request takes effect once. What the service adds: the artifact that is installed is the one that was reviewed, and a refused request leaves no artifact.
\<close>

section \<open>Facts of the steps\<close>

lemma core_eq: "core r' = (a, b, c, d) \<longleftrightarrow> rx_items r' = a \<and> rx_lifecycles r' = b \<and> rx_confirmations r' = c \<and> rx_reservations r' = d"
  by (auto simp: core_def)

lemma core_same: "core r' = core r \<longleftrightarrow> rx_items r' = rx_items r \<and> rx_lifecycles r' = rx_lifecycles r \<and> rx_confirmations r' = rx_confirmations r \<and> rx_reservations r' = rx_reservations r"
  by (auto simp: core_def)

lemma ids_fresh_confirmation: "ids_fresh E r \<Longrightarrow> lookup (rx_confirmations r) (ev_ConfirmationID E) = None"
  by (simp add: ids_fresh_def)

lemma ids_fresh_version: "ids_fresh E r \<Longrightarrow> lookup (rx_items r) k = Some i \<Longrightarrow> v \<in> set (inst_Versions i) \<Longrightarrow> ver_VersionID v \<noteq> ev_VersionID E"
proof -
  assume "ids_fresh E r" "lookup (rx_items r) k = Some i" and v: "v \<in> set (inst_Versions i)"
  then have "ev_VersionID E \<notin> set (map ver_VersionID (inst_Versions i))" by (auto simp: ids_fresh_def list_all_iff lookup_def dest!: map_of_SomeD)
  with v show ?thesis by (metis imageI set_map)
qed

lemma install_confirmation_fields [simp]: "c_ConfirmationID (install_confirmation k now q) = k" "c_State (install_confirmation k now q) = StatePending"
  "c_Binding (install_confirmation k now q) = rq_Binding q"
  by (simp_all add: install_confirmation_def)

lemma new_fields [simp]: "inst_State (new_installation E now m) = StateInstalling" "inst_ActiveVersionID (new_installation E now m) = []"
  "inst_ProposedVersionID (new_installation E now m) = ev_VersionID E" "inst_Versions (new_installation E now m) = [proposed_version (ev_VersionID E) now m]"
  "inst_Revision (new_installation E now m) = 1"
  by (simp_all add: new_installation_def Let_def proposed_version_def versionFromInspection_def)

lemma staged_fields [simp]: "inst_ID (staged_installation E m j st) = inst_ID j" "inst_State (staged_installation E m j st) = st"
  "inst_ActiveVersionID (staged_installation E m j st) = inst_ActiveVersionID j" "inst_Revision (staged_installation E m j st) = wrap64 (inst_Revision j + 1)"
  by (simp_all add: staged_installation_def Let_def)

lemma staged_proposal: "inst_ProposedVersionID (staged_installation E m j StateUpdating) = ev_VersionID E"
  by (simp add: staged_installation_def Let_def proposed_version_def versionFromInspection_def)

lemma staged_versions: "inst_Versions (staged_installation E m j st) =
    map cloneVersion (inst_Versions j) @ (if st = StateUpdating then [proposed_version (ev_VersionID E) (to_UTC (ev_now E 0)) m] else [])"
  by (simp add: staged_installation_def Let_def)

lemma outcome_fields [simp]: "inst_ID (completed_installation op i) = inst_ID i" "inst_ID (failed_installation op i) = inst_ID i"
  "inst_Versions (completed_installation op i) = inst_Versions i" "inst_Versions (failed_installation op i) = inst_Versions i"
  "inst_ActiveVersionID (failed_installation op i) = inst_ActiveVersionID i"
  by (simp_all add: completed_installation_def failed_installation_def Let_def split: option.splits)

lemma fenced_facts:
  assumes "completion_fenced r c = Inr (rec, i, rv, t)"
  shows "lookup (rx_lifecycles r) (cpl_InstallationID c) = Some rec" "lookup (rx_items r) (cpl_InstallationID c) = Some i" "lfr_ConfirmationID rec = cpl_ConfirmationID c"
    "lookup (rx_reservations r) (cpl_ConfirmationID c) = Some rv" "\<exists>conf. lookup (rx_confirmations r) (cpl_ConfirmationID c) = Some conf \<and> c_State conf = StateConsumed"
    "cpl_Operation c = OperationInstall_x \<and> inst_State i = StateInstalling \<or> cpl_Operation c = OperationUpdate_x \<and> inst_State i = StateUpdating
     \<or> cpl_Operation c = OperationUninstall_x \<and> inst_State i = StateUninstalling" "rv_Active rv"
  using assms by (auto simp: completion_fenced_def OperationInstall_x_def OperationUpdate_x_def OperationUninstall_x_def split: option.splits if_splits)

section \<open>Keys\<close>

text \<open>Every entry is filed under its own identifier, and only a consumed confirmation has a reservation.\<close>

definition ext_keys :: "ExtRepository \<Rightarrow> bool" where
  "ext_keys r \<longleftrightarrow> gomap (rx_confirmations r) \<and> (\<forall>k i. lookup (rx_items r) k = Some i \<longrightarrow> inst_ID i = k) \<and> (\<forall>k c. lookup (rx_confirmations r) k = Some c \<longrightarrow> c_ConfirmationID c = k)
     \<and> (\<forall>k v. lookup (rx_reservations r) k = Some v \<longrightarrow> rv_ConfirmationID v = k \<and> (\<exists>c. lookup (rx_confirmations r) k = Some c \<and> c_State c = StateConsumed))"

lemma ext_keysD:
  assumes "ext_keys r"
  shows "gomap (rx_confirmations r)" "lookup (rx_items r) k = Some i \<Longrightarrow> inst_ID i = k" "lookup (rx_confirmations r) k = Some c \<Longrightarrow> c_ConfirmationID c = k"
    "lookup (rx_reservations r) k = Some v \<Longrightarrow> rv_ConfirmationID v = k" "lookup (rx_reservations r) k = Some v \<Longrightarrow> \<exists>c. lookup (rx_confirmations r) k = Some c \<and> c_State c = StateConsumed"
  using assms unfolding ext_keys_def by auto

lemma unreserved: "ext_keys r \<Longrightarrow> (case lookup (rx_confirmations r) k of None \<Rightarrow> True | Some c \<Rightarrow> c_State c \<noteq> StateConsumed) \<Longrightarrow> lookup (rx_reservations r) k = None"
  by (cases "lookup (rx_reservations r) k") (auto dest: ext_keysD(5))

lemma ext_keys_step:
  assumes inv: "ext_keys r" and step: "ext_step X U c r r'"
  shows "ext_keys r'"
  using step
proof cases
  case (requests E m i op q tid wall rec now)
  have fresh: "lookup (rx_confirmations r) (ev_ConfirmationID E) = None" using requests(2) by (rule ids_fresh_confirmation)
  have "lookup (rx_reservations r) (ev_ConfirmationID E) = None"
    by (rule unreserved [OF inv]) (simp add: fresh)
  then show ?thesis using inv fresh requests(7) unfolding ext_keys_def core_eq by (auto split: if_splits)
next
  case (confirms clk cmd v now)
  then show ?thesis using inv ext_keysD(3) [OF inv confirms(2)] unreserved [OF inv, of "c_ConfirmationID v"] unfolding ext_keys_def core_eq by (auto split: if_splits)
next
  case (consumes k v rv now)
  then show ?thesis using inv ext_keysD(3) [OF inv consumes(1)] unreserved [OF inv, of "c_ConfirmationID v"] unfolding ext_keys_def core_eq by (auto split: if_splits)
next
  case (expires k v now)
  then show ?thesis using inv ext_keysD(3) [OF inv expires(1)] unreserved [OF inv, of "c_ConfirmationID v"] unfolding ext_keys_def core_eq by (auto split: if_splits)
next
  case (completes cpl rec i rv t now rec')
  note f = fenced_facts [OF completes(1)]
  show ?thesis using inv completes(2) f ext_keysD(2) [OF inv f(2)] ext_keysD(4) [OF inv f(4)] unfolding ext_keys_def core_eq by (auto split: if_splits)
next
  case (toggles k i now b)
  then show ?thesis using inv ext_keysD(2) [OF inv toggles(1)] unfolding ext_keys_def core_eq by (auto split: if_splits)
qed (use inv in \<open>auto simp: ext_keys_def core_same\<close>)

lemma ext_keys_new: "ext_keys NewMemoryRepository_x"
  by (simp add: ext_keys_def NewMemoryRepository_x_def)

section \<open>One open request\<close>

text \<open>A confirmation is open while it holds its installation.\<close>

definition open_request :: "ExtRepository \<Rightarrow> string \<Rightarrow> Confirmation \<Rightarrow> bool" where
  "open_request r k c \<longleftrightarrow> lookup (rx_confirmations r) k = Some c \<and> (c_State c = StatePending \<or> c_State c = StateConfirmed \<or> c_State c = StateConsumed)
     \<and> (case lookup (rx_reservations r) k of None \<Rightarrow> True | Some v \<Rightarrow> rv_Active v)"

definition request_target :: "Confirmation \<Rightarrow> string \<times> string" where
  "request_target c = (b_OperationDomain (c_Binding c), b_TargetID (c_Binding c))"

definition one_open :: "ExtRepository \<Rightarrow> bool" where
  "one_open r \<longleftrightarrow> ext_keys r \<and> (\<forall>k1 c1 k2 c2. open_request r k1 c1 \<and> open_request r k2 c2 \<and> request_target c1 = request_target c2 \<longrightarrow> k1 = k2)"

text \<open>A step opens at most the request it makes, and that only when no other holds the same installation.\<close>

definition opens_only :: "string \<Rightarrow> ExtRepository \<Rightarrow> ExtRepository \<Rightarrow> bool" where
  "opens_only k0 r r' \<longleftrightarrow> (\<forall>k c. open_request r' k c \<longrightarrow> (\<exists>c0. open_request r k c0 \<and> request_target c0 = request_target c)
     \<or> k = k0 \<and> (\<forall>k1 c1. open_request r k1 c1 \<longrightarrow> request_target c1 \<noteq> request_target c))"

lemma one_open_step: "one_open r \<Longrightarrow> ext_keys r' \<Longrightarrow> opens_only k0 r r' \<Longrightarrow> one_open r'"
  unfolding one_open_def opens_only_def by metis

lemma holds_open: "ext_keys r \<Longrightarrow> lookup (rx_confirmations r) k = Some c \<Longrightarrow>
    holds_install r b k c \<longleftrightarrow> open_request r k c \<and> request_target c = (b_OperationDomain b, b_TargetID b)"
  by (auto simp: holds_install_def open_request_def request_target_def ext_keysD(3) split: option.splits)

lemma step_opens:
  assumes inv: "ext_keys r" and step: "ext_step X U c r r'"
  shows "\<exists>k0. opens_only k0 r r'"
  using step
proof cases
  case (requests E m i op q tid wall rec now)
  have free: "open_request r k c \<Longrightarrow> request_target c \<noteq> (b_OperationDomain (rq_Binding (lfq_Confirmation q)), b_TargetID (rq_Binding (lfq_Confirmation q)))" for k c
    using requests(5) holds_open [OF inv] unfolding any_entry_iff [OF ext_keysD(1) [OF inv]] by (metis open_request_def)
  have "opens_only (ev_ConfirmationID E) r r'"
    using free requests(7) unfolding opens_only_def core_eq by (auto simp: open_request_def request_target_def split: if_splits)
  then show ?thesis ..
next
  case (confirms clk cmd v now)
  then have "opens_only [] r r'" using ext_keysD(3) [OF inv confirms(2)]
    unfolding opens_only_def core_eq by (auto simp: open_request_def request_target_def split: if_splits)
  then show ?thesis ..
next
  case (consumes k v rv now)
  then have "opens_only [] r r'" using ext_keysD(3) [OF inv consumes(1)] unreserved [OF inv, of k]
    unfolding opens_only_def core_eq by (auto simp: open_request_def request_target_def split: if_splits)
  then show ?thesis ..
next
  case (expires k v now)
  then have "opens_only [] r r'" using ext_keysD(3) [OF inv expires(1)]
    unfolding opens_only_def core_eq by (auto simp: open_request_def request_target_def split: if_splits)
  then show ?thesis ..
next
  case (completes cpl rec i rv t now rec')
  note f = fenced_facts [OF completes(1)]
  have "opens_only [] r r'" using completes(2) f ext_keysD(4) [OF inv f(4)]
    unfolding opens_only_def core_eq by (auto simp: open_request_def split: if_splits)
  then show ?thesis ..
next
  case (toggles k i now b)
  then have "opens_only [] r r'" unfolding opens_only_def core_eq by (auto simp: open_request_def)
  then show ?thesis ..
qed (auto simp: opens_only_def open_request_def core_same)

text \<open>C24. One open request per installation. In every run of creations, updates, removals, confirmations, consumptions, completions and toggles on the extension repository in
  memory, with any fences written by the scheduler and new identifiers for every request, an installation has at most one request that holds it: one whose
  confirmation is pending, confirmed, or consumed with its reservation still active.\<close>

theorem one_open_request_per_installation:
  assumes "all_fresh X U cs NewMemoryRepository_x" and "open_request (ext_run X U cs NewMemoryRepository_x) k1 c1" and "open_request (ext_run X U cs NewMemoryRepository_x) k2 c2"
    and "request_target c1 = request_target c2"
  shows "k1 = k2"
proof -
  have "one_open (ext_run X U cs NewMemoryRepository_x)"
  proof (rule ext_run_keeps [OF _ _ assms(1)])
    show "one_open r \<Longrightarrow> ext_step X U c r r' \<Longrightarrow> one_open r'" for c r r' using one_open_step step_opens ext_keys_step one_open_def by metis
    show "one_open NewMemoryRepository_x" by (simp add: one_open_def ext_keys_new) (simp add: open_request_def NewMemoryRepository_x_def)
  qed
  then show ?thesis using assms(2-4) unfolding one_open_def by blast
qed

end
