(* ===== verification/Extension_Review.thy ===== *)
theory Extension_Review
  imports Extension_Safety
begin

text \<open>
  A version becomes the active one only after a person confirmed a binding with exactly its contents. The invariant follows a proposal from the request, through the confirmation and its consumption, to
  the completion that makes its version active.
\<close>

section \<open>Bindings of versions\<close>

definition version_bound :: "Binding \<Rightarrow> string \<Rightarrow> VersionRecord \<Rightarrow> bool" where
  "version_bound b k v \<longleftrightarrow> b_OperationDomain b = ''extension'' \<and> b_TargetID b = k \<and> b_ContentDigest b = ver_ContentDigest v \<and> b_SourceVersion b = pin_RegistryVersion (ver_Pin v)
     \<and> b_SourceCommit b = pin_GitCommit (ver_Pin v) \<and> elems (b_NetworkGrants b) = map grant_text (elems (ver_NetworkGrants v)) \<and> elems (b_SecretGrants b) = map confirm_grant (elems (ver_SecretGrants v))"

definition the_version :: "Installation \<Rightarrow> string \<Rightarrow> VersionRecord option" where
  "the_version i k = find (\<lambda>v. ver_VersionID v = k) (inst_Versions i)"

lemma cloneVersion_fields [simp]: "ver_VersionID (cloneVersion v) = ver_VersionID v" "ver_Pin (cloneVersion v) = ver_Pin v" "ver_ContentDigest (cloneVersion v) = ver_ContentDigest v"
  "elems (ver_NetworkGrants (cloneVersion v)) = elems (ver_NetworkGrants v)" "elems (ver_SecretGrants (cloneVersion v)) = elems (ver_SecretGrants v)"
  by (simp_all add: cloneVersion_def)

lemma bound_clone [simp]: "version_bound b k (cloneVersion v) = version_bound b k v"
  by (simp add: version_bound_def)

lemma find_clone: "find (\<lambda>v. ver_VersionID v = k) (map cloneVersion vs) = map_option cloneVersion (find (\<lambda>v. ver_VersionID v = k) vs)"
  by (induction vs) auto

lemma find_append: "find P (xs @ ys) = (case find P xs of None \<Rightarrow> find P ys | Some x \<Rightarrow> Some x)"
  by (induction xs) auto

lemma the_version_clone [simp]: "the_version (cloneInstallation i) k = map_option cloneVersion (the_version i k)"
  by (simp add: the_version_def find_clone)

lemma elems_map_option [simp]: "elems (map_option (map f) xs) = map f (elems xs)"
  by (cases xs) auto

lemma equalCandidate_eq: "equalCandidate a b \<longleftrightarrow> a = b"
  by (auto simp: equalCandidate_def)

lemma proposed_fields [simp]: "ver_VersionID (proposed_version k now m) = k"
  by (simp add: proposed_version_def versionFromInspection_def)

lemma binding_bound:
  assumes "mutation_ok X U m"
  shows "version_bound (lifecycle_binding X m i op) (inst_ID i) (proposed_version k now m)"
proof -
  have "mut_Candidate m = insp_Candidate (mut_Inspection m)" using assms by (simp add: mutation_ok_def equalCandidate_eq)
  moreover have "map (confirm_grant \<circ> (\<lambda>g. g\<lparr>sgd_Configured := True\<rparr>)) gs = map confirm_grant gs" for gs by (simp add: confirm_grant_def comp_def)
  ultimately show ?thesis by (simp add: version_bound_def lifecycle_binding_def proposed_version_def versionFromInspection_def split: prod.splits)
qed

section \<open>The invariant\<close>

definition proposal_backed :: "ExtRepository \<Rightarrow> string \<Rightarrow> Installation \<Rightarrow> bool" where
  "proposal_backed r k i \<longleftrightarrow> (\<exists>rec c v. lookup (rx_lifecycles r) k = Some rec \<and> lookup (rx_confirmations r) (lfr_ConfirmationID rec) = Some c
     \<and> the_version i (inst_ProposedVersionID i) = Some v \<and> version_bound (c_Binding c) k v)"

definition active_backed :: "ExtRepository \<Rightarrow> string \<Rightarrow> Installation \<Rightarrow> bool" where
  "active_backed r k i \<longleftrightarrow> (\<exists>kc c v. lookup (rx_confirmations r) kc = Some c \<and> c_State c = StateConsumed \<and> the_version i (inst_ActiveVersionID i) = Some v \<and> version_bound (c_Binding c) k v)"

definition installation_backed :: "ExtRepository \<Rightarrow> string \<Rightarrow> Installation \<Rightarrow> bool" where
  "installation_backed r k i \<longleftrightarrow> (inst_State i = StateInstalling \<or> inst_State i = StateUpdating \<longrightarrow> proposal_backed r k i) \<and> (inst_ActiveVersionID i \<noteq> [] \<longrightarrow> active_backed r k i)"

definition answered :: "ext \<Rightarrow> ext_command list \<Rightarrow> string \<Rightarrow> Confirmation \<Rightarrow> bool" where
  "answered X h k c \<longleftrightarrow> (\<exists>clk cmd. XConfirm clk cmd \<in> set h \<and> cf_ConfirmationID cmd = k \<and> Binding_Equal X (c_Binding c) (cf_Binding cmd))"

definition reviewed :: "ext \<Rightarrow> ext_command list \<Rightarrow> ExtRepository \<Rightarrow> bool" where
  "reviewed X h r \<longleftrightarrow> ext_keys r \<and> (\<forall>k i. lookup (rx_items r) k = Some i \<longrightarrow> installation_backed r k i)
     \<and> (\<forall>k c. lookup (rx_confirmations r) k = Some c \<and> c_State c \<noteq> StatePending \<longrightarrow> answered X h k c)"

text \<open>No step loses a confirmation, changes what it binds, or takes back a consumption.\<close>

definition confirmations_kept :: "ExtRepository \<Rightarrow> ExtRepository \<Rightarrow> bool" where
  "confirmations_kept r r' \<longleftrightarrow> (\<forall>k c. lookup (rx_confirmations r) k = Some c \<longrightarrow>
     (\<exists>c'. lookup (rx_confirmations r') k = Some c' \<and> c_Binding c' = c_Binding c \<and> (c_State c = StateConsumed \<longrightarrow> c_State c' = StateConsumed)))"

lemma step_keeps_confirmations:
  assumes inv: "ext_keys r" and step: "ext_step X U c r r'"
  shows "confirmations_kept r r'"
  using step
proof cases
  case (requests E m i op q tid wall rec now)
  then show ?thesis using ids_fresh_confirmation [OF requests(2)] unfolding confirmations_kept_def core_eq by auto
next
  case (confirms clk cmd v now)
  then show ?thesis using ext_keysD(3) [OF inv confirms(2)] unfolding confirmations_kept_def core_eq by auto
next
  case (consumes k v rv now)
  then show ?thesis using ext_keysD(3) [OF inv consumes(1)] unfolding confirmations_kept_def core_eq by auto
next
  case (expires k v now)
  then show ?thesis using ext_keysD(3) [OF inv expires(1)] unfolding confirmations_kept_def core_eq by auto
qed (auto simp: confirmations_kept_def core_eq core_same)

lemma active_backed_kept:
  assumes "active_backed r k i" and "confirmations_kept r r'" and "the_version i' (inst_ActiveVersionID i') = map_option f (the_version i (inst_ActiveVersionID i))"
    and "\<And>b v. version_bound b k (f v) = version_bound b k v"
  shows "active_backed r' k i'"
proof -
  from assms(1) obtain kc c v where "lookup (rx_confirmations r) kc = Some c" "c_State c = StateConsumed" "the_version i (inst_ActiveVersionID i) = Some v" "version_bound (c_Binding c) k v"
    unfolding active_backed_def by auto
  moreover from this(1,2) obtain c' where "lookup (rx_confirmations r') kc = Some c'" "c_Binding c' = c_Binding c" "c_State c' = StateConsumed"
    using assms(2) unfolding confirmations_kept_def by blast
  ultimately have "lookup (rx_confirmations r') kc = Some c' \<and> c_State c' = StateConsumed \<and> the_version i' (inst_ActiveVersionID i') = Some (f v) \<and> version_bound (c_Binding c') k (f v)"
    using assms(3,4) by simp
  then show ?thesis unfolding active_backed_def by blast
qed

lemma proposal_backed_kept:
  assumes "proposal_backed r k i" and "confirmations_kept r r'" and "the_version i' (inst_ProposedVersionID i') = the_version i (inst_ProposedVersionID i)"
    and "map_option lfr_ConfirmationID (lookup (rx_lifecycles r') k) = map_option lfr_ConfirmationID (lookup (rx_lifecycles r) k)"
  shows "proposal_backed r' k i'"
proof -
  from assms(1) obtain rec c v where "lookup (rx_lifecycles r) k = Some rec" "lookup (rx_confirmations r) (lfr_ConfirmationID rec) = Some c"
    "the_version i (inst_ProposedVersionID i) = Some v" "version_bound (c_Binding c) k v"
    unfolding proposal_backed_def by auto
  moreover from this(2) obtain c' where "lookup (rx_confirmations r') (lfr_ConfirmationID rec) = Some c'" "c_Binding c' = c_Binding c"
    using assms(2) unfolding confirmations_kept_def by blast
  moreover from this calculation(1) assms(4) obtain rec' where "lookup (rx_lifecycles r') k = Some rec'" "lfr_ConfirmationID rec' = lfr_ConfirmationID rec"
    by (cases "lookup (rx_lifecycles r') k") auto
  ultimately have "lookup (rx_lifecycles r') k = Some rec' \<and> lookup (rx_confirmations r') (lfr_ConfirmationID rec') = Some c' \<and> the_version i' (inst_ProposedVersionID i') = Some v
      \<and> version_bound (c_Binding c') k v"
    using assms(3) by simp
  then show ?thesis unfolding proposal_backed_def by blast
qed

lemma installation_backed_kept:
  assumes "installation_backed r k i" and "confirmations_kept r r'" and "inst_Versions i' = inst_Versions i" and "inst_ActiveVersionID i' = inst_ActiveVersionID i"
    and "inst_State i' = StateInstalling \<or> inst_State i' = StateUpdating \<Longrightarrow> inst_State i' = inst_State i \<and> inst_ProposedVersionID i' = inst_ProposedVersionID i"
    and "map_option lfr_ConfirmationID (lookup (rx_lifecycles r') k) = map_option lfr_ConfirmationID (lookup (rx_lifecycles r) k)"
  shows "installation_backed r' k i'"
proof -
  have versions: "the_version i' = the_version i" using assms(3) by (simp add: the_version_def fun_eq_iff)
  have "proposal_backed r' k i'" if "inst_State i' = StateInstalling \<or> inst_State i' = StateUpdating"
    by (rule proposal_backed_kept [OF _ assms(2) _ assms(6)]) (use assms(1,5) that versions in \<open>auto simp: installation_backed_def\<close>)
  moreover have "active_backed r' k i'" if "inst_ActiveVersionID i' \<noteq> []"
    by (rule active_backed_kept [OF _ assms(2), where f = "\<lambda>v. v"]) (use assms(1,4) that versions in \<open>auto simp: installation_backed_def option.map_ident\<close>)
  ultimately show ?thesis unfolding installation_backed_def by blast
qed

section \<open>It is kept\<close>

lemma the_version_staged: "the_version j k = Some v \<Longrightarrow> the_version (staged_installation E m j st) k = Some (cloneVersion v)"
  by (simp add: the_version_def staged_versions find_append find_clone)

text \<open>The installation that a request writes.\<close>

lemma requested_backed:
  assumes inv: "reviewed X h r" and kept: "confirmations_kept r r'" and p: "proposes X U E m r i op" and fresh: "ids_fresh E r"
    and rec: "lookup (rx_lifecycles r') (inst_ID i) = Some rec" "lfr_ConfirmationID rec = ev_ConfirmationID E"
    and conf: "lookup (rx_confirmations r') (ev_ConfirmationID E) = Some c" "c_Binding c = lifecycle_binding X m i op"
  shows "installation_backed r' (inst_ID i) (cloneInstallation i)"
proof -
  have backed: "proposal_backed r' (inst_ID i) (cloneInstallation i)" if "mutation_ok X U m" "the_version i (inst_ProposedVersionID i) = Some (proposed_version k now m)" for k now
    using binding_bound [OF that(1), of i op k now] that(2) rec conf unfolding proposal_backed_def by auto
  have active: "active_backed r' (inst_ID i) (cloneInstallation i)"
    if "lookup (rx_items r) k = Some j" "i = staged_installation E m j st" "inst_ActiveVersionID i \<noteq> []" for k j st
  proof -
    have "k = inst_ID i" using that(1,2) inv ext_keysD(2) unfolding reviewed_def by fastforce
    moreover have a: "active_backed r k j" using inv that unfolding reviewed_def installation_backed_def by auto
    moreover from a obtain v where "the_version j (inst_ActiveVersionID j) = Some v" unfolding active_backed_def by auto
    then have "the_version (cloneInstallation i) (inst_ActiveVersionID i) = map_option cloneVersion (the_version j (inst_ActiveVersionID j))"
      using the_version_staged [of j _ v] that(2) by simp
    ultimately show ?thesis using active_backed_kept [OF a kept, of "cloneInstallation i" cloneVersion] that(2) by simp
  qed
  consider "mutation_ok X U m" "i = new_installation E (to_UTC (ev_now E 0)) m"
    | k j where "mutation_ok X U m" "lookup (rx_items r) k = Some j" "i = staged_installation E m j StateUpdating"
    | k j where "lookup (rx_items r) k = Some j" "i = staged_installation E m j StateUninstalling"
    using p unfolding proposes_def by blast
  then show ?thesis
  proof cases
    case 1
    then show ?thesis using backed [OF 1(1)] by (simp add: installation_backed_def the_version_def)
  next
    case 2
    have "find (\<lambda>v. ver_VersionID v = ev_VersionID E) (inst_Versions j) = None" using ids_fresh_version [OF fresh 2(2)] by (auto simp: find_None_iff)
    then have "the_version i (inst_ProposedVersionID i) = Some (proposed_version (ev_VersionID E) (to_UTC (ev_now E 0)) m)"
      using 2(3) by (simp add: the_version_def staged_versions staged_proposal find_append find_clone)
    then show ?thesis using backed [OF 2(1)] active [OF 2(2,3)] by (simp add: installation_backed_def)
  next
    case 3
    then show ?thesis using active [OF 3] by (simp add: installation_backed_def)
  qed
qed

text \<open>The installation that a completion writes.\<close>

lemma completed_backed:
  assumes inv: "reviewed X h r" and kept: "confirmations_kept r r'" and f: "completion_fenced r cpl = Inr (rec, i, rv, t)"
    and rec: "lookup (rx_lifecycles r') (cpl_InstallationID cpl) = Some rec'" "lfr_ConfirmationID rec' = lfr_ConfirmationID rec"
  shows "installation_backed r' (cpl_InstallationID cpl)
    ((if cpl_Success cpl then completed_installation (cpl_Operation cpl) i else failed_installation (cpl_Operation cpl) i)\<lparr>inst_Revision := n, inst_UpdatedAt := now\<rparr>)"
    (is "installation_backed r' ?k ?i")
proof -
  note facts = fenced_facts [OF f]
  have old: "installation_backed r ?k i" using inv facts(2) unfolding reviewed_def by blast
  have same: "map_option lfr_ConfirmationID (lookup (rx_lifecycles r') ?k) = map_option lfr_ConfirmationID (lookup (rx_lifecycles r) ?k)" using rec facts(1) by simp
  show ?thesis
  proof (cases "cpl_Success cpl \<and> cpl_Operation cpl \<noteq> OperationUninstall_x \<and> inst_ProposedVersionID i \<noteq> []")
    case True
    then have "inst_State i = StateInstalling \<or> inst_State i = StateUpdating" using facts(6) by auto
    then have "proposal_backed r ?k i" using old unfolding installation_backed_def by blast
    then obtain c v where cv: "lookup (rx_confirmations r) (cpl_ConfirmationID cpl) = Some c" "the_version i (inst_ProposedVersionID i) = Some v" "version_bound (c_Binding c) ?k v"
      unfolding proposal_backed_def using facts(1,3) by auto
    moreover from this(1) facts(5) have "c_State c = StateConsumed" by auto
    ultimately obtain c' where "lookup (rx_confirmations r') (cpl_ConfirmationID cpl) = Some c'" "c_Binding c' = c_Binding c" "c_State c' = StateConsumed"
      using kept unfolding confirmations_kept_def by blast
    moreover have "inst_ActiveVersionID ?i = inst_ProposedVersionID i" "inst_State ?i = StateInstalled"
      using True by (auto simp: completed_installation_def Let_def split: option.splits)
    moreover have "the_version ?i = the_version i" by (simp add: the_version_def fun_eq_iff)
    ultimately have "lookup (rx_confirmations r') (cpl_ConfirmationID cpl) = Some c' \<and> c_State c' = StateConsumed \<and> the_version ?i (inst_ActiveVersionID ?i) = Some v \<and> version_bound (c_Binding c') ?k v"
      using cv by simp
    then have "active_backed r' ?k ?i" unfolding active_backed_def by blast
    then show ?thesis using \<open>inst_State ?i = StateInstalled\<close> unfolding installation_backed_def by simp
  next
    case False
    show ?thesis
    proof (cases "cpl_Success cpl \<and> cpl_Operation cpl = OperationUninstall_x")
      case True
      then show ?thesis by (simp add: installation_backed_def completed_installation_def)
    next
      case other: False
      show ?thesis
        by (rule installation_backed_kept [OF old kept _ _ _ same]) (use False other in \<open>auto simp: completed_installation_def failed_installation_def split: if_splits\<close>)
    qed
  qed
qed

lemma answered_more: "answered X h k c \<Longrightarrow> answered X (h @ [x]) k c"
  unfolding answered_def by auto

lemma answered_moved [simp]: "answered X h k (moved_to st now v) = answered X h k v"
  by (simp add: answered_def)

lemma step_answered:
  assumes inv: "reviewed X h r" and step: "ext_step X U x r r'" and c: "lookup (rx_confirmations r') k = Some c" "c_State c \<noteq> StatePending"
  shows "answered X (h @ [x]) k c"
proof -
  have old: "answered X (h @ [x]) k c0" if "lookup (rx_confirmations r) k = Some c0" "c_State c0 \<noteq> StatePending" for c0
    using inv that answered_more unfolding reviewed_def by blast
  have keys: "ext_keys r" using inv unfolding reviewed_def by blast
  from step show ?thesis
  proof cases
    case (requests E m i op q tid wall rec now)
    then show ?thesis using c old unfolding core_eq by (auto split: if_splits)
  next
    case (confirms clk cmd v now)
    show ?thesis
    proof (cases "k = cf_ConfirmationID cmd")
      case True
      then have "c = moved_to StateConfirmed now v" using c confirms(6) ext_keysD(3) [OF keys confirms(2)] unfolding core_eq by simp
      then show ?thesis using True confirms(1,4) unfolding answered_def by auto
    next
      case False
      then show ?thesis using c old confirms(6) ext_keysD(3) [OF keys confirms(2)] unfolding core_eq by simp
    qed
  next
    case (consumes k0 v rv now)
    have "c_State v \<noteq> StatePending" using consumes(2) by simp
    then show ?thesis using c old [of v] old consumes(1,4) ext_keysD(3) [OF keys consumes(1)] unfolding core_eq by (auto split: if_splits)
  next
    case (expires k0 v now)
    have "c_State v \<noteq> StatePending" using expires(2) by simp
    then show ?thesis using c old [of v] old expires(1,3) ext_keysD(3) [OF keys expires(1)] unfolding core_eq by (auto split: if_splits)
  qed (use c old in \<open>auto simp: core_eq core_same\<close>)
qed

lemma step_backed:
  assumes inv: "reviewed X h r" and step: "ext_step X U x r r'" and i: "lookup (rx_items r') k = Some i'"
  shows "installation_backed r' k i'"
proof -
  have keys: "ext_keys r" using inv unfolding reviewed_def by blast
  note kept = step_keeps_confirmations [OF keys step]
  have old: "installation_backed r k i" if "lookup (rx_items r) k = Some i" for i using inv that unfolding reviewed_def by blast
  have same: "installation_backed r' k i'" if "lookup (rx_items r) k = Some i'" "lookup (rx_lifecycles r') k = lookup (rx_lifecycles r) k"
    by (rule installation_backed_kept [OF old kept]) (simp_all add: that)
  from step show ?thesis
  proof cases
    case (requests E m j op q tid wall rec now)
    note eqs = requests(7) [unfolded core_eq]
    show ?thesis
    proof (cases "k = inst_ID j")
      case True
      have "installation_backed r' (inst_ID j) (cloneInstallation j)"
        by (rule requested_backed [OF inv kept requests(1,2), of rec "install_confirmation (ev_ConfirmationID E) now (lfq_Confirmation q)"])
          (use eqs requests(3,6) in \<open>auto simp: record_for_def\<close>)
      then show ?thesis using True i eqs by simp
    next
      case False
      then show ?thesis using same i eqs by simp
    qed
  next
    case (completes cpl rec j rv t now rec')
    note eqs = completes(2) [unfolded core_eq]
    show ?thesis
    proof (cases "k = cpl_InstallationID cpl")
      case True
      have "lookup (rx_lifecycles r') (cpl_InstallationID cpl) = Some rec'" using eqs by simp
      from completed_backed [OF inv kept completes(1) this completes(3), where n = "wrap64 (inst_Revision j + 1)" and now = now] show ?thesis
        using i eqs unfolding True by (metis lookup_put option.inject)
    next
      case False
      then show ?thesis using same i eqs by simp
    qed
  next
    case (toggles k0 j now b)
    note eqs = toggles(3) [unfolded core_eq]
    show ?thesis
    proof (cases "k = inst_ID j")
      case True
      then have j: "lookup (rx_items r) k = Some j" using ext_keysD(2) [OF keys toggles(1)] toggles(1) by simp
      have i': "i' = j\<lparr>inst_Enabled := b, inst_Revision := wrap64 (inst_Revision j + 1), inst_UpdatedAt := now\<rparr>" using True i eqs by simp
      show ?thesis by (rule installation_backed_kept [OF old [OF j] kept]) (simp_all add: i' eqs)
    next
      case False
      then show ?thesis using same i eqs by simp
    qed
  qed (use same i in \<open>auto simp: core_eq core_same\<close>)
qed

lemma reviewed_step:
  assumes "reviewed X h r" and "ext_step X U x r r'"
  shows "reviewed X (h @ [x]) r'"
proof -
  have "ext_keys r'" using assms ext_keys_step unfolding reviewed_def by blast
  then show ?thesis using step_backed [OF assms] step_answered [OF assms] unfolding reviewed_def by simp
qed

text \<open>C34. Only confirmed contents become active. In every run of creations, updates, removals, confirmations, consumptions, completions and toggles on the extension repository in
  memory, with any fences written by the scheduler and new identifiers for every request, an installation has an active version only if a person
  confirmed it: the run has a \<open>ConfirmLifecycle\<close> for a confirmation that was then consumed, with a binding equal to that of the confirmation, which names this installation and has the content digest, the registry
  version and commit of the pin, the network grants and the secret grants of exactly that version.\<close>

theorem active_versions_were_confirmed:
  assumes "all_fresh X U cs NewMemoryRepository_x" and "lookup (rx_items (ext_run X U cs NewMemoryRepository_x)) k = Some i" and "inst_ActiveVersionID i \<noteq> []"
  shows "\<exists>v kc c clk cmd. the_version i (inst_ActiveVersionID i) = Some v \<and> lookup (rx_confirmations (ext_run X U cs NewMemoryRepository_x)) kc = Some c \<and> c_State c = StateConsumed
    \<and> version_bound (c_Binding c) k v \<and> XConfirm clk cmd \<in> set cs \<and> cf_ConfirmationID cmd = kc \<and> Binding_Equal X (c_Binding c) (cf_Binding cmd)"
proof -
  have start: "reviewed X [] NewMemoryRepository_x" by (simp add: reviewed_def ext_keys_new) (simp add: NewMemoryRepository_x_def)
  have "reviewed X cs (ext_run X U cs NewMemoryRepository_x)" using ext_run_invariant [of "reviewed X", OF reviewed_step start assms(1)] by simp
  then have inv: "active_backed (ext_run X U cs NewMemoryRepository_x) k i"
    "\<And>kc c. lookup (rx_confirmations (ext_run X U cs NewMemoryRepository_x)) kc = Some c \<Longrightarrow> c_State c \<noteq> StatePending \<Longrightarrow> answered X cs kc c"
    using assms(2,3) unfolding reviewed_def installation_backed_def by blast+
  from inv(1) obtain kc c v where cv: "lookup (rx_confirmations (ext_run X U cs NewMemoryRepository_x)) kc = Some c" "c_State c = StateConsumed"
    "the_version i (inst_ActiveVersionID i) = Some v" "version_bound (c_Binding c) k v" unfolding active_backed_def by blast
  moreover have "answered X cs kc c" using inv(2) [OF cv(1)] cv(2) by simp
  ultimately show ?thesis unfolding answered_def by blast
qed

end
