(* ===== verification/Extension_Outcome.thy ===== *)
theory Extension_Outcome
  imports Extension_Review
begin

text \<open>
  Stored installations are well formed in every run; a request takes effect at most once; and what the service adds to the repository: the artifact of an accepted request is the one that was reviewed, and
  a refused request leaves no artifact behind.
\<close>

section \<open>Well-formed installations\<close>

lemma version_ok_clone [simp]: "version_ok X U (cloneInstallation i) v = version_ok X U i v"
  by (simp add: version_ok_def cong: option.case_cong)

lemma SkillEntry_clone [simp]: "validSkill (s\<lparr>ske_Argv := clone_slice (ske_Argv s)\<rparr>) = validSkill s"
  by (simp add: validSkill_def)

lemma validStatic_clone [simp]: "validStatic (cloneStatic s) = validStatic s" "validNodeStatic (cloneStatic s) = validNodeStatic s" "ste_Runtime (cloneStatic s) = ste_Runtime s"
  "ste_RelativePath (cloneStatic s) = ste_RelativePath s" "ste_Digest (cloneStatic s) = ste_Digest s"
  by (simp_all add: validStatic_def validNodeStatic_def cloneStatic_def)

lemma execution_clone: "ExecutionDescriptor_Validate X U (ver_Execution (cloneVersion v)) k t = ExecutionDescriptor_Validate X U (ver_Execution v) k t"
  by (auto simp: ExecutionDescriptor_Validate_def cloneVersion_def split: Transport.splits option.splits)

lemma node_clone: "NodeArtifactReceipt_Validate X n c (ver_Execution (cloneVersion v)) d = NodeArtifactReceipt_Validate X n c (ver_Execution v) d"
  by (auto simp: NodeArtifactReceipt_Validate_def cloneVersion_def split: option.splits)

lemma version_ok_cloneVersion [simp]: "version_ok X U i (cloneVersion v) = version_ok X U i v"
proof -
  have "ver_ManifestDigest (cloneVersion v) = ver_ManifestDigest v" "ver_ExecutionDigest (cloneVersion v) = ver_ExecutionDigest v" "ver_NetworkSchemaDigest (cloneVersion v) = ver_NetworkSchemaDigest v"
    "ver_SecretSchemaDigest (cloneVersion v) = ver_SecretSchemaDigest v" "ver_NodeArtifact (cloneVersion v) = ver_NodeArtifact v" "ver_ArtifactCleanupToken (cloneVersion v) = ver_ArtifactCleanupToken v"
    "ver_ArtifactDigest (cloneVersion v) = ver_ArtifactDigest v" "ver_ArtifactPath (cloneVersion v) = ver_ArtifactPath v"
    by (simp_all add: cloneVersion_def)
  then show ?thesis unfolding version_ok_def execution_clone node_clone by (simp cong: option.case_cong)
qed

text \<open>What the validation reads of the fields that an operation changes.\<close>

definition same_facts :: "Installation \<Rightarrow> Installation \<Rightarrow> bool" where
  "same_facts i j \<longleftrightarrow> inst_ID i = inst_ID j \<and> inst_Candidate i = inst_Candidate j \<and> inst_Kind i = inst_Kind j \<and> inst_Source i = inst_Source j \<and> inst_CandidateID i = inst_CandidateID j
     \<and> inst_Name i = inst_Name j \<and> inst_Description i = inst_Description j \<and> inst_Transport i = inst_Transport j \<and> inst_Versions i = inst_Versions j"

definition live_part :: "ext \<Rightarrow> Installation \<Rightarrow> bool" where
  "live_part X i \<longleftrightarrow> 1 \<le> inst_Revision i \<and> validInstallState (inst_State i) \<and> (\<forall>g\<in>set (elems (inst_SecretGrants i)). SecretGrantDescriptor_Validate X g = None)
     \<and> ((inst_State i = StateInstalling \<or> inst_State i = StateUpdating) \<longrightarrow> inst_ProposedVersionID i \<noteq> []) \<and> (inst_State i = StateInstalled \<longrightarrow> inst_ActiveVersionID i \<noteq> [])"

lemma Validate_live: "Installation_Validate X U i = None \<Longrightarrow> live_part X i"
  by (auto simp: Installation_Validate_def live_part_def list_ex_iff split: if_splits)

lemma Validate_versions: "Installation_Validate X U i = None \<Longrightarrow> v \<in> set (inst_Versions i) \<Longrightarrow> version_ok X U i v"
  by (auto simp: Installation_Validate_def list_ex_iff split: if_splits)

lemma Validate_again:
  assumes "Installation_Validate X U j = None" and "same_facts i j" and "live_part X i"
  shows "Installation_Validate X U i = None"
proof -
  have "version_ok X U i v = version_ok X U j v" for v using assms(2) by (simp add: version_ok_def same_facts_def cong: option.case_cong)
  then show ?thesis using assms by (auto simp: Installation_Validate_def live_part_def same_facts_def list_ex_iff split: if_splits)
qed

lemma completed_live:
  assumes "Installation_Validate X U i = None" and "1 \<le> n"
  shows "live_part X ((completed_installation op i)\<lparr>inst_Revision := n, inst_UpdatedAt := now\<rparr>)"
proof -
  have "SecretGrantDescriptor_Validate X g = None"
    if "find (\<lambda>v. ver_VersionID v = inst_ProposedVersionID i) (inst_Versions i) = Some v" "g \<in> set (elems (ver_SecretGrants v))" for v g
    using Validate_versions [OF assms(1), of v] that by (auto simp: version_ok_def list_all_iff find_Some_iff)
  then show ?thesis using Validate_live [OF assms(1)] assms(2)
    by (auto simp: live_part_def completed_installation_def validInstallState_def Let_def split: option.splits)
qed

lemma failed_live: "Installation_Validate X U i = None \<Longrightarrow> 1 \<le> n \<Longrightarrow> live_part X ((failed_installation op i)\<lparr>inst_Revision := n, inst_UpdatedAt := now\<rparr>)"
  by (drule Validate_live) (auto simp: live_part_def failed_installation_def validInstallState_def)

lemma outcome_facts: "same_facts ((completed_installation op i)\<lparr>inst_Revision := n, inst_UpdatedAt := now\<rparr>) i" "same_facts ((failed_installation op i)\<lparr>inst_Revision := n, inst_UpdatedAt := now\<rparr>) i"
  by (auto simp: same_facts_def completed_installation_def failed_installation_def Let_def split: option.splits)

text \<open>An installation at revision \<open>n\<close> or below; every command adds at most one.\<close>

definition valid_upto :: "ext \<Rightarrow> xlib \<Rightarrow> nat \<Rightarrow> ExtRepository \<Rightarrow> bool" where
  "valid_upto X U n r \<longleftrightarrow> ext_keys r \<and> (\<forall>k i. lookup (rx_items r) k = Some i \<longrightarrow> Installation_Validate X U i = None \<and> inst_Revision i \<le> int n + 1)"

lemma next_revision: "1 \<le> inst_Revision i \<Longrightarrow> inst_Revision i \<le> int n + 1 \<Longrightarrow> n < 2 ^ 62 \<Longrightarrow> wrap64 (inst_Revision i + 1) = inst_Revision i + 1"
  by (rule wrap64_id) (simp_all add: max_int64_def)

lemma valid_step:
  assumes inv: "valid_upto X U n r" and step: "ext_step X U c r r'" and n: "n < 2 ^ 62"
  shows "valid_upto X U (Suc n) r'"
proof -
  have keys: "ext_keys r" using inv unfolding valid_upto_def by blast
  have old: "Installation_Validate X U i = None" "inst_Revision i \<le> int n + 1" "1 \<le> inst_Revision i" "wrap64 (inst_Revision i + 1) = inst_Revision i + 1" if "lookup (rx_items r) k = Some i" for k i
  proof -
    show v: "Installation_Validate X U i = None" "inst_Revision i \<le> int n + 1" using inv that unfolding valid_upto_def by auto
    then show one: "1 \<le> inst_Revision i" using Validate_live unfolding live_part_def by blast
    show "wrap64 (inst_Revision i + 1) = inst_Revision i + 1" by (rule next_revision [OF one v(2) n])
  qed
  have put: "valid_upto X U (Suc n) r'" if "rx_items r' = put k i' (rx_items r)" "Installation_Validate X U i' = None" "inst_Revision i' \<le> int n + 2" for k i'
    using that old(1,2) ext_keys_step [OF keys step] unfolding valid_upto_def by (fastforce split: if_splits)
  have same: "valid_upto X U (Suc n) r'" if "rx_items r' = rx_items r"
    using that old(1,2) ext_keys_step [OF keys step] unfolding valid_upto_def by fastforce
  from step show ?thesis
  proof cases
    case (requests E m i op q tid wall rec now)
    have "Installation_Validate X U (cloneInstallation i) = None" using requests(3,4) by (auto simp: request_ok_def Let_def)
    moreover have "inst_Revision i \<le> int n + 2" using requests(1) old(2,4) unfolding proposes_def by fastforce
    ultimately show ?thesis using put requests(7) unfolding core_eq by simp
  next
    case (completes cpl rec i rv t now rec')
    note f = fenced_facts [OF completes(1)]
    let ?i = "(if cpl_Success cpl then completed_installation (cpl_Operation cpl) i else failed_installation (cpl_Operation cpl) i)\<lparr>inst_Revision := wrap64 (inst_Revision i + 1), inst_UpdatedAt := now\<rparr>"
    have "Installation_Validate X U ?i = None"
      using Validate_again [OF old(1) [OF f(2)] outcome_facts(1) completed_live [OF old(1) [OF f(2)]]] Validate_again [OF old(1) [OF f(2)] outcome_facts(2) failed_live [OF old(1) [OF f(2)]]]
        old(3,4) [OF f(2)] by (cases "cpl_Success cpl") simp_all
    moreover have "inst_Revision ?i \<le> int n + 2" using old(2,4) [OF f(2)] by simp
    ultimately show ?thesis using put [of _ ?i] completes(2) unfolding core_eq by blast
  next
    case (toggles k i now b)
    let ?i = "i\<lparr>inst_Enabled := b, inst_Revision := wrap64 (inst_Revision i + 1), inst_UpdatedAt := now\<rparr>"
    have "Installation_Validate X U ?i = None"
      by (rule Validate_again [OF old(1) [OF toggles(1)]]) (use Validate_live [OF old(1) [OF toggles(1)]] old(3,4) [OF toggles(1)] in \<open>auto simp: same_facts_def live_part_def\<close>)
    moreover have "inst_Revision ?i \<le> int n + 2" using old(2,4) [OF toggles(1)] by simp
    ultimately show ?thesis using put [of _ ?i] toggles(3) unfolding core_eq by blast
  qed (use same in \<open>auto simp: core_eq core_same\<close>)
qed

text \<open>After any run of fewer than \<open>2^62\<close> commands every stored installation passes Installation.Validate.\<close>

theorem stored_installations_are_valid:
  assumes "all_fresh X U cs NewMemoryRepository_x" and "length cs < 2 ^ 62" and "lookup (rx_items (ext_run X U cs NewMemoryRepository_x)) k = Some i"
  shows "Installation_Validate X U i = None"
proof -
  define Inv where "Inv = (\<lambda>(h :: ext_command list) r. length h < 2 ^ 62 \<longrightarrow> valid_upto X U (length h) r)"
  have "Inv ([] @ cs) (ext_run X U cs NewMemoryRepository_x)"
  proof (rule ext_run_invariant [OF _ _ assms(1)])
    show "Inv h r \<Longrightarrow> ext_step X U c r r' \<Longrightarrow> Inv (h @ [c]) r'" for h c r r'
      using valid_step [of X U "length h" r c r'] unfolding Inv_def by simp
    show "Inv [] NewMemoryRepository_x" unfolding Inv_def by (simp add: valid_upto_def ext_keys_new) (simp add: NewMemoryRepository_x_def)
  qed
  then show ?thesis using assms(2,3) unfolding Inv_def valid_upto_def by simp
qed

section \<open>Completed once\<close>

definition request_spent :: "ExtRepository \<Rightarrow> string \<Rightarrow> bool" where
  "request_spent r k \<longleftrightarrow> ext_keys r \<and> (\<exists>c v. lookup (rx_confirmations r) k = Some c \<and> c_State c = StateConsumed \<and> lookup (rx_reservations r) k = Some v \<and> \<not> rv_Active v)"

lemma spent_step:
  assumes inv: "request_spent r k" and step: "ext_step X U x r r'"
  shows "request_spent r' k"
proof -
  from inv have keys: "ext_keys r" unfolding request_spent_def by blast
  from inv obtain c v where cv: "lookup (rx_confirmations r) k = Some c" "c_State c = StateConsumed" "lookup (rx_reservations r) k = Some v" "\<not> rv_Active v" unfolding request_spent_def by blast
  have "\<exists>c. lookup (rx_confirmations r') k = Some c \<and> c_State c = StateConsumed" using step_keeps_confirmations [OF keys step] cv(1,2) unfolding confirmations_kept_def by blast
  moreover from step have "\<exists>v. lookup (rx_reservations r') k = Some v \<and> \<not> rv_Active v"
  proof cases
    case (consumes k0 w rv now)
    then show ?thesis using cv ext_keysD(3) [OF keys consumes(1)] unfolding core_eq by (cases "k = k0") auto
  next
    case (completes cpl rec i rv t now rec')
    then show ?thesis using cv unfolding core_eq by auto
  qed (use cv in \<open>auto simp: core_eq core_same\<close>)
  ultimately show ?thesis using ext_keys_step [OF keys step] unfolding request_spent_def by blast
qed

lemma completion_spends:
  assumes "ext_keys r" and "fst (snd (CompleteLifecycle X U clock store r q)) \<noteq> r"
  shows "request_spent (fst (snd (CompleteLifecycle X U clock store r q))) (cpl_ConfirmationID q)"
proof -
  obtain d rec i rv t where d: "cpl_ConfirmationID d = cpl_ConfirmationID q" and f: "completion_fenced r d = Inr (rec, i, rv, t)"
    and e: "fst (snd (CompleteLifecycle X U clock store r q)) = fst (completion_write X (to_UTC clock) d rec i rv t r)"
    using assms(2) by (rule complete_changes)
  have "ext_keys (fst (snd (CompleteLifecycle X U clock store r q)))" by (rule ext_keys_step [OF assms(1) complete_step])
  moreover have "rv_ConfirmationID rv = cpl_ConfirmationID q" using ext_keysD(4) [OF assms(1) fenced_facts(4) [OF f]] d by simp
  ultimately show ?thesis using fenced_facts(5) [OF f] d unfolding request_spent_def e
    by (auto simp: completion_write_def Let_def)
qed

lemma spent_fenced: "request_spent r (cpl_ConfirmationID d) \<Longrightarrow> \<exists>e. completion_fenced r d = Inl e"
proof (cases "completion_fenced r d")
  case (Inr b)
  then obtain rec i rv t where "completion_fenced r d = Inr (rec, i, rv, t)" by (cases b) auto
  then show "request_spent r (cpl_ConfirmationID d) \<Longrightarrow> ?thesis" using fenced_facts(4,7) [of r d rec i rv t] by (auto simp: request_spent_def)
qed simp

text \<open>C40. A lifecycle operation takes effect once. In every run of creations, updates, removals, confirmations, consumptions, completions and toggles on the extension repository in
  memory, with any fences written by the scheduler and new identifiers for every request, once a completion has changed the repository, no later completion
  for the same confirmation, whatever else it carries and whatever runs in between, changes the repository or asks the store to remove an artifact.\<close>

theorem lifecycle_completes_once:
  assumes "all_fresh X U before NewMemoryRepository_x" and "r = ext_run X U before NewMemoryRepository_x"
    and "CompleteLifecycle X U clock store r q = (removed, r1, res)" and "r1 \<noteq> r"
    and "all_fresh X U after r1" and "cpl_ConfirmationID q' = cpl_ConfirmationID q"
  shows "fst (CompleteLifecycle X U clock' store' (ext_run X U after r1) q') = [] \<and> fst (snd (CompleteLifecycle X U clock' store' (ext_run X U after r1) q')) = ext_run X U after r1"
proof -
  have "ext_keys r" unfolding assms(2) by (rule ext_run_keeps [where I = ext_keys, OF ext_keys_step ext_keys_new assms(1)])
  then have start: "request_spent r1 (cpl_ConfirmationID q)" using completion_spends [of r X U clock store q] assms(3,4) by simp
  have spent: "request_spent (ext_run X U after r1) (cpl_ConfirmationID q')" unfolding assms(6)
    by (rule ext_run_keeps [where I = "\<lambda>r. request_spent r (cpl_ConfirmationID q)", OF spent_step start assms(5)])
  show ?thesis
  proof (cases "failure_filled q'")
    case (Inr d)
    then have "cpl_ConfirmationID d = cpl_ConfirmationID q'" by (auto simp: failure_filled_def split: if_splits)
    with spent spent_fenced [of "ext_run X U after r1" d] obtain e where "completion_fenced (ext_run X U after r1) d = Inl e" by auto
    then show ?thesis using Inr by (auto simp: CompleteLifecycle_def split: option.splits)
  qed (simp add: CompleteLifecycle_def)
qed

end
