(* ===== verification/Extension_Artifacts.thy ===== *)
theory Extension_Artifacts
  imports Extension_Outcome
begin

text \<open>
  What the service adds to the repository: the artifact of an accepted request is the one whose inspection the owner reviewed, its secrets are the ones that came with the request, and a refused request
  leaves no artifact behind.
\<close>

section \<open>Preparation\<close>

definition reviewed_artifact :: "ext \<Rightarrow> xlib \<Rightarrow> Mutation \<Rightarrow> FetchArtifact \<Rightarrow> bool" where
  "reviewed_artifact X U m f \<longleftrightarrow> FetchArtifact_Validate X U f = None \<and> fa_Candidate f = mut_Candidate m \<and> equalInspection (fa_Inspection f) (canonicalInspection (mut_Inspection m))
     \<and> fa_ContentDigest f = insp_ContentDigest (mut_Inspection m)"

lemma canonical_fields [simp]: "insp_ContentDigest (canonicalInspection i) = insp_ContentDigest i" "insp_Candidate (canonicalInspection i) = insp_Candidate i"
  "elems (insp_SecretGrants (canonicalInspection i)) = elems (insp_SecretGrants i)"
  by (simp_all add: canonicalInspection_def fresh_slice_def)

lemma fetched_reviewed: "fetched X U a (m\<lparr>mut_Inspection := canonicalInspection (mut_Inspection m)\<rparr>) = Inr f \<Longrightarrow> reviewed_artifact X U m f"
  by (auto simp: fetched_def rbind_def reviewed_artifact_def equalCandidate_eq Let_def split: sum.splits if_splits)

lemma after_materialize_Inr: "after_materialize X bind f bound receipt m = Inr m1 \<Longrightarrow> m1 = received_x f bound receipt m \<and> rcp_RelativePath receipt \<noteq> []"
  by (auto simp: after_materialize_def rbind_def Let_def split: sum.splits if_splits)

definition prepared_ok :: "ext \<Rightarrow> xlib \<Rightarrow> ext_service \<Rightarrow> Mutation \<Rightarrow> store_call_x list \<Rightarrow> Mutation \<Rightarrow> ArtifactReceipt \<Rightarrow> bool" where
  "prepared_ok X U s m calls m1 receipt \<longleftrightarrow> mut_Candidate m = insp_Candidate (mut_Inspection m) \<and> (\<exists>materialize f bound. esv_Materialize s = Some materialize \<and> materialize f = Inr receipt \<and> reviewed_artifact X U m f \<and> calls = [Materialized f]
     \<and> rcp_RelativePath receipt \<noteq> [] \<and> m1 = received_x f bound receipt (m\<lparr>mut_Inspection := canonicalInspection (mut_Inspection m)\<rparr>))"

text \<open>The calls on the artifact store of a refused request: none, a materialization that failed, or one that is taken back.\<close>

definition nothing_left :: "ext_service \<Rightarrow> store_call_x list \<Rightarrow> bool" where
  "nothing_left s calls \<longleftrightarrow> calls = [] \<or> (\<exists>materialize f. esv_Materialize s = Some materialize \<and>
     ((\<exists>e. materialize f = Inl e \<and> calls = [Materialized f]) \<or> (\<exists>receipt. materialize f = Inr receipt \<and> calls = [Materialized f, Removed receipt])))"

lemma prepare_Inr:
  assumes "prepareMutation X U s r m = (calls, Inr (m1, receipt))"
  shows "prepared_ok X U s m calls m1 receipt"
  using assms unfolding prepareMutation_def Let_def
  by (fastforce simp: prepared_ok_def rbind_def equalCandidate_eq dest: fetched_reviewed after_materialize_Inr split: option.splits sum.splits if_splits)

lemma prepare_Inl: "prepareMutation X U s r m = (calls, Inl e) \<Longrightarrow> nothing_left s calls"
  unfolding prepareMutation_def Let_def by (auto simp: nothing_left_def split: option.splits sum.splits if_splits)

section \<open>Refused requests\<close>

lemma CreateMutation_refused: "CreateMutation X U E r m = (r', Inl e) \<Longrightarrow> r' = r"
  by (auto simp: CreateMutation_def Let_def dest: request_error split: option.splits if_splits prod.splits sum.splits)

lemma UpdateMutation_refused: "UpdateMutation X U E r m st = (r', Inl e) \<Longrightarrow> r' = r"
  by (auto simp: UpdateMutation_def Let_def dest: request_error split: option.splits if_splits prod.splits sum.splits)

lemma prepared_refused: "prepared_ok X U s m calls m1 receipt \<Longrightarrow> with_removal calls receipt (r1, Inl e) = (calls', res) \<Longrightarrow> nothing_left s calls' \<and> res = (r1, Inl e)"
  by (auto simp: prepared_ok_def with_removal_def nothing_left_def)

text \<open>What the service needs of a method of the repository that takes a mutation: with an error it has changed nothing.\<close>

locale refusing_method =
  fixes act :: "ExtRepository \<Rightarrow> Mutation \<Rightarrow> MutationResult xr"
  assumes refused: "act r m = (r', Inl e) \<Longrightarrow> r' = r"
begin

lemma leaves_nothing:
  assumes "prepareMutation X U s r m = (calls0, Inr (m1, receipt))" "with_removal calls0 receipt (act r m1) = (calls, r', Inl e)"
  shows "r' = r \<and> nothing_left s calls"
proof (cases "snd (act r m1)")
  case (Inl e1)
  then have res: "act r m1 = (fst (act r m1), Inl e1)" by (metis prod.collapse)
  from prepared_refused [OF prepare_Inr [OF assms(1)], of "fst (act r m1)" e1] assms(2) res show ?thesis using refused by (metis prod.inject)
next
  case (Inr b)
  then show ?thesis using assms(2) by (auto simp: with_removal_def)
qed

end

interpretation creating: refusing_method "CreateMutation X U E" for X U E
  by unfold_locales (rule CreateMutation_refused)

interpretation updating: refusing_method "\<lambda>r m. UpdateMutation X U E r m StateUpdating" for X U E
  by unfold_locales (rule UpdateMutation_refused)

text \<open>A request for an installation or an update that is refused leaves the repository as it was, and nothing in the artifact store: the store is asked to remove again what it materialized. (The service drops the error of
  that removal.)\<close>

theorem refused_requests_leave_nothing:
  assumes "RequestInstall X U E s r m = (calls, r', Inl e) \<or> RequestUpdate X U E s r m = (calls, r', Inl e)"
  shows "r' = r \<and> nothing_left s calls"
proof (cases "snd (prepareMutation X U s r m)")
  case (Inl e0)
  then have "prepareMutation X U s r m = (fst (prepareMutation X U s r m), Inl e0)" by (metis prod.collapse)
  with prepare_Inl [OF this] assms show ?thesis by (auto simp: RequestInstall_def RequestUpdate_def split: prod.splits sum.splits)
next
  case (Inr mr)
  then obtain calls0 m1 receipt where p: "prepareMutation X U s r m = (calls0, Inr (m1, receipt))" by (metis prod.collapse)
  show ?thesis using assms unfolding RequestInstall_def RequestUpdate_def p prod.case sum.case
    by (elim disjE) (erule creating.leaves_nothing [OF p], erule updating.leaves_nothing [OF p])
qed

section \<open>Accepted requests\<close>

lemma grant_keys_bound: "grant_keys X k inputs gs seen left = Some out \<Longrightarrow> g \<in> set gs \<Longrightarrow> \<exists>i\<in>set inputs. bound_input X g i"
  by (induction gs arbitrary: seen left) (auto simp: Let_def list_ex_iff split: if_splits)

lemma secrets_bound: "validateSecretInputs X m = None \<Longrightarrow> g \<in> set (elems (insp_SecretGrants (mut_Inspection m))) \<Longrightarrow> \<exists>i\<in>set (mut_SecretInputs m). bound_input X g i"
  by (auto simp: validateSecretInputs_def Let_def split: option.splits if_splits dest: grant_keys_bound)

lemma CreateMutation_accepted:
  assumes "CreateMutation X U E r m = (r', Inr res)" and "lookup (rx_replay r) (mut_IdempotencyKey m) = None"
  shows "mres_Installation res = cloneInstallation (new_installation E (to_UTC (ev_now E 0)) m)" and "validateSecretInputs X m = None"
  using assms by (auto simp: CreateMutation_def Let_def replayLocked_x_def split: option.splits if_splits prod.splits sum.splits)

text \<open>An accepted request for an installation that is no replay materialized exactly one artifact: the one whose inspection the owner reviewed. The version it proposes has the digest of the fetched bytes,
  the reviewed pin and a place in the store, and every secret it grants is the fingerprint of a value that came with the request.\<close>

theorem accepted_installs_are_reviewed:
  assumes "RequestInstall X U E s r m = (calls, r', Inr res)" and "lookup (rx_replay r) (mut_IdempotencyKey m) = None"
  shows "\<exists>f v. calls = [Materialized f] \<and> reviewed_artifact X U m f \<and> inst_Versions (mres_Installation res) = [v] \<and> ver_ContentDigest v = sha256_hex X (fa_Content f)
    \<and> ver_Pin v = cand_Pin (mut_Candidate m) \<and> ver_ArtifactPath v \<noteq> [] \<and> (\<forall>g\<in>set (elems (ver_SecretGrants v)). \<exists>i\<in>set (mut_SecretInputs m). bound_input X g i)"
proof -
  obtain calls0 m1 receipt where p: "prepareMutation X U s r m = (calls0, Inr (m1, receipt))"
    using assms(1) by (auto simp: RequestInstall_def split: prod.splits sum.splits)
  from prepare_Inr [OF p] have cand: "mut_Candidate m = insp_Candidate (mut_Inspection m)" by (simp add: prepared_ok_def)
  from prepare_Inr [OF p] obtain f bound where f: "reviewed_artifact X U m f" "calls0 = [Materialized f]" "rcp_RelativePath receipt \<noteq> []"
    "m1 = received_x f bound receipt (m\<lparr>mut_Inspection := canonicalInspection (mut_Inspection m)\<rparr>)" unfolding prepared_ok_def by blast
  have "with_removal calls0 receipt (CreateMutation X U E r m1) = (calls, r', Inr res)" using assms(1) p by (simp add: RequestInstall_def)
  then have c: "CreateMutation X U E r m1 = (r', Inr res)" "calls = calls0" by (auto simp: with_removal_def split: sum.splits)
  have key: "lookup (rx_replay r) (mut_IdempotencyKey m1) = None" using assms(2) by (simp add: f(4) received_x_def)
  let ?v = "cloneVersion (proposed_version (ev_VersionID E) (to_UTC (ev_now E 0)) m1)"
  have "inst_Versions (mres_Installation res) = [?v]" by (simp add: CreateMutation_accepted(1) [OF c(1) key])
  moreover have "ver_ContentDigest ?v = sha256_hex X (fa_Content f)" "ver_Pin ?v = cand_Pin (mut_Candidate m)"
    using f(1) cand by (auto simp: f(4) received_x_def proposed_version_def versionFromInspection_def reviewed_artifact_def FetchArtifact_Validate_def equalInspection_def equalCandidate_eq split: if_splits)
  moreover have "ver_ArtifactPath ?v \<noteq> []" using f(3) by (simp add: f(4) received_x_def proposed_version_def cloneVersion_def)
  moreover have "\<exists>i\<in>set (mut_SecretInputs m). bound_input X g i" if "g \<in> set (elems (ver_SecretGrants ?v))" for g
  proof -
    from that obtain g0 where "g0 \<in> set (elems (insp_SecretGrants (mut_Inspection m1)))" "g = g0\<lparr>sgd_Configured := True\<rparr>"
      by (auto simp: proposed_version_def versionFromInspection_def)
    with secrets_bound [OF CreateMutation_accepted(2) [OF c(1) key]] obtain i where "i \<in> set (mut_SecretInputs m1)" "bound_input X g i" by (fastforce simp: bound_input_def)
    then show ?thesis by (auto simp: f(4) received_x_def)
  qed
  ultimately show ?thesis using f(1,2) c(2) by blast
qed

end
