(* ===== verification/Extension_Example.thy ===== *)
theory Extension_Example
  imports Extension_Artifacts Confirm_Example
begin

text \<open>
  An installation from its request to its completion, on instances of the parameters with short identifiers and one digest.
\<close>

definition xe :: ext where
  "xe = ex\<lparr>uuid_Parse := (\<lambda>s. if s = [] then None else Some uuid_Nil), json_Marshal := (\<lambda>_. []), time_text := (\<lambda>_. []), Sum256 := (\<lambda>_. replicate 32 0)\<rparr>"

definition xu :: xlib where
  "xu = \<lparr>url_Parse = (\<lambda>_. None), ParseIP = (\<lambda>_. False), NewSHA1_URL = (\<lambda>_. ''t'')\<rparr>"

definition xz :: string where "xz = replicate 64 CHR ''0''"

definition x_candidate :: Candidate where
  "x_candidate = \<lparr>cand_ID = ''c'', cand_Kind = KindSkill, cand_Source = SourceSkillsSh, cand_Name = ''n'', cand_Description = [],
     cand_Pin = \<lparr>pin_RegistryVersion = ''1'', pin_RegistrySHA256 = xz, pin_GitCommit = [], pin_GitSHA256 = []\<rparr>, cand_Transport = TransportSkillStatic\<rparr>"

definition x_inspection :: Inspection where
  "x_inspection = \<lparr>insp_Candidate = x_candidate, insp_ContentDigest = xz, insp_ManifestDigest = xz, insp_ExecutionDigest = xz, insp_NetworkSchemaDigest = xz, insp_SecretSchemaDigest = xz,
     insp_Execution = \<lparr>exd_Stdio = None, exd_Remote = None, exd_Skill = Some \<lparr>ske_RelativePath = ''s'', ske_Digest = xz, ske_Executable = False, ske_Argv = Some []\<rparr>\<rparr>,
     insp_NetworkGrants = Some [], insp_SecretGrants = Some []\<rparr>"

definition x_mutation :: Mutation where
  "x_mutation = \<lparr>mut_IdempotencyKey = ''k'', mut_InstallationID = [], mut_ExpectedRevision = 0, mut_Candidate = x_candidate, mut_Inspection = x_inspection, mut_SecretInputs = [],
     mut_ArtifactPath = ''p'', mut_ArtifactDigest = xz, mut_ArtifactCleanupToken = ''t'', mut_NodeArtifact = None\<rparr>"

definition x_env :: ext_env where
  "x_env = \<lparr>ev_InstallationID = ''i'', ev_VersionID = ''v'', ev_TaskID = ''u'', ev_ConfirmationID = ''f'', ev_now = (\<lambda>_. ex_time 100), ev_wall = ex_time 100, ev_failpoint = None\<rparr>"

definition x_new :: Installation where "x_new = new_installation x_env (ex_time 100) x_mutation"

definition x_query :: LifecycleRequest where "x_query = lifecycleFor xe ''u'' (ex_time 100) x_mutation x_new OperationInstall_x"

definition x_binding :: Binding where "x_binding = lifecycle_binding xe x_mutation x_new OperationInstall_x"

definition x_confirm :: ConfirmCommand where
  "x_confirm = \<lparr>cf_ConfirmationID = ''f'', cf_IdempotencyKey = ''k'', cf_RequestDigest = [], cf_ExpectedRevision = 1, cf_Binding = x_binding, cf_At = ex_time 200, cf_ResolveBinding = None\<rparr>"

definition x_consume :: ConsumeCommand where
  "x_consume = \<lparr>cs_ConfirmationID = ''f'', cs_IdempotencyKey = ''k'', cs_RequestDigest = [], cs_TaskID = ''u'', cs_Attempt = 1, cs_LeaseEpoch = 1, cs_ExpectedRevision = 2, cs_ExpectedTaskRevision = 2,
     cs_Binding = x_binding, cs_At = ex_time 300, cs_ResolveBinding = None, cs_ResolveTaskFence = None\<rparr>"

definition x_running :: TaskFence where
  "x_running = \<lparr>tf_TaskID = ''u'', tf_State = ''running'', tf_FailureCode = [], tf_InstallationID = [], tf_ConfirmationID = [], tf_Attempt = 1, tf_LeaseEpoch = 1, tf_Revision = 2\<rparr>"

definition x_completion :: Completion where
  "x_completion = \<lparr>cpl_InstallationID = ''i'', cpl_Operation = OperationInstall_x, cpl_ConfirmationID = ''f'', cpl_TaskID = ''u'', cpl_Attempt = 1, cpl_LeaseEpoch = 1, cpl_AcquiredTaskRevision = 2,
     cpl_TerminalAttempt = 1, cpl_TerminalLeaseEpoch = 1, cpl_TerminalTaskRevision = 3, cpl_ExpectedRevision = 1, cpl_OutcomeDigest = xz, cpl_Success = True, cpl_FailureCode = [], cpl_FailureSummary = []\<rparr>"

definition x_before :: "ext_command list" where
  "x_before = [XCreate x_env x_mutation, XConfirm (\<lambda>_. ex_time 200) x_confirm, XFence x_running, XConsume (\<lambda>_. ex_time 300) x_consume, XTerminal ''u'' 1 1 3]"

definition x_run :: "ext_command list" where "x_run = x_before @ [XComplete (ex_time 400) None x_completion]"

section \<open>Evaluation\<close>

lemma xe_sha [simp]: "sha256_hex xe s = xz"
proof -
  have "sha256_hex xe s = concat (map hex_byte (replicate 32 0))" by (simp add: sha256_hex_def xe_def hex_EncodeToString_def)
  then show ?thesis by (simp only:) code_simp
qed

lemma xe_digest [simp]: "canonicalDigest xe v = xz"
  by (simp add: canonicalDigest_def)

lemma xz_valid [simp]: "validDigest xz" "Digest_Valid xe xz" "TrimSpace xz = xz"
proof -
  have "lower_hex64 xz" by code_simp
  then show "validDigest xz" "Digest_Valid xe xz" "TrimSpace xz = xz" by (simp_all add: validDigest_def lower_hex64_def Digest_Valid_iff)
qed

lemma x_letters [simp]: "c \<in> set ''ifuvktcn1'' \<Longrightarrow> TrimSpace [c] = [c]"
  by (intro TrimSpace_printable) (auto simp: printable_def)

lemma xe_uuid [simp]: "c \<in> set ''ifuvktcn1'' \<Longrightarrow> validUUID_x xe [c]"
  by (simp add: validUUID_x_def xe_def del: set_simps)

lemma x_new_fields [simp]: "inst_ID x_new = ''i''" "inst_Revision x_new = 1" "inst_State x_new = StateInstalling" "inst_ProposedVersionID x_new = ''v''" "inst_ActiveVersionID x_new = []"
    "inst_Versions x_new = [proposed_version ''v'' (ex_time 100) x_mutation]"
  by (simp_all add: x_new_def new_installation_def x_env_def Let_def proposed_version_def versionFromInspection_def)

lemma x_parts: "SourcePin_Validate (cand_Pin x_candidate) = None" "validSkill \<lparr>ske_RelativePath = ''s'', ske_Digest = xz, ske_Executable = False, ske_Argv = Some []\<rparr>"
    "Candidate_Validate xe x_candidate = None"
  by code_simp+

lemma x_candidate_fields [simp]: "cand_Kind x_candidate = KindSkill" "cand_Transport x_candidate = TransportSkillStatic" "cand_Source x_candidate = SourceSkillsSh" "cand_ID x_candidate = ''c''"
    "cand_Name x_candidate = ''n''" "cand_Description x_candidate = []"
  by (simp_all add: x_candidate_def)

lemma x_execution_ok: "ExecutionDescriptor_Validate xe xu (insp_Execution x_inspection) KindSkill TransportSkillStatic = None"
  using x_parts(2) by (simp add: ExecutionDescriptor_Validate_def x_inspection_def)

lemma x_inspection_ok: "Inspection_Validate xe xu x_inspection = None"
  using x_parts(3) x_execution_ok by (simp add: Inspection_Validate_def x_inspection_def)

lemma x_mutation_ok [simp]: "mutation_ok xe xu x_mutation" "validateSecretInputs xe x_mutation = None"
  using x_parts(3) x_inspection_ok
  by (simp_all add: mutation_ok_def equalCandidate_eq x_mutation_def ValidateArtifactReceipt_def validateSecretInputs_def) (simp_all add: x_inspection_def)

lemma xz_some [simp]: "xz \<noteq> []"
  by (simp add: xz_def)

lemma x_version_ok: "version_ok xe xu x_new (proposed_version ''v'' (ex_time 100) x_mutation)"
  using x_parts(1,2) by (simp add: version_ok_def proposed_version_def versionFromInspection_def x_mutation_def x_inspection_def x_new_def new_installation_def Let_def
      ExecutionDescriptor_Validate_def cloneExecution_def clone_slice_def)

lemma x_new_ok: "Installation_Validate xe xu (cloneInstallation x_new) = None"
proof -
  show ?thesis using x_version_ok x_parts(3)
    by (simp add: Installation_Validate_def) (simp add: x_new_def new_installation_def x_mutation_def x_env_def Let_def, simp add: validKindSource_def validInstallState_def validTransport_def)
qed

lemma x_binding_fields: "b_OperationDomain x_binding = ''extension''" "b_TargetID x_binding = ''i''" "b_TargetRevision x_binding = 1"
  by (simp_all add: x_binding_def lifecycle_binding_def split: prod.splits)

lemma x_binding_form: "x_binding = zero_binding\<lparr>b_OperationDomain := ''extension'', b_TargetID := ''i'', b_TargetRevision := 1, b_SourceVersion := ''1'', b_ContentDigest := xz, b_ParameterDigest := xz,
    b_NetworkDigest := xz, b_SecretGrantDigest := xz\<rparr>"
proof -
  have "pin_RegistryVersion (cand_Pin x_candidate) = ''1''" "pin_GitCommit (cand_Pin x_candidate) = []" by (simp_all add: x_candidate_def)
  then show ?thesis by (simp add: x_binding_def lifecycle_binding_def lifecycleDigests_def Let_def x_mutation_def x_inspection_def zero_binding_def clone_slice_def)
qed

lemma x_binding_equal [simp]: "Binding_Equal xe x_binding x_binding"
proof -
  have "TrimSpace ''extension'' = ''extension''" by (simp add: TrimSpace_printable printable_def)
  then have "\<exists>b. Binding_normalized xe x_binding = Inr b"
    by (simp add: x_binding_form zero_binding_def Binding_normalized_def binding_trim_def cloudFields_def binding_base_ok_def owner_ok_def Let_def normalizeGrantList_def normalizeSecretGrantList_def)
  then show ?thesis by (auto simp: Binding_Equal_def)
qed

lemma x_query_fields [simp]: "lfq_Installation x_query = cloneInstallation x_new" "lfq_Operation x_query = OperationInstall_x" "rq_Binding (lfq_Confirmation x_query) = x_binding"
    "tkr_IdempotencyKey (lfq_Task x_query) = ''k''" "tkr_TaskID (lfq_Task x_query) = ''u''" "tkr_TargetID (lfq_Task x_query) = ''i''" "tkr_ExpectedRevision (lfq_Task x_query) = 1"
    "rq_TaskID (lfq_Confirmation x_query) = ''u''" "rq_RequestDigest (lfq_Confirmation x_query) = xz" "rq_ExpiresAt (lfq_Confirmation x_query) = ex_time 3700"
  by (simp_all add: x_query_def x_binding_def) (simp_all add: lifecycleFor_def Let_def x_mutation_def requestCommandDigest_def ex_time_def to_UTC_def time_Add_def Hour_def Minute_def Second_def)

lemma x_request_ok: "request_ok xe xu x_query"
  by (simp add: request_ok_def Let_def x_new_ok x_binding_fields)

section \<open>The states of the run\<close>

definition x_conf :: "State \<Rightarrow> int \<Rightarrow> int \<Rightarrow> Confirmation" where
  "x_conf st n t = (install_confirmation ''f'' (ex_time 100) (lfq_Confirmation x_query))\<lparr>c_State := st, c_Revision := n, c_UpdatedAt := ex_time t\<rparr>"

definition x_task :: "string \<Rightarrow> int \<Rightarrow> ExtTask" where
  "x_task st n = zero_ext_task\<lparr>xt_ID := ''u'', xt_State := st, xt_Revision := n\<rparr>"

definition x_result :: MutationResult where
  "x_result = \<lparr>mres_Installation = cloneInstallation x_new, mres_ConfirmationID = ''f'', mres_TaskID = ''u''\<rparr>"

definition x_r1 :: ExtRepository where
  "x_r1 = NewMemoryRepository_x\<lparr>rx_tasks := [(''u'', x_task ''waiting_user'' 1)], rx_confirmations := [(''f'', x_conf StatePending 1 100)], rx_order := [''i''],
     rx_items := [(''i'', cloneInstallation x_new)], rx_lifecycles := [(''i'', lifecycleRecordFrom xe x_query x_result)],
     rx_lifecycleReplay := [(''k'', \<lparr>lrp_digest = xz, lrp_result = x_result, lrp_confirmation = zero_confirmation, lrp_task = zero_ext_task, lrp_err = None\<rparr>)],
     rx_replay := [(''k'', \<lparr>rpm_digest = xz, rpm_requestDigest = xz, rpm_result = x_result\<rparr>)]\<rparr>"

lemma ex_time_later [simp]: "After (ex_time a) (ex_time b) \<longleftrightarrow> b < a" "to_UTC (ex_time a) = ex_time a" "InUTC (ex_time a)" "0 < a \<Longrightarrow> \<not> IsZero (ex_time a)"
  by (simp_all add: ex_time_def After_def to_UTC_def InUTC_def IsZero_def Second_def)

lemma x_step1: "CreateMutation xe xu x_env NewMemoryRepository_x x_mutation = (x_r1, Inr x_result)"
proof -
  have e: "ev_now x_env = (\<lambda>_. ex_time 100)" "ev_wall x_env = ex_time 100" "ev_TaskID x_env = ''u''" "ev_ConfirmationID x_env = ''f''" "ev_failpoint x_env = None" by (simp_all add: x_env_def)
  have k: "mut_IdempotencyKey x_mutation = ''k''" by (simp add: x_mutation_def)
  have d: "mutationDigest xe x_mutation = xz" "lifecycleRequestDigest xe x_query = xz" by (simp_all add: mutationDigest_def lifecycleRequestDigest_def Let_def)
  have c: "install_confirmation ''f'' (ex_time 100) ((lfq_Confirmation x_query)\<lparr>rq_TaskID := ''u''\<rparr>) = x_conf StatePending 1 100"
    by (simp add: x_conf_def install_confirmation_def)
  have "requestLifecycleLocked xe xu ''f'' (ex_time 100) None NewMemoryRepository_x x_query = (x_r1\<lparr>rx_replay := []\<rparr>, Inr x_result)"
    using x_request_ok by (simp add: requestLifecycleLocked_def Let_def c d)
      (simp add: x_r1_def NewMemoryRepository_x_def any_entry_def put_def x_task_def x_result_def lookup_def Let_def c)
  moreover have "lookup (rx_replay NewMemoryRepository_x) ''k'' = None" by (simp add: NewMemoryRepository_x_def)
  ultimately show ?thesis
    by (simp add: CreateMutation_def k replayLocked_x_def Let_def e d x_new_def [symmetric] x_query_def [symmetric])
      (simp add: x_r1_def x_result_def put_def)
qed

definition x_r2 :: ExtRepository where
  "x_r2 = x_r1\<lparr>rx_tasks := [(''u'', x_task ''queued'' 2)], rx_confirmations := [(''f'', x_conf StateConfirmed 2 200)],
     rx_lifecycleReplay := rx_lifecycleReplay x_r1 @ [(''confirm:k'', \<lparr>lrp_digest = xz, lrp_result = only_confirmation ''f'', lrp_confirmation = x_conf StateConfirmed 2 200, lrp_task = zero_ext_task,
       lrp_err = None\<rparr>)]\<rparr>"

definition x_held :: ExtTask where "x_held = (x_task ''running'' 2)\<lparr>xt_Attempt := 1, xt_LeaseEpoch := 1\<rparr>"

definition x_r3 :: ExtRepository where "x_r3 = x_r2\<lparr>rx_tasks := [(''u'', x_held)]\<rparr>"

definition x_reservation :: Reservation where
  "x_reservation = \<lparr>rv_ConfirmationID = ''f'', rv_TaskID = ''u'', rv_AcquiredAttempt = 1, rv_AcquiredLeaseEpoch = 1, rv_TaskRevision = 2, rv_Active = True\<rparr>"

definition x_r4 :: ExtRepository where
  "x_r4 = x_r3\<lparr>rx_confirmations := [(''f'', x_conf StateConsumed 3 300)], rx_reservations := [(''f'', x_reservation)],
     rx_lifecycleReplay := rx_lifecycleReplay x_r3 @ [(''consume:k'', \<lparr>lrp_digest = xz, lrp_result = only_confirmation ''f'', lrp_confirmation = x_conf StateConsumed 3 300, lrp_task = zero_ext_task,
       lrp_err = None\<rparr>)]\<rparr>"

definition x_ending :: ExtTask where "x_ending = x_held\<lparr>xt_TerminalAttempt := 1, xt_TerminalLeaseEpoch := 1, xt_TerminalRevision := 3\<rparr>"

definition x_r5 :: ExtRepository where "x_r5 = x_r4\<lparr>rx_tasks := [(''u'', x_ending)]\<rparr>"

lemmas x_states = x_r1_def x_r2_def x_r3_def x_r4_def x_r5_def NewMemoryRepository_x_def lookup_def put_def

lemma x_conf_fields [simp]: "c_ConfirmationID (x_conf st n t) = ''f''" "c_State (x_conf st n t) = st" "c_Revision (x_conf st n t) = n" "c_Binding (x_conf st n t) = x_binding"
    "c_TaskID (x_conf st n t) = ''u''" "c_ExpiresAt (x_conf st n t) = ex_time 3700" "moved_to st' (ex_time t') (x_conf st n t) = x_conf st' (wrap64 (n + 1)) t'"
  by (simp_all add: x_conf_def) (simp_all add: install_confirmation_def moved_to_def)

lemma x_step2: "ConfirmLifecycle xe (\<lambda>_. ex_time 200) x_r1 x_confirm = (x_r2, Inr (x_conf StateConfirmed 2 200))"
  by (simp add: ConfirmLifecycle_def Let_def x_confirm_def confirm_digest_def replayed_lifecycle_def)
    (simp add: x_states x_task_def wrap64_def Let_def put_lifecycle_replay_def put_ext_task_def put_confirmation_x_def zero_ext_task_def)

lemma x_step3: "SetTaskFence_x x_running x_r2 = x_r3"
  by (simp add: SetTaskFence_x_def x_running_def x_r3_def x_held_def x_task_def) (simp add: x_states)

lemma x_step4: "ConsumeLifecycle xe (\<lambda>_. ex_time 300) x_r3 x_consume = (x_r4, Inr (x_conf StateConsumed 3 300))"
  by (simp add: ConsumeLifecycle_def Let_def x_consume_def consume_digest_def replayed_lifecycle_def)
    (simp add: x_states x_held_def x_task_def wrap64_def Let_def put_lifecycle_replay_def put_confirmation_x_def x_reservation_def)

lemma x_step5: "SetTerminalTaskFence ''u'' 1 1 3 x_r4 = x_r5"
  by (simp add: SetTerminalTaskFence_def x_r5_def) (simp add: x_states x_ending_def)

lemma x_before_run: "ext_run xe xu x_before NewMemoryRepository_x = x_r5"
  by (simp add: x_before_def x_step1 x_step2 x_step3 x_step4 x_step5)

lemma x_fresh: "all_fresh xe xu x_before NewMemoryRepository_x"
  by (simp add: x_before_def ids_fresh_def) (simp add: NewMemoryRepository_x_def)

definition x_record :: LifecycleRecord where "x_record = lifecycleRecordFrom xe x_query x_result"

lemma x_fenced: "completion_fenced x_r5 x_completion = Inr (x_record, cloneInstallation x_new, x_reservation, x_ending)"
proof -
  have l: "lookup (rx_lifecycles x_r5) ''i'' = Some x_record" "lookup (rx_items x_r5) ''i'' = Some (cloneInstallation x_new)" "lookup (rx_confirmations x_r5) ''f'' = Some (x_conf StateConsumed 3 300)"
    "lookup (rx_reservations x_r5) ''f'' = Some x_reservation" "lookup (rx_tasks x_r5) ''u'' = Some x_ending"
    by (simp_all add: x_states x_record_def)
  have r: "lfr_Operation x_record = OperationInstall_x" "lfr_ConfirmationID x_record = ''f''" "lfr_TaskID x_record = ''u''" "lfr_ExpectedRevision x_record = 1"
    by (simp_all add: x_record_def lifecycleRecordFrom_def x_result_def)
  show ?thesis by (simp add: completion_fenced_def x_completion_def l r)
      (simp add: x_reservation_def x_ending_def x_held_def x_task_def OperationInstall_x_def OperationUpdate_x_def OperationUninstall_x_def)
qed

definition x_done :: Installation where
  "x_done = (completed_installation OperationInstall_x (cloneInstallation x_new))\<lparr>inst_Revision := 2, inst_UpdatedAt := ex_time 400\<rparr>"

lemma x_done_fields [simp]: "inst_ActiveVersionID x_done = ''v''" "inst_State x_done = StateInstalled" "inst_Revision x_done = 2"
  by (simp_all add: x_done_def completed_installation_def OperationInstall_x_def OperationUninstall_x_def)

lemma x_step6: "\<exists>r6. CompleteLifecycle xe xu (ex_time 400) None x_r5 x_completion = ([], r6, Inr (cloneInstallation x_done)) \<and> lookup (rx_items r6) ''i'' = Some x_done"
proof -
  have u: "cpl_Success x_completion" "cpl_InstallationID x_completion = ''i''" "cpl_Operation x_completion = OperationInstall_x" "failure_filled x_completion = Inr x_completion" "completion_ok xe x_completion"
    by (simp_all add: x_completion_def failure_filled_def completion_ok_def)
  have "lookup (rx_completionReplay x_r5) (completion_key x_completion) = None" by (simp add: x_states)
  moreover have "wrap64 2 = 2" by (simp add: wrap64_def)
  ultimately show ?thesis
    by (simp add: CompleteLifecycle_def u x_fenced proposal_removals_def completion_write_def Let_def x_done_def [symmetric])
qed

section \<open>The properties at work\<close>

lemma x_conf_open: "open_request x_r5 ''f'' (x_conf StateConsumed 3 300)"
  by (simp add: open_request_def) (simp add: x_states x_reservation_def)

theorem one_open_request_per_installation_witness:
  "{k. \<exists>c. open_request (ext_run xe xu x_before NewMemoryRepository_x) k c \<and> request_target c = (''extension'', ''i'')} = {''f''}"
proof -
  have t: "request_target (x_conf StateConsumed 3 300) = (''extension'', ''i'')" by (simp add: request_target_def x_binding_fields)
  have "''f'' = k" if "open_request x_r5 k c" "request_target c = (''extension'', ''i'')" for k c
    using one_open_request_per_installation [OF x_fresh, unfolded x_before_run, OF x_conf_open that(1)] that(2) t by (simp only: t)
  then show ?thesis using x_conf_open t unfolding x_before_run by blast
qed

lemma x_run_fresh: "all_fresh xe xu x_run NewMemoryRepository_x"
  using x_fresh by (simp add: x_run_def x_before_def)

theorem active_versions_were_confirmed_witness:
  "\<exists>v kc c clk cmd. the_version x_done ''v'' = Some v \<and> lookup (rx_confirmations (ext_run xe xu x_run NewMemoryRepository_x)) kc = Some c \<and> c_State c = StateConsumed
    \<and> version_bound (c_Binding c) ''i'' v \<and> XConfirm clk cmd \<in> set x_run \<and> cf_ConfirmationID cmd = kc \<and> Binding_Equal xe (c_Binding c) (cf_Binding cmd)"
proof -
  obtain r6 where r6: "CompleteLifecycle xe xu (ex_time 400) None x_r5 x_completion = ([], r6, Inr (cloneInstallation x_done))" "lookup (rx_items r6) ''i'' = Some x_done" using x_step6 by blast
  have "ext_run xe xu x_run NewMemoryRepository_x = r6" using x_before_run by (simp add: x_run_def x_before_def r6(1))
  then show ?thesis using active_versions_were_confirmed [OF x_run_fresh, of "''i''" x_done] r6(2) by simp
qed

theorem lifecycle_completes_once_witness:
  "\<exists>r6. CompleteLifecycle xe xu (ex_time 400) None x_r5 x_completion = ([], r6, Inr (cloneInstallation x_done)) \<and> r6 \<noteq> x_r5
    \<and> fst (snd (CompleteLifecycle xe xu (ex_time 500) None r6 (x_completion\<lparr>cpl_Success := False\<rparr>))) = r6"
proof -
  obtain r6 where r6: "CompleteLifecycle xe xu (ex_time 400) None x_r5 x_completion = ([], r6, Inr (cloneInstallation x_done))" "lookup (rx_items r6) ''i'' = Some x_done" using x_step6 by blast
  have "lookup (rx_items x_r5) ''i'' = Some (cloneInstallation x_new)" by (simp add: x_states)
  with r6(2) have "r6 \<noteq> x_r5" by (metis cloneInstallation_fields(9) option.inject x_done_fields(3) x_new_fields(2) numeral_eq_one_iff semiring_norm(85))
  moreover from lifecycle_completes_once [OF x_fresh x_before_run [symmetric] r6(1) this, of "[]" "x_completion\<lparr>cpl_Success := False\<rparr>" "ex_time 500" None]
  have "fst (snd (CompleteLifecycle xe xu (ex_time 500) None r6 (x_completion\<lparr>cpl_Success := False\<rparr>))) = r6" by simp
  ultimately show ?thesis using r6(1) by blast
qed

end
