(* ===== verification/Spec2Isabelle.thy ===== *)
theory Spec2Isabelle
  imports Task_Safety Task_Cron Task_Schedule Task_Queue Task_Normal Task_Order Task_Seal Confirm_Safety Confirm_Access Confirm_Binding Workload_Safety Ledger_Example Fence_Example Server_Example Extension_Example
begin

text \<open>
  A verification of the domain core of \<^verbatim>\<open>dirextalk-agent\<close>, the Go service that runs durable tasks, asks a person before it does
  anything that has consequences, applies workload plans through providers, and keeps a ledger of the operations its clients start.

  \<^bold>\<open>The program.\<close> Seven packages under \<^verbatim>\<open>src/internal\<close> carry the rules. \<^verbatim>\<open>coretask\<close> is the durable task: its
  specification, its state machine with leases and fences, its queue and its schedules. \<^verbatim>\<open>coreconfirmation\<close> keeps the
  confirmations of a person, each bound to exactly one action on one target. \<^verbatim>\<open>coreworkload\<close> requests operations on workloads:
  an operation comes with a task and a confirmation, is dispatched to a provider once its confirmation is consumed, and is
  completed by what the provider reads back. \<^verbatim>\<open>capability/operation\<close> is the ledger of the operations of the RPC surface: a row per operation,
  a journal of events, the handlers that run, and the watchers that follow the journal; \<^verbatim>\<open>capability/server\<close> is that surface, and decides who may
  start, read and control an operation. \<^verbatim>\<open>coredeprovision\<close> ends an account: its fence
  lets mutations in until a purge has drained them and sealed the account, and guards the ledger. \<^verbatim>\<open>coreextension\<close> installs tools: a version of an extension is proposed, confirmed by a person, taken by a task and
  completed. \<^verbatim>\<open>coreruntime/cron.go\<close> has a second calculator for the schedules of \<^verbatim>\<open>coretask\<close>.

  \<^bold>\<open>Conventions.\<close> \<open>Agent_Prelude\<close> holds what the packages share: results with the error on the left, strings as lists of bytes,
  times as an instant with a location, 64-bit integers as words or wrapped integers, tables as association lists in the
  order of insertion, and JSON values. Code that is not part of the repository (SHA-256, UUID parsing, JSON text, time
  zones) is the record \<open>ext\<close>, an argument \<open>X\<close> of the definitions that use it; a property that relies on a law of it has the law
  as a hypothesis, and \<open>Example_Data\<close> has an instance that satisfies it. Fresh identifiers and readings of the clock are arguments,
  one for each reading of the source. Mutexes make every method of a store one step; a store is passed through explicitly.

  \<^bold>\<open>Tasks.\<close>
  \<^item> \<open>Task_Types\<close>, \<open>Task_Normal\<close>: \<^verbatim>\<open>coretask/types.go\<close>, enumerations, payloads and specifications. Normalisation is a fixed point of
    itself, and the loop over references equals its description.
  \<^item> \<open>Task_Snapshot\<close>, \<open>Task_Seal\<close>: \<^verbatim>\<open>coretask/execution.go\<close>, snapshots, ledgers and their digests. A sealed snapshot validates, its digest does
    not depend on the text of a schema, and accepted file references stay in their directory, except for the bare parent path.
  \<^item> \<open>Task_Machine\<close>, \<open>Task_Lifecycle\<close>, \<open>Task_Safety\<close>: \<^verbatim>\<open>coretask/transition.go\<close>. The operations are one step relation; its runs keep a task
    valid, refine an abstract job, end at most once, use a revision once, number the progress without gaps and refuse every holder of a
    former lease. The interfaces are the locales of \<open>Task_Lifecycle\<close>, interpreted on the operations.
  \<^item> \<open>Task_Queue\<close>, \<open>Task_Schedule\<close>, \<open>Task_Order\<close>: \<^verbatim>\<open>coretask/scheduler.go\<close>, \<^verbatim>\<open>coretask/schedule.go\<close>. The queue is a stable sort, claiming
    takes the first task that is due, a trigger is idempotent, derived identifiers are well formed and secrets never reach a digest.
  \<^item> \<open>Task_Cron\<close>: both cron calculators. They agree, and the answer is the earliest match. The source scans minute by minute
    for a fixed number of minutes; \<open>cron_horizon\<close> is that number, so the recursion ends where the loop of the source ends.

  \<^bold>\<open>Confirmations.\<close>
  \<^item> \<open>Confirm_Types\<close>, \<open>Confirm_Binding\<close>: \<^verbatim>\<open>coreconfirmation/types.go\<close>, \<^verbatim>\<open>public.go\<close>. Normal forms of bindings, their comparison, and what the
    public projection hides.
  \<^item> \<open>Confirm_Memory\<close>, \<open>Confirm_List\<close>, \<open>Go_Base64\<close>: \<^verbatim>\<open>coreconfirmation/memory.go\<close>, with the page listing behind its encoded cursor.
    \<open>Confirm_Lifecycle\<close> and \<open>Confirm_Safety\<close>: the reachable repositories hold at most one live confirmation per target and refine a table of locks;
    a confirmation is consumed at most once; mutations are idempotent (locale \<open>idempotent_op\<close>); a failing operation only expires.
  \<^item> \<open>Confirm_Service\<close>, \<open>Confirm_Access\<close>: \<^verbatim>\<open>coreconfirmation/service.go\<close> over any repository (locale \<open>confirmation_store\<close>, interpreted on the
    repository in memory): foreign confirmations are neither seen nor changed, and listing returns every visible one. The
    loop over pages has as fuel one more than the number of confirmations, which suffices because every page moves the cursor.

  \<^bold>\<open>Workloads.\<close>
  \<^item> \<open>Workload_Types\<close>, \<open>Workload_Store\<close>: \<^verbatim>\<open>coreworkload/types.go\<close>, \<^verbatim>\<open>store.go\<close>. \<open>Workload_Lifecycle\<close> has the invariant, the shape of each step and
    the commands as data; \<open>Workload_Runs\<close> has what holds between a store and a later one.
  \<^item> \<open>Workload_Service\<close>, \<open>Workload_Handler\<close>: \<^verbatim>\<open>coreworkload/service.go\<close>, \<^verbatim>\<open>registry.go\<close>. The handler is a sequence of calls on the store with
    arbitrary steps of other callers between them; every action of it satisfies the locale \<open>store_action\<close>. The ticker that renews a
    lease while the provider works is a number of renewals before the provider returns.
  \<^item> \<open>Workload_Safety\<close>: an operation is dispatched at most once, whatever interleaves; outcomes are final and replayed exactly; a success
    has evidence; nothing a provider says leaks; events and plans are append-only; and an expired confirmation strands its operation.

  \<^bold>\<open>Capability operations.\<close>
  \<^item> \<open>Ledger_Types\<close>, \<open>Ledger_Redact\<close>: \<^verbatim>\<open>capability/operation/failure.go\<close> and the types of \<^verbatim>\<open>manager.go\<close>, the constraints of the two tables
    (\<^verbatim>\<open>migrations/agent_migrations.sql\<close>), the wire forms, and the redaction of JSON values.
  \<^item> \<open>Ledger_Store\<close>, \<open>Ledger_Manager\<close>, \<open>Ledger_Execute\<close>: \<^verbatim>\<open>manager.go\<close> over the PostgreSQL backend. A statement is a change of the tables that a constraint can refuse,
    and its reply is an argument: the database answers, fails before the statement, or fails after it has been applied. \<open>Execute_op\<close> has arbitrary steps of
    other callers between its statements; a handler is a function, the admission and execution guards are optional functions. A channel of a watcher is
    a list of at most \<open>watcher_capacity\<close> events, and how many of them the consumer has taken is an argument. The loop of \<^verbatim>\<open>publishEvent\<close> that makes room
    for a terminal event is \<open>evict\<close>, with \<open>None\<close> for a receive that waits for ever.
  \<^item> \<open>Ledger_Runs\<close>, \<open>Ledger_Calls\<close>: what holds between a ledger and a later one (locale \<open>ledger_relation\<close>, interpreted on the evolution of the tables) and that
    every call satisfies it (locale \<open>ledger_call\<close>, interpreted on each call); \<open>Ledger_Watch\<close> has the invariant of the watchers and what their
    consumers receive, \<open>Ledger_Secrets\<close> how long the secrets of a request are remembered: three more interpretations of \<open>ledger_relation\<close>. A statement is one step, so identifiers of
    events become visible in order; the deletions of the deprovision store are not calls of the ledger.
  \<^item> \<open>Ledger_Safety\<close>: an operation is admitted once per identifier, its row keeps its binding and moves forward only, a finished one is never executed, an execution
    records the answer of its handler, a restart leaves no operation running, the text of a request is not stored and the string values of results are redacted, watchers
    are told an event once and closed once; and where an outcome is lost or the mutex is held for ever.

  \<^bold>\<open>Account lifecycle.\<close>
  \<^item> \<open>Fence_Lifecycle\<close>: \<^verbatim>\<open>coredeprovision/lifecycle.go\<close>. Each critical section under the mutex is a definition; a goroutine is at a position of the code, and an inductive step
    relation interleaves any number of them. The channel that is closed and replaced by a signal is its number.
  \<^item> \<open>Fence_Safety\<close>: a purge is alone, no signal is lost, a waiting purge gets its lease, hooks run once. A sealed fence and a draining one are both closed gates (locale
    \<open>closing_gate\<close> of \<open>Closing_Gate\<close>, interpreted on both).
  \<^item> \<open>Fence_Service\<close>: \<^verbatim>\<open>coredeprovision/service.go\<close> and the guards of \<^verbatim>\<open>core_serve.go\<close>. Deprovisioning seals or reopens as it must, and with the guards in the ledger a sealed account
    admits and executes nothing but its own deprovisioning.

  \<^bold>\<open>Capability server.\<close>
  \<^item> \<open>Server_Types\<close>: the messages that \<^verbatim>\<open>capability/server\<close> reads and writes, and the functions of the protocol package, which is not part of the repository, as the record
    \<open>capv1\<close>, an argument \<open>C\<close> of the definitions that use it.
  \<^item> \<open>Server_Context\<close>: \<^verbatim>\<open>server.go\<close>, construction, authentication of the peer, call contexts, grants and scopes, the semaphores and the interceptors.
  \<^item> \<open>Server_Handlers\<close>: \<^verbatim>\<open>handlers.go\<close>, every call over the ledger. The replies of the database to each statement, the clock and the answer of the mutation guard are the
    record \<open>rpc_env\<close>. What a started operation runs in its own goroutine is a value, \<open>launch\<close>, which is the handler of an execution of the ledger.
  \<^item> \<open>Server_Jobs\<close>: the durable jobs of \<^verbatim>\<open>server.go\<close> as a step relation of goroutines, like the fence; a stopping server is a closed gate (locale \<open>closing_gate\<close>).
  \<^item> \<open>Server_Safety\<close>: nothing starts without a grant for exactly that request, only the owner controls an operation, a handler is launched once, shutdown waits for
    the jobs and records uncertain outcomes, watchers read the outcome that was recorded, redacted once more; and where a call panics.

  \<^bold>\<open>Extensions.\<close>
  \<^item> \<open>Extension_Types\<close>, \<open>Extension_Data\<close>, \<open>Extension_Requests\<close>: \<^verbatim>\<open>coreextension/types.go\<close>, the values with their validation, copies, public projection and JSON, and the requests, bindings and digests
    that \<^verbatim>\<open>repository_lifecycle.go\<close> and \<^verbatim>\<open>repository_catalog.go\<close> make of them. A slice is an optional list, because JSON and \<^verbatim>\<open>reflect.DeepEqual\<close> tell nil from empty. URLs, IP addresses and derived
    identifiers are the record \<open>xlib\<close>, an argument \<open>U\<close>.
  \<^item> \<open>Extension_Repository\<close>, \<open>Extension_Service\<close>: the repository in memory, and \<^verbatim>\<open>service.go\<close> over it with the source registry. Adapters, the artifact store and the secret store are functions in the record of the
    service; the calls on the artifact store are part of the result of a request.
  \<^item> \<open>Extension_Lifecycle\<close> has the methods as commands and what they can do as a step relation; on it \<open>Extension_Safety\<close> shows that an installation has one open request, \<open>Extension_Review\<close> that only what a
    person confirmed becomes active, and \<open>Extension_Outcome\<close> that stored installations are valid and a lifecycle operation takes effect once. \<open>Extension_Artifacts\<close>: an accepted request materialized the artifact that
    was reviewed, and a refused one leaves nothing (locale \<open>refusing_method\<close>, interpreted on the two methods that take a mutation).

  \<open>Confirm_Example\<close>, \<open>Workload_Example\<close>, \<open>Ledger_Example\<close>, \<open>Server_Example\<close>, \<open>Fence_Example\<close> and \<open>Extension_Example\<close> are the runs on which the witnesses evaluate.

  \<^bold>\<open>Not modelled.\<close> The PostgreSQL stores are SQL text whose meaning is the database's; the memory stores that state the same contracts are
  modelled instead. Model, knowledge, voice and search providers, the cloud worker and the runner of extensions are mostly HTTP, SSH and
  operating system calls. Of the capability server, certificates, listening and the transport of gRPC are not modelled, nor are the adapters from its requests to the
  domain packages. Generated code, process wiring and configuration have no rules of their own.
\<close>

end
